(* ===== verification/Prelude.thy ===== *)
theory Prelude
  imports Main "HOL-Library.Word"
begin

text \<open>
  Shared vocabulary of the development: the error values the program throws, the
  effect type of its asynchronous operations, and the generic lemmas on both.

  An operation of the program reads and writes some state and either returns or throws.
  It is a function from the state before to the outcome and the state after
  (\<open>io\<close> below): \<open>Inl e\<close> is a thrown error (a rejected promise), \<open>Inr a\<close> a returned
  value. The state threads through an error, as the effects that precede a
  \<^verbatim>\<open>throw\<close> in the source are not undone.
\<close>

declare Let_def [simp]

section \<open>Errors\<close>

text \<open>One issue of a rejected schema: the path, the code and the message.\<close>

record zod_issue =
  zi_path :: "string list"
  zi_code :: string
  zi_message :: string

text \<open>A rejection by the schema library: its issues and its message.\<close>

record zod_error =
  ze_issues :: "zod_issue list"
  ze_message :: string

text \<open>
  The classes the source throws or tests for with \<^verbatim>\<open>instanceof\<close>, the gRPC
  \<^verbatim>\<open>ServiceError\<close> with its status code, any other \<^verbatim>\<open>Error\<close> with its message, and a
  thrown value that is not an \<^verbatim>\<open>Error\<close> (with what \<^verbatim>\<open>String(v)\<close> makes of it).
\<close>

datatype js_error =
    ZodError zod_error
  | MissingActorError
  | MalformedActorError string
  | MalformedAuthorizationError string
  | InvalidAdminTokenError
  | SenderWalletNotConfiguredError
  | ServiceError nat string
  | PlainError string
  | RangeError string
  | NotAnError string

text \<open>
  \<^verbatim>\<open>err instanceof Error ? err.message : String(err)\<close>, with the message each class of the
  source is built with.
\<close>

definition errorMessage :: "js_error \<Rightarrow> string" where
  "errorMessage err =
     (case err of
        ZodError z \<Rightarrow> ze_message z
      | MissingActorError \<Rightarrow> ''missing X-Actor header''
      | MalformedActorError reason \<Rightarrow> ''malformed X-Actor header: '' @ reason
      | MalformedAuthorizationError reason \<Rightarrow> ''malformed Authorization header: '' @ reason
      | InvalidAdminTokenError \<Rightarrow> ''invalid admin token''
      | SenderWalletNotConfiguredError \<Rightarrow>
          ''sender wallet view is unavailable: SENDER_ADDRESS env is not '' @
          ''set on this gateway-console deployment. Set it to the hot wallet '' @
          ''the payment-daemon mounts; the console reads its balance from chain.''
      | ServiceError code m \<Rightarrow> m
      | PlainError m \<Rightarrow> m
      | RangeError m \<Rightarrow> m
      | NotAnError s \<Rightarrow> s)"

section \<open>Results and effects\<close>

type_synonym ('s, 'e, 'a) io = "'s \<Rightarrow> ('e + 'a) \<times> 's"

named_theorems io_simps \<open>unfolding of the effect operations\<close>

definition res_bind :: "'e + 'a \<Rightarrow> ('a \<Rightarrow> 'e + 'b) \<Rightarrow> 'e + 'b" where
  "res_bind r f = (case r of Inl e \<Rightarrow> Inl e | Inr a \<Rightarrow> f a)"

definition io_return :: "'a \<Rightarrow> ('s, 'e, 'a) io" where
  "io_return a = (\<lambda>s. (Inr a, s))"

definition io_throw :: "'e \<Rightarrow> ('s, 'e, 'a) io" where
  "io_throw e = (\<lambda>s. (Inl e, s))"

definition io_lift :: "'e + 'a \<Rightarrow> ('s, 'e, 'a) io" where
  "io_lift r = (\<lambda>s. (r, s))"

definition io_bind :: "('s, 'e, 'a) io \<Rightarrow> ('a \<Rightarrow> ('s, 'e, 'b) io) \<Rightarrow> ('s, 'e, 'b) io" where
  "io_bind m f = (\<lambda>s. case m s of (Inl e, s') \<Rightarrow> (Inl e, s') | (Inr a, s') \<Rightarrow> f a s')"

text \<open>\<^verbatim>\<open>try { m } catch (err) { h(err) }\<close>.\<close>

definition io_catch :: "('s, 'e, 'a) io \<Rightarrow> ('e \<Rightarrow> ('s, 'e, 'a) io) \<Rightarrow> ('s, 'e, 'a) io" where
  "io_catch m h = (\<lambda>s. case m s of (Inl e, s') \<Rightarrow> h e s' | (Inr a, s') \<Rightarrow> (Inr a, s'))"

text \<open>
  The outcome as a value: what a call leaves behind when its promise is only
  inspected later.
\<close>

definition io_attempt :: "('s, 'e, 'a) io \<Rightarrow> ('s, 'e, 'e + 'a) io" where
  "io_attempt m = (\<lambda>s. case m s of (r, s') \<Rightarrow> (Inr r, s'))"

text \<open>
  \<^verbatim>\<open>Promise.all\<close>: every call is made, whatever the earlier ones did; the first
  failure in list order is the failure of the whole, and otherwise the values come in
  list order. The calls run one after another here; the interleavings are the
  subject of the cache's own step relation.
\<close>

primrec io_all :: "('s, 'e, 'a) io list \<Rightarrow> ('s, 'e, 'a list) io" where
  "io_all [] = io_return []"
| "io_all (m # ms) =
     io_bind (io_attempt m) (\<lambda>r.
     io_bind (io_attempt (io_all ms)) (\<lambda>rs.
     io_lift (case r of Inl e \<Rightarrow> Inl e
              | Inr a \<Rightarrow> (case rs of Inl e \<Rightarrow> Inl e | Inr as \<Rightarrow> Inr (a # as)))))"

text \<open>The same for two calls of different types, \<^verbatim>\<open>Promise.all([m, n])\<close>.\<close>

definition io_both :: "('s, 'e, 'a) io \<Rightarrow> ('s, 'e, 'b) io \<Rightarrow> ('s, 'e, 'a \<times> 'b) io" where
  "io_both m n =
     io_bind (io_attempt m) (\<lambda>r.
     io_bind (io_attempt n) (\<lambda>q.
     io_lift (case r of Inl e \<Rightarrow> Inl e
              | Inr a \<Rightarrow> (case q of Inl e \<Rightarrow> Inl e | Inr b \<Rightarrow> Inr (a, b)))))"

lemma res_bind_simps [simp]:
  "res_bind (Inl e) f = Inl e"
  "res_bind (Inr a) f = f a"
  by (simp_all add: res_bind_def)

lemma res_bind_eq_Inr: "res_bind r f = Inr b \<longleftrightarrow> (\<exists>a. r = Inr a \<and> f a = Inr b)"
  by (cases r) auto

lemma io_return_apply [simp, io_simps]: "io_return a s = (Inr a, s)"
  by (simp add: io_return_def)

lemma io_throw_apply [simp, io_simps]: "io_throw e s = (Inl e, s)"
  by (simp add: io_throw_def)

lemma io_lift_apply [simp, io_simps]: "io_lift r s = (r, s)"
  by (simp add: io_lift_def)

lemma io_bind_apply [io_simps]:
  "io_bind m f s = (case m s of (Inl e, s') \<Rightarrow> (Inl e, s') | (Inr a, s') \<Rightarrow> f a s')"
  by (simp add: io_bind_def)

lemma io_catch_apply [io_simps]:
  "io_catch m h s = (case m s of (Inl e, s') \<Rightarrow> h e s' | (Inr a, s') \<Rightarrow> (Inr a, s'))"
  by (simp add: io_catch_def)

lemma io_attempt_apply [io_simps]: "io_attempt m s = (case m s of (r, s') \<Rightarrow> (Inr r, s'))"
  by (simp add: io_attempt_def)

text \<open>The three monad laws: sequencing is associative and returning is neutral.\<close>

lemma io_bind_return [simp]: "io_bind (io_return a) f = f a"
  by (simp add: io_bind_def io_return_def)

lemma io_return_bind [simp]: "io_bind m io_return = m"
proof
  fix s show "io_bind m io_return s = m s"
    by (cases "m s") (auto simp: io_bind_def split: sum.splits)
qed

lemma io_bind_assoc: "io_bind (io_bind m f) g = io_bind m (\<lambda>a. io_bind (f a) g)"
proof
  fix s show "io_bind (io_bind m f) g s = io_bind m (\<lambda>a. io_bind (f a) g) s"
    by (cases "m s") (auto simp: io_bind_def split: sum.splits)
qed

lemma io_bind_throw [simp]: "io_bind (io_throw e) f = io_throw e"
  by (simp add: io_bind_def io_throw_def)

section \<open>Frames\<close>

text \<open>
  \<open>keeps p m\<close>: running \<open>m\<close> leaves the observation \<open>p\<close> of the state as it was, on
  every outcome. Frame facts compose along the effect operations.
\<close>

definition keeps :: "('s \<Rightarrow> 'p) \<Rightarrow> ('s, 'e, 'a) io \<Rightarrow> bool" where
  "keeps p m \<longleftrightarrow> (\<forall>s. p (snd (m s)) = p s)"

named_theorems keeps_intros \<open>frame facts of the operations\<close>

lemma keepsI: "(\<And>s. p (snd (m s)) = p s) \<Longrightarrow> keeps p m"
  by (simp add: keeps_def)

lemma keepsD: "keeps p m \<Longrightarrow> m s = (r, s') \<Longrightarrow> p s' = p s"
  by (metis keeps_def snd_conv)

lemma keeps_return [keeps_intros]: "keeps p (io_return a)"
  by (simp add: keeps_def)

lemma keeps_throw [keeps_intros]: "keeps p (io_throw e)"
  by (simp add: keeps_def)

lemma keeps_lift [keeps_intros]: "keeps p (io_lift r)"
  by (simp add: keeps_def)

lemma keeps_bind [keeps_intros]:
  assumes "keeps p m" and "\<And>a. keeps p (f a)"
  shows "keeps p (io_bind m f)"
proof (rule keepsI)
  fix s
  obtain r s' where m: "m s = (r, s')" by fastforce
  with assms(1) have "p s' = p s" by (rule keepsD)
  with m assms(2) show "p (snd (io_bind m f s)) = p s"
    by (cases r) (auto simp: io_bind_def keeps_def)
qed

lemma keeps_catch [keeps_intros]:
  assumes "keeps p m" and "\<And>e. keeps p (h e)"
  shows "keeps p (io_catch m h)"
proof (rule keepsI)
  fix s
  obtain r s' where m: "m s = (r, s')" by fastforce
  with assms(1) have "p s' = p s" by (rule keepsD)
  with m assms(2) show "p (snd (io_catch m h s)) = p s"
    by (cases r) (auto simp: io_catch_def keeps_def)
qed

lemma keeps_attempt [keeps_intros]: "keeps p m \<Longrightarrow> keeps p (io_attempt m)"
  by (auto simp: keeps_def io_attempt_def split: prod.splits) (metis snd_conv)

lemma keeps_both [keeps_intros]: "keeps p m \<Longrightarrow> keeps p n \<Longrightarrow> keeps p (io_both m n)"
  unfolding io_both_def by (intro keeps_intros)

lemma keeps_all [keeps_intros]: "(\<And>m. m \<in> set ms \<Longrightarrow> keeps p m) \<Longrightarrow> keeps p (io_all ms)"
  by (induction ms) (auto intro!: keeps_intros)

lemma keeps_if [keeps_intros]: "keeps p m \<Longrightarrow> keeps p n \<Longrightarrow> keeps p (if b then m else n)"
  by simp

lemma keeps_case_option [keeps_intros]:
  "keeps p m \<Longrightarrow> (\<And>a. keeps p (f a)) \<Longrightarrow> keeps p (case x of None \<Rightarrow> m | Some a \<Rightarrow> f a)"
  by (cases x) auto

lemma keeps_case_sum [keeps_intros]:
  "(\<And>e. keeps p (f e)) \<Longrightarrow> (\<And>a. keeps p (g a)) \<Longrightarrow> keeps p (case x of Inl e \<Rightarrow> f e | Inr a \<Rightarrow> g a)"
  by (cases x) auto

lemma keeps_case_prod [keeps_intros]:
  "(\<And>a b. keeps p (f a b)) \<Longrightarrow> keeps p (case x of (a, b) \<Rightarrow> f a b)"
  by (cases x) auto

section \<open>Success\<close>

text \<open>What a run that succeeds tells about its parts.\<close>

lemma io_bind_Inr:
  "io_bind m f s = (Inr b, s2) \<longleftrightarrow> (\<exists>a s1. m s = (Inr a, s1) \<and> f a s1 = (Inr b, s2))"
  by (auto simp: io_bind_def split: prod.splits sum.splits)

lemma io_bind_Inl:
  "io_bind m f s = (Inl e, s2) \<longleftrightarrow>
    m s = (Inl e, s2) \<or> (\<exists>a s1. m s = (Inr a, s1) \<and> f a s1 = (Inl e, s2))"
  by (auto simp: io_bind_def split: prod.splits sum.splits)

lemma io_bind_step [simp]: "m s = (Inr a, s1) \<Longrightarrow> io_bind m f s = f a s1"
  by (simp add: io_bind_def)

lemma io_bind_fail [simp]: "m s = (Inl e, s1) \<Longrightarrow> io_bind m f s = (Inl e, s1)"
  by (simp add: io_bind_def)

lemma io_both_step:
  "m s = (Inr a, s1) \<Longrightarrow> io_both m n s =
    (case n s1 of (Inl e, s2) \<Rightarrow> (Inl e, s2) | (Inr b, s2) \<Rightarrow> (Inr (a, b), s2))"
  by (auto simp: io_both_def io_bind_def io_attempt_def split: prod.split sum.split)

lemma io_all_Inr_length: "io_all ms s = (Inr as, s') \<Longrightarrow> length as = length ms"
  by (induction ms arbitrary: s s' as)
    (auto simp: io_bind_def io_attempt_def split: prod.splits sum.splits)

section \<open>Invariants and outcomes\<close>

text \<open>
  \<open>ensures I R m\<close>: from a state that satisfies \<open>I\<close>, the run of \<open>m\<close> ends in one that
  satisfies it, with an outcome that satisfies \<open>R\<close>. \<open>ok_or b Q\<close> is the outcome predicate that
  asks \<open>Q\<close> of a returned value and allows an error exactly where \<open>b\<close> is true.
\<close>

definition ensures :: "('s \<Rightarrow> bool) \<Rightarrow> ('e + 'a \<Rightarrow> bool) \<Rightarrow> ('s, 'e, 'a) io \<Rightarrow> bool" where
  "ensures I R m \<longleftrightarrow> (\<forall>s. I s \<longrightarrow> I (snd (m s)) \<and> R (fst (m s)))"

fun ok_or :: "bool \<Rightarrow> ('a \<Rightarrow> bool) \<Rightarrow> 'e + 'a \<Rightarrow> bool" where
  "ok_or b Q (Inl e) = b"
| "ok_or b Q (Inr a) = Q a"

lemma ok_or_mono: "ok_or b Q r \<Longrightarrow> (\<And>a. Q a \<Longrightarrow> S a) \<Longrightarrow> ok_or b S r"
  by (cases r) auto

lemma ensuresI: "(\<And>s r s'. I s \<Longrightarrow> m s = (r, s') \<Longrightarrow> I s' \<and> R r) \<Longrightarrow> ensures I R m"
  by (simp add: ensures_def) (metis prod.collapse)

lemma ensuresD: "ensures I R m \<Longrightarrow> I s \<Longrightarrow> m s = (r, s') \<Longrightarrow> I s' \<and> R r"
  by (metis ensures_def fst_conv snd_conv)

lemma ensures_frame: "keeps q m \<Longrightarrow> (\<And>s. R (fst (m s))) \<Longrightarrow> ensures (\<lambda>s. p (q s)) R m"
  by (simp add: ensures_def keeps_def)

lemma ensures_return: "Q a \<Longrightarrow> ensures I (ok_or b Q) (io_return a)"
  by (simp add: ensures_def)

lemma ensures_bind:
  assumes "ensures I (ok_or b Q) m" and "\<And>a. Q a \<Longrightarrow> ensures I (ok_or b S) (f a)"
  shows "ensures I (ok_or b S) (io_bind m f)"
proof (rule ensuresI)
  fix s r s' assume I: "I s" and run: "io_bind m f s = (r, s')"
  obtain q s1 where m: "m s = (q, s1)" by fastforce
  with ensuresD [OF assms(1) I] have 1: "I s1" "ok_or b Q q" by simp_all
  show "I s' \<and> ok_or b S r"
  proof (cases q)
    case (Inl e)
    with run m have "r = Inl e" "s' = s1" by simp_all
    with 1 Inl show ?thesis by simp
  next
    case (Inr a)
    with run m have "f a s1 = (r, s')" by simp
    with ensuresD [OF assms(2)] 1 Inr show ?thesis by simp
  qed
qed

lemma ensures_catch:
  assumes "ensures I (ok_or True Q) m" and "\<And>e. ensures I (ok_or b Q) (h e)"
  shows "ensures I (ok_or b Q) (io_catch m h)"
proof (rule ensuresI)
  fix s r s' assume I: "I s" and run: "io_catch m h s = (r, s')"
  obtain q s1 where m: "m s = (q, s1)" by fastforce
  with ensuresD [OF assms(1) I] have 1: "I s1" "ok_or True Q q" by simp_all
  show "I s' \<and> ok_or b Q r"
  proof (cases q)
    case (Inl e)
    with run m have "h e s1 = (r, s')" by (simp add: io_catch_def)
    with ensuresD [OF assms(2)] 1 show ?thesis by simp
  next
    case (Inr a)
    with run m have "r = Inr a" "s' = s1" by (simp_all add: io_catch_def)
    with 1 Inr show ?thesis by simp
  qed
qed

lemma ensures_weaken: "ensures I (ok_or b Q) m \<Longrightarrow> (\<And>a. Q a \<Longrightarrow> S a) \<Longrightarrow> b \<longrightarrow> c \<Longrightarrow> ensures I (ok_or c S) m"
proof (rule ensuresI)
  fix s r s' assume m: "ensures I (ok_or b Q) m" and w: "\<And>a. Q a \<Longrightarrow> S a" "b \<longrightarrow> c"
    and I: "I s" and run: "m s = (r, s')"
  from ensuresD [OF m I run] w show "I s' \<and> ok_or c S r" by (cases r) auto
qed

lemma ensures_both:
  assumes m: "ensures I (ok_or b Q) m" and n: "ensures I (ok_or b S) n"
  shows "ensures I (ok_or b (\<lambda>(x, y). Q x \<and> S y)) (io_both m n)"
proof (rule ensuresI)
  fix s r s' assume I: "I s" and run: "io_both m n s = (r, s')"
  obtain q s1 where q: "m s = (q, s1)" by fastforce
  obtain p s2 where p: "n s1 = (p, s2)" by fastforce
  from ensuresD [OF m I q] have 1: "I s1" "ok_or b Q q" by simp_all
  from ensuresD [OF n 1(1) p] have 2: "I s2" "ok_or b S p" by simp_all
  from run q p have "s' = s2"
    and "r = (case q of Inl e \<Rightarrow> Inl e | Inr x \<Rightarrow> (case p of Inl e \<Rightarrow> Inl e | Inr y \<Rightarrow> Inr (x, y)))"
    by (auto simp: io_both_def io_bind_def io_attempt_def)
  with 1 2 show "I s' \<and> ok_or b (\<lambda>(x, y). Q x \<and> S y) r" by (cases q; cases p) auto
qed

lemma ensures_all:
  assumes "\<And>x. x \<in> set xs \<Longrightarrow> ensures I (ok_or b (Q x)) (f x)"
  shows "ensures I (ok_or b (list_all2 Q xs)) (io_all (map f xs))"
  using assms
proof (induction xs)
  case Nil
  then show ?case by (simp add: ensures_def)
next
  case (Cons x xs)
  have hd: "ensures I (ok_or b (Q x)) (f x)" and tl: "ensures I (ok_or b (list_all2 Q xs)) (io_all (map f xs))"
    using Cons by simp_all
  have "io_all (map f (x # xs)) = io_bind (io_both (f x) (io_all (map f xs))) (\<lambda>(a, as). io_return (a # as))"
    by (rule ext) (auto simp: io_both_def io_bind_def io_attempt_def split: prod.split sum.split)
  moreover have "ensures I (ok_or b (list_all2 Q (x # xs)))
      (io_bind (io_both (f x) (io_all (map f xs))) (\<lambda>(a, as). io_return (a # as)))"
    by (rule ensures_bind [OF ensures_both [OF hd tl]]) (auto intro: ensures_return)
  ultimately show ?case by simp
qed

section \<open>Lists and options\<close>

text \<open>A page cut off a list: all but its last element, the last element, and the rest.\<close>

lemma split_page:
  assumes "0 < n" and "xs \<noteq> []"
  shows "xs = butlast (take n xs) @ last (take n xs) # drop n xs"
proof -
  have "take n xs \<noteq> []" using assms by simp
  then have "butlast (take n xs) @ [last (take n xs)] = take n xs" by (rule append_butlast_last_id)
  then have "(butlast (take n xs) @ [last (take n xs)]) @ drop n xs = xs" by simp
  then show ?thesis by simp
qed

end
