(* ===== verification/JsText.thy ===== *)
theory JsText
  imports Prelude "HOL-Library.Char_ord" "HOL-Library.List_Lexorder"
begin

text \<open>
  The operations on text the program takes from the language's library: trimming,
  splitting at white space, lower case, prefixes, the last index of a character, the
  default sort order, decimal printing and the JSON form of a string.

  A string is a list of characters, one code unit each, of the first 256 code points;
  the header lines of an HTTP request, which the program parses, are decoded by the
  runtime as exactly these (latin1). An order on strings is the order on lists of code
  units, which is the order of \<^verbatim>\<open>Array.prototype.sort\<close> with no comparator.
\<close>

section \<open>White space, case, prefixes\<close>

text \<open>\<^verbatim>\<open>\s\<close> and the white space and line terminators of \<^verbatim>\<open>String.prototype.trim\<close>.\<close>

definition is_js_space :: "char \<Rightarrow> bool" where
  "is_js_space c \<longleftrightarrow> (of_char c :: nat) \<in> {9, 10, 11, 12, 13, 32, 160}"

definition js_trim_start :: "string \<Rightarrow> string" where
  "js_trim_start s = dropWhile is_js_space s"

definition js_trim :: "string \<Rightarrow> string" where
  "js_trim s = rev (dropWhile is_js_space (rev (js_trim_start s)))"

text \<open>\<^verbatim>\<open>s.split(/\s+/)\<close>: the pieces between the maximal runs of white space.\<close>

function split_ws :: "string \<Rightarrow> string list" where
  "split_ws s =
     (let w = takeWhile (\<lambda>c. \<not> is_js_space c) s;
          r = dropWhile (\<lambda>c. \<not> is_js_space c) s
      in if r = [] then [w] else w # split_ws (dropWhile is_js_space r))"
  by pat_completeness auto
termination
proof (relation "measure length")
  fix w r s
  assume "r = dropWhile (\<lambda>c. \<not> is_js_space c) s" and "r \<noteq> []"
  then have "is_js_space (hd r)" and "length r \<le> length s"
    by (metis hd_dropWhile) (simp add: length_dropWhile_le \<open>r = _\<close>)
  with \<open>r \<noteq> []\<close> have "length (dropWhile is_js_space r) < length r"
    by (cases r) (auto intro: le_imp_less_Suc length_dropWhile_le)
  with \<open>length r \<le> length s\<close> show "(dropWhile is_js_space r, s) \<in> measure length" by simp
qed simp

declare split_ws.simps [simp del]

definition js_lower_char :: "char \<Rightarrow> char" where
  "js_lower_char c =
     (let n = of_char c :: nat
      in if (65 \<le> n \<and> n \<le> 90) \<or> (192 \<le> n \<and> n \<le> 222 \<and> n \<noteq> 215) then char_of (n + 32) else c)"

definition js_lower :: "string \<Rightarrow> string" where
  "js_lower s = map js_lower_char s"

definition starts_with :: "string \<Rightarrow> string \<Rightarrow> bool" where
  "starts_with p s \<longleftrightarrow> take (length p) s = p"

text \<open>\<^verbatim>\<open>s.lastIndexOf(c)\<close> of one character, and -1 where it does not occur.\<close>

definition last_index_of :: "char \<Rightarrow> string \<Rightarrow> int" where
  "last_index_of c s =
     (if c \<in> set s then int (length s) - 1 - int (length (takeWhile (\<lambda>d. d \<noteq> c) (rev s))) else - 1)"

section \<open>Character classes of the source's patterns\<close>

definition is_digit_char :: "char \<Rightarrow> bool" where
  "is_digit_char c \<longleftrightarrow> 48 \<le> (of_char c :: nat) \<and> (of_char c :: nat) \<le> 57"

definition is_hex_char :: "char \<Rightarrow> bool" where
  "is_hex_char c \<longleftrightarrow>
     is_digit_char c
     \<or> (97 \<le> (of_char c :: nat) \<and> (of_char c :: nat) \<le> 102)
     \<or> (65 \<le> (of_char c :: nat) \<and> (of_char c :: nat) \<le> 70)"

definition is_lower_char :: "char \<Rightarrow> bool" where
  "is_lower_char c \<longleftrightarrow> 97 \<le> (of_char c :: nat) \<and> (of_char c :: nat) \<le> 122"

text \<open>The pattern \<^verbatim>\<open>/^0x[a-fA-F0-9]{40}$/\<close> every address of the program is checked with.\<close>

definition is_eth_address :: "string \<Rightarrow> bool" where
  "is_eth_address s \<longleftrightarrow>
     length s = 42 \<and> take 2 s = ''0x'' \<and> list_all is_hex_char (drop 2 s)"

section \<open>Sorting and removing duplicates\<close>

text \<open>
  \<^verbatim>\<open>[...new Set(values)]\<close> keeps the first occurrence of each value, in order; \<^verbatim>\<open>.sort()\<close>
  then orders the values by code units.
\<close>

fun set_order :: "'a list \<Rightarrow> 'a list" where
  "set_order [] = []"
| "set_order (x # xs) = x # filter (\<lambda>y. y \<noteq> x) (set_order xs)"

lemma set_set_order [simp]: "set (set_order xs) = set xs"
  by (induction xs) auto

lemma distinct_set_order [simp]: "distinct (set_order xs)"
  by (induction xs) auto

section \<open>Decimal printing\<close>

definition digit_char :: "nat \<Rightarrow> char" where
  "digit_char d = char_of (48 + d)"

fun show_nat :: "nat \<Rightarrow> string" where
  "show_nat n = (if n < 10 then [digit_char n] else show_nat (n div 10) @ [digit_char (n mod 10)])"

declare show_nat.simps [simp del]

definition show_int :: "int \<Rightarrow> string" where
  "show_int i = (if i < 0 then CHR ''-'' # show_nat (nat (- i)) else show_nat (nat i))"

text \<open>Reading decimal digits, the inverse direction.\<close>

definition digit_val :: "char \<Rightarrow> nat" where
  "digit_val c = of_char c - 48"

definition dec_val :: "string \<Rightarrow> nat" where
  "dec_val s = foldl (\<lambda>a c. 10 * a + digit_val c) 0 s"

lemma digit_chars:
  "digit_char 0 = CHR ''0''" "digit_char 1 = CHR ''1''" "digit_char 2 = CHR ''2''" "digit_char 3 = CHR ''3''"
  "digit_char 4 = CHR ''4''" "digit_char 5 = CHR ''5''" "digit_char 6 = CHR ''6''" "digit_char 7 = CHR ''7''"
  "digit_char 8 = CHR ''8''" "digit_char 9 = CHR ''9''"
  by (simp_all add: digit_char_def char_of_def bit_Suc_0_iff)

lemma digit_char_val: "d < 10 \<Longrightarrow> digit_val (digit_char d) = d"
  by (simp add: digit_val_def digit_char_def)

lemma digit_char_digit: "d < 10 \<Longrightarrow> is_digit_char (digit_char d)"
  by (simp add: is_digit_char_def digit_char_def)

lemma dec_val_snoc: "dec_val (s @ [c]) = 10 * dec_val s + digit_val c"
  by (simp add: dec_val_def)

lemma dec_val_show_nat [simp]: "dec_val (show_nat n) = n"
proof (induction n rule: show_nat.induct)
  case (1 n)
  show ?case
  proof (cases "n < 10")
    case True
    then show ?thesis
      by (subst show_nat.simps) (simp add: dec_val_def digit_char_val)
  next
    case False
    with 1 show ?thesis
      by (subst show_nat.simps) (simp add: dec_val_snoc digit_char_val)
  qed
qed

lemma show_nat_digits: "list_all is_digit_char (show_nat n)"
proof (induction n rule: show_nat.induct)
  case (1 n)
  then show ?case
    by (subst show_nat.simps) (auto simp: digit_char_digit)
qed

lemma show_nat_nonempty [simp]: "show_nat n \<noteq> []"
  by (subst show_nat.simps) simp

lemma show_nat_inj: "show_nat m = show_nat n \<Longrightarrow> m = n"
  by (metis dec_val_show_nat)

lemma digit_not_minus: "is_digit_char c \<Longrightarrow> c \<noteq> CHR ''-''"
  by (auto simp: is_digit_char_def)

lemma show_int_inj: "show_int i = show_int j \<Longrightarrow> i = j"
proof -
  have hd_digit: "is_digit_char (hd (show_nat n))" for n
    using show_nat_digits [of n] show_nat_nonempty [of n] by (cases "show_nat n") auto
  have no_minus: "show_nat n \<noteq> CHR ''-'' # t" for n t
    using hd_digit [of n] digit_not_minus by (metis list.sel(1))
  assume eq: "show_int i = show_int j"
  have neg: "(i < 0) = (j < 0)"
    using eq no_minus by (auto simp: show_int_def split: if_splits) (metis+)
  show "i = j"
  proof (cases "i < 0")
    case True
    with neg eq have "show_nat (nat (- i)) = show_nat (nat (- j))" by (simp add: show_int_def)
    then have "nat (- i) = nat (- j)" by (rule show_nat_inj)
    with True neg show ?thesis by simp
  next
    case False
    with neg eq have "show_nat (nat i) = show_nat (nat j)" by (simp add: show_int_def)
    then have "nat i = nat j" by (rule show_nat_inj)
    with False neg show ?thesis by simp
  qed
qed


section \<open>Trimming and splitting\<close>

lemma js_trim_decompose:
  obtains pre post where "s = pre @ js_trim s @ post"
    and "list_all is_js_space pre" and "list_all is_js_space post"
proof
  let ?t = "js_trim_start s"
  have "?t = js_trim s @ rev (takeWhile is_js_space (rev ?t))"
    unfolding js_trim_def by (metis rev_append rev_rev_ident takeWhile_dropWhile_id)
  then show "s = takeWhile is_js_space s @ js_trim s @ rev (takeWhile is_js_space (rev ?t))"
    by (metis js_trim_start_def takeWhile_dropWhile_id)
  show "list_all is_js_space (takeWhile is_js_space s)"
    by (auto simp: list_all_iff dest: set_takeWhileD)
  show "list_all is_js_space (rev (takeWhile is_js_space (rev ?t)))"
    by (auto simp: list_all_iff dest: set_takeWhileD)
qed

lemma dropWhile_all_append:
  "list_all P xs \<Longrightarrow> dropWhile P (xs @ ys) = dropWhile P ys"
  by (induction xs) auto

text \<open>Trimming a text whose core starts and ends with a visible character gives the core.\<close>

lemma js_trim_core:
  assumes "list_all is_js_space pre" and "list_all is_js_space post"
    and "core \<noteq> []" and "\<not> is_js_space (hd core)" and "\<not> is_js_space (last core)"
  shows "js_trim (pre @ core @ post) = core"
proof -
  have start: "js_trim_start (pre @ core @ post) = core @ post"
    using assms(1,3,4) by (cases core) (auto simp: js_trim_start_def dropWhile_all_append)
  have "dropWhile is_js_space (rev (core @ post)) = dropWhile is_js_space (rev core)"
    using assms(2) by (simp add: dropWhile_all_append list_all_iff)
  also have "\<dots> = rev core"
    using assms(3,5) by (cases core rule: rev_cases) auto
  finally show ?thesis by (simp add: js_trim_def start)
qed

lemma split_ws_word:
  assumes "list_all (\<lambda>c. \<not> is_js_space c) w"
  shows "split_ws w = [w]"
proof -
  have "dropWhile (\<lambda>c. \<not> is_js_space c) w = []" "takeWhile (\<lambda>c. \<not> is_js_space c) w = w"
    using assms by (auto simp: list_all_iff takeWhile_eq_all_conv)
  then show ?thesis by (simp add: split_ws.simps [of w])
qed

lemma split_ws_sep:
  assumes "list_all (\<lambda>c. \<not> is_js_space c) w" and "is_js_space c"
  shows "split_ws (w @ c # r) = w # split_ws (dropWhile is_js_space r)"
proof -
  have "dropWhile (\<lambda>c. \<not> is_js_space c) (w @ c # r) = c # r"
    using assms by (simp add: dropWhile_all_append)
  moreover have "takeWhile (\<lambda>c. \<not> is_js_space c) (w @ c # r) = w"
    using assms by (simp add: list_all_iff takeWhile_tail)
  ultimately show ?thesis
    using assms(2) by (simp add: split_ws.simps [of "w @ c # r"])
qed

lemma split_ws_nonempty [simp]: "split_ws s \<noteq> []"
  by (subst split_ws.simps) (simp add: Let_def)

text \<open>Reading the pieces back: the first piece, then a separator and the rest.\<close>

lemma split_ws_cases:
  obtains (word) "list_all (\<lambda>c. \<not> is_js_space c) s" "split_ws s = [s]"
  | (sep) w c r where "s = w @ c # r" "list_all (\<lambda>c. \<not> is_js_space c) w" "is_js_space c"
      "split_ws s = w # split_ws (dropWhile is_js_space r)"
proof (cases "dropWhile (\<lambda>c. \<not> is_js_space c) s")
  case Nil
  then have "list_all (\<lambda>c. \<not> is_js_space c) s" by (simp add: list_all_iff)
  then show ?thesis using word split_ws_word by blast
next
  case (Cons c r)
  let ?w = "takeWhile (\<lambda>c. \<not> is_js_space c) s"
  have "s = ?w @ c # r" using Cons by (metis takeWhile_dropWhile_id)
  moreover have "list_all (\<lambda>c. \<not> is_js_space c) ?w"
    by (auto simp: list_all_iff dest: set_takeWhileD)
  moreover have "is_js_space c"
    using Cons by (metis hd_dropWhile list.sel(1) list.simps(3))
  ultimately show ?thesis using sep split_ws_sep by metis
qed

lemma split_ws_two_iff:
  assumes "b \<noteq> []"
  shows "split_ws s = [a, b] \<longleftrightarrow>
    (\<exists>ws. s = a @ ws @ b \<and> ws \<noteq> [] \<and> list_all is_js_space ws
       \<and> list_all (\<lambda>c. \<not> is_js_space c) a \<and> list_all (\<lambda>c. \<not> is_js_space c) b)"
    (is "?L \<longleftrightarrow> ?R")
proof
  assume ?L
  then show ?R
  proof (cases s rule: split_ws_cases)
    case word
    with \<open>?L\<close> show ?thesis by simp
  next
    case (sep w c r)
    let ?d = "dropWhile is_js_space r"
    from sep \<open>?L\<close> have a: "a = w" and "split_ws ?d = [b]" by auto
    from this(2) have d: "?d = b \<and> list_all (\<lambda>c. \<not> is_js_space c) b"
    proof (cases ?d rule: split_ws_cases)
      case word
      with \<open>split_ws ?d = [b]\<close> show ?thesis by (metis list.inject)
    next
      case (sep w c r)
      with \<open>split_ws ?d = [b]\<close> show ?thesis by (metis list.inject split_ws_nonempty)
    qed
    have "r = takeWhile is_js_space r @ b" using d by (metis takeWhile_dropWhile_id)
    then have "s = a @ (c # takeWhile is_js_space r) @ b" using sep(1) a by simp
    moreover have "list_all is_js_space (c # takeWhile is_js_space r)"
      using sep(3) by (auto simp: list_all_iff dest: set_takeWhileD)
    ultimately show ?thesis using a sep(2) d by blast
  qed
next
  assume ?R
  then obtain ws where s: "s = a @ ws @ b" and ws: "ws \<noteq> []" "list_all is_js_space ws"
    and ab: "list_all (\<lambda>c. \<not> is_js_space c) a" "list_all (\<lambda>c. \<not> is_js_space c) b" by blast
  from ws obtain c ws' where c: "ws = c # ws'" "is_js_space c" "list_all is_js_space ws'"
    by (cases ws) auto
  have "dropWhile is_js_space (ws' @ b) = b"
    using c(3) assms ab(2) by (cases b) (auto simp: dropWhile_all_append)
  then show ?L
    using s c ab by (simp add: split_ws_sep split_ws_word)
qed

section \<open>Lower case\<close>

lemma js_lower_length [simp]: "length (js_lower s) = length s"
  by (simp add: js_lower_def)

lemma js_lower_append [simp]: "js_lower (s @ t) = js_lower s @ js_lower t"
  by (simp add: js_lower_def)

lemma js_lower_char_idem [simp]: "js_lower_char (js_lower_char c) = js_lower_char c"
proof -
  have "(of_char c :: nat) < 256" by simp
  then show ?thesis by (auto simp: js_lower_char_def Let_def)
qed

lemma js_lower_idem [simp]: "js_lower (js_lower s) = js_lower s"
  by (simp add: js_lower_def)

lemma js_lower_char_hex: "is_hex_char c \<Longrightarrow> is_hex_char (js_lower_char c)"
  by (auto simp: is_hex_char_def is_digit_char_def js_lower_char_def Let_def)

text \<open>The lower-case form of an address is an address.\<close>

lemma is_eth_address_lower:
  assumes "is_eth_address s"
  shows "is_eth_address (js_lower s)"
proof -
  have "take 2 (js_lower s) = js_lower (take 2 s)" by (simp add: js_lower_def take_map)
  also have "\<dots> = ''0x''"
    using assms by (simp add: is_eth_address_def js_lower_def js_lower_char_def)
  finally have "take 2 (js_lower s) = ''0x''" .
  moreover have "list_all is_hex_char (drop 2 (js_lower s))"
    using assms
    by (auto simp: is_eth_address_def js_lower_def drop_map list_all_iff js_lower_char_hex)
  ultimately show ?thesis using assms by (simp add: is_eth_address_def)
qed

lemma space_lower: "is_js_space c \<Longrightarrow> js_lower_char c = c"
  by (auto simp: is_js_space_def js_lower_char_def Let_def)

text \<open>A text that is a word in lower case is a word.\<close>

lemma lower_word: "list_all (\<lambda>c. \<not> is_js_space c) (js_lower s) \<Longrightarrow> list_all (\<lambda>c. \<not> is_js_space c) s"
  by (auto simp: js_lower_def list_all_iff) (metis space_lower)

section \<open>Bytes of a text\<close>

type_synonym byte = "8 word"

text \<open>\<^verbatim>\<open>Buffer.from(s, "utf8")\<close> on the first 256 code points.\<close>

definition utf8_char :: "char \<Rightarrow> byte list" where
  "utf8_char c =
     (let n = of_char c :: nat
      in if n < 128 then [of_nat n] else [of_nat (192 + n div 64), of_nat (128 + n mod 64)])"

definition utf8_bytes :: "string \<Rightarrow> byte list" where
  "utf8_bytes s = concat (map utf8_char s)"

lemma unat_byte: "n < 256 \<Longrightarrow> unat (of_nat n :: byte) = n"
  by (simp add: unat_of_nat take_bit_nat_eq_self)

lemma byte_inj:
  assumes "(of_nat m :: byte) = of_nat n" and "m < 256" and "n < 256"
  shows "m = n"
  using assms unat_byte by metis

lemma utf8_char_cases:
  obtains (one) "(of_char c :: nat) < 128" "utf8_char c = [of_nat (of_char c)]"
  | (two) "128 \<le> (of_char c :: nat)"
      "utf8_char c = [of_nat (192 + of_char c div 64), of_nat (128 + of_char c mod 64)]"
  by (cases "(of_char c :: nat) < 128") (auto simp: utf8_char_def Let_def)

lemma utf8_char_prefix:
  assumes eq: "utf8_char c @ x = utf8_char d @ y"
  shows "c = d \<and> x = y"
proof -
  have lt: "(of_char c :: nat) < 256" "(of_char d :: nat) < 256" by simp_all
  have same: "c = d" if "(of_char c :: nat) = of_char d"
    using that by (metis of_char_eq_iff)
  have div4: "(of_char e :: nat) div 64 < 4" for e :: char
    by (simp add: less_mult_imp_div_less)
  have mod64: "(of_char e :: nat) mod 64 < 64" for e :: char
    by simp
  show ?thesis
  proof (cases c rule: utf8_char_cases)
    case one
    note c = this
    show ?thesis
    proof (cases d rule: utf8_char_cases)
      case one
      with c eq have e: "(of_nat (of_char c) :: byte) = of_nat (of_char d)" and "x = y" by auto
      then show ?thesis using byte_inj [OF e] same by simp
    next
      case two
      with c eq have e: "(of_nat (of_char c) :: byte) = of_nat (192 + of_char d div 64)" by simp
      have "(of_char c :: nat) = 192 + of_char d div 64"
        by (rule byte_inj [OF e]) (use div4 [of d] in simp_all)
      with c(1) show ?thesis by simp
    qed
  next
    case two
    note c = this
    show ?thesis
    proof (cases d rule: utf8_char_cases)
      case one
      with c eq have e: "(of_nat (of_char d) :: byte) = of_nat (192 + of_char c div 64)" by simp
      have "(of_char d :: nat) = 192 + of_char c div 64"
        by (rule byte_inj [OF e]) (use div4 [of c] in simp_all)
      with one(1) show ?thesis by simp
    next
      case two
      with c eq have e1: "(of_nat (192 + of_char c div 64) :: byte) = of_nat (192 + of_char d div 64)"
        and e2: "(of_nat (128 + of_char c mod 64) :: byte) = of_nat (128 + of_char d mod 64)"
        and xy: "x = y" by auto
      have "192 + of_char c div 64 = 192 + (of_char d div 64 :: nat)"
        by (rule byte_inj [OF e1]) (use div4 [of c] div4 [of d] in simp_all)
      moreover have "128 + of_char c mod 64 = 128 + (of_char d mod 64 :: nat)"
        by (rule byte_inj [OF e2]) (use mod64 [of c] mod64 [of d] in linarith)+
      ultimately have "(of_char c :: nat) = of_char d"
        by (metis add_left_cancel div_mult_mod_eq)
      with same xy show ?thesis by blast
    qed
  qed
qed

lemma utf8_char_nonempty [simp]: "utf8_char c \<noteq> []"
  by (simp add: utf8_char_def Let_def)

lemma utf8_bytes_inj: "utf8_bytes s = utf8_bytes t \<Longrightarrow> s = t"
proof (induction s arbitrary: t)
  case Nil
  then show ?case by (cases t) (auto simp: utf8_bytes_def)
next
  case (Cons c s)
  then obtain d t' where t: "t = d # t'" by (cases t) (auto simp: utf8_bytes_def)
  with Cons.prems have "utf8_char c @ utf8_bytes s = utf8_char d @ utf8_bytes t'"
    by (simp add: utf8_bytes_def)
  then have "c = d" and "utf8_bytes s = utf8_bytes t'" by (auto dest: utf8_char_prefix)
  with Cons.IH t show ?case by simp
qed

section \<open>The JSON form of a string\<close>

definition hex_digit :: "nat \<Rightarrow> char" where
  "hex_digit d = (if d < 10 then char_of (48 + d) else char_of (87 + d))"

text \<open>What \<^verbatim>\<open>JSON.stringify\<close> writes for one code unit inside a string.\<close>

definition json_esc :: "char \<Rightarrow> string" where
  "json_esc c =
     (let n = of_char c :: nat
      in if n = 8 then [CHR 0x5C, CHR ''b'']
         else if n = 9 then [CHR 0x5C, CHR ''t'']
         else if n = 10 then [CHR 0x5C, CHR ''n'']
         else if n = 12 then [CHR 0x5C, CHR ''f'']
         else if n = 13 then [CHR 0x5C, CHR ''r'']
         else if n = 34 then [CHR 0x5C, CHR 0x22]
         else if n = 92 then [CHR 0x5C, CHR 0x5C]
         else if n < 32 then [CHR 0x5C, CHR ''u'', CHR ''0'', CHR ''0'', hex_digit (n div 16), hex_digit (n mod 16)]
         else [c])"

definition json_string :: "string \<Rightarrow> string" where
  "json_string s = CHR 0x22 # concat (map json_esc s) @ [CHR 0x22]"

text \<open>
  A reader of one code unit of a JSON string, used to show that the escaping loses
  nothing.
\<close>

definition hex_val :: "char \<Rightarrow> nat" where
  "hex_val c = (if is_digit_char c then of_char c - 48 else of_char c - 87)"

definition json_read :: "string \<Rightarrow> (char \<times> string) option" where
  "json_read s = (case s of [] \<Rightarrow> None | c # r \<Rightarrow>
     if c \<noteq> CHR 0x5C then Some (c, r)
     else case r of [] \<Rightarrow> None | e # r' \<Rightarrow>
       if e = CHR ''b'' then Some (char_of (8 :: nat), r')
       else if e = CHR ''t'' then Some (char_of (9 :: nat), r')
       else if e = CHR ''n'' then Some (char_of (10 :: nat), r')
       else if e = CHR ''f'' then Some (char_of (12 :: nat), r')
       else if e = CHR ''r'' then Some (char_of (13 :: nat), r')
       else if e = CHR ''u''
       then (case r' of z # y # h # l # x \<Rightarrow> Some (char_of (16 * hex_val h + hex_val l), x) | _ \<Rightarrow> None)
       else Some (e, r'))"

lemma hex_val_digit: "d < 16 \<Longrightarrow> hex_val (hex_digit d) = d"
  by (auto simp: hex_val_def hex_digit_def is_digit_char_def)

lemma char_of_of_char_nat: "(of_char c :: nat) = n \<Longrightarrow> c = char_of n"
  by (metis char_of_char)

lemma char_of_special: "char_of (34 :: nat) = CHR 0x22" "char_of (92 :: nat) = CHR 0x5C"
  by (rule char_of_of_char_nat [symmetric], simp)+

lemma json_read_esc: "json_read (json_esc c @ x) = Some (c, x)"
proof -
  let ?n = "of_char c :: nat"
  consider (named) "?n \<in> {8, 9, 10, 12, 13, 34, 92}"
    | (ctrl) "?n < 32" "?n \<notin> {8, 9, 10, 12, 13}"
    | (plain) "32 \<le> ?n" "?n \<notin> {34, 92}" by fastforce
  then show ?thesis
  proof cases
    case named
    then show ?thesis
      by (auto simp: json_esc_def json_read_def char_of_special dest!: char_of_of_char_nat)
  next
    case ctrl
    have "16 * hex_val (hex_digit (?n div 16)) + hex_val (hex_digit (?n mod 16)) = ?n"
      using ctrl(1) by (simp add: hex_val_digit)
    with ctrl show ?thesis by (simp add: json_esc_def json_read_def Let_def)
  next
    case plain
    then have "c \<noteq> CHR 0x5C" by auto
    with plain show ?thesis by (auto simp: json_esc_def json_read_def)
  qed
qed

lemma json_esc_prefix: "json_esc c @ x = json_esc d @ y \<Longrightarrow> c = d \<and> x = y"
  by (metis json_read_esc option.inject prod.inject)

lemma json_esc_not_quote: "json_esc c @ x \<noteq> CHR 0x22 # y"
proof
  assume eq: "json_esc c @ x = CHR 0x22 # y"
  then have "json_read (CHR 0x22 # y) = Some (c, x)" by (metis json_read_esc)
  then have "c = CHR 0x22" by (simp add: json_read_def)
  with eq show False by (simp add: json_esc_def)
qed

lemma json_body_prefix:
  "concat (map json_esc s) @ CHR 0x22 # x = concat (map json_esc t) @ CHR 0x22 # y
   \<Longrightarrow> s = t \<and> x = y"
proof (induction s arbitrary: t)
  case Nil
  then show ?case
    by (cases t) (use json_esc_not_quote in \<open>auto dest: sym\<close>)
next
  case (Cons c s)
  then obtain d t' where t: "t = d # t'"
    by (cases t) (use json_esc_not_quote in auto)
  with Cons.prems have "json_esc c @ (concat (map json_esc s) @ CHR 0x22 # x)
      = json_esc d @ (concat (map json_esc t') @ CHR 0x22 # y)" by simp
  then have "c = d" and "concat (map json_esc s) @ CHR 0x22 # x = concat (map json_esc t') @ CHR 0x22 # y"
    using json_esc_prefix by blast+
  with Cons.IH t show ?case by blast
qed

lemma json_string_prefix: "json_string s @ x = json_string t @ y \<Longrightarrow> s = t \<and> x = y"
  by (rule json_body_prefix) (simp add: json_string_def)

end
