(* ===== verification/JsNumber.thy ===== *)
theory JsNumber
  imports JsText "HOL-Library.Log_Nat"
begin

text \<open>
  Numbers as the program reads them from text with \<^verbatim>\<open>Number(s)\<close>: the numeric literals the
  language accepts, and the rounding of their exact value to a double.

  A finite number is \<open>Fin m e\<close>, the value \<open>m * 2 ^ e\<close>; the two zeros are not told apart.
\<close>

section \<open>Numbers\<close>

datatype jsnum = NaN | Infty bool | Fin int int

text \<open>
  Rounding \<open>n / d\<close>, for \<open>0 \<le> n\<close> and \<open>0 < d\<close>, to the nearest double, ties to even: the exponent
  that leaves 53 bits of quotient, never below the least one, then the rounded quotient.
\<close>

definition round_half_even :: "nat \<Rightarrow> nat \<Rightarrow> nat" where
  "round_half_even a b =
     (let q = a div b; r = a mod b
      in if b < 2 * r \<or> (2 * r = b \<and> odd q) then q + 1 else q)"

definition pow2_scale :: "nat \<Rightarrow> nat \<Rightarrow> int \<Rightarrow> nat \<times> nat" where
  "pow2_scale n d e = (n * 2 ^ nat (- e), d * 2 ^ nat e)"

definition double_exponent :: "nat \<Rightarrow> nat \<Rightarrow> int" where
  "double_exponent n d =
     (let e0 = int (floorlog 2 n) - int (floorlog 2 d) - 53;
          (a, b) = pow2_scale n d e0
      in max (- 1074) (if 2 ^ 53 * b \<le> a then e0 + 1 else e0))"

definition round_double :: "nat \<Rightarrow> nat \<Rightarrow> jsnum" where
  "round_double n d =
     (if n = 0 then Fin 0 0
      else let e = double_exponent n d;
               (a, b) = pow2_scale n d e;
               m = round_half_even a b
           in if 0 \<le> e \<and> 2 ^ 1024 \<le> m * 2 ^ nat e then Infty False else Fin (int m) e)"

fun js_negate :: "jsnum \<Rightarrow> jsnum" where
  "js_negate NaN = NaN"
| "js_negate (Infty b) = Infty (\<not> b)"
| "js_negate (Fin m e) = Fin (- m) e"

text \<open>\<^verbatim>\<open>Number.isInteger(x)\<close> together with the integer: the value where \<open>x\<close> is one.\<close>

fun js_integer :: "jsnum \<Rightarrow> int option" where
  "js_integer (Fin m e) =
     (if 0 \<le> e then Some (m * 2 ^ nat e)
      else if m mod 2 ^ nat (- e) = 0 then Some (m div 2 ^ nat (- e)) else None)"
| "js_integer _ = None"

section \<open>Numeric literals\<close>

definition is_bin_char :: "char \<Rightarrow> bool" where
  "is_bin_char c \<longleftrightarrow> c = CHR ''0'' \<or> c = CHR ''1''"

definition is_oct_char :: "char \<Rightarrow> bool" where
  "is_oct_char c \<longleftrightarrow> 48 \<le> (of_char c :: nat) \<and> (of_char c :: nat) \<le> 55"

definition hex_digit_val :: "char \<Rightarrow> nat" where
  "hex_digit_val c =
     (let n = of_char c :: nat in if n \<le> 57 then n - 48 else if n \<le> 70 then n - 55 else n - 87)"

definition radix_val :: "nat \<Rightarrow> string \<Rightarrow> nat" where
  "radix_val b s = foldl (\<lambda>a c. b * a + hex_digit_val c) 0 s"

text \<open>The value \<open>w * 10 ^ k\<close> as a double.\<close>

definition decimal_double :: "nat \<Rightarrow> int \<Rightarrow> jsnum" where
  "decimal_double w k =
     (if 0 \<le> k then round_double (w * 10 ^ nat k) 1 else round_double w (10 ^ nat (- k)))"

text \<open>An exponent part: nothing, or \<^verbatim>\<open>e\<close> or \<^verbatim>\<open>E\<close>, an optional sign and digits to the end.\<close>

definition exponent_part :: "string \<Rightarrow> int option" where
  "exponent_part s = (case s of [] \<Rightarrow> Some 0 | c # r \<Rightarrow>
     if c \<noteq> CHR ''e'' \<and> c \<noteq> CHR ''E'' then None
     else let neg = (r \<noteq> [] \<and> hd r = CHR ''-'');
              ds = (if r \<noteq> [] \<and> (hd r = CHR ''-'' \<or> hd r = CHR ''+'') then tl r else r)
          in if ds \<noteq> [] \<and> list_all is_digit_char ds
             then Some (if neg then - int (dec_val ds) else int (dec_val ds)) else None)"

text \<open>An unsigned decimal literal: digits, an optional point with digits, an exponent part.\<close>

definition unsigned_decimal :: "string \<Rightarrow> jsnum" where
  "unsigned_decimal s =
     (if s = ''Infinity'' then Infty False
      else let ip = takeWhile is_digit_char s; r = dropWhile is_digit_char s;
               dot = (r \<noteq> [] \<and> hd r = CHR ''.'');
               fp = (if dot then takeWhile is_digit_char (tl r) else []);
               r' = (if dot then dropWhile is_digit_char (tl r) else r)
           in if ip = [] \<and> fp = [] then NaN
              else case exponent_part r' of None \<Rightarrow> NaN
                   | Some k \<Rightarrow> decimal_double (dec_val (ip @ fp)) (k - int (length fp)))"

definition prefixed :: "char \<Rightarrow> char \<Rightarrow> (char \<Rightarrow> bool) \<Rightarrow> string \<Rightarrow> bool" where
  "prefixed lo up ok s \<longleftrightarrow>
     3 \<le> length s \<and> s ! 0 = CHR ''0'' \<and> (s ! 1 = lo \<or> s ! 1 = up) \<and> list_all ok (drop 2 s)"

text \<open>\<^verbatim>\<open>Number(s)\<close> for a string \<open>s\<close>.\<close>

definition js_number :: "string \<Rightarrow> jsnum" where
  "js_number s =
     (let t = js_trim s
      in if t = [] then Fin 0 0
         else if prefixed (CHR ''x'') (CHR ''X'') is_hex_char t then round_double (radix_val 16 (drop 2 t)) 1
         else if prefixed (CHR ''o'') (CHR ''O'') is_oct_char t then round_double (radix_val 8 (drop 2 t)) 1
         else if prefixed (CHR ''b'') (CHR ''B'') is_bin_char t then round_double (radix_val 2 (drop 2 t)) 1
         else if hd t = CHR ''+'' then unsigned_decimal (tl t)
         else if hd t = CHR ''-'' then js_negate (unsigned_decimal (tl t))
         else unsigned_decimal t)"

section \<open>Small integers are exact\<close>

lemma round_half_even_exact: "0 < b \<Longrightarrow> round_half_even (q * b) b = q"
  by (simp add: round_half_even_def)

lemma double_exponent_small:
  assumes "0 < n" and "n < 2 ^ 53"
  shows "double_exponent n 1 \<le> 0"
proof -
  have "floorlog 2 n \<le> 53"
  proof -
    have "n < 2 ^ 53" by fact
    then show ?thesis
      using floorlog_leI [of n 2 53] by simp
  qed
  then have e0: "int (floorlog 2 n) - int (floorlog 2 1) - 53 \<le> - 1"
    by (simp add: floorlog_def)
  then show ?thesis
    by (auto simp: double_exponent_def pow2_scale_def)
qed

lemma round_double_small:
  assumes "n < 2 ^ 53"
  shows "js_integer (round_double n 1) = Some (int n)"
proof (cases "n = 0")
  case True
  then show ?thesis by (simp add: round_double_def)
next
  case False
  let ?e = "double_exponent n 1"
  have e: "?e \<le> 0" using double_exponent_small False assms by simp
  have m: "round_half_even (n * 2 ^ nat (- ?e)) 1 = n * 2 ^ nat (- ?e)"
    by (simp add: round_half_even_def)
  have "round_double n 1 = Fin (int (n * 2 ^ nat (- ?e))) ?e"
  proof (cases "?e = 0")
    case True
    have "\<not> (2 :: nat) ^ 1024 \<le> n"
      using assms power_strict_increasing [of 53 1024 "2 :: nat"] by linarith
    with True False show ?thesis
      by (simp add: round_double_def Let_def pow2_scale_def round_half_even_def)
  next
    case neq: False
    with e have "\<not> 0 \<le> ?e" by simp
    with False show ?thesis
      using e by (simp add: round_double_def Let_def pow2_scale_def round_half_even_def)
  qed
  with e show ?thesis by (cases "?e = 0") auto
qed

text \<open>Digits alone read as the number they spell, where it fits the 53 bits.\<close>

lemma digits_not_space: "is_digit_char c \<Longrightarrow> \<not> is_js_space c"
  by (auto simp: is_digit_char_def is_js_space_def)

lemma js_trim_digits:
  assumes "list_all is_digit_char s" and "s \<noteq> []"
  shows "js_trim s = s"
proof -
  have "is_digit_char (hd s)" "is_digit_char (last s)"
    using assms by (auto simp: list_all_iff)
  then show ?thesis
    using js_trim_core [of "[]" "[]" s] assms(2) digits_not_space by simp
qed

lemma unsigned_decimal_digits:
  assumes "list_all is_digit_char s" and "s \<noteq> []"
  shows "unsigned_decimal s = round_double (dec_val s) 1"
proof -
  have "s \<noteq> ''Infinity''" using assms(1) by (auto simp: is_digit_char_def)
  moreover have tw: "takeWhile is_digit_char s = s" and dw: "dropWhile is_digit_char s = []"
    using assms(1) by (auto simp: list_all_iff takeWhile_eq_all_conv)
  ultimately show ?thesis
    using assms(2) by (simp add: unsigned_decimal_def exponent_part_def decimal_double_def tw dw)
qed

lemma js_number_digits:
  assumes ds: "list_all is_digit_char s" and ne: "s \<noteq> []"
  shows "js_number s = round_double (dec_val s) 1"
proof -
  have hd: "is_digit_char (hd s)" using assms by (cases s) auto
  have sign: "hd s \<noteq> CHR ''+''" "hd s \<noteq> CHR ''-''"
    using hd by (auto simp: is_digit_char_def)
  have second: "s ! 1 \<notin> {CHR ''x'', CHR ''X'', CHR ''o'', CHR ''O'', CHR ''b'', CHR ''B''}"
    if "3 \<le> length s"
  proof -
    have "is_digit_char (s ! 1)" using that ds by (simp add: list_all_length)
    then show ?thesis by (auto simp: is_digit_char_def)
  qed
  then have "\<not> prefixed (CHR ''x'') (CHR ''X'') is_hex_char s"
    "\<not> prefixed (CHR ''o'') (CHR ''O'') is_oct_char s"
    "\<not> prefixed (CHR ''b'') (CHR ''B'') is_bin_char s"
    by (auto simp: prefixed_def)
  then show ?thesis
    using ne sign by (simp add: js_number_def js_trim_digits [OF ds ne] unsigned_decimal_digits [OF ds ne])
qed

lemma js_number_show_nat:
  assumes "n < 2 ^ 53"
  shows "js_integer (js_number (show_nat n)) = Some (int n)"
  using js_number_digits [OF show_nat_digits show_nat_nonempty, of n] round_double_small [OF assms]
  by simp

end
