(* ===== verification/Config.thy ===== *)
theory Config
  imports JsNumber
begin

text \<open>
  The environment of the process (\<^verbatim>\<open>src/config/env.ts\<close>): the schema every variable is
  checked against, the loader, and the parser of the listen address.

  The process environment is a map from names to texts. Whether a text is a URL is
  decided by the runtime's URL parser, the argument \<open>is_url\<close>; the error of a
  rejected environment is the schema library's, the argument \<open>issues\<close>.
\<close>

section \<open>The listen address\<close>

record ListenConfig =
  lc_host :: string
  lc_port :: int

definition quoted :: "string \<Rightarrow> string" where
  "quoted s = CHR 0x22 # s @ [CHR 0x22]"

definition parseListenAddr :: "string \<Rightarrow> js_error + ListenConfig" where
  "parseListenAddr value =
     (let idx = last_index_of CHR '':'' value
      in if idx \<le> 0 then Inl (PlainError (''LISTEN_ADDR '' @ quoted value @ '' must be host:port''))
         else let host = take (nat idx) value;
                  port = js_integer (js_number (drop (nat (idx + 1)) value))
              in case port of
                   None \<Rightarrow> Inl (PlainError (''LISTEN_ADDR '' @ quoted value @ '' port must be 1..65535''))
                 | Some p \<Rightarrow>
                     if p \<le> 0 \<or> p > 65535
                     then Inl (PlainError (''LISTEN_ADDR '' @ quoted value @ '' port must be 1..65535''))
                     else Inr \<lparr>lc_host = host, lc_port = p\<rparr>)"

section \<open>The schema of the environment\<close>

text \<open>
  A field of the schema maps the variable, if it is set, to its value, or to \<open>None\<close>
  where it is rejected.
\<close>

definition field_default :: "'a \<Rightarrow> (string \<Rightarrow> 'a option) \<Rightarrow> string option \<Rightarrow> 'a option" where
  "field_default d f v = (case v of None \<Rightarrow> Some d | Some s \<Rightarrow> f s)"

definition field_optional :: "(string \<Rightarrow> 'a option) \<Rightarrow> string option \<Rightarrow> 'a option option" where
  "field_optional f v = (case v of None \<Rightarrow> Some None | Some s \<Rightarrow> map_option Some (f s))"

definition field_required :: "(string \<Rightarrow> 'a option) \<Rightarrow> string option \<Rightarrow> 'a option" where
  "field_required f v = (case v of None \<Rightarrow> None | Some s \<Rightarrow> f s)"

definition checked :: "(string \<Rightarrow> bool) \<Rightarrow> string \<Rightarrow> string option" where
  "checked p s = (if p s then Some s else None)"

text \<open>
  \<^verbatim>\<open>z.coerce.number().int()\<close> with a further check: the integers a double represents
  exactly, up to \<open>2 ^ 53 - 1\<close> in size.
\<close>

definition coerce_int :: "(int \<Rightarrow> bool) \<Rightarrow> string \<Rightarrow> int option" where
  "coerce_int p s = (case js_integer (js_number s) of None \<Rightarrow> None
     | Some n \<Rightarrow> if \<bar>n\<bar> \<le> 2 ^ 53 - 1 \<and> p n then Some n else None)"

definition is_decimal :: "string \<Rightarrow> bool" where
  "is_decimal s \<longleftrightarrow> s \<noteq> [] \<and> list_all is_digit_char s"

datatype log_level = Debug | Info | Warn | Error
datatype log_format = Json | Text

definition log_level_of :: "string \<Rightarrow> log_level option" where
  "log_level_of s =
     (if s = ''debug'' then Some Debug else if s = ''info'' then Some Info
      else if s = ''warn'' then Some Warn else if s = ''error'' then Some Error else None)"

definition log_format_of :: "string \<Rightarrow> log_format option" where
  "log_format_of s = (if s = ''json'' then Some Json else if s = ''text'' then Some Text else None)"

record Env =
  LISTEN_ADDR :: string
  ADMIN_TOKEN :: string
  CHAIN_RPC :: string
  CHAIN_ID :: int
  CONTROLLER_ADDRESS :: string
  SERVICE_REGISTRY_ADDRESS :: "string option"
  STATE_PATH :: string
  RESOLVER_SOCKET_PATH :: string
  SENDER_SOCKET_PATH :: string
  CHAIN_READ_TTL_SEC :: int
  RESOLVER_AUDIT_POLL_INTERVAL_SEC :: int
  SENDER_ADDRESS :: "string option"
  MIN_BALANCE_WEI :: "string option"
  LOG_LEVEL :: log_level
  LOG_FORMAT :: log_format

definition EnvSchema :: "(string \<Rightarrow> bool) \<Rightarrow> (string \<rightharpoonup> string) \<Rightarrow> Env option" where
  "EnvSchema is_url src =
     Option.bind (field_default ''127.0.0.1:8080'' Some (src ''LISTEN_ADDR'')) (\<lambda>listen.
     Option.bind (field_required (checked (\<lambda>s. 32 \<le> length s)) (src ''ADMIN_TOKEN'')) (\<lambda>token.
     Option.bind (field_required (checked is_url) (src ''CHAIN_RPC'')) (\<lambda>rpc.
     Option.bind (field_default 42161 (coerce_int (\<lambda>n. 0 < n)) (src ''CHAIN_ID'')) (\<lambda>chain.
     Option.bind (field_default ''0xD8E8328501E9645d16Cf49539efC04f734606ee4'' (checked is_eth_address)
                    (src ''CONTROLLER_ADDRESS'')) (\<lambda>controller.
     Option.bind (field_optional (checked is_eth_address) (src ''SERVICE_REGISTRY_ADDRESS'')) (\<lambda>registry.
     Option.bind (field_default ''/var/lib/livepeer/state.db'' Some (src ''STATE_PATH'')) (\<lambda>state.
     Option.bind (field_default ''/var/run/livepeer/resolver/service-registry.sock'' Some
                    (src ''RESOLVER_SOCKET_PATH'')) (\<lambda>rsock.
     Option.bind (field_default ''/var/run/livepeer/sender/payment.sock'' Some
                    (src ''SENDER_SOCKET_PATH'')) (\<lambda>ssock.
     Option.bind (field_default 30 (coerce_int (\<lambda>n. 0 \<le> n)) (src ''CHAIN_READ_TTL_SEC'')) (\<lambda>ttl.
     Option.bind (field_default 30 (coerce_int (\<lambda>n. 0 \<le> n)) (src ''RESOLVER_AUDIT_POLL_INTERVAL_SEC'')) (\<lambda>poll.
     Option.bind (field_optional (checked is_eth_address) (src ''SENDER_ADDRESS'')) (\<lambda>sender.
     Option.bind (field_optional (checked is_decimal) (src ''MIN_BALANCE_WEI'')) (\<lambda>minbal.
     Option.bind (field_default Info log_level_of (src ''LOG_LEVEL'')) (\<lambda>level.
     Option.bind (field_default Json log_format_of (src ''LOG_FORMAT'')) (\<lambda>fmt.
     Some \<lparr>LISTEN_ADDR = listen, ADMIN_TOKEN = token, CHAIN_RPC = rpc, CHAIN_ID = chain,
           CONTROLLER_ADDRESS = controller, SERVICE_REGISTRY_ADDRESS = registry,
           STATE_PATH = state, RESOLVER_SOCKET_PATH = rsock, SENDER_SOCKET_PATH = ssock,
           CHAIN_READ_TTL_SEC = ttl, RESOLVER_AUDIT_POLL_INTERVAL_SEC = poll,
           SENDER_ADDRESS = sender, MIN_BALANCE_WEI = minbal,
           LOG_LEVEL = level, LOG_FORMAT = fmt\<rparr>)))))))))))))))"

definition loadEnv ::
    "(string \<Rightarrow> bool) \<Rightarrow> ((string \<rightharpoonup> string) \<Rightarrow> zod_error) \<Rightarrow> (string \<rightharpoonup> string) \<Rightarrow> js_error + Env" where
  "loadEnv is_url issues source =
     (case EnvSchema is_url source of None \<Rightarrow> Inl (ZodError (issues source)) | Some env \<Rightarrow> Inr env)"

section \<open>Lemmas\<close>

lemma last_index_of_append:
  assumes "c \<notin> set t"
  shows "last_index_of c (s @ c # t) = int (length s)"
proof -
  have "takeWhile (\<lambda>d. d \<noteq> c) (rev t @ c # rev s) = rev t"
    using assms by (subst takeWhile_append2) auto
  then show ?thesis by (simp add: last_index_of_def)
qed

lemma last_index_of_split:
  assumes "0 \<le> last_index_of c s"
  obtains a b where "s = a @ c # b" and "c \<notin> set b" and "last_index_of c s = int (length a)"
proof -
  have "c \<in> set s" using assms by (auto simp: last_index_of_def split: if_splits)
  then obtain a b where "s = a @ c # b" "c \<notin> set b" by (meson split_list_last)
  with last_index_of_append show ?thesis using that by metis
qed

lemma parseListenAddr_split:
  assumes "c = CHR '':''" and "c \<notin> set t"
  shows "parseListenAddr (s @ c # t) =
    (if s = [] then Inl (PlainError (''LISTEN_ADDR '' @ quoted (s @ c # t) @ '' must be host:port''))
     else case js_integer (js_number t) of
            None \<Rightarrow> Inl (PlainError (''LISTEN_ADDR '' @ quoted (s @ c # t) @ '' port must be 1..65535''))
          | Some p \<Rightarrow>
              if p \<le> 0 \<or> p > 65535
              then Inl (PlainError (''LISTEN_ADDR '' @ quoted (s @ c # t) @ '' port must be 1..65535''))
              else Inr \<lparr>lc_host = s, lc_port = p\<rparr>)"
proof -
  have n: "nat (int (length s) + 1) = Suc (length s)" by simp
  have i: "last_index_of CHR '':'' (s @ CHR '':'' # t) = int (length s)"
    using last_index_of_append assms by metis
  show ?thesis
    unfolding parseListenAddr_def assms(1) by (simp add: i n split: option.split)
qed

text \<open>Listen address round trip: a non-empty host, a colon and a port from 1 to 65535
  in decimal parse to that host and that port.\<close>

theorem parseListenAddr_roundtrip:
  assumes "host \<noteq> []" and "1 \<le> port" and "port \<le> 65535"
  shows "parseListenAddr (host @ '':'' @ show_nat port) = Inr \<lparr>lc_host = host, lc_port = int port\<rparr>"
proof -
  have "CHR '':'' \<notin> set (show_nat port)"
    using show_nat_digits [of port] by (auto simp: list_all_iff is_digit_char_def)
  moreover have "js_integer (js_number (show_nat port)) = Some (int port)"
    using assms(3) by (intro js_number_show_nat) simp
  ultimately show ?thesis
    using assms by (simp add: parseListenAddr_split)
qed

theorem parseListenAddr_roundtrip_witness:
  "parseListenAddr (''127.0.0.1'' @ '':'' @ show_nat 8080) = Inr \<lparr>lc_host = ''127.0.0.1'', lc_port = int 8080\<rparr>"
  by (rule parseListenAddr_roundtrip) simp_all

text \<open>Whatever the text, an accepted listen address has a non-empty host, the text
  up to its last colon, and a port from 1 to 65535; every other text is a thrown error.\<close>

theorem parseListenAddr_sound:
  "case parseListenAddr value of
     Inl e \<Rightarrow> \<exists>m. e = PlainError m
   | Inr l \<Rightarrow> 1 \<le> lc_port l \<and> lc_port l \<le> 65535 \<and> lc_host l \<noteq> [] \<and>
            (\<exists>t. value = lc_host l @ '':'' @ t \<and> CHR '':'' \<notin> set t
               \<and> js_integer (js_number t) = Some (lc_port l))"
proof (cases "0 \<le> last_index_of CHR '':'' value")
  case True
  then obtain s t where v: "value = s @ CHR '':'' # t" "CHR '':'' \<notin> set t"
    by (rule last_index_of_split)
  show ?thesis
    unfolding v(1) parseListenAddr_split [OF refl v(2)]
    using v(2) by (auto split: option.splits)
next
  case False
  then show ?thesis by (simp add: parseListenAddr_def)
qed

text \<open>
  The environment a successful load returns: what the rest of the program relies on.
\<close>

definition env_ok :: "(string \<Rightarrow> bool) \<Rightarrow> Env \<Rightarrow> bool" where
  "env_ok is_url e \<longleftrightarrow>
     32 \<le> length (ADMIN_TOKEN e) \<and> is_url (CHAIN_RPC e) \<and> 0 < CHAIN_ID e
     \<and> is_eth_address (CONTROLLER_ADDRESS e)
     \<and> pred_option is_eth_address (SERVICE_REGISTRY_ADDRESS e)
     \<and> 0 \<le> CHAIN_READ_TTL_SEC e \<and> 0 \<le> RESOLVER_AUDIT_POLL_INTERVAL_SEC e
     \<and> pred_option is_eth_address (SENDER_ADDRESS e)
     \<and> pred_option is_decimal (MIN_BALANCE_WEI e)"

lemma checked_Some: "checked p s = Some t \<longleftrightarrow> t = s \<and> p s"
  by (auto simp: checked_def)

lemma coerce_int_Some:
  "coerce_int p s = Some n \<longleftrightarrow>
    js_integer (js_number s) = Some n \<and> \<bar>n\<bar> \<le> 2 ^ 53 - 1 \<and> p n"
  by (auto simp: coerce_int_def split: option.splits)

lemma required_checkedD: "field_required (checked p) v = Some a \<Longrightarrow> v = Some a \<and> p a"
  by (auto simp: field_required_def checked_def split: option.splits if_splits)

lemma default_checkedD: "field_default d (checked p) v = Some a \<Longrightarrow> p d \<Longrightarrow> p a"
  by (auto simp: field_default_def checked_def split: option.splits if_splits)

lemma default_coerceD: "field_default d (coerce_int p) v = Some a \<Longrightarrow> p d \<Longrightarrow> p a"
  by (auto simp: field_default_def coerce_int_Some split: option.splits)

lemma optional_checkedD: "field_optional (checked p) v = Some a \<Longrightarrow> pred_option p a"
  by (auto simp: field_optional_def checked_def split: option.splits if_splits)

lemma default_controller_ok: "is_eth_address ''0xD8E8328501E9645d16Cf49539efC04f734606ee4''"
  by (simp add: is_eth_address_def is_hex_char_def is_digit_char_def)

lemma positive_fieldD: "field_default 42161 (coerce_int (\<lambda>n. 0 < n)) v = Some a \<Longrightarrow> 0 < a"
  by (drule default_coerceD) simp_all

lemma nonneg_fieldD: "field_default 30 (coerce_int (\<lambda>n. 0 \<le> n)) v = Some a \<Longrightarrow> 0 \<le> a"
  by (drule default_coerceD) simp_all

lemmas env_fieldDs =
  required_checkedD [THEN conjunct2] optional_checkedD positive_fieldD nonneg_fieldD
  default_checkedD [where p = is_eth_address, OF _ default_controller_ok]

lemma EnvSchema_ok:
  assumes "EnvSchema is_url src = Some e"
  shows "env_ok is_url e" and "src ''ADMIN_TOKEN'' = Some (ADMIN_TOKEN e)"
  by (insert assms, unfold EnvSchema_def bind_eq_Some_conv env_ok_def, elim exE conjE,
      unfold option.inject, hypsubst_thin, unfold Env.simps, intro conjI; (erule env_fieldDs))
    (insert assms, unfold EnvSchema_def bind_eq_Some_conv, elim exE conjE,
      unfold option.inject, hypsubst_thin, unfold Env.simps, erule required_checkedD [THEN conjunct1])

text \<open>Loading the environment either throws the schema's error or returns an
  environment with a token of at least 32 characters, a chain URL, a positive chain id,
  well-formed addresses and non-negative intervals.\<close>

theorem loadEnv_sound:
  "case loadEnv is_url issues src of
     Inl err \<Rightarrow> err = ZodError (issues src)
   | Inr e \<Rightarrow> env_ok is_url e \<and> src ''ADMIN_TOKEN'' = Some (ADMIN_TOKEN e)"
  by (auto simp: loadEnv_def EnvSchema_ok split: option.split)

end
