(* ===== verification/ProtoTypes.thy ===== *)
theory ProtoTypes
  imports JsText
begin

text \<open>
  The messages of the two daemons, as the generated stubs declare them
  (\<^verbatim>\<open>src/providers/resolver/gen/livepeer/registry/v1/{types,resolver}.ts\<close>,
  \<^verbatim>\<open>src/providers/payerDaemon/gen/livepeer/payments/v1/payer_daemon.ts\<close>).

  An enum value is the 32-bit number on the wire: decoding passes any number through, so
  the enums are integers with named constants. A date is its time value in milliseconds,
  and \<open>None\<close> for an invalid date, whose time value is not a number; a field the source
  declares optional is an option on top of that.
\<close>

type_synonym time_value = "int option"

section \<open>Enums\<close>

type_synonym ResolveMode = int
type_synonym SignatureStatus = int
type_synonym FreshnessStatus = int
type_synonym Source = int

definition RESOLVE_MODE_UNSPECIFIED :: ResolveMode where "RESOLVE_MODE_UNSPECIFIED = 0"
definition RESOLVE_MODE_WELL_KNOWN :: ResolveMode where "RESOLVE_MODE_WELL_KNOWN = 1"
definition RESOLVE_MODE_CSV :: ResolveMode where "RESOLVE_MODE_CSV = 2"
definition RESOLVE_MODE_LEGACY :: ResolveMode where "RESOLVE_MODE_LEGACY = 3"

definition SIGNATURE_STATUS_UNSPECIFIED :: SignatureStatus where "SIGNATURE_STATUS_UNSPECIFIED = 0"
definition SIGNATURE_STATUS_VERIFIED :: SignatureStatus where "SIGNATURE_STATUS_VERIFIED = 1"
definition SIGNATURE_STATUS_UNSIGNED :: SignatureStatus where "SIGNATURE_STATUS_UNSIGNED = 2"
definition SIGNATURE_STATUS_LEGACY :: SignatureStatus where "SIGNATURE_STATUS_LEGACY = 3"

definition FRESHNESS_STATUS_UNSPECIFIED :: FreshnessStatus where "FRESHNESS_STATUS_UNSPECIFIED = 0"
definition FRESHNESS_STATUS_FRESH :: FreshnessStatus where "FRESHNESS_STATUS_FRESH = 1"
definition FRESHNESS_STATUS_STALE_RECOVERABLE :: FreshnessStatus where "FRESHNESS_STATUS_STALE_RECOVERABLE = 2"
definition FRESHNESS_STATUS_STALE_FAILING :: FreshnessStatus where "FRESHNESS_STATUS_STALE_FAILING = 3"

lemmas enum_defs =
  RESOLVE_MODE_UNSPECIFIED_def RESOLVE_MODE_WELL_KNOWN_def RESOLVE_MODE_CSV_def RESOLVE_MODE_LEGACY_def
  SIGNATURE_STATUS_UNSPECIFIED_def SIGNATURE_STATUS_VERIFIED_def SIGNATURE_STATUS_UNSIGNED_def
  SIGNATURE_STATUS_LEGACY_def FRESHNESS_STATUS_UNSPECIFIED_def FRESHNESS_STATUS_FRESH_def
  FRESHNESS_STATUS_STALE_RECOVERABLE_def FRESHNESS_STATUS_STALE_FAILING_def

section \<open>Registry messages\<close>

record Offering =
  of_id :: string
  of_pricePerWorkUnitWei :: string
  of_constraintsJson :: "byte list"

record Capability =
  cap_name :: string
  cap_workUnit :: string
  cap_offerings :: "Offering list"
  cap_extraJson :: "byte list"

record Node =
  nd_id :: string
  nd_url :: string
  nd_workerEthAddress :: string
  nd_extraJson :: "byte list"
  nd_capabilities :: "Capability list"
  nd_source :: Source
  nd_signatureStatus :: SignatureStatus
  nd_operatorAddress :: string
  nd_enabled :: bool
  nd_tierAllowed :: "string list"
  nd_weight :: int

record ResolveByAddressRequest =
  rb_ethAddress :: string
  rb_allowLegacyFallback :: bool
  rb_allowUnsigned :: bool
  rb_forceRefresh :: bool

record ResolveResult =
  rr_ethAddress :: string
  rr_resolvedUri :: string
  rr_mode :: ResolveMode
  rr_nodes :: "Node list"
  rr_freshnessStatus :: FreshnessStatus
  rr_cachedAt :: "time_value option"
  rr_fetchedAt :: "time_value option"
  rr_schemaVersion :: string

record SelectRequest =
  sq_capability :: string
  sq_offering :: string
  sq_tier :: string
  sq_minWeight :: int

record ProtoSelectedRoute =
  ps_workerUrl :: string
  ps_ethAddress :: string
  ps_capability :: string
  ps_offering :: string
  ps_pricePerWorkUnitWei :: string
  ps_workUnit :: string
  ps_extraJson :: "byte list"
  ps_constraintsJson :: "byte list"

record ProtoSelectResult =
  pr_route :: "ProtoSelectedRoute option"

record KnownEntry =
  ke_ethAddress :: string
  ke_mode :: ResolveMode
  ke_freshnessStatus :: FreshnessStatus
  ke_cachedAt :: "time_value option"

record ListKnownResult =
  lk_entries :: "KnownEntry list"

record RefreshRequest =
  rf_ethAddress :: string
  rf_force :: bool

record GetAuditLogRequest =
  ga_ethAddress :: string
  ga_since :: "time_value option"
  ga_limit :: int

record ProtoAuditEvent =
  ae_at :: "time_value option"
  ae_ethAddress :: string
  ae_kind :: string
  ae_mode :: ResolveMode
  ae_detail :: string

record AuditLogResult =
  al_events :: "ProtoAuditEvent list"

record HealthResult =
  hr_mode :: string
  hr_chainOk :: bool
  hr_manifestFetcherOk :: bool
  hr_cacheSize :: int
  hr_lastChainSuccess :: "time_value option"

section \<open>Payer daemon messages\<close>

record GetDepositInfoResponse =
  gd_deposit :: "byte list"
  gd_reserve :: "byte list"
  gd_withdrawRound :: int

end
