(* ===== verification/World.thy ===== *)
theory World
  imports ProtoTypes
begin

text \<open>
  What the program runs against: the database file it owns, its chain-read cache, and the
  outside world of daemons, chain endpoint, file system and clocks.

  The tables are the two of \<^verbatim>\<open>src/repo/schema.ts\<close> and \<^verbatim>\<open>migrations/0001_init.sql\<close>. The
  outside world is a state of any type \<open>'w\<close>, and \<open>env\<close> gives the calls the program makes
  of it; a call may change the world and may fail, so no answer is assumed to repeat.
\<close>

section \<open>The tables\<close>

record AuditEventRow =
  au_id :: nat
  au_occurredAt :: int
  au_actor :: string
  au_action :: string
  au_target :: "string option"
  au_ok :: int
  au_message :: "string option"

record AuditEventInsert =
  ai_actor :: string
  ai_action :: string
  ai_target :: "string option"
  ai_ok :: int
  ai_message :: "string option"

record RoutingObservationRow =
  ro_id :: nat
  ro_observedAt :: int
  ro_orchAddress :: string
  ro_capability :: "string option"
  ro_offering :: "string option"
  ro_signatureStatus :: "string option"
  ro_freshnessStatus :: "string option"
  ro_detailsJson :: "string option"

text \<open>
  In an inserted observation the time may be a value that is not a number, which the
  database stores as null and the column refuses.
\<close>

record RoutingObservationInsert =
  ri_observedAt :: time_value
  ri_orchAddress :: string
  ri_capability :: "string option"
  ri_offering :: "string option"
  ri_signatureStatus :: "string option"
  ri_freshnessStatus :: "string option"
  ri_detailsJson :: "string option"

text \<open>
  A table with an autoincrement key: its rows in order of insertion and the largest key
  it ever gave out.
\<close>

record 'r table =
  tb_rows :: "'r list"
  tb_seq :: nat

definition empty_table :: "'r table" where
  "empty_table = \<lparr>tb_rows = [], tb_seq = 0\<rparr>"

record Db =
  auditEvents :: "AuditEventRow table"
  routingObservations :: "RoutingObservationRow table"

definition empty_db :: Db where
  "empty_db = \<lparr>auditEvents = empty_table, routingObservations = empty_table\<rparr>"

section \<open>The cache\<close>

text \<open>
  The values the chain-read cache holds: an address, the map from address to stake, and a
  service URI.
\<close>

datatype cval = VAddress string | VStakeMap "string \<rightharpoonup> string" | VUri "string option"

record centry =
  ce_expiresAt :: int
  ce_value :: cval

section \<open>The system state and the outside world\<close>

record 'w sys =
  ext :: 'w
  db :: Db
  cache :: "string \<rightharpoonup> centry"

type_synonym ('w, 'a) call = "('w, js_error, 'a) io"
type_synonym ('w, 'a) act = "('w sys, js_error, 'a) io"

text \<open>
  The calls: the clock in milliseconds; the database's own clock in seconds, whether the
  database engine refuses the next statement, and the order it returns rows of equal sort
  key in; the unary stubs of the two daemons with the deadline of the call; the chain
  endpoint's contract reads and balance; the hash of a contract's name and the text of a
  buffer, which may lie outside the first 256 code points; and the file system's answer on
  a path.
\<close>

type_synonym delegator = "nat \<times> nat \<times> nat \<times> string \<times> nat \<times> nat \<times> nat \<times> nat"

datatype stat_result = StatSocket | StatOther | StatError js_error

record 'w env =
  date_now :: "'w \<Rightarrow> int \<times> 'w"
  unixepoch :: "'w \<Rightarrow> int \<times> 'w"
  db_refuses :: "'w \<Rightarrow> js_error option \<times> 'w"
  sql_order_desc :: "RoutingObservationRow list \<Rightarrow> RoutingObservationRow list"
  grpc_health :: "int \<Rightarrow> ('w, HealthResult) call"
  grpc_listKnown :: "int \<Rightarrow> ('w, ListKnownResult) call"
  grpc_resolveByAddress :: "ResolveByAddressRequest \<Rightarrow> int \<Rightarrow> ('w, ResolveResult) call"
  grpc_select :: "SelectRequest \<Rightarrow> int \<Rightarrow> ('w, ProtoSelectResult) call"
  grpc_refresh :: "RefreshRequest \<Rightarrow> int \<Rightarrow> ('w, unit) call"
  grpc_getAuditLog :: "GetAuditLogRequest \<Rightarrow> int \<Rightarrow> ('w, AuditLogResult) call"
  grpc_getDepositInfo :: "int \<Rightarrow> ('w, GetDepositInfoResponse) call"
  eth_getContract :: "string \<Rightarrow> string \<Rightarrow> ('w, string) call"
  eth_getFirstTranscoderInPool :: "string \<Rightarrow> ('w, string) call"
  eth_getNextTranscoderInPool :: "string \<Rightarrow> string \<Rightarrow> ('w, string) call"
  eth_getDelegator :: "string \<Rightarrow> string \<Rightarrow> ('w, delegator) call"
  eth_getSenderInfo :: "string \<Rightarrow> string \<Rightarrow> ('w, (nat \<times> nat) \<times> (nat \<times> nat)) call"
  eth_getServiceURI :: "string \<Rightarrow> string \<Rightarrow> ('w, string) call"
  eth_getBalance :: "string \<Rightarrow> ('w, nat) call"
  keccak256 :: "string \<Rightarrow> string"
  buffer_utf8 :: "byte list \<Rightarrow> string"
  fs_stat :: "string \<Rightarrow> 'w \<Rightarrow> stat_result \<times> 'w"

definition outside :: "('w, 'a) call \<Rightarrow> ('w, 'a) act" where
  "outside f = (\<lambda>s. case f (ext s) of (r, w) \<Rightarrow> (r, s\<lparr>ext := w\<rparr>))"

definition observe :: "('w \<Rightarrow> 'a \<times> 'w) \<Rightarrow> ('w, 'a) act" where
  "observe f = (\<lambda>s. case f (ext s) of (a, w) \<Rightarrow> (Inr a, s\<lparr>ext := w\<rparr>))"

definition get_db :: "('w, Db) act" where
  "get_db = (\<lambda>s. (Inr (db s), s))"

definition put_db :: "Db \<Rightarrow> ('w, unit) act" where
  "put_db d = (\<lambda>s. (Inr (), s\<lparr>db := d\<rparr>))"

text \<open>One statement: refused by the engine, or run on the tables.\<close>

definition statement :: "'w env \<Rightarrow> ('w, 'a) act \<Rightarrow> ('w, 'a) act" where
  "statement env m =
     io_bind (observe (db_refuses env)) (\<lambda>r. case r of Some e \<Rightarrow> io_throw e | None \<Rightarrow> m)"

section \<open>Frames\<close>

lemma keeps_outside_db [keeps_intros]: "keeps db (outside f)"
  by (simp add: keeps_def outside_def split: prod.splits)

lemma keeps_outside_cache [keeps_intros]: "keeps cache (outside f)"
  by (simp add: keeps_def outside_def split: prod.splits)

lemma keeps_observe_db [keeps_intros]: "keeps db (observe f)"
  by (simp add: keeps_def observe_def split: prod.splits)

lemma keeps_observe_cache [keeps_intros]: "keeps cache (observe f)"
  by (simp add: keeps_def observe_def split: prod.splits)

lemma keeps_get_db [keeps_intros]: "keeps p get_db"
  by (simp add: keeps_def get_db_def)

lemma keeps_put_db_cache [keeps_intros]: "keeps cache (put_db d)"
  by (simp add: keeps_def put_db_def)

lemma keeps_statement [keeps_intros]:
  assumes "keeps p (observe (db_refuses env))" and "keeps p m"
  shows "keeps p (statement env m)"
  unfolding statement_def using assms by (auto intro!: keeps_intros)

lemma observe_apply [io_simps]:
  "observe f s = (case f (ext s) of (a, w) \<Rightarrow> (Inr a, s\<lparr>ext := w\<rparr>))"
  by (simp add: observe_def)

lemma outside_apply [io_simps]:
  "outside f s = (case f (ext s) of (r, w) \<Rightarrow> (r, s\<lparr>ext := w\<rparr>))"
  by (simp add: outside_def)

lemma outside_pure: "f (ext s) = (r, ext s) \<Longrightarrow> outside f s = (r, s)"
  by (simp add: outside_def)

lemma outside_Inl: "outside f s = (Inl e, s') \<Longrightarrow> \<exists>w w'. f w = (Inl e, w')"
  by (auto simp: outside_def split: prod.splits)

lemma get_db_apply [simp, io_simps]: "get_db s = (Inr (db s), s)"
  by (simp add: get_db_def)

lemma put_db_apply [simp, io_simps]: "put_db d s = (Inr (), s\<lparr>db := d\<rparr>)"
  by (simp add: put_db_def)


section \<open>A still world\<close>

text \<open>
  A concrete outside world, to run the definitions in: the clock stands still, every call
  succeeds with an empty answer, and the database refuses nothing.
\<close>

definition desc_insert :: "RoutingObservationRow \<Rightarrow> RoutingObservationRow list \<Rightarrow> RoutingObservationRow list" where
  "desc_insert r rs =
     takeWhile (\<lambda>x. ro_observedAt r < ro_observedAt x) rs @ r
     # dropWhile (\<lambda>x. ro_observedAt r < ro_observedAt x) rs"

definition still_env :: "'w env" where
  "still_env =
     \<lparr>date_now = (\<lambda>w. (1700000000000, w)),
      unixepoch = (\<lambda>w. (1700000000, w)),
      db_refuses = (\<lambda>w. (None, w)),
      sql_order_desc = (\<lambda>rs. foldr desc_insert rs []),
      grpc_health = (\<lambda>_. io_return \<lparr>hr_mode = [], hr_chainOk = True, hr_manifestFetcherOk = True,
                                   hr_cacheSize = 0, hr_lastChainSuccess = None\<rparr>),
      grpc_listKnown = (\<lambda>_. io_return \<lparr>lk_entries = []\<rparr>),
      grpc_resolveByAddress = (\<lambda>_ _. io_throw (ServiceError 5 ''not found'')),
      grpc_select = (\<lambda>_ _. io_throw (ServiceError 5 ''not found'')),
      grpc_refresh = (\<lambda>_ _. io_return ()),
      grpc_getAuditLog = (\<lambda>_ _. io_return \<lparr>al_events = []\<rparr>),
      grpc_getDepositInfo = (\<lambda>_. io_return \<lparr>gd_deposit = [], gd_reserve = [], gd_withdrawRound = 0\<rparr>),
      eth_getContract = (\<lambda>_ _. io_return ''0x35Bcf3c30594191d53231E4FF333E8A770453e40''),
      eth_getFirstTranscoderInPool = (\<lambda>_. io_return ''0x0000000000000000000000000000000000000000''),
      eth_getNextTranscoderInPool = (\<lambda>_ _. io_return ''0x0000000000000000000000000000000000000000''),
      eth_getDelegator = (\<lambda>_ _. io_return (0, 0, 0, [], 0, 0, 0, 0)),
      eth_getSenderInfo = (\<lambda>_ _. io_return ((0, 0), (0, 0))),
      eth_getServiceURI = (\<lambda>_ _. io_return []),
      eth_getBalance = (\<lambda>_. io_return 0),
      keccak256 = (\<lambda>s. s),
      buffer_utf8 = (\<lambda>b. map (\<lambda>x. char_of (unat x)) b),
      fs_stat = (\<lambda>_ w. (StatSocket, w))\<rparr>"

definition still_sys :: "unit sys" where
  "still_sys = \<lparr>ext = (), db = empty_db, cache = Map.empty\<rparr>"

end
