(* ===== verification/ResolverClient.thy ===== *)
theory ResolverClient
  imports World
begin

text \<open>
  The client of the resolver daemon (\<^verbatim>\<open>src/providers/resolver/client.ts\<close>): the requests it
  builds, the deadline of every call, what it makes of a failed call, and the mappers from
  the wire messages to the program's own types.
\<close>

section \<open>Labels\<close>

datatype FreshnessLabel = Fresh | StaleRecoverable | StaleFailing | FreshnessUnknown
datatype SignatureLabel = Verified | Unsigned | LegacySigned | SignatureUnknown
datatype ResolveModeLabel = WellKnown | Csv | Legacy | Unspecified

definition mapResolveMode :: "ResolveMode \<Rightarrow> ResolveModeLabel" where
  "mapResolveMode m =
     (if m = RESOLVE_MODE_WELL_KNOWN then WellKnown
      else if m = RESOLVE_MODE_CSV then Csv
      else if m = RESOLVE_MODE_LEGACY then Legacy
      else Unspecified)"

definition mapFreshness :: "FreshnessStatus \<Rightarrow> FreshnessLabel" where
  "mapFreshness f =
     (if f = FRESHNESS_STATUS_FRESH then Fresh
      else if f = FRESHNESS_STATUS_STALE_RECOVERABLE then StaleRecoverable
      else if f = FRESHNESS_STATUS_STALE_FAILING then StaleFailing
      else FreshnessUnknown)"

definition mapSignature :: "SignatureStatus \<Rightarrow> SignatureLabel" where
  "mapSignature s =
     (if s = SIGNATURE_STATUS_VERIFIED then Verified
      else if s = SIGNATURE_STATUS_UNSIGNED then Unsigned
      else if s = SIGNATURE_STATUS_LEGACY then LegacySigned
      else SignatureUnknown)"

section \<open>The program's own types\<close>

record KnownOrch =
  ko_address :: string
  ko_mode :: ResolveModeLabel
  ko_freshnessStatus :: FreshnessLabel
  ko_cachedAt :: "time_value option"

record ResolvedNode =
  rn_id :: string
  rn_url :: string
  rn_workerEthAddress :: string
  rn_capabilities :: "string list"
  rn_offerings :: "string list"
  rn_signatureStatus :: SignatureLabel
  rn_operatorAddress :: string
  rn_enabled :: bool
  rn_tierAllowed :: "string list"
  rn_weight :: int

record ResolvedOrch =
  rs_address :: string
  rs_resolvedUri :: string
  rs_mode :: ResolveModeLabel
  rs_nodes :: "ResolvedNode list"
  rs_freshnessStatus :: FreshnessLabel
  rs_cachedAt :: "time_value option"
  rs_fetchedAt :: "time_value option"
  rs_schemaVersion :: string

record SelectQuery =
  qy_capability :: string
  qy_offering :: string
  qy_tier :: "string option"

record SelectedRoute =
  st_workerUrl :: string
  st_ethAddress :: string
  st_capability :: string
  st_offering :: string
  st_pricePerWorkUnitWei :: string
  st_workUnit :: string
  st_extraJson :: "string option"
  st_constraintsJson :: "string option"

record SelectResult =
  se_route :: "SelectedRoute option"
  se_reason :: string

record ResolverAuditEntry =
  re_occurredAt :: time_value
  re_orchAddress :: "string option"
  re_kind :: string
  re_mode :: ResolveModeLabel
  re_detail :: string

record PingResult =
  pg_ok :: bool
  pg_error :: "string option"

section \<open>Mappers\<close>

definition mapKnownEntry :: "KnownEntry \<Rightarrow> KnownOrch" where
  "mapKnownEntry e =
     \<lparr>ko_address = ke_ethAddress e, ko_mode = mapResolveMode (ke_mode e),
      ko_freshnessStatus = mapFreshness (ke_freshnessStatus e), ko_cachedAt = ke_cachedAt e\<rparr>"

definition mapNode :: "Node \<Rightarrow> ResolvedNode" where
  "mapNode n =
     (let capabilities = map cap_name (nd_capabilities n);
          offerings = concat (map (\<lambda>c. map of_id (cap_offerings c)) (nd_capabilities n))
      in \<lparr>rn_id = nd_id n, rn_url = nd_url n, rn_workerEthAddress = nd_workerEthAddress n,
          rn_capabilities = capabilities, rn_offerings = offerings,
          rn_signatureStatus = mapSignature (nd_signatureStatus n),
          rn_operatorAddress = nd_operatorAddress n, rn_enabled = nd_enabled n,
          rn_tierAllowed = nd_tierAllowed n, rn_weight = nd_weight n\<rparr>)"

definition mapResolveResult :: "ResolveResult \<Rightarrow> ResolvedOrch" where
  "mapResolveResult r =
     \<lparr>rs_address = rr_ethAddress r, rs_resolvedUri = rr_resolvedUri r,
      rs_mode = mapResolveMode (rr_mode r), rs_nodes = map mapNode (rr_nodes r),
      rs_freshnessStatus = mapFreshness (rr_freshnessStatus r),
      rs_cachedAt = rr_cachedAt r, rs_fetchedAt = rr_fetchedAt r,
      rs_schemaVersion = rr_schemaVersion r\<rparr>"

definition bufferToJsonStringOrNull :: "'w env \<Rightarrow> byte list \<Rightarrow> string option" where
  "bufferToJsonStringOrNull env value = (if length value = 0 then None else Some (buffer_utf8 env value))"

definition mapSelectedRoute :: "'w env \<Rightarrow> ProtoSelectedRoute \<Rightarrow> SelectedRoute" where
  "mapSelectedRoute env r =
     \<lparr>st_workerUrl = ps_workerUrl r, st_ethAddress = ps_ethAddress r,
      st_capability = ps_capability r, st_offering = ps_offering r,
      st_pricePerWorkUnitWei = ps_pricePerWorkUnitWei r, st_workUnit = ps_workUnit r,
      st_extraJson = bufferToJsonStringOrNull env (ps_extraJson r),
      st_constraintsJson = bufferToJsonStringOrNull env (ps_constraintsJson r)\<rparr>"

text \<open>An event with no date is reported at time 0, and an empty address as none.\<close>

definition mapAuditEvent :: "ProtoAuditEvent \<Rightarrow> ResolverAuditEntry" where
  "mapAuditEvent e =
     \<lparr>re_occurredAt = (case ae_at e of None \<Rightarrow> Some 0 | Some tv \<Rightarrow> tv),
      re_orchAddress = (if ae_ethAddress e = [] then None else Some (ae_ethAddress e)),
      re_kind = ae_kind e, re_mode = mapResolveMode (ae_mode e), re_detail = ae_detail e\<rparr>"

section \<open>Calls\<close>

definition GRPC_NOT_FOUND :: nat where "GRPC_NOT_FOUND = 5"

fun isStatus :: "js_error \<Rightarrow> nat \<Rightarrow> bool" where
  "isStatus (ServiceError c _) code = (c = code)"
| "isStatus _ code = False"

text \<open>\<open>callDeadlineMs\<close>, 2000 where the options do not set it; the deadline of a call is that far from now.\<close>

definition deadline_ms :: "int option \<Rightarrow> int" where
  "deadline_ms callDeadlineMs = (case callDeadlineMs of None \<Rightarrow> 2000 | Some n \<Rightarrow> n)"

definition unary :: "'w env \<Rightarrow> int option \<Rightarrow> (int \<Rightarrow> ('w, 'a) call) \<Rightarrow> ('w, 'a) act" where
  "unary env dl fn = io_bind (observe (date_now env)) (\<lambda>t. outside (fn (t + deadline_ms dl)))"

definition resolver_ping :: "'w env \<Rightarrow> int option \<Rightarrow> ('w, PingResult) act" where
  "resolver_ping env dl =
     io_catch (io_bind (unary env dl (grpc_health env)) (\<lambda>_. io_return \<lparr>pg_ok = True, pg_error = None\<rparr>))
       (\<lambda>err. io_return \<lparr>pg_ok = False, pg_error = Some (errorMessage err)\<rparr>)"

definition resolver_listKnown :: "'w env \<Rightarrow> int option \<Rightarrow> ('w, KnownOrch list) act" where
  "resolver_listKnown env dl =
     io_bind (unary env dl (grpc_listKnown env)) (\<lambda>res. io_return (map mapKnownEntry (lk_entries res)))"

record ResolveByAddressOptions =
  op_allowLegacyFallback :: "bool option"
  op_allowUnsigned :: "bool option"
  op_forceRefresh :: "bool option"

definition no_resolve_options :: ResolveByAddressOptions where
  "no_resolve_options = \<lparr>op_allowLegacyFallback = None, op_allowUnsigned = None, op_forceRefresh = None\<rparr>"

definition or_default :: "'a \<Rightarrow> 'a option \<Rightarrow> 'a" where
  "or_default d v = (case v of None \<Rightarrow> d | Some a \<Rightarrow> a)"

definition resolve_request :: "string \<Rightarrow> ResolveByAddressOptions \<Rightarrow> ResolveByAddressRequest" where
  "resolve_request address opts =
     \<lparr>rb_ethAddress = address,
      rb_allowLegacyFallback = or_default False (op_allowLegacyFallback opts),
      rb_allowUnsigned = or_default True (op_allowUnsigned opts),
      rb_forceRefresh = or_default False (op_forceRefresh opts)\<rparr>"

definition resolver_resolveByAddress ::
    "'w env \<Rightarrow> int option \<Rightarrow> string \<Rightarrow> ResolveByAddressOptions \<Rightarrow> ('w, ResolvedOrch option) act" where
  "resolver_resolveByAddress env dl address opts =
     io_catch
       (io_bind (unary env dl (grpc_resolveByAddress env (resolve_request address opts)))
         (\<lambda>res. io_return (Some (mapResolveResult res))))
       (\<lambda>err. if isStatus err GRPC_NOT_FOUND then io_return None else io_throw err)"

definition select_request :: "SelectQuery \<Rightarrow> SelectRequest" where
  "select_request query =
     \<lparr>sq_capability = qy_capability query, sq_offering = qy_offering query,
      sq_tier = or_default [] (qy_tier query), sq_minWeight = 0\<rparr>"

definition resolver_select :: "'w env \<Rightarrow> int option \<Rightarrow> SelectQuery \<Rightarrow> ('w, SelectResult) act" where
  "resolver_select env dl query =
     io_catch
       (io_bind (unary env dl (grpc_select env (select_request query)))
         (\<lambda>res. io_return
            \<lparr>se_route = (case pr_route res of None \<Rightarrow> None | Some r \<Rightarrow> Some (mapSelectedRoute env r)),
             se_reason = (case pr_route res of None \<Rightarrow> ''no route matched'' | Some _ \<Rightarrow> ''top-weighted'')\<rparr>))
       (\<lambda>err. if isStatus err GRPC_NOT_FOUND
              then io_return \<lparr>se_route = None, se_reason = ''no route matched''\<rparr>
              else io_throw err)"

definition resolver_refresh :: "'w env \<Rightarrow> int option \<Rightarrow> string \<Rightarrow> bool option \<Rightarrow> ('w, unit) act" where
  "resolver_refresh env dl addressOrWildcard force =
     unary env dl (grpc_refresh env \<lparr>rf_ethAddress = addressOrWildcard, rf_force = or_default False force\<rparr>)"

text \<open>\<^verbatim>\<open>new Date(ms)\<close>: a time value beyond 8.64e15 milliseconds either way is invalid.\<close>

definition js_date :: "int \<Rightarrow> time_value" where
  "js_date ms = (if \<bar>ms\<bar> \<le> 8640000000000000 then Some ms else None)"

record AuditLogOptions =
  lg_ethAddress :: "string option"
  lg_since :: "int option"
  lg_limit :: "int option"

definition audit_request :: "AuditLogOptions \<Rightarrow> GetAuditLogRequest" where
  "audit_request opts =
     \<lparr>ga_ethAddress = or_default [] (lg_ethAddress opts),
      ga_since = map_option js_date (lg_since opts),
      ga_limit = or_default 100 (lg_limit opts)\<rparr>"

definition resolver_getAuditLog ::
    "'w env \<Rightarrow> int option \<Rightarrow> AuditLogOptions \<Rightarrow> ('w, ResolverAuditEntry list) act" where
  "resolver_getAuditLog env dl opts =
     io_bind (unary env dl (grpc_getAuditLog env (audit_request opts)))
       (\<lambda>res. io_return (map mapAuditEvent (al_events res)))"

section \<open>Lemmas\<close>

lemma isStatus_iff: "isStatus e c \<longleftrightarrow> (\<exists>m. e = ServiceError c m)"
  by (cases e) auto

lemma unary_apply [io_simps]:
  "unary env dl fn s =
    (case date_now env (ext s) of (t, w) \<Rightarrow>
     case fn (t + deadline_ms dl) w of (r, w') \<Rightarrow> (r, s\<lparr>ext := w'\<rparr>))"
  by (auto simp: unary_def io_simps split: prod.splits)

lemma keeps_unary [keeps_intros]: "keeps db (unary env dl fn)" "keeps cache (unary env dl fn)"
  unfolding unary_def by (intro keeps_intros)+

lemma keeps_resolver [keeps_intros]:
  "keeps db (resolver_ping env dl)" "keeps db (resolver_listKnown env dl)"
  "keeps db (resolver_resolveByAddress env dl a ro)" "keeps db (resolver_select env dl q)"
  "keeps db (resolver_refresh env dl t f)" "keeps db (resolver_getAuditLog env dl lo)"
  unfolding resolver_ping_def resolver_listKnown_def resolver_resolveByAddress_def
    resolver_select_def resolver_refresh_def resolver_getAuditLog_def
  by (intro keeps_intros)+

lemma keeps_resolver_cache [keeps_intros]:
  "keeps cache (resolver_ping env dl)" "keeps cache (resolver_listKnown env dl)"
  "keeps cache (resolver_resolveByAddress env dl a ro)" "keeps cache (resolver_select env dl q)"
  "keeps cache (resolver_refresh env dl t f)" "keeps cache (resolver_getAuditLog env dl lo)"
  unfolding resolver_ping_def resolver_listKnown_def resolver_resolveByAddress_def
    resolver_select_def resolver_refresh_def resolver_getAuditLog_def
  by (intro keeps_intros)+

text \<open>A ping never throws.\<close>

lemma resolver_ping_total: "\<exists>p s'. resolver_ping env dl s = (Inr p, s')"
  by (auto simp: resolver_ping_def io_simps split: prod.splits sum.splits)

text \<open>An unknown orchestrator is a null result, every other failure of the call a thrown one.\<close>

lemma resolve_outcome:
  "resolver_resolveByAddress env dl a ro s =
    (case unary env dl (grpc_resolveByAddress env (resolve_request a ro)) s of
       (Inr res, s') \<Rightarrow> (Inr (Some (mapResolveResult res)), s')
     | (Inl e, s') \<Rightarrow> (if \<exists>m. e = ServiceError 5 m then Inr None else Inl e, s'))"
  by (auto simp: resolver_resolveByAddress_def io_catch_def io_bind_def isStatus_iff GRPC_NOT_FOUND_def
        split: prod.splits sum.splits)

end
