(* ===== verification/ChainReader.thy ===== *)
theory ChainReader
  imports World
begin

text \<open>
  The reader of the chain (\<^verbatim>\<open>src/providers/chain/viem.ts\<close>): the addresses of the contracts
  behind the controller, the walk along the linked list of the bonding pool with its safety
  limit, the escrow of a sender, a service URI and a balance. The contract calls are the
  outside world's; the lemmas show what the walk returns on a list that does not change,
  and that it ends, within its limit, in any world at all.
\<close>

definition ZERO_ADDRESS :: string where
  "ZERO_ADDRESS = ''0x0000000000000000000000000000000000000000''"

definition POOL_WALK_SAFETY_LIMIT :: nat where
  "POOL_WALK_SAFETY_LIMIT = 1000"

definition BONDING_MANAGER_ID :: "'w env \<Rightarrow> string" where
  "BONDING_MANAGER_ID env = keccak256 env ''BondingManager''"

definition TICKET_BROKER_ID :: "'w env \<Rightarrow> string" where
  "TICKET_BROKER_ID env = keccak256 env ''TicketBroker''"

definition SERVICE_REGISTRY_ID :: "'w env \<Rightarrow> string" where
  "SERVICE_REGISTRY_ID env = keccak256 env ''ServiceRegistry''"

record BondingPoolEntry =
  be_address :: string
  be_totalStakeWei :: string

record ReserveInfo =
  rv_depositWei :: string
  rv_reserveWei :: string

definition resolveByName :: "'w env \<Rightarrow> string \<Rightarrow> string \<Rightarrow> ('w, string) act" where
  "resolveByName env controllerAddress ident = outside (eth_getContract env controllerAddress ident)"

definition resolveBondingManager :: "'w env \<Rightarrow> string \<Rightarrow> ('w, string) act" where
  "resolveBondingManager env controllerAddress = resolveByName env controllerAddress (BONDING_MANAGER_ID env)"

definition resolveTicketBroker :: "'w env \<Rightarrow> string \<Rightarrow> ('w, string) act" where
  "resolveTicketBroker env controllerAddress = resolveByName env controllerAddress (TICKET_BROKER_ID env)"

definition resolveServiceRegistry :: "'w env \<Rightarrow> string \<Rightarrow> ('w, string) act" where
  "resolveServiceRegistry env controllerAddress = resolveByName env controllerAddress (SERVICE_REGISTRY_ID env)"

definition pool_walk_error :: js_error where
  "pool_walk_error = PlainError (''BondingManager pool walk exceeded '' @ show_nat POOL_WALK_SAFETY_LIMIT @
     '' entries; '' @ ''aborting (likely a corrupt linked list).'')"

definition delegated_amount :: "delegator \<Rightarrow> nat" where
  "delegated_amount = (\<lambda>(bondedAmount, fees, delegatedAmount, rest). delegatedAmount)"

text \<open>The loop: \<open>steps\<close> entries are behind it and \<open>addr\<close> is the next one.\<close>

function pool_loop ::
    "'w env \<Rightarrow> string \<Rightarrow> nat \<Rightarrow> string \<Rightarrow> BondingPoolEntry list \<Rightarrow> ('w, BondingPoolEntry list) act" where
  "pool_loop env bm steps addr out =
     (if js_lower addr = ZERO_ADDRESS then io_return out
      else if Suc steps > POOL_WALK_SAFETY_LIMIT then io_throw pool_walk_error
      else io_bind (outside (eth_getDelegator env bm addr)) (\<lambda>delegator.
           io_bind (outside (eth_getNextTranscoderInPool env bm addr)) (\<lambda>next.
           pool_loop env bm (Suc steps) next
             (out @ [\<lparr>be_address = addr, be_totalStakeWei = show_nat (delegated_amount delegator)\<rparr>]))))"
  by pat_completeness auto

termination
  by (relation "measure (\<lambda>(env, bm, steps, addr, out). POOL_WALK_SAFETY_LIMIT - steps)")
    (auto simp: POOL_WALK_SAFETY_LIMIT_def)

declare pool_loop.simps [simp del]

definition bondingManagerListPool :: "'w env \<Rightarrow> string \<Rightarrow> ('w, BondingPoolEntry list) act" where
  "bondingManagerListPool env bondingManager =
     io_bind (outside (eth_getFirstTranscoderInPool env bondingManager)) (\<lambda>addr.
     pool_loop env bondingManager 0 addr [])"

definition getReserveInfo :: "'w env \<Rightarrow> string \<Rightarrow> string \<Rightarrow> ('w, ReserveInfo) act" where
  "getReserveInfo env ticketBroker sender =
     io_bind (outside (eth_getSenderInfo env ticketBroker sender)) (\<lambda>(senderInfo, reserveInfo).
     io_return \<lparr>rv_depositWei = show_nat (fst senderInfo), rv_reserveWei = show_nat (fst reserveInfo)\<rparr>)"

definition readServiceUri :: "'w env \<Rightarrow> string \<Rightarrow> string \<Rightarrow> ('w, string) act" where
  "readServiceUri env serviceRegistry orchAddress = outside (eth_getServiceURI env serviceRegistry orchAddress)"

definition getBalance :: "'w env \<Rightarrow> string \<Rightarrow> ('w, string) act" where
  "getBalance env address = io_bind (outside (eth_getBalance env address)) (\<lambda>balance. io_return (show_nat balance))"

section \<open>The walk ends within its limit\<close>

lemma pool_loop_bounds:
  assumes "pool_loop env bm steps addr out s = (Inr es, s')"
    and "steps \<le> POOL_WALK_SAFETY_LIMIT" and "length out = steps"
    and "\<forall>e\<in>set out. js_lower (be_address e) \<noteq> ZERO_ADDRESS"
  shows "length es \<le> POOL_WALK_SAFETY_LIMIT \<and> (\<forall>e\<in>set es. js_lower (be_address e) \<noteq> ZERO_ADDRESS)"
  using assms
proof (induction env bm steps addr out arbitrary: s es s' rule: pool_loop.induct)
  case (1 env bm steps addr out)
  consider (zero) "js_lower addr = ZERO_ADDRESS"
    | (limit) "js_lower addr \<noteq> ZERO_ADDRESS" "Suc steps > POOL_WALK_SAFETY_LIMIT"
    | (step) "js_lower addr \<noteq> ZERO_ADDRESS" "\<not> Suc steps > POOL_WALK_SAFETY_LIMIT"
    by blast
  then show ?case
  proof cases
    case zero
    with "1.prems" show ?thesis by (subst (asm) pool_loop.simps) simp
  next
    case limit
    with "1.prems" show ?thesis by (subst (asm) pool_loop.simps) simp
  next
    case step
    let ?e = "\<lambda>d. \<lparr>be_address = addr, be_totalStakeWei = show_nat (delegated_amount d)\<rparr>"
    from "1.prems"(1) step obtain d n t where
      "pool_loop env bm (Suc steps) n (out @ [?e d]) t = (Inr es, s')"
      by (subst (asm) pool_loop.simps) (auto simp: io_bind_Inr)
    from "1.IH" [OF step this] step "1.prems" show ?thesis by auto
  qed
qed

lemma pool_loop_errors:
  assumes "pool_loop env bm steps addr out s = (Inl e, s')"
  shows "e = pool_walk_error \<or> (\<exists>a w w'. eth_getDelegator env bm a w = (Inl e, w'))
    \<or> (\<exists>a w w'. eth_getNextTranscoderInPool env bm a w = (Inl e, w'))"
  using assms
proof (induction env bm steps addr out arbitrary: s s' rule: pool_loop.induct)
  case (1 env bm steps addr out)
  consider (zero) "js_lower addr = ZERO_ADDRESS"
    | (limit) "js_lower addr \<noteq> ZERO_ADDRESS" "Suc steps > POOL_WALK_SAFETY_LIMIT"
    | (step) "js_lower addr \<noteq> ZERO_ADDRESS" "\<not> Suc steps > POOL_WALK_SAFETY_LIMIT"
    by blast
  then show ?case
  proof cases
    case zero
    with "1.prems" show ?thesis by (subst (asm) pool_loop.simps) simp
  next
    case limit
    with "1.prems" show ?thesis by (subst (asm) pool_loop.simps) simp
  next
    case step
    let ?e = "\<lambda>d. \<lparr>be_address = addr, be_totalStakeWei = show_nat (delegated_amount d)\<rparr>"
    from "1.prems" step consider (del) "outside (eth_getDelegator env bm addr) s = (Inl e, s')"
      | (nxt) t where "outside (eth_getNextTranscoderInPool env bm addr) t = (Inl e, s')"
      | (rest) d n t where "pool_loop env bm (Suc steps) n (out @ [?e d]) t = (Inl e, s')"
      by (subst (asm) pool_loop.simps) (auto simp: io_bind_Inl)
    then show ?thesis
    proof cases
      case del
      then show ?thesis using outside_Inl by blast
    next
      case nxt
      then show ?thesis using outside_Inl by blast
    next
      case rest
      with "1.IH" [OF step] show ?thesis by blast
    qed
  qed
qed

text \<open>Whatever the chain answers, even a list that changes during the walk or runs in a
  circle, the pool walk returns at most 1000 entries, none of them the zero address, or
  throws: its own error or that of a contract call.\<close>

theorem pool_walk_bounded:
  "case bondingManagerListPool env bm s of
     (Inr es, s') \<Rightarrow> length es \<le> 1000 \<and> list_all (\<lambda>e. js_lower (be_address e) \<noteq> ZERO_ADDRESS) es
   | (Inl e, s') \<Rightarrow> e = pool_walk_error
       \<or> (\<exists>w w'. eth_getFirstTranscoderInPool env bm w = (Inl e, w'))
       \<or> (\<exists>a w w'. eth_getDelegator env bm a w = (Inl e, w'))
       \<or> (\<exists>a w w'. eth_getNextTranscoderInPool env bm a w = (Inl e, w'))"
proof -
  obtain r w where f: "eth_getFirstTranscoderInPool env bm (ext s) = (r, w)" by fastforce
  show ?thesis
  proof (cases r)
    case (Inl e)
    with f show ?thesis by (auto simp: bondingManagerListPool_def io_bind_def outside_def)
  next
    case (Inr a)
    then have run: "bondingManagerListPool env bm s = pool_loop env bm 0 a [] (s\<lparr>ext := w\<rparr>)"
      using f by (simp add: bondingManagerListPool_def io_bind_def outside_def)
    obtain q s' where q: "pool_loop env bm 0 a [] (s\<lparr>ext := w\<rparr>) = (q, s')" by fastforce
    show ?thesis
    proof (cases q)
      case (Inl e)
      with q pool_loop_errors [of env bm 0 a "[]" "s\<lparr>ext := w\<rparr>" e s'] have
        "e = pool_walk_error \<or> (\<exists>a w w'. eth_getDelegator env bm a w = (Inl e, w'))
          \<or> (\<exists>a w w'. eth_getNextTranscoderInPool env bm a w = (Inl e, w'))" by simp
      then show ?thesis unfolding run q Inl prod.case sum.case by blast
    next
      case (Inr es)
      with q have "length es \<le> POOL_WALK_SAFETY_LIMIT"
        and "\<forall>e\<in>set es. js_lower (be_address e) \<noteq> ZERO_ADDRESS"
        using pool_loop_bounds [of env bm 0 a "[]" "s\<lparr>ext := w\<rparr>" es s'] by simp_all
      with q run Inr show ?thesis by (simp add: list_all_iff POOL_WALK_SAFETY_LIMIT_def)
    qed
  qed
qed

section \<open>The walk on a pool that stands still\<close>

text \<open>
  \<open>static_pool\<close>: the three contract reads answer from a first address, a successor function
  and a stake function, and change nothing. \<open>pool_chain\<close>: the list that starts at an address
  and follows the successors up to the zero address.
\<close>

definition static_pool ::
    "'w env \<Rightarrow> string \<Rightarrow> string \<Rightarrow> (string \<Rightarrow> string) \<Rightarrow> (string \<Rightarrow> delegator) \<Rightarrow> bool" where
  "static_pool env bm first nxt delegator \<longleftrightarrow>
     (\<forall>w. eth_getFirstTranscoderInPool env bm w = (Inr first, w)) \<and>
     (\<forall>a w. eth_getNextTranscoderInPool env bm a w = (Inr (nxt a), w)) \<and>
     (\<forall>a w. eth_getDelegator env bm a w = (Inr (delegator a), w))"

fun pool_chain :: "(string \<Rightarrow> string) \<Rightarrow> string \<Rightarrow> string list \<Rightarrow> bool" where
  "pool_chain nxt a [] \<longleftrightarrow> js_lower a = ZERO_ADDRESS"
| "pool_chain nxt a (x # xs) \<longleftrightarrow> a = x \<and> js_lower x \<noteq> ZERO_ADDRESS \<and> pool_chain nxt (nxt x) xs"

definition pool_entry :: "(string \<Rightarrow> delegator) \<Rightarrow> string \<Rightarrow> BondingPoolEntry" where
  "pool_entry delegator a = \<lparr>be_address = a, be_totalStakeWei = show_nat (delegated_amount (delegator a))\<rparr>"

lemma pool_loop_static:
  assumes "static_pool env bm first nxt delegator"
  shows "pool_chain nxt a xs \<Longrightarrow> steps \<le> POOL_WALK_SAFETY_LIMIT \<Longrightarrow>
    pool_loop env bm steps a out s =
      (if steps + length xs \<le> POOL_WALK_SAFETY_LIMIT then (Inr (out @ map (pool_entry delegator) xs), s)
       else (Inl pool_walk_error, s))"
proof (induction xs arbitrary: a steps out)
  case Nil
  then show ?case by (subst pool_loop.simps) simp
next
  case (Cons x xs)
  then have a: "a = x" "js_lower x \<noteq> ZERO_ADDRESS" and c: "pool_chain nxt (nxt x) xs" by simp_all
  show ?case
  proof (cases "Suc steps > POOL_WALK_SAFETY_LIMIT")
    case True
    with a show ?thesis by (subst pool_loop.simps) simp
  next
    case False
    have d: "outside (eth_getDelegator env bm x) s = (Inr (delegator x), s)"
      and n: "outside (eth_getNextTranscoderInPool env bm x) s = (Inr (nxt x), s)"
      using assms by (simp_all add: static_pool_def outside_pure)
    have "pool_loop env bm steps a out s =
        pool_loop env bm (Suc steps) (nxt x) (out @ [pool_entry delegator x]) s"
      using a False by (subst pool_loop.simps) (simp add: d n pool_entry_def)
    with Cons.IH [OF c, of "Suc steps"] False show ?thesis by simp
  qed
qed

lemma bondingManagerListPool_static:
  assumes "static_pool env bm first nxt delegator" and "pool_chain nxt first xs"
  shows "bondingManagerListPool env bm s =
    (if length xs \<le> 1000 then (Inr (map (pool_entry delegator) xs), s) else (Inl pool_walk_error, s))"
proof -
  have "outside (eth_getFirstTranscoderInPool env bm) s = (Inr first, s)"
    using assms(1) by (simp add: static_pool_def outside_pure)
  then show ?thesis
    using pool_loop_static [OF assms(1,2), of 0 "[]" s]
    by (simp add: bondingManagerListPool_def POOL_WALK_SAFETY_LIMIT_def)
qed

text \<open>C16. On a pool that does not change during the walk, the walk returns exactly the
  orchestrators of the linked list, in its order and each with its delegated amount in
  decimal, where there are at most 1000; a longer list is the walk's error, and never a
  truncated result.\<close>

theorem pool_walk_exact:
  assumes "static_pool env bm first nxt delegator" and "pool_chain nxt first xs"
  shows "bondingManagerListPool env bm s =
    (if length xs \<le> 1000 then (Inr (map (pool_entry delegator) xs), s) else (Inl pool_walk_error, s))"
  using assms by (rule bondingManagerListPool_static)

definition two_pool_env :: "'w env" where
  "two_pool_env = still_env
     \<lparr>eth_getFirstTranscoderInPool := (\<lambda>_. io_return ''0xA''),
      eth_getNextTranscoderInPool := (\<lambda>_ a. io_return (if a = ''0xA'' then ''0xb'' else ZERO_ADDRESS)),
      eth_getDelegator := (\<lambda>_ a. io_return (0, 0, if a = ''0xA'' then 70 else 5, [], 0, 0, 0, 0))\<rparr>"

theorem pool_walk_exact_witness:
  "bondingManagerListPool two_pool_env ''0xbm'' still_sys =
    (Inr [\<lparr>be_address = ''0xA'', be_totalStakeWei = ''70''\<rparr>,
          \<lparr>be_address = ''0xb'', be_totalStakeWei = ''5''\<rparr>], still_sys)"
proof -
  let ?nxt = "\<lambda>a. if a = ''0xA'' then ''0xb'' else ZERO_ADDRESS"
  let ?del = "\<lambda>a. (0, 0, if a = ''0xA'' then 70 else 5, [], 0, 0, 0, 0) :: delegator"
  have sn: "show_nat 70 = ''70''" "show_nat 5 = ''5''"
    by (simp_all add: show_nat.simps [of 70] show_nat.simps [of 7] show_nat.simps [of 5] digit_chars)
  have "static_pool two_pool_env ''0xbm'' ''0xA'' ?nxt ?del"
    by (simp add: static_pool_def two_pool_env_def)
  moreover have "pool_chain ?nxt ''0xA'' [''0xA'', ''0xb'']"
    by (simp add: ZERO_ADDRESS_def js_lower_def js_lower_char_def)
  ultimately show ?thesis
    using pool_walk_exact [of two_pool_env "''0xbm''" "''0xA''" ?nxt ?del "[''0xA'', ''0xb'']" still_sys]
    by (simp add: pool_entry_def delegated_amount_def sn)
qed

section \<open>Frames\<close>

lemma keeps_pool_loop [keeps_intros]:
  "keeps db (pool_loop env bm steps addr out)" "keeps cache (pool_loop env bm steps addr out)"
proof (induction env bm steps addr out rule: pool_loop.induct)
  case (1 env bm steps addr out)
  case 1
  then show ?case using "1.IH"(1) by (subst pool_loop.simps) (auto intro!: keeps_intros)
next
  case (1 env bm steps addr out)
  case 2
  then show ?case using "1.IH"(2) by (subst pool_loop.simps) (auto intro!: keeps_intros)
qed

lemma keeps_chain [keeps_intros]:
  "keeps db (resolveBondingManager env c)" "keeps cache (resolveBondingManager env c)"
  "keeps db (resolveServiceRegistry env c)" "keeps cache (resolveServiceRegistry env c)"
  "keeps db (bondingManagerListPool env bm)" "keeps cache (bondingManagerListPool env bm)"
  "keeps db (readServiceUri env sr a)" "keeps cache (readServiceUri env sr a)"
  "keeps db (getBalance env a)" "keeps cache (getBalance env a)"
  unfolding resolveBondingManager_def resolveServiceRegistry_def resolveByName_def
    bondingManagerListPool_def readServiceUri_def getBalance_def
  by (intro keeps_intros)+

end
