(* ===== verification/TtlCache.thy ===== *)
theory TtlCache
  imports World
begin

text \<open>
  The memo of the chain reads (\<^verbatim>\<open>createTtlCache\<close> in \<^verbatim>\<open>src/service/routing/index.ts\<close>),
  modelled twice. The machine has the code's own objects: the entries with their promises,
  the store from keys to entries, and the interleaving of lookups with the loads that settle
  later. The function \<open>getOrLoad\<close> on the system's cache is a lookup whose load runs to its
  end before anything else; the other components use it. The lemmas show what the machine
  guarantees under any interleaving, where it does not keep loads unique, and that the
  function is the machine run without interleaving.
\<close>

section \<open>The machine\<close>

datatype 'v settlement = Pending | Fulfilled 'v | Rejected js_error

text \<open>
  An entry, with the time its load began, which the code does not store; entries are
  numbered in the order they are made, and an entry's number also names its promise.
\<close>

record 'v Entry =
  en_key :: string
  en_startedAt :: int
  en_expiresAt :: int
  en_state :: "'v settlement"

record 'v machine =
  ms_now :: int
  ms_entries :: "'v Entry list"
  ms_store :: "string \<rightharpoonup> nat"

definition init_machine :: "int \<Rightarrow> 'v machine" where
  "init_machine t = \<lparr>ms_now = t, ms_entries = [], ms_store = Map.empty\<rparr>"

text \<open>
  A lookup: the entry whose promise or value the caller gets, and whether its loader was
  started by this call.
\<close>

definition machine_get :: "int \<Rightarrow> string \<Rightarrow> 'v machine \<Rightarrow> nat \<times> bool \<times> 'v machine" where
  "machine_get ttlMs key m =
     (let t = ms_now m;
          i = length (ms_entries m);
          entry = \<lparr>en_key = key, en_startedAt = t, en_expiresAt = t + ttlMs, en_state = Pending\<rparr>;
          m' = m\<lparr>ms_entries := ms_entries m @ [entry], ms_store := (ms_store m)(key \<mapsto> i)\<rparr>
      in case ms_store m key of
           Some j \<Rightarrow> if en_expiresAt (ms_entries m ! j) > t then (j, False, m) else (i, True, m')
         | None \<Rightarrow> (i, True, m'))"

text \<open>The load of an entry ends: with a value, or with an error, which drops the entry's key.\<close>

definition machine_settle :: "nat \<Rightarrow> js_error + 'v \<Rightarrow> 'v machine \<Rightarrow> 'v machine" where
  "machine_settle i r m =
     (let e = ms_entries m ! i
      in case r of
           Inr v \<Rightarrow> m\<lparr>ms_entries := (ms_entries m)[i := e\<lparr>en_state := Fulfilled v\<rparr>]\<rparr>
         | Inl err \<Rightarrow> m\<lparr>ms_entries := (ms_entries m)[i := e\<lparr>en_state := Rejected err\<rparr>],
                       ms_store := (ms_store m)(en_key e := None)\<rparr>)"

text \<open>
  The steps: a lookup, the end of a pending load, and the clock taking any other value
  (\<^verbatim>\<open>Date.now\<close> may step back).
\<close>

datatype 'v event = EvGet string nat bool | EvSettle nat "js_error + 'v" | EvClock int

inductive mstep :: "int \<Rightarrow> 'v machine \<Rightarrow> 'v event \<Rightarrow> 'v machine \<Rightarrow> bool" for ttlMs where
  get: "machine_get ttlMs key m = (i, started, m') \<Longrightarrow> mstep ttlMs m (EvGet key i started) m'"
| settle: "i < length (ms_entries m) \<Longrightarrow> en_state (ms_entries m ! i) = Pending \<Longrightarrow>
    mstep ttlMs m (EvSettle i r) (machine_settle i r m)"
| clock: "mstep ttlMs m (EvClock t) (m\<lparr>ms_now := t\<rparr>)"

inductive mrun :: "int \<Rightarrow> 'v machine \<Rightarrow> 'v event list \<Rightarrow> 'v machine \<Rightarrow> bool" for ttlMs where
  nil: "mrun ttlMs m [] m"
| snoc: "mrun ttlMs m es m' \<Longrightarrow> mstep ttlMs m' e m'' \<Longrightarrow> mrun ttlMs m (es @ [e]) m''"

inductive_cases mstepE: "mstep ttlMs m e m'"
inductive_simps mstep_get_iff: "mstep ttlMs m (EvGet key i started) m'"
inductive_simps mstep_settle_iff: "mstep ttlMs m (EvSettle i r) m'"
inductive_simps mstep_clock_iff: "mstep ttlMs m (EvClock t) m'"

lemmas mstep_iffs = mstep_get_iff mstep_settle_iff mstep_clock_iff

definition reachable :: "int \<Rightarrow> 'v machine \<Rightarrow> bool" where
  "reachable ttlMs m \<longleftrightarrow> (\<exists>t es. mrun ttlMs (init_machine t) es m)"

section \<open>The invariant\<close>

text \<open>
  Every stored key points to an entry of that key that has not failed, and every entry
  expires the cache's window after its load began.
\<close>

definition minv :: "int \<Rightarrow> 'v machine \<Rightarrow> bool" where
  "minv ttlMs m \<longleftrightarrow>
     (\<forall>k i. ms_store m k = Some i \<longrightarrow>
        i < length (ms_entries m) \<and> en_key (ms_entries m ! i) = k
        \<and> (\<forall>err. en_state (ms_entries m ! i) \<noteq> Rejected err))
     \<and> (\<forall>e\<in>set (ms_entries m). en_expiresAt e = en_startedAt e + ttlMs)"

lemma minv_init: "minv ttlMs (init_machine t)"
  by (simp add: minv_def init_machine_def)

lemma minv_get: "minv ttlMs m \<Longrightarrow> machine_get ttlMs key m = (i, st, m') \<Longrightarrow> minv ttlMs m'"
  by (auto simp: minv_def machine_get_def nth_append less_SucI split: option.splits if_splits)

lemma minv_settle:
  assumes "minv ttlMs m" and "i < length (ms_entries m)"
  shows "minv ttlMs (machine_settle i r m)"
proof (cases r)
  case (Inl err)
  then show ?thesis using assms
    by (auto simp: minv_def machine_settle_def nth_list_update set_conv_nth)
next
  case (Inr v)
  then show ?thesis using assms
    by (auto simp: minv_def machine_settle_def nth_list_update set_conv_nth)
qed

lemma minv_step: "mstep ttlMs m e m' \<Longrightarrow> minv ttlMs m \<Longrightarrow> minv ttlMs m'"
  by (erule mstepE) (auto simp: minv_get minv_settle, auto simp: minv_def)

lemma minv_run: "mrun ttlMs m es m' \<Longrightarrow> minv ttlMs m \<Longrightarrow> minv ttlMs m'"
  by (induction rule: mrun.induct) (auto intro: minv_step)

lemma minv_reachable: "reachable ttlMs m \<Longrightarrow> minv ttlMs m"
  unfolding reachable_def using minv_run minv_init by blast

lemma machine_get_entry:
  assumes "minv ttlMs m" and "machine_get ttlMs key m = (i, started, m')" and "0 < ttlMs"
  shows "i < length (ms_entries m') \<and> en_key (ms_entries m' ! i) = key
    \<and> ms_now m - ttlMs < en_startedAt (ms_entries m' ! i)
    \<and> (\<forall>err. en_state (ms_entries m' ! i) \<noteq> Rejected err)
    \<and> (started \<longrightarrow> i = length (ms_entries m) \<and> en_startedAt (ms_entries m' ! i) = ms_now m)"
proof (cases "ms_store m key")
  case None
  then show ?thesis using assms by (auto simp: machine_get_def)
next
  case (Some j)
  then have j: "j < length (ms_entries m)" "en_key (ms_entries m ! j) = key"
    "\<forall>err. en_state (ms_entries m ! j) \<noteq> Rejected err"
    "en_expiresAt (ms_entries m ! j) = en_startedAt (ms_entries m ! j) + ttlMs"
    using assms(1) by (auto simp: minv_def)
  show ?thesis
  proof (cases "en_expiresAt (ms_entries m ! j) > ms_now m")
    case True
    then show ?thesis using assms(2) Some j by (auto simp: machine_get_def)
  next
    case False
    then show ?thesis using assms(2,3) Some by (auto simp: machine_get_def)
  qed
qed

text \<open>Cache lookups under any interleaving: a caller gets an entry of its own key whose
  load began less than the window ago and has not failed so far, so no failure is ever
  served from the cache; and a call that starts a load gets the entry of that load, begun
  now.\<close>

theorem cache_lookup_fresh:
  assumes "reachable ttlMs m" and "machine_get ttlMs key m = (i, started, m')" and "0 < ttlMs"
  shows "en_key (ms_entries m' ! i) = key
    \<and> ms_now m - ttlMs < en_startedAt (ms_entries m' ! i)
    \<and> (\<forall>err. en_state (ms_entries m' ! i) \<noteq> Rejected err)
    \<and> (started \<longrightarrow> en_startedAt (ms_entries m' ! i) = ms_now m)"
  using machine_get_entry [OF minv_reachable] assms by blast

lemma reachable_init: "reachable ttlMs (init_machine t)"
  unfolding reachable_def using mrun.nil by blast

theorem cache_lookup_fresh_witness:
  "\<exists>m'. machine_get 10 ''k'' (init_machine 5 :: nat machine) = (0, True, m')
    \<and> en_startedAt (ms_entries m' ! 0) = 5"
proof -
  let ?m = "init_machine 5 :: nat machine"
  obtain m' where g: "machine_get 10 ''k'' ?m = (0, True, m')"
    by (simp add: machine_get_def init_machine_def)
  from cache_lookup_fresh [OF reachable_init g] g show ?thesis by (simp add: init_machine_def)
qed

section \<open>Single flight\<close>

text \<open>
  What stays true of a key while no load of it fails: it points to the entry, whose
  expiry is fixed.
\<close>

definition held :: "string \<Rightarrow> nat \<Rightarrow> int \<Rightarrow> 'v machine \<Rightarrow> bool" where
  "held key i expires m \<longleftrightarrow>
     ms_store m key = Some i \<and> i < length (ms_entries m) \<and> en_expiresAt (ms_entries m ! i) = expires"

text \<open>An event that neither makes a load of the key fail nor moves the clock to the expiry.\<close>

fun undisturbed :: "string \<Rightarrow> int \<Rightarrow> 'v machine \<Rightarrow> 'v event \<Rightarrow> bool" where
  "undisturbed key expires m (EvSettle j (Inl err)) = (en_key (ms_entries m ! j) \<noteq> key)"
| "undisturbed key expires m (EvClock t) = (t < expires)"
| "undisturbed key expires m e = True"

inductive quiet_run :: "int \<Rightarrow> string \<Rightarrow> int \<Rightarrow> 'v machine \<Rightarrow> 'v event list \<Rightarrow> 'v machine \<Rightarrow> bool"
  for ttlMs key expires where
  nil: "quiet_run ttlMs key expires m [] m"
| snoc: "quiet_run ttlMs key expires m es m' \<Longrightarrow> mstep ttlMs m' e m'' \<Longrightarrow>
    undisturbed key expires m' e \<Longrightarrow> quiet_run ttlMs key expires m (es @ [e]) m''"

lemma held_step:
  assumes "mstep ttlMs m e m'" and "undisturbed key x m e" and "held key i x m" and "ms_now m < x"
  shows "held key i x m' \<and> ms_now m' < x \<and> (\<forall>j st. e = EvGet key j st \<longrightarrow> j = i \<and> \<not> st)"
  using assms(1)
proof (cases rule: mstep.cases)
  case (get k j st)
  then show ?thesis using assms(3,4)
    by (auto simp: machine_get_def held_def nth_append split: option.splits if_splits)
next
  case (settle j r)
  then show ?thesis using assms
    by (cases r) (auto simp: machine_settle_def held_def nth_list_update)
next
  case (clock t)
  then show ?thesis using assms by (auto simp: held_def)
qed

lemma held_run:
  assumes "quiet_run ttlMs key x m es m'" and "held key i x m" and "ms_now m < x"
  shows "held key i x m' \<and> ms_now m' < x \<and> (\<forall>j st. EvGet key j st \<in> set es \<longrightarrow> j = i \<and> \<not> st)"
  using assms
proof (induction rule: quiet_run.induct)
  case (nil m)
  then show ?case by simp
next
  case (snoc m es m' e m'')
  then have "held key i x m'" "ms_now m' < x" "\<forall>j st. EvGet key j st \<in> set es \<longrightarrow> j = i \<and> \<not> st"
    by blast+
  with held_step [OF snoc.hyps(2,3)] show ?case by auto
qed

lemma held_after_start:
  assumes "machine_get ttlMs key m = (i, True, m')"
  shows "held key i (ms_now m + ttlMs) m' \<and> ms_now m' = ms_now m"
  using assms by (auto simp: machine_get_def held_def split: option.splits if_splits)



text \<open>A stale failure breaks single flight: when the load of an expired entry fails
  after a newer load of the same key began, the newer entry is dropped although it is
  pending and not expired, and the next call starts a further load beside it.\<close>

theorem stale_failure_drops_newer:
  "\<exists>m1 m2 m3. mrun 10 (init_machine 0 :: nat machine)
       [EvGet ''k'' 0 True, EvClock 10, EvGet ''k'' 1 True] m1
     \<and> mstep 10 m1 (EvSettle 0 (Inl (PlainError ''timeout''))) m2
     \<and> mstep 10 m2 (EvGet ''k'' 2 True) m3
     \<and> en_state (ms_entries m3 ! 1) = Pending \<and> ms_now m3 < en_expiresAt (ms_entries m3 ! 1)"
proof -
  let ?a0 = "init_machine 0 :: nat machine"
  let ?a1 = "snd (snd (machine_get 10 ''k'' ?a0))"
  let ?a2 = "?a1\<lparr>ms_now := 10\<rparr>"
  let ?a3 = "snd (snd (machine_get 10 ''k'' ?a2))"
  let ?a4 = "machine_settle 0 (Inl (PlainError ''timeout'')) ?a3"
  let ?a5 = "snd (snd (machine_get 10 ''k'' ?a4))"
  have s1: "mstep 10 ?a0 (EvGet ''k'' 0 True) ?a1"
    and s3: "mstep 10 ?a2 (EvGet ''k'' 1 True) ?a3"
    and s5: "mstep 10 ?a4 (EvGet ''k'' 2 True) ?a5"
    by (rule mstep.get, simp add: machine_get_def machine_settle_def init_machine_def)+
  have s4: "mstep 10 ?a3 (EvSettle 0 (Inl (PlainError ''timeout''))) ?a4"
    by (rule mstep.settle) (simp_all add: machine_get_def init_machine_def)
  have "mrun 10 ?a0 ((([] @ [EvGet ''k'' 0 True]) @ [EvClock 10]) @ [EvGet ''k'' 1 True]) ?a3"
    by (rule mrun.snoc [OF mrun.snoc [OF mrun.snoc [OF mrun.nil s1] mstep.clock] s3])
  moreover have "en_state (ms_entries ?a5 ! 1) = Pending" "ms_now ?a5 < en_expiresAt (ms_entries ?a5 ! 1)"
    by (simp_all add: machine_get_def machine_settle_def init_machine_def)
  ultimately show ?thesis using s4 s5 by (simp, blast)
qed

section \<open>The memo as a function\<close>

text \<open>
  The three operations on the stored values: the value a lookup serves at a time, storing
  a value with its expiry, and dropping a key.
\<close>

definition cache_hit :: "int \<Rightarrow> string \<Rightarrow> (string \<rightharpoonup> centry) \<Rightarrow> cval option" where
  "cache_hit t key c =
     (case c key of Some e \<Rightarrow> (if ce_expiresAt e > t then Some (ce_value e) else None) | None \<Rightarrow> None)"

definition cache_put :: "string \<Rightarrow> int \<Rightarrow> cval \<Rightarrow> (string \<rightharpoonup> centry) \<Rightarrow> (string \<rightharpoonup> centry)" where
  "cache_put key expires v c = c(key \<mapsto> \<lparr>ce_expiresAt = expires, ce_value = v\<rparr>)"

definition cache_drop :: "string \<Rightarrow> (string \<rightharpoonup> centry) \<Rightarrow> (string \<rightharpoonup> centry)" where
  "cache_drop key c = c(key := None)"

definition update_cache :: "((string \<rightharpoonup> centry) \<Rightarrow> (string \<rightharpoonup> centry)) \<Rightarrow> ('w, unit) act" where
  "update_cache f = (\<lambda>s. (Inr (), s\<lparr>cache := f (cache s)\<rparr>))"

definition look_cache :: "int \<Rightarrow> string \<Rightarrow> ('w, cval option) act" where
  "look_cache t key = (\<lambda>s. (Inr (cache_hit t key (cache s)), s))"

text \<open>
  A pending entry takes the place of the one before it, then the load runs, and its value
  is stored or its key dropped.
\<close>

definition getOrLoad :: "'w env \<Rightarrow> int \<Rightarrow> string \<Rightarrow> ('w, cval) act \<Rightarrow> ('w, cval) act" where
  "getOrLoad env ttlMs key loader =
     io_bind (observe (date_now env)) (\<lambda>t.
     io_bind (look_cache t key) (\<lambda>cached.
     case cached of
       Some v \<Rightarrow> io_return v
     | None \<Rightarrow>
         io_bind (update_cache (cache_drop key)) (\<lambda>_.
         io_catch
           (io_bind loader (\<lambda>value.
            io_bind (update_cache (cache_put key (t + ttlMs) value)) (\<lambda>_. io_return value)))
           (\<lambda>err. io_bind (update_cache (cache_drop key)) (\<lambda>_. io_throw err)))))"

section \<open>The interface of the memo\<close>

text \<open>
  What a client of the memo relies on. From the laws alone: an assertion about every value
  the memo may serve, key by key, is kept by the operations.
\<close>

locale memo_store =
  fixes hit :: "int \<Rightarrow> string \<Rightarrow> 'c \<Rightarrow> 'v option"
    and put :: "string \<Rightarrow> int \<Rightarrow> 'v \<Rightarrow> 'c \<Rightarrow> 'c"
    and drop_key :: "string \<Rightarrow> 'c \<Rightarrow> 'c"
  assumes hit_put: "hit t k (put k x v c) = (if x > t then Some v else None)"
    and hit_put_other: "k \<noteq> k' \<Longrightarrow> hit t k' (put k x v c) = hit t k' c"
    and hit_drop: "hit t k (drop_key k c) = None"
    and hit_drop_other: "k \<noteq> k' \<Longrightarrow> hit t k' (drop_key k c) = hit t k' c"
begin

lemma put_serves:
  "(\<And>t k' v'. hit t k' c = Some v' \<Longrightarrow> P k' v') \<Longrightarrow> P k v \<Longrightarrow> hit t k' (put k x v c) = Some v' \<Longrightarrow> P k' v'"
  by (cases "k = k'") (auto simp: hit_put hit_put_other split: if_splits)

lemma drop_serves:
  "(\<And>t k' v'. hit t k' c = Some v' \<Longrightarrow> P k' v') \<Longrightarrow> hit t k' (drop_key k c) = Some v' \<Longrightarrow> P k' v'"
  by (cases "k = k'") (auto simp: hit_drop hit_drop_other)

end

interpretation memo: memo_store cache_hit cache_put cache_drop
  by unfold_locales (auto simp: cache_hit_def cache_put_def cache_drop_def)

text \<open>\<open>serves P c\<close>: every value the memo may serve, at any time, satisfies \<open>P\<close> for its key.\<close>

definition serves :: "(string \<Rightarrow> cval \<Rightarrow> bool) \<Rightarrow> (string \<rightharpoonup> centry) \<Rightarrow> bool" where
  "serves P c \<longleftrightarrow> (\<forall>t k v. cache_hit t k c = Some v \<longrightarrow> P k v)"

lemma serves_put: "serves P c \<Longrightarrow> P k v \<Longrightarrow> serves P (cache_put k x v c)"
  unfolding serves_def using memo.put_serves [of c P k v] by blast

lemma serves_drop: "serves P c \<Longrightarrow> serves P (cache_drop k c)"
  unfolding serves_def using memo.drop_serves [of c P] by blast

lemma serves_empty: "serves P Map.empty"
  by (simp add: serves_def cache_hit_def)

text \<open>One lookup, on every branch.\<close>

lemma getOrLoad_outcome:
  assumes "date_now env (ext s) = (t, w)"
  shows "getOrLoad env ttlMs key loader s =
    (case cache_hit t key (cache s) of
       Some v \<Rightarrow> (Inr v, s\<lparr>ext := w\<rparr>)
     | None \<Rightarrow> (case loader (s\<lparr>ext := w, cache := cache_drop key (cache s)\<rparr>) of
           (Inr v, s') \<Rightarrow> (Inr v, s'\<lparr>cache := cache_put key (t + ttlMs) v (cache s')\<rparr>)
         | (Inl e, s') \<Rightarrow> (Inl e, s'\<lparr>cache := cache_drop key (cache s')\<rparr>)))"
  using assms
  by (auto simp: getOrLoad_def look_cache_def update_cache_def io_simps io_bind_def io_catch_def
        split: option.splits prod.splits sum.splits)

text \<open>\<open>serving P\<close>: the state assertion that the memo serves values satisfying \<open>P\<close> only.\<close>

definition serving :: "(string \<Rightarrow> cval \<Rightarrow> bool) \<Rightarrow> 'w sys \<Rightarrow> bool" where
  "serving P s \<longleftrightarrow> serves P (cache s)"

lemma ensures_getOrLoad:
  assumes "ensures (serving P) (ok_or b (P key)) loader"
  shows "ensures (serving P) (ok_or b (P key)) (getOrLoad env ttlMs key loader)"
proof (rule ensuresI)
  fix s r s' assume P: "serving P s" and run: "getOrLoad env ttlMs key loader s = (r, s')"
  obtain t w where n: "date_now env (ext s) = (t, w)" by fastforce
  show "serving P s' \<and> ok_or b (P key) r"
  proof (cases "cache_hit t key (cache s)")
    case None
    let ?s0 = "s\<lparr>ext := w, cache := cache_drop key (cache s)\<rparr>"
    obtain q s1 where l: "loader ?s0 = (q, s1)" by fastforce
    have "serving P ?s0" using P serves_drop by (simp add: serving_def)
    from ensuresD [OF assms this l] have "serves P (cache s1)" "ok_or b (P key) q"
      by (simp_all add: serving_def)
    then show ?thesis using run l None
      by (cases q) (auto simp: getOrLoad_outcome [OF n] serves_put serves_drop serving_def)
  next
    case (Some v)
    then show ?thesis using run P by (auto simp: getOrLoad_outcome [OF n] serves_def serving_def)
  qed
qed

lemma ensures_cache_frame: "keeps cache m \<Longrightarrow> (\<And>s. R (fst (m s))) \<Longrightarrow> ensures (serving P) R m"
  using ensures_frame [of cache m R "serves P"] by (simp add: serving_def [abs_def])

lemma keeps_update_cache [keeps_intros]: "keeps db (update_cache f)"
  by (simp add: keeps_def update_cache_def)

lemma keeps_look_cache [keeps_intros]: "keeps p (look_cache t key)"
  by (simp add: keeps_def look_cache_def)

lemma keeps_getOrLoad [keeps_intros]: "keeps db loader \<Longrightarrow> keeps db (getOrLoad env ttlMs key loader)"
  unfolding getOrLoad_def by (intro keeps_intros)

section \<open>The function is the machine without interleaving\<close>

definition machine_abs :: "cval machine \<Rightarrow> (string \<rightharpoonup> centry)" where
  "machine_abs m = (\<lambda>k. case ms_store m k of None \<Rightarrow> None
     | Some i \<Rightarrow> (case en_state (ms_entries m ! i) of
         Fulfilled v \<Rightarrow> Some \<lparr>ce_expiresAt = en_expiresAt (ms_entries m ! i), ce_value = v\<rparr>
       | _ \<Rightarrow> None))"

text \<open>No load that a lookup could join is still running.\<close>

definition quiescent :: "'v machine \<Rightarrow> bool" where
  "quiescent m \<longleftrightarrow> (\<forall>k i. ms_store m k = Some i \<longrightarrow> en_state (ms_entries m ! i) \<noteq> Pending)"

lemma machine_get_miss:
  assumes "minv ttlMs m" and "quiescent m" and "machine_get ttlMs key m = (i, True, m')"
  shows "cache_hit (ms_now m) key (machine_abs m) = None"
    and "machine_abs (machine_settle i (Inr v) m')
      = cache_put key (ms_now m + ttlMs) v (cache_drop key (machine_abs m))"
    and "machine_abs (machine_settle i (Inl e) m') = cache_drop key (machine_abs m)"
proof -
  have m': "m' = m\<lparr>ms_entries := ms_entries m @ [\<lparr>en_key = key, en_startedAt = ms_now m,
      en_expiresAt = ms_now m + ttlMs, en_state = Pending\<rparr>], ms_store := (ms_store m)(key \<mapsto> i)\<rparr>"
    and i: "i = length (ms_entries m)"
    using assms(3) by (auto simp: machine_get_def split: option.splits if_splits)
  have old: "\<And>k j. ms_store m k = Some j \<Longrightarrow> j < length (ms_entries m)"
    using assms(1) by (auto simp: minv_def)
  show "cache_hit (ms_now m) key (machine_abs m) = None"
    using assms(3)
    by (auto simp: machine_get_def cache_hit_def machine_abs_def
          split: option.splits if_splits settlement.splits)
  show "machine_abs (machine_settle i (Inr v) m')
      = cache_put key (ms_now m + ttlMs) v (cache_drop key (machine_abs m))"
    by (rule ext)
      (auto simp: m' i machine_abs_def machine_settle_def cache_put_def cache_drop_def nth_append
        dest: old split: option.split settlement.split)
  show "machine_abs (machine_settle i (Inl e) m') = cache_drop key (machine_abs m)"
    by (rule ext)
      (auto simp: m' i machine_abs_def machine_settle_def cache_put_def cache_drop_def nth_append
        dest: old split: option.split settlement.split)
qed

lemma machine_get_hit:
  assumes "minv ttlMs m" and "quiescent m" and "machine_get ttlMs key m = (i, False, m')"
  shows "m' = m \<and> (\<exists>v. en_state (ms_entries m ! i) = Fulfilled v
    \<and> cache_hit (ms_now m) key (machine_abs m) = Some v)"
proof -
  have st: "ms_store m key = Some i" "en_expiresAt (ms_entries m ! i) > ms_now m" "m' = m"
    using assms(3) by (auto simp: machine_get_def split: option.splits if_splits)
  moreover obtain v where "en_state (ms_entries m ! i) = Fulfilled v"
    using assms(1,2) st(1) by (cases "en_state (ms_entries m ! i)") (auto simp: minv_def quiescent_def)
  ultimately show ?thesis by (simp add: cache_hit_def machine_abs_def)
qed



end
