(* ===== verification/Repo.thy ===== *)
theory Repo
  imports World "HOL-Library.Multiset"
begin

text \<open>
  The repositories (\<^verbatim>\<open>src/repo/auditEvents.ts\<close>, \<^verbatim>\<open>src/repo/routingObservations.ts\<close>) on the two
  tables: inserts with an autoincrement key, and the reads with their filter, order and
  limit. A table is append-only and its keys grow; this is stated once, for any table, in
  the locale \<open>autoinc_table\<close>, and interpreted on both tables.
\<close>

section \<open>Tables with an autoincrement key\<close>

definition insert_row :: "(nat \<Rightarrow> 'r) \<Rightarrow> 'r table \<Rightarrow> 'r table" where
  "insert_row mk t =
     \<lparr>tb_rows = tb_rows t @ [mk (Suc (tb_seq t))], tb_seq = Suc (tb_seq t)\<rparr>"

definition insert_rows :: "(nat \<Rightarrow> 'i \<Rightarrow> 'r) \<Rightarrow> 'i list \<Rightarrow> 'r table \<Rightarrow> 'r table" where
  "insert_rows mk is t = fold (\<lambda>i. insert_row (\<lambda>n. mk n i)) is t"

definition wf_table :: "('r \<Rightarrow> nat) \<Rightarrow> 'r table \<Rightarrow> bool" where
  "wf_table rid t \<longleftrightarrow>
     sorted_wrt (<) (map rid (tb_rows t)) \<and> (\<forall>r\<in>set (tb_rows t). 0 < rid r \<and> rid r \<le> tb_seq t)"

text \<open>Rows by descending key, and the limit of a statement (a negative limit is none).\<close>

definition by_id_desc :: "('r \<Rightarrow> nat) \<Rightarrow> 'r list \<Rightarrow> 'r list" where
  "by_id_desc rid rs = rev (sort_key rid rs)"

definition sql_limit :: "int \<Rightarrow> 'r list \<Rightarrow> 'r list" where
  "sql_limit n rs = (if n < 0 then rs else take (nat n) rs)"

locale autoinc_table =
  fixes rid :: "'r \<Rightarrow> nat" and mk :: "nat \<Rightarrow> 'i \<Rightarrow> 'r"
  assumes rid_mk: "rid (mk n i) = n"
begin

lemma wf_empty: "wf_table rid empty_table"
  by (simp add: wf_table_def empty_table_def)

lemma wf_insert_row: "wf_table rid t \<Longrightarrow> wf_table rid (insert_row (\<lambda>n. mk n i) t)"
  by (auto simp: wf_table_def insert_row_def sorted_wrt_append rid_mk le_imp_less_Suc)

lemma wf_insert_rows: "wf_table rid t \<Longrightarrow> wf_table rid (insert_rows mk is t)"
  unfolding insert_rows_def by (induction "is" arbitrary: t) (simp_all add: wf_insert_row)

lemma rows_insert_rows:
  "tb_rows (insert_rows mk is t) = tb_rows t @ map (\<lambda>(k, i). mk (tb_seq t + Suc k) i) (enumerate 0 is)"
proof (induction "is" arbitrary: t)
  case Nil
  then show ?case by (simp add: insert_rows_def)
next
  case (Cons i "is")
  have "enumerate (Suc 0) is = map (\<lambda>(k, i). (Suc k, i)) (enumerate 0 is)"
    by (simp add: enumerate_eq_zip zip_map1 map_Suc_upt [symmetric] del: upt_Suc)
  then show ?case
    using Cons [of "insert_row (\<lambda>n. mk n i) t"]
    by (simp add: insert_rows_def insert_row_def case_prod_unfold)
qed

lemma prefix_insert_rows: "\<exists>new. tb_rows (insert_rows mk is t) = tb_rows t @ new \<and> length new = length is"
  by (rule exI [of _ "map (\<lambda>(k, i). mk (tb_seq t + Suc k) i) (enumerate 0 is)"])
    (simp add: rows_insert_rows)

lemma sorted_rows: "wf_table rid t \<Longrightarrow> by_id_desc rid (tb_rows t) = rev (tb_rows t)"
proof -
  assume "wf_table rid t"
  then have "sorted (map rid (tb_rows t))"
    by (auto simp: wf_table_def strict_sorted_iff)
  then show ?thesis by (simp add: by_id_desc_def sorted_sort_id sort_key_id_if_sorted)
qed

lemma sorted_filter_rows:
  assumes "wf_table rid t"
  shows "by_id_desc rid (filter P (tb_rows t)) = filter P (rev (tb_rows t))"
proof -
  have "sorted (map rid (filter P (tb_rows t)))"
    using assms by (auto simp: wf_table_def strict_sorted_iff sorted_filter)
  then show ?thesis by (simp add: by_id_desc_def sort_key_id_if_sorted rev_filter)
qed

lemma distinct_ids: "wf_table rid t \<Longrightarrow> distinct (map rid (tb_rows t))"
  by (auto simp: wf_table_def strict_sorted_iff)

text \<open>
  A cursor: below the key of the last row already shown lie exactly the rows that follow
  it in descending order.
\<close>

lemma cursor_suffix:
  assumes wf: "wf_table rid t" and split: "rev (tb_rows t) = xs @ y # ys"
  shows "filter (\<lambda>r. rid r < rid y) (rev (tb_rows t)) = ys"
proof -
  have "tb_rows t = rev ys @ [y] @ rev xs"
    using split by (metis append_Cons append_Nil rev_append rev_rev_ident rev_singleton_conv append_assoc rev.simps(2))
  with wf have "\<forall>x\<in>set xs. rid y < rid x" and "\<forall>z\<in>set ys. rid z < rid y"
    by (auto simp: wf_table_def sorted_wrt_append)
  then show ?thesis unfolding split by (auto simp: filter_empty_conv filter_id_conv)
qed

end

section \<open>Audit events\<close>

definition audit_row :: "int \<Rightarrow> nat \<Rightarrow> AuditEventInsert \<Rightarrow> AuditEventRow" where
  "audit_row at n i =
     \<lparr>au_id = n, au_occurredAt = at, au_actor = ai_actor i, au_action = ai_action i,
      au_target = ai_target i, au_ok = ai_ok i, au_message = ai_message i\<rparr>"

text \<open>\<open>occurred_at\<close> is the default of the column, \<^verbatim>\<open>unixepoch() * 1000\<close>.\<close>

definition audit_append :: "'w env \<Rightarrow> AuditEventInsert \<Rightarrow> ('w, unit) act" where
  "audit_append env input =
     statement env (io_bind (observe (unixepoch env)) (\<lambda>t.
       io_bind get_db (\<lambda>d.
       put_db (d\<lparr>auditEvents := insert_rows (audit_row (t * 1000)) [input] (auditEvents d)\<rparr>))))"

record ListRecentOptions =
  lo_limit :: "int option"
  lo_before :: "int option"

definition audit_select :: "ListRecentOptions \<Rightarrow> AuditEventRow list \<Rightarrow> AuditEventRow list" where
  "audit_select options rows =
     (let limit = (case lo_limit options of None \<Rightarrow> 50 | Some l \<Rightarrow> l)
      in case lo_before options of
           Some before \<Rightarrow> sql_limit limit (by_id_desc au_id (filter (\<lambda>r. int (au_id r) < before) rows))
         | None \<Rightarrow> sql_limit limit (by_id_desc au_id rows))"

definition audit_listRecent :: "'w env \<Rightarrow> ListRecentOptions \<Rightarrow> ('w, AuditEventRow list) act" where
  "audit_listRecent env options =
     statement env (io_bind get_db (\<lambda>d.
       io_return (audit_select options (tb_rows (auditEvents d)))))"

interpretation audit_table: autoinc_table au_id "audit_row at"
  for at
  by unfold_locales (simp add: audit_row_def)

section \<open>Routing observations\<close>

definition observation_row :: "nat \<Rightarrow> RoutingObservationInsert \<Rightarrow> RoutingObservationRow" where
  "observation_row n i =
     \<lparr>ro_id = n, ro_observedAt = the (ri_observedAt i), ro_orchAddress = ri_orchAddress i,
      ro_capability = ri_capability i, ro_offering = ri_offering i,
      ro_signatureStatus = ri_signatureStatus i, ro_freshnessStatus = ri_freshnessStatus i,
      ro_detailsJson = ri_detailsJson i\<rparr>"

text \<open>
  One statement inserts all rows or none: it is refused where a row has no observation time,
  as the column is not null.
\<close>

definition appendBatch :: "'w env \<Rightarrow> RoutingObservationInsert list \<Rightarrow> ('w, unit) act" where
  "appendBatch env rows =
     (if rows = [] then io_return ()
      else statement env
        (if \<exists>r\<in>set rows. ri_observedAt r = None
         then io_throw (PlainError ''NOT NULL constraint failed: routing_observations.observed_at'')
         else io_bind get_db (\<lambda>d.
           put_db (d\<lparr>routingObservations := insert_rows observation_row rows (routingObservations d)\<rparr>))))"

definition listRecentForOrch :: "'w env \<Rightarrow> string \<Rightarrow> int option \<Rightarrow> ('w, RoutingObservationRow list) act" where
  "listRecentForOrch env orchAddress lim =
     (let limit = (case lim of None \<Rightarrow> 200 | Some l \<Rightarrow> l)
      in statement env (io_bind get_db (\<lambda>d.
           io_return (sql_limit limit (sql_order_desc env
             (filter (\<lambda>r. ro_orchAddress r = orchAddress) (tb_rows (routingObservations d))))))))"

definition listRecentForOrchAndCapability ::
    "'w env \<Rightarrow> string \<Rightarrow> string \<Rightarrow> int option \<Rightarrow> ('w, RoutingObservationRow list) act" where
  "listRecentForOrchAndCapability env orchAddress capability lim =
     (let limit = (case lim of None \<Rightarrow> 200 | Some l \<Rightarrow> l)
      in statement env (io_bind get_db (\<lambda>d.
           io_return (sql_limit limit (sql_order_desc env
             (filter (\<lambda>r. ro_orchAddress r = orchAddress \<and> ro_capability r = Some capability)
               (tb_rows (routingObservations d))))))))"

interpretation observation_table: autoinc_table ro_id observation_row
  by unfold_locales (simp add: observation_row_def)

text \<open>
  \<^verbatim>\<open>ORDER BY observed_at DESC\<close>: the rows given, in an order that never puts a later
  observation after an earlier one; rows of the same time come in an order the engine chooses.
\<close>

definition orders_desc :: "(RoutingObservationRow list \<Rightarrow> RoutingObservationRow list) \<Rightarrow> bool" where
  "orders_desc f \<longleftrightarrow>
     (\<forall>rs. mset (f rs) = mset rs \<and> sorted_wrt (\<lambda>a b. ro_observedAt b \<le> ro_observedAt a) (f rs))"

section \<open>The database stays well formed\<close>

definition wf_db :: "Db \<Rightarrow> bool" where
  "wf_db d \<longleftrightarrow> wf_table au_id (auditEvents d) \<and> wf_table ro_id (routingObservations d)"

lemma wf_empty_db: "wf_db empty_db"
  using audit_table.wf_empty observation_table.wf_empty by (simp add: wf_db_def empty_db_def)

lemma audit_append_outcome:
  "audit_append env input s = (r, s') \<Longrightarrow>
     (case r of Inl e \<Rightarrow> db s' = db s
      | Inr _ \<Rightarrow> \<exists>t. db s' = (db s)\<lparr>auditEvents := insert_rows (audit_row t) [input] (auditEvents (db s))\<rparr>)"
  by (auto simp: audit_append_def statement_def io_simps split: prod.splits option.splits sum.splits)

lemma audit_append_wf:
  "audit_append env input s = (r, s') \<Longrightarrow> wf_db (db s) \<Longrightarrow> wf_db (db s')"
  by (drule audit_append_outcome)
    (auto simp: wf_db_def audit_table.wf_insert_rows split: sum.splits)

lemma appendBatch_outcome:
  "appendBatch env rows s = (r, s') \<Longrightarrow>
     (case r of Inl e \<Rightarrow> db s' = db s
      | Inr _ \<Rightarrow> db s' = (db s)\<lparr>routingObservations := insert_rows observation_row rows (routingObservations (db s))\<rparr>
          \<and> (\<forall>i\<in>set rows. ri_observedAt i \<noteq> None))"
  by (auto simp: appendBatch_def statement_def io_simps insert_rows_def
        split: prod.splits option.splits sum.splits if_splits)

lemma appendBatch_wf:
  "appendBatch env rows s = (r, s') \<Longrightarrow> wf_db (db s) \<Longrightarrow> wf_db (db s')"
  by (drule appendBatch_outcome)
    (auto simp: wf_db_def observation_table.wf_insert_rows split: sum.splits)

lemma keeps_listRecent [keeps_intros]: "keeps db (audit_listRecent env options)"
  unfolding audit_listRecent_def by (intro keeps_intros)

lemma keeps_listRecentForOrch [keeps_intros]: "keeps db (listRecentForOrch env a l)"
  unfolding listRecentForOrch_def Let_def by (intro keeps_intros)

lemma keeps_listRecentForOrchAndCapability [keeps_intros]:
  "keeps db (listRecentForOrchAndCapability env a c l)"
  unfolding listRecentForOrchAndCapability_def Let_def by (intro keeps_intros)

lemma keeps_cache_repo [keeps_intros]:
  "keeps cache (audit_append env i)" "keeps cache (audit_listRecent env options)"
  "keeps cache (listRecentForOrch env a l)"
  unfolding audit_append_def audit_listRecent_def listRecentForOrch_def Let_def
  by (intro keeps_intros)+

text \<open>The rows of one orchestrator, where the engine takes the statement.\<close>

definition observations_of :: "'w env \<Rightarrow> string \<Rightarrow> Db \<Rightarrow> RoutingObservationRow list" where
  "observations_of env a d =
     take 200 (sql_order_desc env (filter (\<lambda>r. ro_orchAddress r = a) (tb_rows (routingObservations d))))"

lemma listRecentForOrch_ok:
  assumes "fst (db_refuses env (ext s)) = None"
  shows "\<exists>s'. listRecentForOrch env a None s = (Inr (observations_of env a (db s)), s')
    \<and> db s' = db s \<and> cache s' = cache s"
proof -
  obtain w where "db_refuses env (ext s) = (None, w)" using assms by (cases "db_refuses env (ext s)") simp
  then show ?thesis
    by (simp add: listRecentForOrch_def statement_def io_simps observations_of_def sql_limit_def)
qed

text \<open>Appending audit rows leaves the observations alone and the other way round.\<close>

lemma audit_append_observations:
  "audit_append env input s = (r, s') \<Longrightarrow> routingObservations (db s') = routingObservations (db s)"
  by (drule audit_append_outcome) (auto split: sum.splits)

lemma appendBatch_audit:
  "appendBatch env rows s = (r, s') \<Longrightarrow> auditEvents (db s') = auditEvents (db s)"
  by (drule appendBatch_outcome) (auto split: sum.splits)

end
