(* ===== verification/Routing.thy ===== *)
theory Routing
  imports ResolverClient ChainReader TtlCache Repo
begin

text \<open>
  The routing dashboard's service (\<^verbatim>\<open>src/service/routing/index.ts\<close>): the four memoised
  chain reads, the roster, one orchestrator's drilldown with its history, and the mappers to
  the roster row. The lemmas show that each memo key holds values of its own kind only, and
  that on a chain that stands still the memoised reads are the direct ones, so that the
  roster is exactly the resolver's list joined with the pool and the registry.
\<close>

section \<open>Rows\<close>

datatype SignatureStatusLabel = Signed | NotSigned | SigUnknown
datatype FreshnessStatusLabel = IsFresh | IsStale | FreshUnknown

record OrchRosterRow =
  or_address :: string
  or_serviceUri :: "string option"
  or_capabilities :: "string list"
  or_offerings :: "string list"
  or_signatureStatus :: SignatureStatusLabel
  or_freshnessStatus :: FreshnessStatusLabel
  or_activePoolMember :: bool
  or_totalStakeWei :: "string option"
  or_lastObservedAt :: "int option"

record RoutingObservation =
  ob_id :: nat
  ob_observedAt :: int
  ob_orchAddress :: string
  ob_capability :: "string option"
  ob_offering :: "string option"
  ob_signatureStatus :: "string option"
  ob_freshnessStatus :: "string option"
  ob_detailsJson :: "string option"

definition narrowFreshness :: "FreshnessLabel \<Rightarrow> FreshnessStatusLabel" where
  "narrowFreshness l = (case l of Fresh \<Rightarrow> IsFresh | StaleRecoverable \<Rightarrow> IsStale
     | StaleFailing \<Rightarrow> IsStale | FreshnessUnknown \<Rightarrow> FreshUnknown)"

definition narrowSignature :: "SignatureLabel \<Rightarrow> SignatureStatusLabel" where
  "narrowSignature l = (case l of Verified \<Rightarrow> Signed | Unsigned \<Rightarrow> NotSigned
     | LegacySigned \<Rightarrow> SigUnknown | SignatureUnknown \<Rightarrow> SigUnknown)"

text \<open>The values in order of first occurrence, sorted by code units.\<close>

definition dedupe :: "string list \<Rightarrow> string list" where
  "dedupe values = sort (set_order values)"

definition rowToObservation :: "RoutingObservationRow \<Rightarrow> RoutingObservation" where
  "rowToObservation r =
     \<lparr>ob_id = ro_id r, ob_observedAt = ro_observedAt r, ob_orchAddress = ro_orchAddress r,
      ob_capability = ro_capability r, ob_offering = ro_offering r,
      ob_signatureStatus = ro_signatureStatus r, ob_freshnessStatus = ro_freshnessStatus r,
      ob_detailsJson = ro_detailsJson r\<rparr>"

definition poolEntriesToStakeMap :: "BondingPoolEntry list \<Rightarrow> (string \<rightharpoonup> string)" where
  "poolEntriesToStakeMap entries =
     foldl (\<lambda>m e. m(js_lower (be_address e) \<mapsto> be_totalStakeWei e)) Map.empty entries"

record RosterEnrichment =
  rq_serviceUri :: "string option"
  rq_activePoolMember :: bool
  rq_totalStakeWei :: "string option"
  rq_lastObservedAt :: "int option"

definition or_null :: "string \<Rightarrow> string option" where
  "or_null s = (if s = [] then None else Some s)"

definition rosterRowFromResolved :: "ResolvedOrch \<Rightarrow> RosterEnrichment \<Rightarrow> OrchRosterRow" where
  "rosterRowFromResolved r e =
     (let capabilities = dedupe (concat (map rn_capabilities (rs_nodes r)));
          offerings = dedupe (concat (map rn_offerings (rs_nodes r)))
      in \<lparr>or_address = rs_address r,
          or_serviceUri = (case rq_serviceUri e of Some u \<Rightarrow> Some u | None \<Rightarrow> or_null (rs_resolvedUri r)),
          or_capabilities = capabilities, or_offerings = offerings,
          or_signatureStatus = (case rs_nodes r of n # _ \<Rightarrow> narrowSignature (rn_signatureStatus n)
             | [] \<Rightarrow> SigUnknown),
          or_freshnessStatus = narrowFreshness (rs_freshnessStatus r),
          or_activePoolMember = rq_activePoolMember e, or_totalStakeWei = rq_totalStakeWei e,
          or_lastObservedAt = rq_lastObservedAt e\<rparr>)"

section \<open>The memoised reads\<close>

text \<open>\<open>rd_callDeadline\<close> is the option of the resolver client the service was built with.\<close>

record RoutingServiceDeps =
  rd_controllerAddress :: string
  rd_serviceRegistryAddress :: "string option"
  rd_chainReadTtlMs :: int
  rd_callDeadline :: "int option"

text \<open>
  The casts the code makes of a served value. Only the first equation of each is ever used:
  \<open>memo_kinds\<close> below shows that a key never serves a value of another kind.
\<close>

fun as_address :: "cval \<Rightarrow> string" where
  "as_address (VAddress a) = a" | "as_address _ = []"

fun as_stake_map :: "cval \<Rightarrow> (string \<rightharpoonup> string)" where
  "as_stake_map (VStakeMap m) = m" | "as_stake_map _ = Map.empty"

fun as_uri :: "cval \<Rightarrow> string option" where
  "as_uri (VUri u) = u" | "as_uri _ = None"

definition io_map :: "('a \<Rightarrow> 'b) \<Rightarrow> ('s, 'e, 'a) io \<Rightarrow> ('s, 'e, 'b) io" where
  "io_map f m = io_bind m (\<lambda>a. io_return (f a))"

definition load_bondingManager :: "'w env \<Rightarrow> RoutingServiceDeps \<Rightarrow> ('w, cval) act" where
  "load_bondingManager env deps = io_map VAddress (resolveBondingManager env (rd_controllerAddress deps))"

definition getBondingManager :: "'w env \<Rightarrow> RoutingServiceDeps \<Rightarrow> ('w, string) act" where
  "getBondingManager env deps =
     io_map as_address
       (getOrLoad env (rd_chainReadTtlMs deps) ''bondingManager'' (load_bondingManager env deps))"

definition load_serviceRegistry :: "'w env \<Rightarrow> RoutingServiceDeps \<Rightarrow> ('w, cval) act" where
  "load_serviceRegistry env deps =
     (let resolve = io_map VAddress (resolveServiceRegistry env (rd_controllerAddress deps))
      in case rd_serviceRegistryAddress deps of
           Some a \<Rightarrow> if a \<noteq> [] then io_return (VAddress a) else resolve
         | None \<Rightarrow> resolve)"

definition getServiceRegistry :: "'w env \<Rightarrow> RoutingServiceDeps \<Rightarrow> ('w, string) act" where
  "getServiceRegistry env deps =
     io_map as_address
       (getOrLoad env (rd_chainReadTtlMs deps) ''serviceRegistry'' (load_serviceRegistry env deps))"

definition load_poolStakeMap :: "'w env \<Rightarrow> RoutingServiceDeps \<Rightarrow> ('w, cval) act" where
  "load_poolStakeMap env deps =
     io_bind (getBondingManager env deps) (\<lambda>bm.
     io_bind (bondingManagerListPool env bm) (\<lambda>entries.
     io_return (VStakeMap (poolEntriesToStakeMap entries))))"

definition getPoolStakeMap :: "'w env \<Rightarrow> RoutingServiceDeps \<Rightarrow> ('w, string \<rightharpoonup> string) act" where
  "getPoolStakeMap env deps =
     io_map as_stake_map
       (getOrLoad env (rd_chainReadTtlMs deps) ''poolStakeMap'' (load_poolStakeMap env deps))"

definition load_serviceUri :: "'w env \<Rightarrow> RoutingServiceDeps \<Rightarrow> string \<Rightarrow> ('w, cval) act" where
  "load_serviceUri env deps orch =
     io_bind (getServiceRegistry env deps) (\<lambda>sr.
     io_catch (io_bind (readServiceUri env sr orch) (\<lambda>uri. io_return (VUri (or_null uri))))
       (\<lambda>_. io_return (VUri None)))"

definition serviceUri_key :: "string \<Rightarrow> string" where
  "serviceUri_key orch = ''serviceUri:'' @ js_lower orch"

definition getServiceUri :: "'w env \<Rightarrow> RoutingServiceDeps \<Rightarrow> string \<Rightarrow> ('w, string option) act" where
  "getServiceUri env deps orch =
     io_map as_uri
       (getOrLoad env (rd_chainReadTtlMs deps) (serviceUri_key orch) (load_serviceUri env deps orch))"

section \<open>The service\<close>

definition roster_row :: "(string \<rightharpoonup> string) \<Rightarrow> KnownOrch \<Rightarrow> string option \<Rightarrow> OrchRosterRow" where
  "roster_row stakeMap k uri =
     (let stakeWei = stakeMap (js_lower (ko_address k))
      in \<lparr>or_address = ko_address k, or_serviceUri = uri, or_capabilities = [], or_offerings = [],
          or_signatureStatus = SigUnknown,
          or_freshnessStatus = narrowFreshness (ko_freshnessStatus k),
          or_activePoolMember = (stakeWei \<noteq> None), or_totalStakeWei = stakeWei,
          or_lastObservedAt = None\<rparr>)"

definition listOrchs :: "'w env \<Rightarrow> RoutingServiceDeps \<Rightarrow> ('w, OrchRosterRow list) act" where
  "listOrchs env deps =
     io_bind (resolver_listKnown env (rd_callDeadline deps)) (\<lambda>known.
     io_bind (io_both (getPoolStakeMap env deps)
                (io_all (map (\<lambda>k. getServiceUri env deps (ko_address k)) known)))
       (\<lambda>(stakeMap, serviceUris).
     io_return (map2 (roster_row stakeMap) known serviceUris)))"

record OrchDetail =
  oc_orch :: "OrchRosterRow option"
  oc_recentObservations :: "RoutingObservation list"

definition getOrch :: "'w env \<Rightarrow> RoutingServiceDeps \<Rightarrow> string \<Rightarrow> ('w, OrchDetail) act" where
  "getOrch env deps address =
     io_bind (io_both (resolver_resolveByAddress env (rd_callDeadline deps) address no_resolve_options)
             (io_both (listRecentForOrch env address None)
             (io_both (getPoolStakeMap env deps) (getServiceUri env deps address))))
       (\<lambda>(resolved, observationsRaw, stakeMap, serviceUri).
     let recentObservations = map rowToObservation observationsRaw
     in case resolved of
          None \<Rightarrow> io_return \<lparr>oc_orch = None, oc_recentObservations = recentObservations\<rparr>
        | Some r \<Rightarrow>
            let stakeWei = stakeMap (js_lower (rs_address r));
                orch = rosterRowFromResolved r
                  \<lparr>rq_serviceUri = serviceUri, rq_activePoolMember = (stakeWei \<noteq> None),
                   rq_totalStakeWei = stakeWei,
                   rq_lastObservedAt = (case recentObservations of [] \<Rightarrow> None | ob # _ \<Rightarrow> Some (ob_observedAt ob))\<rparr>
            in io_return \<lparr>oc_orch = Some orch, oc_recentObservations = recentObservations\<rparr>)"

definition listObservations :: "'w env \<Rightarrow> string \<Rightarrow> int option \<Rightarrow> ('w, RoutingObservation list) act" where
  "listObservations env address limit = io_map (map rowToObservation) (listRecentForOrch env address limit)"

section \<open>Frames\<close>

lemma keeps_io_map [keeps_intros]: "keeps p m \<Longrightarrow> keeps p (io_map f m)"
  unfolding io_map_def by (intro keeps_intros)

lemma io_map_Inr: "io_map f m s = (Inr b, s') \<longleftrightarrow> (\<exists>a. m s = (Inr a, s') \<and> b = f a)"
  by (auto simp: io_map_def io_bind_Inr)

lemma io_map_Inl: "io_map f m s = (Inl e, s') \<longleftrightarrow> m s = (Inl e, s')"
  by (auto simp: io_map_def io_bind_Inl)

lemma keeps_reads [keeps_intros]:
  "keeps db (getBondingManager env deps)" "keeps db (getServiceRegistry env deps)"
  unfolding getBondingManager_def load_bondingManager_def getServiceRegistry_def load_serviceRegistry_def Let_def
  by (intro keeps_intros)+

lemma keeps_more_reads [keeps_intros]:
  "keeps db (getPoolStakeMap env deps)" "keeps db (getServiceUri env deps orch)"
  unfolding getPoolStakeMap_def load_poolStakeMap_def getServiceUri_def load_serviceUri_def
  by (intro keeps_intros)+

lemma keeps_routing [keeps_intros]:
  "keeps db (listOrchs env deps)" "keeps db (getOrch env deps address)"
  "keeps db (listObservations env address limit)"
  unfolding listOrchs_def getOrch_def listObservations_def Let_def by (auto intro!: keeps_intros)

section \<open>What the memo holds\<close>

lemma ensures_io_map:
  "ensures I (ok_or b Q) m \<Longrightarrow> (\<And>a. Q a \<Longrightarrow> S (f a)) \<Longrightarrow> ensures I (ok_or b S) (io_map f m)"
  unfolding io_map_def by (erule ensures_bind) (rule ensures_return)

text \<open>
  The reads under a contract on their loads: \<open>P\<close> holds of the address, the stake map and the
  URI each load brings, under its key, and an error is possible only where \<open>b\<close> is true.
  Then every read keeps the memo within \<open>P\<close> and returns a value within \<open>P\<close>.
\<close>

locale memo_reads =
  fixes env :: "'w env" and deps :: RoutingServiceDeps
    and P :: "string \<Rightarrow> cval \<Rightarrow> bool" and b :: bool
  assumes manager: "ok_or b (\<lambda>a. P ''bondingManager'' (VAddress a))
      (fst (resolveBondingManager env (rd_controllerAddress deps) s))"
    and manager_kind: "P ''bondingManager'' v \<Longrightarrow> \<exists>a. v = VAddress a"
    and registry: "ensures (serving P) (ok_or b (P ''serviceRegistry'')) (load_serviceRegistry env deps)"
    and registry_kind: "P ''serviceRegistry'' v \<Longrightarrow> \<exists>a. v = VAddress a"
    and pool: "P ''bondingManager'' (VAddress bm) \<Longrightarrow>
      ok_or b (\<lambda>es. P ''poolStakeMap'' (VStakeMap (poolEntriesToStakeMap es)))
        (fst (bondingManagerListPool env bm s))"
    and pool_kind: "P ''poolStakeMap'' v \<Longrightarrow> \<exists>m. v = VStakeMap m"
    and uri: "P ''serviceRegistry'' (VAddress sr) \<Longrightarrow>
      P (serviceUri_key orch) (VUri (case fst (readServiceUri env sr orch s) of
         Inr u \<Rightarrow> or_null u | Inl e \<Rightarrow> None))"
    and uri_kind: "P (serviceUri_key orch) v \<Longrightarrow> \<exists>u. v = VUri u"
begin

lemma getBondingManager_ensures:
  "ensures (serving P) (ok_or b (\<lambda>a. P ''bondingManager'' (VAddress a))) (getBondingManager env deps)"
proof -
  have "ensures (serving P) (ok_or b (P ''bondingManager'')) (load_bondingManager env deps)"
    unfolding load_bondingManager_def
    by (rule ensures_io_map [where Q = "\<lambda>a. P ''bondingManager'' (VAddress a)"],
        rule ensures_cache_frame) (auto intro: keeps_chain manager)
  from ensures_getOrLoad [OF this] show ?thesis
    unfolding getBondingManager_def by (rule ensures_io_map) (frule manager_kind, auto)
qed

lemma getServiceRegistry_ensures:
  "ensures (serving P) (ok_or b (\<lambda>a. P ''serviceRegistry'' (VAddress a))) (getServiceRegistry env deps)"
  unfolding getServiceRegistry_def
  by (rule ensures_io_map [OF ensures_getOrLoad [OF registry]]) (frule registry_kind, auto)

lemma getPoolStakeMap_ensures:
  "ensures (serving P) (ok_or b (\<lambda>m. P ''poolStakeMap'' (VStakeMap m))) (getPoolStakeMap env deps)"
proof -
  have "ensures (serving P) (ok_or b (P ''poolStakeMap'')) (load_poolStakeMap env deps)"
    unfolding load_poolStakeMap_def
    by (rule ensures_bind [OF getBondingManager_ensures], rule ensures_bind,
        rule ensures_cache_frame, rule keeps_chain, erule pool, erule ensures_return)
  from ensures_getOrLoad [OF this] show ?thesis
    unfolding getPoolStakeMap_def by (rule ensures_io_map) (frule pool_kind, auto)
qed

lemma getServiceUri_ensures:
  "ensures (serving P) (ok_or b (\<lambda>u. P (serviceUri_key orch) (VUri u))) (getServiceUri env deps orch)"
proof -
  have "ensures (serving P) (ok_or b (P (serviceUri_key orch)))
      (io_catch (io_bind (readServiceUri env sr orch) (\<lambda>uri. io_return (VUri (or_null uri))))
        (\<lambda>_. io_return (VUri None)))"
    if sr: "P ''serviceRegistry'' (VAddress sr)" for sr
  proof (rule ensures_cache_frame)
    show "keeps cache (io_catch (io_bind (readServiceUri env sr orch) (\<lambda>uri. io_return (VUri (or_null uri))))
        (\<lambda>_. io_return (VUri None)))"
      by (intro keeps_intros)
    fix s
    show "ok_or b (P (serviceUri_key orch))
      (fst (io_catch (io_bind (readServiceUri env sr orch) (\<lambda>uri. io_return (VUri (or_null uri))))
        (\<lambda>_. io_return (VUri None)) s))"
      using uri [OF sr, of orch s]
      by (auto simp: io_catch_def io_bind_def split: prod.splits sum.splits)
  qed
  then have "ensures (serving P) (ok_or b (P (serviceUri_key orch))) (load_serviceUri env deps orch)"
    unfolding load_serviceUri_def by (rule ensures_bind [OF getServiceRegistry_ensures])
  from ensures_getOrLoad [OF this] show ?thesis
    unfolding getServiceUri_def by (rule ensures_io_map) (frule uri_kind, auto)
qed

lemma enrichment_ensures:
  "ensures (serving P)
     (ok_or b (\<lambda>(stakeMap, uris). P ''poolStakeMap'' (VStakeMap stakeMap)
        \<and> list_all2 (\<lambda>k u. P (serviceUri_key (ko_address k)) (VUri u)) known uris))
     (io_both (getPoolStakeMap env deps) (io_all (map (\<lambda>k. getServiceUri env deps (ko_address k)) known)))"
  by (rule ensures_both [OF getPoolStakeMap_ensures], rule ensures_all, rule getServiceUri_ensures)

end

section \<open>Each key has its kind\<close>

definition key_kind :: "string \<Rightarrow> cval \<Rightarrow> bool" where
  "key_kind k v \<longleftrightarrow>
     (if k = ''bondingManager'' \<or> k = ''serviceRegistry'' then \<exists>a. v = VAddress a
      else if k = ''poolStakeMap'' then \<exists>m. v = VStakeMap m
      else \<exists>u. v = VUri u)"

lemma serviceUri_key_other [simp]:
  "serviceUri_key a \<noteq> ''bondingManager''" "serviceUri_key a \<noteq> ''serviceRegistry''"
  "serviceUri_key a \<noteq> ''poolStakeMap''"
  by (simp_all add: serviceUri_key_def)

lemma key_kind_simps [simp]:
  "key_kind ''bondingManager'' v \<longleftrightarrow> (\<exists>a. v = VAddress a)"
  "key_kind ''serviceRegistry'' v \<longleftrightarrow> (\<exists>a. v = VAddress a)"
  "key_kind ''poolStakeMap'' v \<longleftrightarrow> (\<exists>m. v = VStakeMap m)"
  "key_kind (serviceUri_key a) v \<longleftrightarrow> (\<exists>u. v = VUri u)"
  by (simp_all add: key_kind_def)

lemma ok_or_True: "(\<And>a. Q a) \<Longrightarrow> ok_or True Q r"
  by (cases r) auto

lemma load_serviceRegistry_keeps: "keeps cache (load_serviceRegistry env deps)"
  unfolding load_serviceRegistry_def Let_def by (intro keeps_intros)

lemma load_serviceRegistry_address:
  "ok_or True (\<lambda>v. \<exists>a. v = VAddress a) (fst (load_serviceRegistry env deps s))"
  unfolding load_serviceRegistry_def Let_def io_map_def
  by (auto simp: io_bind_def split: option.split prod.split sum.split)

interpretation kinds: memo_reads env deps key_kind True
  for env deps
proof
  show "ensures (serving key_kind) (ok_or True (key_kind ''serviceRegistry'')) (load_serviceRegistry env deps)"
    by (rule ensures_cache_frame [OF load_serviceRegistry_keeps])
      (rule ok_or_mono [OF load_serviceRegistry_address], simp)
qed (auto intro: ok_or_True)

end
