(* ===== verification/Roster.thy ===== *)
theory Roster
  imports Routing
begin

text \<open>
  What the dashboard shows, against a chain that stands still: whatever the memo already
  holds of that chain and whatever the clock does, the roster is the resolver's list joined
  with the pool's stakes and the registry's URIs, and a drilldown is the resolver's answer
  joined with the same and with the stored history. Then the pure mappers: the statuses from
  the wire to the screen, and the deduplicated lists.
\<close>

section \<open>A chain that stands still\<close>

definition configured_registry :: "RoutingServiceDeps \<Rightarrow> string option" where
  "configured_registry deps =
     (case rd_serviceRegistryAddress deps of Some a \<Rightarrow> or_null a | None \<Rightarrow> None)"

definition still_chain ::
    "'w env \<Rightarrow> RoutingServiceDeps \<Rightarrow> string \<Rightarrow> string \<Rightarrow> string \<Rightarrow> (string \<Rightarrow> string)
      \<Rightarrow> (string \<Rightarrow> delegator) \<Rightarrow> (string \<Rightarrow> js_error + string) \<Rightarrow> bool" where
  "still_chain env deps bm sr first nxt delegator uris \<longleftrightarrow>
     (\<forall>w. eth_getContract env (rd_controllerAddress deps) (BONDING_MANAGER_ID env) w = (Inr bm, w)) \<and>
     (case configured_registry deps of Some a \<Rightarrow> a = sr
      | None \<Rightarrow> \<forall>w. eth_getContract env (rd_controllerAddress deps) (SERVICE_REGISTRY_ID env) w = (Inr sr, w)) \<and>
     static_pool env bm first nxt delegator \<and>
     (\<forall>a w. eth_getServiceURI env sr a w = (uris (js_lower a), w))"

text \<open>The stake of an address: that of the last pool entry with its lower-case form.\<close>

definition stake_table :: "(string \<Rightarrow> delegator) \<Rightarrow> string list \<Rightarrow> (string \<rightharpoonup> string)" where
  "stake_table delegator xs =
     map_of (rev (map (\<lambda>x. (js_lower x, show_nat (delegated_amount (delegator x)))) xs))"

definition uri_of :: "(string \<Rightarrow> js_error + string) \<Rightarrow> string \<Rightarrow> string option" where
  "uri_of uris a = (case uris (js_lower a) of Inr u \<Rightarrow> or_null u | Inl e \<Rightarrow> None)"

definition chain_truth ::
    "string \<Rightarrow> string \<Rightarrow> (string \<rightharpoonup> string) \<Rightarrow> (string \<Rightarrow> js_error + string) \<Rightarrow> string \<Rightarrow> cval \<Rightarrow> bool" where
  "chain_truth bm sr stakes uris k v \<longleftrightarrow>
     (k = ''bondingManager'' \<longrightarrow> v = VAddress bm) \<and>
     (k = ''serviceRegistry'' \<longrightarrow> v = VAddress sr) \<and>
     (k = ''poolStakeMap'' \<longrightarrow> v = VStakeMap stakes) \<and>
     (\<forall>a. k = serviceUri_key a \<longrightarrow> v = VUri (uri_of uris a))"

lemma stake_map_foldl:
  "foldl (\<lambda>m e. m(js_lower (be_address e) \<mapsto> be_totalStakeWei e)) m0 (map (pool_entry delegator) xs)
   = m0 ++ stake_table delegator xs"
proof (induction xs arbitrary: m0)
  case Nil
  then show ?case by (simp add: stake_table_def)
next
  case (Cons x xs)
  show ?case
    unfolding list.map foldl.simps Cons
    by (rule ext) (simp add: stake_table_def pool_entry_def map_add_def split: option.split)
qed

lemma stake_map_pool: "poolEntriesToStakeMap (map (pool_entry delegator) xs) = stake_table delegator xs"
  unfolding poolEntriesToStakeMap_def stake_map_foldl by simp

lemma stake_table_member: "stake_table delegator xs a \<noteq> None \<longleftrightarrow> a \<in> js_lower ` set xs"
  by (simp add: stake_table_def map_of_eq_None_iff image_image)

lemma serviceUri_key_inj: "serviceUri_key a = serviceUri_key a' \<Longrightarrow> js_lower a = js_lower a'"
  by (simp add: serviceUri_key_def)

lemma chain_truth_simps [simp]:
  "chain_truth bm sr stakes uris ''bondingManager'' v \<longleftrightarrow> v = VAddress bm"
  "chain_truth bm sr stakes uris ''serviceRegistry'' v \<longleftrightarrow> v = VAddress sr"
  "chain_truth bm sr stakes uris ''poolStakeMap'' v \<longleftrightarrow> v = VStakeMap stakes"
  "chain_truth bm sr stakes uris (serviceUri_key a) v \<longleftrightarrow> v = VUri (uri_of uris a)"
  by (auto simp: chain_truth_def uri_of_def serviceUri_key_other [symmetric] dest!: serviceUri_key_inj
        simp del: serviceUri_key_other)
    (auto simp: serviceUri_key_def)

lemma still_reads:
  assumes still: "still_chain env deps bm sr first nxt delegator uris"
    and pool: "pool_chain nxt first xs" "length xs \<le> 1000"
  shows "memo_reads env deps (chain_truth bm sr (stake_table delegator xs) uris) False"
proof
  let ?P = "chain_truth bm sr (stake_table delegator xs) uris"
  fix s :: "'a sys" and v orch
  show "ok_or False (\<lambda>a. ?P ''bondingManager'' (VAddress a))
      (fst (resolveBondingManager env (rd_controllerAddress deps) s))"
    using still by (simp add: still_chain_def resolveBondingManager_def resolveByName_def outside_def)
  show "?P ''bondingManager'' v \<Longrightarrow> \<exists>a. v = VAddress a" by simp
  show "ensures (serving ?P) (ok_or False (?P ''serviceRegistry'')) (load_serviceRegistry env deps)"
  proof (rule ensures_cache_frame [OF load_serviceRegistry_keeps])
    fix t :: "'a sys"
    show "ok_or False (?P ''serviceRegistry'') (fst (load_serviceRegistry env deps t))"
      using still
      by (auto simp: still_chain_def configured_registry_def or_null_def load_serviceRegistry_def
            resolveServiceRegistry_def resolveByName_def io_map_def io_bind_def outside_def
            split: option.splits if_splits)
  qed
  show "?P ''serviceRegistry'' v \<Longrightarrow> \<exists>a. v = VAddress a" by simp
  show "?P ''bondingManager'' (VAddress bm') \<Longrightarrow>
      ok_or False (\<lambda>es. ?P ''poolStakeMap'' (VStakeMap (poolEntriesToStakeMap es)))
        (fst (bondingManagerListPool env bm' s))" for bm'
    using still pool bondingManagerListPool_static [of env bm first nxt delegator xs s]
    by (simp add: still_chain_def stake_map_pool)
  show "?P ''poolStakeMap'' v \<Longrightarrow> \<exists>m. v = VStakeMap m" by simp
  show "?P ''serviceRegistry'' (VAddress sr') \<Longrightarrow>
      ?P (serviceUri_key orch) (VUri (case fst (readServiceUri env sr' orch s) of
         Inr u \<Rightarrow> or_null u | Inl e \<Rightarrow> None))" for sr'
    using still by (simp add: still_chain_def readServiceUri_def outside_def uri_of_def)
  show "?P (serviceUri_key orch) v \<Longrightarrow> \<exists>u. v = VUri u" by simp
qed

section \<open>The roster\<close>

definition fresh_of_wire :: "int \<Rightarrow> FreshnessStatusLabel" where
  "fresh_of_wire n = (if n = 1 then IsFresh else if n = 2 \<or> n = 3 then IsStale else FreshUnknown)"

lemma narrow_map_freshness: "narrowFreshness (mapFreshness n) = fresh_of_wire n"
  by (simp add: narrowFreshness_def mapFreshness_def fresh_of_wire_def enum_defs)

text \<open>The row the roster is to show for an entry of the resolver's list.\<close>

definition expected_row ::
    "(string \<rightharpoonup> string) \<Rightarrow> (string \<Rightarrow> js_error + string) \<Rightarrow> KnownEntry \<Rightarrow> OrchRosterRow" where
  "expected_row stakes uris e =
     \<lparr>or_address = ke_ethAddress e, or_serviceUri = uri_of uris (ke_ethAddress e),
      or_capabilities = [], or_offerings = [], or_signatureStatus = SigUnknown,
      or_freshnessStatus = fresh_of_wire (ke_freshnessStatus e),
      or_activePoolMember = (stakes (js_lower (ke_ethAddress e)) \<noteq> None),
      or_totalStakeWei = stakes (js_lower (ke_ethAddress e)), or_lastObservedAt = None\<rparr>"

lemma roster_rows:
  assumes "list_all2 (\<lambda>k u. u = uri_of uris (ko_address k)) (map mapKnownEntry es) us"
  shows "map2 (roster_row stakes) (map mapKnownEntry es) us = map (expected_row stakes uris) es"
  using assms
proof (induction es arbitrary: us)
  case Nil
  then show ?case by simp
next
  case (Cons e es)
  have ko: "ko_address (mapKnownEntry e) = ke_ethAddress e" by (simp add: mapKnownEntry_def)
  from Cons.prems obtain us' where us: "us = uri_of uris (ke_ethAddress e) # us'"
    and rest: "list_all2 (\<lambda>k u. u = uri_of uris (ko_address k)) (map mapKnownEntry es) us'"
    unfolding list.map list_all2_Cons1 ko by blast
  have "roster_row stakes (mapKnownEntry e) (uri_of uris (ke_ethAddress e)) = expected_row stakes uris e"
    by (simp add: roster_row_def expected_row_def mapKnownEntry_def narrow_map_freshness)
  with Cons.IH [OF rest] us show ?case by simp
qed

lemma keeps_unary_serving:
  assumes "unary env dl fn s = (r, s1)" and "serving P s"
  shows "serving P s1"
  using keepsD [OF keeps_unary(2) assms(1)] assms(2) by (simp add: serving_def)

lemma listOrchs_total:
  assumes "still_chain env deps bm sr first nxt delegator uris"
    and "pool_chain nxt first xs" and "length xs \<le> 1000"
    and "serving (chain_truth bm sr (stake_table delegator xs) uris) s"
    and "unary env (rd_callDeadline deps) (grpc_listKnown env) s = (Inr res, s1)"
  shows "\<exists>s'. listOrchs env deps s = (Inr (map (expected_row (stake_table delegator xs) uris) (lk_entries res)), s')
    \<and> serving (chain_truth bm sr (stake_table delegator xs) uris) s'"
proof -
  let ?P = "chain_truth bm sr (stake_table delegator xs) uris" and ?known = "map mapKnownEntry (lk_entries res)"
  let ?m = "io_both (getPoolStakeMap env deps) (io_all (map (\<lambda>k. getServiceUri env deps (ko_address k)) ?known))"
  have known: "resolver_listKnown env (rd_callDeadline deps) s = (Inr ?known, s1)"
    using assms(5) by (simp add: resolver_listKnown_def)
  obtain r s' where run: "?m s1 = (r, s')" by fastforce
  from ensuresD [OF memo_reads.enrichment_ensures [OF still_reads [OF assms(1-3)]] keeps_unary_serving [OF assms(5,4)] run]
  have P: "serving ?P s'" and "ok_or False (\<lambda>(stakeMap, uris'). ?P ''poolStakeMap'' (VStakeMap stakeMap)
      \<and> list_all2 (\<lambda>k u. ?P (serviceUri_key (ko_address k)) (VUri u)) ?known uris') r" by simp_all
  then obtain us where r: "r = Inr (stake_table delegator xs, us)"
    and us: "list_all2 (\<lambda>k u. u = uri_of uris (ko_address k)) ?known us"
    by (cases r) auto
  have "listOrchs env deps s = (Inr (map2 (roster_row (stake_table delegator xs)) ?known us), s')"
    using run by (simp add: listOrchs_def known r)
  with P show ?thesis unfolding roster_rows [OF us] by blast
qed


definition sample_deps :: RoutingServiceDeps where
  "sample_deps = \<lparr>rd_controllerAddress = ''0xc'', rd_serviceRegistryAddress = Some ''0x5e'',
     rd_chainReadTtlMs = 30000, rd_callDeadline = None\<rparr>"

definition roster_env :: "'w env" where
  "roster_env = two_pool_env
     \<lparr>grpc_listKnown := (\<lambda>_. io_return \<lparr>lk_entries =
        [\<lparr>ke_ethAddress = ''0xB'', ke_mode = 1, ke_freshnessStatus = 2, ke_cachedAt = None\<rparr>]\<rparr>),
      eth_getServiceURI := (\<lambda>_ a. if js_lower a = ''0xb'' then io_return ''https://b'' else io_throw (PlainError ''revert''))\<rparr>"

definition sample_next :: "string \<Rightarrow> string" where
  "sample_next a = (if a = ''0xA'' then ''0xb'' else ZERO_ADDRESS)"

definition sample_delegator :: "string \<Rightarrow> delegator" where
  "sample_delegator a = (0, 0, if a = ''0xA'' then 70 else 5, [], 0, 0, 0, 0)"

definition sample_uris :: "string \<Rightarrow> js_error + string" where
  "sample_uris a = (if a = ''0xb'' then Inr ''https://b'' else Inl (PlainError ''revert''))"

lemma sample_still:
  "still_chain roster_env sample_deps ''0x35Bcf3c30594191d53231E4FF333E8A770453e40'' ''0x5e'' ''0xA''
     sample_next sample_delegator sample_uris"
  by (simp add: still_chain_def configured_registry_def or_null_def static_pool_def sample_deps_def
      roster_env_def two_pool_env_def still_env_def sample_next_def sample_delegator_def sample_uris_def)

lemma sample_chain: "pool_chain sample_next ''0xA'' [''0xA'', ''0xb'']"
  by (simp add: sample_next_def ZERO_ADDRESS_def js_lower_def js_lower_char_def)

lemma still_sys_serving: "serving P still_sys"
  by (simp add: serving_def still_sys_def serves_empty)


section \<open>The drilldown\<close>

lemma dedupe_sorted: "dedupe xs = sorted_list_of_set (set xs)"
  unfolding dedupe_def
  by (rule sorted_distinct_set_unique) simp_all

text \<open>Deduplicated lists: each value once, in ascending order of its code units,
  whatever the order and the repetitions of the input, and deduplicating again changes
  nothing.\<close>

theorem dedupe_spec:
  "distinct (dedupe xs) \<and> sorted (dedupe xs) \<and> set (dedupe xs) = set xs
   \<and> dedupe (dedupe xs) = dedupe xs \<and> dedupe (rev xs @ xs) = dedupe xs"
  by (simp add: dedupe_sorted)

definition signed_of_wire :: "int \<Rightarrow> SignatureStatusLabel" where
  "signed_of_wire n = (if n = 1 then Signed else if n = 2 then NotSigned else SigUnknown)"

lemma narrow_map_signature: "narrowSignature (mapSignature n) = signed_of_wire n"
  by (simp add: narrowSignature_def mapSignature_def signed_of_wire_def enum_defs)

text \<open>The row a drilldown is to show for the resolver's answer.\<close>

definition expected_orch ::
    "(string \<rightharpoonup> string) \<Rightarrow> string option \<Rightarrow> int option \<Rightarrow> ResolveResult \<Rightarrow> OrchRosterRow" where
  "expected_orch stakes chainUri lastAt res =
     \<lparr>or_address = rr_ethAddress res,
      or_serviceUri = (case chainUri of Some u \<Rightarrow> Some u | None \<Rightarrow> or_null (rr_resolvedUri res)),
      or_capabilities = sorted_list_of_set (\<Union>n\<in>set (rr_nodes res). cap_name ` set (nd_capabilities n)),
      or_offerings = sorted_list_of_set
        (\<Union>n\<in>set (rr_nodes res). \<Union>c\<in>set (nd_capabilities n). of_id ` set (cap_offerings c)),
      or_signatureStatus = (case rr_nodes res of n # _ \<Rightarrow> signed_of_wire (nd_signatureStatus n) | [] \<Rightarrow> SigUnknown),
      or_freshnessStatus = fresh_of_wire (rr_freshnessStatus res),
      or_activePoolMember = (stakes (js_lower (rr_ethAddress res)) \<noteq> None),
      or_totalStakeWei = stakes (js_lower (rr_ethAddress res)),
      or_lastObservedAt = lastAt\<rparr>"

lemma rosterRowFromResolved_expected:
  "rosterRowFromResolved (mapResolveResult res)
     \<lparr>rq_serviceUri = u, rq_activePoolMember = (stakes (js_lower (rr_ethAddress res)) \<noteq> None),
      rq_totalStakeWei = stakes (js_lower (rr_ethAddress res)), rq_lastObservedAt = l\<rparr>
   = expected_orch stakes u l res"
proof -
  have c: "set (concat (map (rn_capabilities \<circ> mapNode) ns)) = (\<Union>n\<in>set ns. cap_name ` set (nd_capabilities n))" for ns
    by (simp add: mapNode_def)
  have o: "set (concat (map (rn_offerings \<circ> mapNode) ns))
      = (\<Union>n\<in>set ns. \<Union>c\<in>set (nd_capabilities n). of_id ` set (cap_offerings c))" for ns
    by (simp add: mapNode_def)
  show ?thesis
    by (cases u; cases "rr_nodes res")
      (simp_all add: rosterRowFromResolved_def mapResolveResult_def expected_orch_def dedupe_sorted c [simplified]
        o [simplified] narrow_map_freshness mapNode_def narrow_map_signature)
qed



end
