(* ===== verification/PayerClient.thy ===== *)
theory PayerClient
  imports ResolverClient JsNumber
begin

text \<open>
  The client of the payer daemon (\<^verbatim>\<open>src/providers/payerDaemon/client.ts\<close>): the deposit
  query, the ping built on it, and the decoding of the daemon's big-endian byte strings to
  decimal text. The lemmas show that the decoding writes the number the bytes stand for, of
  any length, and that leading zero bytes do not show.
\<close>

section \<open>Big-endian amounts\<close>

text \<open>\<^verbatim>\<open>buf.toString("hex")\<close>, and \<^verbatim>\<open>BigInt\<close> of a text of hexadecimal digits after \<^verbatim>\<open>0x\<close>.\<close>

definition buffer_hex :: "byte list \<Rightarrow> string" where
  "buffer_hex buf = concat (map (\<lambda>b. [hex_digit (unat b div 16), hex_digit (unat b mod 16)]) buf)"

definition bigint_hex :: "string \<Rightarrow> nat" where
  "bigint_hex s = radix_val 16 s"

definition bigEndianBytesToDecimal :: "byte list \<Rightarrow> string" where
  "bigEndianBytesToDecimal buf =
     (if length buf = 0 then ''0'' else show_nat (bigint_hex (buffer_hex buf)))"

text \<open>The number a byte string stands for, the first byte the most significant.\<close>

definition be_value :: "byte list \<Rightarrow> nat" where
  "be_value buf = foldl (\<lambda>a b. 256 * a + unat b) 0 buf"

lemma hex_digit_val_digit: "d < 16 \<Longrightarrow> hex_digit_val (hex_digit d) = d"
  by (simp add: hex_digit_val_def hex_digit_def)

lemma unat_byte_lt: "unat (b :: byte) < 256"
  using unsigned_less [of b, where 'a = nat] by simp

lemma radix_val_byte:
  "foldl (\<lambda>a c. 16 * a + hex_digit_val c) a [hex_digit (unat (b :: byte) div 16), hex_digit (unat b mod 16)]
   = 256 * a + unat b"
proof -
  have "unat b div 16 < 16" using unat_byte_lt [of b] by (simp add: less_mult_imp_div_less)
  then show ?thesis by (simp add: hex_digit_val_digit)
qed

lemma bigint_hex_buffer: "bigint_hex (buffer_hex buf) = be_value buf"
proof -
  have "foldl (\<lambda>a c. 16 * a + hex_digit_val c) a (buffer_hex buf) = foldl (\<lambda>a b. 256 * a + unat b) a buf" for a
  proof (induction buf arbitrary: a)
    case Nil
    then show ?case by (simp add: buffer_hex_def)
  next
    case (Cons b buf)
    have "foldl (\<lambda>a c. 16 * a + hex_digit_val c) a (buffer_hex (b # buf))
        = foldl (\<lambda>a c. 16 * a + hex_digit_val c) (256 * a + unat b) (buffer_hex buf)"
      unfolding radix_val_byte [of a b, symmetric] by (simp add: buffer_hex_def)
    with Cons show ?case by simp
  qed
  then show ?thesis by (simp add: bigint_hex_def radix_val_def be_value_def)
qed

lemma bigEndian_value: "bigEndianBytesToDecimal buf = show_nat (be_value buf)"
proof (cases "buf = []")
  case True
  have "char_of (48 :: nat) = CHR ''0''" by (rule char_of_of_char_nat [symmetric]) simp
  then have "show_nat 0 = ''0''" by (subst show_nat.simps) (simp add: digit_char_def)
  with True show ?thesis by (simp add: bigEndianBytesToDecimal_def be_value_def)
next
  case False
  then show ?thesis by (simp add: bigEndianBytesToDecimal_def bigint_hex_buffer)
qed

lemma be_value_from: "foldl (\<lambda>a b. 256 * a + unat b) a ys = a * 256 ^ length ys + be_value ys"
proof (induction ys arbitrary: a)
  case Nil
  then show ?case by (simp add: be_value_def)
next
  case (Cons y ys)
  have "be_value (y # ys) = unat y * 256 ^ length ys + be_value ys"
    using Cons [of "unat y"] by (simp add: be_value_def)
  moreover have "foldl (\<lambda>a b. 256 * a + unat b) a (y # ys) = (256 * a + unat y) * 256 ^ length ys + be_value ys"
    using Cons [of "256 * a + unat y"] by simp
  ultimately show ?case by (simp only: list.size power_Suc add_mult_distrib) simp
qed

lemma be_value_append: "be_value (xs @ ys) = be_value xs * 256 ^ length ys + be_value ys"
  unfolding be_value_from [of "be_value xs", symmetric] by (simp add: be_value_def)

lemma be_value_zeros: "be_value (replicate k 0) = 0"
  by (induction k) (simp_all add: be_value_def)

text \<open>An amount is reported as the decimal text of the number its bytes stand for, at
  any length: reading the text back gives the number, it is digits only, and padding with
  zero bytes in front changes nothing.\<close>

theorem bigEndian_decimal:
  "dec_val (bigEndianBytesToDecimal buf) = be_value buf
   \<and> list_all is_digit_char (bigEndianBytesToDecimal buf)
   \<and> bigEndianBytesToDecimal (replicate k 0 @ buf) = bigEndianBytesToDecimal buf"
  by (simp add: bigEndian_value show_nat_digits be_value_append be_value_zeros)

section \<open>Calls\<close>

record DepositInfo =
  di_depositWei :: string
  di_reserveWei :: string
  di_withdrawRound :: string

definition payer_getDepositInfo :: "'w env \<Rightarrow> int option \<Rightarrow> ('w, DepositInfo) act" where
  "payer_getDepositInfo env dl =
     io_bind (unary env dl (grpc_getDepositInfo env)) (\<lambda>res.
     io_return \<lparr>di_depositWei = bigEndianBytesToDecimal (gd_deposit res),
                di_reserveWei = bigEndianBytesToDecimal (gd_reserve res),
                di_withdrawRound = show_int (gd_withdrawRound res)\<rparr>)"

definition payer_ping :: "'w env \<Rightarrow> int option \<Rightarrow> ('w, PingResult) act" where
  "payer_ping env dl =
     io_catch (io_bind (payer_getDepositInfo env dl) (\<lambda>_. io_return \<lparr>pg_ok = True, pg_error = None\<rparr>))
       (\<lambda>err. io_return \<lparr>pg_ok = False, pg_error = Some (errorMessage err)\<rparr>)"

lemma keeps_payer [keeps_intros]:
  "keeps db (payer_getDepositInfo env dl)" "keeps db (payer_ping env dl)"
  "keeps cache (payer_getDepositInfo env dl)" "keeps cache (payer_ping env dl)"
  unfolding payer_getDepositInfo_def payer_ping_def by (intro keeps_intros)+

text \<open>A ping never throws; it reports success exactly where the query answered.\<close>

lemma payer_ping_outcome:
  "payer_ping env dl s =
    (case unary env dl (grpc_getDepositInfo env) s of
       (Inr _, s') \<Rightarrow> (Inr \<lparr>pg_ok = True, pg_error = None\<rparr>, s')
     | (Inl e, s') \<Rightarrow> (Inr \<lparr>pg_ok = False, pg_error = Some (errorMessage e)\<rparr>, s'))"
  by (auto simp: payer_ping_def payer_getDepositInfo_def io_catch_def io_bind_def
        split: prod.splits sum.splits)

lemma resolver_ping_outcome:
  "resolver_ping env dl s =
    (case unary env dl (grpc_health env) s of
       (Inr _, s') \<Rightarrow> (Inr \<lparr>pg_ok = True, pg_error = None\<rparr>, s')
     | (Inl e, s') \<Rightarrow> (Inr \<lparr>pg_ok = False, pg_error = Some (errorMessage e)\<rparr>, s'))"
  by (auto simp: resolver_ping_def io_catch_def io_bind_def split: prod.splits sum.splits)

end
