(* ===== verification/AuditService.thy ===== *)
theory AuditService
  imports Repo
begin

text \<open>
  The console's own audit log (\<^verbatim>\<open>src/service/audit/index.ts\<close>, \<^verbatim>\<open>src/types/audit.ts\<close>): appending
  one event and reading the most recent ones with a cursor. The lemmas show that nothing
  is lost between the two, and that following the cursor page by page shows every event
  exactly once.
\<close>

section \<open>The service\<close>

record AuditEvent =
  ev_id :: nat
  ev_occurredAt :: int
  ev_actor :: string
  ev_action :: string
  ev_target :: "string option"
  ev_ok :: bool
  ev_message :: "string option"

record AppendAuditEventInput =
  ap_actor :: string
  ap_action :: string
  ap_target :: "string option"
  ap_ok :: bool
  ap_message :: "string option"

definition rowToDomain :: "AuditEventRow \<Rightarrow> AuditEvent" where
  "rowToDomain r =
     \<lparr>ev_id = au_id r, ev_occurredAt = au_occurredAt r, ev_actor = au_actor r, ev_action = au_action r,
      ev_target = au_target r, ev_ok = (au_ok r = 1), ev_message = au_message r\<rparr>"

definition audit_service_listRecent :: "'w env \<Rightarrow> ListRecentOptions \<Rightarrow> ('w, AuditEvent list) act" where
  "audit_service_listRecent env options =
     io_bind (audit_listRecent env options) (\<lambda>rows. io_return (map rowToDomain rows))"

definition audit_insert_of :: "AppendAuditEventInput \<Rightarrow> AuditEventInsert" where
  "audit_insert_of input =
     \<lparr>ai_actor = ap_actor input, ai_action = ap_action input, ai_target = ap_target input,
      ai_ok = (if ap_ok input then 1 else 0), ai_message = ap_message input\<rparr>"

definition audit_service_append :: "'w env \<Rightarrow> AppendAuditEventInput \<Rightarrow> ('w, unit) act" where
  "audit_service_append env input = audit_append env (audit_insert_of input)"

section \<open>Reading pages\<close>

lemma audit_select_first:
  assumes "wf_table au_id t" and "0 \<le> l"
  shows "audit_select \<lparr>lo_limit = Some l, lo_before = None\<rparr> (tb_rows t) = take (nat l) (rev (tb_rows t))"
  using assms audit_table.sorted_rows [of t] by (simp add: audit_select_def sql_limit_def)

lemma audit_select_after:
  assumes "wf_table au_id t" and "0 \<le> l" and "rev (tb_rows t) = xs @ y # ys"
  shows "audit_select \<lparr>lo_limit = Some l, lo_before = Some (int (au_id y))\<rparr> (tb_rows t) = take (nat l) ys"
  using assms audit_table.sorted_filter_rows [OF assms(1)] audit_table.cursor_suffix [OF assms(1,3)]
  by (simp add: audit_select_def sql_limit_def)

text \<open>
  Following the cursor: a page, then the page below the key of its last row, until a page
  is empty. The fuel bounds the number of pages.
\<close>

fun walk_pages :: "nat \<Rightarrow> int \<Rightarrow> int option \<Rightarrow> AuditEventRow list \<Rightarrow> AuditEventRow list" where
  "walk_pages 0 limit before rows = []"
| "walk_pages (Suc fuel) limit before rows =
     (let page = audit_select \<lparr>lo_limit = Some limit, lo_before = before\<rparr> rows
      in if page = [] then []
         else page @ walk_pages fuel limit (Some (int (au_id (last page)))) rows)"

lemma walk_pages_after:
  assumes wf: "wf_table au_id t" and l: "0 < l"
  shows "rev (tb_rows t) = xs @ y # ys \<Longrightarrow> length ys < fuel \<Longrightarrow>
    walk_pages fuel l (Some (int (au_id y))) (tb_rows t) = ys"
proof (induction fuel arbitrary: xs y ys)
  case 0
  then show ?case by simp
next
  case (Suc fuel)
  have page: "audit_select \<lparr>lo_limit = Some l, lo_before = Some (int (au_id y))\<rparr> (tb_rows t) = take (nat l) ys"
    using audit_select_after wf l Suc.prems(1) by simp
  show ?case
  proof (cases "ys = []")
    case True
    with page show ?thesis by simp
  next
    case False
    let ?p = "take (nat l) ys" and ?q = "drop (nat l) ys"
    have "ys = butlast ?p @ last ?p # ?q" using split_page False l by (metis zero_less_nat_eq)
    with Suc.prems(1) have "rev (tb_rows t) = (xs @ y # butlast ?p) @ last ?p # ?q" by simp
    moreover have "length ?q < fuel"
    proof -
      have "length ?q < length ys" using False l by simp
      with Suc.prems(2) show ?thesis by linarith
    qed
    ultimately have "walk_pages fuel l (Some (int (au_id (last ?p)))) (tb_rows t) = ?q"
      by (rule Suc.IH)
    then show ?thesis using False l by (simp add: page)
  qed
qed

lemma walk_pages_all:
  assumes wf: "wf_table au_id t" and l: "0 < l" and fuel: "length (tb_rows t) < fuel"
  shows "walk_pages fuel l None (tb_rows t) = rev (tb_rows t)"
proof -
  obtain f where f: "fuel = Suc f" using fuel by (cases fuel) auto
  let ?r = "rev (tb_rows t)"
  have page: "audit_select \<lparr>lo_limit = Some l, lo_before = None\<rparr> (tb_rows t) = take (nat l) ?r"
    using audit_select_first wf l by simp
  show ?thesis
  proof (cases "?r = []")
    case True
    with page f show ?thesis by simp
  next
    case False
    let ?p = "take (nat l) ?r" and ?q = "drop (nat l) ?r"
    have "?r = butlast ?p @ last ?p # ?q" using split_page False l by (metis zero_less_nat_eq)
    moreover have "length ?q < f"
    proof -
      have "length ?q < length ?r" using False l by simp
      with fuel f show ?thesis by simp
    qed
    ultimately have "walk_pages f l (Some (int (au_id (last ?p)))) (tb_rows t) = ?q"
      using walk_pages_after [OF wf l] by blast
    then show ?thesis using False l f by (simp add: page)
  qed
qed

text \<open>Pagination is complete and repeats nothing: reading pages of any positive size,
  each below the key of the last row of the one before, shows every event of the log, once,
  the newest first; one page more than there are events is enough to see the end.\<close>

theorem audit_pages_complete:
  assumes "wf_table au_id t" and "0 < l" and "length (tb_rows t) < fuel"
  shows "walk_pages fuel l None (tb_rows t) = rev (tb_rows t) \<and> distinct (map au_id (rev (tb_rows t)))"
  using walk_pages_all [OF assms] audit_table.distinct_ids [OF assms(1)]
  by (simp add: rev_map [symmetric])

definition sample_insert :: "string \<Rightarrow> AuditEventInsert" where
  "sample_insert who =
     \<lparr>ai_actor = who, ai_action = ''resolver.refresh'', ai_target = Some ''*'', ai_ok = 1, ai_message = None\<rparr>"

definition sample_audit_table :: "AuditEventRow table" where
  "sample_audit_table =
     insert_rows (audit_row 1700000000000) [sample_insert ''alice'', sample_insert ''bob'', sample_insert ''eve''] empty_table"

lemma sample_audit_table_wf: "wf_table au_id sample_audit_table" "length (tb_rows sample_audit_table) = 3"
  unfolding sample_audit_table_def
  by (rule audit_table.wf_insert_rows [OF audit_table.wf_empty])
    (simp add: audit_table.rows_insert_rows empty_table_def)

theorem audit_pages_complete_witness:
  "walk_pages 4 2 None (tb_rows sample_audit_table) = rev (tb_rows sample_audit_table)
   \<and> distinct (map au_id (rev (tb_rows sample_audit_table)))"
  by (rule audit_pages_complete) (simp_all add: sample_audit_table_wf)

section \<open>Appending and reading back\<close>

text \<open>The event the service reports for an appended input, under the key and time it got.\<close>

definition event_of :: "nat \<Rightarrow> int \<Rightarrow> AppendAuditEventInput \<Rightarrow> AuditEvent" where
  "event_of n at input =
     \<lparr>ev_id = n, ev_occurredAt = at, ev_actor = ap_actor input, ev_action = ap_action input,
      ev_target = ap_target input, ev_ok = ap_ok input, ev_message = ap_message input\<rparr>"

lemma rowToDomain_audit_row: "rowToDomain (audit_row at n (audit_insert_of i)) = event_of n at i"
  by (simp add: rowToDomain_def audit_row_def audit_insert_of_def event_of_def)

lemma audit_append_ok:
  assumes "fst (db_refuses env (ext s)) = None"
  shows "\<exists>t s'. audit_append env i s = (Inr (), s') \<and>
    db s' = (db s)\<lparr>auditEvents := insert_rows (audit_row t) [i] (auditEvents (db s))\<rparr>"
proof -
  obtain w where w: "db_refuses env (ext s) = (None, w)" using assms by (cases "db_refuses env (ext s)") simp
  obtain t w' where t: "unixepoch env w = (t, w')" by fastforce
  show ?thesis
    by (rule exI [of _ "t * 1000"]) (simp add: audit_append_def statement_def io_simps w t)
qed

lemma audit_listRecent_ok:
  assumes "fst (db_refuses env (ext s)) = None"
  shows "\<exists>s'. audit_service_listRecent env opts s
    = (Inr (map rowToDomain (audit_select opts (tb_rows (auditEvents (db s))))), s') \<and> db s' = db s"
proof -
  obtain w where "db_refuses env (ext s) = (None, w)" using assms by (cases "db_refuses env (ext s)") simp
  then show ?thesis
    by (simp add: audit_service_listRecent_def audit_listRecent_def statement_def io_simps)
qed

text \<open>Audit round trip: an appended event is the newest one read back, with every field
  as given, the result flag turned to 0 or 1 in the row and back, and a key above all
  earlier ones.\<close>

theorem audit_append_roundtrip:
  assumes wf: "wf_db (db s)" and refuses: "\<And>w. fst (db_refuses env w) = None" and l: "1 \<le> l"
  shows "\<exists>s' s'' n at rest. audit_service_append env input s = (Inr (), s') \<and>
    audit_service_listRecent env \<lparr>lo_limit = Some l, lo_before = None\<rparr> s' = (Inr (event_of n at input # rest), s'') \<and>
    (\<forall>r\<in>set (tb_rows (auditEvents (db s))). au_id r < n)"
proof -
  let ?i = "audit_insert_of input" and ?t = "auditEvents (db s)"
  obtain at s' where ap: "audit_append env ?i s = (Inr (), s')"
    and d: "db s' = (db s)\<lparr>auditEvents := insert_rows (audit_row at) [?i] ?t\<rparr>"
    using audit_append_ok refuses by blast
  let ?n = "Suc (tb_seq ?t)"
  have wf': "wf_table au_id (auditEvents (db s'))"
    using audit_append_wf [OF ap wf] by (simp add: wf_db_def)
  have rows: "tb_rows (auditEvents (db s')) = tb_rows ?t @ [audit_row at ?n ?i]"
    by (simp add: d insert_rows_def insert_row_def)
  obtain s'' where ls: "audit_service_listRecent env \<lparr>lo_limit = Some l, lo_before = None\<rparr> s'
      = (Inr (map rowToDomain (take (nat l) (rev (tb_rows (auditEvents (db s')))))), s'')"
    using audit_listRecent_ok [OF refuses, where s = s' and opts = "\<lparr>lo_limit = Some l, lo_before = None\<rparr>"]
      audit_select_first [OF wf', of l] l by auto
  obtain m where m: "nat l = Suc m" using l by (cases "nat l") auto
  have "map rowToDomain (take (nat l) (rev (tb_rows (auditEvents (db s')))))
      = event_of ?n at input # map rowToDomain (take m (rev (tb_rows ?t)))"
    by (simp add: rows m rowToDomain_audit_row)
  moreover have "\<forall>r\<in>set (tb_rows ?t). au_id r < ?n"
    using wf by (auto simp: wf_db_def wf_table_def le_imp_less_Suc)
  ultimately show ?thesis
    using ap ls unfolding audit_service_append_def by metis
qed

definition sample_append :: AppendAuditEventInput where
  "sample_append = \<lparr>ap_actor = ''alice'', ap_action = ''resolver.refresh'', ap_target = Some ''*'',
     ap_ok = False, ap_message = Some ''boom''\<rparr>"

theorem audit_append_roundtrip_witness:
  "\<exists>s' s'' n at rest. audit_service_append still_env sample_append still_sys = (Inr (), s') \<and>
    audit_service_listRecent still_env \<lparr>lo_limit = Some 1, lo_before = None\<rparr> s' = (Inr (event_of n at sample_append # rest), s'') \<and>
    (\<forall>r\<in>set (tb_rows (auditEvents (db still_sys))). au_id r < n)"
  by (rule audit_append_roundtrip) (simp_all add: still_sys_def wf_empty_db still_env_def)

section \<open>Frames\<close>

lemma keeps_audit_service_listRecent [keeps_intros]: "keeps db (audit_service_listRecent env options)"
  unfolding audit_service_listRecent_def by (intro keeps_intros)

lemma audit_service_append_wf:
  "audit_service_append env input s = (r, s') \<Longrightarrow> wf_db (db s) \<Longrightarrow> wf_db (db s')"
  unfolding audit_service_append_def by (rule audit_append_wf)

end
