(* ===== verification/Services.thy ===== *)
theory Services
  imports PayerClient ChainReader AuditService
begin

text \<open>
  The two thin services: the sender's wallet and escrow (\<^verbatim>\<open>src/service/sender/index.ts\<close>), and
  the resolver's search, refresh and audit log (\<^verbatim>\<open>src/service/resolver/index.ts\<close>).
\<close>

section \<open>The sender\<close>

record SenderWallet =
  sw_address :: string
  sw_balanceWei :: string
  sw_minBalanceWei :: "string option"

record SenderEscrow =
  es_depositWei :: string
  es_reserveWei :: string
  es_observedAt :: int

record SenderServiceDeps =
  sn_senderAddress :: "string option"
  sn_minBalanceWei :: "string option"
  sn_callDeadline :: "int option"

definition getWallet :: "'w env \<Rightarrow> SenderServiceDeps \<Rightarrow> ('w, SenderWallet) act" where
  "getWallet env deps =
     (case sn_senderAddress deps of
        None \<Rightarrow> io_throw SenderWalletNotConfiguredError
      | Some a \<Rightarrow>
          if a = [] then io_throw SenderWalletNotConfiguredError
          else io_bind (getBalance env a) (\<lambda>balanceWei.
               io_return \<lparr>sw_address = a, sw_balanceWei = balanceWei, sw_minBalanceWei = sn_minBalanceWei deps\<rparr>))"

definition getEscrow :: "'w env \<Rightarrow> SenderServiceDeps \<Rightarrow> ('w, SenderEscrow) act" where
  "getEscrow env deps =
     io_bind (payer_getDepositInfo env (sn_callDeadline deps)) (\<lambda>info.
     io_bind (observe (date_now env)) (\<lambda>t.
     io_return \<lparr>es_depositWei = di_depositWei info, es_reserveWei = di_reserveWei info, es_observedAt = t\<rparr>))"

lemma keeps_sender [keeps_intros]: "keeps db (getWallet env deps)" "keeps db (getEscrow env deps)"
  unfolding getWallet_def getEscrow_def by (intro keeps_intros)+

section \<open>The resolver\<close>

definition resolver_search :: "'w env \<Rightarrow> int option \<Rightarrow> SelectQuery \<Rightarrow> ('w, SelectResult) act" where
  "resolver_search env dl query = resolver_select env dl query"

definition service_refresh :: "'w env \<Rightarrow> int option \<Rightarrow> string option \<Rightarrow> ('w, unit) act" where
  "service_refresh env dl address =
     (let target = (case address of Some a \<Rightarrow> a | None \<Rightarrow> ''*'')
      in resolver_refresh env dl target (Some True))"

definition fetchAuditLog :: "'w env \<Rightarrow> int option \<Rightarrow> AuditLogOptions \<Rightarrow> ('w, ResolverAuditEntry list) act" where
  "fetchAuditLog env dl opts = resolver_getAuditLog env dl opts"

lemma keeps_resolver_service [keeps_intros]:
  "keeps db (resolver_search env dl q)" "keeps db (service_refresh env dl a)" "keeps db (fetchAuditLog env dl lo)"
  unfolding resolver_search_def service_refresh_def fetchAuditLog_def Let_def by (intro keeps_intros)+

text \<open>The escrow and the wallet in full: an escrow snapshot is the daemon's two byte
  strings in decimal with the time after the call, and a failed call is its error; a wallet
  without a configured address is the configuration error, and asks the chain nothing.\<close>

theorem sender_views:
  "getEscrow env deps s =
     (case unary env (sn_callDeadline deps) (grpc_getDepositInfo env) s of
        (Inl e, s1) \<Rightarrow> (Inl e, s1)
      | (Inr res, s1) \<Rightarrow> (case date_now env (ext s1) of (t, w) \<Rightarrow>
          (Inr \<lparr>es_depositWei = show_nat (be_value (gd_deposit res)),
                es_reserveWei = show_nat (be_value (gd_reserve res)), es_observedAt = t\<rparr>, s1\<lparr>ext := w\<rparr>)))
   \<and> getWallet env (deps\<lparr>sn_senderAddress := None\<rparr>) s = (Inl SenderWalletNotConfiguredError, s)"
  by (auto simp: getEscrow_def payer_getDepositInfo_def getWallet_def io_bind_def observe_def bigEndian_value
        split: prod.split sum.split)

end
