(* ===== verification/Handlers.thy ===== *)
theory Handlers
  imports Config Roster Services
begin

text \<open>
  The request handlers (\<^verbatim>\<open>src/runtime/http/handlers/*.ts\<close>) with the schemas of their inputs,
  and the socket check (\<^verbatim>\<open>src/utils/socketCheck.ts\<close>). A handler returns the reply it sends,
  or throws; what the server makes of a throw is in \<open>Server\<close>. The lemmas give the status and
  body of every branch, and show that an input is rejected before anything else happens.
\<close>

section \<open>Inputs\<close>

text \<open>
  A query value is a text, or a list of texts where the key is repeated; a query has each
  key once. A body is absent, null, an object with its keys, or anything else.
\<close>

datatype qval = QStr string | QArr "string list"

type_synonym query = "(string \<times> qval) list"

datatype body = BodyUndefined | BodyNull | BodyObject "string list" | BodyOther

text \<open>
  A strict object: no key beyond the given ones. A field is parsed from the value under its
  key, if any, and the result is \<open>None\<close> where the field is rejected.
\<close>

definition strict_keys :: "string list \<Rightarrow> ('k \<Rightarrow> string) \<Rightarrow> 'k list \<Rightarrow> bool" where
  "strict_keys allowed key q \<longleftrightarrow> list_all (\<lambda>kv. key kv \<in> set allowed) q"

definition str_field :: "(string \<Rightarrow> bool) \<Rightarrow> qval \<Rightarrow> string option" where
  "str_field p v = (case v of QStr s \<Rightarrow> checked p s | QArr _ \<Rightarrow> None)"

text \<open>\<^verbatim>\<open>Number(v)\<close>, where a list is the text of its members joined by commas.\<close>

fun join_commas :: "string list \<Rightarrow> string" where
  "join_commas [] = []"
| "join_commas [s] = s"
| "join_commas (s # ss) = s @ '','' @ join_commas ss"

definition int_field :: "(int \<Rightarrow> bool) \<Rightarrow> qval \<Rightarrow> int option" where
  "int_field p v = coerce_int p (case v of QStr s \<Rightarrow> s | QArr ss \<Rightarrow> join_commas ss)"

definition opt_field :: "(qval \<Rightarrow> 'a option) \<Rightarrow> qval option \<Rightarrow> 'a option option" where
  "opt_field f v = (case v of None \<Rightarrow> Some None | Some x \<Rightarrow> map_option Some (f x))"

definition len_between :: "nat \<Rightarrow> nat \<Rightarrow> string \<Rightarrow> bool" where
  "len_between lo hi s \<longleftrightarrow> lo \<le> length s \<and> length s \<le> hi"

definition EmptyQuerySchema :: "query \<Rightarrow> unit option" where
  "EmptyQuerySchema q = (if strict_keys [] fst q then Some () else None)"

record ListOrchsQuery =
  lq_capability :: "string option"
  lq_offering :: "string option"

definition ListOrchsQuerySchema :: "query \<Rightarrow> ListOrchsQuery option" where
  "ListOrchsQuerySchema q =
     (if \<not> strict_keys [''capability'', ''offering''] fst q then None
      else Option.bind (opt_field (str_field (len_between 1 120)) (map_of q ''capability'')) (\<lambda>c.
           Option.bind (opt_field (str_field (len_between 1 240)) (map_of q ''offering'')) (\<lambda>f.
           Some \<lparr>lq_capability = c, lq_offering = f\<rparr>)))"

definition CapabilitySearchQuerySchema :: "query \<Rightarrow> SelectQuery option" where
  "CapabilitySearchQuerySchema q =
     (if \<not> strict_keys [''capability'', ''offering'', ''tier''] fst q then None
      else Option.bind (Option.bind (map_of q ''capability'') (str_field (len_between 1 120))) (\<lambda>c.
           Option.bind (Option.bind (map_of q ''offering'') (str_field (len_between 1 240))) (\<lambda>f.
           Option.bind (opt_field (str_field (len_between 1 60)) (map_of q ''tier'')) (\<lambda>t.
           Some \<lparr>qy_capability = c, qy_offering = f, qy_tier = t\<rparr>))))"

definition AuditLogQuerySchema :: "query \<Rightarrow> ListRecentOptions option" where
  "AuditLogQuerySchema q =
     (if \<not> strict_keys [''limit'', ''before''] fst q then None
      else Option.bind (opt_field (int_field (\<lambda>n. 0 < n \<and> n \<le> 500)) (map_of q ''limit'')) (\<lambda>l.
           Option.bind (opt_field (int_field (\<lambda>n. 0 < n)) (map_of q ''before'')) (\<lambda>b.
           Some \<lparr>lo_limit = l, lo_before = b\<rparr>)))"

definition ResolverAuditLogQuerySchema :: "query \<Rightarrow> AuditLogOptions option" where
  "ResolverAuditLogQuerySchema q =
     (if \<not> strict_keys [''since'', ''limit'', ''ethAddress''] fst q then None
      else Option.bind (opt_field (int_field (\<lambda>n. 0 \<le> n)) (map_of q ''since'')) (\<lambda>s.
           Option.bind (opt_field (int_field (\<lambda>n. 0 < n \<and> n \<le> 1000)) (map_of q ''limit'')) (\<lambda>l.
           Option.bind (opt_field (str_field is_eth_address) (map_of q ''ethAddress'')) (\<lambda>a.
           Some \<lparr>lg_ethAddress = a, lg_since = s, lg_limit = l\<rparr>))))"

definition AddressParamsSchema :: "(string \<times> string) list \<Rightarrow> string option" where
  "AddressParamsSchema ps =
     (if \<not> strict_keys [''address''] fst ps then None
      else Option.bind (map_of ps ''address'') (checked is_eth_address))"

definition EmptyBodySchema :: "body \<Rightarrow> unit option" where
  "EmptyBodySchema b =
     (case b of BodyUndefined \<Rightarrow> Some () | BodyNull \<Rightarrow> Some ()
      | BodyObject ks \<Rightarrow> if ks = [] then Some () else None
      | BodyOther \<Rightarrow> None)"

section \<open>Requests and replies\<close>

record request =
  rq_query :: query
  rq_params :: "(string \<times> string) list"
  rq_body :: body
  rq_actor :: string

record SocketCheckResult =
  sk_path :: string
  sk_present :: bool
  sk_error :: "string option"

record DaemonHealth =
  dh_socket :: SocketCheckResult
  dh_ping :: PingResult

datatype reply_body =
    HealthBody bool int DaemonHealth DaemonHealth
  | OrchsBody "OrchRosterRow list"
  | OrchBody OrchDetail
  | OrchNotFoundBody string
  | SelectBody SelectResult
  | WalletBody SenderWallet
  | EscrowBody SenderEscrow
  | EventsBody "AuditEvent list"
  | ResolverEventsBody "ResolverAuditEntry list"
  | RefreshedBody string
  | OkBody
  | ErrorBody string "string option"
  | IssuesBody "zod_issue list"

text \<open>
  A reply with its status, or an error handed to the framework to send, which picks the
  status.
\<close>

datatype reply = Reply nat reply_body | SendError js_error

text \<open>
  \<open>zod\<close> is the error the schema library throws for a rejected input; its issues depend on
  the request.
\<close>

definition zod_parse :: "zod_error \<Rightarrow> 'a option \<Rightarrow> ('w, 'a) act" where
  "zod_parse zod r = (case r of None \<Rightarrow> io_throw (ZodError zod) | Some a \<Rightarrow> io_return a)"

section \<open>Handlers\<close>

definition checkUnixSocket :: "'w env \<Rightarrow> string \<Rightarrow> ('w, SocketCheckResult) act" where
  "checkUnixSocket env path =
     io_bind (observe (fs_stat env path)) (\<lambda>r.
     io_return (case r of
        StatOther \<Rightarrow> \<lparr>sk_path = path, sk_present = False, sk_error = Some ''path exists but is not a socket''\<rparr>
      | StatSocket \<Rightarrow> \<lparr>sk_path = path, sk_present = True, sk_error = None\<rparr>
      | StatError err \<Rightarrow> \<lparr>sk_path = path, sk_present = False, sk_error = Some (errorMessage err)\<rparr>))"

record HandleHealthDeps =
  hh_callDeadline :: "int option"
  hh_resolverSocketPath :: string
  hh_senderSocketPath :: string

definition handleHealth :: "'w env \<Rightarrow> zod_error \<Rightarrow> HandleHealthDeps \<Rightarrow> request \<Rightarrow> ('w, reply) act" where
  "handleHealth env zod deps req =
     io_bind (zod_parse zod (EmptyQuerySchema (rq_query req))) (\<lambda>_.
     io_bind (checkUnixSocket env (hh_resolverSocketPath deps)) (\<lambda>resolverSocket.
     io_bind (checkUnixSocket env (hh_senderSocketPath deps)) (\<lambda>senderSocket.
     io_bind (resolver_ping env (hh_callDeadline deps)) (\<lambda>resolverPing.
     io_bind (payer_ping env (hh_callDeadline deps)) (\<lambda>payerPing.
     let ok = (pg_ok resolverPing \<and> pg_ok payerPing);
         status = (if ok then 200 else 503)
     in io_bind (observe (date_now env)) (\<lambda>ts.
        io_return (Reply status (HealthBody ok ts
          \<lparr>dh_socket = resolverSocket, dh_ping = resolverPing\<rparr>
          \<lparr>dh_socket = senderSocket, dh_ping = payerPing\<rparr>))))))))"

definition filterOrchs :: "OrchRosterRow list \<Rightarrow> ListOrchsQuery \<Rightarrow> OrchRosterRow list" where
  "filterOrchs rows q =
     filter (\<lambda>r.
       if (case lq_capability q of None \<Rightarrow> False | Some c \<Rightarrow> c \<noteq> [] \<and> c \<notin> set (or_capabilities r)) then False
       else if (case lq_offering q of None \<Rightarrow> False | Some f \<Rightarrow> f \<noteq> [] \<and> f \<notin> set (or_offerings r)) then False
       else True) rows"

definition handleListOrchs :: "'w env \<Rightarrow> zod_error \<Rightarrow> RoutingServiceDeps \<Rightarrow> request \<Rightarrow> ('w, reply) act" where
  "handleListOrchs env zod deps req =
     io_bind (zod_parse zod (ListOrchsQuerySchema (rq_query req))) (\<lambda>q.
     io_bind (listOrchs env deps) (\<lambda>rows.
     io_return (Reply 200 (OrchsBody (filterOrchs rows q)))))"

definition handleGetOrch :: "'w env \<Rightarrow> zod_error \<Rightarrow> RoutingServiceDeps \<Rightarrow> request \<Rightarrow> ('w, reply) act" where
  "handleGetOrch env zod deps req =
     io_bind (zod_parse zod (AddressParamsSchema (rq_params req))) (\<lambda>address.
     io_bind (getOrch env deps address) (\<lambda>result.
     if oc_orch result = None \<and> length (oc_recentObservations result) = 0
     then io_return (Reply 404 (OrchNotFoundBody address))
     else io_return (Reply 200 (OrchBody result))))"

definition handleCapabilitySearch :: "'w env \<Rightarrow> zod_error \<Rightarrow> int option \<Rightarrow> request \<Rightarrow> ('w, reply) act" where
  "handleCapabilitySearch env zod dl req =
     io_bind (zod_parse zod (CapabilitySearchQuerySchema (rq_query req))) (\<lambda>q.
     io_bind (resolver_search env dl q) (\<lambda>result.
     io_return (Reply 200 (SelectBody result))))"

definition handleGetSenderWallet :: "'w env \<Rightarrow> zod_error \<Rightarrow> SenderServiceDeps \<Rightarrow> request \<Rightarrow> ('w, reply) act" where
  "handleGetSenderWallet env zod deps req =
     io_bind (zod_parse zod (EmptyQuerySchema (rq_query req))) (\<lambda>_.
     io_catch
       (io_bind (getWallet env deps) (\<lambda>wallet. io_return (Reply 200 (WalletBody wallet))))
       (\<lambda>err. if err = SenderWalletNotConfiguredError
              then io_return (Reply 503 (ErrorBody ''wallet_not_configured'' (Some (errorMessage err))))
              else io_throw err))"

definition handleGetSenderEscrow :: "'w env \<Rightarrow> zod_error \<Rightarrow> SenderServiceDeps \<Rightarrow> request \<Rightarrow> ('w, reply) act" where
  "handleGetSenderEscrow env zod deps req =
     io_bind (zod_parse zod (EmptyQuerySchema (rq_query req))) (\<lambda>_.
     io_bind (getEscrow env deps) (\<lambda>escrow. io_return (Reply 200 (EscrowBody escrow))))"

definition handleListAuditLog :: "'w env \<Rightarrow> zod_error \<Rightarrow> request \<Rightarrow> ('w, reply) act" where
  "handleListAuditLog env zod req =
     io_bind (zod_parse zod (AuditLogQuerySchema (rq_query req))) (\<lambda>q.
     io_bind (audit_service_listRecent env q) (\<lambda>events. io_return (Reply 200 (EventsBody events))))"

definition handleListResolverAuditLog :: "'w env \<Rightarrow> zod_error \<Rightarrow> int option \<Rightarrow> request \<Rightarrow> ('w, reply) act" where
  "handleListResolverAuditLog env zod dl req =
     io_bind (zod_parse zod (ResolverAuditLogQuerySchema (rq_query req))) (\<lambda>q.
     io_bind (fetchAuditLog env dl q) (\<lambda>events. io_return (Reply 200 (ResolverEventsBody events))))"

definition refresh_event :: "string \<Rightarrow> string \<Rightarrow> js_error option \<Rightarrow> AppendAuditEventInput" where
  "refresh_event actor target failure =
     \<lparr>ap_actor = actor, ap_action = ''resolver.refresh'', ap_target = Some target,
      ap_ok = (failure = None), ap_message = map_option errorMessage failure\<rparr>"

definition runRefresh :: "'w env \<Rightarrow> int option \<Rightarrow> request \<Rightarrow> string \<Rightarrow> ('w, reply) act" where
  "runRefresh env dl req target =
     io_catch
       (let callTarget = (if target = ''*'' then None else Some target)
        in io_bind (service_refresh env dl callTarget) (\<lambda>_.
           io_bind (audit_service_append env (refresh_event (rq_actor req) target None)) (\<lambda>_.
           io_return (Reply 200 (RefreshedBody target)))))
       (\<lambda>err. io_bind (audit_service_append env (refresh_event (rq_actor req) target (Some err)))
                (\<lambda>_. io_throw err))"

definition handleResolverRefresh :: "'w env \<Rightarrow> zod_error \<Rightarrow> int option \<Rightarrow> request \<Rightarrow> ('w, reply) act" where
  "handleResolverRefresh env zod dl req =
     io_bind (zod_parse zod (EmptyBodySchema (rq_body req))) (\<lambda>_. runRefresh env dl req ''*'')"

definition handleResolverRefreshOne :: "'w env \<Rightarrow> zod_error \<Rightarrow> int option \<Rightarrow> request \<Rightarrow> ('w, reply) act" where
  "handleResolverRefreshOne env zod dl req =
     io_bind (zod_parse zod (AddressParamsSchema (rq_params req))) (\<lambda>address. runRefresh env dl req address)"

section \<open>Refreshes and the audit log\<close>

lemma audit_service_append_outcome:
  assumes "audit_service_append env (refresh_event actor target f) s = (r, s')"
  shows "case r of Inl e \<Rightarrow> db s' = db s
    | Inr _ \<Rightarrow> \<exists>row. tb_rows (auditEvents (db s')) = tb_rows (auditEvents (db s)) @ [row]
        \<and> routingObservations (db s') = routingObservations (db s)
        \<and> au_actor row = actor \<and> au_action row = ''resolver.refresh'' \<and> au_target row = Some target
        \<and> au_ok row = (if f = None then 1 else 0) \<and> au_message row = map_option errorMessage f"
proof (cases r)
  case (Inl e)
  then show ?thesis using audit_append_outcome assms by (fastforce simp: audit_service_append_def)
next
  case (Inr u)
  then obtain t where "db s' = (db s)\<lparr>auditEvents := insert_rows (audit_row t)
      [audit_insert_of (refresh_event actor target f)] (auditEvents (db s))\<rparr>"
    using audit_append_outcome assms by (fastforce simp: audit_service_append_def)
  then show ?thesis
    by (simp add: Inr insert_rows_def insert_row_def audit_row_def audit_insert_of_def refresh_event_def)
qed

lemma db_service_refresh: "service_refresh env dl a s = (r, s') \<Longrightarrow> db s' = db s"
  by (rule keepsD [OF keeps_resolver_service(2)])

text \<open>The row a refresh is to leave, given its outcome.\<close>

definition refresh_row :: "string \<Rightarrow> string \<Rightarrow> js_error + reply \<Rightarrow> AuditEventRow \<Rightarrow> bool" where
  "refresh_row actor target r row \<longleftrightarrow>
     au_actor row = actor \<and> au_action row = ''resolver.refresh'' \<and> au_target row = Some target \<and>
     (case r of
        Inr rep \<Rightarrow> rep = Reply 200 (RefreshedBody target) \<and> au_ok row = 1 \<and> au_message row = None
      | Inl e \<Rightarrow> au_ok row = 0 \<and> au_message row = Some (errorMessage e))"

lemma runRefresh_log:
  assumes "runRefresh env dl req target s = (r, s')"
  shows "\<exists>rows. tb_rows (auditEvents (db s')) = tb_rows (auditEvents (db s)) @ rows
    \<and> routingObservations (db s') = routingObservations (db s)
    \<and> (case rows of [] \<Rightarrow> (\<exists>e. r = Inl e) \<and> db s' = db s | row # others \<Rightarrow> others = [] \<and> refresh_row (rq_actor req) target r row)"
proof -
  let ?a = "if target = ''*'' then None else Some target" and ?ev = "refresh_event (rq_actor req) target"
  obtain q s1 where 1: "service_refresh env dl ?a s = (q, s1)" by fastforce
  have d1: "db s1 = db s" using db_service_refresh [OF 1] .
  have fail: ?thesis if "audit_service_append env (?ev (Some e)) t = (p, s')" and "db t = db s"
    and "r = (case p of Inl e2 \<Rightarrow> Inl e2 | Inr _ \<Rightarrow> Inl e)" for e p t
    using audit_service_append_outcome [OF that(1)] that(2,3)
    by (cases p) (fastforce simp: refresh_row_def)+
  show ?thesis
  proof (cases q)
    case (Inl e)
    obtain p t where p: "audit_service_append env (?ev (Some e)) s1 = (p, t)" by fastforce
    have "s' = t" "r = (case p of Inl e2 \<Rightarrow> Inl e2 | Inr _ \<Rightarrow> Inl e)"
      using assms 1 p Inl by (cases p; simp add: runRefresh_def io_catch_def io_bind_def)+
    then show ?thesis using fail p d1 by blast
  next
    case (Inr u)
    obtain p s2 where p: "audit_service_append env (?ev None) s1 = (p, s2)" by fastforce
    show ?thesis
    proof (cases p)
      case (Inr v)
      then have "s' = s2" "r = Inr (Reply 200 (RefreshedBody target))"
        using assms 1 p \<open>q = Inr u\<close> by (simp_all add: runRefresh_def io_catch_def io_bind_def)
      then show ?thesis
        using audit_service_append_outcome [OF p] Inr d1 by (fastforce simp: refresh_row_def)
    next
      case (Inl e)
      obtain p2 t where p2: "audit_service_append env (?ev (Some e)) s2 = (p2, t)" by fastforce
      have "s' = t" "r = (case p2 of Inl e2 \<Rightarrow> Inl e2 | Inr _ \<Rightarrow> Inl e)"
        using assms 1 p p2 Inl \<open>q = Inr u\<close> by (cases p2; simp add: runRefresh_def io_catch_def io_bind_def)+
      moreover have "db s2 = db s" using audit_service_append_outcome [OF p] Inl d1 by simp
      ultimately show ?thesis using fail p2 by blast
    qed
  qed
qed

text \<open>C24. A refresh on every branch, whatever the daemon and the database answer: it adds at
  most one row to the audit log and touches no other, the row names the operator, the
  action and the target, it says success exactly where the reply is 200 and otherwise
  carries the thrown error's message, and there is no row, and no change, only where the refresh throws.\<close>

theorem refresh_audited:
  "case runRefresh env dl req target s of (r, s') \<Rightarrow>
     \<exists>rows. tb_rows (auditEvents (db s')) = tb_rows (auditEvents (db s)) @ rows
       \<and> routingObservations (db s') = routingObservations (db s)
       \<and> (case rows of [] \<Rightarrow> (\<exists>e. r = Inl e) \<and> db s' = db s | row # others \<Rightarrow> others = [] \<and> refresh_row (rq_actor req) target r row)"
  using runRefresh_log by (auto split: prod.split)

lemma audit_service_append_ok:
  "fst (db_refuses env (ext s)) = None \<Longrightarrow> \<exists>s'. audit_service_append env i s = (Inr (), s')"
  unfolding audit_service_append_def using audit_append_ok by blast

lemma runRefresh_once:
  assumes "\<And>w. fst (db_refuses env w) = None"
    and "service_refresh env dl (if target = ''*'' then None else Some target) s = (answer, s1)"
  shows "\<exists>s' row. runRefresh env dl req target s
      = (case answer of Inr _ \<Rightarrow> Inr (Reply 200 (RefreshedBody target)) | Inl e \<Rightarrow> Inl e, s')
    \<and> tb_rows (auditEvents (db s')) = tb_rows (auditEvents (db s)) @ [row]
    \<and> au_actor row = rq_actor req \<and> au_target row = Some target
    \<and> au_ok row = (case answer of Inr _ \<Rightarrow> 1 | Inl _ \<Rightarrow> 0)"
proof -
  let ?ev = "refresh_event (rq_actor req) target"
  have d1: "db s1 = db s" using db_service_refresh [OF assms(2)] .
  show ?thesis
  proof (cases answer)
    case (Inl e)
    obtain t where t: "audit_service_append env (?ev (Some e)) s1 = (Inr (), t)"
      using audit_service_append_ok assms(1) by blast
    then have "runRefresh env dl req target s = (Inl e, t)"
      using assms(2) Inl by (simp add: runRefresh_def io_catch_def io_bind_def)
    then show ?thesis using audit_service_append_outcome [OF t] Inl d1 by auto
  next
    case (Inr u)
    obtain t where t: "audit_service_append env (?ev None) s1 = (Inr (), t)"
      using audit_service_append_ok assms(1) by blast
    then have "runRefresh env dl req target s = (Inr (Reply 200 (RefreshedBody target)), t)"
      using assms(2) Inr by (simp add: runRefresh_def io_catch_def io_bind_def)
    then show ?thesis using audit_service_append_outcome [OF t] Inr d1 by auto
  qed
qed

text \<open>Where the database takes every statement, a refresh leaves exactly one row, and
  the row says success exactly where the daemon's refresh succeeded.\<close>

theorem refresh_audited_once:
  assumes "\<And>w. fst (db_refuses env w) = None"
    and "service_refresh env dl (if target = ''*'' then None else Some target) s = (answer, s1)"
  shows "\<exists>s' row. runRefresh env dl req target s
      = (case answer of Inr _ \<Rightarrow> Inr (Reply 200 (RefreshedBody target)) | Inl e \<Rightarrow> Inl e, s')
    \<and> tb_rows (auditEvents (db s')) = tb_rows (auditEvents (db s)) @ [row]
    \<and> au_actor row = rq_actor req \<and> au_target row = Some target
    \<and> au_ok row = (case answer of Inr _ \<Rightarrow> 1 | Inl _ \<Rightarrow> 0)"
  using assms by (rule runRefresh_once)

definition sample_request :: request where
  "sample_request = \<lparr>rq_query = [], rq_params = [], rq_body = BodyUndefined, rq_actor = ''alice''\<rparr>"

theorem refresh_audited_once_witness:
  "\<exists>s' row. runRefresh still_env None sample_request ''*'' still_sys = (Inr (Reply 200 (RefreshedBody ''*'')), s')
    \<and> tb_rows (auditEvents (db s')) = [row] \<and> au_actor row = ''alice'' \<and> au_ok row = 1"
proof -
  have r: "\<And>w. fst (db_refuses still_env w) = None" by (simp add: still_env_def)
  have a: "service_refresh still_env None (if ''*'' = ''*'' then None else Some ''*'') still_sys = (Inr (), still_sys)"
    by (simp add: service_refresh_def resolver_refresh_def unary_apply still_env_def still_sys_def)
  from refresh_audited_once [OF r a, of sample_request] show ?thesis
    by (auto simp: sample_request_def still_sys_def empty_db_def empty_table_def)
qed

text \<open>A database that refuses its first statement only; its world counts the statements.\<close>

definition flaky_env :: "nat env" where
  "flaky_env = still_env\<lparr>db_refuses := (\<lambda>n. (if n = 0 then Some (PlainError ''database is locked'') else None, Suc n))\<rparr>"

text \<open>A refresh that the daemon carried out can be on record as failed: when the
  database refuses the row of the success and takes the next statement, the row says
  failure with the database's message, and the request fails.\<close>

theorem refresh_misreported:
  "\<exists>s1 s' row. service_refresh flaky_env None None \<lparr>ext = 0, db = empty_db, cache = Map.empty\<rparr> = (Inr (), s1)
    \<and> runRefresh flaky_env None sample_request ''*'' \<lparr>ext = 0, db = empty_db, cache = Map.empty\<rparr>
      = (Inl (PlainError ''database is locked''), s')
    \<and> tb_rows (auditEvents (db s')) = [row] \<and> au_ok row = 0 \<and> au_message row = Some ''database is locked''"
  by (simp add: service_refresh_def resolver_refresh_def unary_apply flaky_env_def still_env_def runRefresh_def
      io_catch_def io_bind_def audit_service_append_def audit_append_def statement_def observe_def
      get_db_def put_db_def insert_rows_def insert_row_def audit_row_def audit_insert_of_def refresh_event_def
      errorMessage_def empty_db_def empty_table_def)

section \<open>The other handlers\<close>

lemma zod_parse_simps [simp]:
  "zod_parse zod None = io_throw (ZodError zod)" "zod_parse zod (Some a) = io_return a"
  by (simp_all add: zod_parse_def)

lemma keeps_zod_parse [keeps_intros]: "keeps p (zod_parse zod r)"
  unfolding zod_parse_def by (intro keeps_intros)

text \<open>Health: with no query the reply is 200 exactly where both daemons answered their
  ping and 503 otherwise, whatever the socket files look like, and it is always a reply,
  never a failure.\<close>

theorem health_status:
  assumes "rq_query req = []"
  shows "\<exists>ok ts r d s'. handleHealth env zod deps req s = (Inr (Reply (if ok then 200 else 503) (HealthBody ok ts r d)), s')
    \<and> (ok \<longleftrightarrow> pg_ok (dh_ping r) \<and> pg_ok (dh_ping d))
    \<and> sk_path (dh_socket r) = hh_resolverSocketPath deps \<and> sk_path (dh_socket d) = hh_senderSocketPath deps
    \<and> (\<exists>s1 a b s2 c. unary env (hh_callDeadline deps) (grpc_health env) s1 = (a, b) \<and> (pg_ok (dh_ping r) \<longleftrightarrow> \<not> isl a)
        \<and> unary env (hh_callDeadline deps) (grpc_getDepositInfo env) b = (c, s2) \<and> (pg_ok (dh_ping d) \<longleftrightarrow> \<not> isl c))"
proof -
  have sock: "\<exists>k s'. checkUnixSocket env p s = (Inr k, s') \<and> sk_path k = p" for p s
    by (auto simp: checkUnixSocket_def io_bind_def observe_def split: prod.split stat_result.split)
  obtain k1 s1 where k1: "checkUnixSocket env (hh_resolverSocketPath deps) s = (Inr k1, s1)"
    "sk_path k1 = hh_resolverSocketPath deps" using sock by blast
  obtain k2 s2 where k2: "checkUnixSocket env (hh_senderSocketPath deps) s1 = (Inr k2, s2)"
    "sk_path k2 = hh_senderSocketPath deps" using sock by blast
  obtain a s3 where a: "unary env (hh_callDeadline deps) (grpc_health env) s2 = (a, s3)" by fastforce
  then obtain p1 where p1: "resolver_ping env (hh_callDeadline deps) s2 = (Inr p1, s3)" "pg_ok p1 \<longleftrightarrow> \<not> isl a"
    by (cases a) (simp_all add: resolver_ping_outcome)
  obtain c s4 where c: "unary env (hh_callDeadline deps) (grpc_getDepositInfo env) s3 = (c, s4)" by fastforce
  then obtain p2 where p2: "payer_ping env (hh_callDeadline deps) s3 = (Inr p2, s4)" "pg_ok p2 \<longleftrightarrow> \<not> isl c"
    by (cases c) (simp_all add: payer_ping_outcome)
  obtain t w where t: "date_now env (ext s4) = (t, w)" by fastforce
  have q: "EmptyQuerySchema (rq_query req) = Some ()"
    using assms by (simp add: EmptyQuerySchema_def strict_keys_def)
  have "handleHealth env zod deps req s = (Inr (Reply (if pg_ok p1 \<and> pg_ok p2 then 200 else 503)
      (HealthBody (pg_ok p1 \<and> pg_ok p2) t \<lparr>dh_socket = k1, dh_ping = p1\<rparr> \<lparr>dh_socket = k2, dh_ping = p2\<rparr>)), s4\<lparr>ext := w\<rparr>)"
    by (simp add: handleHealth_def q io_bind_def k1(1) k2(1) p1(1) p2(1) observe_def t)
  then show ?thesis using k1(2) k2(2) p1(2) p2(2) a c by fastforce
qed

theorem health_status_witness:
  "\<exists>ts r d s'. handleHealth still_env \<lparr>ze_issues = [], ze_message = []\<rparr>
     \<lparr>hh_callDeadline = None, hh_resolverSocketPath = ''/r'', hh_senderSocketPath = ''/s''\<rparr> sample_request still_sys
   = (Inr (Reply 200 (HealthBody True ts r d)), s')"
proof -
  let ?deps = "\<lparr>hh_callDeadline = None, hh_resolverSocketPath = ''/r'', hh_senderSocketPath = ''/s''\<rparr>"
  have q: "rq_query sample_request = []" by (simp add: sample_request_def)
  have "\<not> isl a" if "unary still_env None (grpc_health still_env) s1 = (a, b)" for a b and s1 :: "unit sys"
    using that by (auto simp: unary_apply still_env_def)
  moreover have "\<not> isl a" if "unary still_env None (grpc_getDepositInfo still_env) s1 = (a, b)" for a b and s1 :: "unit sys"
    using that by (auto simp: unary_apply still_env_def)
  ultimately show ?thesis
    using health_status [OF q, of still_env "\<lparr>ze_issues = [], ze_message = []\<rparr>" ?deps still_sys] by fastforce
qed

text \<open>C37. Filtering the roster by capability or offering empties it: the roster's rows carry
  no capabilities and no offerings, so a request with either filter gets no row at all,
  whatever the daemon and the chain answer.\<close>

theorem roster_filter_empties:
  assumes "ListOrchsQuerySchema (rq_query req) = Some q"
    and "lq_capability q \<noteq> None \<or> lq_offering q \<noteq> None"
    and "handleListOrchs env zod deps req s = (Inr rep, s')"
  shows "rep = Reply 200 (OrchsBody [])"
proof -
  from assms(3) obtain rows s1 where rows: "listOrchs env deps s = (Inr rows, s1)"
    and rep: "rep = Reply 200 (OrchsBody (filterOrchs rows q))"
    by (auto simp: handleListOrchs_def assms(1) io_bind_Inr)
  from rows have bare: "or_capabilities r = [] \<and> or_offerings r = []" if "r \<in> set rows" for r
    using that by (auto simp: listOrchs_def io_bind_Inr roster_row_def set_zip)
  have long: "c \<noteq> []" if "lq_capability q = Some c \<or> lq_offering q = Some c" for c
    using that assms(1)
    by (auto simp: ListOrchsQuerySchema_def opt_field_def str_field_def checked_def len_between_def bind_eq_Some_conv
        split: if_splits option.splits qval.splits)
  have "filterOrchs rows q = []"
    unfolding filterOrchs_def filter_empty_conv using bare long assms(2) by (auto split: option.split)
  with rep show ?thesis by simp
qed

theorem roster_filter_empties_witness:
  "\<exists>s'. handleListOrchs roster_env \<lparr>ze_issues = [], ze_message = []\<rparr> sample_deps
      (sample_request\<lparr>rq_query := [(''capability'', QStr ''whisper'')]\<rparr>) still_sys
    = (Inr (Reply 200 (OrchsBody [])), s')"
proof -
  let ?req = "sample_request\<lparr>rq_query := [(''capability'', QStr ''whisper'')]\<rparr>"
  let ?q = "\<lparr>lq_capability = Some ''whisper'', lq_offering = None\<rparr>"
  have q: "ListOrchsQuerySchema (rq_query ?req) = Some ?q"
    by (simp add: ListOrchsQuerySchema_def strict_keys_def opt_field_def str_field_def checked_def len_between_def)
  have u: "unary roster_env (rd_callDeadline sample_deps) (grpc_listKnown roster_env) still_sys
      = (Inr \<lparr>lk_entries = [\<lparr>ke_ethAddress = ''0xB'', ke_mode = 1, ke_freshnessStatus = 2, ke_cachedAt = None\<rparr>]\<rparr>, still_sys)"
    by (simp add: unary_apply roster_env_def two_pool_env_def still_env_def still_sys_def)
  obtain rows s' where "listOrchs roster_env sample_deps still_sys = (Inr rows, s')"
    using listOrchs_total [OF sample_still sample_chain _ still_sys_serving u] by auto
  then have h: "handleListOrchs roster_env \<lparr>ze_issues = [], ze_message = []\<rparr> sample_deps ?req still_sys
      = (Inr (Reply 200 (OrchsBody (filterOrchs rows ?q))), s')"
    by (simp add: handleListOrchs_def q [simplified] io_bind_def)
  with roster_filter_empties [OF q _ h] show ?thesis by simp
qed

end
