(* ===== verification/Auth.thy ===== *)
theory Auth
  imports JsText
begin

text \<open>
  The bearer check and the operator handle (\<^verbatim>\<open>src/service/auth/authenticate.ts\<close>,
  \<^verbatim>\<open>src/service/auth/actor.ts\<close>, \<^verbatim>\<open>src/types/actor.ts\<close>). A header is \<open>None\<close> where the
  source has \<^verbatim>\<open>undefined\<close>. The lemmas characterise exactly the headers each accepts.
\<close>

section \<open>The bearer token\<close>

definition parseBearer :: "string option \<Rightarrow> js_error + string" where
  "parseBearer header =
     (case header of
        None \<Rightarrow> Inl (MalformedAuthorizationError ''missing header'')
      | Some h \<Rightarrow>
          if h = [] then Inl (MalformedAuthorizationError ''missing header'')
          else let parts = split_ws (js_trim h);
                   scheme = hd parts;
                   token = (if 2 \<le> length parts then Some (parts ! 1) else None);
                   rest = drop 2 parts
               in if js_lower scheme \<noteq> ''bearer''
                  then Inl (MalformedAuthorizationError ''expected Bearer scheme'')
                  else case token of
                         None \<Rightarrow> Inl (MalformedAuthorizationError ''expected exactly one token'')
                       | Some t \<Rightarrow>
                           if t = [] \<or> rest \<noteq> []
                           then Inl (MalformedAuthorizationError ''expected exactly one token'')
                           else Inr t)"

text \<open>\<^verbatim>\<open>crypto.timingSafeEqual\<close>: equality of two buffers, and an error where their lengths differ.\<close>

definition timingSafeEqual :: "byte list \<Rightarrow> byte list \<Rightarrow> js_error + bool" where
  "timingSafeEqual a b =
     (if length a \<noteq> length b then Inl (RangeError ''Input buffers must have the same byte length'')
      else Inr (a = b))"

definition authenticate :: "string \<Rightarrow> string option \<Rightarrow> js_error + string" where
  "authenticate adminToken header =
     (let expected = utf8_bytes adminToken
      in res_bind (parseBearer header) (\<lambda>provided.
         let providedBuf = utf8_bytes provided
         in if length providedBuf \<noteq> length expected then Inl InvalidAdminTokenError
            else res_bind (timingSafeEqual providedBuf expected) (\<lambda>same.
                 if \<not> same then Inl InvalidAdminTokenError else Inr ''ADMIN_TOKEN'')))"

section \<open>The operator handle\<close>

definition is_handle_char :: "char \<Rightarrow> bool" where
  "is_handle_char c \<longleftrightarrow> is_lower_char c \<or> is_digit_char c \<or> c \<in> {CHR ''.'', CHR ''_'', CHR ''-''}"

definition ActorHandleSchema :: "string \<Rightarrow> bool" where
  "ActorHandleSchema s \<longleftrightarrow> 1 \<le> length s \<and> length s \<le> 64 \<and> s \<noteq> [] \<and> list_all is_handle_char s"

text \<open>
  \<open>issues\<close> is the schema library's list of messages for a text the schema rejects; the
  source takes the first, or a fixed text where there is none.
\<close>

definition parseActor :: "(string \<Rightarrow> string list) \<Rightarrow> string option \<Rightarrow> js_error + string" where
  "parseActor issues headerValue =
     (case headerValue of
        None \<Rightarrow> Inl MissingActorError
      | Some h \<Rightarrow>
          let trimmed = js_trim h
          in if length trimmed = 0 then Inl MissingActorError
             else if \<not> ActorHandleSchema trimmed
             then Inl (MalformedActorError
                    (case issues trimmed of [] \<Rightarrow> ''invalid handle'' | m # _ \<Rightarrow> m))
             else Inr trimmed)"

section \<open>Lemmas\<close>

lemma bearer_word: "js_lower sch = ''bearer'' \<Longrightarrow> list_all (\<lambda>c. \<not> is_js_space c) sch"
  by (rule lower_word) (simp add: is_js_space_def)

lemma parseBearer_None [simp]: "parseBearer None = Inl (MalformedAuthorizationError ''missing header'')"
  by (simp add: parseBearer_def)

lemma parseBearer_parts:
  "parseBearer (Some h) = Inr t \<longleftrightarrow>
     t \<noteq> [] \<and> (\<exists>sch. split_ws (js_trim h) = [sch, t] \<and> js_lower sch = ''bearer'')"
proof (cases "split_ws (js_trim h)")
  case Nil
  then show ?thesis by simp
next
  case (Cons sch rest)
  have h: "h = [] \<Longrightarrow> rest = []"
    using Cons split_ws_word [of "[]"] by (simp add: js_trim_def js_trim_start_def)
  show ?thesis
    using Cons h by (cases rest; cases "tl rest") (auto simp: parseBearer_def)
qed

text \<open>The headers accepted, as texts: white space, the scheme, white space, the token, white space.\<close>

definition bearer_header :: "string \<Rightarrow> string \<Rightarrow> bool" where
  "bearer_header t h \<longleftrightarrow>
     t \<noteq> [] \<and> list_all (\<lambda>c. \<not> is_js_space c) t \<and>
     (\<exists>pre sch ws post. h = pre @ sch @ ws @ t @ post \<and> js_lower sch = ''bearer''
        \<and> ws \<noteq> [] \<and> list_all is_js_space (pre @ ws @ post))"

lemma parseBearer_iff: "parseBearer (Some h) = Inr t \<longleftrightarrow> bearer_header t h"
proof
  assume "parseBearer (Some h) = Inr t"
  then obtain sch where t: "t \<noteq> []" and sp: "split_ws (js_trim h) = [sch, t]" "js_lower sch = ''bearer''"
    by (auto simp: parseBearer_parts)
  from sp(1) t obtain ws where ws: "js_trim h = sch @ ws @ t" "ws \<noteq> []" "list_all is_js_space ws"
    "list_all (\<lambda>c. \<not> is_js_space c) t"
    by (auto simp: split_ws_two_iff)
  obtain pre post where "h = pre @ js_trim h @ post" "list_all is_js_space pre" "list_all is_js_space post"
    by (rule js_trim_decompose)
  then show "bearer_header t h"
    using t sp(2) ws unfolding bearer_header_def
    by (metis append.assoc list_all_append)
next
  assume "bearer_header t h"
  then obtain pre sch ws post where t: "t \<noteq> []" "list_all (\<lambda>c. \<not> is_js_space c) t"
    and h: "h = pre @ sch @ ws @ t @ post" and sch: "js_lower sch = ''bearer''"
    and ws: "ws \<noteq> []" "list_all is_js_space ws" and sp: "list_all is_js_space pre" "list_all is_js_space post"
    by (auto simp: bearer_header_def)
  have w: "list_all (\<lambda>c. \<not> is_js_space c) sch" using sch by (rule bearer_word)
  have "sch \<noteq> []" using sch by (auto simp: js_lower_def)
  have "js_trim h = sch @ ws @ t"
    unfolding h using js_trim_core [of pre post "sch @ ws @ t"] sp t w \<open>sch \<noteq> []\<close>
    by (simp add: list_all_iff)
  moreover have "split_ws (sch @ ws @ t) = [sch, t]"
    using t ws w by (auto simp: split_ws_two_iff)
  ultimately show "parseBearer (Some h) = Inr t"
    using t sch by (simp add: parseBearer_parts)
qed

lemma authenticate_token:
  "authenticate tok h = Inr a \<longleftrightarrow> a = ''ADMIN_TOKEN'' \<and> parseBearer h = Inr tok"
  by (cases "parseBearer h")
    (auto simp: authenticate_def timingSafeEqual_def dest: utf8_bytes_inj)

text \<open>C5. Exactly one kind of header is authenticated: optional white space, the scheme
  \<^verbatim>\<open>bearer\<close> in any case, white space, the configured token itself, optional white space;
  the comparison of the two byte buffers never fails with a length error, and the identity
  returned is always the name of the variable.\<close>

theorem authenticate_iff:
  "authenticate tok h = Inr a \<longleftrightarrow>
     a = ''ADMIN_TOKEN'' \<and> (\<exists>hv. h = Some hv \<and> bearer_header tok hv)"
proof (cases h)
  case None
  then show ?thesis by (simp add: authenticate_def)
next
  case (Some hv)
  then show ?thesis by (simp add: authenticate_token parseBearer_iff)
qed

lemma parseBearer_error: "parseBearer h = Inl e \<Longrightarrow> \<exists>m. e = MalformedAuthorizationError m"
  by (auto simp: parseBearer_def split: option.splits if_splits)

text \<open>The only errors of the check are the two the request gate answers with 401.\<close>

lemma authenticate_error:
  "authenticate tok h = Inl e \<Longrightarrow> e = InvalidAdminTokenError \<or> (\<exists>m. e = MalformedAuthorizationError m)"
  by (cases "parseBearer h")
    (auto simp: authenticate_def timingSafeEqual_def dest: parseBearer_error split: if_splits)

text \<open>A configured token that contains white space, which the environment's schema
  accepts, authenticates no header at all.\<close>

theorem authenticate_token_with_space:
  assumes "c \<in> set tok" and "is_js_space c"
  shows "\<exists>e. authenticate tok h = Inl e"
proof (rule ccontr)
  assume "\<nexists>e. authenticate tok h = Inl e"
  then obtain a where "authenticate tok h = Inr a" by (cases "authenticate tok h") auto
  then have "list_all (\<lambda>c. \<not> is_js_space c) tok"
    by (cases h) (simp_all add: authenticate_token parseBearer_iff bearer_header_def)
  with assms show False by (simp add: list_all_iff)
qed

theorem authenticate_token_with_space_witness:
  "\<exists>e. authenticate ''correct horse battery staple 123'' (Some ''Bearer correct horse battery staple 123'') = Inl e"
  by (rule authenticate_token_with_space [of "CHR '' ''"]) (simp_all add: is_js_space_def)

lemma handle_char_not_space: "is_handle_char c \<Longrightarrow> \<not> is_js_space c"
  by (auto simp: is_handle_char_def is_lower_char_def is_digit_char_def is_js_space_def)

lemma ActorHandle_trim: "ActorHandleSchema s \<Longrightarrow> js_trim s = s"
  using js_trim_core [of "[]" "[]" s] handle_char_not_space
  by (simp add: ActorHandleSchema_def list_all_iff)

text \<open>The operator handle is accepted exactly where the header, without surrounding
  white space, is a handle of 1 to 64 permitted characters, and the handle returned is
  that text; a missing or blank header is one error and every other header the other.\<close>

theorem parseActor_cases:
  "parseActor issues h =
     (case h of None \<Rightarrow> Inl MissingActorError
      | Some v \<Rightarrow>
          if list_all is_js_space v then Inl MissingActorError
          else if \<exists>pre s post. v = pre @ s @ post \<and> list_all is_js_space (pre @ post) \<and> ActorHandleSchema s
          then Inr (js_trim v)
          else Inl (MalformedActorError
                 (case issues (js_trim v) of [] \<Rightarrow> ''invalid handle'' | m # _ \<Rightarrow> m)))"
proof (cases h)
  case None
  then show ?thesis by (simp add: parseActor_def)
next
  case (Some v)
  have blank: "js_trim v = [] \<longleftrightarrow> list_all is_js_space v"
  proof
    assume "js_trim v = []"
    then show "list_all is_js_space v" using js_trim_decompose [of v] by (metis append_Nil list_all_append)
  next
    assume "list_all is_js_space v"
    then have dw: "dropWhile is_js_space v = []" by (simp add: list_all_iff)
    show "js_trim v = []" by (simp add: js_trim_def js_trim_start_def dw)
  qed
  have ok: "ActorHandleSchema (js_trim v) \<longleftrightarrow>
    (\<exists>pre s post. v = pre @ s @ post \<and> list_all is_js_space (pre @ post) \<and> ActorHandleSchema s)"
  proof
    assume "ActorHandleSchema (js_trim v)"
    then show "\<exists>pre s post. v = pre @ s @ post \<and> list_all is_js_space (pre @ post) \<and> ActorHandleSchema s"
      using js_trim_decompose [of v] by (metis list_all_append)
  next
    assume "\<exists>pre s post. v = pre @ s @ post \<and> list_all is_js_space (pre @ post) \<and> ActorHandleSchema s"
    then obtain pre s post where v: "v = pre @ s @ post" "list_all is_js_space pre" "list_all is_js_space post"
      and s: "ActorHandleSchema s" by auto
    then have "js_trim v = s"
      using js_trim_core [of pre post s] handle_char_not_space
      by (simp add: ActorHandleSchema_def list_all_iff)
    with s show "ActorHandleSchema (js_trim v)" by simp
  qed
  show ?thesis
    unfolding Some option.case blank [symmetric] ok [symmetric] by (simp add: parseActor_def)
qed

lemma parseActor_ok: "parseActor issues h = Inr a \<Longrightarrow> ActorHandleSchema a"
  by (auto simp: parseActor_def split: option.splits if_splits)

lemma parseActor_error:
  "parseActor issues h = Inl e \<Longrightarrow> e = MissingActorError \<or> (\<exists>m. e = MalformedActorError m)"
  by (auto simp: parseActor_def split: option.splits if_splits)

lemma parseActor_handle: "ActorHandleSchema s \<Longrightarrow> parseActor issues (Some s) = Inr s"
  using ActorHandle_trim [of s] by (auto simp: parseActor_def ActorHandleSchema_def)

end
