(* ===== verification/Server.thy ===== *)
theory Server
  imports Handlers Auth
begin

text \<open>
  The HTTP server (\<^verbatim>\<open>src/runtime/http/server.ts\<close>): the gate every request passes, the table
  of routes, and the error handler around the handlers. The router that maps a method and a
  URL to a route is the framework's, the argument \<open>router\<close>; so is what is served where no
  route of the program matches, the argument \<open>fallback\<close>. The lemmas show what the gate
  answers, that without the configured token a request runs no handler, changes nothing and
  calls nobody, and that every row of the audit log names the operator of an authenticated
  request; both rest on the router handing only URLs that begin with \<^verbatim>\<open>/api/\<close> to the API
  routes, and the last section shows what happens where it does not.
\<close>

section \<open>Requests\<close>

datatype header = HAbsent | HText string | HTexts "string list"

definition headerString :: "header \<Rightarrow> string option" where
  "headerString value = (case value of HText s \<Rightarrow> Some s | _ \<Rightarrow> None)"

record http_request =
  hq_method :: string
  hq_url :: string
  hq_authorization :: header
  hq_xActor :: header
  hq_query :: query
  hq_body :: body

record ServerDeps =
  sd_adminToken :: string
  sd_callDeadline :: "int option"
  sd_routing :: RoutingServiceDeps
  sd_sender :: SenderServiceDeps
  sd_resolverSocketPath :: string
  sd_senderSocketPath :: string

section \<open>The gate\<close>

datatype gate_result = GatePass string | GateStop reply | GateThrow js_error

text \<open>The request's actor is the empty text until the gate sets it.\<close>

definition gate :: "string \<Rightarrow> (string \<Rightarrow> string list) \<Rightarrow> http_request \<Rightarrow> gate_result" where
  "gate adminToken issues req =
     (if \<not> starts_with ''/api/'' (hq_url req) then GatePass []
      else case res_bind (authenticate adminToken (headerString (hq_authorization req)))
                  (\<lambda>_. parseActor issues (headerString (hq_xActor req))) of
             Inr actor \<Rightarrow> GatePass actor
           | Inl err \<Rightarrow> (case err of
               MalformedAuthorizationError _ \<Rightarrow>
                 GateStop (Reply 401 (ErrorBody ''malformed_authorization'' (Some (errorMessage err))))
             | InvalidAdminTokenError \<Rightarrow> GateStop (Reply 401 (ErrorBody ''invalid_admin_token'' None))
             | MissingActorError \<Rightarrow> GateStop (Reply 400 (ErrorBody ''missing_actor'' None))
             | MalformedActorError _ \<Rightarrow>
                 GateStop (Reply 400 (ErrorBody ''malformed_actor'' (Some (errorMessage err))))
             | _ \<Rightarrow> GateThrow err))"

section \<open>Routes\<close>

datatype route =
    Healthz | ApiHealth | ApiOrchs | ApiOrch | ApiCapabilitiesSearch | ApiSenderWallet | ApiSenderEscrow
  | ApiAuditLog | ApiResolverAuditLog | ApiResolverRefresh | ApiResolverRefreshOne

definition route_table :: "(string \<times> string \<times> route) list" where
  "route_table =
     [(''GET'', ''/healthz'', Healthz),
      (''GET'', ''/api/health'', ApiHealth),
      (''GET'', ''/api/orchs'', ApiOrchs),
      (''GET'', ''/api/orchs/:address'', ApiOrch),
      (''GET'', ''/api/capabilities/search'', ApiCapabilitiesSearch),
      (''GET'', ''/api/sender/wallet'', ApiSenderWallet),
      (''GET'', ''/api/sender/escrow'', ApiSenderEscrow),
      (''GET'', ''/api/audit-log'', ApiAuditLog),
      (''GET'', ''/api/resolver/audit-log'', ApiResolverAuditLog),
      (''POST'', ''/api/resolver/refresh'', ApiResolverRefresh),
      (''POST'', ''/api/resolver/refresh/:address'', ApiResolverRefreshOne)]"

type_synonym router = "string \<Rightarrow> string \<Rightarrow> (route \<times> (string \<times> string) list) option"

definition handle ::
    "'w env \<Rightarrow> ServerDeps \<Rightarrow> zod_error \<Rightarrow> route \<Rightarrow> (string \<times> string) list \<Rightarrow> string \<Rightarrow> http_request
      \<Rightarrow> ('w, reply) act" where
  "handle env deps zod rt params actor hreq =
     (let req = \<lparr>rq_query = hq_query hreq, rq_params = params, rq_body = hq_body hreq, rq_actor = actor\<rparr>;
          dl = sd_callDeadline deps
      in case rt of
           Healthz \<Rightarrow> io_return (Reply 200 OkBody)
         | ApiHealth \<Rightarrow> handleHealth env zod
             \<lparr>hh_callDeadline = dl, hh_resolverSocketPath = sd_resolverSocketPath deps,
              hh_senderSocketPath = sd_senderSocketPath deps\<rparr> req
         | ApiOrchs \<Rightarrow> handleListOrchs env zod (sd_routing deps) req
         | ApiOrch \<Rightarrow> handleGetOrch env zod (sd_routing deps) req
         | ApiCapabilitiesSearch \<Rightarrow> handleCapabilitySearch env zod dl req
         | ApiSenderWallet \<Rightarrow> handleGetSenderWallet env zod (sd_sender deps) req
         | ApiSenderEscrow \<Rightarrow> handleGetSenderEscrow env zod (sd_sender deps) req
         | ApiAuditLog \<Rightarrow> handleListAuditLog env zod req
         | ApiResolverAuditLog \<Rightarrow> handleListResolverAuditLog env zod dl req
         | ApiResolverRefresh \<Rightarrow> handleResolverRefresh env zod dl req
         | ApiResolverRefreshOne \<Rightarrow> handleResolverRefreshOne env zod dl req)"

definition errorHandler :: "js_error \<Rightarrow> reply" where
  "errorHandler err = (case err of ZodError z \<Rightarrow> Reply 400 (IssuesBody (ze_issues z)) | _ \<Rightarrow> SendError err)"

definition serve ::
    "'w env \<Rightarrow> ServerDeps \<Rightarrow> router \<Rightarrow> (http_request \<Rightarrow> reply) \<Rightarrow> zod_error \<Rightarrow> (string \<Rightarrow> string list)
      \<Rightarrow> http_request \<Rightarrow> ('w, reply) act" where
  "serve env deps router fallback zod issues req =
     (case gate (sd_adminToken deps) issues req of
        GateStop rep \<Rightarrow> io_return rep
      | GateThrow err \<Rightarrow> io_return (errorHandler err)
      | GatePass actor \<Rightarrow>
          (case router (hq_method req) (hq_url req) of
             None \<Rightarrow> io_return (fallback req)
           | Some (rt, params) \<Rightarrow>
               io_catch (handle env deps zod rt params actor req) (\<lambda>err. io_return (errorHandler err))))"

section \<open>What the gate answers\<close>

definition authentic :: "string \<Rightarrow> http_request \<Rightarrow> bool" where
  "authentic tok req \<longleftrightarrow> (\<exists>a. authenticate tok (headerString (hq_authorization req)) = Inr a)"

text \<open>The gate on every request: outside the API it lets pass with no actor; inside, a
  request without the configured token is answered 401, one with the token but without a
  proper operator handle 400, and the others pass with their handle, which is 1 to 64
  permitted characters; the gate itself never fails.\<close>

theorem gate_cases:
  "if \<not> starts_with ''/api/'' (hq_url req) then gate tok issues req = GatePass []
   else if \<not> authentic tok req then \<exists>c m. gate tok issues req = GateStop (Reply 401 (ErrorBody c m))
   else case parseActor issues (headerString (hq_xActor req)) of
     Inl e \<Rightarrow> \<exists>c m. gate tok issues req = GateStop (Reply 400 (ErrorBody c m))
   | Inr actor \<Rightarrow> gate tok issues req = GatePass actor \<and> ActorHandleSchema actor"
proof (cases "authenticate tok (headerString (hq_authorization req))")
  case (Inl e)
  then show ?thesis
    using authenticate_error [OF Inl] by (auto simp: gate_def authentic_def)
next
  case (Inr a)
  then show ?thesis
    by (cases "parseActor issues (headerString (hq_xActor req))")
      (auto simp: gate_def authentic_def dest: parseActor_error parseActor_ok)
qed

lemma gate_stops:
  assumes "starts_with ''/api/'' (hq_url req)" and "\<not> authentic tok req"
  shows "\<exists>c m. gate tok issues req = GateStop (Reply 401 (ErrorBody c m))"
proof (cases "authenticate tok (headerString (hq_authorization req))")
  case (Inl e)
  then show ?thesis using authenticate_error [OF Inl] assms by (auto simp: gate_def)
qed (use assms in \<open>auto simp: authentic_def\<close>)

lemma gate_pass:
  assumes "starts_with ''/api/'' (hq_url req)" and "gate tok issues req = GatePass actor"
  shows "authentic tok req \<and> parseActor issues (headerString (hq_xActor req)) = Inr actor"
proof (cases "authenticate tok (headerString (hq_authorization req))")
  case (Inl e)
  then show ?thesis using authenticate_error [OF Inl] assms by (auto simp: gate_def)
next
  case (Inr a)
  then show ?thesis
    using assms by (cases "parseActor issues (headerString (hq_xActor req))")
      (auto simp: gate_def authentic_def dest: parseActor_error)
qed

text \<open>
  The contract of the router: the API's routes are found only for URLs that begin, as they
  stand, with \<^verbatim>\<open>/api/\<close>.
\<close>

definition api_urls_only :: "router \<Rightarrow> bool" where
  "api_urls_only router \<longleftrightarrow>
     (\<forall>m u rt ps. router m u = Some (rt, ps) \<longrightarrow> rt \<noteq> Healthz \<longrightarrow> starts_with ''/api/'' u)"


text \<open>A router that matches paths as they stand, for concrete requests.\<close>

definition plain_router :: router where
  "plain_router m u =
     (let path = takeWhile (\<lambda>c. c \<noteq> CHR ''?'') u
      in case filter (\<lambda>(m', p, rt). m' = m \<and> p = path) route_table of
           (m', p, rt) # _ \<Rightarrow> Some (rt, [])
         | [] \<Rightarrow>
             if m = ''GET'' \<and> starts_with ''/api/orchs/'' path then Some (ApiOrch, [(''address'', drop 11 path)])
             else if m = ''POST'' \<and> starts_with ''/api/resolver/refresh/'' path
             then Some (ApiResolverRefreshOne, [(''address'', drop 22 path)])
             else None)"

definition sample_server :: ServerDeps where
  "sample_server = \<lparr>sd_adminToken = ''0123456789abcdef0123456789abcdef'', sd_callDeadline = None,
     sd_routing = sample_deps,
     sd_sender = \<lparr>sn_senderAddress = None, sn_minBalanceWei = None, sn_callDeadline = None\<rparr>,
     sd_resolverSocketPath = ''/r'', sd_senderSocketPath = ''/s''\<rparr>"

definition sample_post :: http_request where
  "sample_post = \<lparr>hq_method = ''POST'', hq_url = ''/api/resolver/refresh'',
     hq_authorization = HText ''Bearer 0123456789abcdef0123456789abcdef'', hq_xActor = HText ''alice'',
     hq_query = [], hq_body = BodyUndefined\<rparr>"

lemma starts_with_append: "starts_with p s \<longleftrightarrow> (\<exists>t. s = p @ t)"
  unfolding starts_with_def by (metis append_eq_conv_conj append_take_drop_id)

lemma starts_with_takeWhile: "starts_with p (takeWhile P u) \<Longrightarrow> starts_with p u"
  unfolding starts_with_append by (metis append.assoc takeWhile_dropWhile_id)

lemma starts_with_trans: "starts_with p (p @ q)" "starts_with (p @ q) s \<Longrightarrow> starts_with p s"
  by (auto simp: starts_with_append)

lemma route_table_api: "(m, p, rt) \<in> set route_table \<Longrightarrow> rt \<noteq> Healthz \<Longrightarrow> starts_with ''/api/'' p"
proof -
  have "list_all (\<lambda>(m, p, rt). rt \<noteq> Healthz \<longrightarrow> starts_with ''/api/'' p) route_table"
    by (simp add: route_table_def starts_with_def)
  moreover assume "(m, p, rt) \<in> set route_table" and "rt \<noteq> Healthz"
  ultimately show ?thesis by (auto simp: list_all_iff)
qed

lemma plain_router_api: "api_urls_only plain_router"
  unfolding api_urls_only_def
proof (intro allI impI)
  fix m u rt ps
  let ?path = "takeWhile (\<lambda>c. c \<noteq> CHR ''?'') u"
  assume r: "plain_router m u = Some (rt, ps)" and n: "rt \<noteq> Healthz"
  show "starts_with ''/api/'' u"
  proof (cases "filter (\<lambda>(m', p, rt). m' = m \<and> p = ?path) route_table")
    case Nil
    with r have "starts_with (''/api/'' @ ''orchs/'') ?path \<or> starts_with (''/api/'' @ ''resolver/refresh/'') ?path"
      by (auto simp: plain_router_def split: if_splits)
    then have "starts_with ''/api/'' ?path" using starts_with_trans(2) by blast
    then show ?thesis by (rule starts_with_takeWhile)
  next
    case (Cons x xs)
    obtain m' p rt' where x: "x = (m', p, rt')" by (cases x)
    with Cons r have rt: "rt' = rt" by (simp add: plain_router_def)
    have "x \<in> set (filter (\<lambda>(m', p, rt). m' = m \<and> p = ?path) route_table)" unfolding Cons by simp
    then have "(m', p, rt) \<in> set route_table" "p = ?path" using x rt by auto
    then show ?thesis using route_table_api n starts_with_takeWhile by metis
  qed
qed


section \<open>Who is on record\<close>

lemma keeps_handleHealth [keeps_intros]: "keeps db (handleHealth env zod deps req)"
  unfolding handleHealth_def checkUnixSocket_def Let_def by (intro keeps_intros)

lemma keeps_handleListOrchs [keeps_intros]: "keeps db (handleListOrchs env zod deps req)"
  unfolding handleListOrchs_def by (intro keeps_intros)

lemma keeps_handleGetOrch [keeps_intros]: "keeps db (handleGetOrch env zod deps req)"
  unfolding handleGetOrch_def by (intro keeps_intros)

lemma keeps_handleReads [keeps_intros]:
  "keeps db (handleCapabilitySearch env zod dl req)" "keeps db (handleGetSenderWallet env zod sdeps req)"
  "keeps db (handleGetSenderEscrow env zod sdeps req)" "keeps db (handleListAuditLog env zod req)"
  "keeps db (handleListResolverAuditLog env zod dl req)"
  unfolding handleCapabilitySearch_def handleGetSenderWallet_def handleGetSenderEscrow_def
    handleListAuditLog_def handleListResolverAuditLog_def
  by (intro keeps_intros)+

text \<open>What a request may add to the audit log: nothing, or one row for the actor.\<close>

definition logs_at_most :: "string \<Rightarrow> Db \<Rightarrow> Db \<Rightarrow> bool" where
  "logs_at_most actor d d' \<longleftrightarrow> d' = d \<or>
     (\<exists>row. tb_rows (auditEvents d') = tb_rows (auditEvents d) @ [row]
        \<and> routingObservations d' = routingObservations d
        \<and> au_actor row = actor \<and> au_action row = ''resolver.refresh'')"

lemma logs_same: "logs_at_most actor d d"
  by (simp add: logs_at_most_def)

lemma runRefresh_logs:
  assumes "runRefresh env dl req target s = (r, s')"
  shows "logs_at_most (rq_actor req) (db s) (db s')"
proof -
  from runRefresh_log [OF assms] obtain rows where
    rows: "tb_rows (auditEvents (db s')) = tb_rows (auditEvents (db s)) @ rows"
      "routingObservations (db s') = routingObservations (db s)"
    and c: "case rows of [] \<Rightarrow> (\<exists>e. r = Inl e) \<and> db s' = db s
      | row # others \<Rightarrow> others = [] \<and> refresh_row (rq_actor req) target r row" by blast
  from rows c show ?thesis by (cases rows) (auto simp: logs_at_most_def refresh_row_def)
qed

definition is_refresh :: "route \<Rightarrow> bool" where
  "is_refresh rt \<longleftrightarrow> rt = ApiResolverRefresh \<or> rt = ApiResolverRefreshOne"

lemma handle_reads: "\<not> is_refresh rt \<Longrightarrow> keeps db (handle env deps zod rt params actor req)"
  unfolding handle_def Let_def by (cases rt) (auto simp: is_refresh_def intro!: keeps_intros)

lemma zod_then_refresh:
  "io_bind (zod_parse zod x) f s = (r, s') \<Longrightarrow> (\<And>a r s'. f a s = (r, s') \<Longrightarrow> logs_at_most actor (db s) (db s'))
    \<Longrightarrow> logs_at_most actor (db s) (db s')"
  by (cases x) (auto simp: logs_same)

lemma handle_logs:
  assumes "handle env deps zod rt params actor req s = (r, s')"
  shows "logs_at_most actor (db s) (db s')"
proof (cases "is_refresh rt")
  case True
  then consider "rt = ApiResolverRefresh" | "rt = ApiResolverRefreshOne" by (auto simp: is_refresh_def)
  then show ?thesis
  proof cases
    case 1
    with assms show ?thesis
      by (auto simp: handle_def handleResolverRefresh_def dest!: runRefresh_logs elim!: zod_then_refresh)
  next
    case 2
    with assms show ?thesis
      by (auto simp: handle_def handleResolverRefreshOne_def dest!: runRefresh_logs elim!: zod_then_refresh)
  qed
next
  case False
  from keepsD [OF handle_reads [OF False] assms] show ?thesis by (simp add: logs_same)
qed


lemma sample_post_passes: "gate (sd_adminToken sample_server) issues sample_post = GatePass ''alice''"
proof -
  have "parseBearer (Some ''Bearer 0123456789abcdef0123456789abcdef'') = Inr ''0123456789abcdef0123456789abcdef''"
    unfolding parseBearer_iff bearer_header_def
    by (rule conjI, simp, rule conjI, simp add: is_js_space_def,
        rule exI [of _ "[]"], rule exI [of _ "''Bearer''"], rule exI [of _ "'' ''"], rule exI [of _ "[]"])
      (simp add: is_js_space_def js_lower_def js_lower_char_def char_of_def bit_Suc_0_iff)
  then have a: "authenticate ''0123456789abcdef0123456789abcdef'' (Some ''Bearer 0123456789abcdef0123456789abcdef'')
      = Inr ''ADMIN_TOKEN''"
    by (simp add: authenticate_token)
  have "parseActor issues (Some ''alice'') = Inr ''alice''"
    by (rule parseActor_handle) (simp add: ActorHandleSchema_def is_handle_char_def is_lower_char_def)
  with a show ?thesis
    by (simp add: gate_def sample_post_def sample_server_def headerString_def starts_with_def)
qed

lemma plain_router_refresh: "plain_router ''POST'' ''/api/resolver/refresh'' = Some (ApiResolverRefresh, [])"
  by (simp add: plain_router_def route_table_def)

lemma refresh_runs:
  "\<exists>s' row. handle still_env sample_server zod ApiResolverRefresh [] actor sample_post still_sys
      = (Inr (Reply 200 (RefreshedBody ''*'')), s')
    \<and> tb_rows (auditEvents (db s')) = [row] \<and> au_actor row = actor"
proof -
  let ?req = "\<lparr>rq_query = hq_query sample_post, rq_params = [], rq_body = hq_body sample_post, rq_actor = actor\<rparr>"
  have r: "\<And>w. fst (db_refuses still_env w) = None" by (simp add: still_env_def)
  have a: "service_refresh still_env None (if ''*'' = ''*'' then None else Some ''*'') still_sys = (Inr (), still_sys)"
    by (simp add: service_refresh_def resolver_refresh_def unary_apply still_env_def still_sys_def)
  obtain s' row where run: "runRefresh still_env None ?req ''*'' still_sys = (Inr (Reply 200 (RefreshedBody ''*'')), s')"
    and row: "tb_rows (auditEvents (db s')) = [row]" "au_actor row = actor"
    using runRefresh_once [OF r a, of ?req] by (auto simp: still_sys_def empty_db_def empty_table_def)
  have "handle still_env sample_server zod ApiResolverRefresh [] actor sample_post still_sys
      = runRefresh still_env None ?req ''*'' still_sys"
    by (simp add: handle_def handleResolverRefresh_def EmptyBodySchema_def sample_post_def sample_server_def)
  with run row show ?thesis by metis
qed


section \<open>Rejected input\<close>

definition route_accepts :: "route \<Rightarrow> (string \<times> string) list \<Rightarrow> http_request \<Rightarrow> bool" where
  "route_accepts rt params req \<longleftrightarrow>
     (case rt of
        Healthz \<Rightarrow> True
      | ApiHealth \<Rightarrow> EmptyQuerySchema (hq_query req) \<noteq> None
      | ApiOrchs \<Rightarrow> ListOrchsQuerySchema (hq_query req) \<noteq> None
      | ApiOrch \<Rightarrow> AddressParamsSchema params \<noteq> None
      | ApiCapabilitiesSearch \<Rightarrow> CapabilitySearchQuerySchema (hq_query req) \<noteq> None
      | ApiSenderWallet \<Rightarrow> EmptyQuerySchema (hq_query req) \<noteq> None
      | ApiSenderEscrow \<Rightarrow> EmptyQuerySchema (hq_query req) \<noteq> None
      | ApiAuditLog \<Rightarrow> AuditLogQuerySchema (hq_query req) \<noteq> None
      | ApiResolverAuditLog \<Rightarrow> ResolverAuditLogQuerySchema (hq_query req) \<noteq> None
      | ApiResolverRefresh \<Rightarrow> EmptyBodySchema (hq_body req) \<noteq> None
      | ApiResolverRefreshOne \<Rightarrow> AddressParamsSchema params \<noteq> None)"

lemma not_Some_unit: "x \<noteq> Some () \<longleftrightarrow> x = None"
  by (cases x) auto

lemma rejected_handle:
  "\<not> route_accepts rt params req \<Longrightarrow> handle env deps zod rt params actor req s = (Inl (ZodError zod), s)"
  unfolding route_accepts_def
  by (cases rt)
    (simp_all add: not_Some_unit handle_def handleHealth_def handleListOrchs_def handleGetOrch_def handleCapabilitySearch_def
      handleGetSenderWallet_def handleGetSenderEscrow_def handleListAuditLog_def handleListResolverAuditLog_def
      handleResolverRefresh_def handleResolverRefreshOne_def)

text \<open>C26. Rejected input: whatever the route, a request that passes the gate and whose query,
  parameters or body the route's schema rejects is answered 400 with the schema's issues,
  before any daemon, chain or database is touched.\<close>

theorem rejected_input_has_no_effect:
  assumes "gate (sd_adminToken deps) issues req = GatePass actor"
    and "router (hq_method req) (hq_url req) = Some (rt, params)"
    and "\<not> route_accepts rt params req"
  shows "serve env deps router fallback zod issues req s = (Inr (Reply 400 (IssuesBody (ze_issues zod))), s)"
  using assms(1,2) by (simp add: serve_def io_catch_def errorHandler_def rejected_handle [OF assms(3)])

lemma gate_body: "gate tok issues (req\<lparr>hq_body := b\<rparr>) = gate tok issues req"
  by (simp add: gate_def)

theorem rejected_input_has_no_effect_witness:
  "serve still_env sample_server plain_router (\<lambda>_. Reply 404 OkBody) \<lparr>ze_issues = [], ze_message = []\<rparr> (\<lambda>_. [])
     (sample_post\<lparr>hq_body := BodyObject [''address'']\<rparr>) still_sys = (Inr (Reply 400 (IssuesBody [])), still_sys)"
proof -
  let ?req = "sample_post\<lparr>hq_body := BodyObject [''address'']\<rparr>"
  have g: "gate (sd_adminToken sample_server) (\<lambda>_. []) ?req = GatePass ''alice''"
    unfolding gate_body by (rule sample_post_passes)
  have r: "plain_router (hq_method ?req) (hq_url ?req) = Some (ApiResolverRefresh, [])"
    by (simp add: sample_post_def plain_router_refresh)
  have "\<not> route_accepts ApiResolverRefresh [] ?req" by (simp add: route_accepts_def EmptyBodySchema_def)
  from rejected_input_has_no_effect [where router = plain_router, OF g r this,
      of still_env "\<lambda>_. Reply 404 OkBody" "\<lparr>ze_issues = [], ze_message = []\<rparr>" still_sys] show ?thesis by simp
qed

section \<open>The database under requests\<close>

abbreviation wf_state :: "'w sys \<Rightarrow> bool" where
  "wf_state s \<equiv> wf_db (db s)"

lemma runRefresh_wf: "ensures wf_state (ok_or True (\<lambda>_. True)) (runRefresh env dl req target)"
proof -
  have a: "ensures wf_state (ok_or True (\<lambda>_. True)) (audit_service_append env i)" for i
    by (rule ensuresI) (auto simp: ok_or_True dest: audit_service_append_wf)
  have s: "ensures wf_state (ok_or True (\<lambda>_. True)) (service_refresh env dl x)" for x
    by (rule ensures_frame [OF keeps_resolver_service(2)]) (rule ok_or_True, simp)
  have t: "ensures wf_state (ok_or True (\<lambda>_. True)) (io_throw e)" for e :: js_error
    by (rule ensuresI) auto
  show ?thesis
    unfolding runRefresh_def Let_def
    by (rule ensures_catch; (rule ensures_bind [OF s])?, (rule ensures_bind [OF a])?)
      (auto intro: ensures_bind [OF a] ensures_return t)
qed

lemma ensures_zod_bind:
  assumes "\<And>a. ensures I (ok_or True (\<lambda>_. True)) (g a)"
  shows "ensures I (ok_or True (\<lambda>_. True)) (io_bind (zod_parse zod x) g)"
  using assms by (cases x) (simp_all, rule ensuresI, auto)

lemma handle_wf:
  assumes "handle env deps zod rt params actor req s = (r, s')" and "wf_db (db s)"
  shows "wf_db (db s')"
proof (cases "is_refresh rt")
  case True
  then have "ensures wf_state (ok_or True (\<lambda>_. True)) (handle env deps zod rt params actor req)"
    by (auto simp: is_refresh_def handle_def handleResolverRefresh_def handleResolverRefreshOne_def
        intro!: ensures_zod_bind runRefresh_wf)
  from ensuresD [OF this assms(2,1)] show ?thesis by simp
next
  case False
  from keepsD [OF handle_reads [OF False] assms(1)] assms(2) show ?thesis by simp
qed

text \<open>The tables stay well formed under any request: keys are positive, strictly
  increasing in the order of insertion and never above the table's counter.\<close>

theorem serve_keeps_wf:
  assumes "serve env deps router fallback zod issues req s = (r, s')" and "wf_db (db s)"
  shows "wf_db (db s')"
proof (cases "gate (sd_adminToken deps) issues req")
  case (GatePass actor)
  show ?thesis
  proof (cases "router (hq_method req) (hq_url req)")
    case None
    with GatePass assms show ?thesis by (auto simp: serve_def)
  next
    case (Some x)
    obtain rt ps where x: "x = (rt, ps)" by (cases x)
    obtain q t where h: "handle env deps zod rt ps actor req s = (q, t)" by fastforce
    have "s' = t" using assms(1) h Some GatePass x by (cases q) (auto simp: serve_def io_catch_def)
    with handle_wf [OF h assms(2)] show ?thesis by simp
  qed
qed (use assms in \<open>auto simp: serve_def\<close>)

theorem serve_keeps_wf_witness:
  "wf_db (db (snd (serve still_env sample_server plain_router (\<lambda>_. Reply 404 OkBody) \<lparr>ze_issues = [], ze_message = []\<rparr> (\<lambda>_. [])
     sample_post still_sys)))"
proof (rule serve_keeps_wf)
  show "wf_db (db still_sys)" by (simp add: still_sys_def wf_empty_db)
qed (rule prod.collapse [symmetric])

section \<open>A router that decodes\<close>

text \<open>The gate looks at the URL as it stands: where the router finds a route for a URL
  that does not begin with \<^verbatim>\<open>/api/\<close> as it stands, such as one that decodes an escaped
  letter of it, the handler runs with the empty actor for any authorization header and any
  operator header, so the authentication of the API rests on the router's contract.\<close>

theorem gate_rests_on_router:
  assumes "router (hq_method req) (hq_url req) = Some (rt, ps)" and "\<not> starts_with ''/api/'' (hq_url req)"
  shows "serve env deps router fallback zod issues (req\<lparr>hq_authorization := x, hq_xActor := y\<rparr>) s
    = io_catch (handle env deps zod rt ps [] req) (\<lambda>err. io_return (errorHandler err)) s"
proof -
  have "handle env deps zod rt ps [] (req\<lparr>hq_authorization := x, hq_xActor := y\<rparr>) = handle env deps zod rt ps [] req"
    by (simp add: handle_def)
  then show ?thesis using assms by (simp add: serve_def gate_def)
qed

definition decoding_router :: router where
  "decoding_router m u = plain_router m (if starts_with ''/%61pi/'' u then ''/api/'' @ drop 7 u else u)"

theorem gate_rests_on_router_witness:
  "\<exists>s' row. serve still_env sample_server decoding_router (\<lambda>_. Reply 404 OkBody) \<lparr>ze_issues = [], ze_message = []\<rparr> (\<lambda>_. [])
      (sample_post\<lparr>hq_url := ''/%61pi/resolver/refresh'', hq_authorization := HAbsent, hq_xActor := HAbsent\<rparr>) still_sys
      = (Inr (Reply 200 (RefreshedBody ''*'')), s')
    \<and> tb_rows (auditEvents (db s')) = [row] \<and> au_actor row = []"
proof -
  let ?req = "sample_post\<lparr>hq_url := ''/%61pi/resolver/refresh''\<rparr>"
  have r: "decoding_router (hq_method ?req) (hq_url ?req) = Some (ApiResolverRefresh, [])"
    using plain_router_refresh by (simp add: decoding_router_def sample_post_def starts_with_def)
  have n: "\<not> starts_with ''/api/'' (hq_url ?req)" by (simp add: starts_with_def)
  obtain s' row where h: "handle still_env sample_server \<lparr>ze_issues = [], ze_message = []\<rparr> ApiResolverRefresh [] [] sample_post still_sys
      = (Inr (Reply 200 (RefreshedBody ''*'')), s')"
    and row: "tb_rows (auditEvents (db s')) = [row]" "au_actor row = []"
    using refresh_runs by blast
  have h': "handle still_env sample_server \<lparr>ze_issues = [], ze_message = []\<rparr> ApiResolverRefresh [] [] ?req still_sys
      = (Inr (Reply 200 (RefreshedBody ''*'')), s')" using h by (simp add: handle_def)
  from gate_rests_on_router [where router = decoding_router, OF r n, of still_env sample_server "\<lambda>_. Reply 404 OkBody" "\<lparr>ze_issues = [], ze_message = []\<rparr>"
      "\<lambda>_. []" HAbsent HAbsent still_sys] h' row
  show ?thesis by (simp add: io_catch_def)
qed

end
