(* ===== verification/AuditPoll.thy ===== *)
theory AuditPoll
  imports ResolverClient Repo
begin

text \<open>
  The worker that mirrors the resolver's audit log into the observations table
  (\<^verbatim>\<open>src/runtime/workers/auditPoll.ts\<close>): its watermark, its flag of a running tick and its
  timer, one tick from the request to the new watermark, and the events that may come
  between the two halves of a tick. The lemmas show what a tick inserts and where it moves
  the watermark, that a failed tick changes neither, that only one request is ever out, and
  under what answers of the daemon the table mirrors the log; and they show the answers
  for which it does not.
\<close>

section \<open>State\<close>

record AuditPollWorkerOptions =
  ap_intervalMs :: int
  ap_fetchLimit :: "int option"
  ap_callDeadline :: "int option"

text \<open>
  \<open>wk_request\<close> is the watermark the outstanding request was sent with; the code keeps it in
  the running tick only.
\<close>

record 'w worker =
  wk_watermarkMs :: "int option"
  wk_timer :: bool
  wk_inFlight :: bool
  wk_request :: "int option option"
  wk_sys :: "'w sys"

record TickResult =
  tk_inserted :: nat
  tk_watermark :: "int option"

definition init_worker :: "'w sys \<Rightarrow> 'w worker" where
  "init_worker s = \<lparr>wk_watermarkMs = None, wk_timer = False, wk_inFlight = False, wk_request = None, wk_sys = s\<rparr>"

section \<open>From events to rows\<close>

fun mode_text :: "ResolveModeLabel \<Rightarrow> string" where
  "mode_text WellKnown = ''well-known''"
| "mode_text Csv = ''csv''"
| "mode_text Legacy = ''legacy''"
| "mode_text Unspecified = ''unspecified''"

definition quote_key :: "string \<Rightarrow> string" where
  "quote_key k = CHR 0x22 # k @ [CHR 0x22, CHR '':'']"

text \<open>\<^verbatim>\<open>JSON.stringify({ kind, mode, detail })\<close>.\<close>

definition details_json :: "string \<Rightarrow> string \<Rightarrow> string \<Rightarrow> string" where
  "details_json kind mode detail =
     ''{'' @ quote_key ''kind'' @ json_string kind @ '','' @ quote_key ''mode'' @ json_string mode
     @ '','' @ quote_key ''detail'' @ json_string detail @ ''}''"

definition eventToObservation :: "ResolverAuditEntry \<Rightarrow> RoutingObservationInsert" where
  "eventToObservation e =
     \<lparr>ri_observedAt = re_occurredAt e,
      ri_orchAddress = js_lower (case re_orchAddress e of None \<Rightarrow> [] | Some a \<Rightarrow> a),
      ri_capability = None, ri_offering = None, ri_signatureStatus = None, ri_freshnessStatus = None,
      ri_detailsJson = Some (details_json (re_kind e) (mode_text (re_mode e)) (re_detail e))\<rparr>"

text \<open>
  The loop over a batch. A time that is not a number is neither at most 0 nor above the
  maximum.
\<close>

definition skipped :: "ResolverAuditEntry \<Rightarrow> bool" where
  "skipped e \<longleftrightarrow>
     (case re_orchAddress e of None \<Rightarrow> True | Some a \<Rightarrow> a = [])
     \<or> (case re_occurredAt e of None \<Rightarrow> False | Some t \<Rightarrow> t \<le> 0)"

definition collect_event ::
    "RoutingObservationInsert list \<times> int \<Rightarrow> ResolverAuditEntry \<Rightarrow> RoutingObservationInsert list \<times> int" where
  "collect_event acc e =
     (case acc of (rows, maxAt) \<Rightarrow>
        if skipped e then (rows, maxAt)
        else (rows @ [eventToObservation e],
              case re_occurredAt e of None \<Rightarrow> maxAt | Some t \<Rightarrow> if t > maxAt then t else maxAt))"

definition watermark_or :: "int option \<Rightarrow> int" where
  "watermark_or wm = (case wm of None \<Rightarrow> -1 | Some t \<Rightarrow> t)"

definition collect :: "int option \<Rightarrow> ResolverAuditEntry list \<Rightarrow> RoutingObservationInsert list \<times> int" where
  "collect wm events = foldl collect_event ([], watermark_or wm) events"

section \<open>A tick\<close>

definition poll_options :: "AuditPollWorkerOptions \<Rightarrow> int option \<Rightarrow> AuditLogOptions" where
  "poll_options opts wm =
     \<lparr>lg_ethAddress = None, lg_since = wm,
      lg_limit = Some (case ap_fetchLimit opts of None \<Rightarrow> 1000 | Some n \<Rightarrow> n)\<rparr>"

definition poll_fetch ::
    "'w env \<Rightarrow> AuditPollWorkerOptions \<Rightarrow> int option \<Rightarrow> ('w, ResolverAuditEntry list) act" where
  "poll_fetch env opts wm = resolver_getAuditLog env (ap_callDeadline opts) (poll_options opts wm)"

text \<open>The first half: the flag goes up and the request leaves with the watermark.\<close>

definition poll_begin :: "'w worker \<Rightarrow> 'w worker" where
  "poll_begin p = p\<lparr>wk_inFlight := True, wk_request := Some (wk_watermarkMs p)\<rparr>"

text \<open>The second half: the answer, or its error, arrives; the flag comes down on every path.\<close>

definition poll_finish ::
    "'w env \<Rightarrow> js_error + ResolverAuditEntry list \<Rightarrow> ('w worker, js_error, TickResult) io" where
  "poll_finish env answer p =
     (let idle = p\<lparr>wk_inFlight := False, wk_request := None\<rparr>
      in case answer of
           Inl err \<Rightarrow> (Inl err, idle)
         | Inr events \<Rightarrow>
             let (rows, maxAt) = collect (wk_watermarkMs p) events;
                 (stored, s) = (if length rows > 0 then appendBatch env rows (wk_sys p) else (Inr (), wk_sys p));
                 wm = (if maxAt > watermark_or (wk_watermarkMs p) then Some (maxAt + 1) else wk_watermarkMs p)
             in case stored of
                  Inl err \<Rightarrow> (Inl err, idle\<lparr>wk_sys := s\<rparr>)
                | Inr _ \<Rightarrow> (Inr \<lparr>tk_inserted = length rows, tk_watermark = wm\<rparr>,
                            idle\<lparr>wk_sys := s, wk_watermarkMs := wm\<rparr>))"

definition tick :: "'w env \<Rightarrow> AuditPollWorkerOptions \<Rightarrow> ('w worker, js_error, TickResult) io" where
  "tick env opts p =
     (if wk_inFlight p then (Inr \<lparr>tk_inserted = 0, tk_watermark = wk_watermarkMs p\<rparr>, p)
      else let p1 = poll_begin p;
               (answer, s) = poll_fetch env opts (wk_watermarkMs p) (wk_sys p)
           in poll_finish env answer (p1\<lparr>wk_sys := s\<rparr>))"

definition poll_start :: "AuditPollWorkerOptions \<Rightarrow> 'w worker \<Rightarrow> 'w worker" where
  "poll_start opts p =
     (if wk_timer p then p else if ap_intervalMs opts \<le> 0 then p else p\<lparr>wk_timer := True\<rparr>)"

definition poll_stop :: "'w worker \<Rightarrow> 'w worker" where
  "poll_stop p = (if \<not> wk_timer p then p else p\<lparr>wk_timer := False\<rparr>)"

section \<open>What a batch gives\<close>

definition kept :: "ResolverAuditEntry list \<Rightarrow> ResolverAuditEntry list" where
  "kept events = filter (\<lambda>e. \<not> skipped e) events"

text \<open>The largest time among events, and a starting value.\<close>

definition newest :: "int \<Rightarrow> ResolverAuditEntry list \<Rightarrow> int" where
  "newest base events = Max (insert base {t. Some t \<in> re_occurredAt ` set events})"

lemma newest_Nil: "newest base [] = base"
  by (simp add: newest_def)

lemma finite_times: "finite {t. Some t \<in> re_occurredAt ` set events}"
proof -
  have "{t. Some t \<in> re_occurredAt ` set events} = Some -` (re_occurredAt ` set events)" by auto
  then show ?thesis by (simp add: finite_vimageI)
qed

lemma newest_snoc:
  "newest base (events @ [e]) =
    (case re_occurredAt e of None \<Rightarrow> newest base events | Some t \<Rightarrow> if t > newest base events then t else newest base events)"
proof (cases "re_occurredAt e")
  case None
  then have "{t. Some t \<in> re_occurredAt ` set (events @ [e])} = {t. Some t \<in> re_occurredAt ` set events}" by auto
  with None show ?thesis by (simp add: newest_def)
next
  case (Some t)
  then have "insert base {t. Some t \<in> re_occurredAt ` set (events @ [e])}
      = insert t (insert base {t. Some t \<in> re_occurredAt ` set events})" by auto
  then have "newest base (events @ [e]) = max t (newest base events)"
    unfolding newest_def by (simp only:) (rule Max_insert, simp_all add: finite_times)
  with Some show ?thesis by (simp add: max_def)
qed

lemma collect_eq: "collect wm events = (map eventToObservation (kept events), newest (watermark_or wm) (kept events))"
proof (induction events rule: rev_induct)
  case Nil
  then show ?case by (simp add: collect_def kept_def newest_Nil)
next
  case (snoc e events)
  have "collect wm (events @ [e]) = collect_event (collect wm events) e" by (simp add: collect_def)
  then show ?case unfolding snoc
    by (cases "skipped e") (simp_all add: collect_event_def kept_def newest_snoc split: option.split)
qed

lemma newest_ge: "base \<le> newest base events" and newest_member: "Some t \<in> re_occurredAt ` set events \<Longrightarrow> t \<le> newest base events"
  by (simp_all add: newest_def finite_times)

definition new_watermark :: "int option \<Rightarrow> ResolverAuditEntry list \<Rightarrow> int option" where
  "new_watermark wm events =
     (if newest (watermark_or wm) (kept events) > watermark_or wm
      then Some (newest (watermark_or wm) (kept events) + 1) else wm)"

lemma poll_finish_eq:
  "poll_finish env answer p =
    (case answer of
       Inl err \<Rightarrow> (Inl err, p\<lparr>wk_inFlight := False, wk_request := None\<rparr>)
     | Inr events \<Rightarrow> (case appendBatch env (map eventToObservation (kept events)) (wk_sys p) of
           (Inl err, s) \<Rightarrow> (Inl err, p\<lparr>wk_inFlight := False, wk_request := None, wk_sys := s\<rparr>)
         | (Inr _, s) \<Rightarrow> (Inr \<lparr>tk_inserted = length (kept events), tk_watermark = new_watermark (wk_watermarkMs p) events\<rparr>,
              p\<lparr>wk_inFlight := False, wk_request := None, wk_sys := s,
                wk_watermarkMs := new_watermark (wk_watermarkMs p) events\<rparr>)))"
proof -
  have "appendBatch env [] s = (Inr (), s)" for s by (simp add: appendBatch_def)
  then show ?thesis
    by (auto simp: poll_finish_def collect_eq new_watermark_def split: sum.split prod.split)
qed

lemma new_watermark_mono: "watermark_or wm \<le> watermark_or (new_watermark wm events)"
  by (simp add: new_watermark_def watermark_or_def)

section \<open>One tick\<close>

abbreviation stored_rows :: "'w worker \<Rightarrow> RoutingObservationRow list" where
  "stored_rows p \<equiv> tb_rows (routingObservations (db (wk_sys p)))"

lemma keeps_poll_fetch: "keeps db (poll_fetch env opts wm)"
  unfolding poll_fetch_def by (intro keeps_intros)

lemma tick_idle:
  assumes "\<not> wk_inFlight p" and "poll_fetch env opts (wk_watermarkMs p) (wk_sys p) = (answer, s1)"
  shows "tick env opts p = poll_finish env answer ((poll_begin p)\<lparr>wk_sys := s1\<rparr>)"
  using assms by (simp add: tick_def)

text \<open>C25. A tick on every branch: one that finds another running returns at once and
  changes nothing; a failed one, whether the daemon or the database failed, leaves the
  watermark and the table as they were and the worker free for the next; and a successful
  one appends the row of every event it keeps, in the answer's order, and moves the
  watermark one millisecond past the newest of them if that is past the watermark.\<close>

theorem tick_outcome:
  "case tick env opts p of
     (Inl err, p') \<Rightarrow> wk_watermarkMs p' = wk_watermarkMs p \<and> \<not> wk_inFlight p'
        \<and> routingObservations (db (wk_sys p')) = routingObservations (db (wk_sys p))
   | (Inr res, p') \<Rightarrow> tk_watermark res = wk_watermarkMs p' \<and>
        (if wk_inFlight p then p' = p \<and> tk_inserted res = 0
         else \<exists>events s1. poll_fetch env opts (wk_watermarkMs p) (wk_sys p) = (Inr events, s1)
           \<and> \<not> wk_inFlight p' \<and> tk_inserted res = length (kept events)
           \<and> wk_watermarkMs p' = new_watermark (wk_watermarkMs p) events
           \<and> routingObservations (db (wk_sys p')) =
               insert_rows observation_row (map eventToObservation (kept events)) (routingObservations (db (wk_sys p))))"
proof (cases "wk_inFlight p")
  case True
  then show ?thesis by (simp add: tick_def)
next
  case False
  obtain answer s1 where f: "poll_fetch env opts (wk_watermarkMs p) (wk_sys p) = (answer, s1)" by fastforce
  have d: "db s1 = db (wk_sys p)" using keepsD [OF keeps_poll_fetch f] .
  show ?thesis
  proof (cases answer)
    case (Inl err)
    with False f d show ?thesis by (simp add: tick_idle poll_finish_eq poll_begin_def)
  next
    case (Inr events)
    obtain r s2 where a: "appendBatch env (map eventToObservation (kept events)) s1 = (r, s2)" by fastforce
    from appendBatch_outcome [OF a] Inr False f d a show ?thesis
      by (cases r) (simp_all add: tick_idle poll_finish_eq poll_begin_def)
  qed
qed

section \<open>The mirror\<close>

definition forget_id :: "RoutingObservationRow \<Rightarrow> RoutingObservationRow" where
  "forget_id r = r\<lparr>ro_id := 0\<rparr>"

definition mirror_row :: "ResolverAuditEntry \<Rightarrow> RoutingObservationRow" where
  "mirror_row e = observation_row 0 (eventToObservation e)"

text \<open>
  The table holds the kept events of a log, in its order and each once, and the watermark is
  past them all.
\<close>

definition mirrored :: "'w worker \<Rightarrow> ResolverAuditEntry list \<Rightarrow> bool" where
  "mirrored p log \<longleftrightarrow>
     map forget_id (stored_rows p) = map mirror_row (kept log) \<and>
     (\<forall>e\<in>set (kept log). \<exists>t. re_occurredAt e = Some t \<and> t < watermark_or (wk_watermarkMs p))"

definition since_ok :: "int option \<Rightarrow> ResolverAuditEntry \<Rightarrow> bool" where
  "since_ok wm e = (case wm of None \<Rightarrow> True | Some s \<Rightarrow> (case re_occurredAt e of None \<Rightarrow> True | Some t \<Rightarrow> s \<le> t))"

lemma forget_rows:
  "map forget_id (tb_rows (insert_rows observation_row is t)) = map forget_id (tb_rows t) @ map (observation_row 0) is"
proof -
  have "forget_id (observation_row n i) = observation_row 0 i" for n i
    by (simp add: forget_id_def observation_row_def)
  then have "forget_id (case x of (k, i) \<Rightarrow> observation_row (tb_seq t + Suc k) i) = observation_row 0 (snd x)" for x
    by (simp add: case_prod_unfold)
  then have "map (forget_id \<circ> (\<lambda>(k, i). observation_row (tb_seq t + Suc k) i)) (enumerate 0 is)
      = map (observation_row 0 \<circ> snd) (enumerate 0 is)" by simp
  also have "\<dots> = map (observation_row 0) is"
    unfolding map_map [symmetric] by simp
  finally show ?thesis by (simp add: observation_table.rows_insert_rows)
qed

lemma appendBatch_ok:
  assumes "fst (db_refuses env (ext s)) = None" and "\<forall>i\<in>set is. ri_observedAt i \<noteq> None"
  shows "\<exists>s'. appendBatch env is s = (Inr (), s')
    \<and> routingObservations (db s') = insert_rows observation_row is (routingObservations (db s))"
proof -
  obtain w where "db_refuses env (ext s) = (None, w)" using assms by (cases "db_refuses env (ext s)") simp
  with assms(2) show ?thesis
    by (auto simp: appendBatch_def statement_def io_simps insert_rows_def)
qed

lemma kept_simps [simp]: "kept (xs @ ys) = kept xs @ kept ys" "kept [] = []"
  by (simp_all add: kept_def)

lemma kept_filter: "kept (filter P xs) = filter P (kept xs)"
  by (simp add: kept_def filter_filter conj_commute)

lemma tick_runs:
  assumes "\<not> wk_inFlight p"
    and "poll_fetch env opts (wk_watermarkMs p) (wk_sys p) = (Inr events, s1)"
    and "\<forall>e\<in>set (kept events). re_occurredAt e \<noteq> None"
    and "fst (db_refuses env (ext s1)) = None"
  shows "\<exists>p'. tick env opts p = (Inr \<lparr>tk_inserted = length (kept events),
      tk_watermark = new_watermark (wk_watermarkMs p) events\<rparr>, p')
    \<and> \<not> wk_inFlight p' \<and> wk_watermarkMs p' = new_watermark (wk_watermarkMs p) events
    \<and> routingObservations (db (wk_sys p')) =
        insert_rows observation_row (map eventToObservation (kept events)) (routingObservations (db (wk_sys p)))"
proof -
  have d: "db s1 = db (wk_sys p)" using keepsD [OF keeps_poll_fetch assms(2)] .
  have "\<forall>i\<in>set (map eventToObservation (kept events)). ri_observedAt i \<noteq> None"
    using assms(3) by (simp add: eventToObservation_def)
  from appendBatch_ok [OF assms(4) this] obtain s2 where
    "appendBatch env (map eventToObservation (kept events)) s1 = (Inr (), s2)"
    "routingObservations (db s2) = insert_rows observation_row (map eventToObservation (kept events)) (routingObservations (db s1))"
    by blast
  then show ?thesis using d by (simp add: tick_idle [OF assms(1,2)] poll_finish_eq poll_begin_def)
qed

text \<open>C6. The mirror: let the table hold exactly the kept events of the daemon's log as it
  was at the last tick, with the watermark past them. If since then the log has grown by
  events later than the watermark, the daemon answers with all events from the watermark
  on, and the database takes the insert, then the tick inserts each new event it keeps
  once and no old one again, and the table holds exactly the kept events of the log as it
  is now.\<close>

theorem tick_mirrors:
  assumes "mirrored p log" and "\<not> wk_inFlight p"
    and "poll_fetch env opts (wk_watermarkMs p) (wk_sys p)
      = (Inr (filter (since_ok (wk_watermarkMs p)) (log @ new)), s1)"
    and "\<forall>e\<in>set (kept new). \<exists>t. re_occurredAt e = Some t \<and> watermark_or (wk_watermarkMs p) < t"
    and "fst (db_refuses env (ext s1)) = None"
  shows "\<exists>p' wm. tick env opts p = (Inr \<lparr>tk_inserted = length (kept new), tk_watermark = wm\<rparr>, p')
    \<and> \<not> wk_inFlight p' \<and> mirrored p' (log @ new)"
proof -
  let ?wm = "wk_watermarkMs p" and ?ev = "filter (since_ok (wk_watermarkMs p)) (log @ new)"
  have "\<not> since_ok ?wm e" if e: "e \<in> set (kept log)" for e
  proof -
    obtain t where t: "re_occurredAt e = Some t" "t < watermark_or ?wm"
      using assms(1) e by (auto simp: mirrored_def)
    moreover have "0 < t" using e t(1) by (simp add: kept_def skipped_def)
    ultimately show ?thesis by (cases ?wm) (simp_all add: since_ok_def watermark_or_def)
  qed
  then have "filter (since_ok ?wm) (kept log) = []" by (simp add: filter_empty_conv)
  moreover have "since_ok ?wm e" if e: "e \<in> set (kept new)" for e
  proof -
    obtain t where "re_occurredAt e = Some t" "watermark_or ?wm < t" using assms(4) e by blast
    then show ?thesis by (cases ?wm) (simp_all add: since_ok_def watermark_or_def)
  qed
  then have "filter (since_ok ?wm) (kept new) = kept new" by (simp add: filter_id_conv)
  ultimately have ev: "kept ?ev = kept new" by (simp add: kept_filter)
  have dated: "\<forall>e\<in>set (kept ?ev). re_occurredAt e \<noteq> None" using assms(4) ev by auto
  obtain p' where run: "tick env opts p = (Inr \<lparr>tk_inserted = length (kept new), tk_watermark = new_watermark ?wm ?ev\<rparr>, p')"
    and idle: "\<not> wk_inFlight p'" and wm: "wk_watermarkMs p' = new_watermark ?wm ?ev"
    and rows: "routingObservations (db (wk_sys p')) =
      insert_rows observation_row (map eventToObservation (kept new)) (routingObservations (db (wk_sys p)))"
    using tick_runs [OF assms(2,3) dated assms(5)] unfolding ev by blast
  have "map forget_id (stored_rows p') = map mirror_row (kept (log @ new))"
    using assms(1) by (simp add: rows forget_rows mirrored_def mirror_row_def)
  moreover have "\<exists>t. re_occurredAt e = Some t \<and> t < watermark_or (wk_watermarkMs p')" if e: "e \<in> set (kept (log @ new))" for e
  proof (cases "e \<in> set (kept new)")
    case True
    then obtain t where t: "re_occurredAt e = Some t" "watermark_or ?wm < t" using assms(4) by blast
    then have "t \<le> newest (watermark_or ?wm) (kept new)" using True by (intro newest_member) force
    moreover have "newest (watermark_or ?wm) (kept new) + 1 = watermark_or (wk_watermarkMs p')"
      if "watermark_or ?wm < newest (watermark_or ?wm) (kept new)"
      using that unfolding wm new_watermark_def ev by (simp add: watermark_or_def [of "Some _"])
    ultimately show ?thesis using t by auto
  next
    case False
    with e have "e \<in> set (kept log)" by simp
    with assms(1) obtain t where "re_occurredAt e = Some t" "t < watermark_or ?wm" by (auto simp: mirrored_def)
    with new_watermark_mono [of ?wm ?ev] wm show ?thesis by fastforce
  qed
  ultimately show ?thesis using run idle by (auto simp: mirrored_def)
qed

definition sample_event :: "string \<Rightarrow> int \<Rightarrow> ProtoAuditEvent" where
  "sample_event a t = \<lparr>ae_at = Some (Some t), ae_ethAddress = a, ae_kind = ''fallback'', ae_mode = 1, ae_detail = ''d''\<rparr>"

definition poll_env :: "ProtoAuditEvent list \<Rightarrow> 'w env" where
  "poll_env events = still_env\<lparr>grpc_getAuditLog := (\<lambda>_ _. io_return \<lparr>al_events = events\<rparr>)\<rparr>"

definition sample_options :: AuditPollWorkerOptions where
  "sample_options = \<lparr>ap_intervalMs = 30000, ap_fetchLimit = None, ap_callDeadline = None\<rparr>"

lemma poll_env_fetch:
  "poll_fetch (poll_env events) opts wm still_sys = (Inr (map mapAuditEvent events), still_sys)"
  by (simp add: poll_fetch_def resolver_getAuditLog_def io_bind_def unary_apply poll_env_def still_env_def still_sys_def)

lemma poll_env_db: "fst (db_refuses (poll_env events) w) = None"
  by (simp add: poll_env_def still_env_def)

theorem tick_mirrors_witness:
  "\<exists>p' wm. tick (poll_env [sample_event ''0xAb'' 100]) sample_options (init_worker still_sys)
      = (Inr \<lparr>tk_inserted = 1, tk_watermark = wm\<rparr>, p')
    \<and> \<not> wk_inFlight p' \<and> mirrored p' ([] @ [mapAuditEvent (sample_event ''0xAb'' 100)])"
proof -
  let ?p = "init_worker still_sys" and ?e = "mapAuditEvent (sample_event ''0xAb'' 100)"
  have m: "mirrored ?p []"
    by (simp add: mirrored_def init_worker_def still_sys_def empty_db_def empty_table_def)
  have i: "\<not> wk_inFlight ?p" by (simp add: init_worker_def)
  have k: "kept [?e] = [?e]"
    by (simp add: kept_def skipped_def mapAuditEvent_def sample_event_def)
  have f: "poll_fetch (poll_env [sample_event ''0xAb'' 100]) sample_options (wk_watermarkMs ?p) (wk_sys ?p)
      = (Inr (filter (since_ok (wk_watermarkMs ?p)) ([] @ [?e])), still_sys)"
    using poll_env_fetch by (simp add: init_worker_def since_ok_def)
  have n: "\<forall>e\<in>set (kept [?e]). \<exists>t. re_occurredAt e = Some t \<and> watermark_or (wk_watermarkMs ?p) < t"
    unfolding k by (simp add: init_worker_def watermark_or_def mapAuditEvent_def sample_event_def)
  from tick_mirrors [OF m i f n poll_env_db] show ?thesis unfolding k by simp
qed

section \<open>Events at the watermark\<close>

text \<open>Events at the watermark itself are stored again and again: where every event a
  daemon's answer gives to keep has exactly the time of the watermark, which is one
  millisecond after the newest event already stored, the tick stores them and does not move
  the watermark, so the next tick asks for them again.\<close>

theorem tick_repeats_at_watermark:
  assumes "\<not> wk_inFlight p" and "wk_watermarkMs p = Some w"
    and "poll_fetch env opts (Some w) (wk_sys p) = (Inr events, s1)"
    and "\<forall>e\<in>set (kept events). re_occurredAt e = Some w"
    and "fst (db_refuses env (ext s1)) = None"
  shows "\<exists>p'. tick env opts p = (Inr \<lparr>tk_inserted = length (kept events), tk_watermark = Some w\<rparr>, p')
    \<and> wk_watermarkMs p' = Some w \<and> \<not> wk_inFlight p'
    \<and> map forget_id (stored_rows p') = map forget_id (stored_rows p) @ map mirror_row (kept events)"
proof -
  have "{t. Some t \<in> re_occurredAt ` set (kept events)} \<subseteq> {w}" using assms(4) by force
  then have "insert w {t. Some t \<in> re_occurredAt ` set (kept events)} = {w}" by blast
  then have "newest w (kept events) = Max {w}" unfolding newest_def by (simp only:)
  then have wm: "new_watermark (Some w) events = Some w"
    by (simp add: new_watermark_def watermark_or_def)
  have d: "\<forall>e\<in>set (kept events). re_occurredAt e \<noteq> None" using assms(4) by simp
  have f: "poll_fetch env opts (wk_watermarkMs p) (wk_sys p) = (Inr events, s1)" using assms(2,3) by simp
  obtain p' where "tick env opts p = (Inr \<lparr>tk_inserted = length (kept events), tk_watermark = Some w\<rparr>, p')"
    and "\<not> wk_inFlight p'" and "wk_watermarkMs p' = Some w"
    and rows: "routingObservations (db (wk_sys p')) =
      insert_rows observation_row (map eventToObservation (kept events)) (routingObservations (db (wk_sys p)))"
    using tick_runs [OF assms(1) f d assms(5)] assms(2) wm by auto
  moreover have "map forget_id (stored_rows p') = map forget_id (stored_rows p) @ map mirror_row (kept events)"
    unfolding rows forget_rows by (simp add: mirror_row_def)
  ultimately show ?thesis by blast
qed

theorem tick_repeats_at_watermark_witness:
  "\<exists>p'. tick (poll_env [sample_event ''0xab'' 101]) sample_options ((init_worker still_sys)\<lparr>wk_watermarkMs := Some 101\<rparr>)
      = (Inr \<lparr>tk_inserted = 1, tk_watermark = Some 101\<rparr>, p')
    \<and> wk_watermarkMs p' = Some 101 \<and> \<not> wk_inFlight p'
    \<and> map forget_id (stored_rows p') = [mirror_row (mapAuditEvent (sample_event ''0xab'' 101))]"
proof -
  let ?p = "(init_worker still_sys)\<lparr>wk_watermarkMs := Some 101\<rparr>" and ?e = "mapAuditEvent (sample_event ''0xab'' 101)"
  have k: "kept [?e] = [?e]"
    by (simp add: kept_def skipped_def mapAuditEvent_def sample_event_def)
  have i: "\<not> wk_inFlight ?p" and w: "wk_watermarkMs ?p = Some 101" by (simp_all add: init_worker_def)
  have f: "poll_fetch (poll_env [sample_event ''0xab'' 101]) sample_options (Some 101) (wk_sys ?p)
      = (Inr [?e], still_sys)"
    using poll_env_fetch by (simp add: init_worker_def)
  have n: "\<forall>e\<in>set (kept [?e]). re_occurredAt e = Some 101"
    unfolding k by (simp add: mapAuditEvent_def sample_event_def)
  have r: "stored_rows ?p = []"
    by (simp add: init_worker_def still_sys_def empty_db_def empty_table_def)
  from tick_repeats_at_watermark [OF i w f n poll_env_db] show ?thesis unfolding k r by simp
qed

section \<open>Interleavings\<close>

text \<open>
  What may happen to the worker: its operations, the two halves of a tick with anything in
  between, and the rest of the program moving the system without touching the observations.
\<close>

inductive poll_step :: "'w env \<Rightarrow> AuditPollWorkerOptions \<Rightarrow> 'w worker \<Rightarrow> 'w worker \<Rightarrow> bool" for env opts where
  start: "poll_step env opts p (poll_start opts p)"
| stop: "poll_step env opts p (poll_stop p)"
| begin_tick: "\<not> wk_inFlight p \<Longrightarrow> poll_step env opts p (poll_begin p)"
| skip_tick: "wk_inFlight p \<Longrightarrow> poll_step env opts p (snd (tick env opts p))"
| finish_tick: "wk_request p \<noteq> None \<Longrightarrow> poll_step env opts p (snd (poll_finish env answer p))"
| other: "routingObservations (db s) = routingObservations (db (wk_sys p)) \<Longrightarrow>
    poll_step env opts p (p\<lparr>wk_sys := s\<rparr>)"

inductive_cases poll_stepE: "poll_step env opts p p'"

definition poll_inv :: "'w worker \<Rightarrow> bool" where
  "poll_inv p \<longleftrightarrow>
     (wk_inFlight p \<longleftrightarrow> wk_request p \<noteq> None) \<and>
     (\<forall>wm. wk_request p = Some wm \<longrightarrow> wm = wk_watermarkMs p) \<and>
     (\<forall>r\<in>set (stored_rows p). js_lower (ro_orchAddress r) = ro_orchAddress r)"

lemma poll_finish_step:
  "poll_finish env answer p = (r, p') \<Longrightarrow>
    \<not> wk_inFlight p' \<and> wk_request p' = None \<and> watermark_or (wk_watermarkMs p) \<le> watermark_or (wk_watermarkMs p')
    \<and> (\<exists>new. stored_rows p' = stored_rows p @ new \<and> (\<forall>r\<in>set new. js_lower (ro_orchAddress r) = ro_orchAddress r))"
proof (cases answer)
  case (Inl err)
  moreover assume "poll_finish env answer p = (r, p')"
  ultimately show ?thesis by (auto simp: poll_finish_eq)
next
  case (Inr events)
  let ?is = "map eventToObservation (kept events)"
  assume run: "poll_finish env answer p = (r, p')"
  obtain q s where a: "appendBatch env ?is (wk_sys p) = (q, s)" by fastforce
  show ?thesis
  proof (cases q)
    case (Inl err)
    with appendBatch_outcome [OF a] run a Inr show ?thesis by (auto simp: poll_finish_eq)
  next
    case (Inr u)
    let ?new = "map (\<lambda>(k, i). observation_row (tb_seq (routingObservations (db (wk_sys p))) + Suc k) i) (enumerate 0 ?is)"
    have "stored_rows p' = stored_rows p @ ?new"
      using appendBatch_outcome [OF a] run a Inr \<open>answer = Inr events\<close>
      by (auto simp: poll_finish_eq observation_table.rows_insert_rows)
    moreover have "js_lower (ro_orchAddress r) = ro_orchAddress r" if "r \<in> set ?new" for r
      using that by (auto simp: observation_row_def eventToObservation_def enumerate_eq_zip dest!: set_zip_rightD)
    ultimately show ?thesis
      using run a Inr \<open>answer = Inr events\<close> by (auto simp: poll_finish_eq new_watermark_mono)
  qed
qed

lemma poll_inv_step:
  assumes "poll_step env opts p p'" and "poll_inv p"
  shows "poll_inv p' \<and> watermark_or (wk_watermarkMs p) \<le> watermark_or (wk_watermarkMs p')"
  using assms(1)
proof (cases rule: poll_step.cases)
  case (finish_tick answer)
  obtain r q where f: "poll_finish env answer p = (r, q)" by fastforce
  with finish_tick poll_finish_step [OF f] assms(2) show ?thesis by (auto simp: poll_inv_def)
qed (use assms(2) in \<open>auto simp: poll_inv_def poll_start_def poll_stop_def poll_begin_def tick_def\<close>)

definition poll_reachable :: "'w env \<Rightarrow> AuditPollWorkerOptions \<Rightarrow> 'w worker \<Rightarrow> bool" where
  "poll_reachable env opts p \<longleftrightarrow>
     (\<exists>s. routingObservations (db s) = empty_table \<and> (poll_step env opts)\<^sup>*\<^sup>* (init_worker s) p)"

lemma poll_inv_star: "(poll_step env opts)\<^sup>*\<^sup>* p p' \<Longrightarrow> poll_inv p \<Longrightarrow>
    poll_inv p' \<and> watermark_or (wk_watermarkMs p) \<le> watermark_or (wk_watermarkMs p')"
proof (induction rule: rtranclp_induct)
  case base
  then show ?case by simp
next
  case (step y z)
  with poll_inv_step [OF step.hyps(2)] show ?case by fastforce
qed

lemma poll_reachable_inv: "poll_reachable env opts p \<Longrightarrow> poll_inv p"
  unfolding poll_reachable_def
  using poll_inv_star by (fastforce simp: poll_inv_def init_worker_def empty_table_def)

lemma poll_single_request_aux:
  assumes "poll_reachable env opts p" and "wk_request p = Some wm"
  shows "wm = wk_watermarkMs p \<and> tick env opts p = (Inr \<lparr>tk_inserted = 0, tk_watermark = wm\<rparr>, p)"
  using poll_reachable_inv [OF assms(1)] assms(2) by (auto simp: poll_inv_def tick_def)

text \<open>One request at a time, under any interleaving of timer firings, manual runs,
  starts, stops, answers, failures and the rest of the program: while a request is out, a
  further tick sends nothing and changes nothing, and the watermark is still the one the
  request was sent with, so the answer is judged by the watermark it was asked for.\<close>

theorem poll_single_request:
  assumes "poll_reachable env opts p" and "wk_request p = Some wm"
  shows "wm = wk_watermarkMs p \<and> tick env opts p = (Inr \<lparr>tk_inserted = 0, tk_watermark = wm\<rparr>, p)"
  using assms by (rule poll_single_request_aux)

lemma reachable_begin: "poll_reachable (poll_env es) opts (poll_begin (init_worker still_sys))"
proof -
  have "poll_step (poll_env es) opts (init_worker still_sys) (poll_begin (init_worker still_sys))"
    by (rule poll_step.begin_tick) (simp add: init_worker_def)
  then show ?thesis
    unfolding poll_reachable_def by (intro exI [of _ still_sys]) (auto simp: still_sys_def empty_db_def)
qed

theorem poll_single_request_witness:
  "tick (poll_env []) sample_options (poll_begin (init_worker still_sys))
    = (Inr \<lparr>tk_inserted = 0, tk_watermark = None\<rparr>, poll_begin (init_worker still_sys))"
proof -
  have "wk_request (poll_begin (init_worker still_sys)) = Some None"
    by (simp add: poll_begin_def init_worker_def)
  from poll_single_request [OF reachable_begin this] show ?thesis by simp
qed

text \<open>The watermark never moves back, whatever happens to the worker.\<close>

theorem poll_watermark_monotone:
  assumes "poll_reachable env opts p" and "(poll_step env opts)\<^sup>*\<^sup>* p p'"
  shows "watermark_or (wk_watermarkMs p) \<le> watermark_or (wk_watermarkMs p')"
  using poll_inv_star [OF assms(2) poll_reachable_inv [OF assms(1)]] by simp

theorem poll_watermark_monotone_witness:
  "watermark_or (wk_watermarkMs (poll_begin (init_worker still_sys)))
    \<le> watermark_or (wk_watermarkMs (snd (poll_finish (poll_env [])
        (Inr [mapAuditEvent (sample_event ''0xab'' 100)]) (poll_begin (init_worker still_sys)))))"
proof (rule poll_watermark_monotone [OF reachable_begin, of "[]" sample_options])
  have "wk_request (poll_begin (init_worker still_sys)) \<noteq> None"
    by (simp add: poll_begin_def init_worker_def)
  then show "(poll_step (poll_env []) sample_options)\<^sup>*\<^sup>* (poll_begin (init_worker still_sys))
    (snd (poll_finish (poll_env []) (Inr [mapAuditEvent (sample_event ''0xab'' 100)]) (poll_begin (init_worker still_sys))))"
    by (intro r_into_rtranclp poll_step.finish_tick)
qed

section \<open>The history of a checksummed address\<close>

lemma lower_rows_history:
  assumes "orders_desc (sql_order_desc env)"
    and "\<forall>r\<in>set (tb_rows (routingObservations d)). js_lower (ro_orchAddress r) = ro_orchAddress r"
    and "js_lower a \<noteq> a"
  shows "observations_of env a d = []"
proof -
  have "filter (\<lambda>r. ro_orchAddress r = a) (tb_rows (routingObservations d)) = []"
    using assms(2,3) by (auto simp: filter_empty_conv)
  moreover have "mset (sql_order_desc env []) = mset []" using assms(1) by (simp add: orders_desc_def)
  ultimately show ?thesis by (simp add: observations_of_def)
qed


lemma mset_desc_insert: "mset (desc_insert r rs) = add_mset r (mset rs)"
  unfolding desc_insert_def
  by (subst (3) takeWhile_dropWhile_id [symmetric, of _ "\<lambda>x. ro_observedAt r < ro_observedAt x"])
    (simp only: mset_append mset.simps union_mset_add_mset_right)

lemma sorted_desc_insert:
  assumes "sorted_wrt (\<lambda>a b. ro_observedAt b \<le> ro_observedAt a) rs"
  shows "sorted_wrt (\<lambda>a b. ro_observedAt b \<le> ro_observedAt a) (desc_insert r rs)"
proof -
  let ?p = "\<lambda>x. ro_observedAt r < ro_observedAt x"
  have sp: "sorted_wrt (\<lambda>a b. ro_observedAt b \<le> ro_observedAt a) (takeWhile ?p rs @ dropWhile ?p rs)"
    using assms by simp
  have low: "ro_observedAt x \<le> ro_observedAt r" if x: "x \<in> set (dropWhile ?p rs)" for x
  proof -
    obtain y ys where d: "dropWhile ?p rs = y # ys" using x by (cases "dropWhile ?p rs") auto
    then have "ro_observedAt y \<le> ro_observedAt r" using hd_dropWhile [of ?p rs] by simp
    moreover have "ro_observedAt x \<le> ro_observedAt y" using sp x by (auto simp: d sorted_wrt_append)
    ultimately show ?thesis by simp
  qed
  have high: "ro_observedAt r \<le> ro_observedAt x" if "x \<in> set (takeWhile ?p rs)" for x
    using set_takeWhileD [OF that] by simp
  show ?thesis
    unfolding desc_insert_def using sp low high by (auto simp: sorted_wrt_append intro: order_trans [OF low high])
qed

lemma still_orders_desc: "orders_desc (sql_order_desc (poll_env es))"
proof -
  have "mset (foldr desc_insert rs []) = mset rs
    \<and> sorted_wrt (\<lambda>a b. ro_observedAt b \<le> ro_observedAt a) (foldr desc_insert rs [])" for rs
    by (induction rs) (simp_all add: mset_desc_insert sorted_desc_insert)
  then show ?thesis by (simp add: orders_desc_def poll_env_def still_env_def)
qed


section \<open>The details column\<close>

text \<open>The details of a row determine the event's kind, mode and detail: two events
  whose rows carry the same text agree on all three, whatever quotes, backslashes and
  control characters they hold.\<close>

theorem details_json_faithful:
  assumes "ri_detailsJson (eventToObservation e) = ri_detailsJson (eventToObservation e')"
  shows "re_kind e = re_kind e' \<and> re_mode e = re_mode e' \<and> re_detail e = re_detail e'"
proof -
  let ?k = "json_string (re_kind e)" and ?k' = "json_string (re_kind e')"
  from assms have "details_json (re_kind e) (mode_text (re_mode e)) (re_detail e)
      = details_json (re_kind e') (mode_text (re_mode e')) (re_detail e')"
    by (simp add: eventToObservation_def)
  then have eq: "json_string (re_kind e) @ '','' @ quote_key ''mode'' @ json_string (mode_text (re_mode e))
        @ '','' @ quote_key ''detail'' @ json_string (re_detail e) @ ''}''
      = json_string (re_kind e') @ '','' @ quote_key ''mode'' @ json_string (mode_text (re_mode e'))
        @ '','' @ quote_key ''detail'' @ json_string (re_detail e') @ ''}''"
    unfolding details_json_def by simp
  note a = json_string_prefix [OF eq]
  then have eq2: "json_string (mode_text (re_mode e)) @ '','' @ quote_key ''detail'' @ json_string (re_detail e) @ ''}''
      = json_string (mode_text (re_mode e')) @ '','' @ quote_key ''detail'' @ json_string (re_detail e') @ ''}''"
    by simp
  note b = json_string_prefix [OF eq2]
  then have eq3: "json_string (re_detail e) @ ''}'' = json_string (re_detail e') @ ''}''" by simp
  have m: "mode_text x = mode_text y \<Longrightarrow> x = y" for x y by (cases x; cases y) simp_all
  show ?thesis using a b json_string_prefix [OF eq3] m by blast
qed

theorem details_json_faithful_witness:
  "re_kind (mapAuditEvent (sample_event ''0xab'' 1)) = re_kind (mapAuditEvent (sample_event ''0xcd'' 2))"
proof -
  have "ri_detailsJson (eventToObservation (mapAuditEvent (sample_event ''0xab'' 1)))
      = ri_detailsJson (eventToObservation (mapAuditEvent (sample_event ''0xcd'' 2)))"
    by (simp add: eventToObservation_def mapAuditEvent_def sample_event_def)
  from details_json_faithful [OF this] show ?thesis by simp
qed

end
