(* ===== verification/Lifecycle.thy ===== *)
theory Lifecycle
  imports Config Server AuditPoll
begin

text \<open>
  The life of the process (\<^verbatim>\<open>src/main.ts\<close>): how the environment becomes the options of its
  parts, the bootstrap migration of \<^verbatim>\<open>migrations/0001_init.sql\<close>, the order of a start, and the
  shutdown with its hard kill. The lemmas show what a start that succeeds leaves behind and
  where it stops otherwise, which schemas the migration repairs and which it can never
  repair, when the process exits and with what code, and what a signal during the start
  does to the poll worker.
\<close>

section \<open>From the environment to the options\<close>

text \<open>A number of seconds times 1000, as doubles: exact below \<open>2 ^ 53\<close>.\<close>

definition to_millis :: "int \<Rightarrow> int" where
  "to_millis sec = (case js_integer (round_double (nat (sec * 1000)) 1) of Some ms \<Rightarrow> ms | None \<Rightarrow> 0)"

definition server_options :: "Env \<Rightarrow> ServerDeps" where
  "server_options env =
     \<lparr>sd_adminToken = ADMIN_TOKEN env,
      sd_callDeadline = None,
      sd_routing = \<lparr>rd_controllerAddress = CONTROLLER_ADDRESS env,
                    rd_serviceRegistryAddress = SERVICE_REGISTRY_ADDRESS env,
                    rd_chainReadTtlMs = to_millis (CHAIN_READ_TTL_SEC env),
                    rd_callDeadline = None\<rparr>,
      sd_sender = \<lparr>sn_senderAddress = SENDER_ADDRESS env,
                   sn_minBalanceWei = MIN_BALANCE_WEI env,
                   sn_callDeadline = None\<rparr>,
      sd_resolverSocketPath = RESOLVER_SOCKET_PATH env,
      sd_senderSocketPath = SENDER_SOCKET_PATH env\<rparr>"

definition poll_worker_options :: "Env \<Rightarrow> AuditPollWorkerOptions" where
  "poll_worker_options env =
     \<lparr>ap_intervalMs = to_millis (RESOLVER_AUDIT_POLL_INTERVAL_SEC env), ap_fetchLimit = None,
      ap_callDeadline = None\<rparr>"

text \<open>The delay \<^verbatim>\<open>setInterval\<close> uses: 1 where the one asked for does not fit 31 bits.\<close>

definition timer_delay :: "int \<Rightarrow> int" where
  "timer_delay ms = (if 1 \<le> ms \<and> ms \<le> 2147483647 then ms else 1)"

section \<open>The bootstrap migration\<close>

text \<open>The statements of the script, and the rows \<open>(type, name)\<close> of the table of the schema.\<close>

datatype sql_stmt = CreateTable string | CreateIndex string string

type_synonym sql_schema = "(string \<times> string) list"

definition init_0001 :: "sql_stmt list" where
  "init_0001 =
     [CreateTable ''audit_events'',
      CreateIndex ''idx_audit_occurred_at'' ''audit_events'',
      CreateTable ''routing_observations'',
      CreateIndex ''idx_routing_observations_orch'' ''routing_observations'']"

fun run_stmt :: "sql_stmt \<Rightarrow> (sql_schema, js_error, unit) io" where
  "run_stmt (CreateTable t) sch =
     (if (''table'', t) \<in> set sch then (Inl (PlainError (''table `'' @ t @ ''` already exists'')), sch)
      else if (''index'', t) \<in> set sch then (Inl (PlainError (''there is already an index named '' @ t)), sch)
      else (Inr (), sch @ [(''table'', t)]))"
| "run_stmt (CreateIndex i t) sch =
     (if (''table'', t) \<notin> set sch then (Inl (PlainError (''no such table: main.'' @ t)), sch)
      else if (''table'', i) \<in> set sch then (Inl (PlainError (''there is already a table named '' @ i)), sch)
      else if (''index'', i) \<in> set sch then (Inl (PlainError (''index '' @ i @ '' already exists'')), sch)
      else (Inr (), sch @ [(''index'', i)]))"

text \<open>A script stops at its first failing statement and keeps the ones before it.\<close>

primrec exec_script :: "sql_stmt list \<Rightarrow> (sql_schema, js_error, unit) io" where
  "exec_script [] = io_return ()"
| "exec_script (st # sts) = io_bind (run_stmt st) (\<lambda>_. exec_script sts)"

definition console_tables :: "string list" where
  "console_tables = [''audit_events'', ''routing_observations'']"

definition tables_present :: "sql_schema \<Rightarrow> nat" where
  "tables_present sch = length (filter (\<lambda>(ty, n). ty = ''table'' \<and> n \<in> set console_tables) sch)"

text \<open>Paths are lists of segments; \<^verbatim>\<open>resolve(p, "..")\<close> drops the last one, if any.\<close>

definition path_text :: "string list \<Rightarrow> string" where
  "path_text p = concat (map (\<lambda>seg. CHR ''/'' # seg) p)"

definition migration_candidates :: "string list \<Rightarrow> string list list" where
  "migration_candidates here =
     [butlast here @ [''migrations'', ''0001_init.sql''],
      butlast (butlast here) @ [''migrations'', ''0001_init.sql'']]"

text \<open>
  \<open>files p\<close> is what reading the path \<open>p\<close> gives where it exists.
\<close>

definition applyBootstrapMigrationIfNeeded ::
    "(string list \<rightharpoonup> js_error + sql_stmt list) \<Rightarrow> string list \<Rightarrow> (sql_schema, js_error, unit) io" where
  "applyBootstrapMigrationIfNeeded files here sch =
     (if tables_present sch = 2 then (Inr (), sch)
      else let candidates = migration_candidates here
           in case find (\<lambda>p. files p \<noteq> None) candidates of
                None \<Rightarrow> (Inl (PlainError (''bootstrap migration 0001_init.sql not found; checked: ''
                           @ path_text (candidates ! 0) @ '', '' @ path_text (candidates ! 1))), sch)
              | Some p \<Rightarrow> (case the (files p) of
                    Inl err \<Rightarrow> (Inl err, sch)
                  | Inr sql \<Rightarrow> exec_script sql sch))"

section \<open>Starting\<close>

text \<open>
  What a start meets outside: opening the database file, building the server and binding
  the address. Each may throw.
\<close>

record boot_world =
  bw_is_url :: "string \<Rightarrow> bool"
  bw_issues :: "(string \<rightharpoonup> string) \<Rightarrow> zod_error"
  bw_open :: "string \<Rightarrow> js_error + unit"
  bw_files :: "string list \<rightharpoonup> js_error + sql_stmt list"
  bw_here :: "string list"
  bw_server :: "ServerDeps \<Rightarrow> js_error + unit"

record boot =
  bo_listen :: ListenConfig
  bo_server :: ServerDeps
  bo_poll :: AuditPollWorkerOptions

text \<open>\<^verbatim>\<open>main\<close> up to the call of \<^verbatim>\<open>listen\<close>; the state is the schema of the file.\<close>

definition startup :: "boot_world \<Rightarrow> (string \<rightharpoonup> string) \<Rightarrow> (sql_schema, js_error, boot) io" where
  "startup w source =
     io_bind (io_lift (loadEnv (bw_is_url w) (bw_issues w) source)) (\<lambda>env.
     io_bind (io_lift (parseListenAddr (LISTEN_ADDR env))) (\<lambda>listen.
     io_bind (io_lift (bw_open w (STATE_PATH env))) (\<lambda>_.
     io_bind (applyBootstrapMigrationIfNeeded (bw_files w) (bw_here w)) (\<lambda>_.
     io_bind (io_lift (bw_server w (server_options env))) (\<lambda>_.
     io_return \<lparr>bo_listen = listen, bo_server = server_options env, bo_poll = poll_worker_options env\<rparr>)))))"

section \<open>The running process\<close>

text \<open>
  \<open>pr_hardKill\<close> is the time the armed kill fires at, \<open>pr_closing\<close> says that a shutdown is
  waiting for the server to close, and \<open>pr_exit\<close> is the code the process left with.
\<close>

record 'w proc =
  pr_now :: int
  pr_listening :: bool
  pr_shuttingDown :: bool
  pr_hardKill :: "int option"
  pr_closing :: bool
  pr_httpOpen :: bool
  pr_sqliteOpen :: bool
  pr_worker :: "'w worker"
  pr_exit :: "int option"

definition init_proc :: "int \<Rightarrow> 'w sys \<Rightarrow> 'w proc" where
  "init_proc t s =
     \<lparr>pr_now = t, pr_listening = False, pr_shuttingDown = False, pr_hardKill = None, pr_closing = False,
      pr_httpOpen = True, pr_sqliteOpen = True, pr_worker = init_worker s, pr_exit = None\<rparr>"

text \<open>A signal: the synchronous part of \<^verbatim>\<open>shutdown\<close>, up to waiting for the server.\<close>

definition shutdown :: "'w proc \<Rightarrow> 'w proc" where
  "shutdown p =
     (if pr_shuttingDown p then p
      else p\<lparr>pr_shuttingDown := True, pr_hardKill := Some (pr_now p + 30000),
             pr_worker := poll_stop (pr_worker p), pr_closing := True\<rparr>)"

text \<open>The rest of it, on what closing the server and the database file gave.\<close>

definition shutdown_rest :: "js_error option \<Rightarrow> js_error option \<Rightarrow> 'w proc \<Rightarrow> 'w proc" where
  "shutdown_rest http sqlite p =
     (let p = p\<lparr>pr_closing := False\<rparr>
      in case http of
           Some err \<Rightarrow> p\<lparr>pr_exit := Some 1\<rparr>
         | None \<Rightarrow> (case sqlite of
               Some err \<Rightarrow> p\<lparr>pr_httpOpen := False, pr_exit := Some 1\<rparr>
             | None \<Rightarrow> p\<lparr>pr_httpOpen := False, pr_sqliteOpen := False, pr_exit := Some 0\<rparr>))"

definition hard_kill :: "'w proc \<Rightarrow> 'w proc" where
  "hard_kill p = p\<lparr>pr_exit := Some 1\<rparr>"

text \<open>What follows the binding of the address; an error of it ends in \<^verbatim>\<open>main().catch\<close>.\<close>

definition listened :: "AuditPollWorkerOptions \<Rightarrow> js_error option \<Rightarrow> 'w proc \<Rightarrow> 'w proc" where
  "listened opts r p =
     (case r of
        Some err \<Rightarrow> p\<lparr>pr_exit := Some 1\<rparr>
      | None \<Rightarrow> p\<lparr>pr_listening := True, pr_worker := poll_start opts (pr_worker p)\<rparr>)"

text \<open>What may happen to a process that has not exited.\<close>

inductive proc_step :: "'w env \<Rightarrow> AuditPollWorkerOptions \<Rightarrow> ServerDeps \<Rightarrow> router \<Rightarrow> 'w proc \<Rightarrow> 'w proc \<Rightarrow> bool"
  for env opts deps router where
  signal: "pr_exit p = None \<Longrightarrow> proc_step env opts deps router p (shutdown p)"
| closed: "pr_exit p = None \<Longrightarrow> pr_closing p \<Longrightarrow> proc_step env opts deps router p (shutdown_rest http sqlite p)"
| kill: "pr_exit p = None \<Longrightarrow> pr_hardKill p = Some d \<Longrightarrow> d \<le> pr_now p \<Longrightarrow> proc_step env opts deps router p (hard_kill p)"
| bound: "pr_exit p = None \<Longrightarrow> \<not> pr_listening p \<Longrightarrow> proc_step env opts deps router p (listened opts r p)"
| tick_begins: "pr_exit p = None \<Longrightarrow> wk_timer (pr_worker p) \<Longrightarrow> \<not> wk_inFlight (pr_worker p) \<Longrightarrow>
    proc_step env opts deps router p (p\<lparr>pr_worker := poll_begin (pr_worker p)\<rparr>)"
| tick_ends: "pr_exit p = None \<Longrightarrow> wk_request (pr_worker p) \<noteq> None \<Longrightarrow>
    proc_step env opts deps router p (p\<lparr>pr_worker := snd (poll_finish env answer (pr_worker p))\<rparr>)"
| request: "pr_exit p = None \<Longrightarrow> pr_httpOpen p \<Longrightarrow> serve env deps router fallback zod issues req (wk_sys (pr_worker p)) = (rep, s) \<Longrightarrow>
    proc_step env opts deps router p (p\<lparr>pr_worker := (pr_worker p)\<lparr>wk_sys := s\<rparr>\<rparr>)"
| clock: "pr_exit p = None \<Longrightarrow> pr_now p \<le> t \<Longrightarrow> proc_step env opts deps router p (p\<lparr>pr_now := t\<rparr>)"

inductive_cases proc_stepE: "proc_step env opts deps router p p'"

section \<open>The migration\<close>

text \<open>A schema as the engine keeps it: tables and indexes, each name once.\<close>

definition wf_schema :: "sql_schema \<Rightarrow> bool" where
  "wf_schema sch \<longleftrightarrow> distinct (map snd sch) \<and> fst ` set sch \<subseteq> {''table'', ''index''}"

definition has_tables :: "sql_schema \<Rightarrow> bool" where
  "has_tables sch \<longleftrightarrow> (\<forall>t\<in>set console_tables. (''table'', t) \<in> set sch)"

lemma tables_present_card:
  assumes "wf_schema sch"
  shows "tables_present sch = card (set sch \<inter> Pair ''table'' ` set console_tables)"
proof -
  have "distinct sch" using assms by (simp add: wf_schema_def distinct_map)
  then have "tables_present sch = card (set (filter (\<lambda>(ty, n). ty = ''table'' \<and> n \<in> set console_tables) sch))"
    unfolding tables_present_def by (metis distinct_card distinct_filter)
  moreover have "set (filter (\<lambda>(ty, n). ty = ''table'' \<and> n \<in> set console_tables) sch)
      = set sch \<inter> Pair ''table'' ` set console_tables" by auto
  ultimately show ?thesis by simp
qed

lemma tables_present_iff:
  assumes "wf_schema sch"
  shows "tables_present sch = 2 \<longleftrightarrow> has_tables sch"
proof -
  let ?both = "Pair ''table'' ` set console_tables"
  have two: "card ?both = 2" "finite ?both" by (simp_all add: console_tables_def)
  have "card (set sch \<inter> ?both) = 2 \<longleftrightarrow> ?both \<subseteq> set sch"
  proof
    assume "card (set sch \<inter> ?both) = 2"
    with two have "set sch \<inter> ?both = ?both" by (intro card_subset_eq) simp_all
    then show "?both \<subseteq> set sch" by blast
  next
    assume "?both \<subseteq> set sch"
    then have "set sch \<inter> ?both = ?both" by blast
    with two show "card (set sch \<inter> ?both) = 2" by simp
  qed
  with tables_present_card [OF assms] show ?thesis by (auto simp: has_tables_def)
qed

lemma wf_schema_unused:
  assumes "wf_schema sch" and "(''table'', n) \<notin> set sch" and "(''index'', n) \<notin> set sch"
  shows "n \<notin> snd ` set sch"
proof
  assume "n \<in> snd ` set sch"
  then obtain ty where e: "(ty, n) \<in> set sch" by auto
  with assms(1) have "ty \<in> {''table'', ''index''}" by (auto simp: wf_schema_def)
  with e assms(2,3) show False by auto
qed

lemma run_stmt_mono: "run_stmt st sch = (r, sch') \<Longrightarrow> set sch \<subseteq> set sch'"
  by (cases st) (auto split: if_splits)

lemma run_stmt_wf:
  assumes "wf_schema sch" and "run_stmt st sch = (r, sch')"
  shows "wf_schema sch'"
proof -
  have "wf_schema (sch @ [(ty, n)])" if "n \<notin> snd ` set sch" "ty = ''table'' \<or> ty = ''index''" for ty n
    using assms(1) that by (auto simp: wf_schema_def)
  with assms show ?thesis
    by (cases st) (auto split: if_splits dest: wf_schema_unused)
qed

lemma run_stmt_creates: "run_stmt (CreateTable t) sch = (Inr (), sch') \<Longrightarrow> (''table'', t) \<in> set sch'"
  by (auto split: if_splits)

lemma exec_script_mono: "exec_script sql sch = (r, sch') \<Longrightarrow> set sch \<subseteq> set sch'"
proof (induction sql arbitrary: sch)
  case (Cons st sql)
  obtain q sch1 where st: "run_stmt st sch = (q, sch1)" by fastforce
  show ?case
  proof (cases q)
    case (Inl e)
    with st Cons.prems run_stmt_mono [OF st] show ?thesis by simp
  next
    case (Inr u)
    with st Cons.prems have "exec_script sql sch1 = (r, sch')" by simp
    from Cons.IH [OF this] run_stmt_mono [OF st] show ?thesis by (rule order_trans [rotated])
  qed
qed simp

lemma exec_script_wf: "exec_script sql sch = (r, sch') \<Longrightarrow> wf_schema sch \<Longrightarrow> wf_schema sch'"
proof (induction sql arbitrary: sch)
  case (Cons st sql)
  obtain q sch1 where st: "run_stmt st sch = (q, sch1)" by fastforce
  from run_stmt_wf [OF Cons.prems(2) st] show ?case
    by (cases q) (use st Cons in \<open>auto simp del: run_stmt.simps\<close>)
qed simp

lemma exec_script_creates:
  "exec_script sql sch = (Inr (), sch') \<Longrightarrow> CreateTable t \<in> set sql \<Longrightarrow> (''table'', t) \<in> set sch'"
proof (induction sql arbitrary: sch)
  case (Cons st sql)
  obtain sch1 where st: "run_stmt st sch = (Inr (), sch1)" and rest: "exec_script sql sch1 = (Inr (), sch')"
    using Cons.prems(1) by (auto simp: io_bind_Inr)
  show ?case
  proof (cases "st = CreateTable t")
    case True
    with run_stmt_creates st exec_script_mono [OF rest] show ?thesis by blast
  next
    case False
    with Cons.IH [OF rest] Cons.prems(2) show ?thesis by simp
  qed
qed simp

lemma init_0001_tables: "\<forall>t\<in>set console_tables. CreateTable t \<in> set init_0001"
  by (simp add: console_tables_def init_0001_def)

text \<open>C23. The bootstrap migration, wherever the file it finds holds the script: it never drops
  a table, it changes nothing where both tables exist, it returns only with both of them
  there, and it throws only where one is missing.\<close>

theorem migration_outcome:
  assumes "wf_schema sch" and "\<forall>p sql. files p = Some (Inr sql) \<longrightarrow> sql = init_0001"
  shows "case applyBootstrapMigrationIfNeeded files here sch of (r, sch') \<Rightarrow>
    wf_schema sch' \<and> set sch \<subseteq> set sch' \<and> (has_tables sch \<longrightarrow> r = Inr () \<and> sch' = sch)
    \<and> (r = Inr () \<longrightarrow> has_tables sch')"
proof (cases "has_tables sch")
  case True
  with assms(1) show ?thesis
    by (simp add: applyBootstrapMigrationIfNeeded_def tables_present_iff)
next
  case False
  then have n: "tables_present sch \<noteq> 2" by (simp add: tables_present_iff [OF assms(1)])
  show ?thesis
  proof (cases "find (\<lambda>p. files p \<noteq> None) (migration_candidates here)")
    case None
    with n False assms(1) show ?thesis by (simp add: applyBootstrapMigrationIfNeeded_def)
  next
    case (Some p)
    then obtain c where c: "files p = Some c" by (auto simp: find_Some_iff)
    show ?thesis
    proof (cases c)
      case (Inl e)
      with n Some c False assms(1) show ?thesis by (simp add: applyBootstrapMigrationIfNeeded_def)
    next
      case (Inr sql)
      with c assms(2) have sql: "sql = init_0001" by simp
      obtain r sch' where x: "exec_script init_0001 sch = (r, sch')" by fastforce
      have "r = Inr () \<longrightarrow> has_tables sch'"
        using exec_script_creates x init_0001_tables by (auto simp: has_tables_def)
      with exec_script_mono [OF x] exec_script_wf [OF x assms(1)] n Some c Inr sql x False show ?thesis
        by (simp add: applyBootstrapMigrationIfNeeded_def)
    qed
  qed
qed

definition app_files :: "string list \<rightharpoonup> js_error + sql_stmt list" where
  "app_files = [[''app'', ''migrations'', ''0001_init.sql''] \<mapsto> Inr init_0001]"

definition app_here :: "string list" where
  "app_here = [''app'', ''dist'']"

lemma app_files_script: "\<forall>p sql. app_files p = Some (Inr sql) \<longrightarrow> sql = init_0001"
  by (simp add: app_files_def)

theorem migration_outcome_witness:
  "case applyBootstrapMigrationIfNeeded app_files app_here [] of (r, sch') \<Rightarrow>
    wf_schema sch' \<and> set [] \<subseteq> set sch' \<and> (has_tables [] \<longrightarrow> r = Inr () \<and> sch' = [])
    \<and> (r = Inr () \<longrightarrow> has_tables sch')"
  using migration_outcome [OF _ app_files_script, of "[]" app_here] by (simp add: wf_schema_def)

lemma migration_fresh:
  "applyBootstrapMigrationIfNeeded app_files app_here [] =
    (Inr (), [(''table'', ''audit_events''), (''index'', ''idx_audit_occurred_at''),
              (''table'', ''routing_observations''), (''index'', ''idx_routing_observations_orch'')])"
  by (simp add: applyBootstrapMigrationIfNeeded_def tables_present_def migration_candidates_def
      app_files_def app_here_def init_0001_def)

text \<open>C40. The script does not run in a transaction. A first start that is killed after the first
  table exists and before the second does leaves a file every later start refuses: the
  migration throws, and the file stays as it is.\<close>

theorem migration_interrupted_stuck:
  assumes "k = 1 \<or> k = 2" and "files (migration_candidates here ! 0) = Some (Inr init_0001)"
    and "exec_script (take k init_0001) [] = (Inr (), sch)"
  shows "applyBootstrapMigrationIfNeeded files here sch =
    (Inl (PlainError ''table `audit_events` already exists''), sch)"
proof -
  have "sch = [(''table'', ''audit_events'')] \<or> sch = [(''table'', ''audit_events''), (''index'', ''idx_audit_occurred_at'')]"
    using assms(1,3) by (auto simp: init_0001_def)
  moreover have "find (\<lambda>p. files p \<noteq> None) (migration_candidates here) = Some (migration_candidates here ! 0)"
    using assms(2) by (simp add: migration_candidates_def)
  ultimately show ?thesis using assms(2)
    by (auto simp: applyBootstrapMigrationIfNeeded_def tables_present_def console_tables_def init_0001_def)
qed

theorem migration_interrupted_stuck_witness:
  "applyBootstrapMigrationIfNeeded app_files app_here [(''table'', ''audit_events'')] =
    (Inl (PlainError ''table `audit_events` already exists''), [(''table'', ''audit_events'')])"
  by (rule migration_interrupted_stuck [where k = 1])
    (simp_all add: app_files_def app_here_def migration_candidates_def init_0001_def)

section \<open>What a start leaves behind\<close>

lemma migration_keeps:
  assumes "applyBootstrapMigrationIfNeeded files here sch = (r, sch')"
  shows "set sch \<subseteq> set sch'"
  using assms exec_script_mono
  by (auto simp: applyBootstrapMigrationIfNeeded_def split: if_splits option.splits sum.splits)

lemma loadEnv_checked:
  "loadEnv is_url issues src = Inr e \<Longrightarrow> env_ok is_url e \<and> src ''ADMIN_TOKEN'' = Some (ADMIN_TOKEN e)"
  by (auto simp: loadEnv_def EnvSchema_ok split: option.splits)

text \<open>C28. A start that gets as far as binding its address has a checked environment, listens on a
  port from 1 to 65535, has passed the migration, and hands the parts exactly that
  environment; a start that throws leaves every row of the schema in place.\<close>

theorem startup_sound:
  "case startup w source sch of
     (Inl err, sch') \<Rightarrow> set sch \<subseteq> set sch'
   | (Inr b, sch') \<Rightarrow> \<exists>env. loadEnv (bw_is_url w) (bw_issues w) source = Inr env
       \<and> env_ok (bw_is_url w) env \<and> source ''ADMIN_TOKEN'' = Some (sd_adminToken (bo_server b))
       \<and> parseListenAddr (LISTEN_ADDR env) = Inr (bo_listen b)
       \<and> applyBootstrapMigrationIfNeeded (bw_files w) (bw_here w) sch = (Inr (), sch')
       \<and> bo_server b = server_options env \<and> bo_poll b = poll_worker_options env"
proof (cases "startup w source sch")
  case (Pair r sch')
  show ?thesis
  proof (cases r)
    case (Inl err)
    have "set sch \<subseteq> set sch'"
      using Pair [unfolded startup_def Inl] by (auto simp: io_bind_Inl dest: migration_keeps)
    with Pair Inl show ?thesis by auto
  next
    case (Inr b)
    then show ?thesis using Pair loadEnv_checked by (fastforce simp: startup_def io_bind_Inr server_options_def)
  qed
qed

section \<open>Timers\<close>

lemma to_millis_exact: "0 \<le> sec \<Longrightarrow> sec * 1000 < 2 ^ 53 \<Longrightarrow> to_millis sec = sec * 1000"
  using round_double_small [of "nat (sec * 1000)"] by (simp add: to_millis_def nat_less_iff)

text \<open>The schema of the environment accepts poll intervals of more than 2147483 seconds, for
  which the timer fires every millisecond instead.\<close>

theorem poll_interval_overflow:
  assumes "2147483 < sec" and "sec < 2 ^ 43"
  shows "timer_delay (ap_intervalMs (poll_worker_options (e\<lparr>RESOLVER_AUDIT_POLL_INTERVAL_SEC := sec\<rparr>))) = 1"
proof -
  have "sec * 1000 < 2 ^ 43 * 1024" using assms by simp
  then have "to_millis sec = sec * 1000" using assms by (intro to_millis_exact) simp_all
  with assms show ?thesis by (simp add: poll_worker_options_def timer_delay_def)
qed

section \<open>Shutting down\<close>

definition proc_inv :: "'w proc \<Rightarrow> bool" where
  "proc_inv p \<longleftrightarrow>
     (pr_shuttingDown p \<longleftrightarrow> pr_hardKill p \<noteq> None)
     \<and> (pr_exit p = None \<longrightarrow> pr_httpOpen p \<and> pr_sqliteOpen p \<and> (pr_closing p \<longleftrightarrow> pr_shuttingDown p))
     \<and> (pr_exit p = Some 0 \<longrightarrow> pr_shuttingDown p \<and> \<not> pr_httpOpen p \<and> \<not> pr_sqliteOpen p)
     \<and> pr_exit p \<in> {None, Some 0, Some 1}"

lemma proc_inv_init: "proc_inv (init_proc t s)"
  by (simp add: proc_inv_def init_proc_def)

lemmas proc_defs = shutdown_def shutdown_rest_def hard_kill_def listened_def

lemma proc_inv_step: "proc_step env opts deps router p q \<Longrightarrow> proc_inv p \<Longrightarrow> proc_inv q"
  by (erule proc_stepE) (auto simp: proc_inv_def proc_defs split: option.splits)

lemma worker_timer_kept [simp]:
  "wk_timer (poll_begin w) = wk_timer w"
  "wk_timer (snd (poll_finish env answer w)) = wk_timer w"
  by (auto simp: poll_begin_def poll_finish_def split: sum.splits prod.splits)

lemma hardKill_step: "proc_step env opts deps router p q \<Longrightarrow> pr_hardKill p = Some d \<Longrightarrow> proc_inv p \<Longrightarrow> pr_hardKill q = Some d"
  by (erule proc_stepE) (auto simp: proc_inv_def proc_defs split: option.splits)

lemma listening_step:
  "proc_step env opts deps router p q \<Longrightarrow> pr_listening p \<Longrightarrow> pr_shuttingDown p \<Longrightarrow> \<not> wk_timer (pr_worker p) \<Longrightarrow>
    pr_listening q \<and> \<not> wk_timer (pr_worker q)"
  by (erule proc_stepE) (auto simp: proc_defs split: option.splits)

text \<open>What holds from the signal on.\<close>

definition going_down :: "bool \<Rightarrow> int \<Rightarrow> 'w proc \<Rightarrow> bool" where
  "going_down up d p \<longleftrightarrow> proc_inv p \<and> pr_hardKill p = Some d
     \<and> (up \<longrightarrow> pr_listening p \<and> \<not> wk_timer (pr_worker p))"

lemma going_down_step:
  assumes "proc_step env opts deps router p q" and "going_down up d p"
  shows "going_down up d q"
proof -
  have p: "proc_inv p" "pr_hardKill p = Some d" "pr_shuttingDown p" "up \<Longrightarrow> pr_listening p \<and> \<not> wk_timer (pr_worker p)"
    using assms(2) by (auto simp: going_down_def proc_inv_def)
  then show ?thesis
    using proc_inv_step [OF assms(1) p(1)] hardKill_step [OF assms(1) p(2,1)] listening_step [OF assms(1) _ p(3)]
    by (auto simp: going_down_def)
qed

lemma proc_inv_run: "(proc_step env opts deps router)\<^sup>*\<^sup>* p q \<Longrightarrow> proc_inv p \<Longrightarrow> proc_inv q"
  by (induction rule: rtranclp_induct) (auto intro: proc_inv_step)

lemma going_down_run: "(proc_step env opts deps router)\<^sup>*\<^sup>* p q \<Longrightarrow> going_down up d p \<Longrightarrow> going_down up d q"
  by (induction rule: rtranclp_induct) (auto intro: going_down_step)

lemma going_down_start:
  assumes "proc_inv p" and "pr_exit p = None" and "\<not> pr_shuttingDown p"
  shows "going_down (pr_listening p) (pr_now p + 30000) (shutdown p)"
  using assms by (simp add: going_down_def proc_inv_def shutdown_def poll_stop_def)

text \<open>C12. From the first signal on, whatever happens: further signals change nothing, the hard
  kill stays armed for 30 seconds after the first one, and until the process has exited it
  is waiting for the server to close and the kill is possible from its time on. It exits with code 0
  only after the server and the database file were closed, otherwise with code 1. The poll
  timer of a process that was listening stays off.\<close>

theorem shutdown_runs_once:
  assumes "(proc_step env opts deps router)\<^sup>*\<^sup>* (init_proc t s) p" and "pr_exit p = None" and "\<not> pr_shuttingDown p"
    and "(proc_step env opts deps router)\<^sup>*\<^sup>* (shutdown p) q"
  shows "shutdown q = q \<and> pr_hardKill q = Some (pr_now p + 30000)
    \<and> (pr_exit q = None \<longrightarrow> pr_closing q
         \<and> (pr_now p + 30000 \<le> pr_now q \<longrightarrow> proc_step env opts deps router q (q\<lparr>pr_exit := Some 1\<rparr>)))
    \<and> (pr_exit q = Some 0 \<longrightarrow> \<not> pr_httpOpen q \<and> \<not> pr_sqliteOpen q) \<and> pr_exit q \<in> {None, Some 0, Some 1}
    \<and> (pr_listening p \<longrightarrow> \<not> wk_timer (pr_worker q))"
proof -
  have "proc_inv p" using proc_inv_run [OF assms(1) proc_inv_init] .
  from going_down_run [OF assms(4) going_down_start [OF this assms(2,3)]]
  have g: "proc_inv q" "pr_hardKill q = Some (pr_now p + 30000)" "pr_listening p \<longrightarrow> \<not> wk_timer (pr_worker q)"
    by (auto simp: going_down_def)
  moreover have "proc_step env opts deps router q (q\<lparr>pr_exit := Some 1\<rparr>)" if "pr_exit q = None" "pr_now p + 30000 \<le> pr_now q"
    using proc_step.kill [OF that(1) g(2) that(2)] by (simp add: hard_kill_def)
  ultimately show ?thesis by (auto simp: proc_inv_def shutdown_def)
qed

definition up_proc :: "unit proc" where
  "up_proc = listened sample_options None (init_proc 0 still_sys)"

lemma up_proc_reached: "(proc_step env sample_options sample_server plain_router)\<^sup>*\<^sup>* (init_proc 0 still_sys) up_proc"
  unfolding up_proc_def by (rule r_into_rtranclp, rule proc_step.bound) (simp_all add: init_proc_def)

lemma up_proc_running: "pr_exit up_proc = None" "\<not> pr_shuttingDown up_proc" "pr_listening up_proc" "pr_now up_proc = 0"
  by (simp_all add: up_proc_def listened_def init_proc_def)

theorem shutdown_runs_once_witness:
  "pr_hardKill (shutdown_rest None None (shutdown up_proc)) = Some 30000
    \<and> pr_exit (shutdown_rest None None (shutdown up_proc)) = Some 0
    \<and> \<not> pr_sqliteOpen (shutdown_rest None None (shutdown up_proc))
    \<and> \<not> wk_timer (pr_worker (shutdown_rest None None (shutdown up_proc)))"
proof -
  let ?q = "shutdown_rest None None (shutdown up_proc)"
  have "proc_step still_env sample_options sample_server plain_router (shutdown up_proc) ?q"
    by (rule proc_step.closed) (use up_proc_running in \<open>simp_all add: shutdown_def\<close>)
  then have "(proc_step still_env sample_options sample_server plain_router)\<^sup>*\<^sup>* (shutdown up_proc) ?q" by (rule r_into_rtranclp)
  from shutdown_runs_once [OF up_proc_reached up_proc_running(1,2) this] up_proc_running
  show ?thesis by (simp add: shutdown_rest_def)
qed

text \<open>A signal that comes while the address is still being bound does not stop the poll
  worker for good: the worker is started after the shutdown stopped it.\<close>

theorem signal_during_start_polls:
  assumes "(proc_step env opts deps router)\<^sup>*\<^sup>* (init_proc t s) p" and "pr_exit p = None" and "\<not> pr_listening p"
    and "0 < ap_intervalMs opts"
  shows "\<exists>q. proc_step env opts deps router (shutdown p) q \<and> pr_shuttingDown q \<and> wk_timer (pr_worker q)"
proof -
  have "proc_step env opts deps router (shutdown p) (listened opts None (shutdown p))"
    by (rule proc_step.bound) (use assms in \<open>simp_all add: shutdown_def\<close>)
  moreover have "pr_shuttingDown (listened opts None (shutdown p))" "wk_timer (pr_worker (listened opts None (shutdown p)))"
    using assms(4) by (simp_all add: listened_def shutdown_def poll_start_def)
  ultimately show ?thesis by blast
qed

theorem signal_during_start_polls_witness:
  "\<exists>q. proc_step still_env sample_options sample_server plain_router (shutdown (init_proc 0 still_sys)) q \<and> pr_shuttingDown q \<and> wk_timer (pr_worker q)"
  by (rule signal_during_start_polls [OF rtranclp.rtrancl_refl]) (simp_all add: init_proc_def sample_options_def)

theorem poll_interval_overflow_witness:
  "timer_delay (ap_intervalMs (poll_worker_options
     (\<lparr>LISTEN_ADDR = [], ADMIN_TOKEN = [], CHAIN_RPC = [], CHAIN_ID = 1, CONTROLLER_ADDRESS = [],
       SERVICE_REGISTRY_ADDRESS = None, STATE_PATH = [], RESOLVER_SOCKET_PATH = [], SENDER_SOCKET_PATH = [],
       CHAIN_READ_TTL_SEC = 0, RESOLVER_AUDIT_POLL_INTERVAL_SEC = 30, SENDER_ADDRESS = None,
       MIN_BALANCE_WEI = None, LOG_LEVEL = Info, LOG_FORMAT = Json\<rparr>
      \<lparr>RESOLVER_AUDIT_POLL_INTERVAL_SEC := 2592000\<rparr>))) = 1"
  by (rule poll_interval_overflow) simp_all

section \<open>The exit\<close>

text \<open>
  A run of the process: it takes steps until it has exited, its clock passes every time, and
  a due timer fires at last unless the process is gone before.
\<close>

definition timely_run :: "('w proc \<Rightarrow> 'w proc \<Rightarrow> bool) \<Rightarrow> (nat \<Rightarrow> 'w proc) \<Rightarrow> bool" where
  "timely_run step f \<longleftrightarrow>
     (\<forall>i. if pr_exit (f i) = None then step (f i) (f (Suc i)) else f (Suc i) = f i)
     \<and> (\<forall>t. \<exists>i. pr_exit (f i) \<noteq> None \<or> t \<le> pr_now (f i))
     \<and> (\<forall>i d. pr_hardKill (f i) = Some d \<and> d \<le> pr_now (f i)
          \<longrightarrow> (\<exists>j\<ge>i. pr_exit (f j) \<noteq> None \<or> f (Suc j) = hard_kill (f j)))"

lemma timely_next:
  "timely_run step f \<Longrightarrow> if pr_exit (f i) = None then step (f i) (f (Suc i)) else f (Suc i) = f i"
  unfolding timely_run_def by blast

lemma timely_steps:
  assumes "timely_run (proc_step env opts deps router) f" and "i \<le> j"
  shows "(proc_step env opts deps router)\<^sup>*\<^sup>* (f i) (f j)"
  using assms(2)
proof (induction j rule: dec_induct)
  case (step n)
  have "proc_step env opts deps router (f n) (f (Suc n)) \<or> f (Suc n) = f n"
    using timely_next [OF assms(1), of n] by (auto split: if_splits)
  with step.IH show ?case by (auto intro: rtranclp.rtrancl_into_rtrancl)
qed simp

lemma timely_exited:
  assumes "timely_run step f" and "pr_exit (f i) \<noteq> None" and "i \<le> k"
  shows "f k = f i"
  using assms(3)
proof (induction k rule: dec_induct)
  case (step n)
  with assms(2) timely_next [OF assms(1), of n] show ?case by simp
qed simp

lemma clock_forward: "proc_step env opts deps router p q \<Longrightarrow> pr_now p \<le> pr_now q"
  by (erule proc_stepE) (auto simp: proc_defs split: option.splits)

lemma clock_forward_run: "(proc_step env opts deps router)\<^sup>*\<^sup>* p q \<Longrightarrow> pr_now p \<le> pr_now q"
  by (induction rule: rtranclp_induct) (auto dest: clock_forward)

lemma hardKill_run:
  "(proc_step env opts deps router)\<^sup>*\<^sup>* p q \<Longrightarrow> proc_inv p \<Longrightarrow> pr_hardKill p = Some d \<Longrightarrow> pr_hardKill q = Some d"
  by (induction rule: rtranclp_induct) (auto intro: hardKill_step proc_inv_run)

text \<open>C13. A process that has been signalled exits: in every run in which time passes and due timers
  fire, there is a point from which on it has left with code 0 or 1.\<close>

theorem signalled_process_exits:
  assumes "timely_run (proc_step env opts deps router) f" and "f 0 = init_proc t s" and "pr_shuttingDown (f i)"
  shows "\<exists>j\<ge>i. pr_exit (f j) \<in> {Some 0, Some 1} \<and> (\<forall>k\<ge>j. f k = f j)"
proof -
  note run = timely_steps [OF assms(1)]
  have inv: "proc_inv (f n)" for n
    by (rule proc_inv_run [OF run [of 0 n]]) (simp_all add: assms(2) proc_inv_init)
  then obtain d where d: "pr_hardKill (f i) = Some d" using assms(3) by (auto simp: proc_inv_def)
  have "\<exists>j\<ge>i. pr_exit (f j) \<noteq> None"
  proof (rule ccontr)
    assume "\<not> (\<exists>j\<ge>i. pr_exit (f j) \<noteq> None)"
    then have none: "pr_exit (f j) = None" if "i \<le> j" for j using that by auto
    have never: "pr_exit (f j) = None" for j
      using none timely_exited [OF assms(1), of j i] by (cases "i \<le> j") (metis le_cases order_refl)+
    obtain n where n: "d \<le> pr_now (f n)"
      using assms(1) never unfolding timely_run_def by meson
    let ?m = "max i n"
    have "pr_now (f n) \<le> pr_now (f ?m)" by (rule clock_forward_run [OF run]) simp
    then have "d \<le> pr_now (f ?m)" using n by simp
    moreover have "pr_hardKill (f ?m) = Some d" by (rule hardKill_run [OF run inv d]) simp
    ultimately obtain j where "?m \<le> j" "f (Suc j) = hard_kill (f j)"
      using assms(1) never unfolding timely_run_def by meson
    then show False using never [of "Suc j"] by (simp add: hard_kill_def)
  qed
  then obtain j where j: "i \<le> j" "pr_exit (f j) \<noteq> None" by blast
  with inv [of j] have "pr_exit (f j) \<in> {Some 0, Some 1}" by (auto simp: proc_inv_def)
  with j timely_exited [OF assms(1) j(2)] show ?thesis by blast
qed

definition killed_run :: "nat \<Rightarrow> unit proc" where
  "killed_run n =
     (let p = init_proc 0 still_sys
      in if n = 0 then p else if n = 1 then shutdown p
         else if n = 2 then (shutdown p)\<lparr>pr_now := 30000\<rparr>
         else hard_kill ((shutdown p)\<lparr>pr_now := 30000\<rparr>))"

lemma killed_run_timely: "timely_run (proc_step still_env sample_options sample_server plain_router) killed_run"
proof -
  let ?step = "proc_step still_env sample_options sample_server plain_router"
  let ?p = "init_proc 0 still_sys :: unit proc"
  have 0: "?step ?p (shutdown ?p)" by (rule proc_step.signal) (simp add: init_proc_def)
  have 1: "?step (shutdown ?p) ((shutdown ?p)\<lparr>pr_now := 30000\<rparr>)"
    by (rule proc_step.clock) (simp_all add: init_proc_def shutdown_def)
  have 2: "?step ((shutdown ?p)\<lparr>pr_now := 30000\<rparr>) (hard_kill ((shutdown ?p)\<lparr>pr_now := 30000\<rparr>))"
    by (rule proc_step.kill [where d = 30000]) (simp_all add: init_proc_def shutdown_def)
  have alive: "pr_exit ?p = None" "pr_exit (shutdown ?p) = None" by (simp_all add: init_proc_def shutdown_def)
  have steps: "if pr_exit (killed_run i) = None then ?step (killed_run i) (killed_run (Suc i)) else killed_run (Suc i) = killed_run i" for i
    using 0 1 2 alive by (auto simp: killed_run_def hard_kill_def numeral_2_eq_2)
  have exit: "pr_exit (killed_run n) \<noteq> None" if "3 \<le> n" for n
    using that by (simp add: killed_run_def hard_kill_def)
  show ?thesis unfolding timely_run_def
    using steps exit by (metis max.cobounded1 max.cobounded2)
qed

theorem signalled_process_exits_witness:
  "\<exists>j\<ge>1. pr_exit (killed_run j) \<in> {Some 0, Some 1} \<and> (\<forall>k\<ge>j. killed_run k = killed_run j)"
  by (rule signalled_process_exits [OF killed_run_timely, of 0 still_sys 1])
    (simp_all add: killed_run_def shutdown_def init_proc_def)

end
