(* ===== verification/Console.thy ===== *)
theory Console
  imports Lifecycle
begin

text \<open>
  The whole console over its life: requests and ticks of the poll worker interleaved with
  signals, the clock and the exit, all on one database. The lemmas give every row that can
  come into the two tables its type, whatever the daemons answer and whoever asks.
\<close>

section \<open>The type of the rows\<close>

definition audit_typed :: "AuditEventRow \<Rightarrow> bool" where
  "audit_typed row \<longleftrightarrow> ActorHandleSchema (au_actor row) \<and> au_action row = ''resolver.refresh''
     \<and> (\<exists>t. au_target row = Some t \<and> (t = ''*'' \<or> is_eth_address t))
     \<and> (au_ok row = 1 \<and> au_message row = None \<or> au_ok row = 0 \<and> au_message row \<noteq> None)"

definition observation_typed :: "RoutingObservationRow \<Rightarrow> bool" where
  "observation_typed row \<longleftrightarrow> 0 < ro_observedAt row
     \<and> ro_orchAddress row \<noteq> [] \<and> js_lower (ro_orchAddress row) = ro_orchAddress row
     \<and> ro_capability row = None \<and> ro_offering row = None \<and> ro_detailsJson row \<noteq> None"

definition db_typed :: "Db \<Rightarrow> bool" where
  "db_typed d \<longleftrightarrow> wf_db d \<and> (\<forall>row\<in>set (tb_rows (auditEvents d)). audit_typed row)
     \<and> (\<forall>row\<in>set (tb_rows (routingObservations d)). observation_typed row)"

section \<open>Requests\<close>

lemma serve_cases:
  assumes "serve env deps router fallback zod issues req s = (r, s')"
  obtains (same) "s' = s"
  | (handled) actor rt ps q where "gate (sd_adminToken deps) issues req = GatePass actor"
      and "router (hq_method req) (hq_url req) = Some (rt, ps)"
      and "handle env deps zod rt ps actor req s = (q, s')"
proof (cases "gate (sd_adminToken deps) issues req")
  case (GatePass actor)
  show ?thesis
  proof (cases "router (hq_method req) (hq_url req)")
    case None
    with GatePass assms have "s' = s" by (auto simp: serve_def)
    then show ?thesis by (rule same)
  next
    case (Some x)
    obtain rt ps where x: "x = (rt, ps)" by (cases x)
    obtain q t where h: "handle env deps zod rt ps actor req s = (q, t)" by fastforce
    have "s' = t" using assms h Some GatePass x by (cases q) (auto simp: serve_def io_catch_def)
    with GatePass Some x h show ?thesis by (intro handled) simp_all
  qed
qed (use assms same in \<open>auto simp: serve_def\<close>)

text \<open>What a handler may add: one row for its actor and a target its schema lets pass.\<close>

definition adds_typed :: "string \<Rightarrow> Db \<Rightarrow> Db \<Rightarrow> bool" where
  "adds_typed actor d d' \<longleftrightarrow> routingObservations d' = routingObservations d
     \<and> (\<exists>rows. tb_rows (auditEvents d') = tb_rows (auditEvents d) @ rows
         \<and> (ActorHandleSchema actor \<longrightarrow> (\<forall>row\<in>set rows. audit_typed row)))"

lemma adds_typed_same: "adds_typed actor d d"
  by (simp add: adds_typed_def)

lemma refresh_row_typed:
  "refresh_row actor target r row \<Longrightarrow> ActorHandleSchema actor \<Longrightarrow> target = ''*'' \<or> is_eth_address target \<Longrightarrow> audit_typed row"
  by (cases r) (auto simp: refresh_row_def audit_typed_def)

lemma runRefresh_typed:
  assumes "runRefresh env dl req target s = (r, s')" and "target = ''*'' \<or> is_eth_address target"
  shows "adds_typed (rq_actor req) (db s) (db s')"
proof -
  from runRefresh_log [OF assms(1)] obtain rows where rows:
    "tb_rows (auditEvents (db s')) = tb_rows (auditEvents (db s)) @ rows"
    "routingObservations (db s') = routingObservations (db s)"
    and c: "case rows of [] \<Rightarrow> (\<exists>e. r = Inl e) \<and> db s' = db s
      | row # others \<Rightarrow> others = [] \<and> refresh_row (rq_actor req) target r row" by blast
  have "\<forall>row\<in>set rows. audit_typed row" if "ActorHandleSchema (rq_actor req)"
    using c refresh_row_typed [OF _ that assms(2)] by (cases rows) auto
  with rows show ?thesis by (auto simp: adds_typed_def)
qed

lemma AddressParams_address: "AddressParamsSchema ps = Some a \<Longrightarrow> is_eth_address a"
  by (auto simp: AddressParamsSchema_def checked_Some bind_eq_Some_conv split: if_splits)

lemma handle_typed:
  assumes "handle env deps zod rt ps actor req s = (r, s')"
  shows "adds_typed actor (db s) (db s')"
proof -
  let ?q = "\<lparr>rq_query = hq_query req, rq_params = ps, rq_body = hq_body req, rq_actor = actor\<rparr>"
  let ?dl = "sd_callDeadline deps"
  consider "rt = ApiResolverRefresh" | "rt = ApiResolverRefreshOne" | "\<not> is_refresh rt"
    by (auto simp: is_refresh_def)
  then show ?thesis
  proof cases
    case 1
    show ?thesis
    proof (cases "EmptyBodySchema (hq_body req)")
      case None
      with assms 1 show ?thesis by (auto simp: handle_def handleResolverRefresh_def adds_typed_same)
    next
      case (Some u)
      with assms 1 have "runRefresh env ?dl ?q ''*'' s = (r, s')" by (simp add: handle_def handleResolverRefresh_def)
      from runRefresh_typed [OF this] show ?thesis by simp
    qed
  next
    case 2
    show ?thesis
    proof (cases "AddressParamsSchema ps")
      case None
      with assms 2 show ?thesis by (auto simp: handle_def handleResolverRefreshOne_def adds_typed_same)
    next
      case (Some a)
      with assms 2 have "runRefresh env ?dl ?q a s = (r, s')" by (simp add: handle_def handleResolverRefreshOne_def)
      from runRefresh_typed [OF this] AddressParams_address [OF Some] show ?thesis by simp
    qed
  next
    case 3
    from keepsD [OF handle_reads [OF 3] assms] show ?thesis by (simp add: adds_typed_same)
  qed
qed

lemma serve_typed:
  assumes "api_urls_only router" and "serve env deps router fallback zod issues req s = (r, s')"
    and "db_typed (db s)"
  shows "db_typed (db s')"
  using assms(2)
proof (cases rule: serve_cases)
  case same
  with assms(3) show ?thesis by simp
next
  case (handled actor rt ps q)
  show ?thesis
  proof (cases "is_refresh rt")
    case True
    then have "starts_with ''/api/'' (hq_url req)"
      using assms(1) handled(2) by (auto simp: api_urls_only_def is_refresh_def)
    from gate_pass [OF this handled(1)] have "ActorHandleSchema actor" using parseActor_ok by blast
    with handle_typed [OF handled(3)] handle_wf [OF handled(3)] assms(3) show ?thesis
      by (auto simp: db_typed_def adds_typed_def)
  next
    case False
    from keepsD [OF handle_reads [OF False] handled(3)] assms(3) show ?thesis by simp
  qed
qed

section \<open>Ticks\<close>

lemma mirror_typed:
  assumes "i \<in> eventToObservation ` set (kept events)" and "ri_observedAt i \<noteq> None"
  shows "observation_typed (observation_row n i)"
proof -
  obtain e where e: "e \<in> set events" "\<not> skipped e" and i: "i = eventToObservation e"
    using assms(1) by (auto simp: kept_def)
  with assms(2) show ?thesis
    by (auto simp: observation_typed_def observation_row_def eventToObservation_def skipped_def js_lower_def
        split: option.splits)
qed

lemma inserted_row:
  assumes "row \<in> set (tb_rows (insert_rows observation_row is t))"
  shows "row \<in> set (tb_rows t) \<or> (\<exists>k i. i \<in> set is \<and> row = observation_row k i)"
proof -
  have "\<exists>k i. i \<in> set is \<and> row = observation_row k i"
    if new: "row \<in> set (map (\<lambda>(k, i). observation_row (tb_seq t + Suc k) i) (enumerate 0 is))"
  proof -
    obtain k i where "(k, i) \<in> set (enumerate 0 is)" "row = observation_row (tb_seq t + Suc k) i"
      using new by auto
    moreover from this(1) have "i \<in> set is" by (auto simp: enumerate_eq_zip dest: set_zip_rightD)
    ultimately show ?thesis by blast
  qed
  with assms show ?thesis unfolding observation_table.rows_insert_rows set_append by blast
qed

lemma poll_finish_typed:
  assumes "db_typed (db (wk_sys p))"
  shows "db_typed (db (wk_sys (snd (poll_finish env answer p))))"
proof (cases answer)
  case (Inl e)
  with assms show ?thesis by (simp add: poll_finish_eq)
next
  case (Inr events)
  let ?is = "map eventToObservation (kept events)"
  obtain r s where a: "appendBatch env ?is (wk_sys p) = (r, s)" by fastforce
  show ?thesis
  proof (cases r)
    case (Inl e)
    with appendBatch_outcome [OF a] have "db s = db (wk_sys p)" by simp
    with Inr Inl a assms show ?thesis by (simp add: poll_finish_eq)
  next
    case (Inr u)
    with appendBatch_outcome [OF a] have d: "db s = (db (wk_sys p))
        \<lparr>routingObservations := insert_rows observation_row ?is (routingObservations (db (wk_sys p)))\<rparr>"
      and n: "\<forall>i\<in>set ?is. ri_observedAt i \<noteq> None" by simp_all
    have "observation_typed row" if "row \<in> set (tb_rows (insert_rows observation_row ?is (routingObservations (db (wk_sys p)))))" for row
    proof -
      have "row \<in> set (tb_rows (routingObservations (db (wk_sys p)))) \<or> (\<exists>k i. i \<in> set ?is \<and> row = observation_row k i)"
        using inserted_row [OF that] .
      then show ?thesis using assms mirror_typed n by (fastforce simp: db_typed_def)
    qed
    moreover have "wf_db (db s)" using appendBatch_wf [OF a] assms by (simp add: db_typed_def)
    ultimately have "db_typed (db s)" using assms d by (simp add: db_typed_def)
    with Inr a \<open>answer = Inr events\<close> show ?thesis by (simp add: poll_finish_eq)
  qed
qed

section \<open>Any run\<close>

lemma proc_step_typed:
  assumes "proc_step env opts deps router p q" and "api_urls_only router" and "db_typed (db (wk_sys (pr_worker p)))"
  shows "db_typed (db (wk_sys (pr_worker q)))"
  using assms(1)
proof (cases rule: proc_step.cases)
  case (request fallback zod issues req rep s)
  with serve_typed [OF assms(2) request(4)] assms(3) show ?thesis by simp
next
  case (tick_ends answer)
  with poll_finish_typed assms(3) show ?thesis by simp
qed (use assms(3) in \<open>auto simp: proc_defs poll_stop_def poll_start_def poll_begin_def split: option.splits\<close>)


lemma db_typed_empty: "db_typed (db still_sys)"
  by (simp add: db_typed_def still_sys_def wf_empty_db) (simp add: empty_db_def empty_table_def)


end
