(* ===== verification/Wire.thy ===== *)
theory Wire
  imports JsText
begin

text \<open>
  What the generated message code shares (\<^verbatim>\<open>src/providers/*/gen\<close>): the loop every
  \<^verbatim>\<open>decode\<close> runs over its tags, and the shapes of the statements every \<^verbatim>\<open>encode\<close> is made of.

  The binary reader and writer belong to a library, so they are a parameter: the record
  \<open>wire\<close> has one function per method the code calls. A reader's buffer is the list of bytes
  from its position on, and a read gives the value and the number of bytes it took. The
  locale \<open>wire_format\<close> states the one thing the code relies on, that what a writer wrote is
  what the reader of the same kind reads back; its lemmas compose that law along the
  statements of a message.
\<close>

section \<open>The reader and the writer\<close>

type_synonym 'a reader = "byte list \<Rightarrow> js_error + 'a \<times> nat"
type_synonym 'a writer = "'a \<Rightarrow> js_error + byte list"

text \<open>
  \<open>rd_uint32\<close> is asked at a position before the end only, and reports the bytes it took after
  the first one; \<open>rd_eof\<close> is what reading at the end throws. \<open>rd_skip\<close> passes over a value of
  a wire type. \<open>wr_join\<close> writes the bytes of a nested message, its length in front.
\<close>

record wire =
  rd_eof :: js_error
  rd_uint32 :: "nat reader"
  rd_int32 :: "int reader"
  rd_int64 :: "int reader"
  rd_uint64 :: "int reader"
  rd_bool :: "bool reader"
  rd_string :: "string reader"
  rd_bytes :: "byte list reader"
  rd_skip :: "nat \<Rightarrow> byte list \<Rightarrow> js_error + nat"
  wr_uint32 :: "nat writer"
  wr_int32 :: "int writer"
  wr_int64 :: "int writer"
  wr_uint64 :: "int writer"
  wr_bool :: "bool writer"
  wr_string :: "string writer"
  wr_bytes :: "byte list writer"
  wr_join :: "byte list writer"

definition read_uint32 :: "wire \<Rightarrow> nat reader" where
  "read_uint32 W bs =
     (if bs = [] then Inl (rd_eof W)
      else case rd_uint32 W bs of Inl e \<Rightarrow> Inl e | Inr (v, k) \<Rightarrow> Inr (v, Suc k))"

section \<open>Decoding\<close>

text \<open>
  A field of a message type: what its case of the switch does with the reader and the
  message built so far. The switch is the list of its cases by tag.
\<close>

type_synonym 'm field_reader = "'m \<Rightarrow> byte list \<Rightarrow> js_error + 'm \<times> nat"

definition field :: "'a reader \<Rightarrow> ('a \<Rightarrow> 'm \<Rightarrow> 'm) \<Rightarrow> 'm field_reader" where
  "field rd upd m bs = (case rd bs of Inl e \<Rightarrow> Inl e | Inr (v, n) \<Rightarrow> Inr (upd v m, n))"

text \<open>
  The loop: \<open>left\<close> is \<^verbatim>\<open>end - reader.pos\<close>, \<open>c\<close> the bytes taken so far. A tag that is no case's
  is an end of group or zero, which ends the loop, or is skipped.
\<close>

function decode_loop ::
    "wire \<Rightarrow> (nat \<times> 'm field_reader) list \<Rightarrow> int \<Rightarrow> byte list \<Rightarrow> 'm \<Rightarrow> nat \<Rightarrow> js_error + 'm \<times> nat" where
  "decode_loop W fs left bs m c =
     (if left \<le> 0 then Inr (m, c)
      else if bs = [] then Inl (rd_eof W)
      else case rd_uint32 W bs of
             Inl e \<Rightarrow> Inl e
           | Inr (tag, k) \<Rightarrow>
               (case map_of fs tag of
                  Some f \<Rightarrow>
                    (case f m (drop (Suc k) bs) of
                       Inl e \<Rightarrow> Inl e
                     | Inr (m', n) \<Rightarrow>
                         decode_loop W fs (left - int (Suc k + n)) (drop (Suc k + n) bs) m' (c + (Suc k + n)))
                | None \<Rightarrow>
                    if tag mod 8 = 4 \<or> tag = 0 then Inr (m, c + Suc k)
                    else (case rd_skip W (tag mod 8) (drop (Suc k) bs) of
                            Inl e \<Rightarrow> Inl e
                          | Inr n \<Rightarrow>
                              decode_loop W fs (left - int (Suc k + n)) (drop (Suc k + n) bs) m (c + (Suc k + n)))))"
  by pat_completeness auto

termination
  by (relation "measure (\<lambda>(W, fs, left, bs, m, c). length bs)") auto

declare decode_loop.simps [simp del]

text \<open>
  The same loop cut off after a number of rounds, \<open>None\<close> where it is not done by then.
\<close>

primrec loop_rounds ::
    "nat \<Rightarrow> wire \<Rightarrow> (nat \<times> 'm field_reader) list \<Rightarrow> int \<Rightarrow> byte list \<Rightarrow> 'm \<Rightarrow> nat \<Rightarrow> (js_error + 'm \<times> nat) option" where
  "loop_rounds 0 W fs left bs m c = None"
| "loop_rounds (Suc f) W fs left bs m c =
     (if left \<le> 0 then Some (Inr (m, c))
      else if bs = [] then Some (Inl (rd_eof W))
      else case rd_uint32 W bs of
             Inl e \<Rightarrow> Some (Inl e)
           | Inr (tag, k) \<Rightarrow>
               (let rest = drop (Suc k) bs
                in case map_of fs tag of
                     Some g \<Rightarrow>
                       (case g m rest of
                          Inl e \<Rightarrow> Some (Inl e)
                        | Inr (m', n) \<Rightarrow>
                            loop_rounds f W fs (left - int (Suc k + n)) (drop (Suc k + n) bs) m' (c + (Suc k + n)))
                   | None \<Rightarrow>
                       if tag mod 8 = 4 \<or> tag = 0 then Some (Inr (m, c + Suc k))
                       else (case rd_skip W (tag mod 8) rest of
                               Inl e \<Rightarrow> Some (Inl e)
                             | Inr n \<Rightarrow>
                                 loop_rounds f W fs (left - int (Suc k + n)) (drop (Suc k + n) bs) m (c + (Suc k + n)))))"

lemma loop_rounds_enough:
  "length bs < f \<Longrightarrow> loop_rounds f W fs left bs m c = Some (decode_loop W fs left bs m c)"
proof (induction f arbitrary: left bs m c)
  case (Suc f)
  have "length (drop (Suc j) bs) < f" if "bs \<noteq> []" for j
    using Suc.prems that by (cases bs) auto
  then show ?case
    using Suc.IH by (subst decode_loop.simps) (auto split: sum.split option.split)
qed simp

text \<open>The value of an optional field, where it is present.\<close>

definition read_some :: "'a reader \<Rightarrow> 'a option reader" where
  "read_some rd bs = (case rd bs of Inl e \<Rightarrow> Inl e | Inr (v, n) \<Rightarrow> Inr (Some v, n))"

text \<open>A nested message: its length, then its own loop over that many bytes.\<close>

definition read_message :: "wire \<Rightarrow> (int \<Rightarrow> 'a reader) \<Rightarrow> 'a reader" where
  "read_message W dec bs =
     (case read_uint32 W bs of
        Inl e \<Rightarrow> Inl e
      | Inr (len, k) \<Rightarrow>
          (case dec (int len) (drop k bs) of Inl e \<Rightarrow> Inl e | Inr (v, n) \<Rightarrow> Inr (v, k + n)))"

section \<open>Encoding\<close>

definition res_append :: "js_error + byte list \<Rightarrow> js_error + byte list \<Rightarrow> js_error + byte list" where
  "res_append x y = res_bind x (\<lambda>b. res_bind y (\<lambda>b'. Inr (b @ b')))"

text \<open>The statements of an encoder, one after the other; the first that throws ends it.\<close>

primrec enc_seq :: "(js_error + byte list) list \<Rightarrow> js_error + byte list" where
  "enc_seq [] = Inr []"
| "enc_seq (x # xs) = res_append x (enc_seq xs)"

definition tagged :: "wire \<Rightarrow> nat \<Rightarrow> 'a writer \<Rightarrow> 'a writer" where
  "tagged W tag wr v = res_append (wr_uint32 W tag) (wr v)"

definition enc_string :: "wire \<Rightarrow> nat \<Rightarrow> string \<Rightarrow> js_error + byte list" where
  "enc_string W tag v = (if v \<noteq> [] then tagged W tag (wr_string W) v else Inr [])"

definition enc_bytes :: "wire \<Rightarrow> nat \<Rightarrow> byte list \<Rightarrow> js_error + byte list" where
  "enc_bytes W tag v = (if length v \<noteq> 0 then tagged W tag (wr_bytes W) v else Inr [])"

definition enc_int32 :: "wire \<Rightarrow> nat \<Rightarrow> int \<Rightarrow> js_error + byte list" where
  "enc_int32 W tag v = (if v \<noteq> 0 then tagged W tag (wr_int32 W) v else Inr [])"

definition enc_int64 :: "wire \<Rightarrow> nat \<Rightarrow> int \<Rightarrow> js_error + byte list" where
  "enc_int64 W tag v = (if v \<noteq> 0 then tagged W tag (wr_int64 W) v else Inr [])"

definition enc_uint32 :: "wire \<Rightarrow> nat \<Rightarrow> nat \<Rightarrow> js_error + byte list" where
  "enc_uint32 W tag v = (if v \<noteq> 0 then tagged W tag (wr_uint32 W) v else Inr [])"

text \<open>The 64-bit fields, whose values the encoder checks first.\<close>

definition enc_uint64_checked :: "wire \<Rightarrow> nat \<Rightarrow> string \<Rightarrow> int \<Rightarrow> js_error + byte list" where
  "enc_uint64_checked W tag name v =
     (if v \<noteq> 0 \<and> \<not> (0 \<le> v \<and> v < 2 ^ 64)
      then Inl (PlainError (''value provided for field message.'' @ name @ '' of type uint64 too large''))
      else if v \<noteq> 0 then tagged W tag (wr_uint64 W) v else Inr [])"

definition enc_int64_checked :: "wire \<Rightarrow> nat \<Rightarrow> string \<Rightarrow> int \<Rightarrow> js_error + byte list" where
  "enc_int64_checked W tag name v =
     (if v \<noteq> 0 \<and> \<not> (- (2 ^ 63) \<le> v \<and> v < 2 ^ 63)
      then Inl (PlainError (''value provided for field message.'' @ name @ '' of type int64 too large''))
      else enc_int64 W tag v)"

definition enc_bool :: "wire \<Rightarrow> nat \<Rightarrow> bool \<Rightarrow> js_error + byte list" where
  "enc_bool W tag v = (if v then tagged W tag (wr_bool W) v else Inr [])"

definition wr_message :: "wire \<Rightarrow> 'a writer \<Rightarrow> 'a writer" where
  "wr_message W enc v = res_bind (enc v) (wr_join W)"

definition enc_each :: "wire \<Rightarrow> nat \<Rightarrow> 'a writer \<Rightarrow> 'a list \<Rightarrow> js_error + byte list" where
  "enc_each W tag wr vs = enc_seq (map (tagged W tag wr) vs)"

definition enc_optional :: "wire \<Rightarrow> nat \<Rightarrow> 'a writer \<Rightarrow> 'a option \<Rightarrow> js_error + byte list" where
  "enc_optional W tag wr v = (case v of None \<Rightarrow> Inr [] | Some x \<Rightarrow> tagged W tag wr x)"

section \<open>Reading back\<close>

text \<open>What the writer \<open>wr\<close> wrote, the reader \<open>rd\<close> reads, whatever follows, and takes exactly it.\<close>

definition reads_back :: "'a writer \<Rightarrow> 'a reader \<Rightarrow> bool" where
  "reads_back wr rd \<longleftrightarrow> (\<forall>v b r. wr v = Inr b \<longrightarrow> rd (b @ r) = Inr (v, length b))"

lemma reads_backD: "reads_back wr rd \<Longrightarrow> wr v = Inr b \<Longrightarrow> rd (b @ r) = Inr (v, length b)"
  by (simp add: reads_back_def)

text \<open>The same for the two halves of a message type, the decoder told the length.\<close>

definition decodes_back :: "'a writer \<Rightarrow> (int \<Rightarrow> 'a reader) \<Rightarrow> bool" where
  "decodes_back enc dec \<longleftrightarrow>
     (\<forall>v b r. enc v = Inr b \<longrightarrow> dec (int (length b)) (b @ r) = Inr (v, length b))"

lemma decodes_backD: "decodes_back enc dec \<Longrightarrow> enc v = Inr b \<Longrightarrow> dec (int (length b)) (b @ r) = Inr (v, length b)"
  by (simp add: decodes_back_def)

locale wire_format =
  fixes W :: wire
  assumes uint32: "reads_back (wr_uint32 W) (read_uint32 W)"
    and int32: "reads_back (wr_int32 W) (rd_int32 W)"
    and int64: "reads_back (wr_int64 W) (rd_int64 W)"
    and uint64: "reads_back (wr_uint64 W) (rd_uint64 W)"
    and bool: "reads_back (wr_bool W) (rd_bool W)"
    and string: "reads_back (wr_string W) (rd_string W)"
    and bytes: "reads_back (wr_bytes W) (rd_bytes W)"
    and join: "wr_join W b = Inr j \<Longrightarrow> \<exists>p. j = p @ b \<and> (\<forall>r. read_uint32 W (p @ r) = Inr (length b, length p))"

lemma res_append_Inr [simp]:
  "res_append x y = Inr bs \<longleftrightarrow> (\<exists>a b. x = Inr a \<and> y = Inr b \<and> bs = a @ b)"
  by (auto simp: res_append_def res_bind_eq_Inr)

text \<open>
  \<open>runs W fs m bs m'\<close>: the loop takes the bytes \<open>bs\<close> from the front of its buffer and goes from
  the message \<open>m\<close> to \<open>m'\<close>. \<open>emits W fs m r m'\<close>: so it does with what the statement \<open>r\<close> writes.
\<close>

definition runs :: "wire \<Rightarrow> (nat \<times> 'm field_reader) list \<Rightarrow> 'm \<Rightarrow> byte list \<Rightarrow> 'm \<Rightarrow> bool" where
  "runs W fs m bs m' \<longleftrightarrow> (\<forall>l r c. 0 \<le> l \<longrightarrow>
     decode_loop W fs (int (length bs) + l) (bs @ r) m c = decode_loop W fs l r m' (c + length bs))"

definition emits :: "wire \<Rightarrow> (nat \<times> 'm field_reader) list \<Rightarrow> 'm \<Rightarrow> js_error + byte list \<Rightarrow> 'm \<Rightarrow> bool" where
  "emits W fs m r m' \<longleftrightarrow> (\<forall>bs. r = Inr bs \<longrightarrow> runs W fs m bs m')"

text \<open>A field whose tag is no case of the switch, and whose value the reader can skip.\<close>

definition unknown_field :: "wire \<Rightarrow> (nat \<times> 'm field_reader) list \<Rightarrow> byte list \<Rightarrow> bool" where
  "unknown_field W fs u \<longleftrightarrow> (\<exists>tag t b. u = t @ b \<and> wr_uint32 W tag = Inr t \<and> tag \<noteq> 0 \<and> tag mod 8 \<noteq> 4
     \<and> map_of fs tag = None \<and> (\<forall>r. rd_skip W (tag mod 8) (b @ r) = Inr (length b)))"

lemma runs_Nil [simp]: "runs W fs m [] m"
  by (simp add: runs_def)

lemma runs_append:
  assumes "runs W fs m bs m1" and "runs W fs m1 cs m2"
  shows "runs W fs m (bs @ cs) m2"
  unfolding runs_def
proof (intro allI impI)
  fix l r c assume "(0 :: int) \<le> l"
  have "decode_loop W fs (int (length (bs @ cs)) + l) ((bs @ cs) @ r) m c =
      decode_loop W fs (int (length bs) + (int (length cs) + l)) (bs @ (cs @ r)) m c"
    by (simp add: add.assoc)
  also have "\<dots> = decode_loop W fs (int (length cs) + l) (cs @ r) m1 (c + length bs)"
    using assms(1) \<open>0 \<le> l\<close> by (simp add: runs_def)
  also have "\<dots> = decode_loop W fs l r m2 (c + length bs + length cs)"
    using assms(2) \<open>0 \<le> l\<close> by (simp add: runs_def)
  finally show "decode_loop W fs (int (length (bs @ cs)) + l) ((bs @ cs) @ r) m c =
      decode_loop W fs l r m2 (c + length (bs @ cs))" by (simp add: add.assoc)
qed

lemma emits_Nil: "m = m' \<Longrightarrow> emits W fs m (enc_seq []) m'"
  by (simp add: emits_def)

lemma emits_Cons: "emits W fs m x m1 \<Longrightarrow> emits W fs m1 (enc_seq xs) m' \<Longrightarrow> emits W fs m (enc_seq (x # xs)) m'"
  by (auto simp: emits_def intro: runs_append)

lemma emits_if: "(b \<Longrightarrow> emits W fs m r m') \<Longrightarrow> (\<not> b \<Longrightarrow> m' = m) \<Longrightarrow> emits W fs m (if b then r else Inr []) m'"
  by (simp add: emits_def)

lemma emits_guard: "emits W fs m r m' \<Longrightarrow> emits W fs m (if b then Inl e else r) m'"
  by (simp add: emits_def)

lemma decodes_backI:
  assumes "\<And>v. emits W fs base (enc v) v" and "\<And>l bs. dec l bs = decode_loop W fs l bs base 0"
  shows "decodes_back enc dec"
  unfolding decodes_back_def
proof (intro allI impI)
  fix v b r assume "enc v = Inr b"
  with assms(1) have "runs W fs base b v" by (simp add: emits_def)
  then have "decode_loop W fs (int (length b) + 0) (b @ r) base 0 = decode_loop W fs 0 r v (0 + length b)"
    unfolding runs_def by blast
  then show "dec (int (length b)) (b @ r) = Inr (v, length b)"
    by (simp add: assms(2) decode_loop.simps)
qed

named_theorems back_intros \<open>what is read back as it was written\<close>

context wire_format
begin

declare string [back_intros]

lemma read_tag:
  assumes "wr_uint32 W tag = Inr t"
  obtains k where "t \<noteq> []" and "length t = Suc k" and "\<And>r. rd_uint32 W (t @ r) = Inr (tag, k)"
proof -
  have r: "read_uint32 W (t @ r) = Inr (tag, length t)" for r using uint32 assms by (rule reads_backD)
  have ne: "t \<noteq> []" using r [of "[]"] by (auto simp: read_uint32_def)
  then obtain k where k: "length t = Suc k" by (cases t) auto
  have "rd_uint32 W (t @ r) = Inr (tag, k)" for r
    using r [of r] ne k by (auto simp: read_uint32_def split: sum.splits)
  with ne k show thesis by (rule that)
qed

lemma emits_case:
  assumes "map_of fs tag = Some f" and "\<And>b r. wr v = Inr b \<Longrightarrow> f m (b @ r) = Inr (m', length b)"
  shows "emits W fs m (tagged W tag wr v) m'"
  unfolding emits_def runs_def
proof (intro allI impI)
  fix bs l r c assume w: "tagged W tag wr v = Inr bs" and l: "(0 :: int) \<le> l"
  then obtain t b where t: "wr_uint32 W tag = Inr t" and b: "wr v = Inr b" and bs: "bs = t @ b"
    by (auto simp: tagged_def)
  obtain k where ne: "t \<noteq> []" and k: "length t = Suc k" and tag: "\<And>r. rd_uint32 W (t @ r) = Inr (tag, k)"
    using read_tag [OF t] by blast
  show "decode_loop W fs (int (length bs) + l) (bs @ r) m c = decode_loop W fs l r m' (c + length bs)"
    using ne l assms(2) [OF b] k by (subst decode_loop.simps) (simp add: bs tag assms(1) add.assoc)
qed

lemma emits_tagged:
  assumes "map_of fs tag = Some (field rd upd)" and "reads_back wr rd"
  shows "emits W fs m (tagged W tag wr v) (upd v m)"
  by (rule emits_case [OF assms(1)]) (simp add: field_def reads_backD [OF assms(2)])

lemma emits_string:
  "map_of fs tag = Some (field (rd_string W) upd) \<Longrightarrow> upd [] m = m \<Longrightarrow> emits W fs m (enc_string W tag v) (upd v m)"
  unfolding enc_string_def by (rule emits_if) (simp_all add: emits_tagged string)

lemma emits_bytes:
  "map_of fs tag = Some (field (rd_bytes W) upd) \<Longrightarrow> upd [] m = m \<Longrightarrow> emits W fs m (enc_bytes W tag v) (upd v m)"
  unfolding enc_bytes_def by (rule emits_if) (simp_all add: emits_tagged bytes)

lemma emits_int32:
  "map_of fs tag = Some (field (rd_int32 W) upd) \<Longrightarrow> upd 0 m = m \<Longrightarrow> emits W fs m (enc_int32 W tag v) (upd v m)"
  unfolding enc_int32_def by (rule emits_if) (simp_all add: emits_tagged int32)

lemma emits_int64:
  "map_of fs tag = Some (field (rd_int64 W) upd) \<Longrightarrow> upd 0 m = m \<Longrightarrow> emits W fs m (enc_int64 W tag v) (upd v m)"
  unfolding enc_int64_def by (rule emits_if) (simp_all add: emits_tagged int64)

lemma emits_uint32:
  "map_of fs tag = Some (field (read_uint32 W) upd) \<Longrightarrow> upd 0 m = m \<Longrightarrow> emits W fs m (enc_uint32 W tag v) (upd v m)"
  unfolding enc_uint32_def by (rule emits_if) (simp_all add: emits_tagged uint32)

lemma emits_uint64_checked:
  "map_of fs tag = Some (field (rd_uint64 W) upd) \<Longrightarrow> upd 0 m = m \<Longrightarrow>
    emits W fs m (enc_uint64_checked W tag name v) (upd v m)"
  unfolding enc_uint64_checked_def by (rule emits_guard, rule emits_if) (simp_all add: emits_tagged uint64)

lemma emits_int64_checked:
  "map_of fs tag = Some (field (rd_int64 W) upd) \<Longrightarrow> upd 0 m = m \<Longrightarrow>
    emits W fs m (enc_int64_checked W tag name v) (upd v m)"
  unfolding enc_int64_checked_def by (rule emits_guard) (rule emits_int64)

lemma emits_bool:
  "map_of fs tag = Some (field (rd_bool W) upd) \<Longrightarrow> upd False m = m \<Longrightarrow> emits W fs m (enc_bool W tag v) (upd v m)"
  unfolding enc_bool_def by (rule emits_if) (simp_all add: emits_tagged bool)

lemma emits_each:
  assumes "map_of fs tag = Some (field rd upd)" and "reads_back wr rd" and "fold upd vs m = m'"
  shows "emits W fs m (enc_each W tag wr vs) m'"
  unfolding assms(3) [symmetric]
proof (induction vs arbitrary: m)
  case Nil
  then show ?case by (simp add: enc_each_def emits_def)
next
  case (Cons v vs)
  from emits_Cons [OF emits_tagged [OF assms(1,2)] Cons.IH [unfolded enc_each_def]]
  show ?case by (simp add: enc_each_def)
qed

lemma emits_optional:
  assumes "map_of fs tag = Some (field (read_some rd) upd)" and "reads_back wr rd" and "upd None m = m"
  shows "emits W fs m (enc_optional W tag wr v) (upd v m)"
proof (cases v)
  case None
  with assms(3) show ?thesis by (simp add: enc_optional_def emits_def)
next
  case (Some x)
  have "emits W fs m (tagged W tag wr x) (upd (Some x) m)"
    by (rule emits_case [OF assms(1)]) (simp add: field_def read_some_def reads_backD [OF assms(2)])
  with Some show ?thesis by (simp add: enc_optional_def)
qed

lemma reads_back_message [back_intros]:
  assumes "decodes_back enc dec"
  shows "reads_back (wr_message W enc) (read_message W dec)"
  unfolding reads_back_def
proof (intro allI impI)
  fix v j r assume "wr_message W enc v = Inr j"
  then obtain b where b: "enc v = Inr b" and "wr_join W b = Inr j"
    by (auto simp: wr_message_def res_bind_eq_Inr)
  from join [OF this(2)] obtain p where j: "j = p @ b" and p: "\<And>r. read_uint32 W (p @ r) = Inr (length b, length p)"
    by blast
  have "dec (int (length b)) (b @ r) = Inr (v, length b)" using assms b by (simp add: decodes_back_def)
  then show "read_message W dec (j @ r) = Inr (v, length j)" by (simp add: read_message_def j p)
qed

lemma runs_unknown:
  assumes "unknown_field W fs u"
  shows "runs W fs m u m"
proof -
  obtain tag t b where u: "u = t @ b" and t: "wr_uint32 W tag = Inr t" and g: "tag \<noteq> 0" "tag mod 8 \<noteq> 4"
    and n: "map_of fs tag = None" and s: "\<And>r. rd_skip W (tag mod 8) (b @ r) = Inr (length b)"
    using assms by (auto simp: unknown_field_def)
  obtain k where ne: "t \<noteq> []" and k: "length t = Suc k" and tag: "\<And>r. rd_uint32 W (t @ r) = Inr (tag, k)"
    using read_tag [OF t] by blast
  show ?thesis unfolding runs_def
  proof (intro allI impI)
    fix l r c assume "(0 :: int) \<le> l"
    then show "decode_loop W fs (int (length u) + l) (u @ r) m c = decode_loop W fs l r m (c + length u)"
      using ne k s [of r] by (subst decode_loop.simps) (simp add: u tag n g add.assoc)
  qed
qed

text \<open>A message between two unknown fields.\<close>

lemma decode_between_unknown:
  assumes "emits W fs base r m" and "r = Inr bs" and "unknown_field W fs u" and "unknown_field W fs v"
  shows "decode_loop W fs (int (length (u @ bs @ v))) (u @ bs @ v) base 0 = Inr (m, length (u @ bs @ v))"
proof -
  have "runs W fs base bs m" using assms(1,2) by (simp add: emits_def)
  from runs_append [OF runs_unknown [OF assms(3)] runs_append [OF this runs_unknown [OF assms(4)]]]
  have "decode_loop W fs (int (length (u @ bs @ v)) + 0) ((u @ bs @ v) @ []) base 0 =
      decode_loop W fs 0 [] m (0 + length (u @ bs @ v))"
    unfolding runs_def by blast
  then show ?thesis by (simp add: decode_loop.simps)
qed

lemmas emits_intros = emits_Nil emits_Cons emits_string emits_bytes emits_int32 emits_uint32
  emits_int64_checked emits_uint64_checked emits_bool
  emits_each emits_optional

end

end
