(* ===== verification/Timestamps.thy ===== *)
theory Timestamps
  imports Wire JsNumber ProtoTypes
begin

text \<open>
  The time fields of the messages (\<^verbatim>\<open>gen/google/protobuf/timestamp.ts\<close> and the two conversions
  at the end of \<^verbatim>\<open>resolver.ts\<close>): a date in milliseconds becomes seconds and nanoseconds and
  back, with the double arithmetic of the language. The lemmas show that the quotient and
  the sums are exact for every date there is, so that a date survives the wire.
\<close>

section \<open>Arithmetic on doubles\<close>

text \<open>The fraction a finite number is, and the double nearest to a fraction.\<close>

fun js_fraction :: "jsnum \<Rightarrow> (int \<times> nat) option" where
  "js_fraction (Fin m e) = Some (m * 2 ^ nat e, 2 ^ nat (- e))"
| "js_fraction _ = None"

definition nearest_double :: "int \<Rightarrow> nat \<Rightarrow> jsnum" where
  "nearest_double n d =
     (let g = gcd (nat \<bar>n\<bar>) d;
          x = round_double (nat \<bar>n\<bar> div g) (d div g)
      in if n < 0 then js_negate x else x)"

text \<open>Sum, product and quotient by a positive integer, where the operands are finite.\<close>

definition js_add :: "jsnum \<Rightarrow> jsnum \<Rightarrow> jsnum" where
  "js_add x y = (case (js_fraction x, js_fraction y) of
     (Some (a, b), Some (c, d)) \<Rightarrow> nearest_double (a * int d + c * int b) (b * d) | _ \<Rightarrow> NaN)"

definition js_mul :: "jsnum \<Rightarrow> jsnum \<Rightarrow> jsnum" where
  "js_mul x y = (case (js_fraction x, js_fraction y) of
     (Some (a, b), Some (c, d)) \<Rightarrow> nearest_double (a * c) (b * d) | _ \<Rightarrow> NaN)"

definition js_quot :: "jsnum \<Rightarrow> nat \<Rightarrow> jsnum" where
  "js_quot x k = (case js_fraction x of Some (a, b) \<Rightarrow> nearest_double a (b * k) | None \<Rightarrow> NaN)"

definition js_of_int :: "int \<Rightarrow> jsnum" where
  "js_of_int n = nearest_double n 1"

definition js_trunc :: "jsnum \<Rightarrow> int option" where
  "js_trunc x = (case js_fraction x of None \<Rightarrow> None | Some (a, b) \<Rightarrow> Some (sgn a * (\<bar>a\<bar> div int b)))"

section \<open>Dates\<close>

definition max_time :: int where "max_time = 8640000000000000"

text \<open>\<^verbatim>\<open>date.getTime()\<close>: a date holds no time beyond the largest one.\<close>

definition getTime :: "time_value \<Rightarrow> int option" where
  "getTime d = (case d of None \<Rightarrow> None | Some ms \<Rightarrow> if \<bar>ms\<bar> \<le> max_time then Some ms else None)"

text \<open>\<^verbatim>\<open>new Date(x)\<close>.\<close>

definition new_date :: "jsnum \<Rightarrow> time_value" where
  "new_date x = (case js_fraction x of
     None \<Rightarrow> None | Some (a, b) \<Rightarrow> if \<bar>a\<bar> \<le> max_time * int b then js_trunc x else None)"

record Timestamp =
  ts_seconds :: int
  ts_nanos :: int

definition bigint_error :: js_error where
  "bigint_error = RangeError ''The number NaN cannot be converted to a BigInt because it is not an integer''"

definition toTimestamp :: "time_value \<Rightarrow> js_error + Timestamp" where
  "toTimestamp date =
     (case getTime date of
        None \<Rightarrow> Inl bigint_error
      | Some ms \<Rightarrow>
          (case js_trunc (js_quot (js_of_int ms) 1000) of
             None \<Rightarrow> Inl bigint_error
           | Some seconds \<Rightarrow>
               let nanos = sgn ms * (\<bar>ms\<bar> mod 1000) * 1000000
               in Inr \<lparr>ts_seconds = seconds, ts_nanos = nanos\<rparr>))"

definition fromTimestamp :: "Timestamp \<Rightarrow> time_value" where
  "fromTimestamp t =
     (let millis = js_mul (js_of_int (ts_seconds t)) (js_of_int 1000);
          millis = js_add millis (js_quot (js_of_int (ts_nanos t)) 1000000)
      in new_date millis)"

section \<open>The message\<close>

definition createBaseTimestamp :: Timestamp where
  "createBaseTimestamp = \<lparr>ts_seconds = 0, ts_nanos = 0\<rparr>"

definition encode_Timestamp :: "wire \<Rightarrow> Timestamp writer" where
  "encode_Timestamp W m = enc_seq
     [enc_int64_checked W 8 ''seconds'' (ts_seconds m),
      enc_int32 W 16 (ts_nanos m)]"

definition Timestamp_fields :: "wire \<Rightarrow> (nat \<times> Timestamp field_reader) list" where
  "Timestamp_fields W =
     [(8, field (rd_int64 W) (\<lambda>v m. m\<lparr>ts_seconds := v\<rparr>)),
      (16, field (rd_int32 W) (\<lambda>v m. m\<lparr>ts_nanos := v\<rparr>))]"

definition decode_Timestamp :: "wire \<Rightarrow> int \<Rightarrow> Timestamp reader" where
  "decode_Timestamp W end bs = decode_loop W (Timestamp_fields W) end bs createBaseTimestamp 0"

text \<open>A time field: the conversion and the nested message.\<close>

definition wr_time :: "wire \<Rightarrow> time_value writer" where
  "wr_time W d = res_bind (toTimestamp d) (wr_message W (encode_Timestamp W))"

definition read_time :: "wire \<Rightarrow> time_value reader" where
  "read_time W bs = map_sum id (\<lambda>(t, n). (fromTimestamp t, n)) (read_message W (decode_Timestamp W) bs)"

section \<open>Exactness\<close>

lemma js_integer_fraction:
  "js_integer x = Some q \<Longrightarrow> \<exists>b. 0 < b \<and> js_fraction x = Some (q * int b, b)"
  by (cases x) (auto split: if_splits)

lemma js_integer_negate: "js_integer x = Some q \<Longrightarrow> js_integer (js_negate x) = Some (- q)"
  by (cases x) (auto split: if_splits simp: zdiv_zminus1_eq_if zmod_zminus1_eq_if)

lemma nearest_double_exact:
  assumes "\<bar>q\<bar> < 2 ^ 53" and "0 < d"
  shows "js_integer (nearest_double (q * int d) d) = Some q"
proof -
  have g: "nat \<bar>q * int d\<bar> = nat \<bar>q\<bar> * d" by (simp add: abs_mult nat_mult_distrib)
  have "js_integer (round_double (nat \<bar>q\<bar>) 1) = Some \<bar>q\<bar>"
    using round_double_small [of "nat \<bar>q\<bar>"] assms(1) by (simp add: nat_less_iff)
  moreover have "q * int d < 0 \<longleftrightarrow> q < 0" using assms(2) by (simp add: mult_less_0_iff)
  ultimately show ?thesis using assms(2)
    by (auto simp: nearest_double_def g dest: js_integer_negate)
qed

lemma js_of_int_exact: "\<bar>q\<bar> < 2 ^ 53 \<Longrightarrow> js_integer (js_of_int q) = Some q"
  using nearest_double_exact [of q 1] by (simp add: js_of_int_def)

lemma js_mul_exact:
  assumes "js_integer x = Some p" and "js_integer y = Some q" and "\<bar>p * q\<bar> < 2 ^ 53"
  shows "js_integer (js_mul x y) = Some (p * q)"
proof -
  obtain b d where "0 < b" "js_fraction x = Some (p * int b, b)" "0 < d" "js_fraction y = Some (q * int d, d)"
    using assms(1,2) js_integer_fraction by metis
  then show ?thesis using nearest_double_exact [OF assms(3), of "b * d"]
    by (simp add: js_mul_def algebra_simps)
qed

lemma js_add_exact:
  assumes "js_integer x = Some p" and "js_integer y = Some q" and "\<bar>p + q\<bar> < 2 ^ 53"
  shows "js_integer (js_add x y) = Some (p + q)"
proof -
  obtain b d where "0 < b" "js_fraction x = Some (p * int b, b)" "0 < d" "js_fraction y = Some (q * int d, d)"
    using assms(1,2) js_integer_fraction by metis
  then show ?thesis using nearest_double_exact [OF assms(3), of "b * d"]
    by (simp add: js_add_def algebra_simps)
qed

lemma js_quot_exact:
  assumes "js_integer x = Some (q * int k)" and "\<bar>q\<bar> < 2 ^ 53" and "0 < k"
  shows "js_integer (js_quot x k) = Some q"
proof -
  obtain b where "0 < b" "js_fraction x = Some (q * int k * int b, b)"
    using assms(1) js_integer_fraction by metis
  then show ?thesis using nearest_double_exact [OF assms(2), of "b * k"] assms(3)
    by (simp add: js_quot_def algebra_simps)
qed

lemma js_trunc_integer: "js_integer x = Some q \<Longrightarrow> js_trunc x = Some q"
  by (drule js_integer_fraction) (auto simp: js_trunc_def abs_mult sgn_mult sgn_mult_abs)

lemma new_date_integer:
  assumes "js_integer x = Some q" and "\<bar>q\<bar> \<le> max_time"
  shows "new_date x = Some q"
proof -
  obtain b where "0 < b" "js_fraction x = Some (q * int b, b)" using assms(1) js_integer_fraction by metis
  with assms show ?thesis by (simp add: new_date_def abs_mult js_trunc_integer mult_right_mono)
qed

text \<open>The rounding of a quotient below \<open>2 ^ 43\<close> by at most 1024 crosses no integer.\<close>

lemma double_exponent_quotient:
  assumes "0 < n" and "0 < d" and "n < 2 ^ 43 * d"
  shows "double_exponent n d \<le> - 10"
proof -
  define e0 where "e0 = int (floorlog 2 n) - int (floorlog 2 d) - 53"
  have "d < 2 ^ floorlog 2 d" using floorlog_bounds [of d 2] assms(2) by simp
  then have "2 ^ 43 * d < 2 ^ 43 * 2 ^ floorlog 2 d" by simp
  with assms(3) have "n < 2 ^ (43 + floorlog 2 d)" by (simp only: power_add)
  then have "floorlog 2 n \<le> 43 + floorlog 2 d" by (intro floorlog_leI) simp_all
  then have le: "e0 \<le> - 10" by (simp add: e0_def)
  have "\<not> 2 ^ 53 * snd (pow2_scale n d e0) \<le> fst (pow2_scale n d e0)" if "e0 = - 10"
    unfolding that using assms(3) by (simp add: pow2_scale_def)
  with le show ?thesis
    unfolding double_exponent_def Let_def e0_def [symmetric] by (cases "e0 = - 10") (auto simp: split_beta)
qed

lemma round_half_even_div:
  assumes "0 < d" and "d \<le> 2 ^ k"
  shows "round_half_even (n * 2 ^ k) d div 2 ^ k = n div d"
proof -
  define K :: nat where "K = 2 ^ k"
  define Q r where "Q = n div d" and "r = n mod d"
  define s where "s = r * K div d"
  have n: "n = Q * d + r" and r: "r < d" using assms(1) by (simp_all add: Q_def r_def)
  have K: "0 < K" "d \<le> K" using assms(2) by (simp_all add: K_def)
  have "n * K = Q * K * d + r * K" by (simp add: n algebra_simps)
  then have q: "n * K div d = Q * K + s" and m: "n * K mod d = r * K mod d"
    using assms(1) by (simp_all add: s_def)
  have "r * K + K \<le> d * K" using r by (metis Suc_leI add.commute mult_Suc mult_le_mono1)
  then have "r * K + d \<le> K * d" using K by (simp add: mult.commute)
  then have bound: "r * K \<le> (K - 1) * d" by (simp add: diff_mult_distrib)
  then have s: "s \<le> K - 1" using assms(1) by (metis s_def div_le_mono div_mult_self_is_m)
  have "r * K mod d = 0" if "s = K - 1"
  proof -
    have "(K - 1) * d + r * K mod d = r * K" using that by (metis s_def div_mult_mod_eq)
    with bound show ?thesis by simp
  qed
  then have "round_half_even (n * K) d = Q * K + s" if "s = K - 1"
    unfolding round_half_even_def q m Let_def using that assms(1) by auto
  moreover have "(Q * K + s) div K = Q" using s K by simp
  ultimately have "round_half_even (n * K) d div K = Q" if "s = K - 1" using that by simp
  moreover have "round_half_even (n * K) d div K = Q" if "s \<noteq> K - 1"
  proof -
    have in_block: "(Q * K + u) div K = Q" if "u < K" for u using that by simp
    have "s + 1 < K" using that s K by linarith
    moreover have "round_half_even (n * K) d = Q * K + s \<or> round_half_even (n * K) d = Q * K + (s + 1)"
      by (simp add: round_half_even_def q)
    ultimately show ?thesis using in_block by (metis add_lessD1)
  qed
  ultimately show ?thesis by (auto simp: K_def Q_def)
qed

lemma trunc_round_double:
  assumes "0 < d" and "d \<le> 1024" and "n < 2 ^ 43 * d"
  shows "js_trunc (round_double n d) = Some (int (n div d))"
proof (cases "n = 0")
  case True
  then show ?thesis by (simp add: round_double_def js_trunc_def)
next
  case False
  define k where "k = nat (- double_exponent n d)"
  have e: "double_exponent n d = - int k" "10 \<le> k"
    using double_exponent_quotient [of n d] False assms by (simp_all add: k_def)
  have "(2 :: nat) ^ 10 \<le> 2 ^ k" using e(2) by (intro power_increasing) simp_all
  then have "d \<le> 2 ^ k" using assms(2) by simp
  from round_half_even_div [OF assms(1) this, of n] e False show ?thesis
    by (cases "round_half_even (n * 2 ^ k) d = 0")
      (simp_all add: round_double_def pow2_scale_def js_trunc_def sgn_mult zdiv_int [symmetric])
qed

lemma js_trunc_negate: "js_trunc (js_negate x) = map_option uminus (js_trunc x)"
  by (cases x) (simp_all add: js_trunc_def)

lemma js_trunc_nearest:
  assumes "0 < d" and "d \<le> 1024" and "\<bar>n\<bar> < 2 ^ 43 * int d"
  shows "js_trunc (nearest_double n d) = Some (sgn n * (\<bar>n\<bar> div int d))"
proof -
  let ?n = "nat \<bar>n\<bar>"
  define g where "g = gcd ?n d"
  have g: "0 < g" using assms(1) by (simp add: g_def)
  have "g dvd ?n" "g dvd d" unfolding g_def by (rule gcd_dvd1, rule gcd_dvd2)
  then obtain p q where p: "?n = g * p" and q: "d = g * q" unfolding dvd_def by blast
  have lt: "?n < 2 ^ 43 * d" using assms(3) by (simp add: nat_less_iff)
  have "0 < q" using assms(1) q by (cases q) simp_all
  moreover have "q \<le> 1024" using assms(2) q g by (metis le_trans mult.commute mult_le_mono2 mult_1_right Suc_leI One_nat_def)
  moreover have "p < 2 ^ 43 * q" using lt g by (simp add: p q)
  ultimately have "js_trunc (round_double p q) = Some (int (p div q))" by (rule trunc_round_double)
  moreover have "p div q = ?n div d" using g by (simp add: p q)
  moreover have "int (?n div d) = \<bar>n\<bar> div int d" by (simp add: zdiv_int)
  ultimately have r: "js_trunc (round_double p q) = Some (\<bar>n\<bar> div int d)" by simp
  have quot: "?n div g = p" "d div g = q" unfolding p q using g by simp_all
  have "nearest_double n d = (if n < 0 then js_negate (round_double p q) else round_double p q)"
    unfolding nearest_double_def g_def [symmetric] Let_def quot by (rule refl)
  with r show ?thesis by (cases "n = 0") (auto simp: js_trunc_negate sgn_if)
qed

lemma toTimestamp_date:
  assumes "\<bar>ms\<bar> \<le> max_time"
  shows "toTimestamp (Some ms) =
    Inr \<lparr>ts_seconds = sgn ms * (\<bar>ms\<bar> div 1000), ts_nanos = sgn ms * (\<bar>ms\<bar> mod 1000) * 1000000\<rparr>"
proof -
  have "\<bar>ms\<bar> < 2 ^ 53" using assms by (simp add: max_time_def)
  from js_integer_fraction [OF js_of_int_exact [OF this]] obtain b
    where b: "0 < b" "js_fraction (js_of_int ms) = Some (ms * int b, b)" by blast
  have c: "nearest_double (ms * int b) (b * 1000) = nearest_double ms 1000"
  proof -
    have "nat \<bar>ms * int b\<bar> = b * nat \<bar>ms\<bar>" by (simp add: abs_mult nat_mult_distrib mult.commute)
    moreover have "gcd (b * nat \<bar>ms\<bar>) (b * 1000) = b * gcd (nat \<bar>ms\<bar>) 1000" by (rule gcd_mult_distrib_nat [symmetric])
    ultimately show ?thesis using b(1) by (simp add: nearest_double_def mult_less_0_iff)
  qed
  have "js_trunc (nearest_double ms 1000) = Some (sgn ms * (\<bar>ms\<bar> div 1000))"
    using js_trunc_nearest [of 1000 ms] assms by (simp add: max_time_def)
  with b c assms show ?thesis by (simp add: toTimestamp_def getTime_def js_quot_def)
qed

lemma toTimestamp_Inr: "toTimestamp d = Inr t \<Longrightarrow> \<exists>ms. d = Some ms \<and> \<bar>ms\<bar> \<le> max_time"
  by (auto simp: toTimestamp_def getTime_def split: option.splits if_splits)

lemma fromTimestamp_exact:
  assumes "\<bar>s * 1000 + k\<bar> \<le> max_time" and "\<bar>s\<bar> \<le> max_time" and "\<bar>s * 1000\<bar> \<le> max_time" and "\<bar>k\<bar> \<le> max_time"
    and "\<bar>k * 1000000\<bar> < 2 ^ 53"
  shows "fromTimestamp \<lparr>ts_seconds = s, ts_nanos = k * 1000000\<rparr> = Some (s * 1000 + k)"
proof -
  note lims = assms [unfolded max_time_def]
  have "js_integer (js_mul (js_of_int s) (js_of_int 1000)) = Some (s * 1000)"
    by (rule js_mul_exact) (use lims in \<open>simp_all add: js_of_int_exact\<close>)
  moreover have "js_integer (js_quot (js_of_int (k * 1000000)) 1000000) = Some k"
    by (rule js_quot_exact) (use lims in \<open>simp_all add: js_of_int_exact\<close>)
  ultimately have "js_integer (js_add (js_mul (js_of_int s) (js_of_int 1000))
      (js_quot (js_of_int (k * 1000000)) 1000000)) = Some (s * 1000 + k)"
    by (rule js_add_exact) (use lims in simp)
  with assms(1) show ?thesis by (simp add: fromTimestamp_def new_date_integer)
qed

lemma fromTimestamp_toTimestamp: "toTimestamp d = Inr t \<Longrightarrow> fromTimestamp t = d"
proof -
  assume t: "toTimestamp d = Inr t"
  then obtain ms where d: "d = Some ms" and le: "\<bar>ms\<bar> \<le> max_time" using toTimestamp_Inr by blast
  let ?s = "sgn ms * (\<bar>ms\<bar> div 1000)" and ?k = "sgn ms * (\<bar>ms\<bar> mod 1000)"
  have m: "0 \<le> \<bar>ms\<bar> mod 1000" "\<bar>ms\<bar> mod 1000 < 1000" by simp_all
  have sum: "?s * 1000 + ?k = ms"
  proof -
    have "?s * 1000 + ?k = sgn ms * (\<bar>ms\<bar> div 1000 * 1000 + \<bar>ms\<bar> mod 1000)" by (simp only: distrib_left mult.assoc)
    then show ?thesis by (simp only: div_mult_mod_eq sgn_mult_abs)
  qed
  define a where "a = \<bar>ms\<bar>"
  have a: "0 \<le> a" "a \<le> 8640000000000000" using le by (simp_all add: a_def max_time_def)
  have sk: "\<bar>?s\<bar> = a div 1000" "\<bar>?k\<bar> = a mod 1000"
    by (cases "ms = 0"; simp add: abs_mult abs_sgn_eq a_def)+
  have parts: "a div 1000 * 1000 \<le> a" "0 \<le> a div 1000" "a div 1000 \<le> a"
    using a(1) by (simp_all add: div_times_less_eq_dividend pos_imp_zdiv_nonneg_iff int_div_le_self)
  have r: "0 \<le> a mod 1000" "a mod 1000 < 1000" by simp_all
  have sk': "\<bar>?s * 1000\<bar> = a div 1000 * 1000" "\<bar>?k * 1000000\<bar> = a mod 1000 * 1000000"
    by (simp_all only: abs_mult [of ?s] abs_mult [of ?k] sk abs_numeral)
  have "\<bar>?s * 1000\<bar> \<le> max_time" "\<bar>?s\<bar> \<le> max_time" "\<bar>?k\<bar> \<le> max_time"
    unfolding sk sk' max_time_def using a parts r by linarith+
  moreover have "a mod 1000 * 1000000 < 9007199254740992" using r by linarith
  then have "\<bar>?k * 1000000\<bar> < 2 ^ 53" unfolding sk' by simp
  moreover have "\<bar>?s * 1000 + ?k\<bar> \<le> max_time" unfolding sum by (rule le)
  ultimately have "fromTimestamp \<lparr>ts_seconds = ?s, ts_nanos = ?k * 1000000\<rparr> = Some (?s * 1000 + ?k)"
    by (intro fromTimestamp_exact)
  then show ?thesis using t unfolding d toTimestamp_date [OF le] sum by (simp only: sum.inject)
qed

text \<open>A date survives the wire exactly: for every time a date can hold, before 1970 too, the
  conversion to seconds and nanoseconds returns with both inside the field's range, and
  converting back, with the rounding of every double operation, gives the same millisecond.\<close>

theorem date_survives_wire:
  assumes "\<bar>ms\<bar> \<le> max_time"
  shows "\<exists>t. toTimestamp (Some ms) = Inr t \<and> fromTimestamp t = Some ms
    \<and> \<bar>ts_seconds t\<bar> < 2 ^ 63 \<and> \<bar>ts_nanos t\<bar> < 2 ^ 31"
proof -
  note t = toTimestamp_date [OF assms]
  have m: "0 \<le> \<bar>ms\<bar> mod 1000" "\<bar>ms\<bar> mod 1000 < 1000" by simp_all
  have "\<bar>sgn ms * (\<bar>ms\<bar> div 1000)\<bar> \<le> \<bar>ms\<bar> div 1000" "\<bar>sgn ms * (\<bar>ms\<bar> mod 1000) * 1000000\<bar> \<le> \<bar>ms\<bar> mod 1000 * 1000000"
    by (simp_all add: abs_mult abs_sgn_eq)
  moreover have "\<bar>ms\<bar> div 1000 < 2 ^ 63" using assms by (simp add: max_time_def)
  moreover have "\<bar>ms\<bar> mod 1000 * 1000000 < 2 ^ 31" using m by simp
  ultimately have "\<bar>sgn ms * (\<bar>ms\<bar> div 1000)\<bar> < 2 ^ 63" "\<bar>sgn ms * (\<bar>ms\<bar> mod 1000) * 1000000\<bar> < 2 ^ 31"
    by linarith+
  with t fromTimestamp_toTimestamp [OF t] show ?thesis by (intro exI conjI) (assumption | simp)+
qed

theorem date_survives_wire_witness:
  "\<exists>t. toTimestamp (Some (- 1700000000123)) = Inr t \<and> fromTimestamp t = Some (- 1700000000123)"
  using date_survives_wire [of "- 1700000000123"] by (auto simp: max_time_def)

context wire_format
begin

lemma timestamp_back [back_intros]: "decodes_back (encode_Timestamp W) (decode_Timestamp W)"
proof (rule decodes_backI [where base = createBaseTimestamp and fs = "Timestamp_fields W"])
  fix m :: Timestamp
  show "emits W (Timestamp_fields W) createBaseTimestamp (encode_Timestamp W m) m"
    unfolding encode_Timestamp_def createBaseTimestamp_def
    by ((rule emits_intros | simp add: Timestamp_fields_def; fail)+)
qed (simp add: decode_Timestamp_def)

lemma time_back [back_intros]: "reads_back (wr_time W) (read_time W)"
  unfolding reads_back_def
proof (intro allI impI)
  fix d b r assume "wr_time W d = Inr b"
  then obtain t where t: "toTimestamp d = Inr t" and b: "wr_message W (encode_Timestamp W) t = Inr b"
    by (auto simp: wr_time_def res_bind_eq_Inr)
  from reads_backD [OF reads_back_message [OF timestamp_back] b] fromTimestamp_toTimestamp [OF t]
  show "read_time W (b @ r) = Inr (d, length b)" by (simp add: read_time_def)
qed

end

end
