(* ===== verification/RegistryCodec.thy ===== *)
theory RegistryCodec
  imports Timestamps
begin

text \<open>
  The messages of the resolver daemon on the wire: the \<^verbatim>\<open>createBase\<close> value, \<^verbatim>\<open>encode\<close> and
  \<^verbatim>\<open>decode\<close> of each message type of \<^verbatim>\<open>gen/livepeer/registry/v1/types.ts\<close> and
  \<^verbatim>\<open>gen/livepeer/registry/v1/resolver.ts\<close>, and of \<^verbatim>\<open>gen/google/protobuf/empty.ts\<close>. The lemmas
  show, type by type, that decoding takes back exactly what encoding wrote.
\<close>

section \<open>Registry types\<close>

definition createBaseOffering :: Offering where
  "createBaseOffering =
     \<lparr>of_id = [], of_pricePerWorkUnitWei = [], of_constraintsJson = []\<rparr>"

definition encode_Offering :: "wire \<Rightarrow> Offering writer" where
  "encode_Offering W m = enc_seq
     [enc_string W 10 (of_id m), enc_string W 18 (of_pricePerWorkUnitWei m),
      enc_bytes W 26 (of_constraintsJson m)]"

definition Offering_fields :: "wire \<Rightarrow> (nat \<times> Offering field_reader) list" where
  "Offering_fields W =
     [(10, field (rd_string W) (\<lambda>v m. m\<lparr>of_id := v\<rparr>)),
      (18, field (rd_string W) (\<lambda>v m. m\<lparr>of_pricePerWorkUnitWei := v\<rparr>)),
      (26, field (rd_bytes W) (\<lambda>v m. m\<lparr>of_constraintsJson := v\<rparr>))]"

definition decode_Offering :: "wire \<Rightarrow> int \<Rightarrow> Offering reader" where
  "decode_Offering W end bs = decode_loop W (Offering_fields W) end bs createBaseOffering 0"

definition createBaseCapability :: Capability where
  "createBaseCapability =
     \<lparr>cap_name = [], cap_workUnit = [], cap_offerings = [], cap_extraJson = []\<rparr>"

definition encode_Capability :: "wire \<Rightarrow> Capability writer" where
  "encode_Capability W m = enc_seq
     [enc_string W 10 (cap_name m), enc_string W 18 (cap_workUnit m),
      enc_each W 26 (wr_message W (encode_Offering W)) (cap_offerings m), enc_bytes W 34 (cap_extraJson m)]"

definition Capability_fields :: "wire \<Rightarrow> (nat \<times> Capability field_reader) list" where
  "Capability_fields W =
     [(10, field (rd_string W) (\<lambda>v m. m\<lparr>cap_name := v\<rparr>)),
      (18, field (rd_string W) (\<lambda>v m. m\<lparr>cap_workUnit := v\<rparr>)),
      (26, field (read_message W (decode_Offering W)) (\<lambda>v m. m\<lparr>cap_offerings := cap_offerings m @ [v]\<rparr>)),
      (34, field (rd_bytes W) (\<lambda>v m. m\<lparr>cap_extraJson := v\<rparr>))]"

definition decode_Capability :: "wire \<Rightarrow> int \<Rightarrow> Capability reader" where
  "decode_Capability W end bs = decode_loop W (Capability_fields W) end bs createBaseCapability 0"

definition createBaseNode :: Node where
  "createBaseNode =
     \<lparr>nd_id = [], nd_url = [], nd_workerEthAddress = [], nd_extraJson = [], nd_capabilities = [],
      nd_source = 0, nd_signatureStatus = 0, nd_operatorAddress = [], nd_enabled = False,
      nd_tierAllowed = [], nd_weight = 0\<rparr>"

definition encode_Node :: "wire \<Rightarrow> Node writer" where
  "encode_Node W m = enc_seq
     [enc_string W 10 (nd_id m), enc_string W 18 (nd_url m), enc_string W 26 (nd_workerEthAddress m),
      enc_bytes W 34 (nd_extraJson m),
      enc_each W 42 (wr_message W (encode_Capability W)) (nd_capabilities m), enc_int32 W 48 (nd_source m),
      enc_int32 W 56 (nd_signatureStatus m), enc_string W 66 (nd_operatorAddress m),
      enc_bool W 72 (nd_enabled m), enc_each W 82 (wr_string W) (nd_tierAllowed m),
      enc_int32 W 88 (nd_weight m)]"

definition Node_fields :: "wire \<Rightarrow> (nat \<times> Node field_reader) list" where
  "Node_fields W =
     [(10, field (rd_string W) (\<lambda>v m. m\<lparr>nd_id := v\<rparr>)),
      (18, field (rd_string W) (\<lambda>v m. m\<lparr>nd_url := v\<rparr>)),
      (26, field (rd_string W) (\<lambda>v m. m\<lparr>nd_workerEthAddress := v\<rparr>)),
      (34, field (rd_bytes W) (\<lambda>v m. m\<lparr>nd_extraJson := v\<rparr>)),
      (42, field (read_message W (decode_Capability W)) (\<lambda>v m. m\<lparr>nd_capabilities := nd_capabilities m @ [v]\<rparr>)),
      (48, field (rd_int32 W) (\<lambda>v m. m\<lparr>nd_source := v\<rparr>)),
      (56, field (rd_int32 W) (\<lambda>v m. m\<lparr>nd_signatureStatus := v\<rparr>)),
      (66, field (rd_string W) (\<lambda>v m. m\<lparr>nd_operatorAddress := v\<rparr>)),
      (72, field (rd_bool W) (\<lambda>v m. m\<lparr>nd_enabled := v\<rparr>)),
      (82, field (rd_string W) (\<lambda>v m. m\<lparr>nd_tierAllowed := nd_tierAllowed m @ [v]\<rparr>)),
      (88, field (rd_int32 W) (\<lambda>v m. m\<lparr>nd_weight := v\<rparr>))]"

definition decode_Node :: "wire \<Rightarrow> int \<Rightarrow> Node reader" where
  "decode_Node W end bs = decode_loop W (Node_fields W) end bs createBaseNode 0"

section \<open>Resolver service\<close>

definition createBaseResolveByAddressRequest :: ResolveByAddressRequest where
  "createBaseResolveByAddressRequest =
     \<lparr>rb_ethAddress = [], rb_allowLegacyFallback = False, rb_allowUnsigned = False, rb_forceRefresh = False\<rparr>"

definition encode_ResolveByAddressRequest :: "wire \<Rightarrow> ResolveByAddressRequest writer" where
  "encode_ResolveByAddressRequest W m = enc_seq
     [enc_string W 10 (rb_ethAddress m), enc_bool W 16 (rb_allowLegacyFallback m),
      enc_bool W 24 (rb_allowUnsigned m), enc_bool W 32 (rb_forceRefresh m)]"

definition ResolveByAddressRequest_fields :: "wire \<Rightarrow> (nat \<times> ResolveByAddressRequest field_reader) list" where
  "ResolveByAddressRequest_fields W =
     [(10, field (rd_string W) (\<lambda>v m. m\<lparr>rb_ethAddress := v\<rparr>)),
      (16, field (rd_bool W) (\<lambda>v m. m\<lparr>rb_allowLegacyFallback := v\<rparr>)),
      (24, field (rd_bool W) (\<lambda>v m. m\<lparr>rb_allowUnsigned := v\<rparr>)),
      (32, field (rd_bool W) (\<lambda>v m. m\<lparr>rb_forceRefresh := v\<rparr>))]"

definition decode_ResolveByAddressRequest :: "wire \<Rightarrow> int \<Rightarrow> ResolveByAddressRequest reader" where
  "decode_ResolveByAddressRequest W end bs = decode_loop W (ResolveByAddressRequest_fields W) end bs createBaseResolveByAddressRequest 0"

definition createBaseResolveResult :: ResolveResult where
  "createBaseResolveResult =
     \<lparr>rr_ethAddress = [], rr_resolvedUri = [], rr_mode = 0, rr_nodes = [], rr_freshnessStatus = 0,
      rr_cachedAt = None, rr_fetchedAt = None, rr_schemaVersion = []\<rparr>"

definition encode_ResolveResult :: "wire \<Rightarrow> ResolveResult writer" where
  "encode_ResolveResult W m = enc_seq
     [enc_string W 10 (rr_ethAddress m), enc_string W 18 (rr_resolvedUri m), enc_int32 W 24 (rr_mode m),
      enc_each W 34 (wr_message W (encode_Node W)) (rr_nodes m), enc_int32 W 40 (rr_freshnessStatus m),
      enc_optional W 50 (wr_time W) (rr_cachedAt m), enc_optional W 58 (wr_time W) (rr_fetchedAt m),
      enc_string W 66 (rr_schemaVersion m)]"

definition ResolveResult_fields :: "wire \<Rightarrow> (nat \<times> ResolveResult field_reader) list" where
  "ResolveResult_fields W =
     [(10, field (rd_string W) (\<lambda>v m. m\<lparr>rr_ethAddress := v\<rparr>)),
      (18, field (rd_string W) (\<lambda>v m. m\<lparr>rr_resolvedUri := v\<rparr>)),
      (24, field (rd_int32 W) (\<lambda>v m. m\<lparr>rr_mode := v\<rparr>)),
      (34, field (read_message W (decode_Node W)) (\<lambda>v m. m\<lparr>rr_nodes := rr_nodes m @ [v]\<rparr>)),
      (40, field (rd_int32 W) (\<lambda>v m. m\<lparr>rr_freshnessStatus := v\<rparr>)),
      (50, field (read_some (read_time W)) (\<lambda>v m. m\<lparr>rr_cachedAt := v\<rparr>)),
      (58, field (read_some (read_time W)) (\<lambda>v m. m\<lparr>rr_fetchedAt := v\<rparr>)),
      (66, field (rd_string W) (\<lambda>v m. m\<lparr>rr_schemaVersion := v\<rparr>))]"

definition decode_ResolveResult :: "wire \<Rightarrow> int \<Rightarrow> ResolveResult reader" where
  "decode_ResolveResult W end bs = decode_loop W (ResolveResult_fields W) end bs createBaseResolveResult 0"

definition createBaseSelectRequest :: SelectRequest where
  "createBaseSelectRequest =
     \<lparr>sq_capability = [], sq_offering = [], sq_tier = [], sq_minWeight = 0\<rparr>"

definition encode_SelectRequest :: "wire \<Rightarrow> SelectRequest writer" where
  "encode_SelectRequest W m = enc_seq
     [enc_string W 10 (sq_capability m), enc_string W 18 (sq_offering m), enc_string W 26 (sq_tier m),
      enc_int32 W 32 (sq_minWeight m)]"

definition SelectRequest_fields :: "wire \<Rightarrow> (nat \<times> SelectRequest field_reader) list" where
  "SelectRequest_fields W =
     [(10, field (rd_string W) (\<lambda>v m. m\<lparr>sq_capability := v\<rparr>)),
      (18, field (rd_string W) (\<lambda>v m. m\<lparr>sq_offering := v\<rparr>)),
      (26, field (rd_string W) (\<lambda>v m. m\<lparr>sq_tier := v\<rparr>)),
      (32, field (rd_int32 W) (\<lambda>v m. m\<lparr>sq_minWeight := v\<rparr>))]"

definition decode_SelectRequest :: "wire \<Rightarrow> int \<Rightarrow> SelectRequest reader" where
  "decode_SelectRequest W end bs = decode_loop W (SelectRequest_fields W) end bs createBaseSelectRequest 0"

definition createBaseSelectedRoute :: ProtoSelectedRoute where
  "createBaseSelectedRoute =
     \<lparr>ps_workerUrl = [], ps_ethAddress = [], ps_capability = [], ps_offering = [],
      ps_pricePerWorkUnitWei = [], ps_workUnit = [], ps_extraJson = [], ps_constraintsJson = []\<rparr>"

definition encode_SelectedRoute :: "wire \<Rightarrow> ProtoSelectedRoute writer" where
  "encode_SelectedRoute W m = enc_seq
     [enc_string W 10 (ps_workerUrl m), enc_string W 18 (ps_ethAddress m),
      enc_string W 26 (ps_capability m), enc_string W 34 (ps_offering m),
      enc_string W 42 (ps_pricePerWorkUnitWei m), enc_string W 50 (ps_workUnit m),
      enc_bytes W 58 (ps_extraJson m), enc_bytes W 66 (ps_constraintsJson m)]"

definition SelectedRoute_fields :: "wire \<Rightarrow> (nat \<times> ProtoSelectedRoute field_reader) list" where
  "SelectedRoute_fields W =
     [(10, field (rd_string W) (\<lambda>v m. m\<lparr>ps_workerUrl := v\<rparr>)),
      (18, field (rd_string W) (\<lambda>v m. m\<lparr>ps_ethAddress := v\<rparr>)),
      (26, field (rd_string W) (\<lambda>v m. m\<lparr>ps_capability := v\<rparr>)),
      (34, field (rd_string W) (\<lambda>v m. m\<lparr>ps_offering := v\<rparr>)),
      (42, field (rd_string W) (\<lambda>v m. m\<lparr>ps_pricePerWorkUnitWei := v\<rparr>)),
      (50, field (rd_string W) (\<lambda>v m. m\<lparr>ps_workUnit := v\<rparr>)),
      (58, field (rd_bytes W) (\<lambda>v m. m\<lparr>ps_extraJson := v\<rparr>)),
      (66, field (rd_bytes W) (\<lambda>v m. m\<lparr>ps_constraintsJson := v\<rparr>))]"

definition decode_SelectedRoute :: "wire \<Rightarrow> int \<Rightarrow> ProtoSelectedRoute reader" where
  "decode_SelectedRoute W end bs = decode_loop W (SelectedRoute_fields W) end bs createBaseSelectedRoute 0"

definition createBaseSelectResult :: ProtoSelectResult where
  "createBaseSelectResult =
     \<lparr>pr_route = None\<rparr>"

definition encode_SelectResult :: "wire \<Rightarrow> ProtoSelectResult writer" where
  "encode_SelectResult W m = enc_seq
     [enc_optional W 10 (wr_message W (encode_SelectedRoute W)) (pr_route m)]"

definition SelectResult_fields :: "wire \<Rightarrow> (nat \<times> ProtoSelectResult field_reader) list" where
  "SelectResult_fields W =
     [(10, field (read_some (read_message W (decode_SelectedRoute W))) (\<lambda>v m. m\<lparr>pr_route := v\<rparr>))]"

definition decode_SelectResult :: "wire \<Rightarrow> int \<Rightarrow> ProtoSelectResult reader" where
  "decode_SelectResult W end bs = decode_loop W (SelectResult_fields W) end bs createBaseSelectResult 0"

definition createBaseListKnownRequest :: unit where
  "createBaseListKnownRequest = ()"

definition encode_ListKnownRequest :: "wire \<Rightarrow> unit writer" where
  "encode_ListKnownRequest W m = enc_seq []"

definition ListKnownRequest_fields :: "wire \<Rightarrow> (nat \<times> unit field_reader) list" where
  "ListKnownRequest_fields W = []"

definition decode_ListKnownRequest :: "wire \<Rightarrow> int \<Rightarrow> unit reader" where
  "decode_ListKnownRequest W end bs = decode_loop W (ListKnownRequest_fields W) end bs createBaseListKnownRequest 0"

definition createBaseKnownEntry :: KnownEntry where
  "createBaseKnownEntry =
     \<lparr>ke_ethAddress = [], ke_mode = 0, ke_freshnessStatus = 0, ke_cachedAt = None\<rparr>"

definition encode_KnownEntry :: "wire \<Rightarrow> KnownEntry writer" where
  "encode_KnownEntry W m = enc_seq
     [enc_string W 10 (ke_ethAddress m), enc_int32 W 16 (ke_mode m), enc_int32 W 24 (ke_freshnessStatus m),
      enc_optional W 34 (wr_time W) (ke_cachedAt m)]"

definition KnownEntry_fields :: "wire \<Rightarrow> (nat \<times> KnownEntry field_reader) list" where
  "KnownEntry_fields W =
     [(10, field (rd_string W) (\<lambda>v m. m\<lparr>ke_ethAddress := v\<rparr>)),
      (16, field (rd_int32 W) (\<lambda>v m. m\<lparr>ke_mode := v\<rparr>)),
      (24, field (rd_int32 W) (\<lambda>v m. m\<lparr>ke_freshnessStatus := v\<rparr>)),
      (34, field (read_some (read_time W)) (\<lambda>v m. m\<lparr>ke_cachedAt := v\<rparr>))]"

definition decode_KnownEntry :: "wire \<Rightarrow> int \<Rightarrow> KnownEntry reader" where
  "decode_KnownEntry W end bs = decode_loop W (KnownEntry_fields W) end bs createBaseKnownEntry 0"

definition createBaseListKnownResult :: ListKnownResult where
  "createBaseListKnownResult =
     \<lparr>lk_entries = []\<rparr>"

definition encode_ListKnownResult :: "wire \<Rightarrow> ListKnownResult writer" where
  "encode_ListKnownResult W m = enc_seq
     [enc_each W 10 (wr_message W (encode_KnownEntry W)) (lk_entries m)]"

definition ListKnownResult_fields :: "wire \<Rightarrow> (nat \<times> ListKnownResult field_reader) list" where
  "ListKnownResult_fields W =
     [(10, field (read_message W (decode_KnownEntry W)) (\<lambda>v m. m\<lparr>lk_entries := lk_entries m @ [v]\<rparr>))]"

definition decode_ListKnownResult :: "wire \<Rightarrow> int \<Rightarrow> ListKnownResult reader" where
  "decode_ListKnownResult W end bs = decode_loop W (ListKnownResult_fields W) end bs createBaseListKnownResult 0"

definition createBaseRefreshRequest :: RefreshRequest where
  "createBaseRefreshRequest =
     \<lparr>rf_ethAddress = [], rf_force = False\<rparr>"

definition encode_RefreshRequest :: "wire \<Rightarrow> RefreshRequest writer" where
  "encode_RefreshRequest W m = enc_seq
     [enc_string W 10 (rf_ethAddress m), enc_bool W 16 (rf_force m)]"

definition RefreshRequest_fields :: "wire \<Rightarrow> (nat \<times> RefreshRequest field_reader) list" where
  "RefreshRequest_fields W =
     [(10, field (rd_string W) (\<lambda>v m. m\<lparr>rf_ethAddress := v\<rparr>)),
      (16, field (rd_bool W) (\<lambda>v m. m\<lparr>rf_force := v\<rparr>))]"

definition decode_RefreshRequest :: "wire \<Rightarrow> int \<Rightarrow> RefreshRequest reader" where
  "decode_RefreshRequest W end bs = decode_loop W (RefreshRequest_fields W) end bs createBaseRefreshRequest 0"

definition createBaseGetAuditLogRequest :: GetAuditLogRequest where
  "createBaseGetAuditLogRequest =
     \<lparr>ga_ethAddress = [], ga_since = None, ga_limit = 0\<rparr>"

definition encode_GetAuditLogRequest :: "wire \<Rightarrow> GetAuditLogRequest writer" where
  "encode_GetAuditLogRequest W m = enc_seq
     [enc_string W 10 (ga_ethAddress m), enc_optional W 18 (wr_time W) (ga_since m),
      enc_int32 W 24 (ga_limit m)]"

definition GetAuditLogRequest_fields :: "wire \<Rightarrow> (nat \<times> GetAuditLogRequest field_reader) list" where
  "GetAuditLogRequest_fields W =
     [(10, field (rd_string W) (\<lambda>v m. m\<lparr>ga_ethAddress := v\<rparr>)),
      (18, field (read_some (read_time W)) (\<lambda>v m. m\<lparr>ga_since := v\<rparr>)),
      (24, field (rd_int32 W) (\<lambda>v m. m\<lparr>ga_limit := v\<rparr>))]"

definition decode_GetAuditLogRequest :: "wire \<Rightarrow> int \<Rightarrow> GetAuditLogRequest reader" where
  "decode_GetAuditLogRequest W end bs = decode_loop W (GetAuditLogRequest_fields W) end bs createBaseGetAuditLogRequest 0"

definition createBaseAuditEvent :: ProtoAuditEvent where
  "createBaseAuditEvent =
     \<lparr>ae_at = None, ae_ethAddress = [], ae_kind = [], ae_mode = 0, ae_detail = []\<rparr>"

definition encode_AuditEvent :: "wire \<Rightarrow> ProtoAuditEvent writer" where
  "encode_AuditEvent W m = enc_seq
     [enc_optional W 10 (wr_time W) (ae_at m), enc_string W 18 (ae_ethAddress m),
      enc_string W 26 (ae_kind m), enc_int32 W 32 (ae_mode m), enc_string W 42 (ae_detail m)]"

definition AuditEvent_fields :: "wire \<Rightarrow> (nat \<times> ProtoAuditEvent field_reader) list" where
  "AuditEvent_fields W =
     [(10, field (read_some (read_time W)) (\<lambda>v m. m\<lparr>ae_at := v\<rparr>)),
      (18, field (rd_string W) (\<lambda>v m. m\<lparr>ae_ethAddress := v\<rparr>)),
      (26, field (rd_string W) (\<lambda>v m. m\<lparr>ae_kind := v\<rparr>)),
      (32, field (rd_int32 W) (\<lambda>v m. m\<lparr>ae_mode := v\<rparr>)),
      (42, field (rd_string W) (\<lambda>v m. m\<lparr>ae_detail := v\<rparr>))]"

definition decode_AuditEvent :: "wire \<Rightarrow> int \<Rightarrow> ProtoAuditEvent reader" where
  "decode_AuditEvent W end bs = decode_loop W (AuditEvent_fields W) end bs createBaseAuditEvent 0"

definition createBaseAuditLogResult :: AuditLogResult where
  "createBaseAuditLogResult =
     \<lparr>al_events = []\<rparr>"

definition encode_AuditLogResult :: "wire \<Rightarrow> AuditLogResult writer" where
  "encode_AuditLogResult W m = enc_seq
     [enc_each W 10 (wr_message W (encode_AuditEvent W)) (al_events m)]"

definition AuditLogResult_fields :: "wire \<Rightarrow> (nat \<times> AuditLogResult field_reader) list" where
  "AuditLogResult_fields W =
     [(10, field (read_message W (decode_AuditEvent W)) (\<lambda>v m. m\<lparr>al_events := al_events m @ [v]\<rparr>))]"

definition decode_AuditLogResult :: "wire \<Rightarrow> int \<Rightarrow> AuditLogResult reader" where
  "decode_AuditLogResult W end bs = decode_loop W (AuditLogResult_fields W) end bs createBaseAuditLogResult 0"

definition createBaseHealthResult :: HealthResult where
  "createBaseHealthResult =
     \<lparr>hr_mode = [], hr_chainOk = False, hr_manifestFetcherOk = False, hr_cacheSize = 0,
      hr_lastChainSuccess = None\<rparr>"

definition encode_HealthResult :: "wire \<Rightarrow> HealthResult writer" where
  "encode_HealthResult W m = enc_seq
     [enc_string W 10 (hr_mode m), enc_bool W 16 (hr_chainOk m), enc_bool W 24 (hr_manifestFetcherOk m),
      enc_int32 W 32 (hr_cacheSize m), enc_optional W 42 (wr_time W) (hr_lastChainSuccess m)]"

definition HealthResult_fields :: "wire \<Rightarrow> (nat \<times> HealthResult field_reader) list" where
  "HealthResult_fields W =
     [(10, field (rd_string W) (\<lambda>v m. m\<lparr>hr_mode := v\<rparr>)),
      (16, field (rd_bool W) (\<lambda>v m. m\<lparr>hr_chainOk := v\<rparr>)),
      (24, field (rd_bool W) (\<lambda>v m. m\<lparr>hr_manifestFetcherOk := v\<rparr>)),
      (32, field (rd_int32 W) (\<lambda>v m. m\<lparr>hr_cacheSize := v\<rparr>)),
      (42, field (read_some (read_time W)) (\<lambda>v m. m\<lparr>hr_lastChainSuccess := v\<rparr>))]"

definition decode_HealthResult :: "wire \<Rightarrow> int \<Rightarrow> HealthResult reader" where
  "decode_HealthResult W end bs = decode_loop W (HealthResult_fields W) end bs createBaseHealthResult 0"

section \<open>The empty message\<close>

definition createBaseEmpty :: unit where
  "createBaseEmpty = ()"

definition encode_Empty :: "wire \<Rightarrow> unit writer" where
  "encode_Empty W m = enc_seq []"

definition Empty_fields :: "wire \<Rightarrow> (nat \<times> unit field_reader) list" where
  "Empty_fields W = []"

definition decode_Empty :: "wire \<Rightarrow> int \<Rightarrow> unit reader" where
  "decode_Empty W end bs = decode_loop W (Empty_fields W) end bs createBaseEmpty 0"

section \<open>Round trips\<close>

text \<open>Reading the elements of a repeated field one by one.\<close>

lemma fold_cap_offerings: "fold (\<lambda>v m. m\<lparr>cap_offerings := cap_offerings m @ [v]\<rparr>) vs m = m\<lparr>cap_offerings := cap_offerings m @ vs\<rparr>"
  by (induction vs arbitrary: m) simp_all

lemma fold_nd_capabilities: "fold (\<lambda>v m. m\<lparr>nd_capabilities := nd_capabilities m @ [v]\<rparr>) vs m = m\<lparr>nd_capabilities := nd_capabilities m @ vs\<rparr>"
  by (induction vs arbitrary: m) simp_all

lemma fold_nd_tierAllowed: "fold (\<lambda>v m. m\<lparr>nd_tierAllowed := nd_tierAllowed m @ [v]\<rparr>) vs m = m\<lparr>nd_tierAllowed := nd_tierAllowed m @ vs\<rparr>"
  by (induction vs arbitrary: m) simp_all

lemma fold_rr_nodes: "fold (\<lambda>v m. m\<lparr>rr_nodes := rr_nodes m @ [v]\<rparr>) vs m = m\<lparr>rr_nodes := rr_nodes m @ vs\<rparr>"
  by (induction vs arbitrary: m) simp_all

lemma fold_lk_entries: "fold (\<lambda>v m. m\<lparr>lk_entries := lk_entries m @ [v]\<rparr>) vs m = m\<lparr>lk_entries := lk_entries m @ vs\<rparr>"
  by (induction vs arbitrary: m) simp_all

lemma fold_al_events: "fold (\<lambda>v m. m\<lparr>al_events := al_events m @ [v]\<rparr>) vs m = m\<lparr>al_events := al_events m @ vs\<rparr>"
  by (induction vs arbitrary: m) simp_all

lemmas fold_fields = fold_cap_offerings fold_nd_capabilities fold_nd_tierAllowed fold_rr_nodes fold_lk_entries fold_al_events

context wire_format
begin

lemma Offering_emits: "emits W (Offering_fields W) createBaseOffering (encode_Offering W m) m"
  unfolding encode_Offering_def createBaseOffering_def
  by ((rule emits_intros back_intros | simp add: Offering_fields_def fold_fields; fail)+)

lemma Offering_back [back_intros]: "decodes_back (encode_Offering W) (decode_Offering W)"
  using Offering_emits by (rule decodes_backI) (simp add: decode_Offering_def)

lemma Capability_emits: "emits W (Capability_fields W) createBaseCapability (encode_Capability W m) m"
  unfolding encode_Capability_def createBaseCapability_def
  by ((rule emits_intros back_intros | simp add: Capability_fields_def fold_fields; fail)+)

lemma Capability_back [back_intros]: "decodes_back (encode_Capability W) (decode_Capability W)"
  using Capability_emits by (rule decodes_backI) (simp add: decode_Capability_def)

lemma Node_emits: "emits W (Node_fields W) createBaseNode (encode_Node W m) m"
  unfolding encode_Node_def createBaseNode_def
  by ((rule emits_intros back_intros | simp add: Node_fields_def fold_fields; fail)+)

lemma Node_back [back_intros]: "decodes_back (encode_Node W) (decode_Node W)"
  using Node_emits by (rule decodes_backI) (simp add: decode_Node_def)

lemma ResolveByAddressRequest_emits: "emits W (ResolveByAddressRequest_fields W) createBaseResolveByAddressRequest (encode_ResolveByAddressRequest W m) m"
  unfolding encode_ResolveByAddressRequest_def createBaseResolveByAddressRequest_def
  by ((rule emits_intros back_intros | simp add: ResolveByAddressRequest_fields_def fold_fields; fail)+)

lemma ResolveByAddressRequest_back [back_intros]: "decodes_back (encode_ResolveByAddressRequest W) (decode_ResolveByAddressRequest W)"
  using ResolveByAddressRequest_emits by (rule decodes_backI) (simp add: decode_ResolveByAddressRequest_def)

lemma ResolveResult_emits: "emits W (ResolveResult_fields W) createBaseResolveResult (encode_ResolveResult W m) m"
  unfolding encode_ResolveResult_def createBaseResolveResult_def
  by ((rule emits_intros back_intros | simp add: ResolveResult_fields_def fold_fields; fail)+)

lemma ResolveResult_back [back_intros]: "decodes_back (encode_ResolveResult W) (decode_ResolveResult W)"
  using ResolveResult_emits by (rule decodes_backI) (simp add: decode_ResolveResult_def)

lemma SelectRequest_emits: "emits W (SelectRequest_fields W) createBaseSelectRequest (encode_SelectRequest W m) m"
  unfolding encode_SelectRequest_def createBaseSelectRequest_def
  by ((rule emits_intros back_intros | simp add: SelectRequest_fields_def fold_fields; fail)+)

lemma SelectRequest_back [back_intros]: "decodes_back (encode_SelectRequest W) (decode_SelectRequest W)"
  using SelectRequest_emits by (rule decodes_backI) (simp add: decode_SelectRequest_def)

lemma SelectedRoute_emits: "emits W (SelectedRoute_fields W) createBaseSelectedRoute (encode_SelectedRoute W m) m"
  unfolding encode_SelectedRoute_def createBaseSelectedRoute_def
  by ((rule emits_intros back_intros | simp add: SelectedRoute_fields_def fold_fields; fail)+)

lemma SelectedRoute_back [back_intros]: "decodes_back (encode_SelectedRoute W) (decode_SelectedRoute W)"
  using SelectedRoute_emits by (rule decodes_backI) (simp add: decode_SelectedRoute_def)

lemma SelectResult_emits: "emits W (SelectResult_fields W) createBaseSelectResult (encode_SelectResult W m) m"
  unfolding encode_SelectResult_def createBaseSelectResult_def
  by ((rule emits_intros back_intros | simp add: SelectResult_fields_def fold_fields; fail)+)

lemma SelectResult_back [back_intros]: "decodes_back (encode_SelectResult W) (decode_SelectResult W)"
  using SelectResult_emits by (rule decodes_backI) (simp add: decode_SelectResult_def)

lemma ListKnownRequest_emits: "emits W (ListKnownRequest_fields W) createBaseListKnownRequest (encode_ListKnownRequest W m) m"
  unfolding encode_ListKnownRequest_def createBaseListKnownRequest_def
  by ((rule emits_intros back_intros | simp add: ListKnownRequest_fields_def fold_fields; fail)+)

lemma ListKnownRequest_back [back_intros]: "decodes_back (encode_ListKnownRequest W) (decode_ListKnownRequest W)"
  using ListKnownRequest_emits by (rule decodes_backI) (simp add: decode_ListKnownRequest_def)

lemma KnownEntry_emits: "emits W (KnownEntry_fields W) createBaseKnownEntry (encode_KnownEntry W m) m"
  unfolding encode_KnownEntry_def createBaseKnownEntry_def
  by ((rule emits_intros back_intros | simp add: KnownEntry_fields_def fold_fields; fail)+)

lemma KnownEntry_back [back_intros]: "decodes_back (encode_KnownEntry W) (decode_KnownEntry W)"
  using KnownEntry_emits by (rule decodes_backI) (simp add: decode_KnownEntry_def)

lemma ListKnownResult_emits: "emits W (ListKnownResult_fields W) createBaseListKnownResult (encode_ListKnownResult W m) m"
  unfolding encode_ListKnownResult_def createBaseListKnownResult_def
  by ((rule emits_intros back_intros | simp add: ListKnownResult_fields_def fold_fields; fail)+)

lemma ListKnownResult_back [back_intros]: "decodes_back (encode_ListKnownResult W) (decode_ListKnownResult W)"
  using ListKnownResult_emits by (rule decodes_backI) (simp add: decode_ListKnownResult_def)

lemma RefreshRequest_emits: "emits W (RefreshRequest_fields W) createBaseRefreshRequest (encode_RefreshRequest W m) m"
  unfolding encode_RefreshRequest_def createBaseRefreshRequest_def
  by ((rule emits_intros back_intros | simp add: RefreshRequest_fields_def fold_fields; fail)+)

lemma RefreshRequest_back [back_intros]: "decodes_back (encode_RefreshRequest W) (decode_RefreshRequest W)"
  using RefreshRequest_emits by (rule decodes_backI) (simp add: decode_RefreshRequest_def)

lemma GetAuditLogRequest_emits: "emits W (GetAuditLogRequest_fields W) createBaseGetAuditLogRequest (encode_GetAuditLogRequest W m) m"
  unfolding encode_GetAuditLogRequest_def createBaseGetAuditLogRequest_def
  by ((rule emits_intros back_intros | simp add: GetAuditLogRequest_fields_def fold_fields; fail)+)

lemma GetAuditLogRequest_back [back_intros]: "decodes_back (encode_GetAuditLogRequest W) (decode_GetAuditLogRequest W)"
  using GetAuditLogRequest_emits by (rule decodes_backI) (simp add: decode_GetAuditLogRequest_def)

lemma AuditEvent_emits: "emits W (AuditEvent_fields W) createBaseAuditEvent (encode_AuditEvent W m) m"
  unfolding encode_AuditEvent_def createBaseAuditEvent_def
  by ((rule emits_intros back_intros | simp add: AuditEvent_fields_def fold_fields; fail)+)

lemma AuditEvent_back [back_intros]: "decodes_back (encode_AuditEvent W) (decode_AuditEvent W)"
  using AuditEvent_emits by (rule decodes_backI) (simp add: decode_AuditEvent_def)

lemma AuditLogResult_emits: "emits W (AuditLogResult_fields W) createBaseAuditLogResult (encode_AuditLogResult W m) m"
  unfolding encode_AuditLogResult_def createBaseAuditLogResult_def
  by ((rule emits_intros back_intros | simp add: AuditLogResult_fields_def fold_fields; fail)+)

lemma AuditLogResult_back [back_intros]: "decodes_back (encode_AuditLogResult W) (decode_AuditLogResult W)"
  using AuditLogResult_emits by (rule decodes_backI) (simp add: decode_AuditLogResult_def)

lemma HealthResult_emits: "emits W (HealthResult_fields W) createBaseHealthResult (encode_HealthResult W m) m"
  unfolding encode_HealthResult_def createBaseHealthResult_def
  by ((rule emits_intros back_intros | simp add: HealthResult_fields_def fold_fields; fail)+)

lemma HealthResult_back [back_intros]: "decodes_back (encode_HealthResult W) (decode_HealthResult W)"
  using HealthResult_emits by (rule decodes_backI) (simp add: decode_HealthResult_def)

lemma Empty_emits: "emits W (Empty_fields W) createBaseEmpty (encode_Empty W m) m"
  unfolding encode_Empty_def createBaseEmpty_def
  by ((rule emits_intros back_intros | simp add: Empty_fields_def fold_fields; fail)+)

lemma Empty_back [back_intros]: "decodes_back (encode_Empty W) (decode_Empty W)"
  using Empty_emits by (rule decodes_backI) (simp add: decode_Empty_def)

end

end
