(* ===== verification/PayerCodec.thy ===== *)
theory PayerCodec
  imports Timestamps
begin

text \<open>
  The messages of the payer daemon on the wire
  (\<^verbatim>\<open>src/providers/payerDaemon/gen/livepeer/payments/v1/payer_daemon.ts\<close>), as in the theory of
  the resolver's messages. The console sends only \<^verbatim>\<open>GetDepositInfo\<close>; the two messages of
  \<^verbatim>\<open>CreatePayment\<close> are part of the same generated client.
\<close>

section \<open>Payment messages\<close>

record CreatePaymentRequest =
  cp_faceValue :: "byte list"
  cp_recipient :: "byte list"
  cp_capability :: string
  cp_offering :: string

record CreatePaymentResponse =
  cr_paymentBytes :: "byte list"
  cr_ticketsCreated :: int
  cr_expectedValue :: "byte list"

section \<open>Payer service\<close>

definition createBaseCreatePaymentRequest :: CreatePaymentRequest where
  "createBaseCreatePaymentRequest =
     \<lparr>cp_faceValue = [], cp_recipient = [], cp_capability = [], cp_offering = []\<rparr>"

definition encode_CreatePaymentRequest :: "wire \<Rightarrow> CreatePaymentRequest writer" where
  "encode_CreatePaymentRequest W m = enc_seq
     [enc_bytes W 10 (cp_faceValue m), enc_bytes W 18 (cp_recipient m), enc_string W 26 (cp_capability m),
      enc_string W 34 (cp_offering m)]"

definition CreatePaymentRequest_fields :: "wire \<Rightarrow> (nat \<times> CreatePaymentRequest field_reader) list" where
  "CreatePaymentRequest_fields W =
     [(10, field (rd_bytes W) (\<lambda>v m. m\<lparr>cp_faceValue := v\<rparr>)),
      (18, field (rd_bytes W) (\<lambda>v m. m\<lparr>cp_recipient := v\<rparr>)),
      (26, field (rd_string W) (\<lambda>v m. m\<lparr>cp_capability := v\<rparr>)),
      (34, field (rd_string W) (\<lambda>v m. m\<lparr>cp_offering := v\<rparr>))]"

definition decode_CreatePaymentRequest :: "wire \<Rightarrow> int \<Rightarrow> CreatePaymentRequest reader" where
  "decode_CreatePaymentRequest W end bs = decode_loop W (CreatePaymentRequest_fields W) end bs createBaseCreatePaymentRequest 0"

definition createBaseCreatePaymentResponse :: CreatePaymentResponse where
  "createBaseCreatePaymentResponse =
     \<lparr>cr_paymentBytes = [], cr_ticketsCreated = 0, cr_expectedValue = []\<rparr>"

definition encode_CreatePaymentResponse :: "wire \<Rightarrow> CreatePaymentResponse writer" where
  "encode_CreatePaymentResponse W m = enc_seq
     [enc_bytes W 10 (cr_paymentBytes m), enc_int32 W 16 (cr_ticketsCreated m),
      enc_bytes W 26 (cr_expectedValue m)]"

definition CreatePaymentResponse_fields :: "wire \<Rightarrow> (nat \<times> CreatePaymentResponse field_reader) list" where
  "CreatePaymentResponse_fields W =
     [(10, field (rd_bytes W) (\<lambda>v m. m\<lparr>cr_paymentBytes := v\<rparr>)),
      (16, field (rd_int32 W) (\<lambda>v m. m\<lparr>cr_ticketsCreated := v\<rparr>)),
      (26, field (rd_bytes W) (\<lambda>v m. m\<lparr>cr_expectedValue := v\<rparr>))]"

definition decode_CreatePaymentResponse :: "wire \<Rightarrow> int \<Rightarrow> CreatePaymentResponse reader" where
  "decode_CreatePaymentResponse W end bs = decode_loop W (CreatePaymentResponse_fields W) end bs createBaseCreatePaymentResponse 0"

definition createBaseGetDepositInfoRequest :: unit where
  "createBaseGetDepositInfoRequest = ()"

definition encode_GetDepositInfoRequest :: "wire \<Rightarrow> unit writer" where
  "encode_GetDepositInfoRequest W m = enc_seq []"

definition GetDepositInfoRequest_fields :: "wire \<Rightarrow> (nat \<times> unit field_reader) list" where
  "GetDepositInfoRequest_fields W = []"

definition decode_GetDepositInfoRequest :: "wire \<Rightarrow> int \<Rightarrow> unit reader" where
  "decode_GetDepositInfoRequest W end bs = decode_loop W (GetDepositInfoRequest_fields W) end bs createBaseGetDepositInfoRequest 0"

definition createBaseGetDepositInfoResponse :: GetDepositInfoResponse where
  "createBaseGetDepositInfoResponse =
     \<lparr>gd_deposit = [], gd_reserve = [], gd_withdrawRound = 0\<rparr>"

definition encode_GetDepositInfoResponse :: "wire \<Rightarrow> GetDepositInfoResponse writer" where
  "encode_GetDepositInfoResponse W m = enc_seq
     [enc_bytes W 10 (gd_deposit m), enc_bytes W 18 (gd_reserve m),
      enc_int64_checked W 24 ''withdrawRound'' (gd_withdrawRound m)]"

definition GetDepositInfoResponse_fields :: "wire \<Rightarrow> (nat \<times> GetDepositInfoResponse field_reader) list" where
  "GetDepositInfoResponse_fields W =
     [(10, field (rd_bytes W) (\<lambda>v m. m\<lparr>gd_deposit := v\<rparr>)),
      (18, field (rd_bytes W) (\<lambda>v m. m\<lparr>gd_reserve := v\<rparr>)),
      (24, field (rd_int64 W) (\<lambda>v m. m\<lparr>gd_withdrawRound := v\<rparr>))]"

definition decode_GetDepositInfoResponse :: "wire \<Rightarrow> int \<Rightarrow> GetDepositInfoResponse reader" where
  "decode_GetDepositInfoResponse W end bs = decode_loop W (GetDepositInfoResponse_fields W) end bs createBaseGetDepositInfoResponse 0"

section \<open>Round trips\<close>

context wire_format
begin

lemma CreatePaymentRequest_emits: "emits W (CreatePaymentRequest_fields W) createBaseCreatePaymentRequest (encode_CreatePaymentRequest W m) m"
  unfolding encode_CreatePaymentRequest_def createBaseCreatePaymentRequest_def
  by ((rule emits_intros back_intros | simp add: CreatePaymentRequest_fields_def; fail)+)

lemma CreatePaymentRequest_back [back_intros]: "decodes_back (encode_CreatePaymentRequest W) (decode_CreatePaymentRequest W)"
  using CreatePaymentRequest_emits by (rule decodes_backI) (simp add: decode_CreatePaymentRequest_def)

lemma CreatePaymentResponse_emits: "emits W (CreatePaymentResponse_fields W) createBaseCreatePaymentResponse (encode_CreatePaymentResponse W m) m"
  unfolding encode_CreatePaymentResponse_def createBaseCreatePaymentResponse_def
  by ((rule emits_intros back_intros | simp add: CreatePaymentResponse_fields_def; fail)+)

lemma CreatePaymentResponse_back [back_intros]: "decodes_back (encode_CreatePaymentResponse W) (decode_CreatePaymentResponse W)"
  using CreatePaymentResponse_emits by (rule decodes_backI) (simp add: decode_CreatePaymentResponse_def)

lemma GetDepositInfoRequest_emits: "emits W (GetDepositInfoRequest_fields W) createBaseGetDepositInfoRequest (encode_GetDepositInfoRequest W m) m"
  unfolding encode_GetDepositInfoRequest_def createBaseGetDepositInfoRequest_def
  by ((rule emits_intros back_intros | simp add: GetDepositInfoRequest_fields_def; fail)+)

lemma GetDepositInfoRequest_back [back_intros]: "decodes_back (encode_GetDepositInfoRequest W) (decode_GetDepositInfoRequest W)"
  using GetDepositInfoRequest_emits by (rule decodes_backI) (simp add: decode_GetDepositInfoRequest_def)

lemma GetDepositInfoResponse_emits: "emits W (GetDepositInfoResponse_fields W) createBaseGetDepositInfoResponse (encode_GetDepositInfoResponse W m) m"
  unfolding encode_GetDepositInfoResponse_def createBaseGetDepositInfoResponse_def
  by ((rule emits_intros back_intros | simp add: GetDepositInfoResponse_fields_def; fail)+)

lemma GetDepositInfoResponse_back [back_intros]: "decodes_back (encode_GetDepositInfoResponse W) (decode_GetDepositInfoResponse W)"
  using GetDepositInfoResponse_emits by (rule decodes_backI) (simp add: decode_GetDepositInfoResponse_def)

end

end
