(* ===== verification/PaymentCodec.thy ===== *)
theory PaymentCodec
  imports Timestamps
begin

text \<open>
  The payment messages of \<^verbatim>\<open>src/providers/payerDaemon/gen/livepeer/payments/v1/types.ts\<close>: the
  ticket parameters, the tickets and the payment that carries them, on the wire.
\<close>

section \<open>Messages\<close>

record PriceInfo =
  pi_pricePerUnit :: int
  pi_pixelsPerUnit :: int
  pi_capability :: nat
  pi_constraint :: string

record TicketExpirationParams =
  tep_creationRound :: int
  tep_creationRoundBlockHash :: "byte list"

record TicketParams =
  tp_recipient :: "byte list"
  tp_faceValue :: "byte list"
  tp_winProb :: "byte list"
  tp_recipientRandHash :: "byte list"
  tp_seed :: "byte list"
  tp_expirationBlock :: "byte list"
  tp_expirationParams :: "TicketExpirationParams option"

record TicketSenderParams =
  tsp_senderNonce :: nat
  tsp_sig :: "byte list"

record Payment =
  p_ticketParams :: "TicketParams option"
  p_sender :: "byte list"
  p_expirationParams :: "TicketExpirationParams option"
  p_ticketSenderParams :: "TicketSenderParams list"
  p_expectedPrice :: "PriceInfo option"

section \<open>Tickets and payments\<close>

definition createBasePriceInfo :: PriceInfo where
  "createBasePriceInfo =
     \<lparr>pi_pricePerUnit = 0, pi_pixelsPerUnit = 0, pi_capability = 0, pi_constraint = []\<rparr>"

definition encode_PriceInfo :: "wire \<Rightarrow> PriceInfo writer" where
  "encode_PriceInfo W m = enc_seq
     [enc_int64_checked W 8 ''pricePerUnit'' (pi_pricePerUnit m),
      enc_int64_checked W 16 ''pixelsPerUnit'' (pi_pixelsPerUnit m), enc_uint32 W 24 (pi_capability m),
      enc_string W 34 (pi_constraint m)]"

definition PriceInfo_fields :: "wire \<Rightarrow> (nat \<times> PriceInfo field_reader) list" where
  "PriceInfo_fields W =
     [(8, field (rd_int64 W) (\<lambda>v m. m\<lparr>pi_pricePerUnit := v\<rparr>)),
      (16, field (rd_int64 W) (\<lambda>v m. m\<lparr>pi_pixelsPerUnit := v\<rparr>)),
      (24, field (read_uint32 W) (\<lambda>v m. m\<lparr>pi_capability := v\<rparr>)),
      (34, field (rd_string W) (\<lambda>v m. m\<lparr>pi_constraint := v\<rparr>))]"

definition decode_PriceInfo :: "wire \<Rightarrow> int \<Rightarrow> PriceInfo reader" where
  "decode_PriceInfo W end bs = decode_loop W (PriceInfo_fields W) end bs createBasePriceInfo 0"

definition createBaseTicketExpirationParams :: TicketExpirationParams where
  "createBaseTicketExpirationParams =
     \<lparr>tep_creationRound = 0, tep_creationRoundBlockHash = []\<rparr>"

definition encode_TicketExpirationParams :: "wire \<Rightarrow> TicketExpirationParams writer" where
  "encode_TicketExpirationParams W m = enc_seq
     [enc_int64_checked W 8 ''creationRound'' (tep_creationRound m),
      enc_bytes W 18 (tep_creationRoundBlockHash m)]"

definition TicketExpirationParams_fields :: "wire \<Rightarrow> (nat \<times> TicketExpirationParams field_reader) list" where
  "TicketExpirationParams_fields W =
     [(8, field (rd_int64 W) (\<lambda>v m. m\<lparr>tep_creationRound := v\<rparr>)),
      (18, field (rd_bytes W) (\<lambda>v m. m\<lparr>tep_creationRoundBlockHash := v\<rparr>))]"

definition decode_TicketExpirationParams :: "wire \<Rightarrow> int \<Rightarrow> TicketExpirationParams reader" where
  "decode_TicketExpirationParams W end bs = decode_loop W (TicketExpirationParams_fields W) end bs createBaseTicketExpirationParams 0"

definition createBaseTicketParams :: TicketParams where
  "createBaseTicketParams =
     \<lparr>tp_recipient = [], tp_faceValue = [], tp_winProb = [], tp_recipientRandHash = [], tp_seed = [],
      tp_expirationBlock = [], tp_expirationParams = None\<rparr>"

definition encode_TicketParams :: "wire \<Rightarrow> TicketParams writer" where
  "encode_TicketParams W m = enc_seq
     [enc_bytes W 10 (tp_recipient m), enc_bytes W 18 (tp_faceValue m), enc_bytes W 26 (tp_winProb m),
      enc_bytes W 34 (tp_recipientRandHash m), enc_bytes W 42 (tp_seed m),
      enc_bytes W 50 (tp_expirationBlock m),
      enc_optional W 58 (wr_message W (encode_TicketExpirationParams W)) (tp_expirationParams m)]"

definition TicketParams_fields :: "wire \<Rightarrow> (nat \<times> TicketParams field_reader) list" where
  "TicketParams_fields W =
     [(10, field (rd_bytes W) (\<lambda>v m. m\<lparr>tp_recipient := v\<rparr>)),
      (18, field (rd_bytes W) (\<lambda>v m. m\<lparr>tp_faceValue := v\<rparr>)),
      (26, field (rd_bytes W) (\<lambda>v m. m\<lparr>tp_winProb := v\<rparr>)),
      (34, field (rd_bytes W) (\<lambda>v m. m\<lparr>tp_recipientRandHash := v\<rparr>)),
      (42, field (rd_bytes W) (\<lambda>v m. m\<lparr>tp_seed := v\<rparr>)),
      (50, field (rd_bytes W) (\<lambda>v m. m\<lparr>tp_expirationBlock := v\<rparr>)),
      (58, field (read_some (read_message W (decode_TicketExpirationParams W))) (\<lambda>v m. m\<lparr>tp_expirationParams := v\<rparr>))]"

definition decode_TicketParams :: "wire \<Rightarrow> int \<Rightarrow> TicketParams reader" where
  "decode_TicketParams W end bs = decode_loop W (TicketParams_fields W) end bs createBaseTicketParams 0"

definition createBaseTicketSenderParams :: TicketSenderParams where
  "createBaseTicketSenderParams =
     \<lparr>tsp_senderNonce = 0, tsp_sig = []\<rparr>"

definition encode_TicketSenderParams :: "wire \<Rightarrow> TicketSenderParams writer" where
  "encode_TicketSenderParams W m = enc_seq
     [enc_uint32 W 8 (tsp_senderNonce m), enc_bytes W 18 (tsp_sig m)]"

definition TicketSenderParams_fields :: "wire \<Rightarrow> (nat \<times> TicketSenderParams field_reader) list" where
  "TicketSenderParams_fields W =
     [(8, field (read_uint32 W) (\<lambda>v m. m\<lparr>tsp_senderNonce := v\<rparr>)),
      (18, field (rd_bytes W) (\<lambda>v m. m\<lparr>tsp_sig := v\<rparr>))]"

definition decode_TicketSenderParams :: "wire \<Rightarrow> int \<Rightarrow> TicketSenderParams reader" where
  "decode_TicketSenderParams W end bs = decode_loop W (TicketSenderParams_fields W) end bs createBaseTicketSenderParams 0"

definition createBasePayment :: Payment where
  "createBasePayment =
     \<lparr>p_ticketParams = None, p_sender = [], p_expirationParams = None, p_ticketSenderParams = [],
      p_expectedPrice = None\<rparr>"

definition encode_Payment :: "wire \<Rightarrow> Payment writer" where
  "encode_Payment W m = enc_seq
     [enc_optional W 10 (wr_message W (encode_TicketParams W)) (p_ticketParams m),
      enc_bytes W 18 (p_sender m),
      enc_optional W 26 (wr_message W (encode_TicketExpirationParams W)) (p_expirationParams m),
      enc_each W 34 (wr_message W (encode_TicketSenderParams W)) (p_ticketSenderParams m),
      enc_optional W 42 (wr_message W (encode_PriceInfo W)) (p_expectedPrice m)]"

definition Payment_fields :: "wire \<Rightarrow> (nat \<times> Payment field_reader) list" where
  "Payment_fields W =
     [(10, field (read_some (read_message W (decode_TicketParams W))) (\<lambda>v m. m\<lparr>p_ticketParams := v\<rparr>)),
      (18, field (rd_bytes W) (\<lambda>v m. m\<lparr>p_sender := v\<rparr>)),
      (26, field (read_some (read_message W (decode_TicketExpirationParams W))) (\<lambda>v m. m\<lparr>p_expirationParams := v\<rparr>)),
      (34, field (read_message W (decode_TicketSenderParams W)) (\<lambda>v m. m\<lparr>p_ticketSenderParams := p_ticketSenderParams m @ [v]\<rparr>)),
      (42, field (read_some (read_message W (decode_PriceInfo W))) (\<lambda>v m. m\<lparr>p_expectedPrice := v\<rparr>))]"

definition decode_Payment :: "wire \<Rightarrow> int \<Rightarrow> Payment reader" where
  "decode_Payment W end bs = decode_loop W (Payment_fields W) end bs createBasePayment 0"

section \<open>Round trips\<close>

text \<open>Reading the elements of a repeated field one by one.\<close>

lemma fold_p_ticketSenderParams: "fold (\<lambda>v m. m\<lparr>p_ticketSenderParams := p_ticketSenderParams m @ [v]\<rparr>) vs m = m\<lparr>p_ticketSenderParams := p_ticketSenderParams m @ vs\<rparr>"
  by (induction vs arbitrary: m) simp_all

lemmas fold_fields = fold_p_ticketSenderParams

context wire_format
begin

lemma PriceInfo_emits: "emits W (PriceInfo_fields W) createBasePriceInfo (encode_PriceInfo W m) m"
  unfolding encode_PriceInfo_def createBasePriceInfo_def
  by ((rule emits_intros back_intros | simp add: PriceInfo_fields_def fold_fields; fail)+)

lemma PriceInfo_back [back_intros]: "decodes_back (encode_PriceInfo W) (decode_PriceInfo W)"
  using PriceInfo_emits by (rule decodes_backI) (simp add: decode_PriceInfo_def)

lemma TicketExpirationParams_emits: "emits W (TicketExpirationParams_fields W) createBaseTicketExpirationParams (encode_TicketExpirationParams W m) m"
  unfolding encode_TicketExpirationParams_def createBaseTicketExpirationParams_def
  by ((rule emits_intros back_intros | simp add: TicketExpirationParams_fields_def fold_fields; fail)+)

lemma TicketExpirationParams_back [back_intros]: "decodes_back (encode_TicketExpirationParams W) (decode_TicketExpirationParams W)"
  using TicketExpirationParams_emits by (rule decodes_backI) (simp add: decode_TicketExpirationParams_def)

lemma TicketParams_emits: "emits W (TicketParams_fields W) createBaseTicketParams (encode_TicketParams W m) m"
  unfolding encode_TicketParams_def createBaseTicketParams_def
  by ((rule emits_intros back_intros | simp add: TicketParams_fields_def fold_fields; fail)+)

lemma TicketParams_back [back_intros]: "decodes_back (encode_TicketParams W) (decode_TicketParams W)"
  using TicketParams_emits by (rule decodes_backI) (simp add: decode_TicketParams_def)

lemma TicketSenderParams_emits: "emits W (TicketSenderParams_fields W) createBaseTicketSenderParams (encode_TicketSenderParams W m) m"
  unfolding encode_TicketSenderParams_def createBaseTicketSenderParams_def
  by ((rule emits_intros back_intros | simp add: TicketSenderParams_fields_def fold_fields; fail)+)

lemma TicketSenderParams_back [back_intros]: "decodes_back (encode_TicketSenderParams W) (decode_TicketSenderParams W)"
  using TicketSenderParams_emits by (rule decodes_backI) (simp add: decode_TicketSenderParams_def)

lemma Payment_emits: "emits W (Payment_fields W) createBasePayment (encode_Payment W m) m"
  unfolding encode_Payment_def createBasePayment_def
  by ((rule emits_intros back_intros | simp add: Payment_fields_def fold_fields; fail)+)

lemma Payment_back [back_intros]: "decodes_back (encode_Payment W) (decode_Payment W)"
  using Payment_emits by (rule decodes_backI) (simp add: decode_Payment_def)

end

end
