(* ===== verification/PayeeCodec.thy ===== *)
theory PayeeCodec
  imports PaymentCodec
begin

text \<open>
  The messages of the payee daemon
  (\<^verbatim>\<open>src/providers/payerDaemon/gen/livepeer/payments/v1/payee_daemon.ts\<close>): quotes, sessions,
  balances and redemptions, on the wire.
\<close>

section \<open>Messages\<close>

record GetQuoteRequest =
  gqr_sender :: "byte list"
  gqr_capability :: string

record OfferingPrice =
  op_id :: string
  op_priceInfo :: "PriceInfo option"

record GetQuoteResponse =
  gqr2_ticketParams :: "TicketParams option"
  gqr2_offeringPrices :: "OfferingPrice list"

record GetTicketParamsRequest =
  gtpr_sender :: "byte list"
  gtpr_recipient :: "byte list"
  gtpr_faceValue :: "byte list"
  gtpr_capability :: string
  gtpr_offering :: string

record GetTicketParamsResponse =
  gtpr2_ticketParams :: "TicketParams option"

record CapabilityEntry =
  ce_capability :: string
  ce_workUnit :: string
  ce_offerings :: "OfferingPrice list"

record ListCapabilitiesResponse =
  lcr_capabilities :: "CapabilityEntry list"

record OpenSessionRequest =
  osr_workId :: string
  osr_capability :: string
  osr_offering :: string
  osr_pricePerWorkUnitWei :: "byte list"
  osr_workUnit :: string

record OpenSessionResponse =
  osr2_outcome :: int

record ProcessPaymentRequest =
  ppr_paymentBytes :: "byte list"
  ppr_workId :: string

record ProcessPaymentResponse =
  ppr2_sender :: "byte list"
  ppr2_creditedEv :: "byte list"
  ppr2_balance :: "byte list"
  ppr2_winnersQueued :: int

record DebitBalanceRequest =
  dbr_sender :: "byte list"
  dbr_workId :: string
  dbr_workUnits :: int
  dbr_debitSeq :: int

record DebitBalanceResponse =
  dbr2_balance :: "byte list"

record SufficientBalanceRequest =
  sbr_sender :: "byte list"
  sbr_workId :: string
  sbr_minWorkUnits :: int

record SufficientBalanceResponse =
  sbr2_sufficient :: bool
  sbr2_balance :: "byte list"

record GetBalanceRequest =
  gbr_sender :: "byte list"
  gbr_workId :: string

record GetBalanceResponse =
  gbr2_balance :: "byte list"

record PayeeDaemonCloseSessionRequest =
  pdcsr_sender :: "byte list"
  pdcsr_workId :: string

record PayeeDaemonCloseSessionResponse =
  pdcsr2_outcome :: int

record ListPendingRedemptionsRequest =
  lprr_since :: int

record PendingRedemption =
  pr_ticketHash :: "byte list"
  pr_sender :: "byte list"
  pr_faceValue :: "byte list"
  pr_queuedAt :: int
  pr_attempts :: int

record ListPendingRedemptionsResponse =
  lprr2_redemptions :: "PendingRedemption list"

record GetRedemptionStatusRequest =
  grsr_ticketHash :: "byte list"

record GetRedemptionStatusResponse =
  grsr2_status :: int
  grsr2_txHash :: "byte list"
  grsr2_error :: string

section \<open>Payee service\<close>

definition createBaseGetQuoteRequest :: GetQuoteRequest where
  "createBaseGetQuoteRequest =
     \<lparr>gqr_sender = [], gqr_capability = []\<rparr>"

definition encode_GetQuoteRequest :: "wire \<Rightarrow> GetQuoteRequest writer" where
  "encode_GetQuoteRequest W m = enc_seq
     [enc_bytes W 10 (gqr_sender m), enc_string W 18 (gqr_capability m)]"

definition GetQuoteRequest_fields :: "wire \<Rightarrow> (nat \<times> GetQuoteRequest field_reader) list" where
  "GetQuoteRequest_fields W =
     [(10, field (rd_bytes W) (\<lambda>v m. m\<lparr>gqr_sender := v\<rparr>)),
      (18, field (rd_string W) (\<lambda>v m. m\<lparr>gqr_capability := v\<rparr>))]"

definition decode_GetQuoteRequest :: "wire \<Rightarrow> int \<Rightarrow> GetQuoteRequest reader" where
  "decode_GetQuoteRequest W end bs = decode_loop W (GetQuoteRequest_fields W) end bs createBaseGetQuoteRequest 0"

definition createBaseOfferingPrice :: OfferingPrice where
  "createBaseOfferingPrice =
     \<lparr>op_id = [], op_priceInfo = None\<rparr>"

definition encode_OfferingPrice :: "wire \<Rightarrow> OfferingPrice writer" where
  "encode_OfferingPrice W m = enc_seq
     [enc_string W 10 (op_id m), enc_optional W 18 (wr_message W (encode_PriceInfo W)) (op_priceInfo m)]"

definition OfferingPrice_fields :: "wire \<Rightarrow> (nat \<times> OfferingPrice field_reader) list" where
  "OfferingPrice_fields W =
     [(10, field (rd_string W) (\<lambda>v m. m\<lparr>op_id := v\<rparr>)),
      (18, field (read_some (read_message W (decode_PriceInfo W))) (\<lambda>v m. m\<lparr>op_priceInfo := v\<rparr>))]"

definition decode_OfferingPrice :: "wire \<Rightarrow> int \<Rightarrow> OfferingPrice reader" where
  "decode_OfferingPrice W end bs = decode_loop W (OfferingPrice_fields W) end bs createBaseOfferingPrice 0"

definition createBaseGetQuoteResponse :: GetQuoteResponse where
  "createBaseGetQuoteResponse =
     \<lparr>gqr2_ticketParams = None, gqr2_offeringPrices = []\<rparr>"

definition encode_GetQuoteResponse :: "wire \<Rightarrow> GetQuoteResponse writer" where
  "encode_GetQuoteResponse W m = enc_seq
     [enc_optional W 10 (wr_message W (encode_TicketParams W)) (gqr2_ticketParams m),
      enc_each W 18 (wr_message W (encode_OfferingPrice W)) (gqr2_offeringPrices m)]"

definition GetQuoteResponse_fields :: "wire \<Rightarrow> (nat \<times> GetQuoteResponse field_reader) list" where
  "GetQuoteResponse_fields W =
     [(10, field (read_some (read_message W (decode_TicketParams W))) (\<lambda>v m. m\<lparr>gqr2_ticketParams := v\<rparr>)),
      (18, field (read_message W (decode_OfferingPrice W)) (\<lambda>v m. m\<lparr>gqr2_offeringPrices := gqr2_offeringPrices m @ [v]\<rparr>))]"

definition decode_GetQuoteResponse :: "wire \<Rightarrow> int \<Rightarrow> GetQuoteResponse reader" where
  "decode_GetQuoteResponse W end bs = decode_loop W (GetQuoteResponse_fields W) end bs createBaseGetQuoteResponse 0"

definition createBaseGetTicketParamsRequest :: GetTicketParamsRequest where
  "createBaseGetTicketParamsRequest =
     \<lparr>gtpr_sender = [], gtpr_recipient = [], gtpr_faceValue = [], gtpr_capability = [], gtpr_offering = []\<rparr>"

definition encode_GetTicketParamsRequest :: "wire \<Rightarrow> GetTicketParamsRequest writer" where
  "encode_GetTicketParamsRequest W m = enc_seq
     [enc_bytes W 10 (gtpr_sender m), enc_bytes W 18 (gtpr_recipient m), enc_bytes W 26 (gtpr_faceValue m),
      enc_string W 34 (gtpr_capability m), enc_string W 42 (gtpr_offering m)]"

definition GetTicketParamsRequest_fields :: "wire \<Rightarrow> (nat \<times> GetTicketParamsRequest field_reader) list" where
  "GetTicketParamsRequest_fields W =
     [(10, field (rd_bytes W) (\<lambda>v m. m\<lparr>gtpr_sender := v\<rparr>)),
      (18, field (rd_bytes W) (\<lambda>v m. m\<lparr>gtpr_recipient := v\<rparr>)),
      (26, field (rd_bytes W) (\<lambda>v m. m\<lparr>gtpr_faceValue := v\<rparr>)),
      (34, field (rd_string W) (\<lambda>v m. m\<lparr>gtpr_capability := v\<rparr>)),
      (42, field (rd_string W) (\<lambda>v m. m\<lparr>gtpr_offering := v\<rparr>))]"

definition decode_GetTicketParamsRequest :: "wire \<Rightarrow> int \<Rightarrow> GetTicketParamsRequest reader" where
  "decode_GetTicketParamsRequest W end bs = decode_loop W (GetTicketParamsRequest_fields W) end bs createBaseGetTicketParamsRequest 0"

definition createBaseGetTicketParamsResponse :: GetTicketParamsResponse where
  "createBaseGetTicketParamsResponse =
     \<lparr>gtpr2_ticketParams = None\<rparr>"

definition encode_GetTicketParamsResponse :: "wire \<Rightarrow> GetTicketParamsResponse writer" where
  "encode_GetTicketParamsResponse W m = enc_seq
     [enc_optional W 10 (wr_message W (encode_TicketParams W)) (gtpr2_ticketParams m)]"

definition GetTicketParamsResponse_fields :: "wire \<Rightarrow> (nat \<times> GetTicketParamsResponse field_reader) list" where
  "GetTicketParamsResponse_fields W =
     [(10, field (read_some (read_message W (decode_TicketParams W))) (\<lambda>v m. m\<lparr>gtpr2_ticketParams := v\<rparr>))]"

definition decode_GetTicketParamsResponse :: "wire \<Rightarrow> int \<Rightarrow> GetTicketParamsResponse reader" where
  "decode_GetTicketParamsResponse W end bs = decode_loop W (GetTicketParamsResponse_fields W) end bs createBaseGetTicketParamsResponse 0"

definition createBaseListCapabilitiesRequest :: unit where
  "createBaseListCapabilitiesRequest = ()"

definition encode_ListCapabilitiesRequest :: "wire \<Rightarrow> unit writer" where
  "encode_ListCapabilitiesRequest W m = enc_seq []"

definition ListCapabilitiesRequest_fields :: "wire \<Rightarrow> (nat \<times> unit field_reader) list" where
  "ListCapabilitiesRequest_fields W = []"

definition decode_ListCapabilitiesRequest :: "wire \<Rightarrow> int \<Rightarrow> unit reader" where
  "decode_ListCapabilitiesRequest W end bs = decode_loop W (ListCapabilitiesRequest_fields W) end bs createBaseListCapabilitiesRequest 0"

definition createBaseCapabilityEntry :: CapabilityEntry where
  "createBaseCapabilityEntry =
     \<lparr>ce_capability = [], ce_workUnit = [], ce_offerings = []\<rparr>"

definition encode_CapabilityEntry :: "wire \<Rightarrow> CapabilityEntry writer" where
  "encode_CapabilityEntry W m = enc_seq
     [enc_string W 10 (ce_capability m), enc_string W 18 (ce_workUnit m),
      enc_each W 26 (wr_message W (encode_OfferingPrice W)) (ce_offerings m)]"

definition CapabilityEntry_fields :: "wire \<Rightarrow> (nat \<times> CapabilityEntry field_reader) list" where
  "CapabilityEntry_fields W =
     [(10, field (rd_string W) (\<lambda>v m. m\<lparr>ce_capability := v\<rparr>)),
      (18, field (rd_string W) (\<lambda>v m. m\<lparr>ce_workUnit := v\<rparr>)),
      (26, field (read_message W (decode_OfferingPrice W)) (\<lambda>v m. m\<lparr>ce_offerings := ce_offerings m @ [v]\<rparr>))]"

definition decode_CapabilityEntry :: "wire \<Rightarrow> int \<Rightarrow> CapabilityEntry reader" where
  "decode_CapabilityEntry W end bs = decode_loop W (CapabilityEntry_fields W) end bs createBaseCapabilityEntry 0"

definition createBaseListCapabilitiesResponse :: ListCapabilitiesResponse where
  "createBaseListCapabilitiesResponse =
     \<lparr>lcr_capabilities = []\<rparr>"

definition encode_ListCapabilitiesResponse :: "wire \<Rightarrow> ListCapabilitiesResponse writer" where
  "encode_ListCapabilitiesResponse W m = enc_seq
     [enc_each W 18 (wr_message W (encode_CapabilityEntry W)) (lcr_capabilities m)]"

definition ListCapabilitiesResponse_fields :: "wire \<Rightarrow> (nat \<times> ListCapabilitiesResponse field_reader) list" where
  "ListCapabilitiesResponse_fields W =
     [(18, field (read_message W (decode_CapabilityEntry W)) (\<lambda>v m. m\<lparr>lcr_capabilities := lcr_capabilities m @ [v]\<rparr>))]"

definition decode_ListCapabilitiesResponse :: "wire \<Rightarrow> int \<Rightarrow> ListCapabilitiesResponse reader" where
  "decode_ListCapabilitiesResponse W end bs = decode_loop W (ListCapabilitiesResponse_fields W) end bs createBaseListCapabilitiesResponse 0"

definition createBaseOpenSessionRequest :: OpenSessionRequest where
  "createBaseOpenSessionRequest =
     \<lparr>osr_workId = [], osr_capability = [], osr_offering = [], osr_pricePerWorkUnitWei = [],
      osr_workUnit = []\<rparr>"

definition encode_OpenSessionRequest :: "wire \<Rightarrow> OpenSessionRequest writer" where
  "encode_OpenSessionRequest W m = enc_seq
     [enc_string W 10 (osr_workId m), enc_string W 18 (osr_capability m), enc_string W 26 (osr_offering m),
      enc_bytes W 34 (osr_pricePerWorkUnitWei m), enc_string W 42 (osr_workUnit m)]"

definition OpenSessionRequest_fields :: "wire \<Rightarrow> (nat \<times> OpenSessionRequest field_reader) list" where
  "OpenSessionRequest_fields W =
     [(10, field (rd_string W) (\<lambda>v m. m\<lparr>osr_workId := v\<rparr>)),
      (18, field (rd_string W) (\<lambda>v m. m\<lparr>osr_capability := v\<rparr>)),
      (26, field (rd_string W) (\<lambda>v m. m\<lparr>osr_offering := v\<rparr>)),
      (34, field (rd_bytes W) (\<lambda>v m. m\<lparr>osr_pricePerWorkUnitWei := v\<rparr>)),
      (42, field (rd_string W) (\<lambda>v m. m\<lparr>osr_workUnit := v\<rparr>))]"

definition decode_OpenSessionRequest :: "wire \<Rightarrow> int \<Rightarrow> OpenSessionRequest reader" where
  "decode_OpenSessionRequest W end bs = decode_loop W (OpenSessionRequest_fields W) end bs createBaseOpenSessionRequest 0"

definition createBaseOpenSessionResponse :: OpenSessionResponse where
  "createBaseOpenSessionResponse =
     \<lparr>osr2_outcome = 0\<rparr>"

definition encode_OpenSessionResponse :: "wire \<Rightarrow> OpenSessionResponse writer" where
  "encode_OpenSessionResponse W m = enc_seq
     [enc_int32 W 8 (osr2_outcome m)]"

definition OpenSessionResponse_fields :: "wire \<Rightarrow> (nat \<times> OpenSessionResponse field_reader) list" where
  "OpenSessionResponse_fields W =
     [(8, field (rd_int32 W) (\<lambda>v m. m\<lparr>osr2_outcome := v\<rparr>))]"

definition decode_OpenSessionResponse :: "wire \<Rightarrow> int \<Rightarrow> OpenSessionResponse reader" where
  "decode_OpenSessionResponse W end bs = decode_loop W (OpenSessionResponse_fields W) end bs createBaseOpenSessionResponse 0"

definition createBaseProcessPaymentRequest :: ProcessPaymentRequest where
  "createBaseProcessPaymentRequest =
     \<lparr>ppr_paymentBytes = [], ppr_workId = []\<rparr>"

definition encode_ProcessPaymentRequest :: "wire \<Rightarrow> ProcessPaymentRequest writer" where
  "encode_ProcessPaymentRequest W m = enc_seq
     [enc_bytes W 10 (ppr_paymentBytes m), enc_string W 18 (ppr_workId m)]"

definition ProcessPaymentRequest_fields :: "wire \<Rightarrow> (nat \<times> ProcessPaymentRequest field_reader) list" where
  "ProcessPaymentRequest_fields W =
     [(10, field (rd_bytes W) (\<lambda>v m. m\<lparr>ppr_paymentBytes := v\<rparr>)),
      (18, field (rd_string W) (\<lambda>v m. m\<lparr>ppr_workId := v\<rparr>))]"

definition decode_ProcessPaymentRequest :: "wire \<Rightarrow> int \<Rightarrow> ProcessPaymentRequest reader" where
  "decode_ProcessPaymentRequest W end bs = decode_loop W (ProcessPaymentRequest_fields W) end bs createBaseProcessPaymentRequest 0"

definition createBaseProcessPaymentResponse :: ProcessPaymentResponse where
  "createBaseProcessPaymentResponse =
     \<lparr>ppr2_sender = [], ppr2_creditedEv = [], ppr2_balance = [], ppr2_winnersQueued = 0\<rparr>"

definition encode_ProcessPaymentResponse :: "wire \<Rightarrow> ProcessPaymentResponse writer" where
  "encode_ProcessPaymentResponse W m = enc_seq
     [enc_bytes W 10 (ppr2_sender m), enc_bytes W 18 (ppr2_creditedEv m), enc_bytes W 26 (ppr2_balance m),
      enc_int32 W 32 (ppr2_winnersQueued m)]"

definition ProcessPaymentResponse_fields :: "wire \<Rightarrow> (nat \<times> ProcessPaymentResponse field_reader) list" where
  "ProcessPaymentResponse_fields W =
     [(10, field (rd_bytes W) (\<lambda>v m. m\<lparr>ppr2_sender := v\<rparr>)),
      (18, field (rd_bytes W) (\<lambda>v m. m\<lparr>ppr2_creditedEv := v\<rparr>)),
      (26, field (rd_bytes W) (\<lambda>v m. m\<lparr>ppr2_balance := v\<rparr>)),
      (32, field (rd_int32 W) (\<lambda>v m. m\<lparr>ppr2_winnersQueued := v\<rparr>))]"

definition decode_ProcessPaymentResponse :: "wire \<Rightarrow> int \<Rightarrow> ProcessPaymentResponse reader" where
  "decode_ProcessPaymentResponse W end bs = decode_loop W (ProcessPaymentResponse_fields W) end bs createBaseProcessPaymentResponse 0"

definition createBaseDebitBalanceRequest :: DebitBalanceRequest where
  "createBaseDebitBalanceRequest =
     \<lparr>dbr_sender = [], dbr_workId = [], dbr_workUnits = 0, dbr_debitSeq = 0\<rparr>"

definition encode_DebitBalanceRequest :: "wire \<Rightarrow> DebitBalanceRequest writer" where
  "encode_DebitBalanceRequest W m = enc_seq
     [enc_bytes W 10 (dbr_sender m), enc_string W 18 (dbr_workId m),
      enc_int64_checked W 24 ''workUnits'' (dbr_workUnits m),
      enc_uint64_checked W 32 ''debitSeq'' (dbr_debitSeq m)]"

definition DebitBalanceRequest_fields :: "wire \<Rightarrow> (nat \<times> DebitBalanceRequest field_reader) list" where
  "DebitBalanceRequest_fields W =
     [(10, field (rd_bytes W) (\<lambda>v m. m\<lparr>dbr_sender := v\<rparr>)),
      (18, field (rd_string W) (\<lambda>v m. m\<lparr>dbr_workId := v\<rparr>)),
      (24, field (rd_int64 W) (\<lambda>v m. m\<lparr>dbr_workUnits := v\<rparr>)),
      (32, field (rd_uint64 W) (\<lambda>v m. m\<lparr>dbr_debitSeq := v\<rparr>))]"

definition decode_DebitBalanceRequest :: "wire \<Rightarrow> int \<Rightarrow> DebitBalanceRequest reader" where
  "decode_DebitBalanceRequest W end bs = decode_loop W (DebitBalanceRequest_fields W) end bs createBaseDebitBalanceRequest 0"

definition createBaseDebitBalanceResponse :: DebitBalanceResponse where
  "createBaseDebitBalanceResponse =
     \<lparr>dbr2_balance = []\<rparr>"

definition encode_DebitBalanceResponse :: "wire \<Rightarrow> DebitBalanceResponse writer" where
  "encode_DebitBalanceResponse W m = enc_seq
     [enc_bytes W 10 (dbr2_balance m)]"

definition DebitBalanceResponse_fields :: "wire \<Rightarrow> (nat \<times> DebitBalanceResponse field_reader) list" where
  "DebitBalanceResponse_fields W =
     [(10, field (rd_bytes W) (\<lambda>v m. m\<lparr>dbr2_balance := v\<rparr>))]"

definition decode_DebitBalanceResponse :: "wire \<Rightarrow> int \<Rightarrow> DebitBalanceResponse reader" where
  "decode_DebitBalanceResponse W end bs = decode_loop W (DebitBalanceResponse_fields W) end bs createBaseDebitBalanceResponse 0"

definition createBaseSufficientBalanceRequest :: SufficientBalanceRequest where
  "createBaseSufficientBalanceRequest =
     \<lparr>sbr_sender = [], sbr_workId = [], sbr_minWorkUnits = 0\<rparr>"

definition encode_SufficientBalanceRequest :: "wire \<Rightarrow> SufficientBalanceRequest writer" where
  "encode_SufficientBalanceRequest W m = enc_seq
     [enc_bytes W 10 (sbr_sender m), enc_string W 18 (sbr_workId m),
      enc_int64_checked W 24 ''minWorkUnits'' (sbr_minWorkUnits m)]"

definition SufficientBalanceRequest_fields :: "wire \<Rightarrow> (nat \<times> SufficientBalanceRequest field_reader) list" where
  "SufficientBalanceRequest_fields W =
     [(10, field (rd_bytes W) (\<lambda>v m. m\<lparr>sbr_sender := v\<rparr>)),
      (18, field (rd_string W) (\<lambda>v m. m\<lparr>sbr_workId := v\<rparr>)),
      (24, field (rd_int64 W) (\<lambda>v m. m\<lparr>sbr_minWorkUnits := v\<rparr>))]"

definition decode_SufficientBalanceRequest :: "wire \<Rightarrow> int \<Rightarrow> SufficientBalanceRequest reader" where
  "decode_SufficientBalanceRequest W end bs = decode_loop W (SufficientBalanceRequest_fields W) end bs createBaseSufficientBalanceRequest 0"

definition createBaseSufficientBalanceResponse :: SufficientBalanceResponse where
  "createBaseSufficientBalanceResponse =
     \<lparr>sbr2_sufficient = False, sbr2_balance = []\<rparr>"

definition encode_SufficientBalanceResponse :: "wire \<Rightarrow> SufficientBalanceResponse writer" where
  "encode_SufficientBalanceResponse W m = enc_seq
     [enc_bool W 8 (sbr2_sufficient m), enc_bytes W 18 (sbr2_balance m)]"

definition SufficientBalanceResponse_fields :: "wire \<Rightarrow> (nat \<times> SufficientBalanceResponse field_reader) list" where
  "SufficientBalanceResponse_fields W =
     [(8, field (rd_bool W) (\<lambda>v m. m\<lparr>sbr2_sufficient := v\<rparr>)),
      (18, field (rd_bytes W) (\<lambda>v m. m\<lparr>sbr2_balance := v\<rparr>))]"

definition decode_SufficientBalanceResponse :: "wire \<Rightarrow> int \<Rightarrow> SufficientBalanceResponse reader" where
  "decode_SufficientBalanceResponse W end bs = decode_loop W (SufficientBalanceResponse_fields W) end bs createBaseSufficientBalanceResponse 0"

definition createBaseGetBalanceRequest :: GetBalanceRequest where
  "createBaseGetBalanceRequest =
     \<lparr>gbr_sender = [], gbr_workId = []\<rparr>"

definition encode_GetBalanceRequest :: "wire \<Rightarrow> GetBalanceRequest writer" where
  "encode_GetBalanceRequest W m = enc_seq
     [enc_bytes W 10 (gbr_sender m), enc_string W 18 (gbr_workId m)]"

definition GetBalanceRequest_fields :: "wire \<Rightarrow> (nat \<times> GetBalanceRequest field_reader) list" where
  "GetBalanceRequest_fields W =
     [(10, field (rd_bytes W) (\<lambda>v m. m\<lparr>gbr_sender := v\<rparr>)),
      (18, field (rd_string W) (\<lambda>v m. m\<lparr>gbr_workId := v\<rparr>))]"

definition decode_GetBalanceRequest :: "wire \<Rightarrow> int \<Rightarrow> GetBalanceRequest reader" where
  "decode_GetBalanceRequest W end bs = decode_loop W (GetBalanceRequest_fields W) end bs createBaseGetBalanceRequest 0"

definition createBaseGetBalanceResponse :: GetBalanceResponse where
  "createBaseGetBalanceResponse =
     \<lparr>gbr2_balance = []\<rparr>"

definition encode_GetBalanceResponse :: "wire \<Rightarrow> GetBalanceResponse writer" where
  "encode_GetBalanceResponse W m = enc_seq
     [enc_bytes W 10 (gbr2_balance m)]"

definition GetBalanceResponse_fields :: "wire \<Rightarrow> (nat \<times> GetBalanceResponse field_reader) list" where
  "GetBalanceResponse_fields W =
     [(10, field (rd_bytes W) (\<lambda>v m. m\<lparr>gbr2_balance := v\<rparr>))]"

definition decode_GetBalanceResponse :: "wire \<Rightarrow> int \<Rightarrow> GetBalanceResponse reader" where
  "decode_GetBalanceResponse W end bs = decode_loop W (GetBalanceResponse_fields W) end bs createBaseGetBalanceResponse 0"

definition createBasePayeeDaemonCloseSessionRequest :: PayeeDaemonCloseSessionRequest where
  "createBasePayeeDaemonCloseSessionRequest =
     \<lparr>pdcsr_sender = [], pdcsr_workId = []\<rparr>"

definition encode_PayeeDaemonCloseSessionRequest :: "wire \<Rightarrow> PayeeDaemonCloseSessionRequest writer" where
  "encode_PayeeDaemonCloseSessionRequest W m = enc_seq
     [enc_bytes W 10 (pdcsr_sender m), enc_string W 18 (pdcsr_workId m)]"

definition PayeeDaemonCloseSessionRequest_fields :: "wire \<Rightarrow> (nat \<times> PayeeDaemonCloseSessionRequest field_reader) list" where
  "PayeeDaemonCloseSessionRequest_fields W =
     [(10, field (rd_bytes W) (\<lambda>v m. m\<lparr>pdcsr_sender := v\<rparr>)),
      (18, field (rd_string W) (\<lambda>v m. m\<lparr>pdcsr_workId := v\<rparr>))]"

definition decode_PayeeDaemonCloseSessionRequest :: "wire \<Rightarrow> int \<Rightarrow> PayeeDaemonCloseSessionRequest reader" where
  "decode_PayeeDaemonCloseSessionRequest W end bs = decode_loop W (PayeeDaemonCloseSessionRequest_fields W) end bs createBasePayeeDaemonCloseSessionRequest 0"

definition createBasePayeeDaemonCloseSessionResponse :: PayeeDaemonCloseSessionResponse where
  "createBasePayeeDaemonCloseSessionResponse =
     \<lparr>pdcsr2_outcome = 0\<rparr>"

definition encode_PayeeDaemonCloseSessionResponse :: "wire \<Rightarrow> PayeeDaemonCloseSessionResponse writer" where
  "encode_PayeeDaemonCloseSessionResponse W m = enc_seq
     [enc_int32 W 8 (pdcsr2_outcome m)]"

definition PayeeDaemonCloseSessionResponse_fields :: "wire \<Rightarrow> (nat \<times> PayeeDaemonCloseSessionResponse field_reader) list" where
  "PayeeDaemonCloseSessionResponse_fields W =
     [(8, field (rd_int32 W) (\<lambda>v m. m\<lparr>pdcsr2_outcome := v\<rparr>))]"

definition decode_PayeeDaemonCloseSessionResponse :: "wire \<Rightarrow> int \<Rightarrow> PayeeDaemonCloseSessionResponse reader" where
  "decode_PayeeDaemonCloseSessionResponse W end bs = decode_loop W (PayeeDaemonCloseSessionResponse_fields W) end bs createBasePayeeDaemonCloseSessionResponse 0"

definition createBaseListPendingRedemptionsRequest :: ListPendingRedemptionsRequest where
  "createBaseListPendingRedemptionsRequest =
     \<lparr>lprr_since = 0\<rparr>"

definition encode_ListPendingRedemptionsRequest :: "wire \<Rightarrow> ListPendingRedemptionsRequest writer" where
  "encode_ListPendingRedemptionsRequest W m = enc_seq
     [enc_int64_checked W 8 ''since'' (lprr_since m)]"

definition ListPendingRedemptionsRequest_fields :: "wire \<Rightarrow> (nat \<times> ListPendingRedemptionsRequest field_reader) list" where
  "ListPendingRedemptionsRequest_fields W =
     [(8, field (rd_int64 W) (\<lambda>v m. m\<lparr>lprr_since := v\<rparr>))]"

definition decode_ListPendingRedemptionsRequest :: "wire \<Rightarrow> int \<Rightarrow> ListPendingRedemptionsRequest reader" where
  "decode_ListPendingRedemptionsRequest W end bs = decode_loop W (ListPendingRedemptionsRequest_fields W) end bs createBaseListPendingRedemptionsRequest 0"

definition createBasePendingRedemption :: PendingRedemption where
  "createBasePendingRedemption =
     \<lparr>pr_ticketHash = [], pr_sender = [], pr_faceValue = [], pr_queuedAt = 0, pr_attempts = 0\<rparr>"

definition encode_PendingRedemption :: "wire \<Rightarrow> PendingRedemption writer" where
  "encode_PendingRedemption W m = enc_seq
     [enc_bytes W 10 (pr_ticketHash m), enc_bytes W 18 (pr_sender m), enc_bytes W 26 (pr_faceValue m),
      enc_int64_checked W 32 ''queuedAt'' (pr_queuedAt m), enc_int32 W 40 (pr_attempts m)]"

definition PendingRedemption_fields :: "wire \<Rightarrow> (nat \<times> PendingRedemption field_reader) list" where
  "PendingRedemption_fields W =
     [(10, field (rd_bytes W) (\<lambda>v m. m\<lparr>pr_ticketHash := v\<rparr>)),
      (18, field (rd_bytes W) (\<lambda>v m. m\<lparr>pr_sender := v\<rparr>)),
      (26, field (rd_bytes W) (\<lambda>v m. m\<lparr>pr_faceValue := v\<rparr>)),
      (32, field (rd_int64 W) (\<lambda>v m. m\<lparr>pr_queuedAt := v\<rparr>)),
      (40, field (rd_int32 W) (\<lambda>v m. m\<lparr>pr_attempts := v\<rparr>))]"

definition decode_PendingRedemption :: "wire \<Rightarrow> int \<Rightarrow> PendingRedemption reader" where
  "decode_PendingRedemption W end bs = decode_loop W (PendingRedemption_fields W) end bs createBasePendingRedemption 0"

definition createBaseListPendingRedemptionsResponse :: ListPendingRedemptionsResponse where
  "createBaseListPendingRedemptionsResponse =
     \<lparr>lprr2_redemptions = []\<rparr>"

definition encode_ListPendingRedemptionsResponse :: "wire \<Rightarrow> ListPendingRedemptionsResponse writer" where
  "encode_ListPendingRedemptionsResponse W m = enc_seq
     [enc_each W 10 (wr_message W (encode_PendingRedemption W)) (lprr2_redemptions m)]"

definition ListPendingRedemptionsResponse_fields :: "wire \<Rightarrow> (nat \<times> ListPendingRedemptionsResponse field_reader) list" where
  "ListPendingRedemptionsResponse_fields W =
     [(10, field (read_message W (decode_PendingRedemption W)) (\<lambda>v m. m\<lparr>lprr2_redemptions := lprr2_redemptions m @ [v]\<rparr>))]"

definition decode_ListPendingRedemptionsResponse :: "wire \<Rightarrow> int \<Rightarrow> ListPendingRedemptionsResponse reader" where
  "decode_ListPendingRedemptionsResponse W end bs = decode_loop W (ListPendingRedemptionsResponse_fields W) end bs createBaseListPendingRedemptionsResponse 0"

definition createBaseGetRedemptionStatusRequest :: GetRedemptionStatusRequest where
  "createBaseGetRedemptionStatusRequest =
     \<lparr>grsr_ticketHash = []\<rparr>"

definition encode_GetRedemptionStatusRequest :: "wire \<Rightarrow> GetRedemptionStatusRequest writer" where
  "encode_GetRedemptionStatusRequest W m = enc_seq
     [enc_bytes W 10 (grsr_ticketHash m)]"

definition GetRedemptionStatusRequest_fields :: "wire \<Rightarrow> (nat \<times> GetRedemptionStatusRequest field_reader) list" where
  "GetRedemptionStatusRequest_fields W =
     [(10, field (rd_bytes W) (\<lambda>v m. m\<lparr>grsr_ticketHash := v\<rparr>))]"

definition decode_GetRedemptionStatusRequest :: "wire \<Rightarrow> int \<Rightarrow> GetRedemptionStatusRequest reader" where
  "decode_GetRedemptionStatusRequest W end bs = decode_loop W (GetRedemptionStatusRequest_fields W) end bs createBaseGetRedemptionStatusRequest 0"

definition createBaseGetRedemptionStatusResponse :: GetRedemptionStatusResponse where
  "createBaseGetRedemptionStatusResponse =
     \<lparr>grsr2_status = 0, grsr2_txHash = [], grsr2_error = []\<rparr>"

definition encode_GetRedemptionStatusResponse :: "wire \<Rightarrow> GetRedemptionStatusResponse writer" where
  "encode_GetRedemptionStatusResponse W m = enc_seq
     [enc_int32 W 8 (grsr2_status m), enc_bytes W 18 (grsr2_txHash m), enc_string W 26 (grsr2_error m)]"

definition GetRedemptionStatusResponse_fields :: "wire \<Rightarrow> (nat \<times> GetRedemptionStatusResponse field_reader) list" where
  "GetRedemptionStatusResponse_fields W =
     [(8, field (rd_int32 W) (\<lambda>v m. m\<lparr>grsr2_status := v\<rparr>)),
      (18, field (rd_bytes W) (\<lambda>v m. m\<lparr>grsr2_txHash := v\<rparr>)),
      (26, field (rd_string W) (\<lambda>v m. m\<lparr>grsr2_error := v\<rparr>))]"

definition decode_GetRedemptionStatusResponse :: "wire \<Rightarrow> int \<Rightarrow> GetRedemptionStatusResponse reader" where
  "decode_GetRedemptionStatusResponse W end bs = decode_loop W (GetRedemptionStatusResponse_fields W) end bs createBaseGetRedemptionStatusResponse 0"

section \<open>Round trips\<close>

text \<open>Reading the elements of a repeated field one by one.\<close>

lemma fold_gqr2_offeringPrices: "fold (\<lambda>v m. m\<lparr>gqr2_offeringPrices := gqr2_offeringPrices m @ [v]\<rparr>) vs m = m\<lparr>gqr2_offeringPrices := gqr2_offeringPrices m @ vs\<rparr>"
  by (induction vs arbitrary: m) simp_all

lemma fold_ce_offerings: "fold (\<lambda>v m. m\<lparr>ce_offerings := ce_offerings m @ [v]\<rparr>) vs m = m\<lparr>ce_offerings := ce_offerings m @ vs\<rparr>"
  by (induction vs arbitrary: m) simp_all

lemma fold_lcr_capabilities: "fold (\<lambda>v m. m\<lparr>lcr_capabilities := lcr_capabilities m @ [v]\<rparr>) vs m = m\<lparr>lcr_capabilities := lcr_capabilities m @ vs\<rparr>"
  by (induction vs arbitrary: m) simp_all

lemma fold_lprr2_redemptions: "fold (\<lambda>v m. m\<lparr>lprr2_redemptions := lprr2_redemptions m @ [v]\<rparr>) vs m = m\<lparr>lprr2_redemptions := lprr2_redemptions m @ vs\<rparr>"
  by (induction vs arbitrary: m) simp_all

lemmas fold_fields = fold_gqr2_offeringPrices fold_ce_offerings fold_lcr_capabilities fold_lprr2_redemptions

context wire_format
begin

lemma GetQuoteRequest_emits: "emits W (GetQuoteRequest_fields W) createBaseGetQuoteRequest (encode_GetQuoteRequest W m) m"
  unfolding encode_GetQuoteRequest_def createBaseGetQuoteRequest_def
  by ((rule emits_intros back_intros | simp add: GetQuoteRequest_fields_def fold_fields; fail)+)

lemma GetQuoteRequest_back [back_intros]: "decodes_back (encode_GetQuoteRequest W) (decode_GetQuoteRequest W)"
  using GetQuoteRequest_emits by (rule decodes_backI) (simp add: decode_GetQuoteRequest_def)

lemma OfferingPrice_emits: "emits W (OfferingPrice_fields W) createBaseOfferingPrice (encode_OfferingPrice W m) m"
  unfolding encode_OfferingPrice_def createBaseOfferingPrice_def
  by ((rule emits_intros back_intros | simp add: OfferingPrice_fields_def fold_fields; fail)+)

lemma OfferingPrice_back [back_intros]: "decodes_back (encode_OfferingPrice W) (decode_OfferingPrice W)"
  using OfferingPrice_emits by (rule decodes_backI) (simp add: decode_OfferingPrice_def)

lemma GetQuoteResponse_emits: "emits W (GetQuoteResponse_fields W) createBaseGetQuoteResponse (encode_GetQuoteResponse W m) m"
  unfolding encode_GetQuoteResponse_def createBaseGetQuoteResponse_def
  by ((rule emits_intros back_intros | simp add: GetQuoteResponse_fields_def fold_fields; fail)+)

lemma GetQuoteResponse_back [back_intros]: "decodes_back (encode_GetQuoteResponse W) (decode_GetQuoteResponse W)"
  using GetQuoteResponse_emits by (rule decodes_backI) (simp add: decode_GetQuoteResponse_def)

lemma GetTicketParamsRequest_emits: "emits W (GetTicketParamsRequest_fields W) createBaseGetTicketParamsRequest (encode_GetTicketParamsRequest W m) m"
  unfolding encode_GetTicketParamsRequest_def createBaseGetTicketParamsRequest_def
  by ((rule emits_intros back_intros | simp add: GetTicketParamsRequest_fields_def fold_fields; fail)+)

lemma GetTicketParamsRequest_back [back_intros]: "decodes_back (encode_GetTicketParamsRequest W) (decode_GetTicketParamsRequest W)"
  using GetTicketParamsRequest_emits by (rule decodes_backI) (simp add: decode_GetTicketParamsRequest_def)

lemma GetTicketParamsResponse_emits: "emits W (GetTicketParamsResponse_fields W) createBaseGetTicketParamsResponse (encode_GetTicketParamsResponse W m) m"
  unfolding encode_GetTicketParamsResponse_def createBaseGetTicketParamsResponse_def
  by ((rule emits_intros back_intros | simp add: GetTicketParamsResponse_fields_def fold_fields; fail)+)

lemma GetTicketParamsResponse_back [back_intros]: "decodes_back (encode_GetTicketParamsResponse W) (decode_GetTicketParamsResponse W)"
  using GetTicketParamsResponse_emits by (rule decodes_backI) (simp add: decode_GetTicketParamsResponse_def)

lemma ListCapabilitiesRequest_emits: "emits W (ListCapabilitiesRequest_fields W) createBaseListCapabilitiesRequest (encode_ListCapabilitiesRequest W m) m"
  unfolding encode_ListCapabilitiesRequest_def createBaseListCapabilitiesRequest_def
  by ((rule emits_intros back_intros | simp add: ListCapabilitiesRequest_fields_def fold_fields; fail)+)

lemma ListCapabilitiesRequest_back [back_intros]: "decodes_back (encode_ListCapabilitiesRequest W) (decode_ListCapabilitiesRequest W)"
  using ListCapabilitiesRequest_emits by (rule decodes_backI) (simp add: decode_ListCapabilitiesRequest_def)

lemma CapabilityEntry_emits: "emits W (CapabilityEntry_fields W) createBaseCapabilityEntry (encode_CapabilityEntry W m) m"
  unfolding encode_CapabilityEntry_def createBaseCapabilityEntry_def
  by ((rule emits_intros back_intros | simp add: CapabilityEntry_fields_def fold_fields; fail)+)

lemma CapabilityEntry_back [back_intros]: "decodes_back (encode_CapabilityEntry W) (decode_CapabilityEntry W)"
  using CapabilityEntry_emits by (rule decodes_backI) (simp add: decode_CapabilityEntry_def)

lemma ListCapabilitiesResponse_emits: "emits W (ListCapabilitiesResponse_fields W) createBaseListCapabilitiesResponse (encode_ListCapabilitiesResponse W m) m"
  unfolding encode_ListCapabilitiesResponse_def createBaseListCapabilitiesResponse_def
  by ((rule emits_intros back_intros | simp add: ListCapabilitiesResponse_fields_def fold_fields; fail)+)

lemma ListCapabilitiesResponse_back [back_intros]: "decodes_back (encode_ListCapabilitiesResponse W) (decode_ListCapabilitiesResponse W)"
  using ListCapabilitiesResponse_emits by (rule decodes_backI) (simp add: decode_ListCapabilitiesResponse_def)

lemma OpenSessionRequest_emits: "emits W (OpenSessionRequest_fields W) createBaseOpenSessionRequest (encode_OpenSessionRequest W m) m"
  unfolding encode_OpenSessionRequest_def createBaseOpenSessionRequest_def
  by ((rule emits_intros back_intros | simp add: OpenSessionRequest_fields_def fold_fields; fail)+)

lemma OpenSessionRequest_back [back_intros]: "decodes_back (encode_OpenSessionRequest W) (decode_OpenSessionRequest W)"
  using OpenSessionRequest_emits by (rule decodes_backI) (simp add: decode_OpenSessionRequest_def)

lemma OpenSessionResponse_emits: "emits W (OpenSessionResponse_fields W) createBaseOpenSessionResponse (encode_OpenSessionResponse W m) m"
  unfolding encode_OpenSessionResponse_def createBaseOpenSessionResponse_def
  by ((rule emits_intros back_intros | simp add: OpenSessionResponse_fields_def fold_fields; fail)+)

lemma OpenSessionResponse_back [back_intros]: "decodes_back (encode_OpenSessionResponse W) (decode_OpenSessionResponse W)"
  using OpenSessionResponse_emits by (rule decodes_backI) (simp add: decode_OpenSessionResponse_def)

lemma ProcessPaymentRequest_emits: "emits W (ProcessPaymentRequest_fields W) createBaseProcessPaymentRequest (encode_ProcessPaymentRequest W m) m"
  unfolding encode_ProcessPaymentRequest_def createBaseProcessPaymentRequest_def
  by ((rule emits_intros back_intros | simp add: ProcessPaymentRequest_fields_def fold_fields; fail)+)

lemma ProcessPaymentRequest_back [back_intros]: "decodes_back (encode_ProcessPaymentRequest W) (decode_ProcessPaymentRequest W)"
  using ProcessPaymentRequest_emits by (rule decodes_backI) (simp add: decode_ProcessPaymentRequest_def)

lemma ProcessPaymentResponse_emits: "emits W (ProcessPaymentResponse_fields W) createBaseProcessPaymentResponse (encode_ProcessPaymentResponse W m) m"
  unfolding encode_ProcessPaymentResponse_def createBaseProcessPaymentResponse_def
  by ((rule emits_intros back_intros | simp add: ProcessPaymentResponse_fields_def fold_fields; fail)+)

lemma ProcessPaymentResponse_back [back_intros]: "decodes_back (encode_ProcessPaymentResponse W) (decode_ProcessPaymentResponse W)"
  using ProcessPaymentResponse_emits by (rule decodes_backI) (simp add: decode_ProcessPaymentResponse_def)

lemma DebitBalanceRequest_emits: "emits W (DebitBalanceRequest_fields W) createBaseDebitBalanceRequest (encode_DebitBalanceRequest W m) m"
  unfolding encode_DebitBalanceRequest_def createBaseDebitBalanceRequest_def
  by ((rule emits_intros back_intros | simp add: DebitBalanceRequest_fields_def fold_fields; fail)+)

lemma DebitBalanceRequest_back [back_intros]: "decodes_back (encode_DebitBalanceRequest W) (decode_DebitBalanceRequest W)"
  using DebitBalanceRequest_emits by (rule decodes_backI) (simp add: decode_DebitBalanceRequest_def)

lemma DebitBalanceResponse_emits: "emits W (DebitBalanceResponse_fields W) createBaseDebitBalanceResponse (encode_DebitBalanceResponse W m) m"
  unfolding encode_DebitBalanceResponse_def createBaseDebitBalanceResponse_def
  by ((rule emits_intros back_intros | simp add: DebitBalanceResponse_fields_def fold_fields; fail)+)

lemma DebitBalanceResponse_back [back_intros]: "decodes_back (encode_DebitBalanceResponse W) (decode_DebitBalanceResponse W)"
  using DebitBalanceResponse_emits by (rule decodes_backI) (simp add: decode_DebitBalanceResponse_def)

lemma SufficientBalanceRequest_emits: "emits W (SufficientBalanceRequest_fields W) createBaseSufficientBalanceRequest (encode_SufficientBalanceRequest W m) m"
  unfolding encode_SufficientBalanceRequest_def createBaseSufficientBalanceRequest_def
  by ((rule emits_intros back_intros | simp add: SufficientBalanceRequest_fields_def fold_fields; fail)+)

lemma SufficientBalanceRequest_back [back_intros]: "decodes_back (encode_SufficientBalanceRequest W) (decode_SufficientBalanceRequest W)"
  using SufficientBalanceRequest_emits by (rule decodes_backI) (simp add: decode_SufficientBalanceRequest_def)

lemma SufficientBalanceResponse_emits: "emits W (SufficientBalanceResponse_fields W) createBaseSufficientBalanceResponse (encode_SufficientBalanceResponse W m) m"
  unfolding encode_SufficientBalanceResponse_def createBaseSufficientBalanceResponse_def
  by ((rule emits_intros back_intros | simp add: SufficientBalanceResponse_fields_def fold_fields; fail)+)

lemma SufficientBalanceResponse_back [back_intros]: "decodes_back (encode_SufficientBalanceResponse W) (decode_SufficientBalanceResponse W)"
  using SufficientBalanceResponse_emits by (rule decodes_backI) (simp add: decode_SufficientBalanceResponse_def)

lemma GetBalanceRequest_emits: "emits W (GetBalanceRequest_fields W) createBaseGetBalanceRequest (encode_GetBalanceRequest W m) m"
  unfolding encode_GetBalanceRequest_def createBaseGetBalanceRequest_def
  by ((rule emits_intros back_intros | simp add: GetBalanceRequest_fields_def fold_fields; fail)+)

lemma GetBalanceRequest_back [back_intros]: "decodes_back (encode_GetBalanceRequest W) (decode_GetBalanceRequest W)"
  using GetBalanceRequest_emits by (rule decodes_backI) (simp add: decode_GetBalanceRequest_def)

lemma GetBalanceResponse_emits: "emits W (GetBalanceResponse_fields W) createBaseGetBalanceResponse (encode_GetBalanceResponse W m) m"
  unfolding encode_GetBalanceResponse_def createBaseGetBalanceResponse_def
  by ((rule emits_intros back_intros | simp add: GetBalanceResponse_fields_def fold_fields; fail)+)

lemma GetBalanceResponse_back [back_intros]: "decodes_back (encode_GetBalanceResponse W) (decode_GetBalanceResponse W)"
  using GetBalanceResponse_emits by (rule decodes_backI) (simp add: decode_GetBalanceResponse_def)

lemma PayeeDaemonCloseSessionRequest_emits: "emits W (PayeeDaemonCloseSessionRequest_fields W) createBasePayeeDaemonCloseSessionRequest (encode_PayeeDaemonCloseSessionRequest W m) m"
  unfolding encode_PayeeDaemonCloseSessionRequest_def createBasePayeeDaemonCloseSessionRequest_def
  by ((rule emits_intros back_intros | simp add: PayeeDaemonCloseSessionRequest_fields_def fold_fields; fail)+)

lemma PayeeDaemonCloseSessionRequest_back [back_intros]: "decodes_back (encode_PayeeDaemonCloseSessionRequest W) (decode_PayeeDaemonCloseSessionRequest W)"
  using PayeeDaemonCloseSessionRequest_emits by (rule decodes_backI) (simp add: decode_PayeeDaemonCloseSessionRequest_def)

lemma PayeeDaemonCloseSessionResponse_emits: "emits W (PayeeDaemonCloseSessionResponse_fields W) createBasePayeeDaemonCloseSessionResponse (encode_PayeeDaemonCloseSessionResponse W m) m"
  unfolding encode_PayeeDaemonCloseSessionResponse_def createBasePayeeDaemonCloseSessionResponse_def
  by ((rule emits_intros back_intros | simp add: PayeeDaemonCloseSessionResponse_fields_def fold_fields; fail)+)

lemma PayeeDaemonCloseSessionResponse_back [back_intros]: "decodes_back (encode_PayeeDaemonCloseSessionResponse W) (decode_PayeeDaemonCloseSessionResponse W)"
  using PayeeDaemonCloseSessionResponse_emits by (rule decodes_backI) (simp add: decode_PayeeDaemonCloseSessionResponse_def)

lemma ListPendingRedemptionsRequest_emits: "emits W (ListPendingRedemptionsRequest_fields W) createBaseListPendingRedemptionsRequest (encode_ListPendingRedemptionsRequest W m) m"
  unfolding encode_ListPendingRedemptionsRequest_def createBaseListPendingRedemptionsRequest_def
  by ((rule emits_intros back_intros | simp add: ListPendingRedemptionsRequest_fields_def fold_fields; fail)+)

lemma ListPendingRedemptionsRequest_back [back_intros]: "decodes_back (encode_ListPendingRedemptionsRequest W) (decode_ListPendingRedemptionsRequest W)"
  using ListPendingRedemptionsRequest_emits by (rule decodes_backI) (simp add: decode_ListPendingRedemptionsRequest_def)

lemma PendingRedemption_emits: "emits W (PendingRedemption_fields W) createBasePendingRedemption (encode_PendingRedemption W m) m"
  unfolding encode_PendingRedemption_def createBasePendingRedemption_def
  by ((rule emits_intros back_intros | simp add: PendingRedemption_fields_def fold_fields; fail)+)

lemma PendingRedemption_back [back_intros]: "decodes_back (encode_PendingRedemption W) (decode_PendingRedemption W)"
  using PendingRedemption_emits by (rule decodes_backI) (simp add: decode_PendingRedemption_def)

lemma ListPendingRedemptionsResponse_emits: "emits W (ListPendingRedemptionsResponse_fields W) createBaseListPendingRedemptionsResponse (encode_ListPendingRedemptionsResponse W m) m"
  unfolding encode_ListPendingRedemptionsResponse_def createBaseListPendingRedemptionsResponse_def
  by ((rule emits_intros back_intros | simp add: ListPendingRedemptionsResponse_fields_def fold_fields; fail)+)

lemma ListPendingRedemptionsResponse_back [back_intros]: "decodes_back (encode_ListPendingRedemptionsResponse W) (decode_ListPendingRedemptionsResponse W)"
  using ListPendingRedemptionsResponse_emits by (rule decodes_backI) (simp add: decode_ListPendingRedemptionsResponse_def)

lemma GetRedemptionStatusRequest_emits: "emits W (GetRedemptionStatusRequest_fields W) createBaseGetRedemptionStatusRequest (encode_GetRedemptionStatusRequest W m) m"
  unfolding encode_GetRedemptionStatusRequest_def createBaseGetRedemptionStatusRequest_def
  by ((rule emits_intros back_intros | simp add: GetRedemptionStatusRequest_fields_def fold_fields; fail)+)

lemma GetRedemptionStatusRequest_back [back_intros]: "decodes_back (encode_GetRedemptionStatusRequest W) (decode_GetRedemptionStatusRequest W)"
  using GetRedemptionStatusRequest_emits by (rule decodes_backI) (simp add: decode_GetRedemptionStatusRequest_def)

lemma GetRedemptionStatusResponse_emits: "emits W (GetRedemptionStatusResponse_fields W) createBaseGetRedemptionStatusResponse (encode_GetRedemptionStatusResponse W m) m"
  unfolding encode_GetRedemptionStatusResponse_def createBaseGetRedemptionStatusResponse_def
  by ((rule emits_intros back_intros | simp add: GetRedemptionStatusResponse_fields_def fold_fields; fail)+)

lemma GetRedemptionStatusResponse_back [back_intros]: "decodes_back (encode_GetRedemptionStatusResponse W) (decode_GetRedemptionStatusResponse W)"
  using GetRedemptionStatusResponse_emits by (rule decodes_backI) (simp add: decode_GetRedemptionStatusResponse_def)

end

end
