(* ===== verification/PublisherCodec.thy ===== *)
theory PublisherCodec
  imports RegistryCodec
begin

text \<open>
  The messages of the registry's publisher
  (\<^verbatim>\<open>src/providers/resolver/gen/livepeer/registry/v1/publisher.ts\<close>): the building, signing
  and publishing of a manifest, on the wire.
\<close>

section \<open>Messages\<close>

record IdentityResult =
  ir_ethAddress :: string

record BuildManifestRequest =
  bmr_proposedEthAddress :: string
  bmr_proposedNodes :: "Node list"

record BuildResult =
  br_manifestJson :: "byte list"
  br_canonicalBytes :: "byte list"
  br_canonicalSha256 :: string

record BuildAndSignRequest =
  basr_manifestJson :: "byte list"

record SignManifestRequest =
  smr_manifestJson :: "byte list"

record SignedManifest =
  sm_manifestJson :: "byte list"
  sm_signatureValue :: string

record TxHashResult =
  thr_txHash :: string

record ProbeWorkerRequest =
  pwr_url :: string
  pwr_timeoutSeconds :: int

record ProbeResult =
  pr2_capabilitiesJson :: "byte list"

section \<open>Publisher service\<close>

definition createBaseIdentityResult :: IdentityResult where
  "createBaseIdentityResult =
     \<lparr>ir_ethAddress = []\<rparr>"

definition encode_IdentityResult :: "wire \<Rightarrow> IdentityResult writer" where
  "encode_IdentityResult W m = enc_seq
     [enc_string W 10 (ir_ethAddress m)]"

definition IdentityResult_fields :: "wire \<Rightarrow> (nat \<times> IdentityResult field_reader) list" where
  "IdentityResult_fields W =
     [(10, field (rd_string W) (\<lambda>v m. m\<lparr>ir_ethAddress := v\<rparr>))]"

definition decode_IdentityResult :: "wire \<Rightarrow> int \<Rightarrow> IdentityResult reader" where
  "decode_IdentityResult W end bs = decode_loop W (IdentityResult_fields W) end bs createBaseIdentityResult 0"

definition createBaseBuildManifestRequest :: BuildManifestRequest where
  "createBaseBuildManifestRequest =
     \<lparr>bmr_proposedEthAddress = [], bmr_proposedNodes = []\<rparr>"

definition encode_BuildManifestRequest :: "wire \<Rightarrow> BuildManifestRequest writer" where
  "encode_BuildManifestRequest W m = enc_seq
     [enc_string W 10 (bmr_proposedEthAddress m),
      enc_each W 18 (wr_message W (encode_Node W)) (bmr_proposedNodes m)]"

definition BuildManifestRequest_fields :: "wire \<Rightarrow> (nat \<times> BuildManifestRequest field_reader) list" where
  "BuildManifestRequest_fields W =
     [(10, field (rd_string W) (\<lambda>v m. m\<lparr>bmr_proposedEthAddress := v\<rparr>)),
      (18, field (read_message W (decode_Node W)) (\<lambda>v m. m\<lparr>bmr_proposedNodes := bmr_proposedNodes m @ [v]\<rparr>))]"

definition decode_BuildManifestRequest :: "wire \<Rightarrow> int \<Rightarrow> BuildManifestRequest reader" where
  "decode_BuildManifestRequest W end bs = decode_loop W (BuildManifestRequest_fields W) end bs createBaseBuildManifestRequest 0"

definition createBaseBuildResult :: BuildResult where
  "createBaseBuildResult =
     \<lparr>br_manifestJson = [], br_canonicalBytes = [], br_canonicalSha256 = []\<rparr>"

definition encode_BuildResult :: "wire \<Rightarrow> BuildResult writer" where
  "encode_BuildResult W m = enc_seq
     [enc_bytes W 10 (br_manifestJson m), enc_bytes W 18 (br_canonicalBytes m),
      enc_string W 26 (br_canonicalSha256 m)]"

definition BuildResult_fields :: "wire \<Rightarrow> (nat \<times> BuildResult field_reader) list" where
  "BuildResult_fields W =
     [(10, field (rd_bytes W) (\<lambda>v m. m\<lparr>br_manifestJson := v\<rparr>)),
      (18, field (rd_bytes W) (\<lambda>v m. m\<lparr>br_canonicalBytes := v\<rparr>)),
      (26, field (rd_string W) (\<lambda>v m. m\<lparr>br_canonicalSha256 := v\<rparr>))]"

definition decode_BuildResult :: "wire \<Rightarrow> int \<Rightarrow> BuildResult reader" where
  "decode_BuildResult W end bs = decode_loop W (BuildResult_fields W) end bs createBaseBuildResult 0"

definition createBaseBuildAndSignRequest :: BuildAndSignRequest where
  "createBaseBuildAndSignRequest =
     \<lparr>basr_manifestJson = []\<rparr>"

definition encode_BuildAndSignRequest :: "wire \<Rightarrow> BuildAndSignRequest writer" where
  "encode_BuildAndSignRequest W m = enc_seq
     [enc_bytes W 10 (basr_manifestJson m)]"

definition BuildAndSignRequest_fields :: "wire \<Rightarrow> (nat \<times> BuildAndSignRequest field_reader) list" where
  "BuildAndSignRequest_fields W =
     [(10, field (rd_bytes W) (\<lambda>v m. m\<lparr>basr_manifestJson := v\<rparr>))]"

definition decode_BuildAndSignRequest :: "wire \<Rightarrow> int \<Rightarrow> BuildAndSignRequest reader" where
  "decode_BuildAndSignRequest W end bs = decode_loop W (BuildAndSignRequest_fields W) end bs createBaseBuildAndSignRequest 0"

definition createBaseSignManifestRequest :: SignManifestRequest where
  "createBaseSignManifestRequest =
     \<lparr>smr_manifestJson = []\<rparr>"

definition encode_SignManifestRequest :: "wire \<Rightarrow> SignManifestRequest writer" where
  "encode_SignManifestRequest W m = enc_seq
     [enc_bytes W 10 (smr_manifestJson m)]"

definition SignManifestRequest_fields :: "wire \<Rightarrow> (nat \<times> SignManifestRequest field_reader) list" where
  "SignManifestRequest_fields W =
     [(10, field (rd_bytes W) (\<lambda>v m. m\<lparr>smr_manifestJson := v\<rparr>))]"

definition decode_SignManifestRequest :: "wire \<Rightarrow> int \<Rightarrow> SignManifestRequest reader" where
  "decode_SignManifestRequest W end bs = decode_loop W (SignManifestRequest_fields W) end bs createBaseSignManifestRequest 0"

definition createBaseSignedManifest :: SignedManifest where
  "createBaseSignedManifest =
     \<lparr>sm_manifestJson = [], sm_signatureValue = []\<rparr>"

definition encode_SignedManifest :: "wire \<Rightarrow> SignedManifest writer" where
  "encode_SignedManifest W m = enc_seq
     [enc_bytes W 10 (sm_manifestJson m), enc_string W 18 (sm_signatureValue m)]"

definition SignedManifest_fields :: "wire \<Rightarrow> (nat \<times> SignedManifest field_reader) list" where
  "SignedManifest_fields W =
     [(10, field (rd_bytes W) (\<lambda>v m. m\<lparr>sm_manifestJson := v\<rparr>)),
      (18, field (rd_string W) (\<lambda>v m. m\<lparr>sm_signatureValue := v\<rparr>))]"

definition decode_SignedManifest :: "wire \<Rightarrow> int \<Rightarrow> SignedManifest reader" where
  "decode_SignedManifest W end bs = decode_loop W (SignedManifest_fields W) end bs createBaseSignedManifest 0"

definition createBaseTxHashResult :: TxHashResult where
  "createBaseTxHashResult =
     \<lparr>thr_txHash = []\<rparr>"

definition encode_TxHashResult :: "wire \<Rightarrow> TxHashResult writer" where
  "encode_TxHashResult W m = enc_seq
     [enc_string W 10 (thr_txHash m)]"

definition TxHashResult_fields :: "wire \<Rightarrow> (nat \<times> TxHashResult field_reader) list" where
  "TxHashResult_fields W =
     [(10, field (rd_string W) (\<lambda>v m. m\<lparr>thr_txHash := v\<rparr>))]"

definition decode_TxHashResult :: "wire \<Rightarrow> int \<Rightarrow> TxHashResult reader" where
  "decode_TxHashResult W end bs = decode_loop W (TxHashResult_fields W) end bs createBaseTxHashResult 0"

definition createBaseProbeWorkerRequest :: ProbeWorkerRequest where
  "createBaseProbeWorkerRequest =
     \<lparr>pwr_url = [], pwr_timeoutSeconds = 0\<rparr>"

definition encode_ProbeWorkerRequest :: "wire \<Rightarrow> ProbeWorkerRequest writer" where
  "encode_ProbeWorkerRequest W m = enc_seq
     [enc_string W 10 (pwr_url m), enc_int32 W 16 (pwr_timeoutSeconds m)]"

definition ProbeWorkerRequest_fields :: "wire \<Rightarrow> (nat \<times> ProbeWorkerRequest field_reader) list" where
  "ProbeWorkerRequest_fields W =
     [(10, field (rd_string W) (\<lambda>v m. m\<lparr>pwr_url := v\<rparr>)),
      (16, field (rd_int32 W) (\<lambda>v m. m\<lparr>pwr_timeoutSeconds := v\<rparr>))]"

definition decode_ProbeWorkerRequest :: "wire \<Rightarrow> int \<Rightarrow> ProbeWorkerRequest reader" where
  "decode_ProbeWorkerRequest W end bs = decode_loop W (ProbeWorkerRequest_fields W) end bs createBaseProbeWorkerRequest 0"

definition createBaseProbeResult :: ProbeResult where
  "createBaseProbeResult =
     \<lparr>pr2_capabilitiesJson = []\<rparr>"

definition encode_ProbeResult :: "wire \<Rightarrow> ProbeResult writer" where
  "encode_ProbeResult W m = enc_seq
     [enc_bytes W 10 (pr2_capabilitiesJson m)]"

definition ProbeResult_fields :: "wire \<Rightarrow> (nat \<times> ProbeResult field_reader) list" where
  "ProbeResult_fields W =
     [(10, field (rd_bytes W) (\<lambda>v m. m\<lparr>pr2_capabilitiesJson := v\<rparr>))]"

definition decode_ProbeResult :: "wire \<Rightarrow> int \<Rightarrow> ProbeResult reader" where
  "decode_ProbeResult W end bs = decode_loop W (ProbeResult_fields W) end bs createBaseProbeResult 0"

section \<open>Round trips\<close>

text \<open>Reading the elements of a repeated field one by one.\<close>

lemma fold_bmr_proposedNodes: "fold (\<lambda>v m. m\<lparr>bmr_proposedNodes := bmr_proposedNodes m @ [v]\<rparr>) vs m = m\<lparr>bmr_proposedNodes := bmr_proposedNodes m @ vs\<rparr>"
  by (induction vs arbitrary: m) simp_all

lemmas fold_fields = fold_bmr_proposedNodes

context wire_format
begin

lemma IdentityResult_emits: "emits W (IdentityResult_fields W) createBaseIdentityResult (encode_IdentityResult W m) m"
  unfolding encode_IdentityResult_def createBaseIdentityResult_def
  by ((rule emits_intros back_intros | simp add: IdentityResult_fields_def fold_fields; fail)+)

lemma IdentityResult_back [back_intros]: "decodes_back (encode_IdentityResult W) (decode_IdentityResult W)"
  using IdentityResult_emits by (rule decodes_backI) (simp add: decode_IdentityResult_def)

lemma BuildManifestRequest_emits: "emits W (BuildManifestRequest_fields W) createBaseBuildManifestRequest (encode_BuildManifestRequest W m) m"
  unfolding encode_BuildManifestRequest_def createBaseBuildManifestRequest_def
  by ((rule emits_intros back_intros | simp add: BuildManifestRequest_fields_def fold_fields; fail)+)

lemma BuildManifestRequest_back [back_intros]: "decodes_back (encode_BuildManifestRequest W) (decode_BuildManifestRequest W)"
  using BuildManifestRequest_emits by (rule decodes_backI) (simp add: decode_BuildManifestRequest_def)

lemma BuildResult_emits: "emits W (BuildResult_fields W) createBaseBuildResult (encode_BuildResult W m) m"
  unfolding encode_BuildResult_def createBaseBuildResult_def
  by ((rule emits_intros back_intros | simp add: BuildResult_fields_def fold_fields; fail)+)

lemma BuildResult_back [back_intros]: "decodes_back (encode_BuildResult W) (decode_BuildResult W)"
  using BuildResult_emits by (rule decodes_backI) (simp add: decode_BuildResult_def)

lemma BuildAndSignRequest_emits: "emits W (BuildAndSignRequest_fields W) createBaseBuildAndSignRequest (encode_BuildAndSignRequest W m) m"
  unfolding encode_BuildAndSignRequest_def createBaseBuildAndSignRequest_def
  by ((rule emits_intros back_intros | simp add: BuildAndSignRequest_fields_def fold_fields; fail)+)

lemma BuildAndSignRequest_back [back_intros]: "decodes_back (encode_BuildAndSignRequest W) (decode_BuildAndSignRequest W)"
  using BuildAndSignRequest_emits by (rule decodes_backI) (simp add: decode_BuildAndSignRequest_def)

lemma SignManifestRequest_emits: "emits W (SignManifestRequest_fields W) createBaseSignManifestRequest (encode_SignManifestRequest W m) m"
  unfolding encode_SignManifestRequest_def createBaseSignManifestRequest_def
  by ((rule emits_intros back_intros | simp add: SignManifestRequest_fields_def fold_fields; fail)+)

lemma SignManifestRequest_back [back_intros]: "decodes_back (encode_SignManifestRequest W) (decode_SignManifestRequest W)"
  using SignManifestRequest_emits by (rule decodes_backI) (simp add: decode_SignManifestRequest_def)

lemma SignedManifest_emits: "emits W (SignedManifest_fields W) createBaseSignedManifest (encode_SignedManifest W m) m"
  unfolding encode_SignedManifest_def createBaseSignedManifest_def
  by ((rule emits_intros back_intros | simp add: SignedManifest_fields_def fold_fields; fail)+)

lemma SignedManifest_back [back_intros]: "decodes_back (encode_SignedManifest W) (decode_SignedManifest W)"
  using SignedManifest_emits by (rule decodes_backI) (simp add: decode_SignedManifest_def)

lemma TxHashResult_emits: "emits W (TxHashResult_fields W) createBaseTxHashResult (encode_TxHashResult W m) m"
  unfolding encode_TxHashResult_def createBaseTxHashResult_def
  by ((rule emits_intros back_intros | simp add: TxHashResult_fields_def fold_fields; fail)+)

lemma TxHashResult_back [back_intros]: "decodes_back (encode_TxHashResult W) (decode_TxHashResult W)"
  using TxHashResult_emits by (rule decodes_backI) (simp add: decode_TxHashResult_def)

lemma ProbeWorkerRequest_emits: "emits W (ProbeWorkerRequest_fields W) createBaseProbeWorkerRequest (encode_ProbeWorkerRequest W m) m"
  unfolding encode_ProbeWorkerRequest_def createBaseProbeWorkerRequest_def
  by ((rule emits_intros back_intros | simp add: ProbeWorkerRequest_fields_def fold_fields; fail)+)

lemma ProbeWorkerRequest_back [back_intros]: "decodes_back (encode_ProbeWorkerRequest W) (decode_ProbeWorkerRequest W)"
  using ProbeWorkerRequest_emits by (rule decodes_backI) (simp add: decode_ProbeWorkerRequest_def)

lemma ProbeResult_emits: "emits W (ProbeResult_fields W) createBaseProbeResult (encode_ProbeResult W m) m"
  unfolding encode_ProbeResult_def createBaseProbeResult_def
  by ((rule emits_intros back_intros | simp add: ProbeResult_fields_def fold_fields; fail)+)

lemma ProbeResult_back [back_intros]: "decodes_back (encode_ProbeResult W) (decode_ProbeResult W)"
  using ProbeResult_emits by (rule decodes_backI) (simp add: decode_ProbeResult_def)

end

end
