(* ===== verification/ProtoWire.thy ===== *)
theory ProtoWire
  imports Wire
begin

text \<open>
  The wire the console speaks with its daemons: the binary format of protocol buffers as its
  encoding guide documents it, with variable-length integers, length-delimited values and
  32-bit numbers sign-extended to 64 bits. It is the instance of the parameter \<open>wire\<close> the
  messages are run on, and the interpretation of \<open>wire_format\<close> shows that it satisfies the
  laws the other lemmas ask. Groups, which no message of the console has, are refused.
\<close>

section \<open>Variable-length integers\<close>

function varint :: "nat \<Rightarrow> byte list" where
  "varint n = (if n < 128 then [of_nat n] else of_nat (128 + n mod 128) # varint (n div 128))"
  by pat_completeness auto

termination by (relation "measure id") auto

declare varint.simps [simp del]

fun unvarint :: "nat \<Rightarrow> byte list \<Rightarrow> (nat \<times> nat) option" where
  "unvarint 0 bs = None"
| "unvarint (Suc f) [] = None"
| "unvarint (Suc f) (b # bs) =
     (if unat b < 128 then Some (unat b, 1)
      else case unvarint f bs of None \<Rightarrow> None | Some (v, k) \<Rightarrow> Some (unat b - 128 + 128 * v, Suc k))"

lemma varint_nonempty [simp]: "varint n \<noteq> []"
  by (subst varint.simps) simp

lemma unvarint_varint:
  "n < 128 ^ f \<Longrightarrow> 0 < f \<Longrightarrow> unvarint f (varint n @ r) = Some (n, length (varint n))"
proof (induction n arbitrary: f rule: varint.induct)
  case (1 n)
  from 1(3) obtain g where f: "f = Suc g" by (cases f) auto
  show ?case
  proof (cases "n < 128")
    case True
    then show ?thesis by (simp add: f varint.simps [of n] unat_byte)
  next
    case False
    have g: "n div 128 < 128 ^ g" using 1(2) f by (simp add: less_mult_imp_div_less mult.commute)
    with False have "0 < g" by (cases g) auto
    with 1(1) False g have IH: "unvarint g (varint (n div 128) @ r) = Some (n div 128, length (varint (n div 128)))"
      by simp
    have u: "unat (of_nat (128 + n mod 128) :: byte) = 128 + n mod 128"
      by (rule unat_byte) (use mod_less_divisor [of 128 n] in linarith)
    have s: "varint n = of_nat (128 + n mod 128) # varint (n div 128)" using False by (simp add: varint.simps [of n])
    have "n mod 128 + 128 * (n div 128) = n" by simp
    then show ?thesis unfolding s f using IH u by (simp del: of_nat_add)
  qed
qed

section \<open>The methods\<close>

definition eof :: js_error where "eof = RangeError ''premature EOF''"

definition read_varint :: "nat reader" where
  "read_varint bs =
     (case unvarint 10 bs of
        None \<Rightarrow> Inl (if length bs < 10 then eof else PlainError ''invalid varint'')
      | Some (v, k) \<Rightarrow> Inr (v, k))"

definition read_word :: "nat \<Rightarrow> (nat \<Rightarrow> 'a) \<Rightarrow> 'a reader" where
  "read_word w f bs = (case read_varint bs of Inl e \<Rightarrow> Inl e | Inr (v, k) \<Rightarrow> Inr (f (v mod 2 ^ w), k))"

definition to_signed :: "nat \<Rightarrow> nat \<Rightarrow> int" where
  "to_signed w n = (if n < 2 ^ (w - 1) then int n else int n - 2 ^ w)"

definition write_uint32 :: "nat writer" where
  "write_uint32 n = (if n < 2 ^ 32 then Inr (varint n) else Inl (PlainError ''invalid uint32''))"

definition write_signed :: "nat \<Rightarrow> int writer" where
  "write_signed w v =
     (if - (2 ^ (w - 1)) \<le> v \<and> v < 2 ^ (w - 1) then Inr (varint (nat (v mod 2 ^ 64)))
      else Inl (PlainError ''invalid integer''))"

definition write_uint64 :: "int writer" where
  "write_uint64 v =
     (if 0 \<le> v \<and> v < 2 ^ 64 then Inr (varint (nat v)) else Inl (PlainError ''invalid integer''))"

definition read_delimited :: "byte list reader" where
  "read_delimited bs =
     (case read_word 32 id bs of
        Inl e \<Rightarrow> Inl e
      | Inr (len, k) \<Rightarrow> if length (drop k bs) < len then Inl eof else Inr (take len (drop k bs), k + len))"

definition write_delimited :: "byte list writer" where
  "write_delimited b = res_bind (write_uint32 (length b)) (\<lambda>p. Inr (p @ b))"

text \<open>The text of valid bytes, for the characters a model string has.\<close>

fun utf8_text :: "byte list \<Rightarrow> string" where
  "utf8_text (b # bs) =
     (if unat b < 128 then char_of (unat b) # utf8_text bs
      else case bs of [] \<Rightarrow> [] | c # cs \<Rightarrow> char_of ((unat b - 192) * 64 + (unat c - 128)) # utf8_text cs)"
| "utf8_text [] = []"

definition read_text :: "string reader" where
  "read_text bs = (case read_delimited bs of Inl e \<Rightarrow> Inl e | Inr (b, k) \<Rightarrow> Inr (utf8_text b, k))"

definition skip_bytes :: "nat \<Rightarrow> byte list \<Rightarrow> js_error + nat" where
  "skip_bytes n bs = (if length bs < n then Inl eof else Inr n)"

definition skip_value :: "nat \<Rightarrow> byte list \<Rightarrow> js_error + nat" where
  "skip_value ty bs =
     (if ty = 0 then map_sum id snd (read_varint bs)
      else if ty = 1 then skip_bytes 8 bs
      else if ty = 2 then map_sum id snd (read_delimited bs)
      else if ty = 5 then skip_bytes 4 bs
      else Inl (PlainError ''cannot skip this wire type''))"

definition proto_wire :: wire where
  "proto_wire =
     \<lparr>rd_eof = eof,
      rd_uint32 = (\<lambda>bs. map_sum id (\<lambda>(v, k). (v, k - 1)) (read_word 32 id bs)),
      rd_int32 = read_word 32 (to_signed 32),
      rd_int64 = read_word 64 (to_signed 64),
      rd_uint64 = read_word 64 int,
      rd_bool = read_word 64 (\<lambda>n. n \<noteq> 0),
      rd_string = read_text,
      rd_bytes = read_delimited,
      rd_skip = skip_value,
      wr_uint32 = write_uint32,
      wr_int32 = write_signed 32,
      wr_int64 = write_signed 64,
      wr_uint64 = write_uint64,
      wr_bool = (\<lambda>b. Inr (varint (if b then 1 else 0))),
      wr_string = (\<lambda>s. write_delimited (utf8_bytes s)),
      wr_bytes = write_delimited,
      wr_join = write_delimited\<rparr>"

section \<open>The laws\<close>

lemma read_varint_back:
  assumes "n < 2 ^ 64"
  shows "read_varint (varint n @ r) = Inr (n, length (varint n))"
proof -
  have "n < 128 ^ 10" using assms by simp
  then show ?thesis by (simp add: read_varint_def unvarint_varint)
qed

lemma read_word_back:
  "n < 2 ^ 64 \<Longrightarrow> read_word w f (varint n @ r) = Inr (f (n mod 2 ^ w), length (varint n))"
  by (simp add: read_word_def read_varint_back)

lemma to_signed_mod:
  assumes "- (2 ^ w) \<le> v" and "v < 2 ^ w"
  shows "to_signed (Suc w) (nat (v mod 2 ^ Suc w)) = v"
proof (cases "0 \<le> v")
  case True
  then have "v mod 2 ^ Suc w = v" using assms by (intro mod_pos_pos_trivial) simp_all
  with True assms show ?thesis by (simp add: to_signed_def nat_less_iff)
next
  case False
  have "v mod 2 ^ Suc w = (v + 2 ^ Suc w) mod 2 ^ Suc w" by simp
  also have "\<dots> = v + 2 ^ Suc w" using False assms by (intro mod_pos_pos_trivial) simp_all
  finally have "v mod 2 ^ Suc w = v + 2 ^ Suc w" .
  with False assms show ?thesis by (simp add: to_signed_def nat_less_iff)
qed

lemma write_signed_back:
  assumes "w = 31 \<or> w = 63"
  shows "reads_back (write_signed (Suc w)) (read_word (Suc w) (to_signed (Suc w)))"
  unfolding reads_back_def
proof (intro allI impI)
  fix v b r assume "write_signed (Suc w) v = Inr b"
  then have v: "- (2 ^ w) \<le> v" "v < 2 ^ w" and b: "b = varint (nat (v mod 2 ^ 64))"
    by (auto simp: write_signed_def split: if_splits)
  have "(2 :: int) ^ Suc w dvd 2 ^ 64" using assms by (intro le_imp_power_dvd) auto
  then have "v mod 2 ^ 64 mod 2 ^ Suc w = v mod 2 ^ Suc w" by (rule mod_mod_cancel)
  then have "nat (v mod 2 ^ 64) mod 2 ^ Suc w = nat (v mod 2 ^ Suc w)"
    by (metis nat_mod_distrib nat_numeral nat_power_eq pos_mod_sign zero_le_numeral zero_le_power zero_less_numeral zero_less_power)
  moreover have "nat (v mod 2 ^ 64) < 2 ^ 64" by (simp add: nat_less_iff)
  ultimately show "read_word (Suc w) (to_signed (Suc w)) (b @ r) = Inr (v, length b)"
    using to_signed_mod [OF v] by (simp only: b read_word_back)
qed

lemma read_delimited_back:
  assumes "write_uint32 (length b) = Inr p"
  shows "read_delimited (p @ b @ r) = Inr (b, length p + length b)"
proof -
  have p: "p = varint (length b)" "length b < 2 ^ 32" using assms by (auto simp: write_uint32_def split: if_splits)
  then have "length b < 2 ^ 64" by simp
  with p show ?thesis by (simp add: read_delimited_def read_word_back)
qed

lemma utf8_text_bytes: "utf8_text (utf8_bytes s) = s"
proof (induction s)
  case (Cons c s)
  have s: "utf8_bytes (c # s) = utf8_char c @ utf8_bytes s" by (simp add: utf8_bytes_def)
  show ?case
  proof (cases c rule: utf8_char_cases)
    case one
    with Cons show ?thesis by (simp add: s unat_byte)
  next
    case two
    have lt: "of_char c < (256 :: nat)" by simp
    have "of_char c div 64 < (4 :: nat)" using lt by linarith
    then have a: "unat (of_nat (192 + of_char c div 64) :: byte) = 192 + of_char c div 64"
      by (intro unat_byte) simp
    have "of_char c mod 64 < (64 :: nat)" by simp
    then have b: "unat (of_nat (128 + of_char c mod 64) :: byte) = 128 + of_char c mod 64"
      by (intro unat_byte) simp
    show ?thesis unfolding s two(2) using Cons a b by (simp del: of_nat_add)
  qed
qed (simp add: utf8_bytes_def)

interpretation pw: wire_format proto_wire
proof
  show "reads_back (wr_uint32 proto_wire) (read_uint32 proto_wire)"
    by (auto simp: reads_back_def proto_wire_def read_uint32_def write_uint32_def read_word_back split: if_splits)
  show "reads_back (wr_int32 proto_wire) (rd_int32 proto_wire)" "reads_back (wr_int64 proto_wire) (rd_int64 proto_wire)"
    using write_signed_back [of 31] write_signed_back [of 63] by (simp_all add: proto_wire_def)
  show "reads_back (wr_uint64 proto_wire) (rd_uint64 proto_wire)"
    by (auto simp: reads_back_def proto_wire_def write_uint64_def read_word_back nat_less_iff split: if_splits)
  show "reads_back (wr_bool proto_wire) (rd_bool proto_wire)"
    by (auto simp: reads_back_def proto_wire_def read_word_back)
  show "reads_back (wr_string proto_wire) (rd_string proto_wire)"
    by (auto simp: reads_back_def proto_wire_def write_delimited_def res_bind_eq_Inr read_text_def
        read_delimited_back utf8_text_bytes)
  show "reads_back (wr_bytes proto_wire) (rd_bytes proto_wire)"
    by (auto simp: reads_back_def proto_wire_def write_delimited_def res_bind_eq_Inr read_delimited_back)
next
  fix b j assume "wr_join proto_wire b = Inr j"
  then obtain p where j: "j = p @ b" and p: "write_uint32 (length b) = Inr p"
    by (auto simp: proto_wire_def write_delimited_def res_bind_eq_Inr)
  have "read_uint32 proto_wire (p @ r) = Inr (length b, length p)" for r
    using p by (auto simp: proto_wire_def read_uint32_def write_uint32_def read_word_back split: if_splits)
  with j show "\<exists>p. j = p @ b \<and> (\<forall>r. read_uint32 proto_wire (p @ r) = Inr (length b, length p))" by blast
qed

end
