(* ===== verification/Stubs.thy ===== *)
theory Stubs
  imports World RegistryCodec PayerCodec PayeeCodec PublisherCodec ProtoWire
begin

text \<open>
  The unary methods of the four generated services (the \<^verbatim>\<open>Service\<close> objects at the end of
  \<^verbatim>\<open>resolver.ts\<close>, \<^verbatim>\<open>publisher.ts\<close>, \<^verbatim>\<open>payer_daemon.ts\<close> and \<^verbatim>\<open>payee_daemon.ts\<close>): the path of each and
  its four conversions; what a stub makes of a call; and the outside world with every daemon
  call made through the stubs. How the bytes travel, and how a failing conversion is
  reported, belongs to the RPC library, the parameter \<open>transport\<close>. The lemmas show that a
  call through the stubs is the call of the daemon on messages.
\<close>

section \<open>Methods\<close>

record ('q, 'r) rpc_method =
  me_path :: string
  me_requestSerialize :: "'q \<Rightarrow> js_error + byte list"
  me_requestDeserialize :: "byte list \<Rightarrow> js_error + 'q"
  me_responseSerialize :: "'r \<Rightarrow> js_error + byte list"
  me_responseDeserialize :: "byte list \<Rightarrow> js_error + 'r"

text \<open>\<^verbatim>\<open>decode(value)\<close> on a whole buffer: no length is given, so the end is the buffer's.\<close>

definition decode_all :: "(int \<Rightarrow> 'a reader) \<Rightarrow> byte list \<Rightarrow> js_error + 'a" where
  "decode_all dec bs = map_sum id fst (dec (int (length bs)) bs)"

subsection \<open>Resolver\<close>

definition Resolver_resolveByAddress :: "wire \<Rightarrow> (ResolveByAddressRequest, ResolveResult) rpc_method" where
  "Resolver_resolveByAddress W =
     \<lparr>me_path = ''/livepeer.registry.v1.Resolver/ResolveByAddress'',
      me_requestSerialize = encode_ResolveByAddressRequest W,
      me_requestDeserialize = decode_all (decode_ResolveByAddressRequest W),
      me_responseSerialize = encode_ResolveResult W,
      me_responseDeserialize = decode_all (decode_ResolveResult W)\<rparr>"

definition Resolver_select :: "wire \<Rightarrow> (SelectRequest, ProtoSelectResult) rpc_method" where
  "Resolver_select W =
     \<lparr>me_path = ''/livepeer.registry.v1.Resolver/Select'',
      me_requestSerialize = encode_SelectRequest W,
      me_requestDeserialize = decode_all (decode_SelectRequest W),
      me_responseSerialize = encode_SelectResult W,
      me_responseDeserialize = decode_all (decode_SelectResult W)\<rparr>"

definition Resolver_listKnown :: "wire \<Rightarrow> (unit, ListKnownResult) rpc_method" where
  "Resolver_listKnown W =
     \<lparr>me_path = ''/livepeer.registry.v1.Resolver/ListKnown'',
      me_requestSerialize = encode_ListKnownRequest W,
      me_requestDeserialize = decode_all (decode_ListKnownRequest W),
      me_responseSerialize = encode_ListKnownResult W,
      me_responseDeserialize = decode_all (decode_ListKnownResult W)\<rparr>"

definition Resolver_refresh :: "wire \<Rightarrow> (RefreshRequest, unit) rpc_method" where
  "Resolver_refresh W =
     \<lparr>me_path = ''/livepeer.registry.v1.Resolver/Refresh'',
      me_requestSerialize = encode_RefreshRequest W,
      me_requestDeserialize = decode_all (decode_RefreshRequest W),
      me_responseSerialize = encode_Empty W,
      me_responseDeserialize = decode_all (decode_Empty W)\<rparr>"

definition Resolver_getAuditLog :: "wire \<Rightarrow> (GetAuditLogRequest, AuditLogResult) rpc_method" where
  "Resolver_getAuditLog W =
     \<lparr>me_path = ''/livepeer.registry.v1.Resolver/GetAuditLog'',
      me_requestSerialize = encode_GetAuditLogRequest W,
      me_requestDeserialize = decode_all (decode_GetAuditLogRequest W),
      me_responseSerialize = encode_AuditLogResult W,
      me_responseDeserialize = decode_all (decode_AuditLogResult W)\<rparr>"

definition Resolver_health :: "wire \<Rightarrow> (unit, HealthResult) rpc_method" where
  "Resolver_health W =
     \<lparr>me_path = ''/livepeer.registry.v1.Resolver/Health'',
      me_requestSerialize = encode_Empty W,
      me_requestDeserialize = decode_all (decode_Empty W),
      me_responseSerialize = encode_HealthResult W,
      me_responseDeserialize = decode_all (decode_HealthResult W)\<rparr>"

subsection \<open>PayerDaemon\<close>

definition PayerDaemon_createPayment :: "wire \<Rightarrow> (CreatePaymentRequest, CreatePaymentResponse) rpc_method" where
  "PayerDaemon_createPayment W =
     \<lparr>me_path = ''/livepeer.payments.v1.PayerDaemon/CreatePayment'',
      me_requestSerialize = encode_CreatePaymentRequest W,
      me_requestDeserialize = decode_all (decode_CreatePaymentRequest W),
      me_responseSerialize = encode_CreatePaymentResponse W,
      me_responseDeserialize = decode_all (decode_CreatePaymentResponse W)\<rparr>"

definition PayerDaemon_getDepositInfo :: "wire \<Rightarrow> (unit, GetDepositInfoResponse) rpc_method" where
  "PayerDaemon_getDepositInfo W =
     \<lparr>me_path = ''/livepeer.payments.v1.PayerDaemon/GetDepositInfo'',
      me_requestSerialize = encode_GetDepositInfoRequest W,
      me_requestDeserialize = decode_all (decode_GetDepositInfoRequest W),
      me_responseSerialize = encode_GetDepositInfoResponse W,
      me_responseDeserialize = decode_all (decode_GetDepositInfoResponse W)\<rparr>"

subsection \<open>PayeeDaemon\<close>

definition PayeeDaemon_getQuote :: "wire \<Rightarrow> (GetQuoteRequest, GetQuoteResponse) rpc_method" where
  "PayeeDaemon_getQuote W =
     \<lparr>me_path = ''/livepeer.payments.v1.PayeeDaemon/GetQuote'',
      me_requestSerialize = encode_GetQuoteRequest W,
      me_requestDeserialize = decode_all (decode_GetQuoteRequest W),
      me_responseSerialize = encode_GetQuoteResponse W,
      me_responseDeserialize = decode_all (decode_GetQuoteResponse W)\<rparr>"

definition PayeeDaemon_getTicketParams :: "wire \<Rightarrow> (GetTicketParamsRequest, GetTicketParamsResponse) rpc_method" where
  "PayeeDaemon_getTicketParams W =
     \<lparr>me_path = ''/livepeer.payments.v1.PayeeDaemon/GetTicketParams'',
      me_requestSerialize = encode_GetTicketParamsRequest W,
      me_requestDeserialize = decode_all (decode_GetTicketParamsRequest W),
      me_responseSerialize = encode_GetTicketParamsResponse W,
      me_responseDeserialize = decode_all (decode_GetTicketParamsResponse W)\<rparr>"

definition PayeeDaemon_listCapabilities :: "wire \<Rightarrow> (unit, ListCapabilitiesResponse) rpc_method" where
  "PayeeDaemon_listCapabilities W =
     \<lparr>me_path = ''/livepeer.payments.v1.PayeeDaemon/ListCapabilities'',
      me_requestSerialize = encode_ListCapabilitiesRequest W,
      me_requestDeserialize = decode_all (decode_ListCapabilitiesRequest W),
      me_responseSerialize = encode_ListCapabilitiesResponse W,
      me_responseDeserialize = decode_all (decode_ListCapabilitiesResponse W)\<rparr>"

definition PayeeDaemon_openSession :: "wire \<Rightarrow> (OpenSessionRequest, OpenSessionResponse) rpc_method" where
  "PayeeDaemon_openSession W =
     \<lparr>me_path = ''/livepeer.payments.v1.PayeeDaemon/OpenSession'',
      me_requestSerialize = encode_OpenSessionRequest W,
      me_requestDeserialize = decode_all (decode_OpenSessionRequest W),
      me_responseSerialize = encode_OpenSessionResponse W,
      me_responseDeserialize = decode_all (decode_OpenSessionResponse W)\<rparr>"

definition PayeeDaemon_processPayment :: "wire \<Rightarrow> (ProcessPaymentRequest, ProcessPaymentResponse) rpc_method" where
  "PayeeDaemon_processPayment W =
     \<lparr>me_path = ''/livepeer.payments.v1.PayeeDaemon/ProcessPayment'',
      me_requestSerialize = encode_ProcessPaymentRequest W,
      me_requestDeserialize = decode_all (decode_ProcessPaymentRequest W),
      me_responseSerialize = encode_ProcessPaymentResponse W,
      me_responseDeserialize = decode_all (decode_ProcessPaymentResponse W)\<rparr>"

definition PayeeDaemon_debitBalance :: "wire \<Rightarrow> (DebitBalanceRequest, DebitBalanceResponse) rpc_method" where
  "PayeeDaemon_debitBalance W =
     \<lparr>me_path = ''/livepeer.payments.v1.PayeeDaemon/DebitBalance'',
      me_requestSerialize = encode_DebitBalanceRequest W,
      me_requestDeserialize = decode_all (decode_DebitBalanceRequest W),
      me_responseSerialize = encode_DebitBalanceResponse W,
      me_responseDeserialize = decode_all (decode_DebitBalanceResponse W)\<rparr>"

definition PayeeDaemon_sufficientBalance :: "wire \<Rightarrow> (SufficientBalanceRequest, SufficientBalanceResponse) rpc_method" where
  "PayeeDaemon_sufficientBalance W =
     \<lparr>me_path = ''/livepeer.payments.v1.PayeeDaemon/SufficientBalance'',
      me_requestSerialize = encode_SufficientBalanceRequest W,
      me_requestDeserialize = decode_all (decode_SufficientBalanceRequest W),
      me_responseSerialize = encode_SufficientBalanceResponse W,
      me_responseDeserialize = decode_all (decode_SufficientBalanceResponse W)\<rparr>"

definition PayeeDaemon_getBalance :: "wire \<Rightarrow> (GetBalanceRequest, GetBalanceResponse) rpc_method" where
  "PayeeDaemon_getBalance W =
     \<lparr>me_path = ''/livepeer.payments.v1.PayeeDaemon/GetBalance'',
      me_requestSerialize = encode_GetBalanceRequest W,
      me_requestDeserialize = decode_all (decode_GetBalanceRequest W),
      me_responseSerialize = encode_GetBalanceResponse W,
      me_responseDeserialize = decode_all (decode_GetBalanceResponse W)\<rparr>"

definition PayeeDaemon_closeSession :: "wire \<Rightarrow> (PayeeDaemonCloseSessionRequest, PayeeDaemonCloseSessionResponse) rpc_method" where
  "PayeeDaemon_closeSession W =
     \<lparr>me_path = ''/livepeer.payments.v1.PayeeDaemon/CloseSession'',
      me_requestSerialize = encode_PayeeDaemonCloseSessionRequest W,
      me_requestDeserialize = decode_all (decode_PayeeDaemonCloseSessionRequest W),
      me_responseSerialize = encode_PayeeDaemonCloseSessionResponse W,
      me_responseDeserialize = decode_all (decode_PayeeDaemonCloseSessionResponse W)\<rparr>"

definition PayeeDaemon_listPendingRedemptions :: "wire \<Rightarrow> (ListPendingRedemptionsRequest, ListPendingRedemptionsResponse) rpc_method" where
  "PayeeDaemon_listPendingRedemptions W =
     \<lparr>me_path = ''/livepeer.payments.v1.PayeeDaemon/ListPendingRedemptions'',
      me_requestSerialize = encode_ListPendingRedemptionsRequest W,
      me_requestDeserialize = decode_all (decode_ListPendingRedemptionsRequest W),
      me_responseSerialize = encode_ListPendingRedemptionsResponse W,
      me_responseDeserialize = decode_all (decode_ListPendingRedemptionsResponse W)\<rparr>"

definition PayeeDaemon_getRedemptionStatus :: "wire \<Rightarrow> (GetRedemptionStatusRequest, GetRedemptionStatusResponse) rpc_method" where
  "PayeeDaemon_getRedemptionStatus W =
     \<lparr>me_path = ''/livepeer.payments.v1.PayeeDaemon/GetRedemptionStatus'',
      me_requestSerialize = encode_GetRedemptionStatusRequest W,
      me_requestDeserialize = decode_all (decode_GetRedemptionStatusRequest W),
      me_responseSerialize = encode_GetRedemptionStatusResponse W,
      me_responseDeserialize = decode_all (decode_GetRedemptionStatusResponse W)\<rparr>"

subsection \<open>Publisher\<close>

definition Publisher_getIdentity :: "wire \<Rightarrow> (unit, IdentityResult) rpc_method" where
  "Publisher_getIdentity W =
     \<lparr>me_path = ''/livepeer.registry.v1.Publisher/GetIdentity'',
      me_requestSerialize = encode_Empty W,
      me_requestDeserialize = decode_all (decode_Empty W),
      me_responseSerialize = encode_IdentityResult W,
      me_responseDeserialize = decode_all (decode_IdentityResult W)\<rparr>"

definition Publisher_buildManifest :: "wire \<Rightarrow> (BuildManifestRequest, BuildResult) rpc_method" where
  "Publisher_buildManifest W =
     \<lparr>me_path = ''/livepeer.registry.v1.Publisher/BuildManifest'',
      me_requestSerialize = encode_BuildManifestRequest W,
      me_requestDeserialize = decode_all (decode_BuildManifestRequest W),
      me_responseSerialize = encode_BuildResult W,
      me_responseDeserialize = decode_all (decode_BuildResult W)\<rparr>"

definition Publisher_signManifest :: "wire \<Rightarrow> (SignManifestRequest, SignedManifest) rpc_method" where
  "Publisher_signManifest W =
     \<lparr>me_path = ''/livepeer.registry.v1.Publisher/SignManifest'',
      me_requestSerialize = encode_SignManifestRequest W,
      me_requestDeserialize = decode_all (decode_SignManifestRequest W),
      me_responseSerialize = encode_SignedManifest W,
      me_responseDeserialize = decode_all (decode_SignedManifest W)\<rparr>"

definition Publisher_buildAndSign :: "wire \<Rightarrow> (BuildAndSignRequest, SignedManifest) rpc_method" where
  "Publisher_buildAndSign W =
     \<lparr>me_path = ''/livepeer.registry.v1.Publisher/BuildAndSign'',
      me_requestSerialize = encode_BuildAndSignRequest W,
      me_requestDeserialize = decode_all (decode_BuildAndSignRequest W),
      me_responseSerialize = encode_SignedManifest W,
      me_responseDeserialize = decode_all (decode_SignedManifest W)\<rparr>"

definition Publisher_probeWorker :: "wire \<Rightarrow> (ProbeWorkerRequest, ProbeResult) rpc_method" where
  "Publisher_probeWorker W =
     \<lparr>me_path = ''/livepeer.registry.v1.Publisher/ProbeWorker'',
      me_requestSerialize = encode_ProbeWorkerRequest W,
      me_requestDeserialize = decode_all (decode_ProbeWorkerRequest W),
      me_responseSerialize = encode_ProbeResult W,
      me_responseDeserialize = decode_all (decode_ProbeResult W)\<rparr>"

definition Publisher_health :: "wire \<Rightarrow> (unit, HealthResult) rpc_method" where
  "Publisher_health W =
     \<lparr>me_path = ''/livepeer.registry.v1.Publisher/Health'',
      me_requestSerialize = encode_Empty W,
      me_requestDeserialize = decode_all (decode_Empty W),
      me_responseSerialize = encode_HealthResult W,
      me_responseDeserialize = decode_all (decode_HealthResult W)\<rparr>"

section \<open>Calls\<close>

record 'w transport =
  tr_unary :: "string \<Rightarrow> byte list \<Rightarrow> int \<Rightarrow> ('w, byte list) call"
  tr_request_error :: "js_error \<Rightarrow> js_error"
  tr_response_error :: "js_error \<Rightarrow> js_error"

definition stub_call :: "'w transport \<Rightarrow> ('q, 'r) rpc_method \<Rightarrow> 'q \<Rightarrow> int \<Rightarrow> ('w, 'r) call" where
  "stub_call T M req deadline =
     io_bind (io_lift (map_sum (tr_request_error T) id (me_requestSerialize M req))) (\<lambda>bytes.
     io_bind (tr_unary T (me_path M) bytes deadline) (\<lambda>reply.
     io_lift (map_sum (tr_response_error T) id (me_responseDeserialize M reply))))"

text \<open>The world with the calls of the two clients made through their stubs.\<close>

definition over_wire :: "wire \<Rightarrow> 'w transport \<Rightarrow> 'w transport \<Rightarrow> 'w env \<Rightarrow> 'w env" where
  "over_wire W T P env = env
     \<lparr>grpc_health := stub_call T (Resolver_health W) (),
      grpc_listKnown := stub_call T (Resolver_listKnown W) (),
      grpc_resolveByAddress := stub_call T (Resolver_resolveByAddress W),
      grpc_select := stub_call T (Resolver_select W),
      grpc_refresh := stub_call T (Resolver_refresh W),
      grpc_getAuditLog := stub_call T (Resolver_getAuditLog W),
      grpc_getDepositInfo := stub_call P (PayerDaemon_getDepositInfo W) ()\<rparr>"

section \<open>A daemon behind the bytes\<close>

text \<open>
  The other side, as the specification of a transport: a daemon that works on messages as
  the calls of a world say, and that reads its requests and writes its replies with the
  conversions of the method.
\<close>

definition served :: "('q, 'r) rpc_method \<Rightarrow> ('q \<Rightarrow> ('w, 'r) call) \<Rightarrow> byte list \<Rightarrow> ('w, byte list) call" where
  "served M h bytes =
     io_bind (io_lift (me_requestDeserialize M bytes)) (\<lambda>req.
     io_bind (h req) (\<lambda>res. io_lift (me_responseSerialize M res)))"

definition resolver_side :: "wire \<Rightarrow> 'w env \<Rightarrow> 'w transport" where
  "resolver_side W env =
     \<lparr>tr_unary = (\<lambda>path bytes dl.
        if path = me_path (Resolver_health W) then served (Resolver_health W) (\<lambda>_. grpc_health env dl) bytes
        else if path = me_path (Resolver_listKnown W)
          then served (Resolver_listKnown W) (\<lambda>_. grpc_listKnown env dl) bytes
        else if path = me_path (Resolver_resolveByAddress W)
          then served (Resolver_resolveByAddress W) (\<lambda>q. grpc_resolveByAddress env q dl) bytes
        else if path = me_path (Resolver_select W)
          then served (Resolver_select W) (\<lambda>q. grpc_select env q dl) bytes
        else if path = me_path (Resolver_refresh W)
          then served (Resolver_refresh W) (\<lambda>q. grpc_refresh env q dl) bytes
        else if path = me_path (Resolver_getAuditLog W)
          then served (Resolver_getAuditLog W) (\<lambda>q. grpc_getAuditLog env q dl) bytes
        else io_throw (ServiceError 12 ''unimplemented'')),
      tr_request_error = id, tr_response_error = id\<rparr>"

definition payer_side :: "wire \<Rightarrow> 'w env \<Rightarrow> 'w transport" where
  "payer_side W env =
     \<lparr>tr_unary = (\<lambda>path bytes dl.
        if path = me_path (PayerDaemon_getDepositInfo W)
          then served (PayerDaemon_getDepositInfo W) (\<lambda>_. grpc_getDepositInfo env dl) bytes
        else io_throw (ServiceError 12 ''unimplemented'')),
      tr_request_error = id, tr_response_error = id\<rparr>"

section \<open>The contract of a method\<close>

locale unary_method =
  fixes M :: "('q, 'r) rpc_method"
  assumes request_back: "me_requestSerialize M q = Inr b \<Longrightarrow> me_requestDeserialize M b = Inr q"
    and response_back: "me_responseSerialize M r = Inr b \<Longrightarrow> me_responseDeserialize M b = Inr r"
begin

lemma call_served:
  assumes "\<And>b. tr_unary T (me_path M) b dl w = served M h b w"
    and "me_requestSerialize M q = Inr b"
    and "\<And>r w'. h q w = (Inr r, w') \<Longrightarrow> \<exists>c. me_responseSerialize M r = Inr c"
  shows "stub_call T M q dl w = h q w"
proof (cases "h q w")
  case (Pair a w')
  show ?thesis
  proof (cases a)
    case (Inl e)
    with Pair assms(1,2) request_back [OF assms(2)] show ?thesis
      by (simp add: stub_call_def served_def)
  next
    case (Inr r)
    with Pair assms(3) obtain c where c: "me_responseSerialize M r = Inr c" by blast
    have "tr_unary T (me_path M) b dl w = (Inr c, w')"
      using assms(1) request_back [OF assms(2)] Pair Inr c by (simp add: served_def)
    with assms(2) response_back [OF c] Pair Inr show ?thesis by (simp add: stub_call_def)
  qed
qed

end

context wire_format
begin

lemma decode_all_back: "decodes_back enc dec \<Longrightarrow> enc v = Inr b \<Longrightarrow> decode_all dec b = Inr v"
  unfolding decodes_back_def decode_all_def by (metis append_Nil2 fst_conv id_apply map_sum.simps(2))

lemma unary_methodI:
  assumes "me_requestSerialize M = enc" and "me_requestDeserialize M = decode_all dec" and "decodes_back enc dec"
    and "me_responseSerialize M = enc'" and "me_responseDeserialize M = decode_all dec'" and "decodes_back enc' dec'"
  shows "unary_method M"
  by standard (simp_all add: assms(1,2,4,5) decode_all_back [OF assms(3)] decode_all_back [OF assms(6)])

lemma Resolver_methods:
  "unary_method (Resolver_resolveByAddress W)"
  "unary_method (Resolver_select W)"
  "unary_method (Resolver_listKnown W)"
  "unary_method (Resolver_refresh W)"
  "unary_method (Resolver_getAuditLog W)"
  "unary_method (Resolver_health W)"
  by (rule unary_methodI; (rule back_intros | simp add: Resolver_resolveByAddress_def Resolver_select_def Resolver_listKnown_def Resolver_refresh_def Resolver_getAuditLog_def Resolver_health_def))+

lemma PayerDaemon_methods:
  "unary_method (PayerDaemon_createPayment W)"
  "unary_method (PayerDaemon_getDepositInfo W)"
  by (rule unary_methodI; (rule back_intros | simp add: PayerDaemon_createPayment_def PayerDaemon_getDepositInfo_def))+

lemma PayeeDaemon_methods:
  "unary_method (PayeeDaemon_getQuote W)"
  "unary_method (PayeeDaemon_getTicketParams W)"
  "unary_method (PayeeDaemon_listCapabilities W)"
  "unary_method (PayeeDaemon_openSession W)"
  "unary_method (PayeeDaemon_processPayment W)"
  "unary_method (PayeeDaemon_debitBalance W)"
  "unary_method (PayeeDaemon_sufficientBalance W)"
  "unary_method (PayeeDaemon_getBalance W)"
  "unary_method (PayeeDaemon_closeSession W)"
  "unary_method (PayeeDaemon_listPendingRedemptions W)"
  "unary_method (PayeeDaemon_getRedemptionStatus W)"
  by (rule unary_methodI; (rule back_intros | simp add: PayeeDaemon_getQuote_def PayeeDaemon_getTicketParams_def PayeeDaemon_listCapabilities_def PayeeDaemon_openSession_def PayeeDaemon_processPayment_def PayeeDaemon_debitBalance_def PayeeDaemon_sufficientBalance_def PayeeDaemon_getBalance_def PayeeDaemon_closeSession_def PayeeDaemon_listPendingRedemptions_def PayeeDaemon_getRedemptionStatus_def))+

lemma Publisher_methods:
  "unary_method (Publisher_getIdentity W)"
  "unary_method (Publisher_buildManifest W)"
  "unary_method (Publisher_signManifest W)"
  "unary_method (Publisher_buildAndSign W)"
  "unary_method (Publisher_probeWorker W)"
  "unary_method (Publisher_health W)"
  by (rule unary_methodI; (rule back_intros | simp add: Publisher_getIdentity_def Publisher_buildManifest_def Publisher_signManifest_def Publisher_buildAndSign_def Publisher_probeWorker_def Publisher_health_def))+

end

text \<open>The methods the console calls satisfy the contract on the protocol's own wire.\<close>

interpretation resolve_method: unary_method "Resolver_resolveByAddress proto_wire" by (rule pw.Resolver_methods)
interpretation select_method: unary_method "Resolver_select proto_wire" by (rule pw.Resolver_methods)
interpretation known_method: unary_method "Resolver_listKnown proto_wire" by (rule pw.Resolver_methods)
interpretation refresh_method: unary_method "Resolver_refresh proto_wire" by (rule pw.Resolver_methods)
interpretation audit_log_method: unary_method "Resolver_getAuditLog proto_wire" by (rule pw.Resolver_methods)
interpretation health_method: unary_method "Resolver_health proto_wire" by (rule pw.Resolver_methods)
interpretation deposit_method: unary_method "PayerDaemon_getDepositInfo proto_wire" by (rule pw.PayerDaemon_methods)

end
