(* ===== verification/Wired.thy ===== *)
theory Wired
  imports Stubs AuditPoll
begin

text \<open>
  The console and the bytes it exchanges with its daemons: what the two halves of a message
  type do to each other, what a decoder does with fields it does not know, that every
  decoding loop ends, and that the calls of the console over the wire, and a tick of its
  poll worker, are the calls and the tick on messages.
\<close>

section \<open>Messages\<close>

lemmas console_backs =
  wire_format.ResolveByAddressRequest_back wire_format.ResolveResult_back wire_format.SelectRequest_back
  wire_format.SelectResult_back wire_format.ListKnownRequest_back wire_format.ListKnownResult_back
  wire_format.RefreshRequest_back wire_format.Empty_back wire_format.GetAuditLogRequest_back
  wire_format.AuditLogResult_back wire_format.HealthResult_back wire_format.GetDepositInfoResponse_back

text \<open>C8. Every message the console exchanges with its daemons survives the wire: where encoding
  returns, decoding the bytes gives the message back and takes exactly these bytes, whatever
  follows them.\<close>

theorem messages_survive_wire:
  assumes "wire_format W"
  shows "decodes_back (encode_ResolveByAddressRequest W) (decode_ResolveByAddressRequest W)
    \<and> decodes_back (encode_ResolveResult W) (decode_ResolveResult W)
    \<and> decodes_back (encode_SelectRequest W) (decode_SelectRequest W)
    \<and> decodes_back (encode_SelectResult W) (decode_SelectResult W)
    \<and> decodes_back (encode_ListKnownResult W) (decode_ListKnownResult W)
    \<and> decodes_back (encode_RefreshRequest W) (decode_RefreshRequest W)
    \<and> decodes_back (encode_GetAuditLogRequest W) (decode_GetAuditLogRequest W)
    \<and> decodes_back (encode_AuditLogResult W) (decode_AuditLogResult W)
    \<and> decodes_back (encode_HealthResult W) (decode_HealthResult W)
    \<and> decodes_back (encode_GetDepositInfoResponse W) (decode_GetDepositInfoResponse W)"
  by (intro conjI console_backs assms)

definition sample_known :: ListKnownResult where
  "sample_known = \<lparr>lk_entries =
     [\<lparr>ke_ethAddress = ''0xab'', ke_mode = 2, ke_freshnessStatus = 1, ke_cachedAt = Some (Some 1001)\<rparr>]\<rparr>"

text \<open>Evaluation of what an encoder writes.\<close>

lemmas sample_wire_simps =
  enc_string_def enc_int32_def enc_bool_def enc_bytes_def enc_each_def enc_optional_def enc_int64_checked_def
  enc_int64_def tagged_def wr_message_def wr_time_def res_append_def proto_wire_def write_uint32_def
  write_signed_def write_delimited_def utf8_bytes_def utf8_char_def varint.simps toTimestamp_date max_time_def
  encode_Timestamp_def

lemma sample_known_bytes:
  "encode_ListKnownResult proto_wire sample_known =
     Inr [10, 18, 10, 4, 48, 120, 97, 98, 16, 2, 24, 1, 34, 6, 8, 1, 16, 192, 132, 61]"
  by (simp add: sample_known_def encode_ListKnownResult_def encode_KnownEntry_def sample_wire_simps)

theorem messages_survive_wire_witness:
  "decode_ListKnownResult proto_wire 20
     [10, 18, 10, 4, 48, 120, 97, 98, 16, 2, 24, 1, 34, 6, 8, 1, 16, 192, 132, 61, 0, 7] = Inr (sample_known, 20)"
proof -
  have "decodes_back (encode_ListKnownResult proto_wire) (decode_ListKnownResult proto_wire)"
    using messages_survive_wire [OF pw.wire_format_axioms] by blast
  from decodes_backD [OF this sample_known_bytes, of "[0, 7]"] show ?thesis by simp
qed


text \<open>A reply with fields of a newer daemon in front of the known ones and behind them decodes to
  the message without them.\<close>

theorem unknown_fields_skipped:
  assumes "wire_format W" and "encode_ResolveResult W m = Inr bs"
    and "unknown_field W (ResolveResult_fields W) u" and "unknown_field W (ResolveResult_fields W) v"
  shows "decode_all (decode_ResolveResult W) (u @ bs @ v) = Inr m"
  using wire_format.decode_between_unknown [OF assms(1) wire_format.ResolveResult_emits [OF assms(1)] assms(2-4)]
  by (simp add: decode_all_def decode_ResolveResult_def)

definition sample_resolved :: ResolveResult where
  "sample_resolved = createBaseResolveResult\<lparr>rr_ethAddress := ''0xab'', rr_mode := 2, rr_fetchedAt := Some (Some 1001)\<rparr>"

lemma sample_resolved_bytes:
  "encode_ResolveResult proto_wire sample_resolved =
     Inr [10, 4, 48, 120, 97, 98, 24, 2, 58, 6, 8, 1, 16, 192, 132, 61]"
  by (simp add: sample_resolved_def createBaseResolveResult_def encode_ResolveResult_def sample_wire_simps)

lemma sample_unknown: "unknown_field proto_wire (ResolveResult_fields proto_wire) [80, 1]"
  unfolding unknown_field_def
proof (intro exI conjI allI)
  show "[80, 1] = [80] @ [1 :: byte]" by simp
  show "wr_uint32 proto_wire 80 = Inr [80]" by (simp add: proto_wire_def write_uint32_def varint.simps)
  show "(80 :: nat) \<noteq> 0" "(80 :: nat) mod 8 \<noteq> 4" by simp_all
  show "map_of (ResolveResult_fields proto_wire) 80 = None" by (simp add: ResolveResult_fields_def)
  fix r
  have "read_varint ([1] @ r) = Inr (1, 1)" using read_varint_back [of 1 r] by (simp add: varint.simps)
  then show "rd_skip proto_wire (80 mod 8) ([1] @ r) = Inr (length [1 :: byte])"
    by (simp add: proto_wire_def skip_value_def)
qed

theorem unknown_fields_skipped_witness:
  "decode_all (decode_ResolveResult proto_wire)
     [80, 1, 10, 4, 48, 120, 97, 98, 24, 2, 58, 6, 8, 1, 16, 192, 132, 61, 80, 1] = Inr sample_resolved"
  using unknown_fields_skipped [OF pw.wire_format_axioms sample_resolved_bytes sample_unknown sample_unknown]
  by simp

section \<open>Calls\<close>

definition encodable :: "'a writer \<Rightarrow> 'a \<Rightarrow> bool" where
  "encodable enc v \<longleftrightarrow> (\<exists>b. enc v = Inr b)"

text \<open>The request of a call, and the reply if there is one, have bytes.\<close>

definition call_encodable :: "('q, 'r) rpc_method \<Rightarrow> ('w, 'r) call \<Rightarrow> 'q \<Rightarrow> 'w \<Rightarrow> bool" where
  "call_encodable M h q w \<longleftrightarrow> encodable (me_requestSerialize M) q
     \<and> (\<forall>r w'. h w = (Inr r, w') \<longrightarrow> encodable (me_responseSerialize M) r)"

lemma stub_call_served:
  assumes "unary_method M" and "call_encodable M (h q) q w"
    and "\<And>b. tr_unary T (me_path M) b dl = served M h b"
  shows "stub_call T M q dl w = h q w"
proof -
  obtain b where "me_requestSerialize M q = Inr b"
    using assms(2) by (auto simp: call_encodable_def encodable_def)
  then show ?thesis
    by (rule unary_method.call_served [OF assms(1), rotated])
      (use assms(2,3) in \<open>auto simp: call_encodable_def encodable_def\<close>)
qed

lemmas method_paths =
  Resolver_health_def Resolver_listKnown_def Resolver_resolveByAddress_def Resolver_select_def
  Resolver_refresh_def Resolver_getAuditLog_def PayerDaemon_getDepositInfo_def

lemma resolver_side_paths:
  "tr_unary (resolver_side W env) (me_path (Resolver_health W)) b dl = served (Resolver_health W) (\<lambda>_. grpc_health env dl) b"
  "tr_unary (resolver_side W env) (me_path (Resolver_listKnown W)) b dl = served (Resolver_listKnown W) (\<lambda>_. grpc_listKnown env dl) b"
  "tr_unary (resolver_side W env) (me_path (Resolver_resolveByAddress W)) b dl =
     served (Resolver_resolveByAddress W) (\<lambda>q. grpc_resolveByAddress env q dl) b"
  "tr_unary (resolver_side W env) (me_path (Resolver_select W)) b dl = served (Resolver_select W) (\<lambda>q. grpc_select env q dl) b"
  "tr_unary (resolver_side W env) (me_path (Resolver_refresh W)) b dl = served (Resolver_refresh W) (\<lambda>q. grpc_refresh env q dl) b"
  "tr_unary (resolver_side W env) (me_path (Resolver_getAuditLog W)) b dl =
     served (Resolver_getAuditLog W) (\<lambda>q. grpc_getAuditLog env q dl) b"
  "tr_unary (payer_side W env) (me_path (PayerDaemon_getDepositInfo W)) b dl =
     served (PayerDaemon_getDepositInfo W) (\<lambda>_. grpc_getDepositInfo env dl) b"
  by (simp_all add: resolver_side_def payer_side_def method_paths)

definition wired :: "wire \<Rightarrow> 'w env \<Rightarrow> 'w env" where
  "wired W env = over_wire W (resolver_side W env) (payer_side W env) env"

lemma wired_calls:
  assumes "wire_format W"
  shows "call_encodable (Resolver_health W) (grpc_health env dl) () w \<Longrightarrow> grpc_health (wired W env) dl w = grpc_health env dl w"
    and "call_encodable (Resolver_listKnown W) (grpc_listKnown env dl) () w \<Longrightarrow>
      grpc_listKnown (wired W env) dl w = grpc_listKnown env dl w"
    and "call_encodable (Resolver_resolveByAddress W) (grpc_resolveByAddress env a dl) a w \<Longrightarrow>
      grpc_resolveByAddress (wired W env) a dl w = grpc_resolveByAddress env a dl w"
    and "call_encodable (Resolver_select W) (grpc_select env q dl) q w \<Longrightarrow>
      grpc_select (wired W env) q dl w = grpc_select env q dl w"
    and "call_encodable (Resolver_refresh W) (grpc_refresh env f dl) f w \<Longrightarrow>
      grpc_refresh (wired W env) f dl w = grpc_refresh env f dl w"
    and "call_encodable (Resolver_getAuditLog W) (grpc_getAuditLog env g dl) g w \<Longrightarrow>
      grpc_getAuditLog (wired W env) g dl w = grpc_getAuditLog env g dl w"
    and "call_encodable (PayerDaemon_getDepositInfo W) (grpc_getDepositInfo env dl) () w \<Longrightarrow>
      grpc_getDepositInfo (wired W env) dl w = grpc_getDepositInfo env dl w"
  unfolding wired_def over_wire_def using assms
  by (simp_all add: stub_call_served [OF _ _ resolver_side_paths(1)] stub_call_served [OF _ _ resolver_side_paths(2)]
      stub_call_served [OF _ _ resolver_side_paths(3)] stub_call_served [OF _ _ resolver_side_paths(4)]
      stub_call_served [OF _ _ resolver_side_paths(5)] stub_call_served [OF _ _ resolver_side_paths(6)]
      stub_call_served [OF _ _ resolver_side_paths(7)] wire_format.Resolver_methods wire_format.PayerDaemon_methods)

text \<open>C7. The console's daemon calls over bytes are the calls on messages: wherever the request and
  the reply of a call have an encoding, the stub, the daemon's side of the wire and the
  stub again give what the daemon answers, its errors and its effects included.\<close>

theorem calls_over_wire:
  assumes "wire_format W"
  shows "(call_encodable (Resolver_health W) (grpc_health env dl) () w
      \<longrightarrow> grpc_health (wired W env) dl w = grpc_health env dl w)
    \<and> (call_encodable (Resolver_listKnown W) (grpc_listKnown env dl) () w
      \<longrightarrow> grpc_listKnown (wired W env) dl w = grpc_listKnown env dl w)
    \<and> (call_encodable (Resolver_resolveByAddress W) (grpc_resolveByAddress env a dl) a w
      \<longrightarrow> grpc_resolveByAddress (wired W env) a dl w = grpc_resolveByAddress env a dl w)
    \<and> (call_encodable (Resolver_select W) (grpc_select env q dl) q w
      \<longrightarrow> grpc_select (wired W env) q dl w = grpc_select env q dl w)
    \<and> (call_encodable (Resolver_refresh W) (grpc_refresh env f dl) f w
      \<longrightarrow> grpc_refresh (wired W env) f dl w = grpc_refresh env f dl w)
    \<and> (call_encodable (Resolver_getAuditLog W) (grpc_getAuditLog env g dl) g w
      \<longrightarrow> grpc_getAuditLog (wired W env) g dl w = grpc_getAuditLog env g dl w)
    \<and> (call_encodable (PayerDaemon_getDepositInfo W) (grpc_getDepositInfo env dl) () w
      \<longrightarrow> grpc_getDepositInfo (wired W env) dl w = grpc_getDepositInfo env dl w)"
  by (intro conjI impI wired_calls [OF assms])

definition known_env :: "unit env" where
  "known_env = still_env\<lparr>grpc_listKnown := (\<lambda>_. io_return sample_known)\<rparr>"

lemma known_encodable:
  "call_encodable (Resolver_listKnown proto_wire) (grpc_listKnown known_env 0) () ()"
  using sample_known_bytes
  by (simp add: call_encodable_def encodable_def known_env_def Resolver_listKnown_def encode_ListKnownRequest_def)

theorem calls_over_wire_witness:
  "grpc_listKnown (wired proto_wire known_env) 0 () = (Inr sample_known, ())"
proof -
  have "grpc_listKnown (wired proto_wire known_env) 0 () = grpc_listKnown known_env 0 ()"
    using calls_over_wire [OF pw.wire_format_axioms, where env = known_env and dl = 0 and w = "()"] known_encodable
    by blast
  then show ?thesis by (simp add: known_env_def)
qed

section \<open>A tick over the wire\<close>

lemma wired_keeps [simp]:
  "date_now (wired W env) = date_now env" "db_refuses (wired W env) = db_refuses env"
  by (simp_all add: wired_def over_wire_def)

lemma appendBatch_wired: "appendBatch (wired W env) = appendBatch env"
  by (intro ext) (simp add: appendBatch_def statement_def)

lemma poll_finish_wired: "poll_finish (wired W env) = poll_finish env"
  unfolding poll_finish_def appendBatch_wired ..

text \<open>A tick of the poll worker over the wire is the tick on messages, in its result, the rows it
  stores, the watermark and the flag, for every daemon whose replies to the worker's request
  have an encoding.\<close>

theorem tick_over_wire:
  assumes "wire_format W"
    and "\<And>dl w. call_encodable (Resolver_getAuditLog W)
      (grpc_getAuditLog env (audit_request (poll_options opts (wk_watermarkMs p))) dl)
      (audit_request (poll_options opts (wk_watermarkMs p))) w"
  shows "tick (wired W env) opts p = tick env opts p"
proof -
  let ?g = "audit_request (poll_options opts (wk_watermarkMs p))"
  have "grpc_getAuditLog (wired W env) ?g = grpc_getAuditLog env ?g"
    by (intro ext wired_calls(6) assms)
  then have "poll_fetch (wired W env) opts (wk_watermarkMs p) = poll_fetch env opts (wk_watermarkMs p)"
    by (simp add: poll_fetch_def resolver_getAuditLog_def unary_def)
  then show ?thesis by (simp add: tick_def poll_finish_wired)
qed

lemma poll_env_encodable:
  "call_encodable (Resolver_getAuditLog proto_wire)
    (grpc_getAuditLog (poll_env [sample_event ''0xAb'' 100]) (audit_request (poll_options sample_options None)) dl)
    (audit_request (poll_options sample_options None)) w"
  by (simp add: call_encodable_def encodable_def poll_env_def Resolver_getAuditLog_def sample_event_def
      audit_request_def poll_options_def sample_options_def or_default_def encode_GetAuditLogRequest_def
      encode_AuditLogResult_def encode_AuditEvent_def sample_wire_simps)

theorem tick_over_wire_witness:
  "tick (wired proto_wire (poll_env [sample_event ''0xAb'' 100])) sample_options (init_worker still_sys)
    = tick (poll_env [sample_event ''0xAb'' 100]) sample_options (init_worker still_sys)"
  by (rule tick_over_wire [OF pw.wire_format_axioms]) (simp add: init_worker_def poll_env_encodable)

end
