(* ===== verification/Json.thy ===== *)
theory Json
  imports JsText
begin

text \<open>
  Values as the program exchanges them in JSON, and the few operations on them the code
  uses: reading a property, testing truth, the text of a value. The numbers are whole, as
  are all numbers the console sends. An object has each key once. A value that may be
  \<^verbatim>\<open>undefined\<close> is an option, \<open>None\<close> where it is.
\<close>

datatype json = JNull | JBool bool | JNum int | JStr string | JArr "json list" | JObj "(string \<times> json) list"

text \<open>\<^verbatim>\<open>v?.k\<close>, for names that neither texts nor arrays have.\<close>

definition js_get :: "string \<Rightarrow> json option \<Rightarrow> json option" where
  "js_get k v = (case v of Some (JObj kvs) \<Rightarrow> map_of kvs k | _ \<Rightarrow> None)"

text \<open>\<^verbatim>\<open>k in v\<close> for an object \<open>v\<close>.\<close>

definition js_has :: "string \<Rightarrow> json \<Rightarrow> bool" where
  "js_has k v = (case v of JObj kvs \<Rightarrow> k \<in> set (map fst kvs) | _ \<Rightarrow> False)"

text \<open>\<^verbatim>\<open>v && typeof v === "object"\<close>.\<close>

fun js_object :: "json \<Rightarrow> bool" where
  "js_object (JObj _) = True"
| "js_object (JArr _) = True"
| "js_object _ = False"

text \<open>\<^verbatim>\<open>typeof v === "string" ? v : null\<close>.\<close>

definition js_str :: "json option \<Rightarrow> string option" where
  "js_str v = (case v of Some (JStr s) \<Rightarrow> Some s | _ \<Rightarrow> None)"

fun js_truthy :: "json \<Rightarrow> bool" where
  "js_truthy JNull = False"
| "js_truthy (JBool b) = b"
| "js_truthy (JNum n) = (n \<noteq> 0)"
| "js_truthy (JStr s) = (s \<noteq> [])"
| "js_truthy (JArr _) = True"
| "js_truthy (JObj _) = True"

text \<open>The truth of a value that may be undefined.\<close>

definition js_true :: "json option \<Rightarrow> bool" where
  "js_true v = (case v of None \<Rightarrow> False | Some v' \<Rightarrow> js_truthy v')"

text \<open>\<^verbatim>\<open>Array.isArray(v) ? v : []\<close>.\<close>

definition js_array :: "json option \<Rightarrow> json list" where
  "js_array v = (case v of Some (JArr vs) \<Rightarrow> vs | _ \<Rightarrow> [])"

text \<open>\<^verbatim>\<open>v ?? null\<close> as an option: absent where the value is undefined or null.\<close>

definition js_nullish :: "json option \<Rightarrow> json option" where
  "js_nullish v = (if v = Some JNull then None else v)"

text \<open>\<^verbatim>\<open>String(v)\<close>; the members of an array are joined by commas, a null member is empty.\<close>

fun js_text :: "json \<Rightarrow> string" and js_join :: "json list \<Rightarrow> string" where
  "js_text JNull = ''null''"
| "js_text (JBool b) = (if b then ''true'' else ''false'')"
| "js_text (JNum n) = show_int n"
| "js_text (JStr s) = s"
| "js_text (JArr vs) = js_join vs"
| "js_text (JObj _) = ''[object Object]''"
| "js_join [] = []"
| "js_join (v # vs) =
     (if v = JNull then [] else js_text v) @ (if vs = [] then [] else CHR '','' # js_join vs)"

lemma js_get_obj [simp]: "js_get k (Some (JObj kvs)) = map_of kvs k" "js_get k None = None"
  by (simp_all add: js_get_def)

lemma js_str_simps [simp]: "js_str (Some (JStr s)) = Some s" "js_str None = None" "js_str (Some JNull) = None"
  by (simp_all add: js_str_def)

text \<open>A value that may be null, as JSON.\<close>

definition json_opt :: "('a \<Rightarrow> json) \<Rightarrow> 'a option \<Rightarrow> json" where
  "json_opt f v = (case v of None \<Rightarrow> JNull | Some a \<Rightarrow> f a)"

lemma json_opt_simps [simp]: "json_opt f None = JNull" "json_opt f (Some a) = f a"
  by (simp_all add: json_opt_def)

end
