(* ===== verification/WebClient.thy ===== *)
theory WebClient
  imports Json Prelude
begin

text \<open>
  The browser application's library (\<^verbatim>\<open>admin-ui/shared/lib\<close>, \<^verbatim>\<open>admin-ui/admin/lib\<close>): the session in the tab's
  storage, the events that tell the application who is signed in, the wrapper around
  \<^verbatim>\<open>fetch\<close> with its errors, and one function per call of the console's API. \<^verbatim>\<open>fetch\<close>
  itself is the browser's, an argument: from a request and the outside \<open>'w\<close> it makes a
  response or an error. The application component (\<^verbatim>\<open>components/admin-app.js\<close>) is here as
  well, since it listens to the events.
\<close>

section \<open>The session\<close>

text \<open>
  What the tab's storage holds under the session key: nothing, the empty text, a text that is
  not JSON, or the JSON text of a value. Reading and removing fail where the page may not
  use the storage, writing also where it is full.
\<close>

datatype stored = NoItem | EmptyText | BadText | JsonText json

record session_storage =
  ss_item :: stored
  ss_allowed :: bool
  ss_room :: bool

definition session_get :: "session_storage \<Rightarrow> json" where
  "session_get s =
     (if \<not> ss_allowed s then JNull
      else case ss_item s of JsonText v \<Rightarrow> v | _ \<Rightarrow> JNull)"

definition session_set :: "json \<Rightarrow> session_storage \<Rightarrow> session_storage" where
  "session_set v s = (if ss_allowed s \<and> ss_room s then s\<lparr>ss_item := JsonText v\<rparr> else s)"

definition session_clear :: "session_storage \<Rightarrow> session_storage" where
  "session_clear s = (if ss_allowed s then s\<lparr>ss_item := NoItem\<rparr> else s)"

definition session_has :: "session_storage \<Rightarrow> bool" where
  "session_has s \<longleftrightarrow> ss_allowed s \<and> ss_item s \<noteq> NoItem"

definition session_field :: "string \<Rightarrow> session_storage \<Rightarrow> string option" where
  "session_field k s = (let v = session_get s in if js_object v then js_str (js_get k (Some v)) else None)"

definition getToken :: "session_storage \<Rightarrow> string option" where
  "getToken s = session_field ''token'' s"

definition getActor :: "session_storage \<Rightarrow> string option" where
  "getActor s = session_field ''actor'' s"

definition setSession :: "string \<Rightarrow> string \<Rightarrow> session_storage \<Rightarrow> session_storage" where
  "setSession token actor s = session_set (JObj [(''token'', JStr token), (''actor'', JStr actor)]) s"

text \<open>Where the storage works, what is set is read back, and after clearing there is none.\<close>

lemma session_read_back [simp]:
  assumes "ss_allowed s" and "ss_room s"
  shows "getToken (setSession t a s) = Some t" "getActor (setSession t a s) = Some a"
  using assms by (simp_all add: getToken_def getActor_def session_field_def session_get_def setSession_def session_set_def)

lemma session_cleared [simp]: "getToken (session_clear s) = None" "getActor (session_clear s) = None"
  by (simp_all add: getToken_def getActor_def session_field_def session_get_def session_clear_def)

lemma session_has_cleared: "\<not> session_has (session_clear s)"
  by (auto simp: session_has_def session_clear_def)

section \<open>The application and its events\<close>

record admin_app =
  aa_authed :: bool
  aa_path :: string

record browser =
  bw_storage :: session_storage
  bw_hash :: string
  bw_app :: admin_app

datatype gateway_event = Authenticated | Unauthorized

text \<open>\<^verbatim>\<open>window.location.hash\<close> is empty or begins with \<^verbatim>\<open>#\<close>.\<close>

definition route_current :: "string \<Rightarrow> string" where
  "route_current raw =
     (if raw = [] \<or> raw = ''#'' then ''/''
      else if starts_with ''#'' raw then drop 1 raw else raw)"

definition route_navigate :: "string \<Rightarrow> browser \<Rightarrow> browser" where
  "route_navigate path b =
     b\<lparr>bw_hash := CHR ''#'' # (if starts_with ''/'' path then path else CHR ''/'' # path)\<rparr>"

definition app_mount :: "session_storage \<Rightarrow> string \<Rightarrow> browser" where
  "app_mount s hash =
     \<lparr>bw_storage = s, bw_hash = hash,
      bw_app = \<lparr>aa_authed = (case getToken s of Some t \<Rightarrow> t \<noteq> [] | None \<Rightarrow> False), aa_path = route_current hash\<rparr>\<rparr>"

text \<open>The application's listeners, mounted once and for the life of the page.\<close>

definition emit :: "gateway_event \<Rightarrow> browser \<Rightarrow> browser" where
  "emit e b =
     (case e of
        Authenticated \<Rightarrow>
          (let b' = b\<lparr>bw_app := (bw_app b)\<lparr>aa_authed := True\<rparr>\<rparr>
           in if aa_path (bw_app b) = ''/'' \<or> aa_path (bw_app b) = [] then route_navigate ''/routing'' b' else b')
      | Unauthorized \<Rightarrow> b\<lparr>bw_app := (bw_app b)\<lparr>aa_authed := False\<rparr>\<rparr>)"

definition on_hashchange :: "browser \<Rightarrow> browser" where
  "on_hashchange b = b\<lparr>bw_app := (bw_app b)\<lparr>aa_path := route_current (bw_hash b)\<rparr>\<rparr>"

definition signOut :: "browser \<Rightarrow> browser" where
  "signOut b = b\<lparr>bw_storage := session_clear (bw_storage b), bw_app := (bw_app b)\<lparr>aa_authed := False\<rparr>\<rparr>"

datatype screen =
    LoginScreen | RoutingScreen | OrchScreen string | CapabilitiesScreen | SenderScreen | AuditScreen
  | UnknownScreen string

definition render_route :: "admin_app \<Rightarrow> screen" where
  "render_route a =
     (let path = (if aa_path a = [] then ''/'' else aa_path a)
      in if path = ''/'' \<or> path = ''/routing'' \<or> starts_with ''/routing'' path then RoutingScreen
         else if starts_with ''/orchs/'' path
         then OrchScreen (takeWhile (\<lambda>c. c \<noteq> CHR ''?'' \<and> c \<noteq> CHR ''#'') (drop (length ''/orchs/'') path))
         else if starts_with ''/capabilities'' path then CapabilitiesScreen
         else if starts_with ''/sender'' path then SenderScreen
         else if starts_with ''/audit'' path then AuditScreen
         else UnknownScreen path)"

definition app_render :: "admin_app \<Rightarrow> screen" where
  "app_render a = (if \<not> aa_authed a then LoginScreen else render_route a)"

section \<open>Requests\<close>

text \<open>Percent encoding: of a query (a space is a plus) and of a path segment.\<close>

definition hex_upper :: "nat \<Rightarrow> char" where
  "hex_upper d = (if d < 10 then char_of (48 + d) else char_of (55 + d))"

definition pct_byte :: "byte \<Rightarrow> string" where
  "pct_byte b = [CHR ''%'', hex_upper (unat b div 16), hex_upper (unat b mod 16)]"

definition is_alnum :: "char \<Rightarrow> bool" where
  "is_alnum c \<longleftrightarrow> is_digit_char c \<or> is_lower_char c \<or> (65 \<le> (of_char c :: nat) \<and> (of_char c :: nat) \<le> 90)"

definition form_char :: "char \<Rightarrow> string" where
  "form_char c =
     (if is_alnum c \<or> c \<in> set ''*-._'' then [c]
      else if c = CHR '' '' then ''+'' else concat (map pct_byte (utf8_char c)))"

definition form_text :: "string \<Rightarrow> string" where
  "form_text s = concat (map form_char s)"

fun url_params :: "(string \<times> string) list \<Rightarrow> string" where
  "url_params [] = []"
| "url_params [(k, v)] = form_text k @ CHR ''='' # form_text v"
| "url_params ((k, v) # q) = form_text k @ CHR ''='' # form_text v @ CHR ''&'' # url_params q"

definition url_suffix :: "(string \<times> string) list \<Rightarrow> string" where
  "url_suffix q = (if url_params q = [] then [] else CHR ''?'' # url_params q)"

definition encodeURIComponent :: "string \<Rightarrow> string" where
  "encodeURIComponent s =
     concat (map (\<lambda>c. if is_alnum c \<or> c \<in> set ''-_.!~*'' \<or> c = CHR 0x27 \<or> c = CHR ''('' \<or> c = CHR '')'' then [c]
                      else concat (map pct_byte (utf8_char c))) s)"

record fetch_request =
  fq_method :: string
  fq_url :: string
  fq_headers :: "(string \<times> string) list"
  fq_body :: "json option"

text \<open>A response: its body as JSON, \<open>None\<close> where the text is not JSON.\<close>

record fetch_response =
  fp_status :: nat
  fp_contentType :: "string option"
  fp_json :: "json option"

type_synonym 'w fetch = "fetch_request \<Rightarrow> 'w \<Rightarrow> (js_error + fetch_response) \<times> 'w"

record ApiError =
  ae_code :: string
  ae_status :: nat
  ae_message :: string
  ae_body :: json

definition getAuthHeaders :: "session_storage \<Rightarrow> (string \<times> string) list" where
  "getAuthHeaders s =
     (case getToken s of Some t \<Rightarrow> if t = [] then [] else [(''authorization'', ''Bearer '' @ t)] | None \<Rightarrow> []) @
     (case getActor s of Some a \<Rightarrow> if a = [] then [] else [(''x-actor'', a)] | None \<Rightarrow> [])"

definition onUnauthorized :: "browser \<Rightarrow> browser" where
  "onUnauthorized b = emit Unauthorized (b\<lparr>bw_storage := session_clear (bw_storage b)\<rparr>)"

definition extractErrorMessage :: "json \<Rightarrow> string" where
  "extractErrorMessage err =
     (case (if js_object err then js_str (js_get ''message'' (Some err)) else None) of
        Some m \<Rightarrow> m | None \<Rightarrow> ''request_failed'')"

fun js_includes :: "string \<Rightarrow> string \<Rightarrow> bool" where
  "js_includes p [] = (p = [])"
| "js_includes p (c # s) = (starts_with p (c # s) \<or> js_includes p s)"

text \<open>\<^verbatim>\<open>request\<close> up to the call of \<^verbatim>\<open>fetch\<close>, and from its answer on.\<close>

definition request_init :: "string \<Rightarrow> string \<Rightarrow> json option \<Rightarrow> browser \<Rightarrow> fetch_request" where
  "request_init m path body b =
     \<lparr>fq_method = m, fq_url = path,
      fq_headers = [(''content-type'', ''application/json''), (''accept'', ''application/json'')]
        @ getAuthHeaders (bw_storage b),
      fq_body = body\<rparr>"

definition request_settle :: "js_error + fetch_response \<Rightarrow> browser \<Rightarrow> (ApiError + json) \<times> browser" where
  "request_settle r b =
     (case r of
        Inl err \<Rightarrow>
          (Inl \<lparr>ae_code = ''network_error'', ae_status = 0,
                ae_message = (case err of NotAnError _ \<Rightarrow> ''fetch failed'' | _ \<Rightarrow> errorMessage err), ae_body = JNull\<rparr>, b)
      | Inr res \<Rightarrow>
          if fp_status res = 401
          then (Inl \<lparr>ae_code = ''unauthorized'', ae_status = 401, ae_message = ''unauthorized'', ae_body = JNull\<rparr>,
                onUnauthorized b)
          else if fp_status res = 204 then (Inr JNull, b)
          else
            let contentType = (case fp_contentType res of Some c \<Rightarrow> c | None \<Rightarrow> []);
                isJson = js_includes ''application/json'' contentType;
                payload = (if isJson then (case fp_json res of Some v \<Rightarrow> v | None \<Rightarrow> JNull) else JNull)
            in if \<not> (200 \<le> fp_status res \<and> fp_status res \<le> 299)
               then (Inl \<lparr>ae_code = ''http_error'', ae_status = fp_status res,
                       ae_message =
                         (if js_has ''error'' payload
                          then (case js_get ''error'' (Some payload) of
                                  Some e \<Rightarrow> extractErrorMessage e | None \<Rightarrow> ''request_failed'')
                          else ''http_'' @ show_nat (fp_status res)),
                       ae_body = payload\<rparr>, b)
               else (Inr payload, b))"

type_synonym ('w, 'a) page_io = "(browser \<times> 'w, ApiError, 'a) io"

definition api_request :: "'w fetch \<Rightarrow> string \<Rightarrow> string \<Rightarrow> json option \<Rightarrow> ('w, json) page_io" where
  "api_request fetch m path body = (\<lambda>(b, w).
     case fetch (request_init m path body b) w of
       (r, w') \<Rightarrow> (case request_settle r b of (res, b') \<Rightarrow> (res, (b', w'))))"

section \<open>The calls\<close>

record api_call =
  ac_method :: string
  ac_path :: string
  ac_body :: "json option"

definition run_call :: "'w fetch \<Rightarrow> api_call \<Rightarrow> ('w, json) page_io" where
  "run_call fetch c = api_request fetch (ac_method c) (ac_path c) (ac_body c)"

definition api_get :: "string \<Rightarrow> api_call" where
  "api_get path = \<lparr>ac_method = ''GET'', ac_path = path, ac_body = None\<rparr>"

definition api_post :: "string \<Rightarrow> json \<Rightarrow> api_call" where
  "api_post path body = \<lparr>ac_method = ''POST'', ac_path = path, ac_body = Some body\<rparr>"

definition when_set :: "string \<Rightarrow> string option \<Rightarrow> (string \<times> string) list" where
  "when_set k v = (case v of Some s \<Rightarrow> if s = [] then [] else [(k, s)] | None \<Rightarrow> [])"

definition api_listOrchs :: "string option \<Rightarrow> string option \<Rightarrow> api_call" where
  "api_listOrchs capability offering =
     api_get (''/api/orchs'' @ url_suffix (when_set ''capability'' capability @ when_set ''offering'' offering))"

definition api_getOrch :: "string \<Rightarrow> api_call" where
  "api_getOrch address = api_get (''/api/orchs/'' @ encodeURIComponent address)"

definition api_searchCapabilities :: "string \<Rightarrow> string \<Rightarrow> string option \<Rightarrow> api_call" where
  "api_searchCapabilities capability offering tier =
     api_get (''/api/capabilities/search?'' @
       url_params ([(''capability'', capability), (''offering'', offering)] @ when_set ''tier'' tier))"

definition api_getSenderWallet :: api_call where
  "api_getSenderWallet = api_get ''/api/sender/wallet''"

definition api_getSenderEscrow :: api_call where
  "api_getSenderEscrow = api_get ''/api/sender/escrow''"

definition api_refreshResolver :: api_call where
  "api_refreshResolver = api_post ''/api/resolver/refresh'' (JObj [])"

definition api_refreshResolverByAddress :: "string \<Rightarrow> api_call" where
  "api_refreshResolverByAddress address =
     api_post (''/api/resolver/refresh/'' @ encodeURIComponent address) (JObj [])"

definition num_param :: "string \<Rightarrow> json option \<Rightarrow> (string \<times> string) list" where
  "num_param k v = (case v of None \<Rightarrow> [] | Some n \<Rightarrow> [(k, js_text n)])"

definition api_getResolverAuditLog :: "json option \<Rightarrow> json option \<Rightarrow> api_call" where
  "api_getResolverAuditLog since limit =
     api_get (''/api/resolver/audit-log'' @ url_suffix (num_param ''since'' since @ num_param ''limit'' limit))"

definition api_listAuditLog :: "json option \<Rightarrow> json option \<Rightarrow> api_call" where
  "api_listAuditLog limit before =
     api_get (''/api/audit-log'' @ url_suffix (num_param ''limit'' limit @ num_param ''before'' before))"

definition api_getHealth :: api_call where
  "api_getHealth = api_get ''/api/health''"

end
