(* ===== verification/WebPages.thy ===== *)
theory WebPages
  imports WebClient
begin

text \<open>
  The screens of the browser application (\<^verbatim>\<open>admin-ui/admin/components\<close>): the state each keeps,
  what its buttons and fields start, and how it takes the answer of a request. An
  asynchronous method is cut at its awaits: a start returns the state at the first one
  with the call that is out, as a task, and a resumption goes from an answer to the next
  await. Between the two anything may happen on the page: the machine of WebMachine
  interleaves events and answers freely. A disabled button takes no click, and a screen is
  connected once, when it is put on the page and nothing of it is out yet.
\<close>

text \<open>A new state, and the tasks that are now out with their calls.\<close>

type_synonym ('s, 't) started = "'s \<times> ('t \<times> api_call) list"

text \<open>An answered call as a screen sees it: the wrapper takes it first.\<close>

definition settled :: "(ApiError + json \<Rightarrow> browser \<times> 'p \<Rightarrow> (browser \<times> 'p, 't) started) \<Rightarrow>
    js_error + fetch_response \<Rightarrow> browser \<times> 'p \<Rightarrow> (browser \<times> 'p, 't) started" where
  "settled k raw bp = (case request_settle raw (fst bp) of (r, b') \<Rightarrow> k r (b', snd bp))"

section \<open>Sign-in\<close>

record admin_login =
  lg_token :: string
  lg_actor :: string
  lg_loading :: bool
  lg_error :: string

definition admin_login_init :: admin_login where
  "admin_login_init = \<lparr>lg_token = [], lg_actor = [], lg_loading = False, lg_error = []\<rparr>"

datatype login_event = LoginToken string | LoginActor string | LoginSubmit

datatype login_task = LoginHealth

definition login_submit_start :: "browser \<times> admin_login \<Rightarrow> (browser \<times> admin_login, login_task) started" where
  "login_submit_start = (\<lambda>(b, p).
     if lg_loading p then ((b, p), [])
     else let token = js_trim (lg_token p); actor = js_trim (lg_actor p)
          in if token = [] \<or> actor = [] then ((b, p\<lparr>lg_error := ''Both fields are required.''\<rparr>), [])
             else ((b\<lparr>bw_storage := setSession token actor (bw_storage b)\<rparr>, p\<lparr>lg_loading := True, lg_error := []\<rparr>),
                   [(LoginHealth, api_getHealth)]))"

definition login_health_done :: "ApiError + json \<Rightarrow> browser \<times> admin_login \<Rightarrow> (browser \<times> admin_login, login_task) started" where
  "login_health_done r = (\<lambda>(b, p).
     (case r of
        Inr _ \<Rightarrow> ((emit Authenticated b, p\<lparr>lg_loading := False\<rparr>), [])
      | Inl err \<Rightarrow>
          if ae_code err = ''unauthorized'' then ((b, p\<lparr>lg_error := ''Invalid token.'', lg_loading := False\<rparr>), [])
          else ((emit Authenticated b, p\<lparr>lg_loading := False\<rparr>), [])))"

fun login_start :: "login_event \<Rightarrow> browser \<times> admin_login \<Rightarrow> (browser \<times> admin_login, login_task) started" where
  "login_start (LoginToken s) (b, p) = ((b, if lg_loading p then p else p\<lparr>lg_token := s\<rparr>), [])"
| "login_start (LoginActor s) (b, p) = ((b, if lg_loading p then p else p\<lparr>lg_actor := s\<rparr>), [])"
| "login_start LoginSubmit bp = login_submit_start bp"

definition login_resume :: "login_task \<Rightarrow> js_error + fetch_response \<Rightarrow> browser \<times> admin_login
    \<Rightarrow> (browser \<times> admin_login, login_task) started" where
  "login_resume t = settled login_health_done"

section \<open>The audit log\<close>

definition PAGE_SIZE :: nat where "PAGE_SIZE = 50"

record admin_audit =
  aud_events :: "json list"
  aud_cursor :: "json option"
  aud_loading :: bool
  aud_error :: string

definition admin_audit_init :: admin_audit where
  "admin_audit_init = \<lparr>aud_events = [], aud_cursor = None, aud_loading = False, aud_error = []\<rparr>"

datatype audit_event = AuditConnected | AuditReload | AuditOlder

datatype audit_task = AuditFirst | AuditMore

definition last_id :: "json list \<Rightarrow> json option" where
  "last_id vs = (if vs = [] then None else js_nullish (js_get ''id'' (Some (last vs))))"

definition audit_first_start :: "browser \<times> admin_audit \<Rightarrow> (browser \<times> admin_audit, audit_task) started" where
  "audit_first_start = (\<lambda>(b, p). ((b, p\<lparr>aud_loading := True, aud_error := []\<rparr>),
     [(AuditFirst, api_listAuditLog (Some (JNum (int PAGE_SIZE))) None)]))"

definition audit_older_start :: "browser \<times> admin_audit \<Rightarrow> (browser \<times> admin_audit, audit_task) started" where
  "audit_older_start = (\<lambda>(b, p).
     case aud_cursor p of
       None \<Rightarrow> ((b, p), [])
     | Some c \<Rightarrow> ((b, p\<lparr>aud_loading := True, aud_error := []\<rparr>),
         [(AuditMore, api_listAuditLog (Some (JNum (int PAGE_SIZE))) (Some c))]))"

definition audit_first_done :: "ApiError + json \<Rightarrow> browser \<times> admin_audit \<Rightarrow> (browser \<times> admin_audit, audit_task) started" where
  "audit_first_done r = (\<lambda>(b, p).
     ((b, (case r of
             Inr res \<Rightarrow> (let evs = js_array (js_get ''events'' (Some res))
                         in p\<lparr>aud_events := evs, aud_cursor := last_id evs\<rparr>)
           | Inl err \<Rightarrow> p\<lparr>aud_error := ae_message err\<rparr>)\<lparr>aud_loading := False\<rparr>), []))"

definition audit_older_done :: "ApiError + json \<Rightarrow> browser \<times> admin_audit \<Rightarrow> (browser \<times> admin_audit, audit_task) started" where
  "audit_older_done r = (\<lambda>(b, p).
     ((b, (case r of
             Inr res \<Rightarrow> (let more = js_array (js_get ''events'' (Some res))
                         in p\<lparr>aud_events := aud_events p @ more, aud_cursor := last_id more\<rparr>)
           | Inl err \<Rightarrow> p\<lparr>aud_error := ae_message err\<rparr>)\<lparr>aud_loading := False\<rparr>), []))"

text \<open>The button for older events is drawn under this condition.\<close>

definition older_shown :: "admin_audit \<Rightarrow> bool" where
  "older_shown p \<longleftrightarrow> aud_cursor p \<noteq> None \<and> PAGE_SIZE \<le> length (aud_events p)"

fun audit_start :: "audit_event \<Rightarrow> browser \<times> admin_audit \<Rightarrow> (browser \<times> admin_audit, audit_task) started" where
  "audit_start AuditConnected (b, p) = (if aud_loading p then ((b, p), []) else audit_first_start (b, p))"
| "audit_start AuditReload (b, p) = (if aud_loading p then ((b, p), []) else audit_first_start (b, p))"
| "audit_start AuditOlder (b, p) =
     (if aud_loading p \<or> \<not> older_shown p then ((b, p), []) else audit_older_start (b, p))"

definition audit_resume :: "audit_task \<Rightarrow> js_error + fetch_response \<Rightarrow> browser \<times> admin_audit
    \<Rightarrow> (browser \<times> admin_audit, audit_task) started" where
  "audit_resume t = settled (case t of AuditFirst \<Rightarrow> audit_first_done | AuditMore \<Rightarrow> audit_older_done)"

section \<open>Capability search\<close>

record admin_capabilities =
  cp_capability :: string
  cp_offering :: string
  cp_tier :: string
  cp_result :: json
  cp_loading :: bool
  cp_error :: string

definition admin_capabilities_init :: admin_capabilities where
  "admin_capabilities_init = \<lparr>cp_capability = [], cp_offering = [], cp_tier = [], cp_result = JNull,
     cp_loading = False, cp_error = []\<rparr>"

datatype capabilities_event = CapCapability string | CapOffering string | CapTier string | CapSubmit

datatype capabilities_task = CapSearch

definition capabilities_submit_start ::
    "browser \<times> admin_capabilities \<Rightarrow> (browser \<times> admin_capabilities, capabilities_task) started" where
  "capabilities_submit_start = (\<lambda>(b, p).
     if cp_loading p then ((b, p), [])
     else if js_trim (cp_capability p) = [] then ((b, p\<lparr>cp_error := ''capability is required''\<rparr>), [])
     else if js_trim (cp_offering p) = [] then ((b, p\<lparr>cp_error := ''offering is required''\<rparr>), [])
     else ((b, p\<lparr>cp_loading := True, cp_error := [], cp_result := JNull\<rparr>),
           [(CapSearch, api_searchCapabilities (js_trim (cp_capability p)) (js_trim (cp_offering p))
               (if js_trim (cp_tier p) = [] then None else Some (js_trim (cp_tier p))))]))"

definition capabilities_done :: "ApiError + json \<Rightarrow> browser \<times> admin_capabilities
    \<Rightarrow> (browser \<times> admin_capabilities, capabilities_task) started" where
  "capabilities_done r = (\<lambda>(b, p).
     ((b, (case r of Inr res \<Rightarrow> p\<lparr>cp_result := res\<rparr> | Inl err \<Rightarrow> p\<lparr>cp_error := ae_message err\<rparr>)\<lparr>cp_loading := False\<rparr>), []))"

fun capabilities_start :: "capabilities_event \<Rightarrow> browser \<times> admin_capabilities
    \<Rightarrow> (browser \<times> admin_capabilities, capabilities_task) started" where
  "capabilities_start (CapCapability s) (b, p) = ((b, p\<lparr>cp_capability := s\<rparr>), [])"
| "capabilities_start (CapOffering s) (b, p) = ((b, p\<lparr>cp_offering := s\<rparr>), [])"
| "capabilities_start (CapTier s) (b, p) = ((b, p\<lparr>cp_tier := s\<rparr>), [])"
| "capabilities_start CapSubmit bp = capabilities_submit_start bp"

definition capabilities_resume :: "capabilities_task \<Rightarrow> js_error + fetch_response \<Rightarrow> browser \<times> admin_capabilities
    \<Rightarrow> (browser \<times> admin_capabilities, capabilities_task) started" where
  "capabilities_resume t = settled capabilities_done"

section \<open>One orchestrator\<close>

record admin_orch_detail =
  od_address :: string
  od_data :: json
  od_error :: string
  od_loading :: bool
  od_refreshing :: bool

definition admin_orch_detail_init :: admin_orch_detail where
  "admin_orch_detail_init =
     \<lparr>od_address = [], od_data = JNull, od_error = [], od_loading = False, od_refreshing = False\<rparr>"

datatype detail_event = DetailAddress string | DetailConnected | DetailRefresh

datatype detail_task = DetailLoad | DetailRefreshing | DetailReload

text \<open>\<open>t\<close> is what goes on after the load: nothing more, or the end of a refresh.\<close>

definition detail_load_start :: "detail_task \<Rightarrow> browser \<times> admin_orch_detail \<Rightarrow> (browser \<times> admin_orch_detail, detail_task) started" where
  "detail_load_start t = (\<lambda>(b, p).
     if od_address p = []
     then ((b, if t = DetailReload then p\<lparr>od_refreshing := False\<rparr> else p), [])
     else ((b, p\<lparr>od_loading := True, od_error := [], od_data := JNull\<rparr>), [(t, api_getOrch (od_address p))]))"

definition detail_load_done :: "detail_task \<Rightarrow> ApiError + json \<Rightarrow> browser \<times> admin_orch_detail
    \<Rightarrow> (browser \<times> admin_orch_detail, detail_task) started" where
  "detail_load_done t r = (\<lambda>(b, p).
     let p' = (case r of
                 Inr res \<Rightarrow> p\<lparr>od_data := res\<rparr>
               | Inl err \<Rightarrow>
                   if ae_status err = 404
                   then p\<lparr>od_data := JObj [(''orch'', JNull), (''recentObservations'', JArr [])]\<rparr>
                   else p\<lparr>od_error := ae_message err\<rparr>)\<lparr>od_loading := False\<rparr>
     in ((b, if t = DetailReload then p'\<lparr>od_refreshing := False\<rparr> else p'), []))"

definition detail_refresh_start :: "browser \<times> admin_orch_detail \<Rightarrow> (browser \<times> admin_orch_detail, detail_task) started" where
  "detail_refresh_start = (\<lambda>(b, p).
     if od_refreshing p then ((b, p), [])
     else ((b, p\<lparr>od_refreshing := True\<rparr>), [(DetailRefreshing, api_refreshResolverByAddress (od_address p))]))"

definition detail_refresh_done :: "ApiError + json \<Rightarrow> browser \<times> admin_orch_detail
    \<Rightarrow> (browser \<times> admin_orch_detail, detail_task) started" where
  "detail_refresh_done r = (\<lambda>(b, p).
     case r of
       Inr _ \<Rightarrow> detail_load_start DetailReload (b, p)
     | Inl err \<Rightarrow> ((b, p\<lparr>od_error := ae_message err, od_refreshing := False\<rparr>), []))"

text \<open>
  A new address is a property change, which loads; the same address is none. The button is
  drawn with the data.
\<close>

definition refresh_shown :: "admin_orch_detail \<Rightarrow> bool" where
  "refresh_shown p \<longleftrightarrow> od_address p \<noteq> [] \<and> \<not> od_loading p \<and> od_error p = [] \<and> js_truthy (od_data p)"

fun detail_start :: "detail_event \<Rightarrow> browser \<times> admin_orch_detail \<Rightarrow> (browser \<times> admin_orch_detail, detail_task) started" where
  "detail_start (DetailAddress a) (b, p) =
     (if a = od_address p then ((b, p), []) else detail_load_start DetailLoad (b, p\<lparr>od_address := a\<rparr>))"
| "detail_start DetailConnected bp = detail_load_start DetailLoad bp"
| "detail_start DetailRefresh (b, p) = (if refresh_shown p then detail_refresh_start (b, p) else ((b, p), []))"

definition detail_resume :: "detail_task \<Rightarrow> js_error + fetch_response \<Rightarrow> browser \<times> admin_orch_detail
    \<Rightarrow> (browser \<times> admin_orch_detail, detail_task) started" where
  "detail_resume t = settled (case t of DetailRefreshing \<Rightarrow> detail_refresh_done | _ \<Rightarrow> detail_load_done t)"

section \<open>The routing dashboard\<close>

record admin_routing =
  rp_orchs :: "json list"
  rp_capability :: string
  rp_offering :: string
  rp_selected :: "string option"
  rp_detail :: json
  rp_loading :: bool
  rp_error :: string
  rp_refreshing :: bool

definition admin_routing_init :: admin_routing where
  "admin_routing_init =
     \<lparr>rp_orchs = [], rp_capability = [], rp_offering = [], rp_selected = None, rp_detail = JNull,
      rp_loading = True, rp_error = [], rp_refreshing = False\<rparr>"

text \<open>A click on the refresh of all comes with the answer to the confirmation.\<close>

datatype routing_event =
    RoutingConnected | RoutingCapability string | RoutingOffering string | RoutingApply
  | RoutingSelect string | RoutingRefreshAll bool | RoutingRefreshOne

datatype routing_task =
    RtReload | RtSelect | RtRefreshAll | RtReloadAfterAll
  | RtRefreshOne string | RtDetail | RtReloadAfterOne

definition routing_reload_start :: "routing_task \<Rightarrow> browser \<times> admin_routing \<Rightarrow> (browser \<times> admin_routing, routing_task) started" where
  "routing_reload_start t = (\<lambda>(b, p).
     ((b, p\<lparr>rp_loading := True, rp_error := []\<rparr>),
      [(t, api_listOrchs (if rp_capability p = [] then None else Some (rp_capability p))
                         (if rp_offering p = [] then None else Some (rp_offering p)))]))"

definition routing_reload_done :: "ApiError + json \<Rightarrow> admin_routing \<Rightarrow> admin_routing" where
  "routing_reload_done r p =
     (case r of
        Inr res \<Rightarrow> p\<lparr>rp_orchs := js_array (js_get ''orchs'' (Some res))\<rparr>
      | Inl err \<Rightarrow> p\<lparr>rp_error := ae_message err\<rparr>)\<lparr>rp_loading := False\<rparr>"

definition routing_select_start :: "string \<Rightarrow> browser \<times> admin_routing \<Rightarrow> (browser \<times> admin_routing, routing_task) started" where
  "routing_select_start address = (\<lambda>(b, p).
     if rp_selected p = Some address then ((b, p\<lparr>rp_selected := None, rp_detail := JNull\<rparr>), [])
     else ((b, p\<lparr>rp_selected := Some address, rp_detail := JNull\<rparr>), [(RtSelect, api_getOrch address)]))"

definition routing_select_done :: "ApiError + json \<Rightarrow> admin_routing \<Rightarrow> admin_routing" where
  "routing_select_done r p =
     (case r of
        Inr res \<Rightarrow> p\<lparr>rp_detail := res\<rparr>
      | Inl err \<Rightarrow> p\<lparr>rp_detail := JObj [(''error'', JStr (ae_message err))]\<rparr>)"

definition routing_refresh_all_start :: "bool \<Rightarrow> browser \<times> admin_routing \<Rightarrow> (browser \<times> admin_routing, routing_task) started" where
  "routing_refresh_all_start confirmed = (\<lambda>(b, p).
     if rp_refreshing p then ((b, p), [])
     else if \<not> confirmed then ((b, p), [])
     else ((b, p\<lparr>rp_refreshing := True\<rparr>), [(RtRefreshAll, api_refreshResolver)]))"

definition routing_refresh_all_done :: "ApiError + json \<Rightarrow> browser \<times> admin_routing
    \<Rightarrow> (browser \<times> admin_routing, routing_task) started" where
  "routing_refresh_all_done r = (\<lambda>(b, p).
     case r of
       Inr _ \<Rightarrow> routing_reload_start RtReloadAfterAll (b, p)
     | Inl err \<Rightarrow> ((b, p\<lparr>rp_error := ae_message err, rp_refreshing := False\<rparr>), []))"

definition routing_refresh_one_start :: "string \<Rightarrow> browser \<times> admin_routing \<Rightarrow> (browser \<times> admin_routing, routing_task) started" where
  "routing_refresh_one_start address = (\<lambda>(b, p).
     ((b, p), [(RtRefreshOne address, api_refreshResolverByAddress address)]))"

definition routing_refresh_one_done :: "string \<Rightarrow> ApiError + json \<Rightarrow> browser \<times> admin_routing
    \<Rightarrow> (browser \<times> admin_routing, routing_task) started" where
  "routing_refresh_one_done address r = (\<lambda>(b, p).
     case r of
       Inr _ \<Rightarrow>
         if rp_selected p = Some address then ((b, p), [(RtDetail, api_getOrch address)])
         else routing_reload_start RtReloadAfterOne (b, p)
     | Inl err \<Rightarrow> ((b, p\<lparr>rp_error := ae_message err\<rparr>), []))"

definition routing_detail_done :: "ApiError + json \<Rightarrow> browser \<times> admin_routing
    \<Rightarrow> (browser \<times> admin_routing, routing_task) started" where
  "routing_detail_done r = (\<lambda>(b, p).
     case r of
       Inr res \<Rightarrow> routing_reload_start RtReloadAfterOne (b, p\<lparr>rp_detail := res\<rparr>)
     | Inl err \<Rightarrow> ((b, p\<lparr>rp_error := ae_message err\<rparr>), []))"

text \<open>
  What can be clicked: a row of the roster, which is drawn when nothing loads, and the
  refresh of the orchestrator whose detail is drawn, with the address selected by then.
\<close>

definition row_address :: "json \<Rightarrow> json option" where
  "row_address o' = js_get ''address'' (Some o')"

definition row_shown :: "string \<Rightarrow> admin_routing \<Rightarrow> bool" where
  "row_shown a p \<longleftrightarrow> \<not> rp_loading p \<and> Some (JStr a) \<in> set (map row_address (rp_orchs p))"

definition detail_shown :: "admin_routing \<Rightarrow> bool" where
  "detail_shown p \<longleftrightarrow> js_truthy (rp_detail p) \<and> \<not> js_true (js_get ''error'' (Some (rp_detail p)))"

fun routing_start :: "routing_event \<Rightarrow> browser \<times> admin_routing \<Rightarrow> (browser \<times> admin_routing, routing_task) started" where
  "routing_start RoutingConnected bp = routing_reload_start RtReload bp"
| "routing_start (RoutingCapability s) (b, p) = ((b, p\<lparr>rp_capability := s\<rparr>), [])"
| "routing_start (RoutingOffering s) (b, p) = ((b, p\<lparr>rp_offering := s\<rparr>), [])"
| "routing_start RoutingApply bp = routing_reload_start RtReload bp"
| "routing_start (RoutingSelect a) (b, p) = (if row_shown a p then routing_select_start a (b, p) else ((b, p), []))"
| "routing_start (RoutingRefreshAll c) bp = routing_refresh_all_start c bp"
| "routing_start RoutingRefreshOne (b, p) =
     (case rp_selected p of
        None \<Rightarrow> ((b, p), [])
      | Some a \<Rightarrow> if a \<noteq> [] \<and> detail_shown p then routing_refresh_one_start a (b, p) else ((b, p), []))"

fun routing_continue :: "routing_task \<Rightarrow> ApiError + json \<Rightarrow> browser \<times> admin_routing
    \<Rightarrow> (browser \<times> admin_routing, routing_task) started" where
  "routing_continue RtReload r (b, p) = ((b, routing_reload_done r p), [])"
| "routing_continue RtSelect r (b, p) = ((b, routing_select_done r p), [])"
| "routing_continue RtRefreshAll r bp = routing_refresh_all_done r bp"
| "routing_continue RtReloadAfterAll r (b, p) = ((b, (routing_reload_done r p)\<lparr>rp_refreshing := False\<rparr>), [])"
| "routing_continue (RtRefreshOne a) r bp = routing_refresh_one_done a r bp"
| "routing_continue RtDetail r bp = routing_detail_done r bp"
| "routing_continue RtReloadAfterOne r (b, p) = ((b, routing_reload_done r p), [])"

definition routing_resume :: "routing_task \<Rightarrow> js_error + fetch_response \<Rightarrow> browser \<times> admin_routing
    \<Rightarrow> (browser \<times> admin_routing, routing_task) started" where
  "routing_resume t = settled (routing_continue t)"

section \<open>The sender\<close>

record admin_sender =
  as_wallet :: json
  as_escrow :: json
  as_walletNotConfigured :: bool
  as_walletError :: string
  as_escrowError :: string
  as_loading :: bool

definition admin_sender_init :: admin_sender where
  "admin_sender_init = \<lparr>as_wallet = JNull, as_escrow = JNull, as_walletNotConfigured = False,
     as_walletError = [], as_escrowError = [], as_loading = False\<rparr>"

definition sender_reload_start :: "admin_sender \<Rightarrow> admin_sender" where
  "sender_reload_start p = p\<lparr>as_loading := True, as_wallet := JNull, as_escrow := JNull,
     as_walletNotConfigured := False, as_walletError := [], as_escrowError := []\<rparr>"

text \<open>\<^verbatim>\<open>err.body.error?.code\<close>, with its tests of what is an object.\<close>

definition error_code :: "ApiError \<Rightarrow> json option" where
  "error_code err =
     (if js_object (ae_body err) \<and> js_has ''error'' (ae_body err)
      then js_get ''code'' (js_get ''error'' (Some (ae_body err))) else None)"

definition sender_wallet_done :: "ApiError + json \<Rightarrow> admin_sender \<Rightarrow> admin_sender" where
  "sender_wallet_done r p =
     (case r of
        Inr v \<Rightarrow> p\<lparr>as_wallet := v\<rparr>
      | Inl err \<Rightarrow>
          if ae_status err = 503 \<and> error_code err = Some (JStr ''wallet_not_configured'')
          then p\<lparr>as_walletNotConfigured := True\<rparr>
          else p\<lparr>as_walletError := ae_message err\<rparr>)"

definition sender_escrow_done :: "ApiError + json \<Rightarrow> admin_sender \<Rightarrow> admin_sender" where
  "sender_escrow_done r p =
     (case r of Inr v \<Rightarrow> p\<lparr>as_escrow := v\<rparr> | Inl err \<Rightarrow> p\<lparr>as_escrowError := ae_message err\<rparr>)"

text \<open>
  The two calls are made together and looked at when both are settled; here the first is
  answered before the second. The button is disabled meanwhile, so no other reload runs.
\<close>

definition sender_reload :: "'w fetch \<Rightarrow> admin_sender \<Rightarrow> ('w, admin_sender) page_io" where
  "sender_reload fetch p =
     (let p0 = sender_reload_start p
      in io_bind (io_attempt (run_call fetch api_getSenderWallet)) (\<lambda>walletR.
         io_bind (io_attempt (run_call fetch api_getSenderEscrow)) (\<lambda>escrowR.
         io_return ((sender_escrow_done escrowR (sender_wallet_done walletR p0))\<lparr>as_loading := False\<rparr>))))"

end
