(* ===== verification/JsDate.thy ===== *)
theory JsDate
  imports Timestamps
begin

text \<open>
  The text of a date, as \<^verbatim>\<open>toISOString\<close> of the language writes it: the calendar of the standard
  (the proleptic Gregorian one, in terms of days from the first of January 1970), decimal
  numbers of a fixed width, and the reading of such a text. The lemmas show that the
  calendar puts every day into its year and month, and that reading gives back every
  date a \<^verbatim>\<open>Date\<close> can hold.
\<close>

section \<open>Numbers of a fixed width\<close>

definition pad :: "nat \<Rightarrow> nat \<Rightarrow> string" where
  "pad k n = replicate (k - length (show_nat n)) (CHR ''0'') @ show_nat n"

definition take_digits :: "nat \<Rightarrow> string \<Rightarrow> (nat \<times> string) option" where
  "take_digits k s =
     (if k \<le> length s \<and> list_all is_digit_char (take k s) then Some (dec_val (take k s), drop k s) else None)"

definition take_char :: "char \<Rightarrow> string \<Rightarrow> string option" where
  "take_char c s = (case s of x # r \<Rightarrow> if x = c then Some r else None | [] \<Rightarrow> None)"

lemma show_nat_length: "n < 10 ^ k \<Longrightarrow> 0 < k \<Longrightarrow> length (show_nat n) \<le> k"
proof (induction k arbitrary: n)
  case (Suc k)
  show ?case
  proof (cases "n < 10")
    case True
    then show ?thesis by (subst show_nat.simps) simp
  next
    case False
    with Suc.prems have "n div 10 < 10 ^ k" and "0 < k" by (auto intro: gr0I simp: less_mult_imp_div_less)
    with Suc.IH [of "n div 10"] False show ?thesis by (subst show_nat.simps) simp
  qed
qed simp

lemma pad_length [simp]: "n < 10 ^ k \<Longrightarrow> 0 < k \<Longrightarrow> length (pad k n) = k"
  using show_nat_length [of n k] by (simp add: pad_def)

lemma dec_val_zeros: "dec_val (replicate k (CHR ''0'') @ s) = dec_val s"
  by (induction k) (simp_all add: dec_val_def digit_val_def)

lemma dec_val_pad [simp]: "dec_val (pad k n) = n"
  by (simp add: pad_def dec_val_zeros)

lemma pad_digits: "list_all is_digit_char (pad k n)"
  using show_nat_digits [of n] by (auto simp: pad_def list_all_iff is_digit_char_def)

lemma take_digits_pad [simp]: "n < 10 ^ k \<Longrightarrow> 0 < k \<Longrightarrow> take_digits k (pad k n @ s) = Some (n, s)"
  using pad_digits [of k n] by (simp add: take_digits_def)

lemma take_char_Cons [simp]: "take_char c (x # s) = (if x = c then Some s else None)"
  by (simp add: take_char_def)

section \<open>The calendar\<close>

text \<open>\<^verbatim>\<open>DayFromYear\<close>: the days before the first of January of a year.\<close>

definition day_from_year :: "int \<Rightarrow> int" where
  "day_from_year y = 365 * (y - 1970) + (y - 1969) div 4 - (y - 1901) div 100 + (y - 1601) div 400"

text \<open>\<^verbatim>\<open>YearFromTime\<close>: a guess by the mean length of a year is off by one at most.\<close>

definition year_from_day :: "int \<Rightarrow> int" where
  "year_from_day d =
     (let y = 1970 + 400 * d div 146097
      in if d < day_from_year y then y - 1 else if day_from_year (y + 1) \<le> d then y + 1 else y)"

definition leap :: "int \<Rightarrow> bool" where
  "leap y \<longleftrightarrow> y mod 4 = 0 \<and> (y mod 100 \<noteq> 0 \<or> y mod 400 = 0)"

text \<open>The days of a year before a month, the months counted from 0.\<close>

definition month_start :: "bool \<Rightarrow> nat \<Rightarrow> int" where
  "month_start lp m =
     [0, 31, 59, 90, 120, 151, 181, 212, 243, 273, 304, 334, 365] ! m + (if lp \<and> 2 \<le> m then 1 else 0)"

definition month_of :: "bool \<Rightarrow> int \<Rightarrow> nat" where
  "month_of lp d =
     (if d < month_start lp 1 then 0
      else if d < month_start lp 2 then 1
      else if d < month_start lp 3 then 2
      else if d < month_start lp 4 then 3
      else if d < month_start lp 5 then 4
      else if d < month_start lp 6 then 5
      else if d < month_start lp 7 then 6
      else if d < month_start lp 8 then 7
      else if d < month_start lp 9 then 8
      else if d < month_start lp 10 then 9
      else if d < month_start lp 11 then 10
      else 11)"

lemma mean_year:
  fixes a b c n r s t :: int
  assumes "4 * a + r = n + 1" "0 \<le> r" "r < 4" "100 * b + s = n + 69" "0 \<le> s" "s < 100"
    and "400 * c + t = n + 369" "0 \<le> t" "t < 400"
  shows "146097 * n - 506 \<le> 400 * (365 * n + a - b + c)" "400 * (365 * n + a - b + c) \<le> 146097 * n + 589"
proof -
  have parts: "400 * a = 100 * n + (100 - 100 * r)" "400 * b = 4 * n + (276 - 4 * s)" "400 * c = n + (369 - t)"
    using assms(1,4,7) by presburger+
  have "400 * (365 * n + a - b + c) = 146000 * n + 400 * a - 400 * b + 400 * c" by (simp add: algebra_simps)
  then have sum: "400 * (365 * n + a - b + c) = 146097 * n + (193 - 100 * r + 4 * s - t)" unfolding parts by simp
  have "- 506 \<le> 193 - 100 * r + 4 * s - t" "193 - 100 * r + 4 * s - t \<le> 589" using assms(2,3,5,6,8,9) by presburger+
  then show "146097 * n - 506 \<le> 400 * (365 * n + a - b + c)" "400 * (365 * n + a - b + c) \<le> 146097 * n + 589"
    unfolding sum by simp_all
qed

lemma day_from_year_bounds:
  "146097 * (y - 1970) - 506 \<le> 400 * day_from_year y" "400 * day_from_year y \<le> 146097 * (y - 1970) + 589"
proof -
  define n where "n = y - 1970"
  have y: "day_from_year y = 365 * n + (n + 1) div 4 - (n + 69) div 100 + (n + 369) div 400"
    by (simp add: day_from_year_def n_def)
  have "4 * ((n + 1) div 4) + (n + 1) mod 4 = n + 1" "0 \<le> (n + 1) mod 4" "(n + 1) mod 4 < 4"
    "100 * ((n + 69) div 100) + (n + 69) mod 100 = n + 69" "0 \<le> (n + 69) mod 100" "(n + 69) mod 100 < 100"
    "400 * ((n + 369) div 400) + (n + 369) mod 400 = n + 369" "0 \<le> (n + 369) mod 400" "(n + 369) mod 400 < 400"
    by simp_all
  note mean_year [OF this]
  then show "146097 * (y - 1970) - 506 \<le> 400 * day_from_year y" "400 * day_from_year y \<le> 146097 * (y - 1970) + 589"
    unfolding y n_def [symmetric] by simp_all
qed

lemma year_from_day:
  "day_from_year (year_from_day d) \<le> d" "d < day_from_year (year_from_day d + 1)"
proof -
  obtain n r where n: "400 * d div 146097 = n" and d: "400 * d = 146097 * n + r" "0 \<le> r" "r < 146097"
    using mult_div_mod_eq [of 146097 "400 * d"] pos_mod_bound [of 146097 "400 * d"] pos_mod_sign [of 146097 "400 * d"]
    by (metis zero_less_numeral)
  note b = day_from_year_bounds [of "1970 + n - 1"] day_from_year_bounds [of "1970 + n + 2"]
  have "400 * day_from_year (1970 + n - 1) \<le> 400 * d" "400 * d < 400 * day_from_year (1970 + n + 2)"
    using order_trans [OF b(2), of "400 * d"] less_le_trans [OF _ b(3), of "400 * d"] d by simp_all
  then have "day_from_year (1970 + n - 1) \<le> d" "d < day_from_year (1970 + n + 2)" by simp_all
  then show "day_from_year (year_from_day d) \<le> d" "d < day_from_year (year_from_day d + 1)"
    by (auto simp: year_from_day_def n Let_def add.assoc)
qed

lemma div_step:
  fixes k :: int
  assumes "0 < k" and "z = x + 1" and "z mod k = m"
  shows "z div k = x div k + of_bool (m = 0)"
proof (cases "x mod k + 1 = k")
  case True
  have "z = k * (x div k) + (x mod k + 1)" using assms(2) by simp
  also have "\<dots> = k * (x div k + 1)" unfolding True by (simp add: algebra_simps)
  finally have z: "z = k * (x div k + 1)" .
  then have "z div k = x div k + 1" "z mod k = 0" using assms(1) by simp_all
  with assms(3) show ?thesis by simp
next
  case False
  moreover have "0 \<le> x mod k" "x mod k < k" using assms(1) by simp_all
  ultimately have r: "0 \<le> x mod k + 1" "x mod k + 1 < k" "0 \<le> x mod k" by linarith+
  have z: "z = k * (x div k) + (x mod k + 1)" using assms(2) by simp
  have "z div k = x div k" by (rule int_div_pos_eq [OF z r(1,2)])
  moreover have "z mod k = x mod k + 1" by (rule int_mod_pos_eq [OF z r(1,2)])
  ultimately show ?thesis using assms(3) r(3) by simp
qed

lemma year_length: "day_from_year (y + 1) = day_from_year y + (if leap y then 366 else 365)"
proof -
  have "(y + (- 492) * 4) mod 4 = y mod 4" "(y + (- 19) * 100) mod 100 = y mod 100" "(y + (- 4) * 400) mod 400 = y mod 400"
    by (rule mod_mult_self1)+
  then have m: "(y - 1968) mod 4 = y mod 4" "(y - 1900) mod 100 = y mod 100" "(y - 1600) mod 400 = y mod 400"
    by simp_all
  have "y mod 400 mod 100 = y mod 100" "y mod 100 mod 4 = y mod 4" by (simp_all add: mod_mod_cancel)
  then have i: "y mod 400 = 0 \<Longrightarrow> y mod 100 = 0" "y mod 100 = 0 \<Longrightarrow> y mod 4 = 0" by force+
  have "(y - 1968) div 4 = (y - 1969) div 4 + of_bool (y mod 4 = 0)"
    "(y - 1900) div 100 = (y - 1901) div 100 + of_bool (y mod 100 = 0)"
    "(y - 1600) div 400 = (y - 1601) div 400 + of_bool (y mod 400 = 0)"
    by (rule div_step; (rule m)?; simp)+
  note steps = this
  have "y + 1 - 1969 = y - 1968" "y + 1 - 1901 = y - 1900" "y + 1 - 1601 = y - 1600" "y + 1 - 1970 = (y - 1970) + 1"
    by simp_all
  note shift = this
  have "day_from_year (y + 1) - day_from_year y = 365 + of_bool (y mod 4 = 0) - of_bool (y mod 100 = 0) + of_bool (y mod 400 = 0)"
    unfolding day_from_year_def shift steps ring_distribs by simp
  with i show ?thesis by (cases "y mod 400 = 0"; cases "y mod 100 = 0"; cases "y mod 4 = 0") (simp_all add: leap_def)
qed

lemma month_starts [simp]:
    "month_start lp 0 = 0"
    "month_start lp 1 = 31"
    "month_start lp (Suc 0) = 31"
    "month_start lp (Suc (Suc 0)) = 59 + of_bool lp"
    "month_start lp 2 = 59 + of_bool lp"
    "month_start lp 3 = 90 + of_bool lp"
    "month_start lp 4 = 120 + of_bool lp"
    "month_start lp 5 = 151 + of_bool lp"
    "month_start lp 6 = 181 + of_bool lp"
    "month_start lp 7 = 212 + of_bool lp"
    "month_start lp 8 = 243 + of_bool lp"
    "month_start lp 9 = 273 + of_bool lp"
    "month_start lp 10 = 304 + of_bool lp"
    "month_start lp 11 = 334 + of_bool lp"
    "month_start lp 12 = 365 + of_bool lp"
  by (simp_all add: month_start_def)

lemma month_of_bound: "month_of lp d \<le> 11"
  by (simp add: month_of_def)

text \<open>The month of a day of the year contains the day.\<close>

lemma month_of:
  assumes "0 \<le> d" and "d < 365 + of_bool lp"
  shows "month_start lp (month_of lp d) \<le> d" "d < month_start lp (month_of lp d + 1)"
    "d - month_start lp (month_of lp d) < 31"
  using assms by (auto simp: month_of_def)

section \<open>\<^verbatim>\<open>toISOString\<close>\<close>

definition day_ms :: int where "day_ms = 86400000"

definition year_text :: "int \<Rightarrow> string" where
  "year_text y =
     (if 0 \<le> y \<and> y \<le> 9999 then pad 4 (nat y)
      else if y < 0 then CHR ''-'' # pad 6 (nat (- y)) else CHR ''+'' # pad 6 (nat y))"

definition toISOString :: "time_value \<Rightarrow> js_error + string" where
  "toISOString date =
     (case getTime date of
        None \<Rightarrow> Inl (RangeError ''Invalid time value'')
      | Some ms \<Rightarrow>
          (let day = ms div day_ms; tod = nat (ms mod day_ms); y = year_from_day day;
               d = day - day_from_year y; m = month_of (leap y) d
           in Inr (year_text y @ CHR ''-'' # pad 2 (m + 1) @ CHR ''-'' # pad 2 (nat (d - month_start (leap y) m + 1))
                @ CHR ''T'' # pad 2 (tod div 3600000) @ CHR '':'' # pad 2 (tod div 60000 mod 60)
                @ CHR '':'' # pad 2 (tod div 1000 mod 60) @ CHR ''.'' # pad 3 (tod mod 1000) @ ''Z'')))"

text \<open>The reading of such a text, \<open>None\<close> where it is not one.\<close>

definition take_year :: "string \<Rightarrow> (int \<times> string) option" where
  "take_year s =
     (case s of
        [] \<Rightarrow> None
      | c # r \<Rightarrow>
          if c = CHR ''+'' then map_option (apfst int) (take_digits 6 r)
          else if c = CHR ''-''
          then Option.bind (take_digits 6 r) (\<lambda>(y, t). if y = 0 then None else Some (- int y, t))
          else map_option (apfst int) (take_digits 4 s))"

definition iso_time :: "int \<Rightarrow> nat \<Rightarrow> nat \<Rightarrow> nat \<Rightarrow> nat \<Rightarrow> nat \<Rightarrow> nat \<Rightarrow> int option" where
  "iso_time y mo d h mi s ms =
     (if 1 \<le> mo \<and> mo \<le> 12 \<and> 1 \<le> d \<and> int d \<le> month_start (leap y) mo - month_start (leap y) (mo - 1)
         \<and> h < 24 \<and> mi < 60 \<and> s < 60
      then Some ((day_from_year y + month_start (leap y) (mo - 1) + int d - 1) * day_ms
             + int (h * 3600000 + mi * 60000 + s * 1000 + ms))
      else None)"

definition iso_read :: "string \<Rightarrow> int option" where
  "iso_read t =
     Option.bind (take_year t) (\<lambda>(y, t). Option.bind (take_char CHR ''-'' t) (\<lambda>t.
     Option.bind (take_digits 2 t) (\<lambda>(mo, t). Option.bind (take_char CHR ''-'' t) (\<lambda>t.
     Option.bind (take_digits 2 t) (\<lambda>(d, t). Option.bind (take_char CHR ''T'' t) (\<lambda>t.
     Option.bind (take_digits 2 t) (\<lambda>(h, t). Option.bind (take_char CHR '':'' t) (\<lambda>t.
     Option.bind (take_digits 2 t) (\<lambda>(mi, t). Option.bind (take_char CHR '':'' t) (\<lambda>t.
     Option.bind (take_digits 2 t) (\<lambda>(s, t). Option.bind (take_char CHR ''.'' t) (\<lambda>t.
     Option.bind (take_digits 3 t) (\<lambda>(ms, t).
       if t = ''Z'' then Option.bind (iso_time y mo d h mi s ms) (getTime \<circ> Some) else None)))))))))))))"

lemma take_year_text:
  assumes "\<bar>y\<bar> < 1000000"
  shows "take_year (year_text y @ t) = Some (y, t)"
proof -
  consider "0 \<le> y" "y \<le> 9999" | "y < 0" | "9999 < y" by linarith
  then show ?thesis
  proof cases
    case 1
    then have n: "nat y < 10 ^ 4" by (simp add: nat_less_iff)
    then have "pad 4 (nat y) \<noteq> []" by (auto simp flip: length_greater_0_conv)
    then obtain c r where p: "pad 4 (nat y) = c # r" by (cases "pad 4 (nat y)") auto
    with pad_digits [of 4 "nat y"] have "is_digit_char c" by simp
    then have "c \<noteq> CHR ''+''" "c \<noteq> CHR ''-''" by (auto simp: is_digit_char_def)
    with 1 p take_digits_pad [OF n, of t] show ?thesis by (simp add: take_year_def year_text_def)
  next
    case 2
    with assms have "nat (- y) < 10 ^ 6" by (simp add: nat_less_iff)
    with 2 show ?thesis by (simp add: take_year_def year_text_def)
  next
    case 3
    with assms have "nat y < 10 ^ 6" by (simp add: nat_less_iff)
    with 3 show ?thesis by (simp add: take_year_def year_text_def)
  qed
qed

lemma year_bound: "\<bar>d\<bar> \<le> 100000000 \<Longrightarrow> \<bar>year_from_day d\<bar> < 1000000"
proof -
  assume d: "\<bar>d\<bar> \<le> 100000000"
  have "(- 400 * 100000000) div 146097 \<le> 400 * d div 146097" "400 * d div 146097 \<le> 400 * 100000000 div (146097 :: int)"
    using d by (intro zdiv_mono1; simp)+
  then have "- 300000 \<le> 400 * d div 146097" "400 * d div 146097 \<le> 300000" by simp_all
  then show ?thesis by (auto simp: year_from_day_def Let_def)
qed

lemma day_parts:
  fixes d :: int
  defines "y \<equiv> year_from_day d"
  defines "m \<equiv> month_of (leap y) (d - day_from_year y)"
  defines "k \<equiv> nat (d - day_from_year y - month_start (leap y) m + 1)"
  shows "m \<le> 11" "1 \<le> k" "k \<le> 31" "int k \<le> month_start (leap y) (m + 1) - month_start (leap y) m"
    "day_from_year y + month_start (leap y) m + int k - 1 = d"
proof -
  have "0 \<le> d - day_from_year y" "d - day_from_year y < 365 + of_bool (leap y)"
    using year_from_day [of d] year_length [of y] by (auto simp: y_def split: if_splits)
  note mo = month_of [OF this, folded m_def]
  show "m \<le> 11" unfolding m_def by (rule month_of_bound)
  show "1 \<le> k" "k \<le> 31" "int k \<le> month_start (leap y) (m + 1) - month_start (leap y) m"
    "day_from_year y + month_start (leap y) m + int k - 1 = d"
    using mo unfolding k_def by simp_all
qed

lemma clock_sum:
  fixes n s m h :: nat
  assumes "n = 1000 * s + r" and "s = 60 * m + b" and "m = 60 * h + a"
  shows "h * 3600000 + a * 60000 + b * 1000 + r = n"
  using assms by simp

lemma time_parts:
  assumes "(n :: nat) < 86400000"
  shows "n div 3600000 < 24" "n div 60000 mod 60 < 60" "n div 1000 mod 60 < 60" "n mod 1000 < 1000"
    "n div 3600000 * 3600000 + n div 60000 mod 60 * 60000 + n div 1000 mod 60 * 1000 + n mod 1000 = n"
proof -
  have parts: "n div 3600000 = n div 1000 div 60 div 60" "n div 60000 = n div 1000 div 60"
    by (simp_all flip: div_mult2_eq)
  show "n div 3600000 * 3600000 + n div 60000 mod 60 * 60000 + n div 1000 mod 60 * 1000 + n mod 1000 = n"
    unfolding parts by (rule clock_sum) (rule mult_div_mod_eq [symmetric])+
  show "n div 3600000 < 24" using assms by (intro less_mult_imp_div_less) simp
qed simp_all

lemma getTime_simps [simp]: "getTime None = None" "\<bar>ms\<bar> \<le> max_time \<Longrightarrow> getTime (Some ms) = Some ms"
  by (simp_all add: getTime_def)

text \<open>A date is read back from its text.\<close>

lemma iso_read_text:
  assumes "toISOString (Some ms) = Inr t"
  shows "iso_read t = Some ms"
proof -
  from assms have ms: "\<bar>ms\<bar> \<le> max_time" by (auto simp: toISOString_def getTime_def split: if_splits)
  define day where "day = ms div day_ms"
  define n where "n = nat (ms mod day_ms)"
  define y where "y = year_from_day day"
  define m where "m = month_of (leap y) (day - day_from_year y)"
  define k where "k = nat (day - day_from_year y - month_start (leap y) m + 1)"
  note dp = day_parts [of day, folded y_def, folded m_def, folded k_def]
  have n: "n < 86400000" by (simp add: n_def day_ms_def nat_less_iff)
  note tp = time_parts [OF n]
  have t: "t = year_text y @ CHR ''-'' # pad 2 (m + 1) @ CHR ''-'' # pad 2 k
      @ CHR ''T'' # pad 2 (n div 3600000) @ CHR '':'' # pad 2 (n div 60000 mod 60)
      @ CHR '':'' # pad 2 (n div 1000 mod 60) @ CHR ''.'' # pad 3 (n mod 1000) @ ''Z''"
    using assms ms by (simp add: toISOString_def Let_def flip: day_def n_def y_def m_def k_def)
  have "- 100000000 \<le> day" "day \<le> 100000000"
    using ms zdiv_mono1 [of "- max_time" ms day_ms] zdiv_mono1 [of ms max_time day_ms]
    by (simp_all add: day_def max_time_def day_ms_def)
  then have y: "\<bar>y\<bar> < 1000000" unfolding y_def by (intro year_bound) simp
  have "ms = day * day_ms + int n" by (simp add: day_def n_def day_ms_def)
  then have "iso_time y (m + 1) k (n div 3600000) (n div 60000 mod 60) (n div 1000 mod 60) (n mod 1000) = Some ms"
    using dp tp by (simp add: iso_time_def)
  moreover have "m + 1 < 10 ^ 2" "k < 10 ^ 2" "n div 3600000 < 10 ^ 2" "n div 60000 mod 60 < 10 ^ 2"
    "n div 1000 mod 60 < 10 ^ 2" "n mod 1000 < 10 ^ 3"
    using dp tp(1-4) by simp_all
  note take_digits_pad [OF this(1)] take_digits_pad [OF this(2)] take_digits_pad [OF this(3)] take_digits_pad [OF this(4)]
    take_digits_pad [OF this(5)] take_digits_pad [OF this(6)]
  ultimately show ?thesis
    unfolding t iso_read_def take_year_text [OF y] by (simp add: ms del: add_2_eq_Suc' add_Suc_right)
qed

end
