(* ===== verification/JsBigInt.thy ===== *)
theory JsBigInt
  imports JsNumber JsDate
begin

text \<open>
  The unbounded integers of the language: \<^verbatim>\<open>BigInt\<close> of a text, division towards zero, and
  the decimal digits of a number behind a leading one.
\<close>

text \<open>\<^verbatim>\<open>BigInt(s)\<close> for a string, \<open>None\<close> where it throws.\<close>

definition bigint_digits :: "string \<Rightarrow> int option" where
  "bigint_digits s = (if s \<noteq> [] \<and> list_all is_digit_char s then Some (int (dec_val s)) else None)"

definition js_bigint :: "string \<Rightarrow> int option" where
  "js_bigint s =
     (let t = js_trim s
      in if t = [] then Some 0
         else if prefixed (CHR ''x'') (CHR ''X'') is_hex_char t then Some (int (radix_val 16 (drop 2 t)))
         else if prefixed (CHR ''o'') (CHR ''O'') is_oct_char t then Some (int (radix_val 8 (drop 2 t)))
         else if prefixed (CHR ''b'') (CHR ''B'') is_bin_char t then Some (int (radix_val 2 (drop 2 t)))
         else if hd t = CHR ''+'' then bigint_digits (tl t)
         else if hd t = CHR ''-'' then map_option uminus (bigint_digits (tl t))
         else bigint_digits t)"

definition bigint_div :: "int \<Rightarrow> int \<Rightarrow> int" where
  "bigint_div a b = sgn a * sgn b * (\<bar>a\<bar> div \<bar>b\<bar>)"

definition bigint_mod :: "int \<Rightarrow> int \<Rightarrow> int" where
  "bigint_mod a b = sgn a * (\<bar>a\<bar> mod \<bar>b\<bar>)"

lemma bigint_div_nonneg [simp]: "0 \<le> a \<Longrightarrow> 0 < b \<Longrightarrow> bigint_div a b = a div b"
  by (cases "a = 0") (simp_all add: bigint_div_def)

lemma bigint_mod_nonneg [simp]: "0 \<le> a \<Longrightarrow> 0 < b \<Longrightarrow> bigint_mod a b = a mod b"
  by (cases "a = 0") (simp_all add: bigint_mod_def)

lemma js_bigint_digits:
  assumes "s \<noteq> []" and "list_all is_digit_char s"
  shows "js_bigint s = Some (int (dec_val s))"
proof -
  have hd: "is_digit_char (hd s)" using assms by (cases s) simp_all
  have second: "\<not> is_digit_char (s ! 1) \<Longrightarrow> \<not> 3 \<le> length s"
    using assms(2) by (auto simp: list_all_length)
  have "\<not> is_digit_char (CHR ''x'')" "\<not> is_digit_char (CHR ''X'')" "\<not> is_digit_char (CHR ''o'')"
    "\<not> is_digit_char (CHR ''O'')" "\<not> is_digit_char (CHR ''b'')" "\<not> is_digit_char (CHR ''B'')"
    by (simp_all add: is_digit_char_def)
  with second have "\<not> prefixed (CHR ''x'') (CHR ''X'') f s" "\<not> prefixed (CHR ''o'') (CHR ''O'') g s"
    "\<not> prefixed (CHR ''b'') (CHR ''B'') h s" for f g h
    unfolding prefixed_def by metis+
  moreover have "hd s \<noteq> CHR ''+''" "hd s \<noteq> CHR ''-''" using hd by (auto simp: is_digit_char_def)
  ultimately show ?thesis using assms by (simp add: js_bigint_def js_trim_digits bigint_digits_def)
qed

lemma js_bigint_show_nat [simp]: "js_bigint (show_nat n) = Some (int n)"
  using js_bigint_digits [of "show_nat n"] show_nat_digits by simp

lemma js_bigint_show_int [simp]: "js_bigint (show_int i) = Some i"
proof (cases "i < 0")
  case True
  let ?d = "show_nat (nat (- i))"
  have "is_digit_char (last ?d)" using show_nat_digits [of "nat (- i)"] by (simp add: list_all_iff)
  then have t: "js_trim (CHR ''-'' # ?d) = CHR ''-'' # ?d"
    using js_trim_core [of "[]" "[]" "CHR ''-'' # ?d"] digits_not_space by (simp add: is_js_space_def)
  have "js_bigint (CHR ''-'' # ?d) = map_option uminus (bigint_digits ?d)"
    unfolding js_bigint_def t by (simp add: prefixed_def)
  with True show ?thesis using show_nat_digits [of "nat (- i)"] by (simp add: show_int_def bigint_digits_def)
qed (simp add: show_int_def)

section \<open>Digits\<close>

lemma pad_step: "0 < k \<Longrightarrow> pad (Suc k) n = pad k (n div 10) @ [digit_char (n mod 10)]"
proof (cases "n < 10")
  case True
  moreover assume "0 < k"
  moreover have "show_nat n = [digit_char n]" "show_nat 0 = [digit_char 0]"
    using True show_nat.simps [of n] show_nat.simps [of 0] by simp_all
  ultimately show ?thesis
    by (cases k) (simp_all add: pad_def digit_chars replicate_append_same)
next
  case False
  then show ?thesis using show_nat.simps [of n] by (simp add: pad_def)
qed

lemma show_nat_pad: "n < 10 ^ k \<Longrightarrow> 0 < k \<Longrightarrow> show_nat (10 ^ k + n) = CHR ''1'' # pad k n"
proof (induction k arbitrary: n)
  case (Suc k)
  have s: "show_nat (10 ^ Suc k + n) = show_nat (10 ^ k + n div 10) @ [digit_char (n mod 10)]"
  proof -
    have "(1 :: nat) \<le> 10 ^ k" by simp
    then have "\<not> 10 ^ Suc k + n < 10" by (simp only: power_Suc not_less)
    moreover have "(10 ^ Suc k + n) div 10 = 10 ^ k + n div 10" "(10 ^ Suc k + n) mod 10 = n mod 10" by simp_all
    ultimately show ?thesis using show_nat.simps [of "10 ^ Suc k + n"] by (simp only: if_False)
  qed
  show ?case
  proof (cases "k = 0")
    case True
    with Suc.prems have "show_nat n = [digit_char n]" "show_nat 1 = [digit_char 1]" "n < 10"
      using show_nat.simps [of n] show_nat.simps [of 1] by simp_all
    with True s show ?thesis by (simp add: pad_def digit_chars digit_chars(2) [unfolded One_nat_def])
  next
    case False
    moreover have "n div 10 < 10 ^ k" using Suc.prems(1) by (simp add: less_mult_imp_div_less)
    ultimately show ?thesis using Suc.IH [of "n div 10"] s pad_step [of k n] by simp
  qed
qed simp

lemma take_pad: "n < 10 ^ (k + j) \<Longrightarrow> 0 < k \<Longrightarrow> take k (pad (k + j) n) = pad k (n div 10 ^ j)"
proof (induction j arbitrary: n)
  case (Suc j)
  have n: "n div 10 < 10 ^ (k + j)" using Suc.prems(1) by (simp add: less_mult_imp_div_less)
  have "take k (pad (k + Suc j) n) = take k (pad (k + j) (n div 10))"
    using pad_step [of "k + j" n] pad_length [OF n] Suc.prems(2) by simp
  also have "\<dots> = pad k (n div 10 div 10 ^ j)" using Suc.IH [OF n] Suc.prems(2) by simp
  finally show ?case by (simp add: div_mult2_eq)
qed simp

definition strip_zeros :: "string \<Rightarrow> string" where
  "strip_zeros s = rev (dropWhile (\<lambda>c. c = CHR ''0'') (rev s))"

lemma strip_zeros_simps [simp]:
  "strip_zeros [] = []" "strip_zeros (s @ [c]) = (if c = CHR ''0'' then strip_zeros s else s @ [c])"
  by (simp_all add: strip_zeros_def)

lemma strip_zeros:
  "length (strip_zeros s) \<le> length s" "list_all is_digit_char s \<Longrightarrow> list_all is_digit_char (strip_zeros s)"
  "strip_zeros s \<noteq> [] \<Longrightarrow> last (strip_zeros s) \<noteq> CHR ''0''"
  "dec_val (strip_zeros s) * 10 ^ (length s - length (strip_zeros s)) = dec_val s"
proof (induction s rule: rev_induct)
  case (snoc c s)
  { case 1 show ?case using snoc by (simp add: le_SucI) }
  { case 2 then show ?case using snoc by simp }
  { case 3 then show ?case using snoc by (simp split: if_splits) }
  { case 4 show ?case using snoc(1,4)
      by (auto simp: dec_val_snoc Suc_diff_le digit_val_def) }
qed simp_all

end
