(* ===== verification/WebFormat.thy ===== *)
theory WebFormat
  imports JsBigInt Json
begin

text \<open>
  What the screens make of amounts, times and addresses (\<^verbatim>\<open>admin-ui/admin/lib/format.js\<close>), and
  the comparison of the wallet with its floor (\<^verbatim>\<open>admin-sender.js\<close>). The lemmas show that an
  amount is printed as its exact value cut to six decimals, that a time is printed as the
  date it is, cut to the second, and that the comparison is the one of the integers.
\<close>

text \<open>
  A text, the dash that stands for nothing, two ends of a text around an ellipsis, or a value
  that is drawn as it came.
\<close>

datatype shown = Dash | Shown string | Elided string string | Raw json

text \<open>\<^verbatim>\<open>BigInt(v)\<close>, \<open>None\<close> where it throws.\<close>

fun json_bigint :: "json \<Rightarrow> int option" where
  "json_bigint JNull = None"
| "json_bigint (JBool b) = Some (of_bool b)"
| "json_bigint (JNum n) = Some n"
| "json_bigint (JObj _) = None"
| "json_bigint v = js_bigint (js_text v)"

definition ETH :: int where "ETH = 10 ^ 18"

definition fracStr :: "int \<Rightarrow> string" where
  "fracStr rest = strip_zeros (take 6 (drop 1 (show_int (rest + ETH))))"

definition wei_text :: "int \<Rightarrow> string" where
  "wei_text v =
     (let whole = bigint_div v ETH; rest = bigint_mod v ETH
      in if rest = 0 then show_int whole @ '' ETH''
         else show_int whole @ (if fracStr rest \<noteq> [] then CHR ''.'' # fracStr rest else []) @ '' ETH'')"

definition formatWei :: "json option \<Rightarrow> shown" where
  "formatWei weiStr =
     (case js_nullish weiStr of
        None \<Rightarrow> Dash
      | Some w \<Rightarrow>
          if w = JStr [] then Dash
          else (case json_bigint w of None \<Rightarrow> Raw w | Some v \<Rightarrow> Shown (wei_text v)))"

text \<open>\<^verbatim>\<open>s.replace("T", " ")\<close> replaces the first one; the pattern is three decimals at the end.\<close>

fun replace_first :: "char \<Rightarrow> char \<Rightarrow> string \<Rightarrow> string" where
  "replace_first a b [] = []"
| "replace_first a b (c # s) = (if c = a then b # s else c # replace_first a b s)"

definition drop_millis :: "string \<Rightarrow> string" where
  "drop_millis s =
     (let e = drop (length s - 5) s
      in if 5 \<le> length s \<and> e ! 0 = CHR ''.'' \<and> list_all is_digit_char (take 3 (drop 1 e)) \<and> e ! 4 = CHR ''Z''
         then take (length s - 5) s @ ''Z'' else s)"

definition formatTimestamp :: "int option \<Rightarrow> js_error + shown" where
  "formatTimestamp ms =
     (case ms of
        None \<Rightarrow> Inr Dash
      | Some t \<Rightarrow>
          if t \<le> 0 then Inr Dash
          else map_sum id (\<lambda>s. Shown (drop_millis (replace_first (CHR ''T'') (CHR '' '') s))) (toISOString (Some t)))"

definition shortAddress :: "json option \<Rightarrow> shown" where
  "shortAddress addr =
     (case js_nullish addr of
        None \<Rightarrow> Dash
      | Some (JStr s) \<Rightarrow> if length s < 10 then Raw (JStr s) else Elided (take 6 s) (drop (length s - 4) s)
      | Some v \<Rightarrow> Raw v)"

definition belowFloor :: "json \<Rightarrow> bool" where
  "belowFloor wallet =
     (let b = js_get ''balanceWei'' (Some wallet); m = js_get ''minBalanceWei'' (Some wallet)
      in if \<not> js_true b \<or> \<not> js_true m then False
         else (case (json_bigint (the b), json_bigint (the m)) of (Some x, Some y) \<Rightarrow> x < y | _ \<Rightarrow> False))"

section \<open>Amounts\<close>

lemma fracStr_nat:
  assumes "f < 10 ^ 18"
  shows "fracStr (int f) = strip_zeros (pad 6 (f div 10 ^ 12))"
proof -
  have "show_int (int f + ETH) = show_nat (10 ^ 18 + f)" by (simp add: show_int_def ETH_def nat_add_distrib add.commute)
  also have "\<dots> = CHR ''1'' # pad 18 f" using assms by (intro show_nat_pad) simp_all
  finally have d: "show_int (int f + ETH) = CHR ''1'' # pad 18 f" .
  have "take 6 (pad (6 + 12) f) = pad 6 (f div 10 ^ 12)" using assms by (intro take_pad) simp_all
  then show ?thesis by (simp add: fracStr_def d)
qed

text \<open>The amount a printed text stands for, in millionths.\<close>

definition micro :: "nat \<Rightarrow> string \<Rightarrow> nat" where
  "micro w f = w * 10 ^ 6 + dec_val f * 10 ^ (6 - length f)"

lemma strip_pad:
  assumes "n < 10 ^ 6"
  shows "list_all is_digit_char (strip_zeros (pad 6 n))" "length (strip_zeros (pad 6 n)) \<le> 6"
    "strip_zeros (pad 6 n) \<noteq> [] \<Longrightarrow> last (strip_zeros (pad 6 n)) \<noteq> CHR ''0''"
    "micro w (strip_zeros (pad 6 n)) = w * 10 ^ 6 + n"
  using strip_zeros [of "pad 6 n"] pad_digits [of 6 n] pad_length [OF assms] by (simp_all add: micro_def)

lemma wei_parts:
  fixes v :: nat
  obtains w r where "v div 10 ^ 18 = w" and "v mod 10 ^ 18 = r" and "r < 10 ^ 18"
    and "r div 10 ^ 12 < 10 ^ 6" and "v div 10 ^ 12 = w * 10 ^ 6 + r div 10 ^ 12"
proof (rule that)
  define w r where "w = v div 10 ^ 18" and "r = v mod 10 ^ 18"
  have r: "r < 10 ^ 18" unfolding r_def by simp
  then show "v mod 10 ^ 18 < 10 ^ 18" unfolding r_def .
  have "10 ^ 18 = 10 ^ 6 * (10 ^ 12 :: nat)" by (simp only: power_add [symmetric]) simp
  with r have "r div 10 ^ 12 < 10 ^ 6" by (intro less_mult_imp_div_less) simp
  then show "v mod 10 ^ 18 div 10 ^ 12 < 10 ^ 6" unfolding r_def .
  have "v = 10 ^ 12 * (w * 10 ^ 6) + r" unfolding w_def r_def by simp
  then have "v div 10 ^ 12 = w * 10 ^ 6 + r div 10 ^ 12" by (simp only: div_mult_self4) simp
  then show "v div 10 ^ 12 = v div 10 ^ 18 * 10 ^ 6 + v mod 10 ^ 18 div 10 ^ 12" unfolding w_def r_def .
qed (rule refl)+

lemma wei_text_nat:
  "\<exists>f. wei_text (int v) = show_nat (v div 10 ^ 18) @ (if f = [] then [] else CHR ''.'' # f) @ '' ETH''
    \<and> list_all is_digit_char f \<and> length f \<le> 6 \<and> (f \<noteq> [] \<longrightarrow> last f \<noteq> CHR ''0'')
    \<and> micro (v div 10 ^ 18) f = v div 10 ^ 12"
proof -
  obtain w r where p: "v div 10 ^ 18 = w" "v mod 10 ^ 18 = r" "r < 10 ^ 18" "r div 10 ^ 12 < 10 ^ 6"
    "v div 10 ^ 12 = w * 10 ^ 6 + r div 10 ^ 12" by (rule wei_parts)
  let ?s = "strip_zeros (pad 6 (r div 10 ^ 12))"
  have "bigint_div (int v) ETH = int (v div 10 ^ 18)" "bigint_mod (int v) ETH = int (v mod 10 ^ 18)"
    by (simp_all add: ETH_def zdiv_int zmod_int)
  then have t: "wei_text (int v) = show_nat w @ (if r = 0 \<or> ?s = [] then [] else CHR ''.'' # ?s) @ '' ETH''"
    using fracStr_nat [OF p(3)] unfolding wei_text_def p Let_def by (simp add: show_int_def)
  show ?thesis
  proof (cases "r = 0")
    case True
    with t show ?thesis unfolding p by (intro exI [of _ "[]"]) (simp add: micro_def dec_val_def)
  next
    case False
    with t have "wei_text (int v) = show_nat w @ (if ?s = [] then [] else CHR ''.'' # ?s) @ '' ETH''" by simp
    then show ?thesis unfolding p using strip_pad [OF p(4)] by (intro exI [of _ ?s]) blast
  qed
qed

section \<open>Times\<close>

lemma drop_millis_end: "list_all is_digit_char d \<Longrightarrow> length d = 3 \<Longrightarrow> drop_millis (s @ CHR ''.'' # d @ ''Z'') = s @ ''Z''"
  by (simp add: drop_millis_def nth_append)

lemma replace_first_append:
  "a \<notin> set s \<Longrightarrow> replace_first a b (s @ a # t) = s @ b # t"
  by (induction s) auto

lemma pad_3_0: "pad 3 0 = ''000''"
  using show_nat.simps [of 0] by (simp add: pad_def digit_chars numeral_3_eq_3)

lemma pad_chars: "\<not> is_digit_char c \<Longrightarrow> c \<notin> set (pad k n)"
  using pad_digits [of k n] by (auto simp: list_all_iff)

lemma year_text_chars: "\<not> is_digit_char c \<Longrightarrow> c \<noteq> CHR ''-'' \<Longrightarrow> c \<noteq> CHR ''+'' \<Longrightarrow> c \<notin> set (year_text y)"
  by (simp add: year_text_def pad_chars)

lemma no_digits: "\<not> is_digit_char (CHR ''T'')" "\<not> is_digit_char (CHR '' '')"
  by (simp_all add: is_digit_char_def)

lemma cut_second:
  fixes ms :: int
  assumes "0 \<le> ms"
  shows "(ms - ms mod 1000) div day_ms = ms div day_ms"
    "nat ((ms - ms mod 1000) mod day_ms) = nat (ms mod day_ms) - nat (ms mod day_ms) mod 1000"
    "nat (ms mod day_ms) mod 1000 = nat (ms mod 1000)"
proof -
  have m: "ms mod day_ms mod 1000 = ms mod 1000" by (simp add: day_ms_def mod_mod_cancel)
  have le: "0 \<le> ms mod 1000" "ms mod 1000 \<le> ms mod day_ms" "ms mod day_ms < day_ms"
    using zmod_le_nonneg_dividend [of "ms mod day_ms" 1000] unfolding m by (simp_all add: day_ms_def)
  have split: "ms - ms mod 1000 = day_ms * (ms div day_ms) + (ms mod day_ms - ms mod 1000)" by simp
  from le have r: "0 \<le> ms mod day_ms - ms mod 1000" "ms mod day_ms - ms mod 1000 < day_ms" by linarith+
  show "(ms - ms mod 1000) div day_ms = ms div day_ms" by (rule int_div_pos_eq [OF split r])
  have "(ms - ms mod 1000) mod day_ms = ms mod day_ms - ms mod 1000" by (rule int_mod_pos_eq [OF split r])
  moreover show n: "nat (ms mod day_ms) mod 1000 = nat (ms mod 1000)"
    using nat_mod_distrib [of "ms mod day_ms" 1000] le unfolding m by simp
  ultimately show "nat ((ms - ms mod 1000) mod day_ms) = nat (ms mod day_ms) - nat (ms mod day_ms) mod 1000"
    using le by (simp add: nat_diff_distrib)
qed

lemma iso_seconds:
  assumes "0 \<le> ms" and "ms \<le> max_time"
  obtains d c where "toISOString (Some ms) = Inr (d @ CHR ''T'' # c @ CHR ''.'' # pad 3 (nat (ms mod 1000)) @ ''Z'')"
    and "toISOString (Some (ms - ms mod 1000)) = Inr (d @ CHR ''T'' # c @ ''.000Z'')"
    and "CHR ''T'' \<notin> set d" and "CHR '' '' \<notin> set d"
proof
  let ?day = "ms div day_ms" and ?n = "nat (ms mod day_ms)"
  let ?y = "year_from_day ?day"
  let ?m = "month_of (leap ?y) (?day - day_from_year ?y)"
  let ?d = "year_text ?y @ CHR ''-'' # pad 2 (?m + 1) @ CHR ''-'' # pad 2 (nat (?day - day_from_year ?y - month_start (leap ?y) ?m + 1))"
  let ?c = "pad 2 (?n div 3600000) @ CHR '':'' # pad 2 (?n div 60000 mod 60) @ CHR '':'' # pad 2 (?n div 1000 mod 60)"
  have t: "getTime (Some ms) = Some ms" using assms by simp
  have "0 \<le> ms - ms mod 1000" using zmod_le_nonneg_dividend [OF assms(1), of 1000] by simp
  moreover have "ms - ms mod 1000 \<le> max_time" using assms(2) pos_mod_sign [of 1000 ms] by linarith
  ultimately have t': "getTime (Some (ms - ms mod 1000)) = Some (ms - ms mod 1000)" by simp
  show "toISOString (Some ms) = Inr (?d @ CHR ''T'' # ?c @ CHR ''.'' # pad 3 (nat (ms mod 1000)) @ ''Z'')"
    unfolding toISOString_def t option.case Let_def cut_second(3) [OF assms(1)] by simp
  have n: "(?n - ?n mod 1000) div 1000 = ?n div 1000" "(?n - ?n mod 1000) mod 1000 = 0"
    by (simp_all add: minus_mod_eq_mult_div)
  have k: "x div 3600000 = x div 1000 div 3600" "x div 60000 = x div 1000 div 60" for x :: nat
    by (simp_all flip: div_mult2_eq)
  have "(?n - ?n mod 1000) div 3600000 = ?n div 3600000" "(?n - ?n mod 1000) div 60000 = ?n div 60000"
    unfolding k n(1) by (rule refl)+
  note n = this n
  show "toISOString (Some (ms - ms mod 1000)) = Inr (?d @ CHR ''T'' # ?c @ ''.000Z'')"
    unfolding toISOString_def t' option.case Let_def cut_second(1,2) [OF assms(1)] n pad_3_0 by simp
  show "CHR ''T'' \<notin> set ?d" "CHR '' '' \<notin> set ?d"
    by (simp_all add: year_text_chars pad_chars no_digits)
qed

lemma formatTimestamp_seconds:
  assumes "0 < ms" and "ms \<le> max_time"
  obtains d c where "formatTimestamp (Some ms) = Inr (Shown (d @ CHR '' '' # c @ ''Z''))"
    and "iso_read (d @ CHR ''T'' # c @ ''.000Z'') = Some (ms - ms mod 1000)" and "CHR '' '' \<notin> set d"
proof -
  obtain d c where t: "toISOString (Some ms) = Inr (d @ CHR ''T'' # c @ CHR ''.'' # pad 3 (nat (ms mod 1000)) @ ''Z'')"
    and t': "toISOString (Some (ms - ms mod 1000)) = Inr (d @ CHR ''T'' # c @ ''.000Z'')"
    and d: "CHR ''T'' \<notin> set d" "CHR '' '' \<notin> set d"
    using iso_seconds [of ms] assms by auto
  let ?p = "pad 3 (nat (ms mod 1000))"
  have p: "list_all is_digit_char ?p" "length ?p = 3" by (simp_all add: pad_digits nat_less_iff)
  have "drop_millis (d @ CHR '' '' # c @ CHR ''.'' # ?p @ ''Z'') = d @ CHR '' '' # c @ ''Z''"
    using drop_millis_end [OF p, of "d @ CHR '' '' # c"] by simp
  then have "formatTimestamp (Some ms) = Inr (Shown (d @ CHR '' '' # c @ ''Z''))"
    using assms t d by (simp add: formatTimestamp_def replace_first_append)
  with iso_read_text [OF t'] d that show thesis by blast
qed

section \<open>What is shown is what is there\<close>

text \<open>C33. Amounts and times are shown as they are: an amount of wei is printed in ether with at most six
  decimals, no zero last, and what is printed stands for the amount cut to millionths; a
  time is printed as the date that, read back, is the time cut to the second; and the
  warning under the balance is drawn exactly where it is smaller than the floor.\<close>

theorem shown_as_is:
  assumes "s \<noteq> []" and "js_bigint s = Some (int v)" and "0 < ms" and "ms \<le> max_time"
    and "js_get ''balanceWei'' (Some w) = Some (JStr (show_nat b))" "js_get ''minBalanceWei'' (Some w) = Some (JStr (show_nat m))"
  shows "(\<exists>f. formatWei (Some (JStr s)) = Shown (show_nat (v div 10 ^ 18) @ (if f = [] then [] else CHR ''.'' # f) @ '' ETH'')
      \<and> list_all is_digit_char f \<and> length f \<le> 6 \<and> (f \<noteq> [] \<longrightarrow> last f \<noteq> CHR ''0'')
      \<and> v div 10 ^ 18 * 10 ^ 6 + dec_val f * 10 ^ (6 - length f) = v div 10 ^ 12) \<and>
    (\<exists>d c. formatTimestamp (Some ms) = Inr (Shown (d @ CHR '' '' # c @ ''Z''))
      \<and> iso_read (d @ CHR ''T'' # c @ ''.000Z'') = Some (ms - ms mod 1000) \<and> CHR '' '' \<notin> set d) \<and>
    (belowFloor w \<longleftrightarrow> b < m)"
proof (intro conjI)
  have "formatWei (Some (JStr s)) = Shown (wei_text (int v))"
    using assms(1,2) by (simp add: formatWei_def js_nullish_def)
  then show "\<exists>f. formatWei (Some (JStr s)) = Shown (show_nat (v div 10 ^ 18) @ (if f = [] then [] else CHR ''.'' # f) @ '' ETH'')
      \<and> list_all is_digit_char f \<and> length f \<le> 6 \<and> (f \<noteq> [] \<longrightarrow> last f \<noteq> CHR ''0'')
      \<and> v div 10 ^ 18 * 10 ^ 6 + dec_val f * 10 ^ (6 - length f) = v div 10 ^ 12"
    using wei_text_nat [of v] by (simp add: micro_def)
  show "\<exists>d c. formatTimestamp (Some ms) = Inr (Shown (d @ CHR '' '' # c @ ''Z''))
      \<and> iso_read (d @ CHR ''T'' # c @ ''.000Z'') = Some (ms - ms mod 1000) \<and> CHR '' '' \<notin> set d"
    using formatTimestamp_seconds [OF assms(3,4)] by metis
  show "belowFloor w \<longleftrightarrow> b < m" using assms(5,6) by (simp add: belowFloor_def js_true_def)
qed

definition low_wallet :: json where
  "low_wallet = JObj [(''balanceWei'', JStr (show_nat 5)), (''minBalanceWei'', JStr (show_nat 7))]"

theorem shown_as_is_witness:
  "(\<exists>f. formatWei (Some (JStr ''1500000000000000001'')) =
        Shown (show_nat (1500000000000000001 div 10 ^ 18) @ (if f = [] then [] else CHR ''.'' # f) @ '' ETH'')
      \<and> list_all is_digit_char f \<and> length f \<le> 6 \<and> (f \<noteq> [] \<longrightarrow> last f \<noteq> CHR ''0'')
      \<and> 1500000000000000001 div 10 ^ 18 * 10 ^ 6 + dec_val f * 10 ^ (6 - length f) = 1500000000000000001 div 10 ^ 12) \<and>
    (\<exists>d c. formatTimestamp (Some 1700000000123) = Inr (Shown (d @ CHR '' '' # c @ ''Z''))
      \<and> iso_read (d @ CHR ''T'' # c @ ''.000Z'') = Some (1700000000123 - 1700000000123 mod 1000) \<and> CHR '' '' \<notin> set d) \<and>
    (belowFloor low_wallet \<longleftrightarrow> (5 :: nat) < 7)"
proof -
  have "js_bigint ''1500000000000000001'' = Some (int (dec_val ''1500000000000000001''))"
    by (rule js_bigint_digits) (simp_all add: is_digit_char_def)
  moreover have "dec_val ''1500000000000000001'' = 1500000000000000001" by (simp add: dec_val_def digit_val_def)
  ultimately have b: "js_bigint ''1500000000000000001'' = Some (int 1500000000000000001)" by simp
  have m: "(0 :: int) < 1700000000123" "1700000000123 \<le> max_time" by (simp_all add: max_time_def)
  have w: "js_get ''balanceWei'' (Some low_wallet) = Some (JStr (show_nat 5))"
    "js_get ''minBalanceWei'' (Some low_wallet) = Some (JStr (show_nat 7))" by (simp_all add: low_wallet_def)
  show ?thesis by (rule shown_as_is [OF _ b m w]) simp
qed

end
