(* ===== verification/WebView.thy ===== *)
theory WebView
  imports WebPages WebFormat
begin

text \<open>
  What the screens of the browser application draw (\<^verbatim>\<open>render\<close> of the components under
  \<^verbatim>\<open>admin-ui/admin/components\<close>), as trees of elements with their handlers. A drawing may
  throw: the properties of what the server sent are read without a look at its shape. Lit,
  which makes the page of a drawing, is not in the repository: a value handed to a template
  stands in the tree as it is, and the layout white space of the templates is left out. The
  lemmas give what a drawing offers: the events the operator can make with it, which are
  the ones its enabled handlers fire.
\<close>

section \<open>Drawings\<close>

text \<open>The characters the texts have beyond Latin-1.\<close>

datatype mark = EmDash | Ellipsis | RightArrow

datatype piece = Lit string | Mark mark | Val "json option" | Fmt shown

text \<open>\<^verbatim>\<open>k="..."\<close>, \<^verbatim>\<open>?k=\<close> or a bare \<^verbatim>\<open>k\<close>, and \<^verbatim>\<open>.k=\<close>.\<close>

datatype attr = Attr string "piece list" | Flag string bool | Prop string string

text \<open>A click that asks for a confirmation fires one event or another.\<close>

datatype 'e handler = OnClick 'e | OnConfirm "bool \<Rightarrow> 'e" | OnInput "string \<Rightarrow> 'e" | OnEnter 'e | OnSubmit 'e

datatype 'e node = Txt "piece list" | El string "attr list" "'e handler list" "'e node list"

abbreviation cls :: "string \<Rightarrow> attr" where
  "cls c \<equiv> Attr ''class'' [Lit c]"

abbreviation txt_lit :: "string \<Rightarrow> 'e node" where
  "txt_lit s \<equiv> Txt [Lit s]"

abbreviation el :: "string \<Rightarrow> 'e node list \<Rightarrow> 'e node" where
  "el t ks \<equiv> El t [] [] ks"

section \<open>What a drawing offers\<close>

fun fires :: "'e \<Rightarrow> 'e handler \<Rightarrow> bool" where
  "fires e (OnClick e') = (e = e')"
| "fires e (OnConfirm f) = (e = f True \<or> e = f False)"
| "fires e (OnInput f) = (e \<in> range f)"
| "fires e (OnEnter e') = (e = e')"
| "fires e (OnSubmit e') = (e = e')"

definition disabled :: "attr list \<Rightarrow> bool" where
  "disabled as \<longleftrightarrow> Flag ''disabled'' True \<in> set as"

text \<open>A form whose button is disabled is not submitted.\<close>

fun submit_blocked :: "'e node \<Rightarrow> bool" where
  "submit_blocked (Txt _) = False"
| "submit_blocked (El t as hs ks) =
     (t = ''button'' \<and> Attr ''type'' [Lit ''submit''] \<in> set as \<and> disabled as \<or> list_ex submit_blocked ks)"

fun offers :: "'e \<Rightarrow> 'e node \<Rightarrow> bool" where
  "offers e (Txt _) = False"
| "offers e (El t as hs ks) =
     (list_ex (fires e) hs \<and> \<not> disabled as \<and> \<not> (t = ''form'' \<and> list_ex submit_blocked ks) \<or> list_ex (offers e) ks)"

section \<open>Reading what came\<close>

text \<open>The error of a read of nothing, or of a call of what is no function; its text does not matter.\<close>

abbreviation TypeError :: js_error where
  "TypeError \<equiv> PlainError ''TypeError''"

text \<open>\<^verbatim>\<open>v.k\<close>.\<close>

definition js_field :: "string \<Rightarrow> json option \<Rightarrow> js_error + json option" where
  "js_field k v = (case js_nullish v of None \<Rightarrow> Inl TypeError | Some w \<Rightarrow> Inr (js_get k (Some w)))"

primrec res_map :: "('a \<Rightarrow> 'x + 'b) \<Rightarrow> 'a list \<Rightarrow> 'x + 'b list" where
  "res_map f [] = Inr []"
| "res_map f (x # xs) = res_bind (f x) (\<lambda>y. res_bind (res_map f xs) (\<lambda>ys. Inr (y # ys)))"

text \<open>\<^verbatim>\<open>v ?? []\<close>, of which \<^verbatim>\<open>length === 0\<close> is tested, then \<^verbatim>\<open>map\<close> called.\<close>

definition js_rows :: "json option \<Rightarrow> js_error + json list" where
  "js_rows v =
     (case v of
        None \<Rightarrow> Inr []
      | Some JNull \<Rightarrow> Inr []
      | Some (JArr vs) \<Rightarrow> Inr vs
      | Some (JStr s) \<Rightarrow> if s = [] then Inr [] else Inl TypeError
      | Some (JObj kvs) \<Rightarrow> if map_of kvs ''length'' = Some (JNum 0) then Inr [] else Inl TypeError
      | Some _ \<Rightarrow> Inl TypeError)"

fun join_texts :: "json list \<Rightarrow> string" where
  "join_texts [] = []"
| "join_texts (v # vs) = (if v = JNull then [] else js_text v) @ (if vs = [] then [] else '', '' @ join_texts vs)"

text \<open>\<^verbatim>\<open>v.length ? v.join(", ") : ...\<close>, \<open>None\<close> for the other text.\<close>

definition js_joined :: "json option \<Rightarrow> js_error + string option" where
  "js_joined v =
     (case v of
        None \<Rightarrow> Inl TypeError
      | Some JNull \<Rightarrow> Inl TypeError
      | Some (JArr vs) \<Rightarrow> Inr (if vs = [] then None else Some (join_texts vs))
      | Some (JStr s) \<Rightarrow> if s = [] then Inr None else Inl TypeError
      | Some (JObj kvs) \<Rightarrow> if js_true (map_of kvs ''length'') then Inl TypeError else Inr None
      | Some _ \<Rightarrow> Inr None)"

text \<open>
  \<^verbatim>\<open>formatTimestamp(v)\<close> of any value; \<open>date\<close> is what the browser makes of a value that is set
  and not a number, which for a text is up to it.
\<close>

definition time_shown :: "(json \<Rightarrow> js_error + shown) \<Rightarrow> json option \<Rightarrow> js_error + shown" where
  "time_shown date v =
     (case v of
        None \<Rightarrow> Inr Dash
      | Some (JNum t) \<Rightarrow> formatTimestamp (Some t)
      | Some w \<Rightarrow> if js_truthy w then date w else Inr Dash)"

text \<open>\<^verbatim>\<open>v ?? "-"\<close>, with the long dash; \<^verbatim>\<open>v ? "yes" : "no"\<close>.\<close>

definition or_dash :: "json option \<Rightarrow> piece" where
  "or_dash v = (case js_nullish v of None \<Rightarrow> Mark EmDash | Some w \<Rightarrow> Val (Some w))"

definition yes_no :: "json option \<Rightarrow> piece" where
  "yes_no v = Lit (if js_true v then ''yes'' else ''no'')"

text \<open>The box an error is shown in, and the pill of a status.\<close>

definition error_box :: "piece \<Rightarrow> 'e node" where
  "error_box p = El ''div'' [cls ''error'', Attr ''role'' [Lit ''alert'']] [] [Txt [p]]"

definition error_shown :: "string \<Rightarrow> 'e node list" where
  "error_shown err = (if err = [] then [] else [error_box (Lit err)])"

definition pill :: "json option \<Rightarrow> 'e node" where
  "pill v = El ''span'' [Attr ''class'' [Lit ''pill pill-'', Val v]] [] [Txt [Val v]]"

definition muted :: "string \<Rightarrow> piece list \<Rightarrow> 'e node" where
  "muted t ps = El t [cls ''muted''] [] [Txt ps]"

definition data_table :: "string list \<Rightarrow> 'e node list \<Rightarrow> 'e node" where
  "data_table heads rows = El ''table'' [cls ''data''] []
     [el ''thead'' [el ''tr'' (map (\<lambda>h. el ''th'' [txt_lit h]) heads)], el ''tbody'' rows]"

section \<open>Sign-in\<close>

definition login_input :: "string \<Rightarrow> string \<Rightarrow> string \<Rightarrow> attr list \<Rightarrow> bool \<Rightarrow> string \<Rightarrow> (string \<Rightarrow> 'e) \<Rightarrow> 'e node" where
  "login_input i ty ph extra loading v f =
     El ''input'' ([Attr ''id'' [Lit i], Attr ''type'' [Lit ty], Attr ''autocomplete'' [Lit ''off''],
        Attr ''spellcheck'' [Lit ''false''], Attr ''placeholder'' [Lit ph]] @ extra @
        [Flag ''required'' True, Flag ''disabled'' loading, Prop ''value'' v]) [OnInput f] []"

definition login_view :: "admin_login \<Rightarrow> login_event node list" where
  "login_view p =
     [El ''form'' [cls ''card'', Flag ''novalidate'' True] [OnSubmit LoginSubmit]
        ([el ''h1'' [txt_lit ''Gateway operator sign-in''],
          el ''p'' [txt_lit ''Paste the admin bearer token. The handle attributes audit-log entries.'']] @
         error_shown (lg_error p) @
         [El ''div'' [cls ''field''] []
            [El ''label'' [Attr ''for'' [Lit ''token'']] [] [txt_lit ''Admin token''],
             login_input ''token'' ''password'' ''ADMIN_TOKEN'' [] (lg_loading p) (lg_token p) LoginToken],
          El ''div'' [cls ''field''] []
            [El ''label'' [Attr ''for'' [Lit ''actor'']] [] [txt_lit ''Operator handle''],
             login_input ''actor'' ''text'' ''alice'' [Attr ''pattern'' [Lit ''^[a-z0-9._-]{1,64}$'']]
               (lg_loading p) (lg_actor p) LoginActor],
          El ''button'' [Attr ''type'' [Lit ''submit''], Flag ''disabled'' (lg_loading p)] []
            [Txt (if lg_loading p then [Lit ''Signing in'', Mark Ellipsis] else [Lit ''Sign in''])]])]"

section \<open>The audit log\<close>

definition drawn_event :: "(json \<Rightarrow> js_error + shown) \<Rightarrow> json \<Rightarrow> js_error + audit_event node" where
  "drawn_event date e =
     res_bind (js_field ''ok'' (Some e)) (\<lambda>ok.
     res_bind (time_shown date (js_get ''occurredAt'' (Some e))) (\<lambda>time.
     Inr (El ''tr'' [cls (if js_true ok then [] else ''row-fail'')] []
       [el ''td'' [Txt [Fmt time]],
        el ''td'' [Txt [Val (js_get ''actor'' (Some e))]],
        el ''td'' [Txt [Val (js_get ''action'' (Some e))]],
        el ''td'' (if js_true (js_get ''target'' (Some e))
                  then [el ''code'' [Txt [Val (js_get ''target'' (Some e))]]] else [Txt [Mark EmDash]]),
        el ''td'' [Txt [yes_no ok]],
        el ''td'' [Txt [or_dash (js_get ''message'' (Some e))]]])))"

definition audit_view :: "(json \<Rightarrow> js_error + shown) \<Rightarrow> admin_audit \<Rightarrow> js_error + audit_event node list" where
  "audit_view date p =
     res_bind (res_map (drawn_event date) (aud_events p)) (\<lambda>rows. Inr
       ([El ''header'' [cls ''card-header''] []
           [el ''h1'' [txt_lit ''Audit log''],
            El ''button'' [Attr ''type'' [Lit ''button''], Flag ''disabled'' (aud_loading p)] [OnClick AuditReload]
              [txt_lit ''Reload'']],
         muted ''p'' [Lit ''Bearer-action log. Newest first; click \"Older\" to page back.'']] @
        error_shown (aud_error p) @
        [if aud_events p = []
         then muted ''p'' (if aud_loading p then [Lit ''Loading'', Mark Ellipsis] else [Lit ''No events yet.''])
         else data_table [''When'', ''Actor'', ''Action'', ''Target'', ''OK'', ''Message''] rows] @
        (if aud_cursor p \<noteq> None \<and> PAGE_SIZE \<le> length (aud_events p)
         then [El ''button'' [Attr ''type'' [Lit ''button''], Flag ''disabled'' (aud_loading p)] [OnClick AuditOlder]
                 [Txt (if aud_loading p then [Lit ''Loading'', Mark Ellipsis] else [Lit ''Older '', Mark RightArrow])]]
         else [])))"

section \<open>Capability search\<close>

definition capabilities_field :: "string \<Rightarrow> string \<Rightarrow> attr list \<Rightarrow> string \<Rightarrow> (string \<Rightarrow> 'e) \<Rightarrow> 'e node" where
  "capabilities_field i label extra v f =
     El ''div'' [cls ''field''] []
       [El ''label'' [Attr ''for'' [Lit i]] [] [txt_lit label],
        El ''input'' ([Attr ''id'' [Lit i], Attr ''type'' [Lit ''text'']] @ extra @ [Prop ''value'' v]) [OnInput f] []]"

definition capabilities_result :: "json \<Rightarrow> 'e node" where
  "capabilities_result r =
     (let route = js_get ''route'' (Some r); eth = js_get ''ethAddress'' route
      in El ''section'' [cls ''card''] []
        [el ''h2'' [txt_lit ''Result''],
         El ''dl'' [cls ''kv''] []
           [el ''dt'' [txt_lit ''Selected orch''],
            el ''dd''
              [if js_true eth
               then El ''a'' [Attr ''href'' [Lit ''#/orchs/'', Val eth]] [] [el ''code'' [Txt [Fmt (shortAddress eth)]]]
               else muted ''span'' [Lit ''none'']],
            el ''dt'' [txt_lit ''Reason''], el ''dd'' [Txt [Val (js_get ''reason'' (Some r))]],
            el ''dt'' [txt_lit ''Worker URL''], el ''dd'' [Txt [or_dash (js_get ''workerUrl'' route)]],
            el ''dt'' [txt_lit ''Capability''], el ''dd'' [Txt [or_dash (js_get ''capability'' route)]],
            el ''dt'' [txt_lit ''Offering''], el ''dd'' [Txt [or_dash (js_get ''offering'' route)]],
            el ''dt'' [txt_lit ''Wholesale price''], el ''dd'' [Txt [or_dash (js_get ''pricePerWorkUnitWei'' route)]],
            el ''dt'' [txt_lit ''Work unit''], el ''dd'' [Txt [or_dash (js_get ''workUnit'' route)]],
            el ''dt'' [txt_lit ''Extra JSON''], el ''dd'' [Txt [or_dash (js_get ''extraJson'' route)]],
            el ''dt'' [txt_lit ''Constraints JSON''], el ''dd'' [Txt [or_dash (js_get ''constraintsJson'' route)]]]])"

definition capabilities_view :: "admin_capabilities \<Rightarrow> capabilities_event node list" where
  "capabilities_view p =
     [el ''h1'' [txt_lit ''Capability search''],
      muted ''p'' [Lit ''Preview the selected route for a capability/offering/tier request.''],
      El ''form'' [cls ''card'', Flag ''novalidate'' True] [OnSubmit CapSubmit]
        ([capabilities_field ''capability'' ''Capability *'' [Flag ''required'' True] (cp_capability p) CapCapability,
          capabilities_field ''offering'' ''Offering *'' [Flag ''required'' True] (cp_offering p) CapOffering,
          capabilities_field ''tier'' ''Tier'' [] (cp_tier p) CapTier,
          El ''button'' [Attr ''type'' [Lit ''submit''], Flag ''disabled'' (cp_loading p)] []
            [Txt (if cp_loading p then [Lit ''Searching'', Mark Ellipsis] else [Lit ''Select''])]] @
         error_shown (cp_error p))] @
     (if js_truthy (cp_result p) then [capabilities_result (cp_result p)] else [])"

section \<open>Routing observations\<close>

text \<open>The table the dashboard and the page of one orchestrator both have.\<close>

definition drawn_observation :: "(json \<Rightarrow> js_error + shown) \<Rightarrow> json \<Rightarrow> js_error + 'e node" where
  "drawn_observation date ob =
     res_bind (js_field ''observedAt'' (Some ob)) (\<lambda>time.
     res_bind (time_shown date time) (\<lambda>time.
     Inr (el ''tr''
       [el ''td'' [Txt [Fmt time]],
        el ''td'' [Txt [or_dash (js_get ''capability'' (Some ob))]],
        el ''td'' [Txt [or_dash (js_get ''offering'' (Some ob))]],
        el ''td'' [Txt [or_dash (js_get ''signatureStatus'' (Some ob))]],
        el ''td'' [Txt [or_dash (js_get ''freshnessStatus'' (Some ob))]],
        el ''td'' (if js_true (js_get ''detailsJson'' (Some ob))
                  then [el ''code'' [Txt [Val (js_get ''detailsJson'' (Some ob))]]] else [Txt [Mark EmDash]])])))"

definition observations_table :: "'e node list \<Rightarrow> 'e node" where
  "observations_table rows = data_table [''When'', ''Cap.'', ''Offering'', ''Sig'', ''Fresh'', ''Detail''] rows"

section \<open>One orchestrator\<close>

definition orch_card :: "(json \<Rightarrow> js_error + shown) \<Rightarrow> json option \<Rightarrow> js_error + 'e node" where
  "orch_card date orch =
     res_bind (js_joined (js_get ''capabilities'' orch)) (\<lambda>caps.
     res_bind (js_joined (js_get ''offerings'' orch)) (\<lambda>offs.
     res_bind (time_shown date (js_get ''lastObservedAt'' orch)) (\<lambda>time.
     Inr (El ''section'' [cls ''card''] []
       [El ''dl'' [cls ''kv''] []
          [el ''dt'' [txt_lit ''Service URI''], el ''dd'' [Txt [or_dash (js_get ''serviceUri'' orch)]],
           el ''dt'' [txt_lit ''Stake''], el ''dd'' [Txt [Fmt (formatWei (js_get ''totalStakeWei'' orch))]],
           el ''dt'' [txt_lit ''Active in pool''], el ''dd'' [Txt [yes_no (js_get ''activePoolMember'' orch)]],
           el ''dt'' [txt_lit ''Capabilities''],
           el ''dd'' [Txt [case caps of None \<Rightarrow> Mark EmDash | Some s \<Rightarrow> Lit s]],
           el ''dt'' [txt_lit ''Offerings''],
           el ''dd'' [Txt [case offs of None \<Rightarrow> Mark EmDash | Some s \<Rightarrow> Lit s]],
           el ''dt'' [txt_lit ''Signature''], el ''dd'' [pill (js_get ''signatureStatus'' orch)],
           el ''dt'' [txt_lit ''Freshness''], el ''dd'' [pill (js_get ''freshnessStatus'' orch)],
           el ''dt'' [txt_lit ''Last observation''], el ''dd'' [Txt [Fmt time]]]]))))"

definition unknown_orch_card :: "json list \<Rightarrow> 'e node" where
  "unknown_orch_card observations =
     El ''section'' [cls ''card''] []
       [muted ''p'' [Lit ''Resolver doesn't know this orch. '',
          Lit (if observations = [] then ''And the local mirror has no observations either.''
               else ''Showing locally-mirrored observations only.'')]]"

definition detail_view :: "(json \<Rightarrow> js_error + shown) \<Rightarrow> admin_orch_detail \<Rightarrow> js_error + detail_event node list" where
  "detail_view date p =
     (if od_address p = []
      then Inr [El ''p'' [cls ''error'', Attr ''role'' [Lit ''alert'']] [] [txt_lit ''Missing orch address in URL.'']]
      else if od_loading p then Inr [muted ''p'' [Lit (''Loading orch '' @ od_address p), Mark Ellipsis]]
      else if od_error p \<noteq> [] then Inr [error_box (Lit (od_error p))]
      else if \<not> js_truthy (od_data p) then Inr [muted ''p'' [Lit ''No data.'']]
      else
        (let orch = js_get ''orch'' (Some (od_data p))
         in res_bind (js_rows (js_get ''recentObservations'' (Some (od_data p)))) (\<lambda>observations.
            res_bind (if js_true orch then orch_card date orch else Inr (unknown_orch_card observations)) (\<lambda>card.
            res_bind (res_map (drawn_observation date) observations) (\<lambda>rows.
            Inr [El ''header'' [cls ''card-header''] []
                   [el ''h1'' [Txt [Lit ''Orch '', Fmt (shortAddress (Some (JStr (od_address p))))]],
                    El ''button'' [Attr ''type'' [Lit ''button''], Flag ''disabled'' (od_refreshing p)] [OnClick DetailRefresh]
                      [Txt (if od_refreshing p then [Lit ''Refreshing'', Mark Ellipsis] else [Lit ''Refresh''])]],
                 El ''p'' [cls ''muted''] [] [el ''code'' [txt_lit (od_address p)]],
                 card,
                 El ''section'' [cls ''card''] []
                   [el ''h2'' [txt_lit ''Recent routing observations''],
                    if observations = [] then muted ''p'' [Lit ''No observations yet.'']
                    else observations_table rows]])))))"

section \<open>The routing dashboard\<close>

text \<open>
  A row whose address is no text, which no roster of the server has, is drawn, but a click
  on it is not among the events of the screen.
\<close>

definition drawn_row :: "string option \<Rightarrow> json \<Rightarrow> js_error + routing_event node" where
  "drawn_row selected orch =
     res_bind (js_field ''address'' (Some orch)) (\<lambda>address.
     Inr (El ''tr'' [cls (if address = Some (case selected of None \<Rightarrow> JNull | Some a \<Rightarrow> JStr a) then ''selected'' else [])]
       (case address of Some (JStr a) \<Rightarrow> [OnClick (RoutingSelect a)] | _ \<Rightarrow> [])
       [el ''td'' [el ''code'' [Txt [Fmt (shortAddress address)]]],
        el ''td'' [case js_nullish (js_get ''serviceUri'' (Some orch)) of
                    None \<Rightarrow> muted ''span'' [Mark EmDash] | Some u \<Rightarrow> Txt [Val (Some u)]],
        el ''td'' [Txt [Fmt (formatWei (js_get ''totalStakeWei'' (Some orch)))]],
        el ''td'' [Txt [yes_no (js_get ''activePoolMember'' (Some orch))]],
        el ''td'' [pill (js_get ''signatureStatus'' (Some orch))],
        el ''td'' [pill (js_get ''freshnessStatus'' (Some orch))]]))"

definition none_reported :: "string option \<Rightarrow> 'e node" where
  "none_reported s = (case s of Some t \<Rightarrow> txt_lit t | None \<Rightarrow> muted ''span'' [Lit ''none reported''])"

definition dashboard_orch :: "json option \<Rightarrow> js_error + 'e node" where
  "dashboard_orch orch =
     res_bind (js_joined (js_get ''capabilities'' orch)) (\<lambda>caps.
     res_bind (js_joined (js_get ''offerings'' orch)) (\<lambda>offs.
     Inr (El ''dl'' [cls ''kv''] []
       [el ''dt'' [txt_lit ''Service URI''], el ''dd'' [Txt [or_dash (js_get ''serviceUri'' orch)]],
        el ''dt'' [txt_lit ''Stake''], el ''dd'' [Txt [Fmt (formatWei (js_get ''totalStakeWei'' orch))]],
        el ''dt'' [txt_lit ''Active in pool''], el ''dd'' [Txt [yes_no (js_get ''activePoolMember'' orch)]],
        el ''dt'' [txt_lit ''Capabilities''], el ''dd'' [none_reported caps],
        el ''dt'' [txt_lit ''Offerings''], el ''dd'' [none_reported offs],
        el ''dt'' [txt_lit ''Signature''], el ''dd'' [Txt [Val (js_get ''signatureStatus'' orch)]],
        el ''dt'' [txt_lit ''Freshness''], el ''dd'' [Txt [Val (js_get ''freshnessStatus'' orch)]]])))"

definition dashboard_detail :: "(json \<Rightarrow> js_error + shown) \<Rightarrow> string \<Rightarrow> json \<Rightarrow> js_error + routing_event node" where
  "dashboard_detail date selected detail =
     (if \<not> js_truthy detail then Inr (muted ''p'' [Lit ''Loading orch detail'', Mark Ellipsis])
      else if js_true (js_get ''error'' (Some detail)) then Inr (error_box (Val (js_get ''error'' (Some detail))))
      else
        (let orch = js_get ''orch'' (Some detail)
         in res_bind (js_rows (js_get ''recentObservations'' (Some detail))) (\<lambda>observations.
            res_bind (if js_true orch then dashboard_orch orch
                      else Inr (muted ''p'' [Lit ''Resolver does not know this orch.''])) (\<lambda>body.
            res_bind (res_map (drawn_observation date) observations) (\<lambda>rows.
            Inr (El ''section'' [cls ''card''] []
              [El ''header'' [cls ''card-header''] []
                 [el ''h2'' [Txt [Lit ''Orch '', Fmt (shortAddress (Some (JStr selected)))]],
                  el ''div''
                    [El ''a'' [Attr ''href'' [Lit (''#/orchs/'' @ selected)]] [] [txt_lit ''open page''],
                     El ''button'' [Attr ''type'' [Lit ''button'']] [OnClick RoutingRefreshOne] [txt_lit ''Refresh'']]],
               body,
               el ''h3'' [txt_lit ''Recent routing observations''],
               if observations = []
               then muted ''p'' [Lit ''No observations yet. The poll worker hydrates these in the background.'']
               else observations_table rows]))))))"

definition filter_input :: "string \<Rightarrow> string \<Rightarrow> (string \<Rightarrow> routing_event) \<Rightarrow> routing_event node" where
  "filter_input placeholder v f =
     El ''input'' [Attr ''type'' [Lit ''text''], Attr ''placeholder'' [Lit placeholder], Prop ''value'' v]
       [OnInput f, OnEnter RoutingApply] []"

definition routing_view :: "(json \<Rightarrow> js_error + shown) \<Rightarrow> admin_routing \<Rightarrow> js_error + routing_event node list" where
  "routing_view date p =
     res_bind (if rp_loading p then Inr (muted ''p'' [Lit ''Loading orchs'', Mark Ellipsis])
               else if rp_orchs p = [] then Inr (muted ''p'' [Lit ''No orchs match this filter.''])
               else res_bind (res_map (drawn_row (rp_selected p)) (rp_orchs p)) (\<lambda>rows.
                 Inr (data_table [''Address'', ''Service URI'', ''Stake'', ''Active'', ''Sig'', ''Fresh''] rows))) (\<lambda>roster.
     res_bind (case rp_selected p of
                 Some a \<Rightarrow> if a = [] then Inr []
                           else res_bind (dashboard_detail date a (rp_detail p)) (\<lambda>d. Inr [d])
               | None \<Rightarrow> Inr []) (\<lambda>detail.
     Inr ([el ''h1'' [txt_lit ''Routing dashboard''],
           El ''section'' [cls ''filter-row''] []
             [filter_input ''capability'' (rp_capability p) RoutingCapability,
              filter_input ''offering'' (rp_offering p) RoutingOffering,
              El ''button'' [Attr ''type'' [Lit ''button'']] [OnClick RoutingApply] [txt_lit ''Apply''],
              El ''span'' [cls ''spacer''] [] [],
              El ''button'' [Attr ''type'' [Lit ''button''], Flag ''disabled'' (rp_refreshing p)] [OnConfirm RoutingRefreshAll]
                [Txt (if rp_refreshing p then [Lit ''Refreshing'', Mark Ellipsis] else [Lit ''Refresh all''])]]] @
          error_shown (rp_error p) @
          [El ''section'' [cls ''roster''] [] [roster]] @ detail)))"

section \<open>The sender\<close>

text \<open>The screen has one event, its reload.\<close>

datatype sender_event = SenderReload

definition wallet_card :: "admin_sender \<Rightarrow> 'e node" where
  "wallet_card p =
     (let wallet = Some (as_wallet p)
      in if as_walletNotConfigured p
         then El ''p'' [cls ''muted''] []
           [el ''strong'' [txt_lit ''SENDER_ADDRESS not configured.''],
            Txt [Lit (''Set the env var on this gateway-console deployment to enable the '' @
                       ''wallet view. Escrow still works ''), Mark EmDash,
                  Lit '' the daemon already knows whose escrow to look up.'']]
         else if as_walletError p \<noteq> [] then error_box (Lit (as_walletError p))
         else if js_truthy (as_wallet p)
         then El ''dl'' [cls ''kv''] []
           [el ''dt'' [txt_lit ''Address''], el ''dd'' [el ''code'' [Txt [Val (js_get ''address'' wallet)]]],
            el ''dt'' [txt_lit ''Balance''],
            el ''dd'' (Txt [Fmt (formatWei (js_get ''balanceWei'' wallet))] #
              (if belowFloor (as_wallet p)
               then [El ''span'' [cls ''pill pill-stale-failing''] [] [txt_lit ''below floor'']] else [])),
            el ''dt'' [txt_lit ''Min balance''],
            el ''dd'' [Txt [Fmt (formatWei (js_get ''minBalanceWei'' wallet))]]]
         else muted ''p'' [Lit ''Loading wallet'', Mark Ellipsis])"

definition escrow_card :: "(json \<Rightarrow> js_error + shown) \<Rightarrow> admin_sender \<Rightarrow> js_error + 'e node" where
  "escrow_card date p =
     (let escrow = Some (as_escrow p)
      in if as_escrowError p \<noteq> [] then Inr (error_box (Lit (as_escrowError p)))
         else if js_truthy (as_escrow p)
         then res_bind (time_shown date (js_get ''observedAt'' escrow)) (\<lambda>time.
           Inr (El ''dl'' [cls ''kv''] []
             [el ''dt'' [txt_lit ''Deposit''], el ''dd'' [Txt [Fmt (formatWei (js_get ''depositWei'' escrow))]],
              el ''dt'' [txt_lit ''Reserve''], el ''dd'' [Txt [Fmt (formatWei (js_get ''reserveWei'' escrow))]],
              el ''dt'' [txt_lit ''Observed''], el ''dd'' [Txt [Fmt time]]]))
         else Inr (muted ''p'' [Lit ''Loading escrow'', Mark Ellipsis]))"

definition sender_view :: "(json \<Rightarrow> js_error + shown) \<Rightarrow> admin_sender \<Rightarrow> js_error + sender_event node list" where
  "sender_view date p =
     res_bind (escrow_card date p) (\<lambda>escrow.
     Inr [El ''header'' [cls ''card-header''] []
            [el ''h1'' [txt_lit ''Sender''],
             El ''button'' [Attr ''type'' [Lit ''button''], Flag ''disabled'' (as_loading p)] [OnClick SenderReload]
               [Txt (if as_loading p then [Lit ''Reloading'', Mark Ellipsis] else [Lit ''Reload''])]],
          El ''section'' [cls ''card''] [] [el ''h2'' [txt_lit ''Hot wallet''], wallet_card p],
          El ''section'' [cls ''card''] [] [el ''h2'' [txt_lit ''TicketBroker escrow''], escrow]])"

section \<open>The application\<close>

text \<open>The application draws the element of a screen; what is in it is the screen's drawing.\<close>

datatype app_event = AppSignOut

definition nav_link :: "string \<Rightarrow> bool \<Rightarrow> string \<Rightarrow> 'e node" where
  "nav_link href active label =
     El ''a'' [Attr ''href'' [Lit href], cls (if active then ''active'' else [])] [] [txt_lit label]"

fun screen_element :: "screen \<Rightarrow> 'e node" where
  "screen_element LoginScreen = el ''admin-login'' []"
| "screen_element RoutingScreen = el ''admin-routing'' []"
| "screen_element (OrchScreen a) = El ''admin-orch-detail'' [Prop ''address'' a] [] []"
| "screen_element CapabilitiesScreen = el ''admin-capabilities'' []"
| "screen_element SenderScreen = el ''admin-sender'' []"
| "screen_element AuditScreen = el ''admin-audit'' []"
| "screen_element (UnknownScreen path) = el ''p'' [txt_lit (''Unknown route: '' @ path)]"

definition app_view :: "browser \<Rightarrow> app_event node list" where
  "app_view b =
     (let path = aa_path (bw_app b)
      in if \<not> aa_authed (bw_app b) then [screen_element LoginScreen]
         else
           [El ''header'' [cls ''app-bar''] []
              [El ''div'' [cls ''brand''] []
                 [txt_lit ''Gateway Console'', El ''span'' [cls ''scope''] [] [txt_lit ''operator console'']],
               El ''nav'' [Attr ''style'' [Lit ''display:flex; gap:1rem; margin-left:2rem;'']] []
                 [nav_link ''#/routing'' (path = ''/'' \<or> starts_with ''/routing'' path \<or> starts_with ''/orchs'' path) ''Routing'',
                  nav_link ''#/capabilities'' (starts_with ''/capabilities'' path) ''Capabilities'',
                  nav_link ''#/sender'' (starts_with ''/sender'' path) ''Sender'',
                  nav_link ''#/audit'' (starts_with ''/audit'' path) ''Audit''],
               El ''div'' [Attr ''style'' [Lit ''margin-left:auto; display:flex; gap:1rem; align-items:center;'']] []
                 ((case getActor (bw_storage b) of
                     Some a \<Rightarrow> if a = [] then [] else [El ''span'' [cls ''scope''] [] [txt_lit (''actor: '' @ a)]]
                   | None \<Rightarrow> []) @
                  [El ''button'' [Attr ''type'' [Lit ''button'']] [OnClick AppSignOut] [txt_lit ''Sign out'']])],
            el ''main'' [screen_element (render_route (bw_app b))]])"

end
