(* ===== verification/WebMachine.thy ===== *)
theory WebMachine
  imports WebPages
begin

text \<open>
  A screen in its surroundings: the operator's events, the requests that are out, and the
  server that answers them, interleaved in any order. The first lemmas are about every
  screen; the contract \<open>counted_flag\<close> gives, from the two halves of a screen's operations
  alone, that the flag which disables a button counts the requests it stands for. It is
  interpreted on the sign-in, the audit log, the capability search, and the two refreshes.
  The last section shows two screens that may show one orchestrator's data under another's
  name.
\<close>

section \<open>The machine\<close>

text \<open>A task with its request, and its answer once there is one.\<close>

record 't flight =
  ft_task :: 't
  ft_request :: fetch_request
  ft_answer :: "(js_error + fetch_response) option"

record ('p, 't, 'w) tab =
  tb_page :: "browser \<times> 'p"
  tb_flights :: "'t flight list"
  tb_world :: 'w

definition send :: "browser \<Rightarrow> 't \<times> api_call \<Rightarrow> 't flight" where
  "send b tc =
     \<lparr>ft_task = fst tc, ft_request = request_init (ac_method (snd tc)) (ac_path (snd tc)) (ac_body (snd tc)) b,
      ft_answer = None\<rparr>"

text \<open>
  \<open>net q w r w'\<close>: in the world \<open>w\<close> the request \<open>q\<close> may be answered \<open>r\<close>, and the world is \<open>w'\<close>
  then; \<open>drift w w'\<close>: the world may change so by itself.
\<close>

inductive tab_step ::
    "('e \<Rightarrow> browser \<times> 'p \<Rightarrow> (browser \<times> 'p, 't) started) \<Rightarrow>
     ('t \<Rightarrow> js_error + fetch_response \<Rightarrow> browser \<times> 'p \<Rightarrow> (browser \<times> 'p, 't) started) \<Rightarrow>
     (fetch_request \<Rightarrow> 'w \<Rightarrow> js_error + fetch_response \<Rightarrow> 'w \<Rightarrow> bool) \<Rightarrow> ('w \<Rightarrow> 'w \<Rightarrow> bool) \<Rightarrow>
     ('p, 't, 'w) tab \<Rightarrow> ('p, 't, 'w) tab \<Rightarrow> bool"
  for start resume net drift where
  event: "start e (tb_page s) = (bp, new) \<Longrightarrow>
    tab_step start resume net drift s
      (s\<lparr>tb_page := bp, tb_flights := tb_flights s @ map (send (fst bp)) new\<rparr>)"
| answer: "tb_flights s = xs @ f # ys \<Longrightarrow> ft_answer f = None \<Longrightarrow> net (ft_request f) (tb_world s) r w \<Longrightarrow>
    tab_step start resume net drift s
      (s\<lparr>tb_flights := xs @ f\<lparr>ft_answer := Some r\<rparr> # ys, tb_world := w\<rparr>)"
| resume: "tb_flights s = xs @ f # ys \<Longrightarrow> ft_answer f = Some r \<Longrightarrow> resume (ft_task f) r (tb_page s) = (bp, new) \<Longrightarrow>
    tab_step start resume net drift s
      (s\<lparr>tb_page := bp, tb_flights := xs @ ys @ map (send (fst bp)) new\<rparr>)"
| drift: "drift (tb_world s) w \<Longrightarrow> tab_step start resume net drift s (s\<lparr>tb_world := w\<rparr>)"

inductive_cases tab_stepE: "tab_step start resume net drift s s'"

definition opened :: "browser \<Rightarrow> 'p \<Rightarrow> 'w \<Rightarrow> ('p, 't, 'w) tab" where
  "opened b p w = \<lparr>tb_page = (b, p), tb_flights = [], tb_world = w\<rparr>"

text \<open>An event with nothing else going on until the call it makes, if any, is answered.\<close>

definition click ::
    "('e \<Rightarrow> browser \<times> 'p \<Rightarrow> (browser \<times> 'p, 't) started) \<Rightarrow>
     ('t \<Rightarrow> js_error + fetch_response \<Rightarrow> browser \<times> 'p \<Rightarrow> (browser \<times> 'p, 't) started) \<Rightarrow>
     'w fetch \<Rightarrow> 'e \<Rightarrow> (browser \<times> 'p) \<times> 'w \<Rightarrow> (browser \<times> 'p) \<times> 'w" where
  "click start resume fetch e = (\<lambda>(bp, w).
     case start e bp of
       (bp', []) \<Rightarrow> (bp', w)
     | (bp', (t, c) # _) \<Rightarrow>
         (case fetch (request_init (ac_method c) (ac_path c) (ac_body c) (fst bp')) w of
            (r, w') \<Rightarrow> (fst (resume t r bp'), w')))"

text \<open>The world of these screens where it does not matter: any answer, no state.\<close>

definition any_answer :: "fetch_request \<Rightarrow> unit \<Rightarrow> js_error + fetch_response \<Rightarrow> unit \<Rightarrow> bool" where
  "any_answer q w r w' \<longleftrightarrow> True"

definition no_drift :: "'w \<Rightarrow> 'w \<Rightarrow> bool" where
  "no_drift w w' \<longleftrightarrow> w' = w"

section \<open>A flag that counts requests\<close>

text \<open>
  \<open>busy\<close> is the flag and \<open>counts\<close> the tasks it stands for: a start and a resumption keep the
  number of these tasks equal to the flag.
\<close>

locale counted_flag =
  fixes start :: "'e \<Rightarrow> browser \<times> 'p \<Rightarrow> (browser \<times> 'p, 't) started"
    and resume :: "'t \<Rightarrow> js_error + fetch_response \<Rightarrow> browser \<times> 'p \<Rightarrow> (browser \<times> 'p, 't) started"
    and busy :: "'p \<Rightarrow> bool" and counts :: "'t \<Rightarrow> bool"
  assumes start_counts: "start e bp = (bp', new) \<Longrightarrow>
      length (filter counts (map fst new)) + of_bool (busy (snd bp)) = of_bool (busy (snd bp'))"
    and resume_counts: "resume t r bp = (bp', new) \<Longrightarrow> (counts t \<Longrightarrow> busy (snd bp)) \<Longrightarrow>
      length (filter counts (map fst new)) + of_bool (busy (snd bp)) = of_bool (busy (snd bp')) + of_bool (counts t)"
begin

definition counted :: "'t flight list \<Rightarrow> nat" where
  "counted fs = length (filter counts (map ft_task fs))"

lemma counted_simps [simp]:
  "counted [] = 0" "counted (f # fs) = of_bool (counts (ft_task f)) + counted fs"
  "counted (fs @ gs) = counted fs + counted gs"
  "counted (map (send b) new) = length (filter counts (map fst new))"
  by (simp_all add: counted_def send_def comp_def)

definition flagged :: "('p, 't, 'w) tab \<Rightarrow> bool" where
  "flagged s \<longleftrightarrow> counted (tb_flights s) = of_bool (busy (snd (tb_page s)))"

lemma flagged_step: "tab_step start resume net drift s s' \<Longrightarrow> flagged s \<Longrightarrow> flagged s'"
proof (erule tab_stepE)
  fix e bp new
  assume "flagged s" and st: "start e (tb_page s) = (bp, new)"
    and "s' = s\<lparr>tb_page := bp, tb_flights := tb_flights s @ map (send (fst bp)) new\<rparr>"
  with start_counts [OF st] show "flagged s'" by (simp add: flagged_def)
next
  fix xs f ys r w
  assume "flagged s" and "tb_flights s = xs @ f # ys"
    and "s' = s\<lparr>tb_flights := xs @ f\<lparr>ft_answer := Some r\<rparr> # ys, tb_world := w\<rparr>"
  then show "flagged s'" by (simp add: flagged_def)
next
  fix xs f ys r bp new
  assume fl: "flagged s" and fs: "tb_flights s = xs @ f # ys"
    and re: "resume (ft_task f) r (tb_page s) = (bp, new)"
    and s': "s' = s\<lparr>tb_page := bp, tb_flights := xs @ ys @ map (send (fst bp)) new\<rparr>"
  have n: "counted xs + of_bool (counts (ft_task f)) + counted ys = of_bool (busy (snd (tb_page s)))"
    using fl fs by (simp add: flagged_def)
  then have "counts (ft_task f) \<Longrightarrow> busy (snd (tb_page s))"
    by (cases "busy (snd (tb_page s))") simp_all
  from resume_counts [OF re this] n show "flagged s'" by (simp add: flagged_def s')
next
  fix w
  assume "flagged s" and "s' = s\<lparr>tb_world := w\<rparr>"
  then show "flagged s'" by (simp add: flagged_def)
qed

lemma flagged_reachable:
  assumes "(tab_step start resume net drift)\<^sup>*\<^sup>* (opened b p w) s" and "\<not> busy p"
  shows "flagged s"
  using assms(1)
proof (induction rule: rtranclp_induct)
  case base
  with assms(2) show ?case by (simp add: flagged_def opened_def)
next
  case (step s s')
  then show ?case using flagged_step by blast
qed

end

lemmas page_defs = settled_def login_health_done_def login_submit_start_def
  audit_first_start_def audit_older_start_def audit_first_done_def audit_older_done_def
  capabilities_submit_start_def capabilities_done_def
  detail_load_start_def detail_load_done_def detail_refresh_start_def detail_refresh_done_def
  routing_reload_start_def routing_reload_done_def routing_select_start_def routing_select_done_def
  routing_refresh_all_start_def routing_refresh_all_done_def routing_refresh_one_start_def
  routing_refresh_one_done_def routing_detail_done_def

interpretation login_flag: counted_flag login_start login_resume lg_loading "\<lambda>_. True"
proof
  fix e :: login_event and bp bp' :: "browser \<times> admin_login" and new
  assume "login_start e bp = (bp', new)"
  then show "length (filter (\<lambda>_. True) (map fst new)) + of_bool (lg_loading (snd bp)) = of_bool (lg_loading (snd bp'))"
    by (cases e; cases bp) (auto simp: page_defs split: if_splits)
next
  fix t r and bp bp' :: "browser \<times> admin_login" and new
  assume "login_resume t r bp = (bp', new)" and "True \<Longrightarrow> lg_loading (snd bp)"
  then show "length (filter (\<lambda>_. True) (map fst new)) + of_bool (lg_loading (snd bp))
      = of_bool (lg_loading (snd bp')) + of_bool True"
    by (auto simp: login_resume_def page_defs split: prod.splits sum.splits if_splits)
qed

interpretation audit_flag: counted_flag audit_start audit_resume aud_loading "\<lambda>_. True"
proof
  fix e :: audit_event and bp bp' :: "browser \<times> admin_audit" and new
  assume "audit_start e bp = (bp', new)"
  then show "length (filter (\<lambda>_. True) (map fst new)) + of_bool (aud_loading (snd bp)) = of_bool (aud_loading (snd bp'))"
    by (cases e; cases bp) (auto simp: page_defs split: if_splits option.splits)
next
  fix t r and bp bp' :: "browser \<times> admin_audit" and new
  assume "audit_resume t r bp = (bp', new)" and "True \<Longrightarrow> aud_loading (snd bp)"
  then show "length (filter (\<lambda>_. True) (map fst new)) + of_bool (aud_loading (snd bp))
      = of_bool (aud_loading (snd bp')) + of_bool True"
    by (cases t) (auto simp: audit_resume_def page_defs split: prod.splits sum.splits if_splits)
qed

interpretation capabilities_flag: counted_flag capabilities_start capabilities_resume cp_loading "\<lambda>_. True"
proof
  fix e :: capabilities_event and bp bp' :: "browser \<times> admin_capabilities" and new
  assume "capabilities_start e bp = (bp', new)"
  then show "length (filter (\<lambda>_. True) (map fst new)) + of_bool (cp_loading (snd bp)) = of_bool (cp_loading (snd bp'))"
    by (cases e; cases bp) (auto simp: page_defs split: if_splits)
next
  fix t r and bp bp' :: "browser \<times> admin_capabilities" and new
  assume "capabilities_resume t r bp = (bp', new)" and "True \<Longrightarrow> cp_loading (snd bp)"
  then show "length (filter (\<lambda>_. True) (map fst new)) + of_bool (cp_loading (snd bp))
      = of_bool (cp_loading (snd bp')) + of_bool True"
    by (auto simp: capabilities_resume_def page_defs split: prod.splits sum.splits)
qed

text \<open>The tasks of a refresh, from its click to the end of the load that follows it.\<close>

fun detail_refresh_task :: "detail_task \<Rightarrow> bool" where
  "detail_refresh_task DetailLoad = False"
| "detail_refresh_task _ = True"

fun routing_refresh_task :: "routing_task \<Rightarrow> bool" where
  "routing_refresh_task RtRefreshAll = True"
| "routing_refresh_task RtReloadAfterAll = True"
| "routing_refresh_task _ = False"

interpretation detail_flag: counted_flag detail_start detail_resume od_refreshing detail_refresh_task
proof
  fix e :: detail_event and bp bp' :: "browser \<times> admin_orch_detail" and new
  assume "detail_start e bp = (bp', new)"
  then show "length (filter detail_refresh_task (map fst new)) + of_bool (od_refreshing (snd bp)) = of_bool (od_refreshing (snd bp'))"
    by (cases e; cases bp) (auto simp: page_defs split: if_splits)
next
  fix t r and bp bp' :: "browser \<times> admin_orch_detail" and new
  assume "detail_resume t r bp = (bp', new)" and "detail_refresh_task t \<Longrightarrow> od_refreshing (snd bp)"
  then show "length (filter detail_refresh_task (map fst new)) + of_bool (od_refreshing (snd bp))
      = of_bool (od_refreshing (snd bp')) + of_bool (detail_refresh_task t)"
    by (cases t) (auto simp: detail_resume_def page_defs split: prod.splits sum.splits if_splits)
qed

interpretation routing_flag: counted_flag routing_start routing_resume rp_refreshing routing_refresh_task
proof
  fix e :: routing_event and bp bp' :: "browser \<times> admin_routing" and new
  assume "routing_start e bp = (bp', new)"
  then show "length (filter routing_refresh_task (map fst new)) + of_bool (rp_refreshing (snd bp)) = of_bool (rp_refreshing (snd bp'))"
    by (cases e; cases bp) (auto simp: page_defs split: if_splits option.splits)
next
  fix t r and bp bp' :: "browser \<times> admin_routing" and new
  assume "routing_resume t r bp = (bp', new)" and "routing_refresh_task t \<Longrightarrow> rp_refreshing (snd bp)"
  then show "length (filter routing_refresh_task (map fst new)) + of_bool (rp_refreshing (snd bp))
      = of_bool (rp_refreshing (snd bp')) + of_bool (routing_refresh_task t)"
    by (cases t) (auto simp: routing_resume_def page_defs split: prod.splits sum.splits if_splits)
qed

section \<open>One request at a time\<close>

lemma counted_all: "audit_flag.counted fs = length fs" "login_flag.counted gs = length gs" "capabilities_flag.counted hs = length hs"
  by (simp_all add: audit_flag.counted_def login_flag.counted_def capabilities_flag.counted_def)

text \<open>C20. Whatever the operator does and however late the answers come: the sign-in form, the audit
  log and the capability search each have exactly one request out while their button is
  disabled, and none otherwise; and there is at most one refresh of all orchestrators,
  and at most one of the orchestrator on its own page, from the click to the end of the
  load that follows it.\<close>

theorem one_request_per_button:
  "((tab_step login_start login_resume any_answer no_drift)\<^sup>*\<^sup>* (opened b admin_login_init ()) s1
      \<longrightarrow> length (tb_flights s1) = of_bool (lg_loading (snd (tb_page s1)))) \<and>
   ((tab_step audit_start audit_resume any_answer no_drift)\<^sup>*\<^sup>* (opened b admin_audit_init ()) s2
      \<longrightarrow> length (tb_flights s2) = of_bool (aud_loading (snd (tb_page s2)))) \<and>
   ((tab_step capabilities_start capabilities_resume any_answer no_drift)\<^sup>*\<^sup>* (opened b admin_capabilities_init ()) s3
      \<longrightarrow> length (tb_flights s3) = of_bool (cp_loading (snd (tb_page s3)))) \<and>
   ((tab_step routing_start routing_resume any_answer no_drift)\<^sup>*\<^sup>* (opened b admin_routing_init ()) s4
      \<longrightarrow> length (filter routing_refresh_task (map ft_task (tb_flights s4))) = of_bool (rp_refreshing (snd (tb_page s4)))) \<and>
   ((tab_step detail_start detail_resume any_answer no_drift)\<^sup>*\<^sup>* (opened b admin_orch_detail_init ()) s5
      \<longrightarrow> length (filter detail_refresh_task (map ft_task (tb_flights s5))) = of_bool (od_refreshing (snd (tb_page s5))))"
  using login_flag.flagged_reachable [of any_answer no_drift b admin_login_init "()" s1]
    audit_flag.flagged_reachable [of any_answer no_drift b admin_audit_init "()" s2]
    capabilities_flag.flagged_reachable [of any_answer no_drift b admin_capabilities_init "()" s3]
    routing_flag.flagged_reachable [of any_answer no_drift b admin_routing_init "()" s4]
    detail_flag.flagged_reachable [of any_answer no_drift b admin_orch_detail_init "()" s5]
  by (simp add: login_flag.flagged_def audit_flag.flagged_def capabilities_flag.flagged_def routing_flag.flagged_def
      detail_flag.flagged_def counted_all routing_flag.counted_def detail_flag.counted_def
      admin_login_init_def admin_audit_init_def admin_capabilities_init_def admin_routing_init_def admin_orch_detail_init_def)

section \<open>Runs\<close>

abbreviation tab_of :: "browser \<times> 'p \<Rightarrow> 't flight list \<Rightarrow> 'w \<Rightarrow> ('p, 't, 'w) tab" where
  "tab_of bp fs w \<equiv> \<lparr>tb_page = bp, tb_flights = fs, tb_world = w\<rparr>"

lemma run_event:
  assumes "start e bp = (bp', new)"
  shows "(tab_step start resume net drift)\<^sup>*\<^sup>* (tab_of bp fs w) (tab_of bp' (fs @ map (send (fst bp')) new) w)"
  by (rule r_into_rtranclp)
    (use tab_step.event [of start e "tab_of bp fs w" bp' new resume net drift] assms in simp)

lemma run_answer:
  assumes "ft_answer f = None" and "net (ft_request f) w r w'"
  shows "(tab_step start resume net drift)\<^sup>*\<^sup>*
    (tab_of bp (xs @ f # ys) w) (tab_of bp (xs @ f\<lparr>ft_answer := Some r\<rparr> # ys) w')"
  by (rule r_into_rtranclp)
    (use tab_step.answer [of "tab_of bp (xs @ f # ys) w" xs f ys net r w' start resume drift] assms in simp)

lemma run_resume:
  assumes "ft_answer f = Some r" and "resume (ft_task f) r bp = (bp', new)"
  shows "(tab_step start resume net drift)\<^sup>*\<^sup>*
    (tab_of bp (xs @ f # ys) w) (tab_of bp' (xs @ ys @ map (send (fst bp')) new) w)"
  by (rule r_into_rtranclp)
    (use tab_step.resume [of "tab_of bp (xs @ f # ys) w" xs f ys r resume bp' new start net drift] assms in simp)

text \<open>A click, its answer, and what the screen makes of it, with nothing in between.\<close>

lemma run_round:
  assumes "start e bp = (bp1, [(t, c)])" and "net (ft_request (send (fst bp1) (t, c))) w r w'"
    and "resume t r bp1 = (bp2, [])"
  shows "(tab_step start resume net drift)\<^sup>*\<^sup>* (tab_of bp [] w) (tab_of bp2 [] w')"
proof -
  let ?f = "send (fst bp1) (t, c)"
  have "(tab_step start resume net drift)\<^sup>*\<^sup>* (tab_of bp [] w) (tab_of bp1 ([] @ ?f # []) w)"
    using run_event [of start e bp bp1 "[(t, c)]" resume net drift "[]" w] assms(1) by simp
  also have "(tab_step start resume net drift)\<^sup>*\<^sup>* (tab_of bp1 ([] @ ?f # []) w) (tab_of bp1 ([] @ ?f\<lparr>ft_answer := Some r\<rparr> # []) w')"
    by (rule run_answer) (use assms(2) in \<open>simp_all add: send_def\<close>)
  also have "(tab_step start resume net drift)\<^sup>*\<^sup>* (tab_of bp1 ([] @ ?f\<lparr>ft_answer := Some r\<rparr> # []) w') (tab_of bp2 ([] @ [] @ map (send (fst bp2)) []) w')"
    by (rule run_resume) (use assms(3) in \<open>simp_all add: send_def\<close>)
  finally show ?thesis by simp
qed

definition plain_browser :: browser where
  "plain_browser = app_mount \<lparr>ss_item = NoItem, ss_allowed = True, ss_room = True\<rparr> ''#/routing''"

theorem one_request_per_button_witness:
  "(\<exists>s. (tab_step login_start login_resume any_answer no_drift)\<^sup>*\<^sup>* (opened plain_browser admin_login_init ()) s
      \<and> length (tb_flights s) = of_bool (lg_loading (snd (tb_page s)))) \<and>
   (\<exists>s. (tab_step audit_start audit_resume any_answer no_drift)\<^sup>*\<^sup>* (opened plain_browser admin_audit_init ()) s
      \<and> length (tb_flights s) = of_bool (aud_loading (snd (tb_page s))) \<and> aud_loading (snd (tb_page s)))"
proof -
  let ?s = "tab_of (plain_browser, admin_audit_init\<lparr>aud_loading := True, aud_error := []\<rparr>)
      [send plain_browser (AuditFirst, api_listAuditLog (Some (JNum (int PAGE_SIZE))) None)] ()"
  have st: "audit_start AuditConnected (plain_browser, admin_audit_init) = ((plain_browser, admin_audit_init\<lparr>aud_loading := True, aud_error := []\<rparr>),
      [(AuditFirst, api_listAuditLog (Some (JNum (int PAGE_SIZE))) None)])"
    by (simp add: admin_audit_init_def audit_first_start_def)
  have r: "(tab_step audit_start audit_resume any_answer no_drift)\<^sup>*\<^sup>* (opened plain_browser admin_audit_init ()) ?s"
    using run_event [where start = audit_start, OF st, of audit_resume any_answer no_drift "[]" "()"] by (simp add: opened_def)
  from one_request_per_button [of plain_browser "opened plain_browser admin_login_init ()" ?s
      "opened plain_browser admin_capabilities_init ()" "opened plain_browser admin_routing_init ()"
      "opened plain_browser admin_orch_detail_init ()"] r
  show ?thesis by auto
qed

section \<open>Late answers\<close>

text \<open>A server that answers every request, with what its URL asks for.\<close>

definition ok_json :: "json \<Rightarrow> fetch_response" where
  "ok_json v = \<lparr>fp_status = 200, fp_contentType = Some ''application/json; charset=utf-8'', fp_json = Some v\<rparr>"

definition replies :: "(string \<Rightarrow> json) \<Rightarrow> fetch_request \<Rightarrow> unit \<Rightarrow> js_error + fetch_response \<Rightarrow> unit \<Rightarrow> bool" where
  "replies body q w r w' \<longleftrightarrow> r = Inr (ok_json (body (fq_url q)))"

lemma settle_json: "request_settle (Inr (ok_json v)) b = (Inr v, b)"
  by (simp add: request_settle_def ok_json_def starts_with_def)

text \<open>Two requests out, the second answered and taken first.\<close>

lemma run_overtaken:
  assumes one: "start e1 bp = (bp1, [(t1, c1)])" and two: "start e2 bp1 = (bp2, [(t2, c2)])"
    and late: "resume t2 (Inr (ok_json (body (ac_path c2)))) bp2 = (bp3, [])"
      "resume t1 (Inr (ok_json (body (ac_path c1)))) bp3 = (bp4, [])"
  shows "(tab_step start resume (replies body) no_drift)\<^sup>*\<^sup>* (tab_of bp [] ()) (tab_of bp4 [] ())"
proof -
  let ?f1 = "send (fst bp1) (t1, c1)" and ?f2 = "send (fst bp2) (t2, c2)"
  let ?r1 = "Inr (ok_json (body (ac_path c1)))" and ?r2 = "Inr (ok_json (body (ac_path c2)))"
  let ?step = "(tab_step start resume (replies body) no_drift)\<^sup>*\<^sup>*"
  have "?step (tab_of bp [] ()) (tab_of bp1 [?f1] ())"
    using run_event [where start = start, OF one, of resume "replies body" no_drift "[]" "()"] by simp
  also have "?step (tab_of bp1 [?f1] ()) (tab_of bp2 ([] @ ?f1 # [?f2]) ())"
    using run_event [where start = start, OF two, of resume "replies body" no_drift "[?f1]" "()"] by simp
  also have "?step (tab_of bp2 ([] @ ?f1 # [?f2]) ()) (tab_of bp2 ([] @ ?f1\<lparr>ft_answer := Some ?r1\<rparr> # [?f2]) ())"
    by (rule run_answer) (simp_all add: send_def replies_def request_init_def)
  also have "?step (tab_of bp2 ([] @ ?f1\<lparr>ft_answer := Some ?r1\<rparr> # [?f2]) ())
      (tab_of bp2 ([?f1\<lparr>ft_answer := Some ?r1\<rparr>] @ ?f2\<lparr>ft_answer := Some ?r2\<rparr> # []) ())"
    using run_answer [of ?f2 "replies body" "()" ?r2 "()" start resume no_drift bp2 "[?f1\<lparr>ft_answer := Some ?r1\<rparr>]" "[]"]
    by (simp add: send_def replies_def request_init_def)
  also have "?step (tab_of bp2 ([?f1\<lparr>ft_answer := Some ?r1\<rparr>] @ ?f2\<lparr>ft_answer := Some ?r2\<rparr> # []) ())
      (tab_of bp3 ([] @ ?f1\<lparr>ft_answer := Some ?r1\<rparr> # []) ())"
    using run_resume [of "?f2\<lparr>ft_answer := Some ?r2\<rparr>" ?r2 resume bp2 bp3 "[]" start "replies body" no_drift
        "[?f1\<lparr>ft_answer := Some ?r1\<rparr>]" "[]" "()"] late(1)
    by (simp add: send_def)
  also have "?step (tab_of bp3 ([] @ ?f1\<lparr>ft_answer := Some ?r1\<rparr> # []) ()) (tab_of bp4 ([] @ [] @ map (send (fst bp4)) []) ())"
    by (rule run_resume) (use late(2) in \<open>simp_all add: send_def\<close>)
  finally show ?thesis by simp
qed

text \<open>C39. A late answer is shown under the wrong name: on the dashboard, where two rows of the roster
  are clicked, and on the page of one orchestrator, where the address changes, there is a
  run with no failure at the end of which nothing is out, the screen names the second
  orchestrator, and the data it shows are the server's answer to the request for the
  first.\<close>

theorem late_answer_misattributed:
  assumes "a1 \<noteq> a2" and "a1 \<noteq> []" and "a2 \<noteq> []"
    and roster: "{Some (JStr a1), Some (JStr a2)} \<subseteq> set (map row_address (js_array (js_get ''orchs'' (Some (body ''/api/orchs'')))))"
  shows "(\<exists>s. (tab_step routing_start routing_resume (replies body) no_drift)\<^sup>*\<^sup>* (opened b admin_routing_init ()) s
      \<and> tb_flights s = [] \<and> rp_selected (snd (tb_page s)) = Some a2
      \<and> rp_detail (snd (tb_page s)) = body (''/api/orchs/'' @ encodeURIComponent a1))
    \<and> (\<exists>s. (tab_step detail_start detail_resume (replies body) no_drift)\<^sup>*\<^sup>* (opened b admin_orch_detail_init ()) s
      \<and> tb_flights s = [] \<and> od_address (snd (tb_page s)) = a2 \<and> \<not> od_loading (snd (tb_page s))
      \<and> od_data (snd (tb_page s)) = body (''/api/orchs/'' @ encodeURIComponent a1))"
proof
  let ?u = "\<lambda>a. ''/api/orchs/'' @ encodeURIComponent a"
  let ?q = "admin_routing_init\<lparr>rp_orchs := js_array (js_get ''orchs'' (Some (body ''/api/orchs''))), rp_loading := False\<rparr>"
  let ?p = "\<lambda>a v. (b, ?q\<lparr>rp_selected := Some a, rp_detail := v\<rparr>)"
  have path: "ac_path (api_getOrch a) = ?u a" for a by (simp add: api_getOrch_def api_get_def)
  have shown: "row_shown a1 (snd (b, ?q))" "row_shown a2 (snd (?p a1 JNull))" using roster by (auto simp: row_shown_def)
  have one: "routing_start (RoutingSelect a1) (b, ?q) = (?p a1 JNull, [(RtSelect, api_getOrch a1)])"
    and two: "routing_start (RoutingSelect a2) (?p a1 JNull) = (?p a2 JNull, [(RtSelect, api_getOrch a2)])"
    using assms(1) shown by (simp_all add: routing_select_start_def admin_routing_init_def)
  have late: "routing_resume RtSelect (Inr (ok_json v)) (?p a w) = (?p a v, [])" for v a w
    by (simp add: routing_resume_def settled_def settle_json routing_select_done_def)
  have loads: "routing_start RoutingConnected (b, admin_routing_init) = ((b, admin_routing_init), [(RtReload, api_listOrchs None None)])"
    by (simp add: routing_reload_start_def admin_routing_init_def)
  have load: "(tab_step routing_start routing_resume (replies body) no_drift)\<^sup>*\<^sup>* (tab_of (b, admin_routing_init) [] ()) (tab_of (b, ?q) [] ())"
    by (rule run_round [where start = routing_start and r = "Inr (ok_json (body ''/api/orchs''))", OF loads])
      (simp_all add: send_def replies_def request_init_def api_listOrchs_def api_get_def when_set_def url_suffix_def
        routing_resume_def settled_def settle_json routing_reload_done_def)
  have pick: "(tab_step routing_start routing_resume (replies body) no_drift)\<^sup>*\<^sup>* (tab_of (b, ?q) [] ())
      (tab_of (?p a2 (body (?u a1))) [] ())"
    by (rule run_overtaken [where start = routing_start and resume = routing_resume and body = body
        and ?bp3.0 = "?p a2 (body (?u a2))", OF one two]) (simp_all only: late path)
  from rtranclp_trans [OF load pick] show "\<exists>s. (tab_step routing_start routing_resume (replies body) no_drift)\<^sup>*\<^sup>* (opened b admin_routing_init ()) s
      \<and> tb_flights s = [] \<and> rp_selected (snd (tb_page s)) = Some a2 \<and> rp_detail (snd (tb_page s)) = body (?u a1)"
    unfolding opened_def by (intro exI [of _ "tab_of (?p a2 (body (?u a1))) [] ()"]) simp
next
  let ?u = "\<lambda>a. ''/api/orchs/'' @ encodeURIComponent a"
  let ?p = "\<lambda>a l v. (b, admin_orch_detail_init\<lparr>od_address := a, od_loading := l, od_data := v\<rparr>)"
  have path: "ac_path (api_getOrch a) = ?u a" for a by (simp add: api_getOrch_def api_get_def)
  have one: "detail_start (DetailAddress a1) (b, admin_orch_detail_init) = (?p a1 True JNull, [(DetailLoad, api_getOrch a1)])"
    and two: "detail_start (DetailAddress a2) (?p a1 True JNull) = (?p a2 True JNull, [(DetailLoad, api_getOrch a2)])"
    using assms(1-3) by (simp_all add: detail_load_start_def admin_orch_detail_init_def)
  have late: "detail_resume DetailLoad (Inr (ok_json v)) (?p a l w) = (?p a False v, [])" for v a l w
    by (simp add: detail_resume_def settled_def settle_json detail_load_done_def)
  have "(tab_step detail_start detail_resume (replies body) no_drift)\<^sup>*\<^sup>* (tab_of (b, admin_orch_detail_init) [] ())
      (tab_of (?p a2 False (body (?u a1))) [] ())"
    by (rule run_overtaken [where start = detail_start and resume = detail_resume and body = body
        and ?bp3.0 = "?p a2 False (body (?u a2))", OF one two]) (simp_all only: late path)
  then show "\<exists>s. (tab_step detail_start detail_resume (replies body) no_drift)\<^sup>*\<^sup>* (opened b admin_orch_detail_init ()) s
      \<and> tb_flights s = [] \<and> od_address (snd (tb_page s)) = a2 \<and> \<not> od_loading (snd (tb_page s))
      \<and> od_data (snd (tb_page s)) = body (?u a1)"
    unfolding opened_def by (intro exI [of _ "tab_of (?p a2 False (body (?u a1))) [] ()"]) simp
qed

definition two_orchs :: "string \<Rightarrow> json" where
  "two_orchs url =
     (if url = ''/api/orchs''
      then JObj [(''orchs'', JArr [JObj [(''address'', JStr ''0xa'')], JObj [(''address'', JStr ''0xb'')]])]
      else JStr url)"

theorem late_answer_misattributed_witness:
  "(\<exists>s. (tab_step routing_start routing_resume (replies two_orchs) no_drift)\<^sup>*\<^sup>* (opened plain_browser admin_routing_init ()) s
      \<and> tb_flights s = [] \<and> rp_selected (snd (tb_page s)) = Some ''0xb''
      \<and> rp_detail (snd (tb_page s)) = two_orchs (''/api/orchs/'' @ encodeURIComponent ''0xa''))
    \<and> (\<exists>s. (tab_step detail_start detail_resume (replies two_orchs) no_drift)\<^sup>*\<^sup>* (opened plain_browser admin_orch_detail_init ()) s
      \<and> tb_flights s = [] \<and> od_address (snd (tb_page s)) = ''0xb'' \<and> \<not> od_loading (snd (tb_page s))
      \<and> od_data (snd (tb_page s)) = two_orchs (''/api/orchs/'' @ encodeURIComponent ''0xa''))"
  by (rule late_answer_misattributed) (simp_all add: two_orchs_def row_address_def js_array_def)

end
