(* ===== verification/WebQuery.thy ===== *)
theory WebQuery
  imports WebClient
begin

text \<open>
  The query of a URL, read back: a server reads a form-encoded query by splitting it at the
  ampersands and each part at the equals sign, and decoding both texts. What the
  application writes with \<^verbatim>\<open>URLSearchParams\<close> is read back as it was.
\<close>

definition hex_upper_val :: "char \<Rightarrow> nat" where
  "hex_upper_val c = (if is_digit_char c then of_char c - 48 else of_char c - 55)"

fun form_bytes :: "string \<Rightarrow> byte list" where
  "form_bytes [] = []"
| "form_bytes (c # s) =
     (if c = CHR ''+'' then of_nat 32 # form_bytes s
      else if c = CHR ''%''
      then (case s of h # l # r \<Rightarrow> of_nat (hex_upper_val h * 16 + hex_upper_val l) # form_bytes r | _ \<Rightarrow> [])
      else of_nat (of_char c) # form_bytes s)"

fun utf8_read :: "byte list \<Rightarrow> string" where
  "utf8_read [] = []"
| "utf8_read (b # bs) =
     (if unat b < 128 then char_of (unat b) # utf8_read bs
      else case bs of [] \<Rightarrow> [] | d # ds \<Rightarrow> char_of ((unat b - 192) * 64 + (unat d - 128)) # utf8_read ds)"

definition form_read :: "string \<Rightarrow> string" where
  "form_read s = utf8_read (form_bytes s)"

fun split_at :: "char \<Rightarrow> string \<Rightarrow> string list" where
  "split_at d [] = [[]]"
| "split_at d (c # s) =
     (if c = d then [] # split_at d s
      else case split_at d s of [] \<Rightarrow> [[c]] | p # ps \<Rightarrow> (c # p) # ps)"

definition form_pair :: "string \<Rightarrow> string \<times> string" where
  "form_pair s = (form_read (takeWhile (\<lambda>c. c \<noteq> CHR ''='') s), form_read (drop 1 (dropWhile (\<lambda>c. c \<noteq> CHR ''='') s)))"

definition query_read :: "string \<Rightarrow> (string \<times> string) list" where
  "query_read u =
     (let qs = drop 1 (dropWhile (\<lambda>c. c \<noteq> CHR ''?'') u)
      in if qs = [] then [] else map form_pair (split_at (CHR ''&'') qs))"

lemma hex_upper_val: "d < 16 \<Longrightarrow> hex_upper_val (hex_upper d) = d"
  by (auto simp: hex_upper_val_def hex_upper_def is_digit_char_def)

lemma form_bytes_pct: "form_bytes (pct_byte b @ r) = b # form_bytes r"
proof -
  have "unat b < 256" using unsigned_less [of b, where ?'a = nat] by simp
  then have e: "hex_upper_val (hex_upper (unat b div 16)) * 16 + hex_upper_val (hex_upper (unat b mod 16)) = unat b"
    by (simp add: hex_upper_val)
  have "of_nat (hex_upper_val (hex_upper (unat b div 16)) * 16 + hex_upper_val (hex_upper (unat b mod 16))) = b"
    by (simp only: e) simp
  then show ?thesis by (simp add: pct_byte_def)
qed

lemma form_bytes_pcts: "form_bytes (concat (map pct_byte bs) @ r) = bs @ form_bytes r"
  by (induction bs) (simp_all add: form_bytes_pct)

lemma plain_char: "is_alnum c \<or> c \<in> set ''*-._'' \<Longrightarrow> c \<noteq> CHR ''+'' \<and> c \<noteq> CHR ''%'' \<and> (of_char c :: nat) < 128
    \<and> c \<noteq> CHR ''&'' \<and> c \<noteq> CHR ''='' \<and> c \<noteq> CHR ''?''"
  by (auto simp: is_alnum_def is_digit_char_def is_lower_char_def)

lemma form_bytes_char: "form_bytes (form_char c @ r) = utf8_char c @ form_bytes r"
proof (cases "is_alnum c \<or> c \<in> set ''*-._''")
  case True
  with plain_char [OF True] show ?thesis
    by (simp add: form_char_def utf8_char_def)
next
  case False
  show ?thesis
  proof (cases "c = CHR '' ''")
    case True
    then show ?thesis by (simp add: form_char_def utf8_char_def is_alnum_def is_digit_char_def is_lower_char_def)
  next
    case other: False
    with False have "form_char c = concat (map pct_byte (utf8_char c))" by (simp add: form_char_def)
    then show ?thesis by (simp only: form_bytes_pcts)
  qed
qed

lemma utf8_read_char: "utf8_read (utf8_char c @ bs) = c # utf8_read bs"
proof (cases "(of_char c :: nat) < 128")
  case True
  then show ?thesis by (simp add: utf8_char_def unat_byte)
next
  case False
  let ?n = "of_char c :: nat" and ?a = "of_nat (192 + of_char c div 64) :: byte" and ?b = "of_nat (128 + of_char c mod 64) :: byte"
  have "?n < 256" by simp
  then have "192 + ?n div 64 < 256" "128 + ?n mod 64 < 256" by linarith+
  then have u: "unat ?a = 192 + ?n div 64" "unat ?b = 128 + ?n mod 64" by (simp_all only: unat_byte)
  have "utf8_char c = [?a, ?b]" using False by (simp add: utf8_char_def)
  then have "utf8_read (utf8_char c @ bs) = char_of ((unat ?a - 192) * 64 + (unat ?b - 128)) # utf8_read bs"
    using u(1) by simp
  then show ?thesis by (simp only: u) simp
qed

lemma form_read_text: "form_read (form_text s) = s"
proof -
  have "form_bytes (form_text s) = utf8_bytes s"
    by (induction s) (simp_all add: form_text_def utf8_bytes_def form_bytes_char)
  moreover have "utf8_read (utf8_bytes s) = s"
    by (induction s) (simp_all add: utf8_bytes_def utf8_read_char)
  ultimately show ?thesis by (simp add: form_read_def)
qed

text \<open>Splitting: the parts hold neither separator.\<close>

lemma form_char_plain: "c \<in> set (form_char x) \<Longrightarrow> c \<noteq> CHR ''&'' \<and> c \<noteq> CHR ''='' \<and> c \<noteq> CHR ''?''"
proof -
  assume c: "c \<in> set (form_char x)"
  have hex: "hex_upper d \<noteq> CHR ''&'' \<and> hex_upper d \<noteq> CHR ''='' \<and> hex_upper d \<noteq> CHR ''?''" if "d < 16" for d
  proof -
    have "(of_char (hex_upper d) :: nat) \<in> {48..<58} \<union> {65..<71}" using that by (auto simp: hex_upper_def)
    then show ?thesis by auto
  qed
  have digits: "unat b div 16 < 16" "unat b mod 16 < 16" for b :: byte
    using unsigned_less [of b, where ?'a = nat] by simp_all
  have byte: "c \<noteq> CHR ''&'' \<and> c \<noteq> CHR ''='' \<and> c \<noteq> CHR ''?''" if "c \<in> set (pct_byte b)" for b
    using that hex [OF digits(1), of b] hex [OF digits(2), of b] by (auto simp: pct_byte_def)
  show ?thesis
  proof (cases "is_alnum x \<or> x \<in> set ''*-._''")
    case True
    with c plain_char [OF True] show ?thesis by (auto simp: form_char_def)
  next
    case False
    with c show ?thesis using byte by (auto simp: form_char_def split: if_splits)
  qed
qed

lemma form_text_plain: "c \<in> set (form_text s) \<Longrightarrow> c \<noteq> CHR ''&'' \<and> c \<noteq> CHR ''='' \<and> c \<noteq> CHR ''?''"
  using form_char_plain by (auto simp: form_text_def)

lemma split_at_none: "d \<notin> set s \<Longrightarrow> split_at d s = [s]"
  by (induction s) auto

lemma split_at_append: "d \<notin> set s \<Longrightarrow> split_at d (s @ d # r) = s # split_at d r"
  by (induction s) auto

lemma form_pair_text: "form_pair (form_text k @ CHR ''='' # form_text v) = (k, v)"
proof -
  have "\<forall>c\<in>set (form_text k). c \<noteq> CHR ''=''" using form_text_plain by blast
  then show ?thesis by (simp add: form_pair_def form_read_text)
qed

lemma split_params:
  assumes "q \<noteq> []"
  shows "map form_pair (split_at (CHR ''&'') (url_params q)) = q"
  using assms
proof (induction q rule: url_params.induct)
  case 1
  then show ?case by simp
next
  case (2 k v)
  have n: "CHR ''&'' \<notin> set (form_text k @ CHR ''='' # form_text v)" using form_text_plain by auto
  show ?case by (simp only: url_params.simps split_at_none [OF n] list.map form_pair_text)
next
  case (3 k v x q)
  have n: "CHR ''&'' \<notin> set (form_text k @ CHR ''='' # form_text v)" using form_text_plain by auto
  have "url_params ((k, v) # x # q) = (form_text k @ CHR ''='' # form_text v) @ CHR ''&'' # url_params (x # q)"
    by simp
  then show ?case using 3 by (simp only: split_at_append [OF n] list.map form_pair_text) simp
qed

text \<open>The query a URL is given is the query read from it, whatever the texts in it.\<close>

lemma query_read_suffix:
  assumes "CHR ''?'' \<notin> set path"
  shows "query_read (path @ url_suffix q) = q"
proof (cases "q = []")
  case True
  have d: "dropWhile (\<lambda>c. c \<noteq> CHR ''?'') path = []" using assms by auto
  show ?thesis by (simp add: query_read_def url_suffix_def True d)
next
  case False
  then have ne: "url_params q \<noteq> []" by (cases q rule: url_params.cases) simp_all
  have "\<forall>c\<in>set path. c \<noteq> CHR ''?''" using assms by auto
  then have "dropWhile (\<lambda>c. c \<noteq> CHR ''?'') (path @ url_suffix q) = CHR ''?'' # url_params q"
    using ne by (simp add: url_suffix_def)
  then show ?thesis using ne split_params [OF False] by (simp add: query_read_def)
qed

lemma query_path:
  assumes "CHR ''?'' \<notin> set path"
  shows "takeWhile (\<lambda>c. c \<noteq> CHR ''?'') (path @ url_suffix q) = path"
proof -
  have "\<forall>c\<in>set path. c \<noteq> CHR ''?''" using assms by auto
  then show ?thesis by (auto simp: url_suffix_def)
qed

end
