(* ===== verification/WebConsole.thy ===== *)
theory WebConsole
  imports WebMachine WebQuery Server AuditPoll
begin

text \<open>
  The browser application against the server: the JSON each reply is sent as, a request of
  \<^verbatim>\<open>fetch\<close> as the server receives it, and the server as the world of a screen. Between them
  stand the framework's router and query parser, and what the framework sends for an error
  it is handed; they are arguments, and \<open>web_route\<close> states what the screens rely on. The
  lemmas show that the audit screen shows a gapless part of the log and, where it offers no
  more, all of it that is older; what a sign-in leads to; and what the sender screen says.
\<close>

section \<open>Replies as JSON\<close>

fun signature_text :: "SignatureStatusLabel \<Rightarrow> string" where
  "signature_text Signed = ''signed''"
| "signature_text NotSigned = ''unsigned''"
| "signature_text SigUnknown = ''unknown''"

fun freshness_text :: "FreshnessStatusLabel \<Rightarrow> string" where
  "freshness_text IsFresh = ''fresh''"
| "freshness_text IsStale = ''stale''"
| "freshness_text FreshUnknown = ''unknown''"

abbreviation json_str_opt :: "string option \<Rightarrow> json" where
  "json_str_opt \<equiv> json_opt JStr"

text \<open>A property that is left out where it is undefined.\<close>

definition when_some :: "string \<Rightarrow> string option \<Rightarrow> (string \<times> json) list" where
  "when_some k v = (case v of Some s \<Rightarrow> [(k, JStr s)] | None \<Rightarrow> [])"

definition json_of_row :: "OrchRosterRow \<Rightarrow> json" where
  "json_of_row r = JObj
     [(''address'', JStr (or_address r)), (''serviceUri'', json_str_opt (or_serviceUri r)),
      (''capabilities'', JArr (map JStr (or_capabilities r))), (''offerings'', JArr (map JStr (or_offerings r))),
      (''signatureStatus'', JStr (signature_text (or_signatureStatus r))),
      (''freshnessStatus'', JStr (freshness_text (or_freshnessStatus r))),
      (''activePoolMember'', JBool (or_activePoolMember r)),
      (''totalStakeWei'', json_str_opt (or_totalStakeWei r)),
      (''lastObservedAt'', json_opt JNum (or_lastObservedAt r))]"

definition json_of_observation :: "RoutingObservation \<Rightarrow> json" where
  "json_of_observation r = JObj
     [(''id'', JNum (int (ob_id r))), (''observedAt'', JNum (ob_observedAt r)),
      (''orchAddress'', JStr (ob_orchAddress r)), (''capability'', json_str_opt (ob_capability r)),
      (''offering'', json_str_opt (ob_offering r)), (''signatureStatus'', json_str_opt (ob_signatureStatus r)),
      (''freshnessStatus'', json_str_opt (ob_freshnessStatus r)), (''detailsJson'', json_str_opt (ob_detailsJson r))]"

definition json_of_event :: "AuditEvent \<Rightarrow> json" where
  "json_of_event e = JObj
     [(''id'', JNum (int (ev_id e))), (''occurredAt'', JNum (ev_occurredAt e)), (''actor'', JStr (ev_actor e)),
      (''action'', JStr (ev_action e)), (''target'', json_str_opt (ev_target e)), (''ok'', JBool (ev_ok e)),
      (''message'', json_str_opt (ev_message e))]"

definition json_of_entry :: "ResolverAuditEntry \<Rightarrow> json" where
  "json_of_entry e = JObj
     [(''occurredAt'', json_opt JNum (re_occurredAt e)), (''orchAddress'', json_str_opt (re_orchAddress e)),
      (''kind'', JStr (re_kind e)), (''mode'', JStr (mode_text (re_mode e))), (''detail'', JStr (re_detail e))]"

definition json_of_route :: "SelectedRoute \<Rightarrow> json" where
  "json_of_route r = JObj
     [(''workerUrl'', JStr (st_workerUrl r)), (''ethAddress'', JStr (st_ethAddress r)),
      (''capability'', JStr (st_capability r)), (''offering'', JStr (st_offering r)),
      (''pricePerWorkUnitWei'', JStr (st_pricePerWorkUnitWei r)), (''workUnit'', JStr (st_workUnit r)),
      (''extraJson'', json_str_opt (st_extraJson r)), (''constraintsJson'', json_str_opt (st_constraintsJson r))]"

definition json_of_daemon :: "DaemonHealth \<Rightarrow> json" where
  "json_of_daemon d = JObj
     [(''socket'', JObj ([(''path'', JStr (sk_path (dh_socket d))), (''present'', JBool (sk_present (dh_socket d)))]
         @ when_some ''error'' (sk_error (dh_socket d)))),
      (''ping'', JObj ((''ok'', JBool (pg_ok (dh_ping d))) # when_some ''error'' (pg_error (dh_ping d))))]"

definition json_of_issue :: "zod_issue \<Rightarrow> json" where
  "json_of_issue i = JObj
     [(''path'', JArr (map JStr (zi_path i))), (''code'', JStr (zi_code i)), (''message'', JStr (zi_message i))]"

fun json_of_body :: "reply_body \<Rightarrow> json" where
  "json_of_body (HealthBody ok ts r s) =
     JObj [(''ok'', JBool ok), (''ts'', JNum ts), (''resolver'', json_of_daemon r), (''sender'', json_of_daemon s)]"
| "json_of_body (OrchsBody rows) = JObj [(''orchs'', JArr (map json_of_row rows))]"
| "json_of_body (OrchBody d) =
     JObj [(''orch'', json_opt json_of_row (oc_orch d)),
           (''recentObservations'', JArr (map json_of_observation (oc_recentObservations d)))]"
| "json_of_body (OrchNotFoundBody a) =
     JObj [(''error'', JObj [(''code'', JStr ''orch_not_found''), (''address'', JStr a)])]"
| "json_of_body (SelectBody r) =
     JObj [(''route'', json_opt json_of_route (se_route r)), (''reason'', JStr (se_reason r))]"
| "json_of_body (WalletBody w) =
     JObj [(''address'', JStr (sw_address w)), (''balanceWei'', JStr (sw_balanceWei w)),
           (''minBalanceWei'', json_str_opt (sw_minBalanceWei w))]"
| "json_of_body (EscrowBody e) =
     JObj [(''depositWei'', JStr (es_depositWei e)), (''reserveWei'', JStr (es_reserveWei e)),
           (''observedAt'', JNum (es_observedAt e))]"
| "json_of_body (EventsBody es) = JObj [(''events'', JArr (map json_of_event es))]"
| "json_of_body (ResolverEventsBody es) = JObj [(''events'', JArr (map json_of_entry es))]"
| "json_of_body (RefreshedBody t) = JObj [(''ok'', JBool True), (''target'', JStr t)]"
| "json_of_body OkBody = JObj [(''ok'', JBool True)]"
| "json_of_body (ErrorBody c m) = JObj [(''error'', JObj ((''code'', JStr c) # when_some ''message'' m))]"
| "json_of_body (IssuesBody is) =
     JObj [(''error'', JObj [(''code'', JStr ''invalid_input''), (''issues'', JArr (map json_of_issue is))])]"

text \<open>
  \<open>sent err\<close> is what the framework sends for an error it is handed: a status and a JSON value.
\<close>

definition response_of :: "(js_error \<Rightarrow> nat \<times> json) \<Rightarrow> reply \<Rightarrow> fetch_response" where
  "response_of sent rep =
     (let (st, v) = (case rep of Reply st body \<Rightarrow> (st, json_of_body body) | SendError err \<Rightarrow> sent err)
      in \<lparr>fp_status = st, fp_contentType = Some ''application/json; charset=utf-8'', fp_json = Some v\<rparr>)"

section \<open>Requests on the way\<close>

definition header_of :: "string \<Rightarrow> (string \<times> string) list \<Rightarrow> header" where
  "header_of k hs = (case map_of hs k of None \<Rightarrow> HAbsent | Some v \<Rightarrow> HText v)"

definition body_of :: "json option \<Rightarrow> body" where
  "body_of v = (case v of None \<Rightarrow> BodyUndefined | Some JNull \<Rightarrow> BodyNull
     | Some (JObj kvs) \<Rightarrow> BodyObject (map fst kvs) | Some _ \<Rightarrow> BodyOther)"

definition http_of :: "(string \<Rightarrow> query) \<Rightarrow> fetch_request \<Rightarrow> http_request" where
  "http_of parse q =
     \<lparr>hq_method = fq_method q, hq_url = fq_url q, hq_authorization = header_of ''authorization'' (fq_headers q),
      hq_xActor = header_of ''x-actor'' (fq_headers q), hq_query = parse (fq_url q), hq_body = body_of (fq_body q)\<rparr>"

text \<open>
  The server as the world of a screen: a request is answered by the server, or gets lost,
  before or after the server took it.
\<close>

definition server_net :: "'w env \<Rightarrow> ServerDeps \<Rightarrow> router \<Rightarrow> (http_request \<Rightarrow> reply) \<Rightarrow> zod_error
    \<Rightarrow> (string \<Rightarrow> string list) \<Rightarrow> (string \<Rightarrow> query) \<Rightarrow> (js_error \<Rightarrow> nat \<times> json)
    \<Rightarrow> fetch_request \<Rightarrow> 'w sys \<Rightarrow> js_error + fetch_response \<Rightarrow> 'w sys \<Rightarrow> bool" where
  "server_net env deps router fallback zod issues parse sent q s r s' \<longleftrightarrow>
     (case serve env deps router fallback zod issues (http_of parse q) s of
        (out, s1) \<Rightarrow>
          (\<exists>e. r = Inl e \<and> (s' = s \<or> s' = s1)) \<or>
          (\<exists>rep. out = Inr rep \<and> r = Inr (response_of sent rep) \<and> s' = s1))"

text \<open>The server where no request is lost.\<close>

definition server_fetch :: "'w env \<Rightarrow> ServerDeps \<Rightarrow> router \<Rightarrow> (http_request \<Rightarrow> reply) \<Rightarrow> zod_error
    \<Rightarrow> (string \<Rightarrow> string list) \<Rightarrow> (string \<Rightarrow> query) \<Rightarrow> (js_error \<Rightarrow> nat \<times> json) \<Rightarrow> 'w sys fetch" where
  "server_fetch env deps router fallback zod issues parse sent q s =
     (case serve env deps router fallback zod issues (http_of parse q) s of
        (r, s') \<Rightarrow> (map_sum id (response_of sent) r, s'))"

lemma server_fetch_serve:
  "serve env deps router fallback zod issues (http_of parse q) s = (Inr rep, s') \<Longrightarrow>
   server_fetch env deps router fallback zod issues parse sent q s = (Inr (response_of sent rep), s')"
  by (simp add: server_fetch_def)

text \<open>
  What the framework does with a URL of the application: it finds the route by the path
  before the question mark, and reads the query that was written.
\<close>

definition web_route :: "router \<Rightarrow> (string \<Rightarrow> query) \<Rightarrow> string \<Rightarrow> string \<Rightarrow> route \<Rightarrow> bool" where
  "web_route router parse m path rt \<longleftrightarrow>
     (\<forall>q. router m (path @ url_suffix q) = Some (rt, []) \<and>
          (distinct (map fst q) \<longrightarrow> parse (path @ url_suffix q) = map (\<lambda>(k, v). (k, QStr v)) q))"

text \<open>An error the framework sends is a failure, but never a rejected token.\<close>

definition sent_failure :: "(js_error \<Rightarrow> nat \<times> json) \<Rightarrow> bool" where
  "sent_failure sent \<longleftrightarrow> (\<forall>e. 400 \<le> fst (sent e) \<and> fst (sent e) \<noteq> 401)"

section \<open>The headers of a session\<close>

lemma parseBearer_token:
  assumes ne: "tok \<noteq> []" and trimmed: "js_trim tok = tok"
  shows "parseBearer (Some (''Bearer '' @ tok)) = Inr t \<longleftrightarrow> t = tok \<and> list_all (\<lambda>c. \<not> is_js_space c) tok"
proof -
  have sp: "is_js_space (CHR '' '')" "\<not> is_js_space (CHR ''B'')" by (simp_all add: is_js_space_def)
  have word: "list_all (\<lambda>c. \<not> is_js_space c) ''Bearer''" by (simp add: is_js_space_def)
  have low: "js_lower ''Bearer'' = ''bearer''" by code_simp
  show ?thesis unfolding parseBearer_iff
  proof
    assume "bearer_header t (''Bearer '' @ tok)"
    then obtain pre sch ws post where t: "t \<noteq> []" "list_all (\<lambda>c. \<not> is_js_space c) t"
      and h: "''Bearer '' @ tok = pre @ sch @ ws @ t @ post" and sch: "js_lower sch = ''bearer''"
      and ws: "ws \<noteq> []" "list_all is_js_space ws" and pp: "list_all is_js_space pre" "list_all is_js_space post"
      by (auto simp: bearer_header_def)
    have "pre = []"
      using h sp(2) pp(1) by (cases pre) auto
    have w: "list_all (\<lambda>c. \<not> is_js_space c) sch" using sch by (rule bearer_word)
    obtain c ws' where c: "ws = c # ws'" "is_js_space c" using ws by (cases ws) auto
    have "takeWhile (\<lambda>c. \<not> is_js_space c) (''Bearer'' @ CHR '' '' # tok) = ''Bearer''"
      using word sp(1) by (simp add: list_all_iff takeWhile_tail)
    moreover have "takeWhile (\<lambda>c. \<not> is_js_space c) (sch @ c # ws' @ t @ post) = sch"
      using w c(2) by (simp add: list_all_iff takeWhile_tail)
    moreover have "''Bearer'' @ CHR '' '' # tok = sch @ c # ws' @ t @ post" using h \<open>pre = []\<close> c(1) by simp
    ultimately have "sch = ''Bearer''" by metis
    with h \<open>pre = []\<close> c(1) have "tok = ws' @ t @ post" by simp
    moreover have "js_trim (ws' @ t @ post) = t"
      by (rule js_trim_core) (use ws c pp t in \<open>auto simp: list_all_iff\<close>)
    ultimately show "t = tok \<and> list_all (\<lambda>c. \<not> is_js_space c) tok" using trimmed t by simp
  next
    assume "t = tok \<and> list_all (\<lambda>c. \<not> is_js_space c) tok"
    then show "bearer_header t (''Bearer '' @ tok)"
      unfolding bearer_header_def using ne low sp(1)
      by (intro conjI exI [of _ "[]"] exI [of _ "''Bearer''"] exI [of _ "'' ''"]) simp_all
  qed
qed

lemma hd_trim: "js_trim s \<noteq> [] \<Longrightarrow> \<not> is_js_space (hd (js_trim s)) \<and> \<not> is_js_space (last (js_trim s))"
proof -
  assume ne: "js_trim s \<noteq> []"
  let ?t = "js_trim_start s"
  obtain post where t: "?t = js_trim s @ post"
    unfolding js_trim_def by (metis rev_append rev_rev_ident takeWhile_dropWhile_id)
  have "?t \<noteq> []" using ne t by auto
  then have "\<not> is_js_space (hd ?t)" unfolding js_trim_start_def by (rule hd_dropWhile)
  moreover have "hd ?t = hd (js_trim s)" using t ne by simp
  moreover have "\<not> is_js_space (last (js_trim s))"
    using ne hd_dropWhile [of is_js_space "rev ?t"] by (simp add: js_trim_def last_rev)
  ultimately show ?thesis by simp
qed

lemma js_trim_idem [simp]: "js_trim (js_trim s) = js_trim s"
proof (cases "js_trim s = []")
  case True
  have "js_trim [] = []" by (simp add: js_trim_def js_trim_start_def)
  then show ?thesis by (simp only: True)
next
  case False
  with hd_trim [OF False] js_trim_core [of "[]" "[]" "js_trim s"] show ?thesis by simp
qed

text \<open>A session as the sign-in stores it.\<close>

definition session_of :: "browser \<Rightarrow> string \<Rightarrow> string \<Rightarrow> bool" where
  "session_of b tok act \<longleftrightarrow>
     getToken (bw_storage b) = Some tok \<and> getActor (bw_storage b) = Some act \<and>
     tok \<noteq> [] \<and> act \<noteq> [] \<and> js_trim tok = tok \<and> js_trim act = act"

definition token_ok :: "string \<Rightarrow> string \<Rightarrow> bool" where
  "token_ok adminToken tok \<longleftrightarrow> tok = adminToken \<and> list_all (\<lambda>c. \<not> is_js_space c) tok"

lemma authenticate_session:
  assumes "tok \<noteq> []" and "js_trim tok = tok"
  shows "(\<exists>a. authenticate adm (Some (''Bearer '' @ tok)) = Inr a) \<longleftrightarrow> token_ok adm tok"
  using parseBearer_token [OF assms] by (auto simp: authenticate_token token_ok_def)

lemma parseActor_session:
  assumes "act \<noteq> []" and "js_trim act = act"
  shows "parseActor issues (Some act) = (if ActorHandleSchema act then Inr act
    else Inl (MalformedActorError (case issues act of [] \<Rightarrow> ''invalid handle'' | m # _ \<Rightarrow> m)))"
  using assms by (simp add: parseActor_def)

text \<open>The gate on any request of a session.\<close>

lemma gate_session:
  assumes ses: "session_of b tok act" and api: "starts_with ''/api/'' path"
  shows "(\<not> token_ok adm tok \<longrightarrow> (\<exists>c m. gate adm issues (http_of parse (request_init m' path body b)) = GateStop (Reply 401 (ErrorBody c m)))) \<and>
    (token_ok adm tok \<and> \<not> ActorHandleSchema act \<longrightarrow>
       (\<exists>m. gate adm issues (http_of parse (request_init m' path body b)) = GateStop (Reply 400 (ErrorBody ''malformed_actor'' m)))) \<and>
    (token_ok adm tok \<and> ActorHandleSchema act \<longrightarrow>
       gate adm issues (http_of parse (request_init m' path body b)) = GatePass act)"
proof -
  let ?req = "http_of parse (request_init m' path body b)"
  have h: "headerString (hq_authorization ?req) = Some (''Bearer '' @ tok)" "headerString (hq_xActor ?req) = Some act"
    "starts_with ''/api/'' (hq_url ?req)"
    using ses api by (simp_all add: http_of_def request_init_def getAuthHeaders_def header_of_def headerString_def session_of_def)
  have p: "parseActor issues (Some act) = (if ActorHandleSchema act then Inr act
    else Inl (MalformedActorError (case issues act of [] \<Rightarrow> ''invalid handle'' | m # _ \<Rightarrow> m)))"
    using ses parseActor_session by (simp add: session_of_def)
  have a: "(\<exists>a. authenticate adm (Some (''Bearer '' @ tok)) = Inr a) \<longleftrightarrow> token_ok adm tok"
    using ses authenticate_session by (simp add: session_of_def)
  show ?thesis
  proof (cases "token_ok adm tok")
    case True
    with a obtain x where "authenticate adm (Some (''Bearer '' @ tok)) = Inr x" by blast
    then show ?thesis using True h p by (simp add: gate_def)
  next
    case False
    with a have "\<not> authentic adm ?req" by (simp add: authentic_def h)
    from gate_stops [OF h(3) this] show ?thesis using False by blast
  qed
qed

section \<open>What the server answers\<close>

definition failing :: "reply \<Rightarrow> bool" where
  "failing rep \<longleftrightarrow> (case rep of Reply st _ \<Rightarrow> 400 \<le> st | SendError _ \<Rightarrow> True)"

lemma failing_errorHandler: "failing (errorHandler err)"
  by (cases err) (simp_all add: errorHandler_def failing_def)

lemma gate_stop_fails: "gate tok issues req = GateStop rep \<Longrightarrow> failing rep"
  by (auto simp: gate_def failing_def split: if_splits sum.splits js_error.splits)

lemma settle_failing:
  assumes "failing rep" and "sent_failure sent"
  obtains err b' where "request_settle (Inr (response_of sent rep)) b = (Inl err, b')"
proof -
  have st: "400 \<le> fp_status (response_of sent rep)"
    using assms by (cases rep) (simp_all add: failing_def sent_failure_def response_of_def case_prod_unfold)
  then have "\<exists>err b'. request_settle (Inr (response_of sent rep)) b = (Inl err, b')"
    by (simp add: request_settle_def)
  with that show ?thesis by blast
qed

lemma json_type: "js_includes ''application/json'' ''application/json; charset=utf-8''"
  by code_simp

lemma settle_ok: "request_settle (Inr (response_of sent (Reply 200 body))) b = (Inr (json_of_body body), b)"
  by (simp add: request_settle_def response_of_def json_type del: js_includes.simps)

lemma serve_routed:
  assumes "router (hq_method req) (hq_url req) = Some (rt, ps)"
    and "serve env deps router fallback zod issues req s = (out, s')"
  shows "(\<exists>rep. out = Inr rep \<and> failing rep \<and> s' = s) \<or>
    (\<exists>actor r. handle env deps zod rt ps actor req s = (r, s') \<and>
       out = (case r of Inl err \<Rightarrow> Inr (errorHandler err) | Inr rep \<Rightarrow> Inr rep))"
proof (cases "gate (sd_adminToken deps) issues req")
  case (GatePass actor)
  obtain r t where "handle env deps zod rt ps actor req s = (r, t)" by fastforce
  with GatePass assms have "t = s' \<and> out = (case r of Inl err \<Rightarrow> Inr (errorHandler err) | Inr rep \<Rightarrow> Inr rep)"
    by (cases r) (auto simp: serve_def io_catch_def)
  with \<open>handle env deps zod rt ps actor req s = (r, t)\<close> show ?thesis by blast
next
  case (GateStop rep)
  with assms(2) gate_stop_fails [OF GateStop] show ?thesis by (auto simp: serve_def)
next
  case (GateThrow err)
  with assms(2) show ?thesis by (auto simp: serve_def failing_errorHandler)
qed

section \<open>The audit screen and the audit log\<close>

text \<open>The log as rows, newest first, and a log the server may have: well-formed, with keys that are exact doubles.\<close>

definition log_rows :: "'w sys \<Rightarrow> AuditEventRow list" where
  "log_rows s = rev (tb_rows (auditEvents (db s)))"

definition log_ok :: "'w sys \<Rightarrow> bool" where
  "log_ok s \<longleftrightarrow> wf_table au_id (auditEvents (db s)) \<and> tb_seq (auditEvents (db s)) < 2 ^ 53"

text \<open>Whatever else goes on at the server, the log only grows.\<close>

definition log_grows :: "'w sys \<Rightarrow> 'w sys \<Rightarrow> bool" where
  "log_grows s s' \<longleftrightarrow> log_ok s' \<and> (\<exists>new. log_rows s' = new @ log_rows s)"

abbreviation audit_json :: "AuditEventRow \<Rightarrow> json" where
  "audit_json \<equiv> \<lambda>r. json_of_event (rowToDomain r)"

definition audit_path :: string where "audit_path = ''/api/audit-log''"

definition page_query :: "nat option \<Rightarrow> (string \<times> string) list" where
  "page_query c = num_param ''limit'' (Some (JNum 50)) @ num_param ''before'' (map_option (\<lambda>n. JNum (int n)) c)"

definition page_request :: "nat option \<Rightarrow> browser \<Rightarrow> fetch_request" where
  "page_request c b = request_init ''GET'' (audit_path @ url_suffix (page_query c)) None b"

definition page_of :: "nat option \<Rightarrow> AuditEventRow list \<Rightarrow> AuditEventRow list" where
  "page_of c rows = take 50 (case c of None \<Rightarrow> rows | Some n \<Rightarrow> filter (\<lambda>r. au_id r < n) rows)"

lemma js_number_int: "n < 2 ^ 53 \<Longrightarrow> js_integer (js_number (show_int (int n))) = Some (int n)"
  by (simp add: show_int_def js_number_show_nat)

lemma coerce_shown: "0 < n \<Longrightarrow> n < 2 ^ 53 \<Longrightarrow> p (int n) \<Longrightarrow> coerce_int p (show_int (int n)) = Some (int n)"
  by (simp add: coerce_int_def js_number_int)

lemma page_query_parsed:
  assumes "\<And>n. c = Some n \<Longrightarrow> 0 < n \<and> n < 2 ^ 53"
  shows "AuditLogQuerySchema (map (\<lambda>(k, v). (k, QStr v)) (page_query c))
    = Some \<lparr>lo_limit = Some 50, lo_before = map_option int c\<rparr>"
proof -
  have l: "coerce_int (\<lambda>n. 0 < n \<and> n \<le> 500) (show_int 50) = Some 50"
    using coerce_shown [of 50 "\<lambda>n. 0 < n \<and> n \<le> 500"] by simp
  show ?thesis
  proof (cases c)
    case None
    then show ?thesis
      by (simp add: AuditLogQuerySchema_def page_query_def num_param_def strict_keys_def opt_field_def int_field_def l)
  next
    case (Some n)
    have "coerce_int (\<lambda>n. 0 < n) (show_int (int n)) = Some (int n)"
      using coerce_shown [of n "\<lambda>n. 0 < n"] assms [OF Some] by simp
    with Some l show ?thesis
      by (simp add: AuditLogQuerySchema_def page_query_def num_param_def strict_keys_def opt_field_def int_field_def)
  qed
qed

lemma audit_select_page:
  assumes "log_ok s"
  shows "audit_select \<lparr>lo_limit = Some 50, lo_before = map_option int c\<rparr> (tb_rows (auditEvents (db s)))
    = page_of c (log_rows s)"
  using assms audit_table.sorted_rows audit_table.sorted_filter_rows
  by (cases c) (simp_all add: audit_select_def sql_limit_def page_of_def log_rows_def log_ok_def)

text \<open>The server on a page request: a failure, or the page of the log as it is.\<close>

lemma serve_page:
  assumes route: "web_route router parse ''GET'' audit_path ApiAuditLog" and ok: "log_ok s"
    and c: "\<And>n. c = Some n \<Longrightarrow> 0 < n \<and> n < 2 ^ 53"
    and run: "serve env deps router fallback zod issues (http_of parse (page_request c b)) s = (out, s')"
  shows "db s' = db s \<and> (\<exists>rep. out = Inr rep \<and>
    (failing rep \<or> rep = Reply 200 (EventsBody (map rowToDomain (page_of c (log_rows s))))))"
proof -
  let ?req = "http_of parse (page_request c b)"
  let ?opts = "\<lparr>lo_limit = Some 50, lo_before = map_option int c\<rparr>"
  have q: "hq_query ?req = map (\<lambda>(k, v). (k, QStr v)) (page_query c)"
    using route by (cases c) (auto simp: web_route_def http_of_def page_request_def request_init_def page_query_def num_param_def)
  have "router (hq_method ?req) (hq_url ?req) = Some (ApiAuditLog, [])"
    using route by (simp add: web_route_def http_of_def page_request_def request_init_def)
  from serve_routed [OF this run] show ?thesis
  proof
    assume "\<exists>rep. out = Inr rep \<and> failing rep \<and> s' = s"
    then show ?thesis by auto
  next
    assume "\<exists>actor r. handle env deps zod ApiAuditLog [] actor ?req s = (r, s') \<and>
       out = (case r of Inl err \<Rightarrow> Inr (errorHandler err) | Inr rep \<Rightarrow> Inr rep)"
    then obtain actor r where h: "handle env deps zod ApiAuditLog [] actor ?req s = (r, s')"
      and out: "out = (case r of Inl err \<Rightarrow> Inr (errorHandler err) | Inr rep \<Rightarrow> Inr rep)" by blast
    have "handle env deps zod ApiAuditLog [] actor ?req s
      = io_bind (audit_service_listRecent env ?opts) (\<lambda>events. io_return (Reply 200 (EventsBody events))) s"
      by (simp add: handle_def handleListAuditLog_def q page_query_parsed [OF c])
    with h obtain p where p: "audit_service_listRecent env ?opts s = (p, s')"
      and r: "r = map_sum id (\<lambda>events. Reply 200 (EventsBody events)) p"
      by (cases "audit_service_listRecent env ?opts s") (auto simp: io_bind_def split: sum.splits)
    have d: "db s' = db s" by (rule keepsD [OF keeps_audit_service_listRecent p])
    obtain x w where x: "db_refuses env (ext s) = (x, w)" by fastforce
    have "\<And>events. p = Inr events \<Longrightarrow> events = map rowToDomain (page_of c (log_rows s))"
      using p x audit_select_page [OF ok]
      by (cases x) (simp_all add: audit_service_listRecent_def audit_listRecent_def statement_def io_simps)
    with d r out show ?thesis by (cases p) (simp_all add: failing_errorHandler)
  qed
qed

text \<open>
  What the screen shows: a segment of the log without a gap, and a cursor at its end. Where
  there is no cursor, or less than a page is shown, nothing is older than the segment.
\<close>

definition audit_shows :: "AuditEventRow list \<Rightarrow> admin_audit \<Rightarrow> bool" where
  "audit_shows rows p \<longleftrightarrow>
     (\<exists>newer seg older. rows = newer @ seg @ older \<and> aud_events p = map audit_json seg
        \<and> (aud_cursor p = None \<or> length seg < PAGE_SIZE \<longrightarrow> older = [])
        \<and> (\<forall>c. aud_cursor p = Some c \<longrightarrow> seg \<noteq> [] \<and> c = JNum (int (au_id (last seg)))))"

text \<open>A request of the screen, with the only answers it may have.\<close>

definition page_answer :: "(js_error \<Rightarrow> nat \<times> json) \<Rightarrow> (AuditEventRow list \<Rightarrow> bool) \<Rightarrow> js_error + fetch_response \<Rightarrow> bool" where
  "page_answer sent P r \<longleftrightarrow>
     (case r of Inl _ \<Rightarrow> True
      | Inr res \<Rightarrow> (\<exists>rep. failing rep \<and> res = response_of sent rep) \<or>
          (\<exists>page. P page \<and> res = response_of sent (Reply 200 (EventsBody (map rowToDomain page)))))"

definition first_page :: "AuditEventRow list \<Rightarrow> AuditEventRow list \<Rightarrow> bool" where
  "first_page rows page \<longleftrightarrow>
     (\<exists>newer older. rows = newer @ page @ older \<and> (length page < PAGE_SIZE \<longrightarrow> older = []))"

definition audit_flight_ok :: "(js_error \<Rightarrow> nat \<times> json) \<Rightarrow> AuditEventRow list \<Rightarrow> admin_audit \<Rightarrow> audit_task flight \<Rightarrow> bool" where
  "audit_flight_ok sent rows p f \<longleftrightarrow>
     (case ft_task f of
        AuditFirst \<Rightarrow> (\<exists>b. ft_request f = page_request None b) \<and>
          (\<forall>r. ft_answer f = Some r \<longrightarrow> page_answer sent (first_page rows) r)
      | AuditMore \<Rightarrow> (\<exists>n b. aud_cursor p = Some (JNum (int n)) \<and> ft_request f = page_request (Some n) b \<and>
          (\<forall>r. ft_answer f = Some r \<longrightarrow> page_answer sent (\<lambda>page. page = page_of (Some n) rows) r)))"

lemma first_page_now: "first_page rows (page_of None rows)"
  unfolding first_page_def page_of_def PAGE_SIZE_def
  by (rule exI [of _ "[]"], rule exI [of _ "drop 50 rows"]) simp

lemma first_page_grows: "first_page rows page \<Longrightarrow> first_page (new @ rows) page"
proof -
  assume "first_page rows page"
  then obtain newer older where "rows = newer @ page @ older" "length page < PAGE_SIZE \<longrightarrow> older = []"
    by (auto simp: first_page_def)
  then show ?thesis unfolding first_page_def by (intro exI [of _ "new @ newer"] exI [of _ older]) simp
qed

lemma audit_shows_grows: "audit_shows rows p \<Longrightarrow> audit_shows (new @ rows) p"
proof -
  assume "audit_shows rows p"
  then obtain newer seg older where "rows = newer @ seg @ older" "aud_events p = map audit_json seg"
    "aud_cursor p = None \<or> length seg < PAGE_SIZE \<longrightarrow> older = []"
    "\<forall>c. aud_cursor p = Some c \<longrightarrow> seg \<noteq> [] \<and> c = JNum (int (au_id (last seg)))"
    by (auto simp: audit_shows_def)
  then show ?thesis
    unfolding audit_shows_def by (intro exI [of _ "new @ newer"] exI [of _ seg] exI [of _ older]) simp
qed

lemma page_answer_mono: "page_answer sent P r \<Longrightarrow> (\<And>page. P page \<Longrightarrow> Q page) \<Longrightarrow> page_answer sent Q r"
  by (auto simp: page_answer_def split: sum.splits)

lemma log_cut:
  assumes "log_ok s" and "log_rows s = xs @ y # ys"
  shows "filter (\<lambda>r. au_id r < au_id y) (log_rows s) = ys"
  using audit_table.cursor_suffix [of "auditEvents (db s)" xs y ys] assms
  by (simp add: log_ok_def log_rows_def)

text \<open>What is below a row of the log stays the same as the log grows.\<close>

lemma page_grows:
  assumes "log_ok s'" and "log_rows s' = new @ log_rows s" and "y \<in> set (log_rows s)"
  shows "page_of (Some (au_id y)) (log_rows s') = page_of (Some (au_id y)) (log_rows s)"
proof -
  obtain xs ys where s: "log_rows s = xs @ y # ys" using assms(3) by (meson split_list)
  with assms(2) have s': "log_rows s' = (new @ xs) @ y # ys" by simp
  have "tb_rows (auditEvents (db s')) = rev ((new @ xs) @ y # ys)"
    using s' by (simp add: log_rows_def rev_swap)
  with assms(1) have "\<forall>z\<in>set new. au_id y < au_id z"
    by (auto simp: log_ok_def wf_table_def sorted_wrt_append)
  then have "filter (\<lambda>r. au_id r < au_id y) new = []" by (auto simp: filter_empty_conv)
  then show ?thesis by (simp add: page_of_def assms(2))
qed

lemma audit_cursor_row:
  assumes "audit_shows rows p" and "aud_cursor p = Some (JNum (int n))"
  obtains y where "y \<in> set rows" and "au_id y = n"
proof -
  from assms obtain newer seg older where "rows = newer @ seg @ older" "seg \<noteq> []" "n = au_id (last seg)"
    unfolding audit_shows_def by force
  with that [of "last seg"] show ?thesis by simp
qed

lemma flight_grows:
  assumes "log_ok s'" and "log_rows s' = new @ log_rows s" and "audit_shows (log_rows s) p"
    and "audit_flight_ok sent (log_rows s) p f"
  shows "audit_flight_ok sent (log_rows s') p f"
proof (cases "ft_task f")
  case AuditFirst
  with assms(2,4) show ?thesis
    by (auto simp: audit_flight_ok_def intro: page_answer_mono first_page_grows)
next
  case AuditMore
  with assms(4) obtain n b where c: "aud_cursor p = Some (JNum (int n))" and q: "ft_request f = page_request (Some n) b"
    and r: "\<forall>r. ft_answer f = Some r \<longrightarrow> page_answer sent (\<lambda>page. page = page_of (Some n) (log_rows s)) r"
    by (auto simp: audit_flight_ok_def)
  obtain y where "y \<in> set (log_rows s)" "au_id y = n" using audit_cursor_row [OF assms(3) c] .
  with page_grows [OF assms(1,2)] have "page_of (Some n) (log_rows s') = page_of (Some n) (log_rows s)" by blast
  with AuditMore c q r show ?thesis by (auto simp: audit_flight_ok_def)
qed

definition audit_inv :: "(js_error \<Rightarrow> nat \<times> json) \<Rightarrow> (admin_audit, audit_task, 'w sys) tab \<Rightarrow> bool" where
  "audit_inv sent s \<longleftrightarrow> log_ok (tb_world s) \<and> audit_shows (log_rows (tb_world s)) (snd (tb_page s)) \<and>
     (\<forall>f\<in>set (tb_flights s). audit_flight_ok sent (log_rows (tb_world s)) (snd (tb_page s)) f) \<and> audit_flag.flagged s"

lemma audit_flights:
  assumes "audit_flag.flagged s"
  shows "\<not> aud_loading (snd (tb_page s)) \<Longrightarrow> tb_flights s = []"
    and "tb_flights s = xs @ f # ys \<Longrightarrow> xs = [] \<and> ys = []"
proof -
  have n: "length (tb_flights s) = of_bool (aud_loading (snd (tb_page s)))"
    using assms by (simp add: audit_flag.flagged_def audit_flag.counted_def)
  then show "\<not> aud_loading (snd (tb_page s)) \<Longrightarrow> tb_flights s = []" by simp
  show "tb_flights s = xs @ f # ys \<Longrightarrow> xs = [] \<and> ys = []"
    using n by (cases "aud_loading (snd (tb_page s))") simp_all
qed

lemma audit_shows_flags [simp]:
  "audit_shows rows (p\<lparr>aud_loading := l, aud_error := e\<rparr>) = audit_shows rows p"
  "audit_shows rows (p\<lparr>aud_loading := l\<rparr>) = audit_shows rows p"
  "audit_shows rows (p\<lparr>aud_error := e\<rparr>) = audit_shows rows p"
  by (simp_all add: audit_shows_def)

lemma send_page: "ft_request (send b (t, api_listAuditLog (Some (JNum (int PAGE_SIZE))) (map_option (\<lambda>n. JNum (int n)) c)))
    = page_request c b"
  by (simp add: send_def api_listAuditLog_def api_get_def page_request_def audit_path_def page_query_def PAGE_SIZE_def)

lemma audit_event_inv:
  assumes inv: "audit_inv sent s" and st: "audit_start e (tb_page s) = (bp, new)"
  shows "audit_inv sent (s\<lparr>tb_page := bp, tb_flights := tb_flights s @ map (send (fst bp)) new\<rparr>)"
proof -
  obtain b p where bp0: "tb_page s = (b, p)" by fastforce
  have fl: "audit_flag.flagged (s\<lparr>tb_page := bp, tb_flights := tb_flights s @ map (send (fst bp)) new\<rparr>)"
    using inv st audit_flag.flagged_step tab_step.event [of audit_start e s bp new audit_resume "\<lambda>_ _ _ _. False" no_drift]
    by (auto simp: audit_inv_def)
  have f0: "tb_flights s = []" if "\<not> aud_loading p"
    using audit_flights(1) [of s] inv that by (simp add: audit_inv_def bp0)
  consider (none) "bp = (b, p)" "new = []"
    | (first) "bp = (b, p\<lparr>aud_loading := True, aud_error := []\<rparr>)" "\<not> aud_loading p"
        "new = [(AuditFirst, api_listAuditLog (Some (JNum (int PAGE_SIZE))) (map_option (\<lambda>n. JNum (int n)) None))]"
    | (more) c where "bp = (b, p\<lparr>aud_loading := True, aud_error := []\<rparr>)" "\<not> aud_loading p" "aud_cursor p = Some c"
        "new = [(AuditMore, api_listAuditLog (Some (JNum (int PAGE_SIZE))) (Some c))]"
    using st bp0 by (cases e) (auto simp: audit_first_start_def audit_older_start_def split: if_splits option.splits)
  then show ?thesis
  proof cases
    case none
    with inv fl show ?thesis by (simp add: audit_inv_def bp0)
  next
    case first
    with inv fl f0 show ?thesis
      using send_page [of b AuditFirst None] by (auto simp: audit_inv_def bp0 audit_flight_ok_def send_def)
  next
    case more
    from inv more(3) obtain n where n: "c = JNum (int n)" by (auto simp: audit_inv_def bp0 audit_shows_def)
    from inv fl more f0 show ?thesis
      using send_page [of b AuditMore "Some n"] by (auto simp: audit_inv_def bp0 audit_flight_ok_def send_def n)
  qed
qed

lemma page_answered:
  assumes route: "web_route router parse ''GET'' audit_path ApiAuditLog" and ok: "log_ok w"
    and c: "\<And>n. c = Some n \<Longrightarrow> 0 < n \<and> n < 2 ^ 53"
    and net: "server_net env deps router fallback zod issues parse sent (page_request c b) w r w'"
    and page: "P (page_of c (log_rows w))"
  shows "db w' = db w \<and> page_answer sent P r"
proof -
  obtain out w1 where run: "serve env deps router fallback zod issues (http_of parse (page_request c b)) w = (out, w1)"
    by fastforce
  from serve_page [OF route ok c run] have d: "db w1 = db w" and rep: "\<exists>rep. out = Inr rep \<and>
    (failing rep \<or> rep = Reply 200 (EventsBody (map rowToDomain (page_of c (log_rows w)))))" by auto
  from net run consider e where "r = Inl e" "w' = w \<or> w' = w1"
    | rp where "out = Inr rp" "r = Inr (response_of sent rp)" "w' = w1"
    by (auto simp: server_net_def)
  then show ?thesis
  proof cases
    case 1
    with d show ?thesis by (auto simp: page_answer_def)
  next
    case 2
    with d rep page show ?thesis by (auto simp: page_answer_def)
  qed
qed

lemma audit_cursor_bound:
  assumes "log_ok w" and "audit_shows (log_rows w) p" and "aud_cursor p = Some (JNum (int n))"
  shows "0 < n \<and> n < 2 ^ 53"
proof -
  obtain y where "y \<in> set (log_rows w)" "au_id y = n" using audit_cursor_row [OF assms(2,3)] .
  with assms(1) show ?thesis by (fastforce simp: log_ok_def wf_table_def log_rows_def)
qed

lemma audit_answer_inv:
  assumes inv: "audit_inv sent s" and fs: "tb_flights s = xs @ f # ys"
    and route: "web_route router parse ''GET'' audit_path ApiAuditLog"
    and net: "server_net env deps router fallback zod issues parse sent (ft_request f) (tb_world s) r w"
  shows "audit_inv sent (s\<lparr>tb_flights := xs @ f\<lparr>ft_answer := Some r\<rparr> # ys, tb_world := w\<rparr>)"
proof -
  let ?rows = "log_rows (tb_world s)" and ?p = "snd (tb_page s)"
  from inv have ok: "log_ok (tb_world s)" and sh: "audit_shows ?rows ?p" and fok: "audit_flight_ok sent ?rows ?p f"
    and fl: "audit_flag.flagged s" by (auto simp: audit_inv_def fs)
  have "db w = db (tb_world s) \<and> audit_flight_ok sent ?rows ?p (f\<lparr>ft_answer := Some r\<rparr>)"
  proof (cases "ft_task f")
    case AuditFirst
    with fok obtain b where "ft_request f = page_request None b" by (auto simp: audit_flight_ok_def)
    with page_answered [OF route ok, of None] net first_page_now AuditFirst show ?thesis
      by (fastforce simp: audit_flight_ok_def)
  next
    case AuditMore
    with fok obtain n b where c: "aud_cursor ?p = Some (JNum (int n))" and q: "ft_request f = page_request (Some n) b"
      by (auto simp: audit_flight_ok_def)
    have "db w = db (tb_world s) \<and> page_answer sent (\<lambda>page. page = page_of (Some n) ?rows) r"
      by (rule page_answered [OF route ok, of "Some n"])
        (use audit_cursor_bound [OF ok sh c] net q in auto)
    with AuditMore c q show ?thesis by (auto simp: audit_flight_ok_def)
  qed
  with inv show ?thesis
    by (auto simp: audit_inv_def fs log_ok_def log_rows_def audit_flag.flagged_def)
qed

lemma last_id_map: "last_id (map audit_json seg) = (if seg = [] then None else Some (JNum (int (au_id (last seg)))))"
  by (simp add: last_id_def last_map json_of_event_def rowToDomain_def js_nullish_def)

lemma events_body: "js_array (js_get ''events'' (Some (json_of_body (EventsBody (map rowToDomain page))))) = map audit_json page"
  by (simp add: js_array_def)

lemma settle_page:
  assumes "page_answer sent P raw" and "sent_failure sent"
  obtains (failed) err b' where "request_settle raw b = (Inl err, b')"
  | (got) page where "P page"
      "request_settle raw b = (Inr (json_of_body (EventsBody (map rowToDomain page))), b)"
proof (cases raw)
  case (Inl e)
  then show ?thesis by (auto simp: request_settle_def intro: failed)
next
  case (Inr res)
  with assms(1) consider rep where "failing rep" "res = response_of sent rep"
    | page where "P page" "res = response_of sent (Reply 200 (EventsBody (map rowToDomain page)))"
    by (auto simp: page_answer_def)
  then show ?thesis
  proof cases
    case 1
    then show ?thesis using settle_failing [OF 1(1) assms(2), of b] Inr failed by metis
  next
    case 2
    then show ?thesis using settle_ok Inr got by metis
  qed
qed

text \<open>The older events of a page: what the screen shows grows by them at its end.\<close>

lemma shows_more:
  assumes ok: "log_ok w" and sh: "audit_shows (log_rows w) p" and c: "aud_cursor p = Some (JNum (int n))"
    and page: "page = page_of (Some n) (log_rows w)"
  shows "audit_shows (log_rows w) (p\<lparr>aud_events := aud_events p @ map audit_json page, aud_cursor := last_id (map audit_json page)\<rparr>)"
proof -
  from sh c obtain newer seg older where rows: "log_rows w = newer @ seg @ older" and ev: "aud_events p = map audit_json seg"
    and seg: "seg \<noteq> []" "n = au_id (last seg)"
    unfolding audit_shows_def by force
  have "log_rows w = (newer @ butlast seg) @ last seg # older" using rows seg(1) by simp
  from log_cut [OF ok this] have below: "filter (\<lambda>r. au_id r < n) (log_rows w) = older" by (simp add: seg(2))
  have split: "older = page @ drop 50 older" "length page < 50 \<longrightarrow> drop 50 older = []"
    by (simp_all add: page page_of_def below)
  have "log_rows w = newer @ (seg @ page) @ drop 50 older" using rows split(1) by simp
  then show ?thesis
    unfolding audit_shows_def using split(2) ev
    by (intro exI [of _ newer] exI [of _ "seg @ page"] exI [of _ "drop 50 older"])
      (auto simp: last_id_map PAGE_SIZE_def)
qed

lemma audit_resume_inv:
  assumes inv: "audit_inv sent s" and fs: "tb_flights s = xs @ f # ys" and an: "ft_answer f = Some r"
    and sent: "sent_failure sent" and re: "audit_resume (ft_task f) r (tb_page s) = (bp, new)"
  shows "audit_inv sent (s\<lparr>tb_page := bp, tb_flights := xs @ ys @ map (send (fst bp)) new\<rparr>)"
proof -
  obtain b p where bp0: "tb_page s = (b, p)" by fastforce
  let ?rows = "log_rows (tb_world s)"
  from inv have ok: "log_ok (tb_world s)" and sh: "audit_shows ?rows p" and fok: "audit_flight_ok sent ?rows p f"
    by (auto simp: audit_inv_def fs bp0)
  have alone: "xs = [] \<and> ys = []" using audit_flights(2) [of s] inv fs by (simp add: audit_inv_def)
  have fl: "audit_flag.flagged (s\<lparr>tb_page := bp, tb_flights := xs @ ys @ map (send (fst bp)) new\<rparr>)"
    using inv audit_flag.flagged_step tab_step.resume [where start = audit_start and resume = audit_resume
      and net = "\<lambda>_ _ _ _. False" and drift = no_drift, OF fs an re]
    by (auto simp: audit_inv_def)
  have "new = [] \<and> audit_shows ?rows (snd bp)"
  proof (cases "ft_task f")
    case AuditFirst
    with fok an have a: "page_answer sent (first_page ?rows) r" by (auto simp: audit_flight_ok_def)
    show ?thesis
    proof (cases rule: settle_page [OF a sent, where b = b, case_names failed got])
      case (failed err b')
      with re AuditFirst sh bp0 show ?thesis by (auto simp: audit_resume_def settled_def audit_first_done_def)
    next
      case (got page)
      then obtain newer older where n: "?rows = newer @ page @ older" "length page < PAGE_SIZE \<longrightarrow> older = []"
        by (auto simp: first_page_def)
      then have "audit_shows ?rows (p\<lparr>aud_events := map audit_json page, aud_cursor := last_id (map audit_json page)\<rparr>)"
        unfolding audit_shows_def
        by (intro exI [of _ newer] exI [of _ page] exI [of _ older]) (auto simp: last_id_map PAGE_SIZE_def)
      with re AuditFirst got(2) bp0 show ?thesis
        by (auto simp: audit_resume_def settled_def audit_first_done_def events_body simp del: json_of_body.simps)
    qed
  next
    case AuditMore
    with fok an obtain n where c: "aud_cursor p = Some (JNum (int n))"
      and a: "page_answer sent (\<lambda>page. page = page_of (Some n) ?rows) r" by (auto simp: audit_flight_ok_def)
    show ?thesis
    proof (cases rule: settle_page [OF a sent, where b = b, case_names failed got])
      case (failed err b')
      with re AuditMore sh bp0 show ?thesis by (auto simp: audit_resume_def settled_def audit_older_done_def)
    next
      case (got page)
      with re AuditMore bp0 shows_more [OF ok sh c got(1)] show ?thesis
        by (auto simp: audit_resume_def settled_def audit_older_done_def events_body simp del: json_of_body.simps)
    qed
  qed
  with inv fl alone show ?thesis by (simp add: audit_inv_def)
qed

lemma audit_drift_inv:
  assumes "audit_inv sent s" and "log_grows (tb_world s) w"
  shows "audit_inv sent (s\<lparr>tb_world := w\<rparr>)"
proof -
  from assms(2) obtain new where g: "log_ok w" "log_rows w = new @ log_rows (tb_world s)" by (auto simp: log_grows_def)
  with assms(1) show ?thesis
    using flight_grows [OF g] audit_shows_grows by (auto simp: audit_inv_def audit_flag.flagged_def)
qed

lemma audit_screen_inv:
  assumes route: "web_route router parse ''GET'' audit_path ApiAuditLog" and sent: "sent_failure sent" and ok: "log_ok w0"
    and reach: "(tab_step audit_start audit_resume (server_net env deps router fallback zod issues parse sent) log_grows)\<^sup>*\<^sup>*
      (opened b admin_audit_init w0) s"
  shows "audit_inv sent s"
  using reach
proof (induction rule: rtranclp_induct)
  case base
  have "audit_shows (log_rows w0) admin_audit_init"
    unfolding audit_shows_def admin_audit_init_def by (intro exI [of _ "log_rows w0"] exI [of _ "[]"]) simp
  with ok show ?case
    by (simp add: audit_inv_def opened_def audit_flag.flagged_def) (simp add: admin_audit_init_def)
next
  case (step s s')
  from step.hyps(2) show ?case
  proof (cases rule: tab_step.cases)
    case (event e bp new)
    with step.IH audit_event_inv show ?thesis by blast
  next
    case (answer xs f ys r w)
    with step.IH audit_answer_inv [OF _ _ route] show ?thesis by blast
  next
    case (resume xs f r ys bp new)
    with step.IH audit_resume_inv [OF _ _ _ sent] show ?thesis by blast
  next
    case (drift w)
    with step.IH audit_drift_inv show ?thesis by blast
  qed
qed


section \<open>Reading the whole log\<close>

text \<open>The server on a page request of an operator it knows, with a database that answers.\<close>

lemma serve_page_ok:
  assumes route: "web_route router parse ''GET'' audit_path ApiAuditLog" and ok: "log_ok s"
    and ses: "session_of b tok act" "token_ok (sd_adminToken deps) tok" "ActorHandleSchema act"
    and c: "\<And>n. c = Some n \<Longrightarrow> 0 < n \<and> n < 2 ^ 53" and willing: "\<And>w. fst (db_refuses env w) = None"
  shows "\<exists>s'. server_fetch env deps router fallback zod issues parse sent (page_request c b) s
      = (Inr (response_of sent (Reply 200 (EventsBody (map rowToDomain (page_of c (log_rows s)))))), s') \<and> db s' = db s"
proof -
  let ?req = "http_of parse (page_request c b)" and ?opts = "\<lparr>lo_limit = Some 50, lo_before = map_option int c\<rparr>"
  have q: "hq_query ?req = map (\<lambda>(k, v). (k, QStr v)) (page_query c)"
    using route by (cases c) (auto simp: web_route_def http_of_def page_request_def request_init_def page_query_def num_param_def)
  have rt: "router (hq_method ?req) (hq_url ?req) = Some (ApiAuditLog, [])"
    using route by (simp add: web_route_def http_of_def page_request_def request_init_def)
  have g: "gate (sd_adminToken deps) issues ?req = GatePass act"
    using gate_session [OF ses(1), of "audit_path @ url_suffix (page_query c)"] ses(2,3)
    by (simp add: page_request_def audit_path_def starts_with_def)
  obtain s' where l: "audit_service_listRecent env ?opts s
      = (Inr (map rowToDomain (page_of c (log_rows s))), s')" and d: "db s' = db s"
    using audit_listRecent_ok [OF willing, where s = s and opts = ?opts] audit_select_page [OF ok] by auto
  have "serve env deps router fallback zod issues ?req s
      = (Inr (Reply 200 (EventsBody (map rowToDomain (page_of c (log_rows s))))), s')"
    by (simp add: serve_def g rt io_catch_def handle_def handleListAuditLog_def q page_query_parsed [OF c] l)
  from server_fetch_serve [OF this] d show ?thesis by blast
qed

text \<open>After \<open>n\<close> clicks: the first \<open>50 * (n + 1)\<close> events, and a cursor at the last of them.\<close>

definition audit_read :: "AuditEventRow list \<Rightarrow> nat \<Rightarrow> admin_audit \<Rightarrow> bool" where
  "audit_read rows n p \<longleftrightarrow>
     aud_events p = map audit_json (take (50 * Suc n) rows) \<and> \<not> aud_loading p \<and> aud_error p = [] \<and>
     (case aud_cursor p of None \<Rightarrow> length rows \<le> 50 * Suc n
      | Some c \<Rightarrow> rows \<noteq> [] \<and> c = JNum (int (au_id (last (take (50 * Suc n) rows)))))"

lemma read_more_none:
  assumes "audit_read rows n p" and "\<not> older_shown p"
  shows "audit_read rows (Suc n) p"
proof -
  have "length rows \<le> 50 * Suc n"
    using assms by (auto simp: audit_read_def older_shown_def PAGE_SIZE_def split: option.splits)
  with assms(1) show ?thesis by (auto simp: audit_read_def split: option.splits)
qed

lemma read_more_page:
  assumes ok: "log_ok s" and rd: "audit_read (log_rows s) n p" and c: "aud_cursor p = Some (JNum (int k))"
    and page: "page = page_of (Some k) (log_rows s)"
  shows "audit_read (log_rows s) (Suc n)
    (p\<lparr>aud_events := aud_events p @ map audit_json page, aud_cursor := last_id (map audit_json page)\<rparr>)"
proof -
  let ?rows = "log_rows s" and ?m = "50 * Suc n"
  from rd c have ne: "?rows \<noteq> []" and k: "k = au_id (last (take ?m ?rows))" by (auto simp: audit_read_def)
  have "?rows = butlast (take ?m ?rows) @ last (take ?m ?rows) # drop ?m ?rows"
    using ne by (metis append.assoc append_Cons append_Nil append_butlast_last_id append_take_drop_id take_eq_Nil mult_is_0 nat.distinct(1) zero_neq_numeral)
  from log_cut [OF ok this] have "filter (\<lambda>r. au_id r < k) ?rows = drop ?m ?rows" by (simp add: k)
  then have page': "page = take 50 (drop ?m ?rows)" by (simp add: page page_of_def)
  have split: "take (50 * Suc (Suc n)) ?rows = take ?m ?rows @ page"
    using take_add [of ?m 50 ?rows] page' by (simp add: add.commute)
  show ?thesis
  proof (cases "page = []")
    case True
    then have "length ?rows \<le> ?m" using page' by simp
    with True rd split show ?thesis by (simp add: audit_read_def last_id_map last_id_def)
  next
    case False
    with rd ne split show ?thesis by (simp add: audit_read_def last_id_map)
  qed
qed

definition audit_clicks :: "'w fetch \<Rightarrow> nat \<Rightarrow> (browser \<times> admin_audit) \<times> 'w \<Rightarrow> (browser \<times> admin_audit) \<times> 'w" where
  "audit_clicks fetch n s = (click audit_start audit_resume fetch AuditOlder ^^ n)
     (click audit_start audit_resume fetch AuditConnected s)"

lemma audit_clicks_read:
  assumes route: "web_route router parse ''GET'' audit_path ApiAuditLog" and ok: "log_ok s"
    and ses: "session_of b tok act" "token_ok (sd_adminToken deps) tok" "ActorHandleSchema act"
    and willing: "\<And>w. fst (db_refuses env w) = None"
  shows "\<exists>p s'. audit_clicks (server_fetch env deps router fallback zod issues parse sent) n ((b, admin_audit_init), s)
    = ((b, p), s') \<and> db s' = db s \<and> audit_read (log_rows s) n p"
proof (induction n)
  case 0
  let ?fetch = "server_fetch env deps router fallback zod issues parse sent"
  obtain s' where f: "?fetch (page_request None b) s
      = (Inr (response_of sent (Reply 200 (EventsBody (map rowToDomain (page_of None (log_rows s)))))), s')" and d: "db s' = db s"
    using serve_page_ok [OF route ok ses _ willing, of None] by blast
  let ?page = "page_of None (log_rows s)"
  have q: "request_init (ac_method (api_listAuditLog (Some (JNum (int PAGE_SIZE))) None))
      (ac_path (api_listAuditLog (Some (JNum (int PAGE_SIZE))) None)) (ac_body (api_listAuditLog (Some (JNum (int PAGE_SIZE))) None)) b
      = page_request None b" using send_page [of b AuditFirst None] by (simp add: send_def)
  have "?page = take 50 (log_rows s)" by (simp add: page_of_def)
  then have "audit_read (log_rows s) 0 (admin_audit_init\<lparr>aud_error := [], aud_events := map audit_json ?page,
      aud_cursor := last_id (map audit_json ?page), aud_loading := False\<rparr>)"
    by (auto simp: audit_read_def last_id_map)
  then show ?case
    using d by (auto simp: audit_clicks_def click_def admin_audit_init_def audit_first_start_def q f
      audit_resume_def settled_def settle_ok audit_first_done_def events_body simp del: json_of_body.simps)
next
  case (Suc n)
  let ?fetch = "server_fetch env deps router fallback zod issues parse sent"
  from Suc.IH obtain p t where run: "audit_clicks ?fetch n ((b, admin_audit_init), s) = ((b, p), t)"
    and d: "db t = db s" and rd: "audit_read (log_rows s) n p" by blast
  have rows: "log_rows t = log_rows s" and ok': "log_ok t" using d ok by (simp_all add: log_rows_def log_ok_def)
  have next_click: "audit_clicks ?fetch (Suc n) ((b, admin_audit_init), s)
      = click audit_start audit_resume ?fetch AuditOlder ((b, p), t)" using run by (simp add: audit_clicks_def)
  show ?case
  proof (cases "older_shown p")
    case False
    with read_more_none [OF rd] next_click d show ?thesis by (simp add: click_def)
  next
    case True
    with rd obtain k where k: "aud_cursor p = Some (JNum (int k))" and row: "k = au_id (last (take (50 * Suc n) (log_rows s)))"
      and ne: "log_rows s \<noteq> []"
      by (auto simp: older_shown_def audit_read_def split: option.splits)
    have "last (take (50 * Suc n) (log_rows s)) \<in> set (log_rows s)"
      using ne by (metis in_set_takeD last_in_set take_eq_Nil mult_is_0 nat.distinct(1) zero_neq_numeral)
    then have b: "0 < k \<and> k < 2 ^ 53" using ok row by (fastforce simp: log_ok_def wf_table_def log_rows_def)
    obtain s' where f: "?fetch (page_request (Some k) b) t
        = (Inr (response_of sent (Reply 200 (EventsBody (map rowToDomain (page_of (Some k) (log_rows t)))))), s')"
      and d': "db s' = db t"
      using serve_page_ok [OF route ok' ses _ willing, of "Some k"] b by blast
    have q: "request_init (ac_method (api_listAuditLog (Some (JNum (int PAGE_SIZE))) (Some (JNum (int k)))))
        (ac_path (api_listAuditLog (Some (JNum (int PAGE_SIZE))) (Some (JNum (int k)))))
        (ac_body (api_listAuditLog (Some (JNum (int PAGE_SIZE))) (Some (JNum (int k))))) b
        = page_request (Some k) b" using send_page [of b AuditMore "Some k"] by (simp add: send_def)
    have idle: "\<not> aud_loading p" "aud_error p = []" using rd by (simp_all add: audit_read_def)
    have "audit_read (log_rows s) (Suc n) (p\<lparr>aud_error := [], aud_events := aud_events p @ map audit_json (page_of (Some k) (log_rows s)),
        aud_cursor := last_id (map audit_json (page_of (Some k) (log_rows s))), aud_loading := False\<rparr>)"
      using read_more_page [OF ok rd k refl] by (simp add: audit_read_def)
    then show ?thesis
      using d d' True idle next_click by (auto simp: click_def audit_older_start_def k q f rows
        audit_resume_def settled_def settle_ok audit_older_done_def events_body simp del: json_of_body.simps)
  qed
qed

text \<open>C19. Paging to the end: for a signed-in operator, with a database that answers and nobody
  else writing, the screen shows after \<open>n\<close> clicks on the older events exactly the newest
  \<open>50 * (n + 1)\<close> events of the log, in order, with no error; so enough clicks show all of it,
  and one more changes nothing.\<close>

theorem audit_screen_reads_all:
  assumes "web_route router parse ''GET'' audit_path ApiAuditLog" and "log_ok s"
    and "session_of b tok act" and "token_ok (sd_adminToken deps) tok" and "ActorHandleSchema act"
    and "\<And>w. fst (db_refuses env w) = None"
  shows "\<exists>p s'. audit_clicks (server_fetch env deps router fallback zod issues parse sent) n ((b, admin_audit_init), s)
      = ((b, p), s') \<and> aud_events p = map audit_json (take (50 * Suc n) (log_rows s)) \<and> aud_error p = [] \<and> \<not> aud_loading p"
  using audit_clicks_read [OF assms] by (fastforce simp: audit_read_def)

section \<open>A sample\<close>

text \<open>A framework that matches paths as they stand and reads queries form-encoded.\<close>

definition web_parse :: "string \<Rightarrow> query" where
  "web_parse u = map (\<lambda>(k, v). (k, QStr v)) (query_read u)"

lemma plain_web_route:
  assumes "CHR ''?'' \<notin> set path" and "plain_router m path = Some (rt, [])"
  shows "web_route plain_router web_parse m path rt"
proof -
  have "plain_router m (path @ url_suffix q) = plain_router m path" for q
  proof -
    have "takeWhile (\<lambda>c. c \<noteq> CHR ''?'') path = path" using assms(1) by (auto simp: takeWhile_eq_all_conv)
    then show ?thesis unfolding plain_router_def by (simp only: query_path [OF assms(1)])
  qed
  with assms query_read_suffix [OF assms(1)] show ?thesis by (simp add: web_route_def web_parse_def)
qed

definition sample_browser :: browser where
  "sample_browser = \<lparr>bw_storage = setSession ''0123456789abcdef0123456789abcdef'' ''alice''
       \<lparr>ss_item = NoItem, ss_allowed = True, ss_room = True\<rparr>,
     bw_hash = ''#/audit'', bw_app = \<lparr>aa_authed = True, aa_path = ''/audit''\<rparr>\<rparr>"

definition sample_log :: "unit sys" where
  "sample_log = still_sys\<lparr>db := (db still_sys)\<lparr>auditEvents := sample_audit_table\<rparr>\<rparr>"

lemma sample_session:
  "session_of sample_browser ''0123456789abcdef0123456789abcdef'' ''alice''"
  "token_ok (sd_adminToken sample_server) ''0123456789abcdef0123456789abcdef''" "ActorHandleSchema ''alice''"
  by (simp_all add: session_of_def sample_browser_def js_trim_def js_trim_start_def is_js_space_def token_ok_def
    sample_server_def ActorHandleSchema_def is_handle_char_def is_lower_char_def)

lemma sample_log_ok: "log_ok sample_log" "length (log_rows sample_log) = 3"
  using sample_audit_table_wf
  by (simp_all add: sample_log_def log_ok_def log_rows_def)
    (simp add: sample_audit_table_def insert_rows_def insert_row_def empty_table_def)

lemma sample_audit_route: "web_route plain_router web_parse ''GET'' audit_path ApiAuditLog"
  by (rule plain_web_route) (simp_all add: audit_path_def plain_router_def route_table_def)

lemma still_willing: "fst (db_refuses still_env w) = None"
  by (simp add: still_env_def)

theorem audit_screen_reads_all_witness:
  "\<exists>p s'. audit_clicks (server_fetch still_env sample_server plain_router (\<lambda>_. Reply 404 OkBody) \<lparr>ze_issues = [], ze_message = []\<rparr>
        (\<lambda>_. []) web_parse (\<lambda>_. (500, JNull))) 1 ((sample_browser, admin_audit_init), sample_log)
      = ((sample_browser, p), s') \<and> aud_events p = map audit_json (take (50 * Suc 1) (log_rows sample_log))
      \<and> aud_error p = [] \<and> \<not> aud_loading p"
  by (rule audit_screen_reads_all [OF sample_audit_route sample_log_ok(1) sample_session still_willing])


end
