(* ===== verification/WebSignIn.thy ===== *)
theory WebSignIn
  imports WebConsole
begin

text \<open>
  Signing in and what follows: the sign-in form run against the server, the requests of a
  signed-in operator at the server's gate, and the sender screen. The lemmas show that an
  operator is signed in exactly with the configured token, that a handle the gate does
  not accept is no obstacle to signing in but to everything after it, and what the sender
  screen says for a configured and for an unconfigured wallet.
\<close>

section \<open>The sign-in against the server\<close>

text \<open>A click on the sign-in, with nothing else going on until it is answered.\<close>

definition login_submit :: "'w fetch \<Rightarrow> (browser \<times> admin_login) \<times> 'w \<Rightarrow> (browser \<times> admin_login) \<times> 'w" where
  "login_submit fetch = click login_start login_resume fetch LoginSubmit"

definition storage_works :: "session_storage \<Rightarrow> bool" where
  "storage_works s \<longleftrightarrow> ss_allowed s \<and> ss_room s"

lemma emit_storage [simp]: "bw_storage (emit e b) = bw_storage b"
  by (cases e) (simp_all add: emit_def route_navigate_def)

lemma emit_authed [simp]: "aa_authed (bw_app (emit e b)) = (e = Authenticated)"
  by (cases e) (simp_all add: emit_def route_navigate_def)

lemma settle_other:
  assumes "fp_status res \<noteq> 401"
  shows "\<exists>r. request_settle (Inr res) b = (r, b) \<and> (\<forall>err. r = Inl err \<longrightarrow> ae_code err \<noteq> ''unauthorized'')"
  using assms by (simp add: request_settle_def)

lemma settle_401:
  assumes "fp_status res = 401"
  shows "\<exists>err. request_settle (Inr res) b = (Inl err, onUnauthorized b) \<and> ae_code err = ''unauthorized''"
  using assms by (simp add: request_settle_def)

lemma handleHealth_status: "handleHealth env zod deps req s = (Inr rep, s') \<Longrightarrow> \<exists>st b. rep = Reply st b \<and> (st = 200 \<or> st = 503)"
  by (auto simp: handleHealth_def io_bind_Inr)

lemma response_status:
  "fp_status (response_of sent rep) = (case rep of Reply st _ \<Rightarrow> st | SendError e \<Rightarrow> fst (sent e))"
  by (cases rep) (simp_all add: response_of_def case_prod_unfold)

lemma error_not_401: "sent_failure sent \<Longrightarrow> fp_status (response_of sent (errorHandler err)) \<noteq> 401"
  by (cases err) (simp_all add: errorHandler_def response_status sent_failure_def)

text \<open>The health check behind the gate is answered, and not with 401.\<close>

lemma health_passed:
  assumes "router ''GET'' ''/api/health'' = Some (ApiHealth, ps)" and "hq_method req = ''GET''" "hq_url req = ''/api/health''"
    and "gate (sd_adminToken deps) issues req = GatePass actor" and "sent_failure sent"
  shows "\<exists>rep s'. serve env deps router fallback zod issues req s = (Inr rep, s') \<and> fp_status (response_of sent rep) \<noteq> 401"
proof -
  obtain r t where h: "handle env deps zod ApiHealth ps actor req s = (r, t)" by fastforce
  show ?thesis
  proof (cases r)
    case (Inl err)
    with h assms error_not_401 [OF assms(5)] show ?thesis by (simp add: serve_def io_catch_def)
  next
    case (Inr rep)
    with h obtain st b where "rep = Reply st b" "st = 200 \<or> st = 503"
      using handleHealth_status by (fastforce simp: handle_def)
    with h Inr assms show ?thesis by (auto simp: serve_def io_catch_def response_status)
  qed
qed

lemma login_result:
  assumes route: "router ''GET'' ''/api/health'' = Some (ApiHealth, ps)" and sent: "sent_failure sent"
    and st: "storage_works (bw_storage b)" and idle: "\<not> lg_loading p"
    and tok: "tok = js_trim (lg_token p)" "tok \<noteq> []" and act: "act = js_trim (lg_actor p)" "act \<noteq> []"
    and run: "login_submit (server_fetch env deps router fallback zod issues parse sent) ((b, p), s) = ((b', p'), s')"
  shows "if token_ok (sd_adminToken deps) tok then aa_authed (bw_app b') \<and> session_of b' tok act \<and> lg_error p' = []
    else \<not> aa_authed (bw_app b') \<and> getToken (bw_storage b') = None \<and> lg_error p' = ''Invalid token.'' \<and> s' = s"
proof -
  let ?fetch = "server_fetch env deps router fallback zod issues parse sent"
  let ?b = "b\<lparr>bw_storage := setSession tok act (bw_storage b)\<rparr>" and ?p = "p\<lparr>lg_loading := True, lg_error := []\<rparr>"
  let ?q = "request_init ''GET'' ''/api/health'' None ?b"
  have ses: "session_of ?b tok act"
    using st tok act by (simp add: session_of_def storage_works_def)
  have run': "((b', p'), s') = (case ?fetch ?q s of (r, w) \<Rightarrow> (fst (login_resume LoginHealth r (?b, ?p)), w))"
    using run idle tok act by (simp add: login_submit_def click_def login_submit_start_def api_getHealth_def api_get_def split: prod.splits)
  have api: "starts_with ''/api/'' ''/api/health''" by (simp add: starts_with_def)
  note g = gate_session [OF ses api, of "sd_adminToken deps" issues parse "''GET''" None]
  have req: "hq_method (http_of parse ?q) = ''GET''" "hq_url (http_of parse ?q) = ''/api/health''"
    by (simp_all add: http_of_def request_init_def)
  show ?thesis
  proof (cases "token_ok (sd_adminToken deps) tok")
    case True
    have "\<exists>rep t. serve env deps router fallback zod issues (http_of parse ?q) s = (Inr rep, t) \<and> fp_status (response_of sent rep) \<noteq> 401"
    proof (cases "ActorHandleSchema act")
      case True
      with g \<open>token_ok _ _\<close> have "gate (sd_adminToken deps) issues (http_of parse ?q) = GatePass act" by blast
      then show ?thesis by (rule health_passed [where router = router, OF route req _ sent])
    next
      case False
      with g \<open>token_ok _ _\<close> obtain m where "gate (sd_adminToken deps) issues (http_of parse ?q) = GateStop (Reply 400 (ErrorBody ''malformed_actor'' m))"
        by blast
      then show ?thesis by (simp add: serve_def response_status)
    qed
    then obtain rep t where f: "?fetch ?q s = (Inr (response_of sent rep), t)" and n: "fp_status (response_of sent rep) \<noteq> 401"
      using server_fetch_serve by blast
    from settle_other [OF n, of ?b] obtain r where r: "request_settle (Inr (response_of sent rep)) ?b = (r, ?b)"
      "\<forall>err. r = Inl err \<longrightarrow> ae_code err \<noteq> ''unauthorized''" by blast
    have "b' = emit Authenticated ?b \<and> lg_error p' = []"
      using run' f r by (cases r) (simp_all add: login_resume_def settled_def login_health_done_def)
    with True ses show ?thesis by (simp add: session_of_def)
  next
    case False
    with g obtain c m where "gate (sd_adminToken deps) issues (http_of parse ?q) = GateStop (Reply 401 (ErrorBody c m))" by blast
    then have "serve env deps router fallback zod issues (http_of parse ?q) s = (Inr (Reply 401 (ErrorBody c m)), s)"
      by (simp add: serve_def)
    then have f: "?fetch ?q s = (Inr (response_of sent (Reply 401 (ErrorBody c m))), s)" by (rule server_fetch_serve)
    have "fp_status (response_of sent (Reply 401 (ErrorBody c m))) = 401" by (simp add: response_status)
    from settle_401 [OF this, of ?b] obtain err where
      "request_settle (Inr (response_of sent (Reply 401 (ErrorBody c m)))) ?b = (Inl err, onUnauthorized ?b)"
      "ae_code err = ''unauthorized''" by blast
    with run' f have "b' = onUnauthorized ?b \<and> lg_error p' = ''Invalid token.'' \<and> s' = s"
      by (simp add: login_resume_def settled_def login_health_done_def)
    with False show ?thesis by (simp add: onUnauthorized_def)
  qed
qed

text \<open>C3. What a click on sign-in leads to, where the server answers: with the configured token
  the operator is signed in with the trimmed token and handle stored, and, if the handle is
  one the gate accepts, every later request of the application passes the gate under that
  handle; with any other token nobody is signed in, nothing is left in the storage, the
  form says so, and the server has done nothing.\<close>

theorem login_admits:
  assumes "router ''GET'' ''/api/health'' = Some (ApiHealth, ps)" and "sent_failure sent"
    and "storage_works (bw_storage b)" and "\<not> lg_loading p"
    and "tok = js_trim (lg_token p)" and "tok \<noteq> []" and "act = js_trim (lg_actor p)" and "act \<noteq> []"
    and "login_submit (server_fetch env deps router fallback zod issues parse sent) ((b, p), s) = ((b', p'), s')"
  shows "if token_ok (sd_adminToken deps) tok
    then aa_authed (bw_app b') \<and> getToken (bw_storage b') = Some tok \<and> getActor (bw_storage b') = Some act
      \<and> (ActorHandleSchema act \<longrightarrow> (\<forall>m path body. starts_with ''/api/'' path \<longrightarrow>
           gate (sd_adminToken deps) issues (http_of parse (request_init m path body b')) = GatePass act))
    else \<not> aa_authed (bw_app b') \<and> getToken (bw_storage b') = None \<and> lg_error p' = ''Invalid token.'' \<and> s' = s"
proof -
  note res = login_result [OF assms]
  show ?thesis
  proof (cases "token_ok (sd_adminToken deps) tok")
    case True
    with res have ses: "session_of b' tok act" and au: "aa_authed (bw_app b')" by simp_all
    with True gate_session [OF ses] show ?thesis by (simp add: session_of_def)
  next
    case False
    with res show ?thesis by simp
  qed
qed

text \<open>A handle the gate does not accept, such as one with an upper-case letter, does not
  stop the sign-in: the operator is signed in, with no error shown, and from then on every
  request of the application is answered 400 and does nothing at the server.\<close>

theorem login_with_refused_handle:
  assumes "router ''GET'' ''/api/health'' = Some (ApiHealth, ps)" and "sent_failure sent"
    and "storage_works (bw_storage b)" and "\<not> lg_loading p"
    and "tok = js_trim (lg_token p)" and "tok \<noteq> []" and "act = js_trim (lg_actor p)" and "act \<noteq> []"
    and "login_submit (server_fetch env deps router fallback zod issues parse sent) ((b, p), s) = ((b', p'), s')"
    and "token_ok (sd_adminToken deps) tok" and "\<not> ActorHandleSchema act"
  shows "aa_authed (bw_app b') \<and> lg_error p' = [] \<and>
    (\<forall>m path body t. starts_with ''/api/'' path \<longrightarrow>
      (\<exists>msg. server_fetch env deps router fallback zod issues parse sent (request_init m path body b') t
        = (Inr (response_of sent (Reply 400 (ErrorBody ''malformed_actor'' msg))), t)))"
proof -
  from login_result [OF assms(1-9)] assms(10) have ses: "session_of b' tok act" and au: "aa_authed (bw_app b')"
    and e: "lg_error p' = []" by simp_all
  have "\<exists>msg. server_fetch env deps router fallback zod issues parse sent (request_init m path body b') t
      = (Inr (response_of sent (Reply 400 (ErrorBody ''malformed_actor'' msg))), t)" if api: "starts_with ''/api/'' path" for m path body t
  proof -
    from gate_session [OF ses api] assms(10,11) obtain msg where
      "gate (sd_adminToken deps) issues (http_of parse (request_init m path body b')) = GateStop (Reply 400 (ErrorBody ''malformed_actor'' msg))"
      by blast
    then have "serve env deps router fallback zod issues (http_of parse (request_init m path body b')) t
      = (Inr (Reply 400 (ErrorBody ''malformed_actor'' msg)), t)" by (simp add: serve_def)
    then show ?thesis using server_fetch_serve by blast
  qed
  with au e show ?thesis by blast
qed

section \<open>The sender screen\<close>

text \<open>A call of a signed-in operator that reaches a handler.\<close>

lemma call_handled:
  assumes ses: "session_of b tok act" "token_ok (sd_adminToken deps) tok" "ActorHandleSchema act"
    and route: "router m path = Some (rt, [])" and api: "starts_with ''/api/'' path"
    and h: "handle env deps zod rt [] act (http_of parse (request_init m path None b)) s = (r, s')"
  shows "run_call (server_fetch env deps router fallback zod issues parse sent) \<lparr>ac_method = m, ac_path = path, ac_body = None\<rparr> (b, s)
    = (case request_settle (Inr (response_of sent (case r of Inl err \<Rightarrow> errorHandler err | Inr rep \<Rightarrow> rep))) b of
         (res, b') \<Rightarrow> (res, (b', s')))"
proof -
  let ?q = "request_init m path None b"
  have g: "gate (sd_adminToken deps) issues (http_of parse ?q) = GatePass act"
    using gate_session [OF ses(1) api] ses(2,3) by blast
  have rq: "hq_method (http_of parse ?q) = m" "hq_url (http_of parse ?q) = path"
    by (simp_all add: http_of_def request_init_def)
  have "serve env deps router fallback zod issues (http_of parse ?q) s
    = (Inr (case r of Inl err \<Rightarrow> errorHandler err | Inr rep \<Rightarrow> rep), s')"
    using g route rq h by (cases r) (simp_all add: serve_def io_catch_def)
  from server_fetch_serve [OF this] show ?thesis by (simp add: run_call_def api_request_def)
qed

text \<open>The framework's answer to an error that has no status of its own.\<close>

definition sent_500 :: "(js_error \<Rightarrow> nat \<times> json) \<Rightarrow> bool" where
  "sent_500 sent \<longleftrightarrow> (\<forall>e. fst (sent e) = 500)"

lemma settle_error:
  assumes "sent_500 sent"
  shows "\<exists>err. request_settle (Inr (response_of sent (errorHandler e))) b = (Inl err, b) \<and> ae_status err \<noteq> 503"
proof -
  have "fp_status (response_of sent (errorHandler e)) \<in> {400, 500}"
    using assms by (cases e) (simp_all add: errorHandler_def response_status sent_500_def)
  then show ?thesis by (auto simp: request_settle_def)
qed

lemma settle_unconfigured:
  "\<exists>err. request_settle (Inr (response_of sent (Reply 503 (ErrorBody ''wallet_not_configured'' m)))) b = (Inl err, b)
    \<and> ae_status err = 503 \<and> error_code err = Some (JStr ''wallet_not_configured'')"
  by (simp add: request_settle_def response_of_def json_type error_code_def js_has_def del: js_includes.simps)

lemma wallet_handled:
  assumes "getWallet env deps s = (w, s')" and "rq_query req = []"
  shows "handleGetSenderWallet env zod deps req s =
    ((case w of Inr v \<Rightarrow> Inr (Reply 200 (WalletBody v))
      | Inl err \<Rightarrow> if err = SenderWalletNotConfiguredError
          then Inr (Reply 503 (ErrorBody ''wallet_not_configured'' (Some (errorMessage err)))) else Inl err), s')"
  using assms by (cases w) (simp_all add: handleGetSenderWallet_def EmptyQuerySchema_def strict_keys_def zod_parse_def io_simps)

lemma escrow_handled:
  assumes "getEscrow env deps s = (e, s')" and "rq_query req = []"
  shows "handleGetSenderEscrow env zod deps req s = (map_sum id (\<lambda>v. Reply 200 (EscrowBody v)) e, s')"
  using assms by (cases e) (simp_all add: handleGetSenderEscrow_def EmptyQuerySchema_def strict_keys_def zod_parse_def io_simps)

text \<open>The sender screen of a signed-in operator, on every branch of the server: it shows the
  wallet and the escrow as the services read them, one failing without the other; the hint
  to configure the wallet is shown exactly where the service refuses for want of an
  address; and the operator stays signed in.\<close>

theorem sender_screen:
  assumes ses: "session_of b tok act" "token_ok (sd_adminToken deps) tok" "ActorHandleSchema act"
    and routes: "router ''GET'' ''/api/sender/wallet'' = Some (ApiSenderWallet, [])"
      "router ''GET'' ''/api/sender/escrow'' = Some (ApiSenderEscrow, [])"
    and parse: "parse ''/api/sender/wallet'' = []" "parse ''/api/sender/escrow'' = []" and sent: "sent_500 sent"
    and wallet: "getWallet env (sd_sender deps) s = (w, s1)" and escrow: "getEscrow env (sd_sender deps) s1 = (e, s2)"
  shows "\<exists>p'. sender_reload (server_fetch env deps router fallback zod issues parse sent) p (b, s) = (Inr p', (b, s2))
    \<and> \<not> as_loading p'
    \<and> (as_walletNotConfigured p' \<longleftrightarrow> w = Inl SenderWalletNotConfiguredError)
    \<and> as_wallet p' = (case w of Inr v \<Rightarrow> json_of_body (WalletBody v) | Inl _ \<Rightarrow> JNull)
    \<and> as_escrow p' = (case e of Inr v \<Rightarrow> json_of_body (EscrowBody v) | Inl _ \<Rightarrow> JNull)"
proof -
  let ?fetch = "server_fetch env deps router fallback zod issues parse sent"
  let ?req = "\<lambda>path. http_of parse (request_init ''GET'' path None b)"
  have api: "starts_with ''/api/'' ''/api/sender/wallet''" "starts_with ''/api/'' ''/api/sender/escrow''"
    by (simp_all add: starts_with_def)
  have hw: "handle env deps zod ApiSenderWallet [] act (?req ''/api/sender/wallet'') s =
    ((case w of Inr v \<Rightarrow> Inr (Reply 200 (WalletBody v))
      | Inl err \<Rightarrow> if err = SenderWalletNotConfiguredError
          then Inr (Reply 503 (ErrorBody ''wallet_not_configured'' (Some (errorMessage err)))) else Inl err), s1)"
    using wallet_handled [OF wallet] parse(1) by (simp add: handle_def http_of_def request_init_def)
  have he: "handle env deps zod ApiSenderEscrow [] act (?req ''/api/sender/escrow'') s1 =
    (map_sum id (\<lambda>v. Reply 200 (EscrowBody v)) e, s2)"
    using escrow_handled [OF escrow] parse(2) by (simp add: handle_def http_of_def request_init_def)
  note cw = call_handled [where router = router and parse = parse, OF ses routes(1) api(1) hw,
      folded api_get_def, folded api_getSenderWallet_def]
  note ce = call_handled [where router = router and parse = parse, OF ses routes(2) api(2) he,
      folded api_get_def, folded api_getSenderEscrow_def]
  obtain rw where rw: "run_call ?fetch api_getSenderWallet (b, s) = (rw, (b, s1))"
    and w: "case w of Inr v \<Rightarrow> rw = Inr (json_of_body (WalletBody v))
      | Inl x \<Rightarrow> \<exists>err. rw = Inl err \<and> (x = SenderWalletNotConfiguredError \<longleftrightarrow>
          ae_status err = 503 \<and> error_code err = Some (JStr ''wallet_not_configured''))"
  proof (cases w)
    case (Inr v)
    with cw settle_ok that show ?thesis by simp
  next
    case (Inl x)
    show ?thesis
    proof (cases "x = SenderWalletNotConfiguredError")
      case True
      with Inl settle_unconfigured [of sent "Some (errorMessage x)" b] cw that
      show ?thesis by auto
    next
      case False
      with Inl settle_error [OF sent, of x b] cw that
      show ?thesis by auto
    qed
  qed
  obtain re where re: "run_call ?fetch api_getSenderEscrow (b, s1) = (re, (b, s2))"
    and e: "case e of Inr v \<Rightarrow> re = Inr (json_of_body (EscrowBody v)) | Inl _ \<Rightarrow> \<exists>err. re = Inl err"
  proof (cases e)
    case (Inr v)
    with ce settle_ok that show ?thesis by simp
  next
    case (Inl x)
    with settle_error [OF sent, of x b] ce that show ?thesis by auto
  qed
  have "sender_reload ?fetch p (b, s) =
    (Inr ((sender_escrow_done re (sender_wallet_done rw (sender_reload_start p)))\<lparr>as_loading := False\<rparr>), (b, s2))"
    by (simp add: sender_reload_def io_attempt_apply rw re io_simps)
  then show ?thesis
    using w e by (auto simp: sender_wallet_done_def sender_escrow_done_def sender_reload_start_def split: sum.splits)
qed

section \<open>A sample\<close>

definition signing_in :: "string \<Rightarrow> string \<Rightarrow> browser \<times> admin_login" where
  "signing_in tok act = (sample_browser\<lparr>bw_storage := \<lparr>ss_item = NoItem, ss_allowed = True, ss_room = True\<rparr>,
       bw_app := \<lparr>aa_authed = False, aa_path = ''/''\<rparr>\<rparr>, admin_login_init\<lparr>lg_token := tok, lg_actor := act\<rparr>)"

lemma sample_token: "js_trim '' 0123456789abcdef0123456789abcdef '' = ''0123456789abcdef0123456789abcdef''"
  by (simp add: js_trim_def js_trim_start_def is_js_space_def)

lemma sample_health_route: "plain_router ''GET'' ''/api/health'' = Some (ApiHealth, [])"
  by (simp add: plain_router_def route_table_def)

lemma sample_sent: "sent_failure (\<lambda>_. (500, JNull))" "sent_500 (\<lambda>_. (500, JNull))"
  by (simp_all add: sent_failure_def sent_500_def)

lemma signing_in_idle: "storage_works (bw_storage (fst (signing_in t a)))" "\<not> lg_loading (snd (signing_in t a))"
    "lg_token (snd (signing_in t a)) = t" "lg_actor (snd (signing_in t a)) = a"
  by (simp_all add: signing_in_def storage_works_def admin_login_init_def)

abbreviation sample_fetch :: "unit sys fetch" where
  "sample_fetch \<equiv> server_fetch still_env sample_server plain_router (\<lambda>_. Reply 404 OkBody) \<lparr>ze_issues = [], ze_message = []\<rparr>
     (\<lambda>_. []) web_parse (\<lambda>_. (500, JNull))"

theorem login_admits_witness:
  "\<exists>b' p' s'. login_submit sample_fetch (signing_in '' 0123456789abcdef0123456789abcdef '' ''alice'', still_sys) = ((b', p'), s')
    \<and> aa_authed (bw_app b') \<and> getToken (bw_storage b') = Some ''0123456789abcdef0123456789abcdef'' \<and> getActor (bw_storage b') = Some ''alice''
    \<and> gate (sd_adminToken sample_server) (\<lambda>_. []) (http_of web_parse (request_init ''GET'' ''/api/orchs'' None b')) = GatePass ''alice''"
proof -
  let ?s = "signing_in '' 0123456789abcdef0123456789abcdef '' ''alice''"
  obtain b' p' s' where run: "login_submit sample_fetch (?s, still_sys) = ((b', p'), s')"
    by (metis prod.exhaust)
  have a: "''alice'' = js_trim (lg_actor (snd ?s))" "''alice'' \<noteq> []"
    by (simp_all add: signing_in_idle js_trim_def js_trim_start_def is_js_space_def)
  have t: "''0123456789abcdef0123456789abcdef'' = js_trim (lg_token (snd ?s))" "''0123456789abcdef0123456789abcdef'' \<noteq> []"
    by (simp_all only: signing_in_idle sample_token) simp
  from login_admits [where p = "snd ?s" and b = "fst ?s", unfolded prod.collapse,
      OF sample_health_route sample_sent(1) signing_in_idle(1,2) t a run] sample_session(2,3)
  have "aa_authed (bw_app b') \<and> getToken (bw_storage b') = Some ''0123456789abcdef0123456789abcdef'' \<and> getActor (bw_storage b') = Some ''alice''
      \<and> (\<forall>m path body. starts_with ''/api/'' path \<longrightarrow>
           gate (sd_adminToken sample_server) (\<lambda>_. []) (http_of web_parse (request_init m path body b')) = GatePass ''alice'')"
    by simp
  moreover have "starts_with ''/api/'' ''/api/orchs''" by (simp add: starts_with_def)
  ultimately show ?thesis using run by blast
qed

theorem login_with_refused_handle_witness:
  "\<exists>b' p' s'. login_submit sample_fetch (signing_in '' 0123456789abcdef0123456789abcdef '' ''Alice'', still_sys) = ((b', p'), s')
    \<and> aa_authed (bw_app b') \<and> lg_error p' = []
    \<and> (\<exists>msg. sample_fetch (request_init ''GET'' ''/api/orchs'' None b') s'
        = (Inr (response_of (\<lambda>_. (500, JNull)) (Reply 400 (ErrorBody ''malformed_actor'' msg))), s'))"
proof -
  let ?s = "signing_in '' 0123456789abcdef0123456789abcdef '' ''Alice''"
  obtain b' p' s' where run: "login_submit sample_fetch (?s, still_sys) = ((b', p'), s')"
    by (metis prod.exhaust)
  have a: "''Alice'' = js_trim (lg_actor (snd ?s))" "''Alice'' \<noteq> []"
    by (simp_all add: signing_in_idle js_trim_def js_trim_start_def is_js_space_def)
  have t: "''0123456789abcdef0123456789abcdef'' = js_trim (lg_token (snd ?s))" "''0123456789abcdef0123456789abcdef'' \<noteq> []"
    by (simp_all only: signing_in_idle sample_token) simp
  have bad: "\<not> ActorHandleSchema ''Alice''"
    by (simp add: ActorHandleSchema_def is_handle_char_def is_lower_char_def is_digit_char_def)
  have "starts_with ''/api/'' ''/api/orchs''" by (simp add: starts_with_def)
  with login_with_refused_handle [where p = "snd ?s" and b = "fst ?s", unfolded prod.collapse,
      OF sample_health_route sample_sent(1) signing_in_idle(1,2) t a run sample_session(2) bad] run
  show ?thesis by blast
qed

theorem sender_screen_witness:
  "\<exists>p' s'. sender_reload sample_fetch admin_sender_init (sample_browser, still_sys) = (Inr p', (sample_browser, s'))
    \<and> as_walletNotConfigured p' \<and> as_wallet p' = JNull"
proof -
  have w: "getWallet still_env (sd_sender sample_server) still_sys = (Inl SenderWalletNotConfiguredError, still_sys)"
    by (simp add: getWallet_def sample_server_def)
  obtain e s2 where e: "getEscrow still_env (sd_sender sample_server) still_sys = (e, s2)" by fastforce
  have r: "plain_router ''GET'' ''/api/sender/wallet'' = Some (ApiSenderWallet, [])"
    "plain_router ''GET'' ''/api/sender/escrow'' = Some (ApiSenderEscrow, [])"
    "web_parse ''/api/sender/wallet'' = []" "web_parse ''/api/sender/escrow'' = []"
    by (simp_all add: plain_router_def route_table_def web_parse_def query_read_def)
  show ?thesis
    using sender_screen [where router = plain_router and parse = web_parse and fallback = "\<lambda>_. Reply 404 OkBody"
          and zod = "\<lparr>ze_issues = [], ze_message = []\<rparr>" and issues = "\<lambda>_. []" and p = admin_sender_init,
        OF sample_session r sample_sent(2) w e]
    by fastforce
qed

end
