(* ===== verification/WebDrawn.thy ===== *)
theory WebDrawn
  imports WebView WebSignIn
begin

text \<open>
  Drawings and operations of a screen together: the contract \<open>drawn_screen\<close> asks that the
  drawing of a good state does not throw, that what the drawing does not offer changes
  nothing, and that the operations keep a state good while the answers fit. It gives that a
  screen always draws, and that its machine is the one in which the operator can only do
  what the drawing offers. It is interpreted on the dashboard, the page of one
  orchestrator and the audit log, whose data the server sends; the sign-in and the
  capability search draw whatever comes.
\<close>

section \<open>What each drawing offers\<close>

lemma res_map_Inr: "res_map f xs = Inr ys \<Longrightarrow> list_all2 (\<lambda>x y. f x = Inr y) xs ys"
  by (induction xs arbitrary: ys) (auto simp: res_bind_eq_Inr)

lemma res_map_ok: "(\<And>x. x \<in> set xs \<Longrightarrow> \<exists>y. f x = Inr y) \<Longrightarrow> \<exists>ys. res_map f xs = Inr ys"
  by (induction xs) force+

lemma offers_nothing [simp]:
  "\<not> offers e (error_box q)" "\<not> offers e (muted t ps)" "\<not> offers e (pill v)" "\<not> list_ex (offers e) (error_shown err)"
  "\<not> offers e (capabilities_result r)" "\<not> offers e (none_reported s)" "\<not> offers e (wallet_card p)"
  "\<not> offers e (el t [Txt ps])" "\<not> offers e (nav_link h a l)" "\<not> offers e (screen_element sc)" "\<not> offers e (unknown_orch_card obs)"
  by (simp_all add: error_box_def muted_def pill_def error_shown_def capabilities_result_def none_reported_def
      wallet_card_def nav_link_def unknown_orch_card_def Let_def split: option.split)
    (cases sc; simp)

lemma offers_table [simp]:
  "offers e (data_table hs rows) = list_ex (offers e) rows" "offers e (observations_table rows) = list_ex (offers e) rows"
  by (simp_all add: data_table_def observations_table_def list_ex_iff)

lemma offers_if [simp]:
  "list_ex (offers e) (if b then ks else ks') = (if b then list_ex (offers e) ks else list_ex (offers e) ks')"
  "offers e (if b then k else k') = (if b then offers e k else offers e k')"
  by simp_all

lemma offers_drawn_observation: "drawn_observation date v = Inr k \<Longrightarrow> \<not> offers e k"
  by (auto simp: drawn_observation_def res_bind_eq_Inr split: if_splits)

lemma offers_drawn_event: "drawn_event date v = Inr k \<Longrightarrow> \<not> offers e k"
  by (auto simp: drawn_event_def res_bind_eq_Inr split: if_splits)

lemma offers_rows:
  assumes "res_map f xs = Inr rows" and "\<And>x k. f x = Inr k \<Longrightarrow> offers e k \<longleftrightarrow> P x"
  shows "list_ex (offers e) rows \<longleftrightarrow> list_ex P xs"
  using res_map_Inr [OF assms(1)] assms(2) by (induction rule: list_all2_induct) simp_all

lemma no_offers_rows:
  assumes "res_map f xs = Inr rows" and "\<And>x k. f x = Inr k \<Longrightarrow> \<not> offers e k"
  shows "\<not> list_ex (offers e) rows"
proof -
  have "list_ex (offers e) rows \<longleftrightarrow> list_ex (\<lambda>_. False) xs"
    by (rule offers_rows [OF assms(1)]) (simp add: assms(2))
  then show ?thesis by (simp add: list_ex_iff)
qed

lemmas offers_observations = no_offers_rows [OF _ offers_drawn_observation]

lemma disabled_simps [simp]:
  "disabled [] = False" "disabled (Attr k ps # as) = disabled as" "disabled (Prop k v # as) = disabled as"
  "disabled (Flag k b # as) = (k = ''disabled'' \<and> b \<or> disabled as)" "disabled (as @ as') = (disabled as \<or> disabled as')"
  by (auto simp: disabled_def)

lemma offers_login: "list_ex (offers e) (login_view p) \<longleftrightarrow> \<not> lg_loading p"
  by (cases e) (auto simp: login_view_def login_input_def error_shown_def error_box_def)

lemma offers_capabilities: "list_ex (offers e) (capabilities_view p) \<longleftrightarrow> (e = CapSubmit \<longrightarrow> \<not> cp_loading p)"
  by (cases e) (auto simp: capabilities_view_def capabilities_field_def error_shown_def error_box_def)

lemma offers_audit:
  assumes "audit_view date p = Inr v"
  shows "list_ex (offers e) v \<longleftrightarrow> \<not> aud_loading p \<and> (e = AuditReload \<or> e = AuditOlder \<and> older_shown p)"
proof -
  obtain rows where rows: "res_map (drawn_event date) (aud_events p) = Inr rows"
    using assms by (auto simp: audit_view_def res_bind_eq_Inr)
  have "\<not> list_ex (offers e) rows" by (rule no_offers_rows [OF rows offers_drawn_event])
  then show ?thesis using assms rows by (cases e) (auto simp: audit_view_def older_shown_def split: if_splits)
qed

lemma offers_card: "orch_card date orch = Inr k \<Longrightarrow> \<not> offers e k" "dashboard_orch orch = Inr k \<Longrightarrow> \<not> offers e k"
  by (auto simp: orch_card_def dashboard_orch_def res_bind_eq_Inr)

lemma offers_detail:
  assumes "detail_view date p = Inr v"
  shows "list_ex (offers e) v \<longleftrightarrow> e = DetailRefresh \<and> refresh_shown p \<and> \<not> od_refreshing p"
proof (cases "refresh_shown p")
  case True
  with assms obtain obs card rows
    where card: "(if js_true (js_get ''orch'' (Some (od_data p))) then orch_card date (js_get ''orch'' (Some (od_data p)))
        else Inr (unknown_orch_card obs)) = Inr card"
      and rows: "res_map (drawn_observation date) obs = Inr rows"
      and v: "v = [El ''header'' [cls ''card-header''] []
                   [el ''h1'' [Txt [Lit ''Orch '', Fmt (shortAddress (Some (JStr (od_address p))))]],
                    El ''button'' [Attr ''type'' [Lit ''button''], Flag ''disabled'' (od_refreshing p)] [OnClick DetailRefresh]
                      [Txt (if od_refreshing p then [Lit ''Refreshing'', Mark Ellipsis] else [Lit ''Refresh''])]],
                 El ''p'' [cls ''muted''] [] [el ''code'' [txt_lit (od_address p)]],
                 card,
                 El ''section'' [cls ''card''] []
                   [el ''h2'' [txt_lit ''Recent routing observations''],
                    if obs = [] then muted ''p'' [Lit ''No observations yet.'']
                    else observations_table rows]]"
    by (auto simp: detail_view_def refresh_shown_def res_bind_eq_Inr Let_def)
  have "\<not> offers e card" using card by (auto split: if_splits dest: offers_card)
  with True offers_observations [OF rows] show ?thesis by (auto simp: v)
next
  case False
  with assms show ?thesis by (auto simp: detail_view_def refresh_shown_def split: if_splits)
qed

lemma offers_drawn_row:
  "drawn_row sel v = Inr k \<Longrightarrow> offers e k \<longleftrightarrow> (\<exists>a. e = RoutingSelect a \<and> row_address v = Some (JStr a))"
  by (auto simp: drawn_row_def row_address_def js_field_def res_bind_eq_Inr js_nullish_def split: option.splits json.splits if_splits)

lemma offers_dashboard_detail:
  assumes "dashboard_detail date a d = Inr k"
  shows "offers e k \<longleftrightarrow> e = RoutingRefreshOne \<and> js_truthy d \<and> \<not> js_true (js_get ''error'' (Some d))"
proof (cases "js_truthy d \<and> \<not> js_true (js_get ''error'' (Some d))")
  case True
  with assms obtain obs body rows
    where body: "(if js_true (js_get ''orch'' (Some d)) then dashboard_orch (js_get ''orch'' (Some d))
        else Inr (muted ''p'' [Lit ''Resolver does not know this orch.''])) = Inr body"
      and rows: "res_map (drawn_observation date) obs = Inr rows"
      and k: "k = El ''section'' [cls ''card''] []
              [El ''header'' [cls ''card-header''] []
                 [el ''h2'' [Txt [Lit ''Orch '', Fmt (shortAddress (Some (JStr a)))]],
                  el ''div''
                    [El ''a'' [Attr ''href'' [Lit (''#/orchs/'' @ a)]] [] [txt_lit ''open page''],
                     El ''button'' [Attr ''type'' [Lit ''button'']] [OnClick RoutingRefreshOne] [txt_lit ''Refresh'']]],
               body,
               el ''h3'' [txt_lit ''Recent routing observations''],
               if obs = []
               then muted ''p'' [Lit ''No observations yet. The poll worker hydrates these in the background.'']
               else observations_table rows]"
    by (auto simp: dashboard_detail_def res_bind_eq_Inr Let_def)
  have "\<not> offers e body" using body by (auto split: if_splits dest: offers_card)
  with True offers_observations [OF rows] show ?thesis by (auto simp: k)
next
  case False
  with assms show ?thesis by (auto simp: dashboard_detail_def split: if_splits)
qed

fun routing_offered :: "admin_routing \<Rightarrow> routing_event \<Rightarrow> bool" where
  "routing_offered p RoutingConnected = False"
| "routing_offered p (RoutingSelect a) = row_shown a p"
| "routing_offered p (RoutingRefreshAll c) = (\<not> rp_refreshing p)"
| "routing_offered p RoutingRefreshOne = (detail_shown p \<and> (\<exists>a. rp_selected p = Some a \<and> a \<noteq> []))"
| "routing_offered p _ = True"

lemma offers_routing:
  assumes "routing_view date p = Inr v"
  shows "list_ex (offers e) v \<longleftrightarrow> routing_offered p e"
proof -
  from assms obtain roster detail
    where roster: "(if rp_loading p then Inr (muted ''p'' [Lit ''Loading orchs'', Mark Ellipsis])
               else if rp_orchs p = [] then Inr (muted ''p'' [Lit ''No orchs match this filter.''])
               else res_bind (res_map (drawn_row (rp_selected p)) (rp_orchs p)) (\<lambda>rows.
                 Inr (data_table [''Address'', ''Service URI'', ''Stake'', ''Active'', ''Sig'', ''Fresh''] rows))) = Inr roster"
      and detail: "(case rp_selected p of
                 Some a \<Rightarrow> if a = [] then Inr [] else res_bind (dashboard_detail date a (rp_detail p)) (\<lambda>d. Inr [d])
               | None \<Rightarrow> Inr []) = Inr detail"
      and v: "v = [el ''h1'' [txt_lit ''Routing dashboard''],
           El ''section'' [cls ''filter-row''] []
             [filter_input ''capability'' (rp_capability p) RoutingCapability,
              filter_input ''offering'' (rp_offering p) RoutingOffering,
              El ''button'' [Attr ''type'' [Lit ''button'']] [OnClick RoutingApply] [txt_lit ''Apply''],
              El ''span'' [cls ''spacer''] [] [],
              El ''button'' [Attr ''type'' [Lit ''button''], Flag ''disabled'' (rp_refreshing p)] [OnConfirm RoutingRefreshAll]
                [Txt (if rp_refreshing p then [Lit ''Refreshing'', Mark Ellipsis] else [Lit ''Refresh all''])]]] @
          error_shown (rp_error p) @ [El ''section'' [cls ''roster''] [] [roster]] @ detail"
    by (auto simp: routing_view_def res_bind_eq_Inr)
  have r: "offers e roster \<longleftrightarrow> (\<exists>a. e = RoutingSelect a \<and> row_shown a p)"
  proof (cases "rp_loading p \<or> rp_orchs p = []")
    case True
    with roster show ?thesis by (auto simp: row_shown_def split: if_splits)
  next
    case False
    with roster obtain rows where rows: "res_map (drawn_row (rp_selected p)) (rp_orchs p) = Inr rows"
      and t: "roster = data_table [''Address'', ''Service URI'', ''Stake'', ''Active'', ''Sig'', ''Fresh''] rows"
      by (auto simp: res_bind_eq_Inr)
    have "list_ex (offers e) rows \<longleftrightarrow> list_ex (\<lambda>x. \<exists>a. e = RoutingSelect a \<and> row_address x = Some (JStr a)) (rp_orchs p)"
      by (rule offers_rows [OF rows]) (rule offers_drawn_row)
    with False show ?thesis by (force simp: t row_shown_def list_ex_iff image_iff)
  qed
  have d: "list_ex (offers e) detail \<longleftrightarrow> e = RoutingRefreshOne \<and> detail_shown p \<and> (\<exists>a. rp_selected p = Some a \<and> a \<noteq> [])"
    using detail offers_dashboard_detail [of date _ "rp_detail p" _ e]
    by (auto simp: detail_shown_def res_bind_eq_Inr split: option.splits if_splits)
  show ?thesis using r d by (cases e) (auto simp: v filter_input_def)
qed

text \<open>Lifecycle aside, an event that is not offered changes nothing and asks for nothing.\<close>

lemma login_idle: "\<not> list_ex (offers e) (login_view p) \<Longrightarrow> login_start e (b, p) = ((b, p), [])"
  by (cases e) (simp_all add: offers_login login_submit_start_def)

lemma capabilities_idle: "\<not> list_ex (offers e) (capabilities_view p) \<Longrightarrow> capabilities_start e (b, p) = ((b, p), [])"
  by (cases e) (simp_all add: offers_capabilities capabilities_submit_start_def)

lemma audit_idle:
  "audit_view date p = Inr v \<Longrightarrow> \<not> list_ex (offers e) v \<Longrightarrow> e \<noteq> AuditConnected \<Longrightarrow> audit_start e (b, p) = ((b, p), [])"
  by (cases e) (auto simp: offers_audit)

lemma detail_idle:
  "detail_view date p = Inr v \<Longrightarrow> \<not> list_ex (offers e) v \<Longrightarrow> e = DetailRefresh \<Longrightarrow> detail_start e (b, p) = ((b, p), [])"
  by (auto simp: offers_detail detail_refresh_start_def)

lemma routing_idle:
  "routing_view date p = Inr v \<Longrightarrow> \<not> list_ex (offers e) v \<Longrightarrow> e \<noteq> RoutingConnected \<Longrightarrow> routing_start e (b, p) = ((b, p), [])"
  by (cases e) (auto simp: offers_routing routing_refresh_all_start_def split: option.splits)

section \<open>The contract\<close>

text \<open>
  The machine in which an event is one the drawing offers, or one of the screen's life:
  being put on the page, or given an address.
\<close>

inductive drawn_step ::
    "('p \<Rightarrow> js_error + 'e node list) \<Rightarrow> ('e \<Rightarrow> bool) \<Rightarrow>
     ('e \<Rightarrow> browser \<times> 'p \<Rightarrow> (browser \<times> 'p, 't) started) \<Rightarrow>
     ('t \<Rightarrow> js_error + fetch_response \<Rightarrow> browser \<times> 'p \<Rightarrow> (browser \<times> 'p, 't) started) \<Rightarrow>
     (fetch_request \<Rightarrow> 'w \<Rightarrow> js_error + fetch_response \<Rightarrow> 'w \<Rightarrow> bool) \<Rightarrow> ('w \<Rightarrow> 'w \<Rightarrow> bool) \<Rightarrow>
     ('p, 't, 'w) tab \<Rightarrow> ('p, 't, 'w) tab \<Rightarrow> bool"
  for view life start resume net drift where
  offered: "life e \<or> (\<exists>v. view (snd (tb_page s)) = Inr v \<and> list_ex (offers e) v) \<Longrightarrow> start e (tb_page s) = (bp, new) \<Longrightarrow>
    drawn_step view life start resume net drift s
      (s\<lparr>tb_page := bp, tb_flights := tb_flights s @ map (send (fst bp)) new\<rparr>)"
| other: "tab_step (\<lambda>_ :: unit. \<lambda>bp. (bp, [])) resume net drift s s' \<Longrightarrow>
    drawn_step view life start resume net drift s s'"

inductive_cases drawn_stepE: "drawn_step view life start resume net drift s s'"

text \<open>An answer that, where it is not a failure, carries a value that fits.\<close>

definition carries :: "('t \<Rightarrow> json \<Rightarrow> bool) \<Rightarrow> 't \<Rightarrow> js_error + fetch_response \<Rightarrow> bool" where
  "carries fits t r \<longleftrightarrow> (\<forall>b v b'. request_settle r b = (Inr v, b') \<longrightarrow> fits t v)"

definition call_request :: "api_call \<Rightarrow> browser \<Rightarrow> fetch_request" where
  "call_request c b = request_init (ac_method c) (ac_path c) (ac_body c) b"

definition honest :: "('t \<Rightarrow> api_call \<Rightarrow> bool) \<Rightarrow> ('t \<Rightarrow> json \<Rightarrow> bool) \<Rightarrow>
    (fetch_request \<Rightarrow> 'w \<Rightarrow> js_error + fetch_response \<Rightarrow> 'w \<Rightarrow> bool) \<Rightarrow> bool" where
  "honest asks fits net \<longleftrightarrow> (\<forall>t c b w r w'. asks t c \<longrightarrow> net (call_request c b) w r w' \<longrightarrow> carries fits t r)"

locale drawn_screen =
  fixes view :: "'p \<Rightarrow> js_error + 'e node list"
    and start :: "'e \<Rightarrow> browser \<times> 'p \<Rightarrow> (browser \<times> 'p, 't) started"
    and resume :: "'t \<Rightarrow> js_error + fetch_response \<Rightarrow> browser \<times> 'p \<Rightarrow> (browser \<times> 'p, 't) started"
    and life :: "'e \<Rightarrow> bool" and good :: "'p \<Rightarrow> bool"
    and asks :: "'t \<Rightarrow> api_call \<Rightarrow> bool" and fits :: "'t \<Rightarrow> json \<Rightarrow> bool"
  assumes draws: "good p \<Longrightarrow> \<exists>v. view p = Inr v"
    and idle: "view p = Inr v \<Longrightarrow> \<not> list_ex (offers e) v \<Longrightarrow> \<not> life e \<Longrightarrow> start e (b, p) = ((b, p), [])"
    and start_good: "start e (b, p) = ((b', p'), new) \<Longrightarrow> good p \<Longrightarrow> good p' \<and> (\<forall>tc\<in>set new. asks (fst tc) (snd tc))"
    and resume_good: "resume t r (b, p) = ((b', p'), new) \<Longrightarrow> good p \<Longrightarrow> carries fits t r \<Longrightarrow>
      good p' \<and> (\<forall>tc\<in>set new. asks (fst tc) (snd tc))"
begin

definition flight_ok :: "'t flight \<Rightarrow> bool" where
  "flight_ok f \<longleftrightarrow> (\<exists>c b. asks (ft_task f) c \<and> ft_request f = call_request c b) \<and>
     (\<forall>r. ft_answer f = Some r \<longrightarrow> carries fits (ft_task f) r)"

definition sound :: "('p, 't, 'w) tab \<Rightarrow> bool" where
  "sound s \<longleftrightarrow> good (snd (tb_page s)) \<and> list_all flight_ok (tb_flights s)"

lemma flight_ok_send: "asks (fst tc) (snd tc) \<Longrightarrow> flight_ok (send b tc)"
  by (auto simp: flight_ok_def send_def call_request_def)

lemma flights_ok_send: "\<forall>tc\<in>set new. asks (fst tc) (snd tc) \<Longrightarrow> list_all flight_ok (map (send b) new)"
  by (auto simp: list_all_iff intro: flight_ok_send)

lemma sound_step:
  assumes "tab_step start resume net drift s s'" and net: "honest asks fits net" and s: "sound s"
  shows "sound s'"
  using assms(1)
proof (rule tab_stepE)
  fix e bp new
  assume st: "start e (tb_page s) = (bp, new)"
    and s': "s' = s\<lparr>tb_page := bp, tb_flights := tb_flights s @ map (send (fst bp)) new\<rparr>"
  obtain b p b' p' where "tb_page s = (b, p)" "bp = (b', p')" by (cases "tb_page s", cases bp)
  with start_good [of e b p b' p' new] st s flights_ok_send show ?thesis by (auto simp: sound_def s')
next
  fix xs f ys r w
  assume fs: "tb_flights s = xs @ f # ys" and n: "net (ft_request f) (tb_world s) r w"
    and s': "s' = s\<lparr>tb_flights := xs @ f\<lparr>ft_answer := Some r\<rparr> # ys, tb_world := w\<rparr>"
  have "flight_ok f" using s fs by (simp add: sound_def)
  then obtain c b where c: "asks (ft_task f) c" "ft_request f = call_request c b" by (auto simp: flight_ok_def)
  with n net have "carries fits (ft_task f) r" unfolding honest_def by metis
  with c have "flight_ok (f\<lparr>ft_answer := Some r\<rparr>)" by (auto simp: flight_ok_def)
  with s fs show ?thesis by (simp add: sound_def s')
next
  fix xs f ys r bp new
  assume fs: "tb_flights s = xs @ f # ys" and r: "ft_answer f = Some r"
    and re: "resume (ft_task f) r (tb_page s) = (bp, new)"
    and s': "s' = s\<lparr>tb_page := bp, tb_flights := xs @ ys @ map (send (fst bp)) new\<rparr>"
  obtain b p b' p' where "tb_page s = (b, p)" "bp = (b', p')" by (cases "tb_page s", cases bp)
  moreover have "carries fits (ft_task f) r" using s fs r by (simp add: sound_def flight_ok_def)
  ultimately show ?thesis
    using resume_good [of "ft_task f" r b p b' p' new] re s fs flights_ok_send by (auto simp: sound_def s')
next
  fix w
  assume "s' = s\<lparr>tb_world := w\<rparr>"
  with s show ?thesis by (simp add: sound_def)
qed

lemma sound_reachable:
  assumes "(tab_step start resume net drift)\<^sup>*\<^sup>* (opened b p w) s" and net: "honest asks fits net" and p: "good p"
  shows "sound s"
  using assms(1)
proof (induction rule: rtranclp_induct)
  case base
  from p show ?case by (simp add: sound_def opened_def)
next
  case (step s s')
  from sound_step [OF step.hyps(2) net step.IH] show ?case .
qed

lemma always_draws:
  assumes "(tab_step start resume net drift)\<^sup>*\<^sup>* (opened b p w) s" and "honest asks fits net" and "good p"
  shows "\<exists>v. view (snd (tb_page s)) = Inr v"
  using sound_reachable [OF assms] draws by (simp add: sound_def)

text \<open>A step is a step as drawn, or none.\<close>

lemma step_as_drawn:
  assumes "tab_step start resume net drift s s'" and "sound s"
  shows "(drawn_step view life start resume net drift)\<^sup>*\<^sup>* s s'"
  using assms(1)
proof (rule tab_stepE)
  fix e bp new
  assume st: "start e (tb_page s) = (bp, new)"
    and s': "s' = s\<lparr>tb_page := bp, tb_flights := tb_flights s @ map (send (fst bp)) new\<rparr>"
  obtain b p where p: "tb_page s = (b, p)" by (cases "tb_page s")
  from assms(2) draws obtain v where v: "view p = Inr v" by (auto simp: sound_def p)
  show ?thesis
  proof (cases "life e \<or> list_ex (offers e) v")
    case True
    then have "life e \<or> (\<exists>v. view (snd (tb_page s)) = Inr v \<and> list_ex (offers e) v)" using v p by auto
    from offered [where life = life and view = view and start = start and s = s, OF this st] show ?thesis unfolding s' by (rule r_into_rtranclp)
  next
    case False
    with idle [OF v] st p have "bp = (b, p)" "new = []" by auto
    then have "s' = s" by (simp add: s' flip: p)
    then show ?thesis by simp
  qed
next
  fix xs f ys r w
  assume "tb_flights s = xs @ f # ys" "ft_answer f = None" "net (ft_request f) (tb_world s) r w"
    and s': "s' = s\<lparr>tb_flights := xs @ f\<lparr>ft_answer := Some r\<rparr> # ys, tb_world := w\<rparr>"
  then show ?thesis unfolding s' by (intro r_into_rtranclp other tab_step.answer)
next
  fix xs f ys r bp new
  assume "tb_flights s = xs @ f # ys" "ft_answer f = Some r" "resume (ft_task f) r (tb_page s) = (bp, new)"
    and s': "s' = s\<lparr>tb_page := bp, tb_flights := xs @ ys @ map (send (fst bp)) new\<rparr>"
  then show ?thesis unfolding s' by (intro r_into_rtranclp other tab_step.resume)
next
  fix w
  assume "drift (tb_world s) w" and s': "s' = s\<lparr>tb_world := w\<rparr>"
  then show ?thesis unfolding s' by (intro r_into_rtranclp other tab_step.drift)
qed

lemma drawn_is_step:
  assumes "drawn_step view life start resume net drift s s'"
  shows "(tab_step start resume net drift)\<^sup>*\<^sup>* s s'"
  using assms
proof (rule drawn_stepE)
  fix e bp new
  assume "start e (tb_page s) = (bp, new)"
    and s': "s' = s\<lparr>tb_page := bp, tb_flights := tb_flights s @ map (send (fst bp)) new\<rparr>"
  then show ?thesis unfolding s' by (intro r_into_rtranclp tab_step.event)
next
  assume "tab_step (\<lambda>_ :: unit. \<lambda>bp. (bp, [])) resume net drift s s'"
  then show ?thesis
  proof (rule tab_stepE)
    fix e :: unit and bp and new :: "('t \<times> api_call) list"
    assume "(tb_page s, []) = (bp, new)"
      and "s' = s\<lparr>tb_page := bp, tb_flights := tb_flights s @ map (send (fst bp)) new\<rparr>"
    then have "s' = s" by simp
    then show ?thesis by simp
  qed (auto intro: tab_step.answer tab_step.resume tab_step.drift)
qed

lemma runs_as_drawn:
  assumes net: "honest asks fits net" and p: "good p"
  shows "(tab_step start resume net drift)\<^sup>*\<^sup>* (opened b p w) s \<longleftrightarrow>
    (drawn_step view life start resume net drift)\<^sup>*\<^sup>* (opened b p w) s"
proof
  assume "(tab_step start resume net drift)\<^sup>*\<^sup>* (opened b p w) s"
  then show "(drawn_step view life start resume net drift)\<^sup>*\<^sup>* (opened b p w) s"
  proof (induction rule: rtranclp_induct)
    case (step s s')
    from step_as_drawn [OF step.hyps(2) sound_reachable [OF step.hyps(1) net p]] step.IH
    show ?case by (rule rtranclp_trans [rotated])
  qed simp
next
  assume "(drawn_step view life start resume net drift)\<^sup>*\<^sup>* (opened b p w) s"
  then show "(tab_step start resume net drift)\<^sup>*\<^sup>* (opened b p w) s"
  proof (induction rule: rtranclp_induct)
    case (step s s')
    from drawn_is_step [OF step.hyps(2)] step.IH show ?case by (rule rtranclp_trans [rotated])
  qed simp
qed

end

section \<open>Data the server sends\<close>

text \<open>A time the language can make a date of, as all are before the year 275760.\<close>

definition dated_detail :: "OrchDetail \<Rightarrow> bool" where
  "dated_detail d \<longleftrightarrow>
     (\<forall>ob\<in>set (oc_recentObservations d). ob_observedAt ob \<le> max_time) \<and>
     (\<forall>r t. oc_orch d = Some r \<longrightarrow> or_lastObservedAt r = Some t \<longrightarrow> t \<le> max_time)"

definition dated_events :: "AuditEvent list \<Rightarrow> bool" where
  "dated_events es \<longleftrightarrow> (\<forall>e\<in>set es. ev_occurredAt e \<le> max_time)"

lemma time_drawn: "t \<le> max_time \<Longrightarrow> \<exists>sh. time_shown date (Some (JNum t)) = Inr sh"
proof (cases "0 < t")
  case True
  assume "t \<le> max_time"
  with True obtain d c where "formatTimestamp (Some t) = Inr (Shown (d @ CHR '' '' # c @ ''Z''))"
    by (rule formatTimestamp_seconds)
  then show ?thesis by (simp add: time_shown_def)
qed (simp add: time_shown_def formatTimestamp_def)

lemma opt_time_drawn: "(\<And>t. v = Some t \<Longrightarrow> t \<le> max_time) \<Longrightarrow> \<exists>sh. time_shown date (Some (json_opt JNum v)) = Inr sh"
  using time_drawn by (cases v) (auto simp: time_shown_def)

lemma joined_texts: "\<exists>s. js_joined (Some (JArr (map JStr ts))) = Inr s"
  by (simp add: js_joined_def)

lemma observations_drawn:
  "\<forall>ob\<in>set obs. ob_observedAt ob \<le> max_time \<Longrightarrow> \<exists>rows. res_map (drawn_observation date) (map json_of_observation obs) = Inr rows"
proof (rule res_map_ok)
  fix x
  assume "\<forall>ob\<in>set obs. ob_observedAt ob \<le> max_time" and "x \<in> set (map json_of_observation obs)"
  then obtain ob where "x = json_of_observation ob" "ob_observedAt ob \<le> max_time" by auto
  with time_drawn [of "ob_observedAt ob" date] show "\<exists>y. drawn_observation date x = Inr y"
    by (auto simp: drawn_observation_def json_of_observation_def js_field_def js_nullish_def)
qed

lemma rows_drawn: "\<exists>ks. res_map (drawn_row sel) (map json_of_row rows) = Inr ks"
  by (rule res_map_ok) (auto simp: drawn_row_def json_of_row_def js_field_def js_nullish_def)

lemma events_drawn:
  "dated_events es \<Longrightarrow> \<exists>ks. res_map (drawn_event date) (map json_of_event es) = Inr ks"
proof (rule res_map_ok)
  fix x
  assume "dated_events es" and "x \<in> set (map json_of_event es)"
  then obtain e where "x = json_of_event e" "ev_occurredAt e \<le> max_time" by (auto simp: dated_events_def)
  with time_drawn [of "ev_occurredAt e" date] show "\<exists>y. drawn_event date x = Inr y"
    by (auto simp: drawn_event_def json_of_event_def js_field_def js_nullish_def)
qed

lemma detail_body:
  "js_truthy (json_of_body (OrchBody d))" "js_get ''error'' (Some (json_of_body (OrchBody d))) = None"
  "js_get ''orch'' (Some (json_of_body (OrchBody d))) = Some (json_opt json_of_row (oc_orch d))"
  "js_rows (js_get ''recentObservations'' (Some (json_of_body (OrchBody d)))) = Inr (map json_of_observation (oc_recentObservations d))"
  by (simp_all add: js_rows_def)

lemma card_drawn:
  assumes "\<And>t. or_lastObservedAt r = Some t \<Longrightarrow> t \<le> max_time"
  shows "\<exists>k. orch_card date (Some (json_of_row r)) = Inr k" "\<exists>k. dashboard_orch (Some (json_of_row r)) = Inr k"
  using opt_time_drawn [of "or_lastObservedAt r" date] assms
  by (auto simp: orch_card_def dashboard_orch_def json_of_row_def js_joined_def)

section \<open>The screens\<close>

text \<open>What the detail of an orchestrator may be: nothing yet, a failure, or what the server knows.\<close>

definition detail_value :: "json \<Rightarrow> bool" where
  "detail_value v \<longleftrightarrow> v = JNull \<or> (\<exists>m. v = JObj [(''error'', JStr m)]) \<or>
     (\<exists>d. dated_detail d \<and> v = json_of_body (OrchBody d))"

definition routing_good :: "admin_routing \<Rightarrow> bool" where
  "routing_good p \<longleftrightarrow> (\<exists>rows. rp_orchs p = map json_of_row rows) \<and> detail_value (rp_detail p)"

fun routing_asks :: "routing_task \<Rightarrow> api_call \<Rightarrow> bool" where
  "routing_asks RtSelect c = (\<exists>a. c = api_getOrch a)"
| "routing_asks RtDetail c = (\<exists>a. c = api_getOrch a)"
| "routing_asks RtRefreshAll c = True"
| "routing_asks (RtRefreshOne a) c = True"
| "routing_asks _ c = (\<exists>x y. c = api_listOrchs x y)"

fun routing_fits :: "routing_task \<Rightarrow> json \<Rightarrow> bool" where
  "routing_fits RtSelect v = (\<exists>d. dated_detail d \<and> v = json_of_body (OrchBody d))"
| "routing_fits RtDetail v = (\<exists>d. dated_detail d \<and> v = json_of_body (OrchBody d))"
| "routing_fits RtRefreshAll v = True"
| "routing_fits (RtRefreshOne a) v = True"
| "routing_fits _ v = (\<exists>rows. v = json_of_body (OrchsBody rows))"

lemma dashboard_draws:
  assumes "detail_value v"
  shows "\<exists>k. dashboard_detail date a v = Inr k"
  using assms unfolding detail_value_def
proof (elim disjE exE conjE)
  fix d
  assume d: "dated_detail d" and v: "v = json_of_body (OrchBody d)"
  from d obtain rows :: "routing_event node list"
    where rows: "res_map (drawn_observation date) (map json_of_observation (oc_recentObservations d)) = Inr rows"
    using observations_drawn [of "oc_recentObservations d" date] by (auto simp: dated_detail_def)
  have "\<exists>k. (if js_true (Some (json_opt json_of_row (oc_orch d))) then dashboard_orch (Some (json_opt json_of_row (oc_orch d)))
      else Inr (muted ''p'' [Lit ''Resolver does not know this orch.''])) = (Inr k :: js_error + routing_event node)"
    using card_drawn(2) d by (cases "oc_orch d") (auto simp: dated_detail_def js_true_def json_of_row_def)
  with rows show ?thesis
    unfolding dashboard_detail_def v detail_body Let_def by (auto simp: detail_body js_true_def)
qed (auto simp: dashboard_detail_def js_true_def js_rows_def res_bind_eq_Inr)

lemma routing_draws: "routing_good p \<Longrightarrow> \<exists>v. routing_view date p = Inr v"
  using rows_drawn [of "rp_selected p"] dashboard_draws [of "rp_detail p" date]
  by (fastforce simp: routing_view_def routing_good_def res_bind_eq_Inr split: option.splits)


text \<open>The page of one orchestrator.\<close>

definition detail_data :: "json \<Rightarrow> bool" where
  "detail_data v \<longleftrightarrow> v = JNull \<or> (\<exists>d. dated_detail d \<and> v = json_of_body (OrchBody d))"

definition detail_good :: "admin_orch_detail \<Rightarrow> bool" where
  "detail_good p \<longleftrightarrow> detail_data (od_data p)"

fun detail_asks :: "detail_task \<Rightarrow> api_call \<Rightarrow> bool" where
  "detail_asks DetailRefreshing c = True"
| "detail_asks _ c = (\<exists>a. c = api_getOrch a)"

fun detail_fits :: "detail_task \<Rightarrow> json \<Rightarrow> bool" where
  "detail_fits DetailRefreshing v = True"
| "detail_fits _ v = (\<exists>d. dated_detail d \<and> v = json_of_body (OrchBody d))"

lemma detail_draws:
  assumes "detail_good p"
  shows "\<exists>v. detail_view date p = Inr v"
  using assms unfolding detail_good_def detail_data_def
proof (elim disjE exE conjE)
  fix d
  assume d: "dated_detail d" and v: "od_data p = json_of_body (OrchBody d)"
  let ?obs = "map json_of_observation (oc_recentObservations d)" and ?orch = "Some (json_opt json_of_row (oc_orch d))"
  from d obtain rows :: "detail_event node list" where rows: "res_map (drawn_observation date) ?obs = Inr rows"
    using observations_drawn [of "oc_recentObservations d" date] by (auto simp: dated_detail_def)
  have "\<exists>k. (if js_true ?orch then orch_card date ?orch else Inr (unknown_orch_card ?obs)) = (Inr k :: js_error + detail_event node)"
    using card_drawn(1) d by (cases "oc_orch d") (auto simp: dated_detail_def js_true_def json_of_row_def)
  with rows show ?thesis unfolding detail_view_def v detail_body Let_def by (auto simp: detail_body js_true_def)
qed (simp add: detail_view_def)

text \<open>The audit log.\<close>

definition audit_good :: "admin_audit \<Rightarrow> bool" where
  "audit_good p \<longleftrightarrow> (\<exists>es. dated_events es \<and> aud_events p = map json_of_event es)"

definition audit_asks :: "audit_task \<Rightarrow> api_call \<Rightarrow> bool" where
  "audit_asks t c \<longleftrightarrow> (\<exists>l n. c = api_listAuditLog l n)"

definition audit_fits :: "audit_task \<Rightarrow> json \<Rightarrow> bool" where
  "audit_fits t v \<longleftrightarrow> (\<exists>es. dated_events es \<and> v = json_of_body (EventsBody es))"

lemma audit_asks_list [simp]: "audit_asks t (api_listAuditLog l n)"
  by (auto simp: audit_asks_def)

lemma audit_draws: "audit_good p \<Longrightarrow> \<exists>v. audit_view date p = Inr v"
  by (auto simp: audit_view_def audit_good_def dest!: events_drawn [of _ date])

section \<open>The contract met\<close>

lemma orchs_body: "js_array (js_get ''orchs'' (Some (json_of_body (OrchsBody rows)))) = map json_of_row rows"
  by (simp add: js_array_def)

lemma carries_settled: "carries fits t r \<Longrightarrow> settled k r (b, p) = (bp, new) \<Longrightarrow>
    (\<exists>err b'. k (Inl err) (b', p) = (bp, new)) \<or> (\<exists>v b'. fits t v \<and> k (Inr v) (b', p) = (bp, new))"
proof -
  assume c: "carries fits t r" and k: "settled k r (b, p) = (bp, new)"
  obtain x b' where x: "request_settle r b = (x, b')" by fastforce
  with k have k: "k x (b', p) = (bp, new)" by (simp add: settled_def)
  show ?thesis
  proof (cases x)
    case (Inl err)
    with k show ?thesis by blast
  next
    case (Inr v)
    with c x have "fits t v" by (auto simp: carries_def)
    with k Inr show ?thesis by blast
  qed
qed

lemma routing_good_updates [simp]:
  "routing_good (p\<lparr>rp_loading := l\<rparr>) = routing_good p" "routing_good (p\<lparr>rp_error := m\<rparr>) = routing_good p"
  "routing_good (p\<lparr>rp_refreshing := l\<rparr>) = routing_good p" "routing_good (p\<lparr>rp_selected := sel\<rparr>) = routing_good p"
  "routing_good (p\<lparr>rp_capability := c\<rparr>) = routing_good p" "routing_good (p\<lparr>rp_offering := c\<rparr>) = routing_good p"
  "routing_good p \<Longrightarrow> routing_good (p\<lparr>rp_orchs := map json_of_row rows\<rparr>)"
  "routing_good p \<Longrightarrow> detail_value v \<Longrightarrow> routing_good (p\<lparr>rp_detail := v\<rparr>)"
  "detail_value JNull" "detail_value (JObj [(''error'', JStr m)])"
  by (auto simp: routing_good_def detail_value_def simp del: json_of_body.simps)

lemma routing_asks_list [simp]:
  "routing_asks RtReload (api_listOrchs x y)" "routing_asks RtReloadAfterAll (api_listOrchs x y)"
  "routing_asks RtReloadAfterOne (api_listOrchs x y)"
  "routing_asks RtDetail (api_getOrch a)" "routing_asks RtSelect (api_getOrch a)"
  by auto

lemma detail_value_body: "dated_detail d \<Longrightarrow> detail_value (json_of_body (OrchBody d))"
  by (auto simp: detail_value_def simp del: json_of_body.simps)

lemma routing_continue_good:
  assumes "routing_good p" and "\<And>v. x = Inr v \<Longrightarrow> routing_fits t v"
  shows "routing_good (snd (fst (routing_continue t x (b, p)))) \<and>
    (\<forall>tc\<in>set (snd (routing_continue t x (b, p))). routing_asks (fst tc) (snd tc))"
  using assms by (cases t; cases x)
    (auto simp: page_defs orchs_body detail_value_body simp del: json_of_body.simps routing_asks.simps)

interpretation dashboard: drawn_screen "routing_view date" routing_start routing_resume
    "\<lambda>e. e = RoutingConnected" routing_good routing_asks routing_fits for date
proof
  fix t r b and p :: admin_routing and b' p' new
  assume re: "routing_resume t r (b, p) = ((b', p'), new)" and p: "routing_good p" and r: "carries routing_fits t r"
  from carries_settled [OF r re [unfolded routing_resume_def]] obtain x b0
    where "routing_continue t x (b0, p) = ((b', p'), new)" and "\<And>v. x = Inr v \<Longrightarrow> routing_fits t v" by auto
  with routing_continue_good [OF p, of x t b0]
  show "routing_good p' \<and> (\<forall>tc\<in>set new. routing_asks (fst tc) (snd tc))" by simp
next
  fix e b and p :: admin_routing and b' p' new
  assume "routing_start e (b, p) = ((b', p'), new)" and "routing_good p"
  then show "routing_good p' \<and> (\<forall>tc\<in>set new. routing_asks (fst tc) (snd tc))"
    by (cases e) (auto simp: page_defs simp del: routing_asks.simps simp add: routing_asks.simps(3,4) split: if_splits option.splits)
qed (rule routing_draws routing_idle; assumption)+

interpretation orch_page: drawn_screen "detail_view date" detail_start detail_resume
    "\<lambda>e. e \<noteq> DetailRefresh" detail_good detail_asks detail_fits for date
proof
  fix t r b and p :: admin_orch_detail and b' p' new
  assume re: "detail_resume t r (b, p) = ((b', p'), new)" and p: "detail_good p" and r: "carries detail_fits t r"
  have gone: "\<exists>d. dated_detail d \<and> JObj [(''orch'', JNull), (''recentObservations'', JArr [])] = json_of_body (OrchBody d)"
    by (rule exI [of _ "\<lparr>oc_orch = None, oc_recentObservations = []\<rparr>"]) (simp add: dated_detail_def)
  from carries_settled [OF r re [unfolded detail_resume_def]] p gone
  show "detail_good p' \<and> (\<forall>tc\<in>set new. detail_asks (fst tc) (snd tc))"
    by (cases t) (auto simp: detail_good_def detail_data_def page_defs Let_def split: if_splits)
next
  fix e b and p :: admin_orch_detail and b' p' new
  assume "detail_start e (b, p) = ((b', p'), new)" and "detail_good p"
  then show "detail_good p' \<and> (\<forall>tc\<in>set new. detail_asks (fst tc) (snd tc))"
    by (cases e) (auto simp: detail_good_def detail_data_def page_defs split: if_splits)
qed (use detail_draws detail_idle in auto)

interpretation audit_page: drawn_screen "audit_view date" audit_start audit_resume
    "\<lambda>e. e = AuditConnected" audit_good audit_asks audit_fits for date
proof
  fix t r b and p :: admin_audit and b' p' new
  assume re: "audit_resume t r (b, p) = ((b', p'), new)" and p: "audit_good p" and r: "carries audit_fits t r"
  have more: "dated_events es \<Longrightarrow> dated_events es' \<Longrightarrow>
      \<exists>fs. dated_events fs \<and> map json_of_event es @ map json_of_event es' = map json_of_event fs" for es es'
    by (rule exI [of _ "es @ es'"]) (auto simp: dated_events_def)
  from carries_settled [OF r re [unfolded audit_resume_def]] p more
  show "audit_good p' \<and> (\<forall>tc\<in>set new. audit_asks (fst tc) (snd tc))"
    by (cases t) (auto simp: audit_good_def audit_fits_def page_defs js_array_def Let_def)
next
  fix e b and p :: admin_audit and b' p' new
  assume "audit_start e (b, p) = ((b', p'), new)" and "audit_good p"
  then show "audit_good p' \<and> (\<forall>tc\<in>set new. audit_asks (fst tc) (snd tc))"
    by (cases e) (auto simp: audit_good_def page_defs split: if_splits option.splits)
qed (use audit_draws audit_idle in auto)

section \<open>Over the server\<close>

text \<open>What a route replies where it succeeds.\<close>

fun replies_with :: "route \<Rightarrow> reply_body \<Rightarrow> bool" where
  "replies_with ApiOrchs body = (\<exists>rows. body = OrchsBody rows)"
| "replies_with ApiOrch body = (\<exists>d. body = OrchBody d)"
| "replies_with ApiAuditLog body = (\<exists>es. body = EventsBody es)"
| "replies_with _ body = True"

lemma handle_replies:
  assumes "handle env deps zod rt ps actor req s = (Inr rep, s')" and "rt \<in> {ApiOrchs, ApiOrch, ApiAuditLog}"
  shows "failing rep \<or> (\<exists>body. rep = Reply 200 body \<and> replies_with rt body)"
  using assms
  by (auto simp: handle_def handleListOrchs_def handleGetOrch_def handleListAuditLog_def io_bind_apply failing_def
      split: prod.splits sum.splits if_splits)

lemma serve_replies:
  assumes "router (hq_method req) (hq_url req) = Some (rt, ps)" and "rt \<in> {ApiOrchs, ApiOrch, ApiAuditLog}"
    and "serve env deps router fallback zod issues req s = (Inr rep, s')"
  shows "failing rep \<or> (\<exists>body. rep = Reply 200 body \<and> replies_with rt body)"
  using serve_routed [OF assms(1,3)]
proof (elim disjE exE conjE)
  fix actor r
  assume h: "handle env deps zod rt ps actor req s = (r, s')"
    and e: "Inr rep = (case r of Inl err \<Rightarrow> Inr (errorHandler err) | Inr rep \<Rightarrow> (Inr rep :: js_error + reply))"
  show ?thesis
  proof (cases r)
    case (Inr rep')
    with h e show ?thesis using handle_replies [OF _ assms(2)] by simp
  qed (use e failing_errorHandler in simp)
qed simp

text \<open>The server as the world of a screen, where the times it replies are dates.\<close>

fun dated_body :: "reply_body \<Rightarrow> bool" where
  "dated_body (OrchBody d) = dated_detail d"
| "dated_body (EventsBody es) = dated_events es"
| "dated_body _ = True"

definition dated_net :: "'w env \<Rightarrow> ServerDeps \<Rightarrow> router \<Rightarrow> (http_request \<Rightarrow> reply) \<Rightarrow> zod_error
    \<Rightarrow> (string \<Rightarrow> string list) \<Rightarrow> (string \<Rightarrow> query) \<Rightarrow> (js_error \<Rightarrow> nat \<times> json)
    \<Rightarrow> fetch_request \<Rightarrow> 'w sys \<Rightarrow> js_error + fetch_response \<Rightarrow> 'w sys \<Rightarrow> bool" where
  "dated_net env deps router fallback zod issues parse sent q s r s' \<longleftrightarrow>
     (case serve env deps router fallback zod issues (http_of parse q) s of
        (out, s1) \<Rightarrow>
          (\<exists>e. r = Inl e \<and> (s' = s \<or> s' = s1)) \<or>
          (\<exists>rep. out = Inr rep \<and> r = Inr (response_of sent rep) \<and> s' = s1 \<and>
             (\<forall>st body. rep = Reply st body \<longrightarrow> dated_body body)))"

lemma dated_net_server: "dated_net env deps router fallback zod issues parse sent q s r s' \<Longrightarrow>
    server_net env deps router fallback zod issues parse sent q s r s'"
  by (auto simp: dated_net_def server_net_def split: prod.splits)

text \<open>The routes of the screens' requests.\<close>

definition screen_routes :: "router \<Rightarrow> (string \<Rightarrow> query) \<Rightarrow> bool" where
  "screen_routes router parse \<longleftrightarrow>
     web_route router parse ''GET'' ''/api/orchs'' ApiOrchs \<and> web_route router parse ''GET'' audit_path ApiAuditLog \<and>
     (\<forall>a. \<exists>ps. router ''GET'' (''/api/orchs/'' @ encodeURIComponent a) = Some (ApiOrch, ps))"

lemma carried:
  assumes net: "dated_net env deps router fallback zod issues parse sent (call_request c b) s r s'"
    and sent: "sent_failure sent"
    and route: "router (ac_method c) (ac_path c) = Some (rt, ps)" "rt \<in> {ApiOrchs, ApiOrch, ApiAuditLog}"
    and fit: "\<And>body. replies_with rt body \<Longrightarrow> dated_body body \<Longrightarrow> fits t (json_of_body body)"
  shows "carries fits t r"
proof -
  let ?q = "http_of parse (call_request c b)"
  have q: "router (hq_method ?q) (hq_url ?q) = Some (rt, ps)"
    using route by (simp add: http_of_def call_request_def request_init_def)
  obtain out s1 where run: "serve env deps router fallback zod issues ?q s = (out, s1)" by fastforce
  with net consider e where "r = Inl e"
    | rep where "out = Inr rep" "r = Inr (response_of sent rep)" "\<forall>st body. rep = Reply st body \<longrightarrow> dated_body body"
    by (auto simp: dated_net_def)
  then show ?thesis
  proof cases
    case 1
    then show ?thesis by (simp add: carries_def request_settle_def)
  next
    case 2
    from serve_replies [OF q route(2) run [unfolded 2(1)]] show ?thesis
    proof (elim disjE exE conjE)
      assume f: "failing rep"
      show ?thesis unfolding carries_def 2(2)
      proof (intro allI impI)
        fix b v b'
        assume "request_settle (Inr (response_of sent rep)) b = (Inr v, b')"
        with settle_failing [OF f sent, of b] show "fits t v" by auto
      qed
    next
      fix body
      assume "rep = Reply 200 body" "replies_with rt body"
      with 2 fit show ?thesis by (simp add: carries_def settle_ok)
    qed
  qed
qed

lemma api_routes:
  assumes "screen_routes router parse"
  shows "router (ac_method (api_listOrchs x y)) (ac_path (api_listOrchs x y)) = Some (ApiOrchs, [])"
    "\<exists>ps. router (ac_method (api_getOrch a)) (ac_path (api_getOrch a)) = Some (ApiOrch, ps)"
    "router (ac_method (api_listAuditLog l n)) (ac_path (api_listAuditLog l n)) = Some (ApiAuditLog, [])"
  using assms by (simp_all add: screen_routes_def web_route_def api_listOrchs_def api_getOrch_def api_listAuditLog_def
      api_get_def audit_path_def)

lemma server_honest:
  assumes routes: "screen_routes router parse" and sent: "sent_failure sent"
  shows "honest routing_asks routing_fits (dated_net env deps router fallback zod issues parse sent)"
    "honest detail_asks detail_fits (dated_net env deps router fallback zod issues parse sent)"
    "honest audit_asks audit_fits (dated_net env deps router fallback zod issues parse sent)"
proof -
  let ?net = "dated_net env deps router fallback zod issues parse sent"
  note carried = carried [OF _ sent]
  have orchs: "carries fits t r" if "?net (call_request (api_listOrchs x y) b) s r s'"
      and "\<And>rows. fits t (json_of_body (OrchsBody rows))" for fits and t :: 'x and x y b s r s'
    by (rule carried [OF that(1) api_routes(1) [OF routes]]) (use that(2) in auto)
  have orch: "carries fits t r" if n: "?net (call_request (api_getOrch a) b) s r s'"
      and f: "\<And>d. dated_detail d \<Longrightarrow> fits t (json_of_body (OrchBody d))" for fits and t :: 'x and a b s r s'
  proof -
    from api_routes(2) [OF routes] obtain ps
      where r: "router (ac_method (api_getOrch a)) (ac_path (api_getOrch a)) = Some (ApiOrch, ps)" by blast
    show ?thesis by (rule carried [OF n r]) (use f in auto)
  qed
  have log: "carries audit_fits t r" if "?net (call_request (api_listAuditLog l n) b) s r s'" for t l n b s r s'
    by (rule carried [OF that api_routes(3) [OF routes]]) (auto simp: audit_fits_def simp del: json_of_body.simps)
  show "honest audit_asks audit_fits ?net" using log by (auto simp: honest_def audit_asks_def)
  have "carries detail_fits t r" if "detail_asks t c" and n: "?net (call_request c b) s r s'" for t c b s r s'
  proof (cases "t = DetailRefreshing")
    case False
    with that(1) obtain a where a: "c = api_getOrch a" by (cases t) auto
    show ?thesis by (rule orch [OF n [unfolded a]]) (use False in \<open>cases t; auto simp del: json_of_body.simps\<close>)
  qed (simp add: carries_def)
  then show "honest detail_asks detail_fits ?net" by (auto simp: honest_def)
  have "carries routing_fits t r" if asks: "routing_asks t c" and n: "?net (call_request c b) s r s'" for t c b s r s'
  proof -
    consider a where "t \<in> {RtSelect, RtDetail}" "c = api_getOrch a"
      | x y where "t \<in> {RtReload, RtReloadAfterAll, RtReloadAfterOne}" "c = api_listOrchs x y"
      | "t = RtRefreshAll \<or> (\<exists>a. t = RtRefreshOne a)"
      using asks by (cases t) auto
    then show ?thesis
    proof cases
      case (1 a)
      show ?thesis by (rule orch [OF n [unfolded 1(2)]]) (use 1(1) in \<open>auto simp del: json_of_body.simps\<close>)
    next
      case (2 x y)
      show ?thesis by (rule orchs [OF n [unfolded 2(2)]]) (use 2(1) in \<open>auto simp del: json_of_body.simps\<close>)
    qed (auto simp: carries_def)
  qed
  then show "honest routing_asks routing_fits ?net" by (auto simp: honest_def)
qed

section \<open>What the operator sees and can do\<close>

lemma good_init: "routing_good admin_routing_init" "detail_good admin_orch_detail_init" "audit_good admin_audit_init"
proof -
  show "routing_good admin_routing_init" "detail_good admin_orch_detail_init"
    by (auto simp: routing_good_def admin_routing_init_def detail_good_def admin_orch_detail_init_def detail_data_def)
  show "audit_good admin_audit_init"
    unfolding audit_good_def by (rule exI [of _ "[]"]) (simp add: dated_events_def admin_audit_init_def)
qed



section \<open>A sample\<close>

lemma encoded_chars: "x \<in> set (encodeURIComponent s) \<Longrightarrow> x \<noteq> CHR ''?''"
proof -
  have hex: "hex_upper d \<noteq> CHR ''?''" if "d < 16" for d
  proof -
    have "hex_upper d \<in> hex_upper ` {..<16}" using that by simp
    moreover have "CHR ''?'' \<notin> hex_upper ` {..<16}" by code_simp
    ultimately show ?thesis by auto
  qed
  have pct: "CHR ''?'' \<notin> set (pct_byte w)" for w
  proof -
    have "unat w < 256" using unsigned_less [of w] by simp
    then have "unat w div 16 < 16" "unat w mod 16 < 16" by simp_all
    then have "hex_upper (unat w div 16) \<noteq> CHR ''?''" "hex_upper (unat w mod 16) \<noteq> CHR ''?''" by (simp_all add: hex)
    then show ?thesis by (simp add: pct_byte_def)
  qed
  have "\<not> is_alnum (CHR ''?'')" by code_simp
  then show "x \<in> set (encodeURIComponent s) \<Longrightarrow> x \<noteq> CHR ''?''"
    using pct by (auto simp: encodeURIComponent_def split: if_splits)
qed

lemma sample_screen_routes: "screen_routes plain_router web_parse"
  unfolding screen_routes_def
proof (intro conjI allI)
  show "web_route plain_router web_parse ''GET'' ''/api/orchs'' ApiOrchs"
    by (rule plain_web_route) (simp_all add: plain_router_def route_table_def)
  show "web_route plain_router web_parse ''GET'' audit_path ApiAuditLog" by (rule sample_audit_route)
  fix a
  have "takeWhile (\<lambda>c. c \<noteq> CHR ''?'') (''/api/orchs/'' @ encodeURIComponent a) = ''/api/orchs/'' @ encodeURIComponent a"
    using encoded_chars [of _ a] by (auto simp: takeWhile_eq_all_conv)
  then show "\<exists>ps. plain_router ''GET'' (''/api/orchs/'' @ encodeURIComponent a) = Some (ApiOrch, ps)"
    by (auto simp: plain_router_def route_table_def starts_with_def Let_def)
qed



end
