(* ===== verification/JsonForm.thy ===== *)
theory JsonForm
  imports JsBigInt
begin

text \<open>
  What the JSON forms of the generated messages share (\<^verbatim>\<open>fromJSON\<close>, \<^verbatim>\<open>toJSON\<close>, \<^verbatim>\<open>fromPartial\<close> of
  \<^verbatim>\<open>src/providers/*/gen\<close>): untyped values, the conversions of the language the code calls, base64,
  and the statements all messages are made of. The lemmas compose along the fields of a
  message: what \<^verbatim>\<open>toJSON\<close> puts into an object, \<^verbatim>\<open>fromJSON\<close> takes out of it.
\<close>

text \<open>That a message is read back from its JSON form, and from itself as an object.\<close>

named_theorems json_backs
named_theorems partial_backs

section \<open>Untyped values\<close>

text \<open>
  A value of type \<^verbatim>\<open>any\<close>; \<^verbatim>\<open>undefined\<close> is the absence of a key. The numbers are whole, and what
  has no value here is \<open>Outside\<close>: a fraction or NaN where a message wants a number, and the
  text or the properties of an array, a buffer or a date.
\<close>

datatype any =
    ANull | ABool bool | ANum int | AStr string | ABig int | ABytes "byte list" | ADate time_value
  | AArr "any list" | AObj "(string \<times> any) list"

datatype json_fault = Throws js_error | Outside

type_synonym 'v conv = "any \<Rightarrow> json_fault + 'v"

text \<open>
  What the runtime makes of a text that is not a date as \<^verbatim>\<open>toISOString\<close> writes it, and of what is
  not the base64 text of bytes.
\<close>

record runtime =
  rt_date :: "string \<Rightarrow> time_value"
  rt_bytes :: "any \<Rightarrow> js_error + byte list"

definition thrown :: "js_error + 'a \<Rightarrow> json_fault + 'a" where
  "thrown r = map_sum Throws id r"

lemma thrown_simps [simp]: "thrown (Inl e) = Inl (Throws e)" "thrown (Inr a) = Inr a"
  by (simp_all add: thrown_def)

section \<open>Base64\<close>

definition b64_char :: "nat \<Rightarrow> char" where
  "b64_char n =
     (if n < 26 then char_of (65 + n) else if n < 52 then char_of (71 + n)
      else if n < 62 then char_of (n - 4) else if n = 62 then CHR ''+'' else CHR ''/'')"

definition b64_val :: "char \<Rightarrow> nat option" where
  "b64_val c =
     (let n = of_char c :: nat
      in if 65 \<le> n \<and> n \<le> 90 then Some (n - 65) else if 97 \<le> n \<and> n \<le> 122 then Some (n - 71)
         else if 48 \<le> n \<and> n \<le> 57 then Some (n + 4) else if n = 43 then Some 62 else if n = 47 then Some 63 else None)"

fun base64FromBytes :: "byte list \<Rightarrow> string" where
  "base64FromBytes [] = []"
| "base64FromBytes [a] = [b64_char (unat a div 4), b64_char (unat a mod 4 * 16), CHR ''='', CHR ''='']"
| "base64FromBytes [a, b] =
     [b64_char (unat a div 4), b64_char (unat a mod 4 * 16 + unat b div 16), b64_char (unat b mod 16 * 4), CHR ''='']"
| "base64FromBytes (a # b # c # r) =
     b64_char (unat a div 4) # b64_char (unat a mod 4 * 16 + unat b div 16)
     # b64_char (unat b mod 16 * 4 + unat c div 64) # b64_char (unat c mod 64) # base64FromBytes r"

text \<open>Four digits as three bytes.\<close>

definition b64_bytes :: "nat \<Rightarrow> nat \<Rightarrow> nat \<Rightarrow> nat \<Rightarrow> byte list" where
  "b64_bytes p q r s = [of_nat (p * 4 + q div 16), of_nat (q mod 16 * 16 + r div 4), of_nat (r mod 4 * 64 + s)]"

fun base64_read :: "string \<Rightarrow> byte list option" where
  "base64_read [] = Some []"
| "base64_read (p # q # r # s # t) =
     (case (b64_val p, b64_val q, b64_val r, b64_val s) of
        (Some p', Some q', Some r', Some s') \<Rightarrow> map_option (append (b64_bytes p' q' r' s')) (base64_read t)
      | (Some p', Some q', Some r', None) \<Rightarrow>
          if s = CHR ''='' \<and> t = [] then Some (take 2 (b64_bytes p' q' r' 0)) else None
      | (Some p', Some q', None, _) \<Rightarrow>
          if r = CHR ''='' \<and> s = CHR ''='' \<and> t = [] then Some (take 1 (b64_bytes p' q' 0 0)) else None
      | _ \<Rightarrow> None)"
| "base64_read _ = None"

lemma b64_val_char [simp]:
  assumes "n < 64"
  shows "b64_val (b64_char n) = Some n"
proof -
  consider "n < 26" | "26 \<le> n" "n < 52" | "52 \<le> n" "n < 62" | "n = 62" | "n = 63" using assms by linarith
  then show ?thesis by cases (auto simp: b64_val_def b64_char_def)
qed

lemma b64_val_pad [simp]: "b64_val (CHR ''='') = None"
  by (simp add: b64_val_def)

lemma byte_bound: "unat (a :: byte) < 256"
  using unsigned_less [of a, where ?'a = nat] by simp

lemma b64_digits:
  fixes a b c :: nat
  assumes "a < 256" and "b < 256" and "c < 256"
  shows "a div 4 < 64" "a mod 4 * 16 < 64" "a mod 4 * 16 + b div 16 < 64" "b mod 16 * 4 < 64"
    "b mod 16 * 4 + c div 64 < 64" "c mod 64 < 64"
    "a div 4 * 4 + (a mod 4 * 16 + b div 16) div 16 = a" "a div 4 * 4 + a mod 4 * 16 div 16 = a"
    "(a mod 4 * 16 + b div 16) mod 16 * 16 + (b mod 16 * 4 + c div 64) div 4 = b"
    "(a mod 4 * 16 + b div 16) mod 16 * 16 + b mod 16 * 4 div 4 = b"
    "(b mod 16 * 4 + c div 64) mod 4 * 64 + c mod 64 = c"
proof -
  have "b div 16 < 16" "c div 64 < 4" "a mod 4 < 4" "b mod 16 < 16" using assms by simp_all
  then show "a div 4 < 64" "a mod 4 * 16 < 64" "a mod 4 * 16 + b div 16 < 64" "b mod 16 * 4 < 64"
    "b mod 16 * 4 + c div 64 < 64" "c mod 64 < 64"
    "a div 4 * 4 + (a mod 4 * 16 + b div 16) div 16 = a" "a div 4 * 4 + a mod 4 * 16 div 16 = a"
    "(a mod 4 * 16 + b div 16) mod 16 * 16 + (b mod 16 * 4 + c div 64) div 4 = b"
    "(a mod 4 * 16 + b div 16) mod 16 * 16 + b mod 16 * 4 div 4 = b"
    "(b mod 16 * 4 + c div 64) mod 4 * 64 + c mod 64 = c"
    using assms by simp_all
qed

lemma b64_bytes_back:
  fixes a b c :: byte
  shows "b64_bytes (unat a div 4) (unat a mod 4 * 16 + unat b div 16) (unat b mod 16 * 4 + unat c div 64) (unat c mod 64) = [a, b, c]"
    "take 2 (b64_bytes (unat a div 4) (unat a mod 4 * 16 + unat b div 16) (unat b mod 16 * 4) 0) = [a, b]"
    "take 1 (b64_bytes (unat a div 4) (unat a mod 4 * 16) 0 0) = [a]"
  unfolding b64_bytes_def b64_digits [OF byte_bound byte_bound byte_bound] by simp_all

lemma base64_back [simp]: "base64_read (base64FromBytes bs) = Some bs"
  by (induction bs rule: base64FromBytes.induct)
    (simp_all add: b64_digits(1-6) [OF byte_bound byte_bound byte_bound] b64_bytes_back b64_bytes_back(3) [unfolded One_nat_def] del: take_Suc_Cons)

section \<open>Conversions\<close>

fun to_String :: "string conv" where
  "to_String (AStr s) = Inr s"
| "to_String (ANum n) = Inr (show_int n)"
| "to_String (ABig n) = Inr (show_int n)"
| "to_String (ABool b) = Inr (if b then ''true'' else ''false'')"
| "to_String ANull = Inr ''null''"
| "to_String (AObj _) = Inr ''[object Object]''"
| "to_String _ = Inl Outside"

definition whole :: "jsnum \<Rightarrow> json_fault + int" where
  "whole x = (case js_integer x of Some n \<Rightarrow> Inr n | None \<Rightarrow> Inl Outside)"

fun to_Number :: "int conv" where
  "to_Number (ANum n) = Inr n"
| "to_Number (AStr s) = whole (js_number s)"
| "to_Number (ABig n) = whole (js_of_int n)"
| "to_Number (ABool b) = Inr (of_bool b)"
| "to_Number ANull = Inr 0"
| "to_Number _ = Inl Outside"

text \<open>A field without a sign; a number below zero has no value here.\<close>

definition to_Nat :: "nat conv" where
  "to_Nat v = res_bind (to_Number v) (\<lambda>n. if n < 0 then Inl Outside else Inr (nat n))"

fun to_BigInt :: "int conv" where
  "to_BigInt (ABig n) = Inr n"
| "to_BigInt (ANum n) = Inr n"
| "to_BigInt (ABool b) = Inr (of_bool b)"
| "to_BigInt (AStr s) = (case js_bigint s of Some n \<Rightarrow> Inr n
     | None \<Rightarrow> Inl (Throws (PlainError (''Cannot convert '' @ s @ '' to a BigInt''))))"
| "to_BigInt ANull = Inl (Throws (PlainError ''Cannot convert null to a BigInt''))"
| "to_BigInt (AObj _) = Inl (Throws (PlainError ''Cannot convert [object Object] to a BigInt''))"
| "to_BigInt _ = Inl Outside"

fun to_Boolean :: "bool conv" where
  "to_Boolean ANull = Inr False"
| "to_Boolean (ABool b) = Inr b"
| "to_Boolean (ANum n) = Inr (n \<noteq> 0)"
| "to_Boolean (AStr s) = Inr (s \<noteq> [])"
| "to_Boolean (ABig n) = Inr (n \<noteq> 0)"
| "to_Boolean _ = Inr True"

definition bytesFromBase64 :: "runtime \<Rightarrow> byte list conv" where
  "bytesFromBase64 R v =
     (case v of
        AStr s \<Rightarrow> (case base64_read s of Some bs \<Rightarrow> Inr bs | None \<Rightarrow> thrown (rt_bytes R v))
      | _ \<Rightarrow> thrown (rt_bytes R v))"

text \<open>An enum by its number or its name; what is neither is \<^verbatim>\<open>UNRECOGNIZED\<close>.\<close>

type_synonym enum_table = "(int \<times> string) list"

definition enumFromJSON :: "enum_table \<Rightarrow> int conv" where
  "enumFromJSON T v =
     (case find (\<lambda>(n, name). v = ANum n \<or> v = AStr name) T of Some (n, _) \<Rightarrow> Inr n | None \<Rightarrow> Inr (- 1))"

definition enumToJSON :: "enum_table \<Rightarrow> int \<Rightarrow> any" where
  "enumToJSON T n = AStr (case map_of T n of Some name \<Rightarrow> name | None \<Rightarrow> ''UNRECOGNIZED'')"

section \<open>Statements\<close>

text \<open>
  \<^verbatim>\<open>fromJSON\<close>: a field is the first of its keys that is set, converted, or the default. Reading a
  key of null throws; a message all of whose fields are lists asks with \<^verbatim>\<open>?.\<close> and does not.
\<close>

type_synonym 'm json_field = "(string \<times> any) list \<Rightarrow> 'm \<Rightarrow> json_fault + 'm"

definition first_set :: "string list \<Rightarrow> (string \<times> any) list \<Rightarrow> any option" where
  "first_set ks kvs = (case find (\<lambda>k. map_of kvs k \<noteq> None \<and> map_of kvs k \<noteq> Some ANull) ks of
     Some k \<Rightarrow> map_of kvs k | None \<Rightarrow> None)"

definition json_field :: "string list \<Rightarrow> 'v conv \<Rightarrow> 'v \<Rightarrow> ('v \<Rightarrow> 'm \<Rightarrow> 'm) \<Rightarrow> 'm json_field" where
  "json_field ks conv d upd kvs m =
     (case first_set ks kvs of None \<Rightarrow> Inr (upd d m) | Some v \<Rightarrow> map_sum id (\<lambda>x. upd x m) (conv v))"

definition json_option :: "string list \<Rightarrow> 'v conv \<Rightarrow> ('v option \<Rightarrow> 'm \<Rightarrow> 'm) \<Rightarrow> 'm json_field" where
  "json_option ks conv upd = json_field ks (\<lambda>v. map_sum id Some (conv v)) None upd"

fun list_of :: "any option \<Rightarrow> any list option" where
  "list_of (Some (AArr vs)) = Some vs"
| "list_of _ = None"

fun convert_all :: "'v conv \<Rightarrow> any list \<Rightarrow> json_fault + 'v list" where
  "convert_all conv [] = Inr []"
| "convert_all conv (v # vs) = res_bind (conv v) (\<lambda>x. res_bind (convert_all conv vs) (\<lambda>xs. Inr (x # xs)))"

definition json_list :: "string list \<Rightarrow> 'v conv \<Rightarrow> ('v list \<Rightarrow> 'm \<Rightarrow> 'm) \<Rightarrow> 'm json_field" where
  "json_list ks conv upd kvs m =
     (case find (\<lambda>k. list_of (map_of kvs k) \<noteq> None) ks of
        None \<Rightarrow> Inr (upd [] m)
      | Some k \<Rightarrow> map_sum id (\<lambda>xs. upd xs m) (convert_all conv (the (list_of (map_of kvs k)))))"

primrec take_fields :: "'m json_field list \<Rightarrow> 'm json_field" where
  "take_fields [] kvs m = Inr m"
| "take_fields (f # fs) kvs m = res_bind (f kvs m) (take_fields fs kvs)"

definition null_error :: js_error where
  "null_error = PlainError ''Cannot read properties of null''"

definition from_fields :: "bool \<Rightarrow> 'm json_field list \<Rightarrow> 'm \<Rightarrow> 'm conv" where
  "from_fields asks fs base v =
     (case v of
        AObj kvs \<Rightarrow> take_fields fs kvs base
      | ANull \<Rightarrow> if asks then take_fields fs [] base else Inl (Throws null_error)
      | ABool _ \<Rightarrow> take_fields fs [] base
      | ANum _ \<Rightarrow> take_fields fs [] base
      | ABig _ \<Rightarrow> take_fields fs [] base
      | _ \<Rightarrow> Inl Outside)"

text \<open>\<^verbatim>\<open>toJSON\<close>: a field that is not the default is put under its key.\<close>

type_synonym json_put = "json_fault + (string \<times> any) list"

definition put :: "bool \<Rightarrow> string \<Rightarrow> any \<Rightarrow> json_put" where
  "put c k v = Inr (if c then [(k, v)] else [])"

definition put_option :: "string \<Rightarrow> ('v \<Rightarrow> json_fault + any) \<Rightarrow> 'v option \<Rightarrow> json_put" where
  "put_option k to_json v =
     (case v of None \<Rightarrow> Inr [] | Some x \<Rightarrow> map_sum id (\<lambda>j. [(k, j)]) (to_json x))"

fun map_json :: "('v \<Rightarrow> json_fault + any) \<Rightarrow> 'v list \<Rightarrow> json_fault + any list" where
  "map_json to_json [] = Inr []"
| "map_json to_json (v # vs) = res_bind (to_json v) (\<lambda>j. res_bind (map_json to_json vs) (\<lambda>js. Inr (j # js)))"

definition put_list :: "string \<Rightarrow> ('v \<Rightarrow> json_fault + any) \<Rightarrow> 'v list \<Rightarrow> json_put" where
  "put_list k to_json vs = (if vs = [] then Inr [] else map_sum id (\<lambda>js. [(k, AArr js)]) (map_json to_json vs))"

primrec put_fields :: "json_put list \<Rightarrow> json_put" where
  "put_fields [] = Inr []"
| "put_fields (p # ps) = res_bind p (\<lambda>kv. res_bind (put_fields ps) (\<lambda>kvs. Inr (kv @ kvs)))"

definition to_fields :: "json_put list \<Rightarrow> json_fault + any" where
  "to_fields ps = map_sum id AObj (put_fields ps)"

definition date_json :: "time_value \<Rightarrow> json_fault + any" where
  "date_json d = map_sum id AStr (thrown (toISOString d))"

text \<open>
  \<^verbatim>\<open>fromPartial\<close>: the object is typed, so a value that is there has the type of its field; the
  conversions only look at it.
\<close>

fun as_string :: "string conv" where "as_string (AStr s) = Inr s" | "as_string _ = Inl Outside"
fun as_number :: "int conv" where "as_number (ANum n) = Inr n" | "as_number _ = Inl Outside"
fun as_nat :: "nat conv" where "as_nat (ANum n) = (if n < 0 then Inl Outside else Inr (nat n))" | "as_nat _ = Inl Outside"
fun as_bigint :: "int conv" where "as_bigint (ABig n) = Inr n" | "as_bigint _ = Inl Outside"
fun as_boolean :: "bool conv" where "as_boolean (ABool b) = Inr b" | "as_boolean _ = Inl Outside"
fun as_bytes :: "byte list conv" where "as_bytes (ABytes b) = Inr b" | "as_bytes _ = Inl Outside"
fun as_date :: "time_value conv" where "as_date (ADate d) = Inr d" | "as_date _ = Inl Outside"

definition from_partial :: "'m json_field list \<Rightarrow> 'm \<Rightarrow> 'm conv" where
  "from_partial fs base v = (case v of AObj kvs \<Rightarrow> take_fields fs kvs base | _ \<Rightarrow> Inl Outside)"

text \<open>\<^verbatim>\<open>create(base)\<close>, the argument optional.\<close>

definition create_from :: "'m conv \<Rightarrow> any option \<Rightarrow> json_fault + 'm" where
  "create_from partial base = partial (case base of None \<Rightarrow> AObj [] | Some v \<Rightarrow> v)"

section \<open>From a field to its key and back\<close>

text \<open>
  \<open>field_back ks p f m m'\<close>: what the statement \<open>p\<close> puts under the keys \<open>ks\<close> of an object, \<open>f\<close>
  takes out of it and \<open>m\<close> becomes \<open>m'\<close>, whatever the object has under other keys.
  \<open>json_back ok to from\<close>: the messages that are \<open>ok\<close> are read back from their JSON form.
\<close>

definition apart :: "(string \<times> any) list \<Rightarrow> string list \<Rightarrow> bool" where
  "apart kvs ks \<longleftrightarrow> (\<forall>k \<in> set ks. map_of kvs k = None)"

definition field_back :: "string list \<Rightarrow> json_put \<Rightarrow> 'm json_field \<Rightarrow> 'm \<Rightarrow> 'm \<Rightarrow> bool" where
  "field_back ks p f m m' \<longleftrightarrow> (\<exists>kv. p = Inr kv \<and> fst ` set kv \<subseteq> set ks \<and>
     (\<forall>pre post. apart pre ks \<longrightarrow> apart post ks \<longrightarrow> f (pre @ kv @ post) m = Inr m'))"

definition fields_back :: "string list \<Rightarrow> json_put list \<Rightarrow> 'm json_field list \<Rightarrow> 'm \<Rightarrow> 'm \<Rightarrow> bool" where
  "fields_back ks ps fs m m' \<longleftrightarrow> field_back ks (put_fields ps) (take_fields fs) m m'"

definition json_back :: "('m \<Rightarrow> bool) \<Rightarrow> ('m \<Rightarrow> json_fault + any) \<Rightarrow> 'm conv \<Rightarrow> bool" where
  "json_back ok to_json from_json \<longleftrightarrow> (\<forall>m. ok m \<longrightarrow> (\<exists>j. to_json m = Inr j \<and> j \<noteq> ANull \<and> from_json j = Inr m))"

lemma field_backE:
  assumes "field_back ks p f m m'"
  obtains kv where "p = Inr kv" and "fst ` set kv \<subseteq> set ks"
    and "\<And>pre post. apart pre ks \<Longrightarrow> apart post ks \<Longrightarrow> f (pre @ kv @ post) m = Inr m'"
  using assms unfolding field_back_def by blast

lemma apart_append: "apart (xs @ ys) ks \<longleftrightarrow> apart xs ks \<and> apart ys ks"
  by (auto simp: apart_def map_add_def split: option.splits)

lemma apart_keys: "fst ` set kv \<subseteq> set ks' \<Longrightarrow> set ks \<inter> set ks' = {} \<Longrightarrow> apart kv ks"
  by (auto simp: apart_def map_of_eq_None_iff)

lemma apart_sub: "apart kv (ks @ ks') \<longleftrightarrow> apart kv ks \<and> apart kv ks'"
  by (auto simp: apart_def)

lemma fields_back_Nil: "m = m' \<Longrightarrow> fields_back [] [] [] m m'"
  by (simp add: fields_back_def field_back_def)

lemma fields_back_Cons:
  assumes f: "field_back ks p f m m1" and fs: "fields_back ks' ps fs m1 m'" and ks: "set ks \<inter> set ks' = {}"
  shows "fields_back (ks @ ks') (p # ps) (f # fs) m m'"
proof -
  obtain a where p: "p = Inr a" and a: "fst ` set a \<subseteq> set ks"
    and fa: "\<And>pre post. apart pre ks \<Longrightarrow> apart post ks \<Longrightarrow> f (pre @ a @ post) m = Inr m1"
    by (rule field_backE [OF f]) (rule that)
  obtain b where ps: "put_fields ps = Inr b" and b: "fst ` set b \<subseteq> set ks'"
    and fb: "\<And>pre post. apart pre ks' \<Longrightarrow> apart post ks' \<Longrightarrow> take_fields fs (pre @ b @ post) m1 = Inr m'"
    by (rule field_backE [OF fs [unfolded fields_back_def]]) (rule that)
  have "take_fields (f # fs) (pre @ (a @ b) @ post) m = Inr m'"
    if "apart pre (ks @ ks')" "apart post (ks @ ks')" for pre post
    using that fa [of pre "b @ post"] fb [of "pre @ a" post] apart_keys [OF b ks] apart_keys [OF a, of ks'] ks
    by (simp add: apart_append apart_sub Int_commute)
  with p ps a b show ?thesis by (auto simp: fields_back_def field_back_def intro!: exI [of _ "a @ b"])
qed

lemma json_backI:
  assumes "\<And>m. to_json m = to_fields (ps m)" and "\<And>kv. from_json (AObj kv) = take_fields fs kv base"
    and "\<And>m. ok m \<Longrightarrow> \<exists>ks. fields_back ks (ps m) fs base m"
  shows "json_back ok to_json from_json"
  unfolding json_back_def
proof (intro allI impI)
  fix m assume "ok m"
  with assms(3) obtain ks where "field_back ks (put_fields (ps m)) (take_fields fs) base m"
    unfolding fields_back_def by blast
  then obtain kv where kv: "put_fields (ps m) = Inr kv"
    and got: "\<And>pre post. apart pre ks \<Longrightarrow> apart post ks \<Longrightarrow> take_fields fs (pre @ kv @ post) base = Inr m"
    by (rule field_backE) (rule that)
  have "take_fields fs kv base = Inr m" using got [of "[]" "[]"] by (simp add: apart_def)
  with kv assms(1,2) show "\<exists>j. to_json m = Inr j \<and> j \<noteq> ANull \<and> from_json j = Inr m" by (simp add: to_fields_def)
qed

lemma from_object:
  "from_json = from_fields asks fs base \<Longrightarrow> from_json (AObj kv) = take_fields fs kv base"
  "from_json = from_partial fs base \<Longrightarrow> from_json (AObj kv) = take_fields fs kv base"
  by (simp_all add: from_fields_def from_partial_def)

lemma map_sum_Inr: "map_sum id f r = Inr y \<longleftrightarrow> (\<exists>x. r = Inr x \<and> y = f x)"
  by (cases r) auto

text \<open>A field looks at its own keys only.\<close>

lemma map_of_apart:
  "apart pre ks \<Longrightarrow> apart post ks \<Longrightarrow> k \<in> set ks \<Longrightarrow> map_of (pre @ kv @ post) k = map_of kv k"
  by (auto simp: apart_def map_add_def split: option.splits)

lemma find_in: "find P xs = Some x \<Longrightarrow> x \<in> set xs"
  by (auto simp: find_Some_iff)

lemma first_set_cong:
  assumes "\<And>k. k \<in> set ks \<Longrightarrow> map_of kvs k = map_of kvs' k"
  shows "first_set ks kvs = first_set ks kvs'"
proof -
  have "find (\<lambda>k. map_of kvs k \<noteq> None \<and> map_of kvs k \<noteq> Some ANull) ks
      = find (\<lambda>k. map_of kvs' k \<noteq> None \<and> map_of kvs' k \<noteq> Some ANull) ks"
    using assms by (intro find_cong) simp_all
  then show ?thesis using assms by (auto simp: first_set_def dest: find_in split: option.split)
qed

lemma json_field_apart:
  "apart pre ks \<Longrightarrow> apart post ks \<Longrightarrow> json_field ks conv d upd (pre @ kv @ post) m = json_field ks conv d upd kv m"
  using first_set_cong [of ks "pre @ kv @ post" kv] map_of_apart by (simp add: json_field_def)

lemma json_list_apart:
  assumes "apart pre ks" and "apart post ks"
  shows "json_list ks conv upd (pre @ kv @ post) m = json_list ks conv upd kv m"
proof -
  have eq: "k \<in> set ks \<Longrightarrow> map_of (pre @ kv @ post) k = map_of kv k" for k using assms by (rule map_of_apart)
  then have "find (\<lambda>k. list_of (map_of (pre @ kv @ post) k) \<noteq> None) ks = find (\<lambda>k. list_of (map_of kv k) \<noteq> None) ks"
    by (intro find_cong) simp_all
  with eq show ?thesis by (auto simp: json_list_def dest: find_in split: option.split)
qed

lemma first_set_simps [simp]:
  "first_set ks [] = None" "v \<noteq> ANull \<Longrightarrow> first_set (k # ks) [(k, v)] = Some v"
  by (simp_all add: first_set_def find_None_iff split: option.split)

lemma field_back_local:
  assumes "\<And>pre kv post. apart pre ks \<Longrightarrow> apart post ks \<Longrightarrow> f (pre @ kv @ post) m = f kv m"
    and "\<exists>kv. p = Inr kv \<and> fst ` set kv \<subseteq> set ks \<and> f kv m = Inr m'"
  shows "field_back ks p f m m'"
  using assms unfolding field_back_def by metis

lemma field_put:
  assumes "c \<Longrightarrow> conv v = Inr x" and "\<not> c \<Longrightarrow> x = d" and "v \<noteq> ANull"
  shows "field_back (k # ks) (put c k v) (json_field (k # ks) conv d upd) m (upd x m)"
  by (rule field_back_local, erule (1) json_field_apart) (use assms in \<open>auto simp: put_def json_field_def\<close>)

lemma field_string: "field_back (k # ks) (put (s \<noteq> []) k (AStr s)) (json_field (k # ks) to_String [] upd) m (upd s m)"
  by (rule field_put) simp_all

lemma field_bytes:
  "field_back (k # ks) (put (b \<noteq> []) k (AStr (base64FromBytes b))) (json_field (k # ks) (bytesFromBase64 R) [] upd) m (upd b m)"
  by (rule field_put) (simp_all add: bytesFromBase64_def)

lemma field_number: "field_back (k # ks) (put (n \<noteq> 0) k (ANum n)) (json_field (k # ks) to_Number 0 upd) m (upd n m)"
  by (rule field_put) simp_all

lemma field_nat: "field_back (k # ks) (put (n \<noteq> 0) k (ANum (int n))) (json_field (k # ks) to_Nat 0 upd) m (upd n m)"
  by (rule field_put) (simp_all add: to_Nat_def)

lemma field_bigint: "field_back (k # ks) (put (n \<noteq> 0) k (AStr (show_int n))) (json_field (k # ks) to_BigInt 0 upd) m (upd n m)"
  by (rule field_put) simp_all

lemma field_boolean: "field_back (k # ks) (put b k (ABool b)) (json_field (k # ks) to_Boolean False upd) m (upd b m)"
  by (rule field_put) simp_all

text \<open>An enum whose number is in the table, or the one for what is not.\<close>

definition enum_ok :: "enum_table \<Rightarrow> int \<Rightarrow> bool" where
  "enum_ok T n \<longleftrightarrow> n = - 1 \<or> n \<in> fst ` set T"

definition enum_proper :: "enum_table \<Rightarrow> bool" where
  "enum_proper T \<longleftrightarrow> distinct (map fst T) \<and> distinct (map snd T) \<and> - 1 \<notin> fst ` set T \<and> ''UNRECOGNIZED'' \<notin> snd ` set T"

lemma enum_back:
  assumes "enum_proper T" and "enum_ok T n"
  shows "enumFromJSON T (enumToJSON T n) = Inr n"
proof (cases "map_of T n")
  case None
  with assms(2) have n: "n = - 1" by (auto simp: enum_ok_def map_of_eq_None_iff)
  have "find (\<lambda>(i, name). AStr ''UNRECOGNIZED'' = ANum i \<or> AStr ''UNRECOGNIZED'' = AStr name) T = None"
    using assms(1) by (force simp: find_None_iff enum_proper_def)
  with None n show ?thesis by (simp add: enumFromJSON_def enumToJSON_def)
next
  case (Some name)
  then have mem: "(n, name) \<in> set T" by (rule map_of_SomeD)
  have "find (\<lambda>(i, nm). AStr name = ANum i \<or> AStr name = AStr nm) T = Some (n, name)"
  proof -
    have "distinct (map snd T)" using assms(1) by (simp add: enum_proper_def)
    with mem show ?thesis by (induction T) force+
  qed
  with Some show ?thesis by (simp add: enumFromJSON_def enumToJSON_def)
qed

lemma field_enum:
  assumes "enum_proper T" and "enum_ok T n"
  shows "field_back (k # ks) (put (n \<noteq> 0) k (enumToJSON T n)) (json_field (k # ks) (enumFromJSON T) 0 upd) m (upd n m)"
  by (rule field_put) (simp_all add: enum_back [OF assms], simp add: enumToJSON_def)

text \<open>Fields of a typed object.\<close>

lemma field_partial:
  "field_back (k # ks) (put True k (AStr s)) (json_field (k # ks) as_string d upd) m (upd s m)"
  "field_back (k # ks) (put True k (ANum i)) (json_field (k # ks) as_number e upd') m (upd' i m)"
  "field_back (k # ks) (put True k (ANum (int n))) (json_field (k # ks) as_nat g upd1) m (upd1 n m)"
  "field_back (k # ks) (put True k (ABig i)) (json_field (k # ks) as_bigint e upd') m (upd' i m)"
  "field_back (k # ks) (put True k (ABool b)) (json_field (k # ks) as_boolean c upd2) m (upd2 b m)"
  "field_back (k # ks) (put True k (ABytes y)) (json_field (k # ks) as_bytes z upd3) m (upd3 y m)"
  by (rule field_put; simp)+

lemma field_option:
  assumes "\<And>x. v = Some x \<Longrightarrow> \<exists>j. to_json x = Inr j \<and> j \<noteq> ANull \<and> conv j = Inr x"
  shows "field_back (k # ks) (put_option k to_json v) (json_option (k # ks) conv upd) m (upd v m)"
  unfolding json_option_def
proof (rule field_back_local, erule (1) json_field_apart)
  show "\<exists>kv. put_option k to_json v = Inr kv \<and> fst ` set kv \<subseteq> set (k # ks) \<and>
      json_field (k # ks) (\<lambda>v. map_sum id Some (conv v)) None upd kv m = Inr (upd v m)"
  proof (cases v)
    case None
    then show ?thesis by (simp add: put_option_def json_field_def)
  next
    case (Some x)
    with assms obtain j where "to_json x = Inr j" "j \<noteq> ANull" "conv j = Inr x" by blast
    with Some show ?thesis by (simp add: put_option_def json_field_def)
  qed
qed

lemma field_message:
  assumes "json_back ok to_json conv" and "pred_option ok v"
  shows "field_back (k # ks) (put_option k to_json v) (json_option (k # ks) conv upd) m (upd v m)"
  by (rule field_option) (use assms in \<open>auto simp: json_back_def\<close>)

lemma convert_all_back:
  assumes "json_back ok to_json conv" and "list_all ok vs"
  shows "\<exists>js. map_json to_json vs = Inr js \<and> convert_all conv js = Inr vs"
  using assms(2)
proof (induction vs)
  case (Cons v vs)
  with assms(1) obtain j js where "to_json v = Inr j" "conv j = Inr v"
    and "map_json to_json vs = Inr js" "convert_all conv js = Inr vs"
    by (auto simp: json_back_def)
  then show ?case by simp
qed simp

lemma find_never [simp]: "find (\<lambda>_. False) xs = None"
  by (induction xs) simp_all

lemma field_messages:
  assumes "json_back ok to_json conv" and "list_all ok vs"
  shows "field_back (k # ks) (put_list k to_json vs) (json_list (k # ks) conv upd) m (upd vs m)"
  by (rule field_back_local, erule (1) json_list_apart)
    (use convert_all_back [OF assms] in \<open>auto simp: put_list_def json_list_def\<close>)

lemma field_strings: "field_back (k # ks) (put_list k (\<lambda>s. Inr (AStr s)) vs) (json_list (k # ks) to_String upd) m (upd vs m)"
proof -
  have "json_back (\<lambda>_. True) (\<lambda>s. Inr (AStr s)) to_String" by (simp add: json_back_def)
  from field_messages [OF this] show ?thesis by (simp add: list_all_iff)
qed

text \<open>A date of a typed object, and its texts.\<close>

lemma field_partial_date:
  "field_back (k # ks) (put_option k (\<lambda>d. Inr (ADate d)) v) (json_option (k # ks) as_date upd) m (upd v m)"
  by (rule field_option) simp

lemma field_partial_strings:
  "field_back (k # ks) (put_list k (\<lambda>s. Inr (AStr s)) vs) (json_list (k # ks) as_string upd) m (upd vs m)"
proof -
  have "json_back (\<lambda>_. True) (\<lambda>s. Inr (AStr s)) as_string" by (simp add: json_back_def)
  from field_messages [OF this] show ?thesis by (simp add: list_all_iff)
qed

lemma all_ok [simp]: "list_all (\<lambda>_. True) vs" "pred_option (\<lambda>_. True) v"
  by (simp_all add: list_all_iff option.pred_True)

lemmas field_intros = fields_back_Cons field_string field_bytes field_number field_nat field_bigint field_boolean
  field_enum field_message field_messages field_strings

lemmas partial_intros = fields_back_Cons field_partial field_partial_date field_partial_strings field_message field_messages

end
