(* ===== verification/PayerJson.thy ===== *)
theory PayerJson
  imports JsonForm PayerCodec
begin

text \<open>
  The JSON forms of the payer service's messages
  (\<^verbatim>\<open>src/providers/payerDaemon/gen/livepeer/payments/v1/payer_daemon.ts\<close>), as in the theory of the
  resolver's.
\<close>

section \<open>Payer service\<close>

definition fromJSON_CreatePaymentRequest :: "runtime \<Rightarrow> CreatePaymentRequest conv" where
  "fromJSON_CreatePaymentRequest R = from_fields False
     [json_field [''faceValue'', ''face_value''] (bytesFromBase64 R) [] (\<lambda>v m. m\<lparr>cp_faceValue := v\<rparr>),
      json_field [''recipient''] (bytesFromBase64 R) [] (\<lambda>v m. m\<lparr>cp_recipient := v\<rparr>),
      json_field [''capability''] to_String [] (\<lambda>v m. m\<lparr>cp_capability := v\<rparr>),
      json_field [''offering''] to_String [] (\<lambda>v m. m\<lparr>cp_offering := v\<rparr>)] createBaseCreatePaymentRequest"

definition toJSON_CreatePaymentRequest :: "CreatePaymentRequest \<Rightarrow> json_fault + any" where
  "toJSON_CreatePaymentRequest m = to_fields
     [put (cp_faceValue m \<noteq> []) ''faceValue'' (AStr (base64FromBytes (cp_faceValue m))),
      put (cp_recipient m \<noteq> []) ''recipient'' (AStr (base64FromBytes (cp_recipient m))),
      put (cp_capability m \<noteq> []) ''capability'' (AStr (cp_capability m)),
      put (cp_offering m \<noteq> []) ''offering'' (AStr (cp_offering m))]"

definition fromPartial_CreatePaymentRequest :: "CreatePaymentRequest conv" where
  "fromPartial_CreatePaymentRequest = from_partial
     [json_field [''faceValue''] as_bytes [] (\<lambda>v m. m\<lparr>cp_faceValue := v\<rparr>),
      json_field [''recipient''] as_bytes [] (\<lambda>v m. m\<lparr>cp_recipient := v\<rparr>),
      json_field [''capability''] as_string [] (\<lambda>v m. m\<lparr>cp_capability := v\<rparr>),
      json_field [''offering''] as_string [] (\<lambda>v m. m\<lparr>cp_offering := v\<rparr>)] createBaseCreatePaymentRequest"

definition create_CreatePaymentRequest :: "any option \<Rightarrow> json_fault + CreatePaymentRequest" where
  "create_CreatePaymentRequest = create_from fromPartial_CreatePaymentRequest"

definition plain_CreatePaymentRequest :: "CreatePaymentRequest \<Rightarrow> json_fault + any" where
  "plain_CreatePaymentRequest m = to_fields
     [put True ''faceValue'' (ABytes (cp_faceValue m)),
      put True ''recipient'' (ABytes (cp_recipient m)),
      put True ''capability'' (AStr (cp_capability m)),
      put True ''offering'' (AStr (cp_offering m))]"

lemma CreatePaymentRequest_json [json_backs]: "json_back (\<lambda>_. True) toJSON_CreatePaymentRequest (fromJSON_CreatePaymentRequest R)"
  by (rule json_backI, rule toJSON_CreatePaymentRequest_def, rule from_object(1) [OF fromJSON_CreatePaymentRequest_def], rule exI)
    ((rule field_intros json_backs | rule fields_back_Nil, simp add: createBaseCreatePaymentRequest_def | simp add: fields_back_Nil; fail)+)

lemma CreatePaymentRequest_partial [partial_backs]: "json_back (\<lambda>_. True) plain_CreatePaymentRequest fromPartial_CreatePaymentRequest"
  by (rule json_backI, rule plain_CreatePaymentRequest_def, rule from_object(2) [OF fromPartial_CreatePaymentRequest_def], rule exI)
    ((rule partial_intros partial_backs | rule fields_back_Nil, simp add: createBaseCreatePaymentRequest_def | simp; fail)+)

definition fromJSON_CreatePaymentResponse :: "runtime \<Rightarrow> CreatePaymentResponse conv" where
  "fromJSON_CreatePaymentResponse R = from_fields False
     [json_field [''paymentBytes'', ''payment_bytes''] (bytesFromBase64 R) [] (\<lambda>v m. m\<lparr>cr_paymentBytes := v\<rparr>),
      json_field [''ticketsCreated'', ''tickets_created''] to_Number 0 (\<lambda>v m. m\<lparr>cr_ticketsCreated := v\<rparr>),
      json_field [''expectedValue'', ''expected_value''] (bytesFromBase64 R) [] (\<lambda>v m. m\<lparr>cr_expectedValue := v\<rparr>)] createBaseCreatePaymentResponse"

definition toJSON_CreatePaymentResponse :: "CreatePaymentResponse \<Rightarrow> json_fault + any" where
  "toJSON_CreatePaymentResponse m = to_fields
     [put (cr_paymentBytes m \<noteq> []) ''paymentBytes'' (AStr (base64FromBytes (cr_paymentBytes m))),
      put (cr_ticketsCreated m \<noteq> 0) ''ticketsCreated'' (ANum (cr_ticketsCreated m)),
      put (cr_expectedValue m \<noteq> []) ''expectedValue'' (AStr (base64FromBytes (cr_expectedValue m)))]"

definition fromPartial_CreatePaymentResponse :: "CreatePaymentResponse conv" where
  "fromPartial_CreatePaymentResponse = from_partial
     [json_field [''paymentBytes''] as_bytes [] (\<lambda>v m. m\<lparr>cr_paymentBytes := v\<rparr>),
      json_field [''ticketsCreated''] as_number 0 (\<lambda>v m. m\<lparr>cr_ticketsCreated := v\<rparr>),
      json_field [''expectedValue''] as_bytes [] (\<lambda>v m. m\<lparr>cr_expectedValue := v\<rparr>)] createBaseCreatePaymentResponse"

definition create_CreatePaymentResponse :: "any option \<Rightarrow> json_fault + CreatePaymentResponse" where
  "create_CreatePaymentResponse = create_from fromPartial_CreatePaymentResponse"

definition plain_CreatePaymentResponse :: "CreatePaymentResponse \<Rightarrow> json_fault + any" where
  "plain_CreatePaymentResponse m = to_fields
     [put True ''paymentBytes'' (ABytes (cr_paymentBytes m)),
      put True ''ticketsCreated'' (ANum (cr_ticketsCreated m)),
      put True ''expectedValue'' (ABytes (cr_expectedValue m))]"

lemma CreatePaymentResponse_json [json_backs]: "json_back (\<lambda>_. True) toJSON_CreatePaymentResponse (fromJSON_CreatePaymentResponse R)"
  by (rule json_backI, rule toJSON_CreatePaymentResponse_def, rule from_object(1) [OF fromJSON_CreatePaymentResponse_def], rule exI)
    ((rule field_intros json_backs | rule fields_back_Nil, simp add: createBaseCreatePaymentResponse_def | simp add: fields_back_Nil; fail)+)

lemma CreatePaymentResponse_partial [partial_backs]: "json_back (\<lambda>_. True) plain_CreatePaymentResponse fromPartial_CreatePaymentResponse"
  by (rule json_backI, rule plain_CreatePaymentResponse_def, rule from_object(2) [OF fromPartial_CreatePaymentResponse_def], rule exI)
    ((rule partial_intros partial_backs | rule fields_back_Nil, simp add: createBaseCreatePaymentResponse_def | simp; fail)+)

definition fromJSON_GetDepositInfoRequest :: "runtime \<Rightarrow> unit conv" where
  "fromJSON_GetDepositInfoRequest R v = Inr createBaseGetDepositInfoRequest"

definition toJSON_GetDepositInfoRequest :: "unit \<Rightarrow> json_fault + any" where
  "toJSON_GetDepositInfoRequest m = to_fields []"

definition fromPartial_GetDepositInfoRequest :: "unit conv" where
  "fromPartial_GetDepositInfoRequest v = Inr createBaseGetDepositInfoRequest"

definition create_GetDepositInfoRequest :: "any option \<Rightarrow> json_fault + unit" where
  "create_GetDepositInfoRequest = create_from fromPartial_GetDepositInfoRequest"

definition fromJSON_GetDepositInfoResponse :: "runtime \<Rightarrow> GetDepositInfoResponse conv" where
  "fromJSON_GetDepositInfoResponse R = from_fields False
     [json_field [''deposit''] (bytesFromBase64 R) [] (\<lambda>v m. m\<lparr>gd_deposit := v\<rparr>),
      json_field [''reserve''] (bytesFromBase64 R) [] (\<lambda>v m. m\<lparr>gd_reserve := v\<rparr>),
      json_field [''withdrawRound'', ''withdraw_round''] to_BigInt 0 (\<lambda>v m. m\<lparr>gd_withdrawRound := v\<rparr>)] createBaseGetDepositInfoResponse"

definition toJSON_GetDepositInfoResponse :: "GetDepositInfoResponse \<Rightarrow> json_fault + any" where
  "toJSON_GetDepositInfoResponse m = to_fields
     [put (gd_deposit m \<noteq> []) ''deposit'' (AStr (base64FromBytes (gd_deposit m))),
      put (gd_reserve m \<noteq> []) ''reserve'' (AStr (base64FromBytes (gd_reserve m))),
      put (gd_withdrawRound m \<noteq> 0) ''withdrawRound'' (AStr (show_int (gd_withdrawRound m)))]"

definition fromPartial_GetDepositInfoResponse :: "GetDepositInfoResponse conv" where
  "fromPartial_GetDepositInfoResponse = from_partial
     [json_field [''deposit''] as_bytes [] (\<lambda>v m. m\<lparr>gd_deposit := v\<rparr>),
      json_field [''reserve''] as_bytes [] (\<lambda>v m. m\<lparr>gd_reserve := v\<rparr>),
      json_field [''withdrawRound''] as_bigint 0 (\<lambda>v m. m\<lparr>gd_withdrawRound := v\<rparr>)] createBaseGetDepositInfoResponse"

definition create_GetDepositInfoResponse :: "any option \<Rightarrow> json_fault + GetDepositInfoResponse" where
  "create_GetDepositInfoResponse = create_from fromPartial_GetDepositInfoResponse"

definition plain_GetDepositInfoResponse :: "GetDepositInfoResponse \<Rightarrow> json_fault + any" where
  "plain_GetDepositInfoResponse m = to_fields
     [put True ''deposit'' (ABytes (gd_deposit m)),
      put True ''reserve'' (ABytes (gd_reserve m)),
      put True ''withdrawRound'' (ABig (gd_withdrawRound m))]"

lemma GetDepositInfoResponse_json [json_backs]: "json_back (\<lambda>_. True) toJSON_GetDepositInfoResponse (fromJSON_GetDepositInfoResponse R)"
  by (rule json_backI, rule toJSON_GetDepositInfoResponse_def, rule from_object(1) [OF fromJSON_GetDepositInfoResponse_def], rule exI)
    ((rule field_intros json_backs | rule fields_back_Nil, simp add: createBaseGetDepositInfoResponse_def | simp add: fields_back_Nil; fail)+)

lemma GetDepositInfoResponse_partial [partial_backs]: "json_back (\<lambda>_. True) plain_GetDepositInfoResponse fromPartial_GetDepositInfoResponse"
  by (rule json_backI, rule plain_GetDepositInfoResponse_def, rule from_object(2) [OF fromPartial_GetDepositInfoResponse_def], rule exI)
    ((rule partial_intros partial_backs | rule fields_back_Nil, simp add: createBaseGetDepositInfoResponse_def | simp; fail)+)

end
