(* ===== verification/PayeeJson.thy ===== *)
theory PayeeJson
  imports JsonForm PayeeCodec
begin

text \<open>
  The JSON forms of the payment types and of the payee service's messages
  (\<^verbatim>\<open>types.ts\<close> and \<^verbatim>\<open>payee_daemon.ts\<close> of \<^verbatim>\<open>src/providers/payerDaemon/gen/livepeer/payments/v1\<close>), as in
  the theory of the resolver's.
\<close>

section \<open>Payment types\<close>

definition fromJSON_PriceInfo :: "runtime \<Rightarrow> PriceInfo conv" where
  "fromJSON_PriceInfo R = from_fields False
     [json_field [''pricePerUnit'', ''price_per_unit''] to_BigInt 0 (\<lambda>v m. m\<lparr>pi_pricePerUnit := v\<rparr>),
      json_field [''pixelsPerUnit'', ''pixels_per_unit''] to_BigInt 0 (\<lambda>v m. m\<lparr>pi_pixelsPerUnit := v\<rparr>),
      json_field [''capability''] to_Nat 0 (\<lambda>v m. m\<lparr>pi_capability := v\<rparr>),
      json_field [''constraint''] to_String [] (\<lambda>v m. m\<lparr>pi_constraint := v\<rparr>)] createBasePriceInfo"

definition toJSON_PriceInfo :: "PriceInfo \<Rightarrow> json_fault + any" where
  "toJSON_PriceInfo m = to_fields
     [put (pi_pricePerUnit m \<noteq> 0) ''pricePerUnit'' (AStr (show_int (pi_pricePerUnit m))),
      put (pi_pixelsPerUnit m \<noteq> 0) ''pixelsPerUnit'' (AStr (show_int (pi_pixelsPerUnit m))),
      put (pi_capability m \<noteq> 0) ''capability'' (ANum (int (pi_capability m))),
      put (pi_constraint m \<noteq> []) ''constraint'' (AStr (pi_constraint m))]"

definition fromPartial_PriceInfo :: "PriceInfo conv" where
  "fromPartial_PriceInfo = from_partial
     [json_field [''pricePerUnit''] as_bigint 0 (\<lambda>v m. m\<lparr>pi_pricePerUnit := v\<rparr>),
      json_field [''pixelsPerUnit''] as_bigint 0 (\<lambda>v m. m\<lparr>pi_pixelsPerUnit := v\<rparr>),
      json_field [''capability''] as_nat 0 (\<lambda>v m. m\<lparr>pi_capability := v\<rparr>),
      json_field [''constraint''] as_string [] (\<lambda>v m. m\<lparr>pi_constraint := v\<rparr>)] createBasePriceInfo"

definition create_PriceInfo :: "any option \<Rightarrow> json_fault + PriceInfo" where
  "create_PriceInfo = create_from fromPartial_PriceInfo"

definition plain_PriceInfo :: "PriceInfo \<Rightarrow> json_fault + any" where
  "plain_PriceInfo m = to_fields
     [put True ''pricePerUnit'' (ABig (pi_pricePerUnit m)),
      put True ''pixelsPerUnit'' (ABig (pi_pixelsPerUnit m)),
      put True ''capability'' (ANum (int (pi_capability m))),
      put True ''constraint'' (AStr (pi_constraint m))]"

lemma PriceInfo_json [json_backs]: "json_back (\<lambda>_. True) toJSON_PriceInfo (fromJSON_PriceInfo R)"
  by (rule json_backI, rule toJSON_PriceInfo_def, rule from_object(1) [OF fromJSON_PriceInfo_def], rule exI)
    ((rule field_intros json_backs | rule fields_back_Nil, simp add: createBasePriceInfo_def | simp add: fields_back_Nil; fail)+)

lemma PriceInfo_partial [partial_backs]: "json_back (\<lambda>_. True) plain_PriceInfo fromPartial_PriceInfo"
  by (rule json_backI, rule plain_PriceInfo_def, rule from_object(2) [OF fromPartial_PriceInfo_def], rule exI)
    ((rule partial_intros partial_backs | rule fields_back_Nil, simp add: createBasePriceInfo_def | simp; fail)+)

definition fromJSON_TicketExpirationParams :: "runtime \<Rightarrow> TicketExpirationParams conv" where
  "fromJSON_TicketExpirationParams R = from_fields False
     [json_field [''creationRound'', ''creation_round''] to_BigInt 0 (\<lambda>v m. m\<lparr>tep_creationRound := v\<rparr>),
      json_field [''creationRoundBlockHash'', ''creation_round_block_hash''] (bytesFromBase64 R) [] (\<lambda>v m. m\<lparr>tep_creationRoundBlockHash := v\<rparr>)] createBaseTicketExpirationParams"

definition toJSON_TicketExpirationParams :: "TicketExpirationParams \<Rightarrow> json_fault + any" where
  "toJSON_TicketExpirationParams m = to_fields
     [put (tep_creationRound m \<noteq> 0) ''creationRound'' (AStr (show_int (tep_creationRound m))),
      put (tep_creationRoundBlockHash m \<noteq> []) ''creationRoundBlockHash'' (AStr (base64FromBytes (tep_creationRoundBlockHash m)))]"

definition fromPartial_TicketExpirationParams :: "TicketExpirationParams conv" where
  "fromPartial_TicketExpirationParams = from_partial
     [json_field [''creationRound''] as_bigint 0 (\<lambda>v m. m\<lparr>tep_creationRound := v\<rparr>),
      json_field [''creationRoundBlockHash''] as_bytes [] (\<lambda>v m. m\<lparr>tep_creationRoundBlockHash := v\<rparr>)] createBaseTicketExpirationParams"

definition create_TicketExpirationParams :: "any option \<Rightarrow> json_fault + TicketExpirationParams" where
  "create_TicketExpirationParams = create_from fromPartial_TicketExpirationParams"

definition plain_TicketExpirationParams :: "TicketExpirationParams \<Rightarrow> json_fault + any" where
  "plain_TicketExpirationParams m = to_fields
     [put True ''creationRound'' (ABig (tep_creationRound m)),
      put True ''creationRoundBlockHash'' (ABytes (tep_creationRoundBlockHash m))]"

lemma TicketExpirationParams_json [json_backs]: "json_back (\<lambda>_. True) toJSON_TicketExpirationParams (fromJSON_TicketExpirationParams R)"
  by (rule json_backI, rule toJSON_TicketExpirationParams_def, rule from_object(1) [OF fromJSON_TicketExpirationParams_def], rule exI)
    ((rule field_intros json_backs | rule fields_back_Nil, simp add: createBaseTicketExpirationParams_def | simp add: fields_back_Nil; fail)+)

lemma TicketExpirationParams_partial [partial_backs]: "json_back (\<lambda>_. True) plain_TicketExpirationParams fromPartial_TicketExpirationParams"
  by (rule json_backI, rule plain_TicketExpirationParams_def, rule from_object(2) [OF fromPartial_TicketExpirationParams_def], rule exI)
    ((rule partial_intros partial_backs | rule fields_back_Nil, simp add: createBaseTicketExpirationParams_def | simp; fail)+)

definition fromJSON_TicketParams :: "runtime \<Rightarrow> TicketParams conv" where
  "fromJSON_TicketParams R = from_fields False
     [json_field [''recipient''] (bytesFromBase64 R) [] (\<lambda>v m. m\<lparr>tp_recipient := v\<rparr>),
      json_field [''faceValue'', ''face_value''] (bytesFromBase64 R) [] (\<lambda>v m. m\<lparr>tp_faceValue := v\<rparr>),
      json_field [''winProb'', ''win_prob''] (bytesFromBase64 R) [] (\<lambda>v m. m\<lparr>tp_winProb := v\<rparr>),
      json_field [''recipientRandHash'', ''recipient_rand_hash''] (bytesFromBase64 R) [] (\<lambda>v m. m\<lparr>tp_recipientRandHash := v\<rparr>),
      json_field [''seed''] (bytesFromBase64 R) [] (\<lambda>v m. m\<lparr>tp_seed := v\<rparr>),
      json_field [''expirationBlock'', ''expiration_block''] (bytesFromBase64 R) [] (\<lambda>v m. m\<lparr>tp_expirationBlock := v\<rparr>),
      json_option [''expirationParams'', ''expiration_params''] (fromJSON_TicketExpirationParams R) (\<lambda>v m. m\<lparr>tp_expirationParams := v\<rparr>)] createBaseTicketParams"

definition toJSON_TicketParams :: "TicketParams \<Rightarrow> json_fault + any" where
  "toJSON_TicketParams m = to_fields
     [put (tp_recipient m \<noteq> []) ''recipient'' (AStr (base64FromBytes (tp_recipient m))),
      put (tp_faceValue m \<noteq> []) ''faceValue'' (AStr (base64FromBytes (tp_faceValue m))),
      put (tp_winProb m \<noteq> []) ''winProb'' (AStr (base64FromBytes (tp_winProb m))),
      put (tp_recipientRandHash m \<noteq> []) ''recipientRandHash'' (AStr (base64FromBytes (tp_recipientRandHash m))),
      put (tp_seed m \<noteq> []) ''seed'' (AStr (base64FromBytes (tp_seed m))),
      put (tp_expirationBlock m \<noteq> []) ''expirationBlock'' (AStr (base64FromBytes (tp_expirationBlock m))),
      put_option ''expirationParams'' toJSON_TicketExpirationParams (tp_expirationParams m)]"

definition fromPartial_TicketParams :: "TicketParams conv" where
  "fromPartial_TicketParams = from_partial
     [json_field [''recipient''] as_bytes [] (\<lambda>v m. m\<lparr>tp_recipient := v\<rparr>),
      json_field [''faceValue''] as_bytes [] (\<lambda>v m. m\<lparr>tp_faceValue := v\<rparr>),
      json_field [''winProb''] as_bytes [] (\<lambda>v m. m\<lparr>tp_winProb := v\<rparr>),
      json_field [''recipientRandHash''] as_bytes [] (\<lambda>v m. m\<lparr>tp_recipientRandHash := v\<rparr>),
      json_field [''seed''] as_bytes [] (\<lambda>v m. m\<lparr>tp_seed := v\<rparr>),
      json_field [''expirationBlock''] as_bytes [] (\<lambda>v m. m\<lparr>tp_expirationBlock := v\<rparr>),
      json_option [''expirationParams''] fromPartial_TicketExpirationParams (\<lambda>v m. m\<lparr>tp_expirationParams := v\<rparr>)] createBaseTicketParams"

definition create_TicketParams :: "any option \<Rightarrow> json_fault + TicketParams" where
  "create_TicketParams = create_from fromPartial_TicketParams"

definition plain_TicketParams :: "TicketParams \<Rightarrow> json_fault + any" where
  "plain_TicketParams m = to_fields
     [put True ''recipient'' (ABytes (tp_recipient m)),
      put True ''faceValue'' (ABytes (tp_faceValue m)),
      put True ''winProb'' (ABytes (tp_winProb m)),
      put True ''recipientRandHash'' (ABytes (tp_recipientRandHash m)),
      put True ''seed'' (ABytes (tp_seed m)),
      put True ''expirationBlock'' (ABytes (tp_expirationBlock m)),
      put_option ''expirationParams'' plain_TicketExpirationParams (tp_expirationParams m)]"

lemma TicketParams_json [json_backs]: "json_back (\<lambda>_. True) toJSON_TicketParams (fromJSON_TicketParams R)"
  by (rule json_backI, rule toJSON_TicketParams_def, rule from_object(1) [OF fromJSON_TicketParams_def], rule exI)
    ((rule field_intros json_backs | rule fields_back_Nil, simp add: createBaseTicketParams_def | simp add: fields_back_Nil; fail)+)

lemma TicketParams_partial [partial_backs]: "json_back (\<lambda>_. True) plain_TicketParams fromPartial_TicketParams"
  by (rule json_backI, rule plain_TicketParams_def, rule from_object(2) [OF fromPartial_TicketParams_def], rule exI)
    ((rule partial_intros partial_backs | rule fields_back_Nil, simp add: createBaseTicketParams_def | simp; fail)+)

definition fromJSON_TicketSenderParams :: "runtime \<Rightarrow> TicketSenderParams conv" where
  "fromJSON_TicketSenderParams R = from_fields False
     [json_field [''senderNonce'', ''sender_nonce''] to_Nat 0 (\<lambda>v m. m\<lparr>tsp_senderNonce := v\<rparr>),
      json_field [''sig''] (bytesFromBase64 R) [] (\<lambda>v m. m\<lparr>tsp_sig := v\<rparr>)] createBaseTicketSenderParams"

definition toJSON_TicketSenderParams :: "TicketSenderParams \<Rightarrow> json_fault + any" where
  "toJSON_TicketSenderParams m = to_fields
     [put (tsp_senderNonce m \<noteq> 0) ''senderNonce'' (ANum (int (tsp_senderNonce m))),
      put (tsp_sig m \<noteq> []) ''sig'' (AStr (base64FromBytes (tsp_sig m)))]"

definition fromPartial_TicketSenderParams :: "TicketSenderParams conv" where
  "fromPartial_TicketSenderParams = from_partial
     [json_field [''senderNonce''] as_nat 0 (\<lambda>v m. m\<lparr>tsp_senderNonce := v\<rparr>),
      json_field [''sig''] as_bytes [] (\<lambda>v m. m\<lparr>tsp_sig := v\<rparr>)] createBaseTicketSenderParams"

definition create_TicketSenderParams :: "any option \<Rightarrow> json_fault + TicketSenderParams" where
  "create_TicketSenderParams = create_from fromPartial_TicketSenderParams"

definition plain_TicketSenderParams :: "TicketSenderParams \<Rightarrow> json_fault + any" where
  "plain_TicketSenderParams m = to_fields
     [put True ''senderNonce'' (ANum (int (tsp_senderNonce m))),
      put True ''sig'' (ABytes (tsp_sig m))]"

lemma TicketSenderParams_json [json_backs]: "json_back (\<lambda>_. True) toJSON_TicketSenderParams (fromJSON_TicketSenderParams R)"
  by (rule json_backI, rule toJSON_TicketSenderParams_def, rule from_object(1) [OF fromJSON_TicketSenderParams_def], rule exI)
    ((rule field_intros json_backs | rule fields_back_Nil, simp add: createBaseTicketSenderParams_def | simp add: fields_back_Nil; fail)+)

lemma TicketSenderParams_partial [partial_backs]: "json_back (\<lambda>_. True) plain_TicketSenderParams fromPartial_TicketSenderParams"
  by (rule json_backI, rule plain_TicketSenderParams_def, rule from_object(2) [OF fromPartial_TicketSenderParams_def], rule exI)
    ((rule partial_intros partial_backs | rule fields_back_Nil, simp add: createBaseTicketSenderParams_def | simp; fail)+)

definition fromJSON_Payment :: "runtime \<Rightarrow> Payment conv" where
  "fromJSON_Payment R = from_fields False
     [json_option [''ticketParams'', ''ticket_params''] (fromJSON_TicketParams R) (\<lambda>v m. m\<lparr>p_ticketParams := v\<rparr>),
      json_field [''sender''] (bytesFromBase64 R) [] (\<lambda>v m. m\<lparr>p_sender := v\<rparr>),
      json_option [''expirationParams'', ''expiration_params''] (fromJSON_TicketExpirationParams R) (\<lambda>v m. m\<lparr>p_expirationParams := v\<rparr>),
      json_list [''ticketSenderParams'', ''ticket_sender_params''] (fromJSON_TicketSenderParams R) (\<lambda>v m. m\<lparr>p_ticketSenderParams := v\<rparr>),
      json_option [''expectedPrice'', ''expected_price''] (fromJSON_PriceInfo R) (\<lambda>v m. m\<lparr>p_expectedPrice := v\<rparr>)] createBasePayment"

definition toJSON_Payment :: "Payment \<Rightarrow> json_fault + any" where
  "toJSON_Payment m = to_fields
     [put_option ''ticketParams'' toJSON_TicketParams (p_ticketParams m),
      put (p_sender m \<noteq> []) ''sender'' (AStr (base64FromBytes (p_sender m))),
      put_option ''expirationParams'' toJSON_TicketExpirationParams (p_expirationParams m),
      put_list ''ticketSenderParams'' toJSON_TicketSenderParams (p_ticketSenderParams m),
      put_option ''expectedPrice'' toJSON_PriceInfo (p_expectedPrice m)]"

definition fromPartial_Payment :: "Payment conv" where
  "fromPartial_Payment = from_partial
     [json_option [''ticketParams''] fromPartial_TicketParams (\<lambda>v m. m\<lparr>p_ticketParams := v\<rparr>),
      json_field [''sender''] as_bytes [] (\<lambda>v m. m\<lparr>p_sender := v\<rparr>),
      json_option [''expirationParams''] fromPartial_TicketExpirationParams (\<lambda>v m. m\<lparr>p_expirationParams := v\<rparr>),
      json_list [''ticketSenderParams''] fromPartial_TicketSenderParams (\<lambda>v m. m\<lparr>p_ticketSenderParams := v\<rparr>),
      json_option [''expectedPrice''] fromPartial_PriceInfo (\<lambda>v m. m\<lparr>p_expectedPrice := v\<rparr>)] createBasePayment"

definition create_Payment :: "any option \<Rightarrow> json_fault + Payment" where
  "create_Payment = create_from fromPartial_Payment"

definition plain_Payment :: "Payment \<Rightarrow> json_fault + any" where
  "plain_Payment m = to_fields
     [put_option ''ticketParams'' plain_TicketParams (p_ticketParams m),
      put True ''sender'' (ABytes (p_sender m)),
      put_option ''expirationParams'' plain_TicketExpirationParams (p_expirationParams m),
      put_list ''ticketSenderParams'' plain_TicketSenderParams (p_ticketSenderParams m),
      put_option ''expectedPrice'' plain_PriceInfo (p_expectedPrice m)]"

lemma Payment_json [json_backs]: "json_back (\<lambda>_. True) toJSON_Payment (fromJSON_Payment R)"
  by (rule json_backI, rule toJSON_Payment_def, rule from_object(1) [OF fromJSON_Payment_def], rule exI)
    ((rule field_intros json_backs | rule fields_back_Nil, simp add: createBasePayment_def | simp add: fields_back_Nil; fail)+)

lemma Payment_partial [partial_backs]: "json_back (\<lambda>_. True) plain_Payment fromPartial_Payment"
  by (rule json_backI, rule plain_Payment_def, rule from_object(2) [OF fromPartial_Payment_def], rule exI)
    ((rule partial_intros partial_backs | rule fields_back_Nil, simp add: createBasePayment_def | simp; fail)+)

section \<open>Payee service: enumerations\<close>

definition OpenSessionResponse_Outcome_table :: enum_table where
  "OpenSessionResponse_Outcome_table =
     [(0, ''OUTCOME_UNSPECIFIED''), (1, ''OUTCOME_OPENED''), (2, ''OUTCOME_ALREADY_OPEN'')]"

definition openSessionResponse_OutcomeFromJSON :: "int conv" where
  "openSessionResponse_OutcomeFromJSON = enumFromJSON OpenSessionResponse_Outcome_table"

definition openSessionResponse_OutcomeToJSON :: "int \<Rightarrow> any" where
  "openSessionResponse_OutcomeToJSON = enumToJSON OpenSessionResponse_Outcome_table"

lemma OpenSessionResponse_Outcome_table_proper: "enum_proper OpenSessionResponse_Outcome_table"
  by (simp add: enum_proper_def OpenSessionResponse_Outcome_table_def)

definition PayeeDaemonCloseSessionResponse_Outcome_table :: enum_table where
  "PayeeDaemonCloseSessionResponse_Outcome_table =
     [(0, ''OUTCOME_UNSPECIFIED''), (1, ''OUTCOME_CLOSED''), (2, ''OUTCOME_ALREADY_CLOSED'')]"

definition payeeDaemonCloseSessionResponse_OutcomeFromJSON :: "int conv" where
  "payeeDaemonCloseSessionResponse_OutcomeFromJSON = enumFromJSON PayeeDaemonCloseSessionResponse_Outcome_table"

definition payeeDaemonCloseSessionResponse_OutcomeToJSON :: "int \<Rightarrow> any" where
  "payeeDaemonCloseSessionResponse_OutcomeToJSON = enumToJSON PayeeDaemonCloseSessionResponse_Outcome_table"

lemma PayeeDaemonCloseSessionResponse_Outcome_table_proper: "enum_proper PayeeDaemonCloseSessionResponse_Outcome_table"
  by (simp add: enum_proper_def PayeeDaemonCloseSessionResponse_Outcome_table_def)

definition GetRedemptionStatusResponse_Status_table :: enum_table where
  "GetRedemptionStatusResponse_Status_table =
     [(0, ''STATUS_UNSPECIFIED''), (1, ''STATUS_QUEUED''), (2, ''STATUS_SUBMITTED''), (3, ''STATUS_CONFIRMED''),
      (4, ''STATUS_FAILED'')]"

definition getRedemptionStatusResponse_StatusFromJSON :: "int conv" where
  "getRedemptionStatusResponse_StatusFromJSON = enumFromJSON GetRedemptionStatusResponse_Status_table"

definition getRedemptionStatusResponse_StatusToJSON :: "int \<Rightarrow> any" where
  "getRedemptionStatusResponse_StatusToJSON = enumToJSON GetRedemptionStatusResponse_Status_table"

lemma GetRedemptionStatusResponse_Status_table_proper: "enum_proper GetRedemptionStatusResponse_Status_table"
  by (simp add: enum_proper_def GetRedemptionStatusResponse_Status_table_def)

section \<open>Payee service\<close>

definition fromJSON_GetQuoteRequest :: "runtime \<Rightarrow> GetQuoteRequest conv" where
  "fromJSON_GetQuoteRequest R = from_fields False
     [json_field [''sender''] (bytesFromBase64 R) [] (\<lambda>v m. m\<lparr>gqr_sender := v\<rparr>),
      json_field [''capability''] to_String [] (\<lambda>v m. m\<lparr>gqr_capability := v\<rparr>)] createBaseGetQuoteRequest"

definition toJSON_GetQuoteRequest :: "GetQuoteRequest \<Rightarrow> json_fault + any" where
  "toJSON_GetQuoteRequest m = to_fields
     [put (gqr_sender m \<noteq> []) ''sender'' (AStr (base64FromBytes (gqr_sender m))),
      put (gqr_capability m \<noteq> []) ''capability'' (AStr (gqr_capability m))]"

definition fromPartial_GetQuoteRequest :: "GetQuoteRequest conv" where
  "fromPartial_GetQuoteRequest = from_partial
     [json_field [''sender''] as_bytes [] (\<lambda>v m. m\<lparr>gqr_sender := v\<rparr>),
      json_field [''capability''] as_string [] (\<lambda>v m. m\<lparr>gqr_capability := v\<rparr>)] createBaseGetQuoteRequest"

definition create_GetQuoteRequest :: "any option \<Rightarrow> json_fault + GetQuoteRequest" where
  "create_GetQuoteRequest = create_from fromPartial_GetQuoteRequest"

definition plain_GetQuoteRequest :: "GetQuoteRequest \<Rightarrow> json_fault + any" where
  "plain_GetQuoteRequest m = to_fields
     [put True ''sender'' (ABytes (gqr_sender m)),
      put True ''capability'' (AStr (gqr_capability m))]"

lemma GetQuoteRequest_json [json_backs]: "json_back (\<lambda>_. True) toJSON_GetQuoteRequest (fromJSON_GetQuoteRequest R)"
  by (rule json_backI, rule toJSON_GetQuoteRequest_def, rule from_object(1) [OF fromJSON_GetQuoteRequest_def], rule exI)
    ((rule field_intros json_backs | rule fields_back_Nil, simp add: createBaseGetQuoteRequest_def | simp add: fields_back_Nil; fail)+)

lemma GetQuoteRequest_partial [partial_backs]: "json_back (\<lambda>_. True) plain_GetQuoteRequest fromPartial_GetQuoteRequest"
  by (rule json_backI, rule plain_GetQuoteRequest_def, rule from_object(2) [OF fromPartial_GetQuoteRequest_def], rule exI)
    ((rule partial_intros partial_backs | rule fields_back_Nil, simp add: createBaseGetQuoteRequest_def | simp; fail)+)

definition fromJSON_OfferingPrice :: "runtime \<Rightarrow> OfferingPrice conv" where
  "fromJSON_OfferingPrice R = from_fields False
     [json_field [''id''] to_String [] (\<lambda>v m. m\<lparr>op_id := v\<rparr>),
      json_option [''priceInfo'', ''price_info''] (fromJSON_PriceInfo R) (\<lambda>v m. m\<lparr>op_priceInfo := v\<rparr>)] createBaseOfferingPrice"

definition toJSON_OfferingPrice :: "OfferingPrice \<Rightarrow> json_fault + any" where
  "toJSON_OfferingPrice m = to_fields
     [put (op_id m \<noteq> []) ''id'' (AStr (op_id m)),
      put_option ''priceInfo'' toJSON_PriceInfo (op_priceInfo m)]"

definition fromPartial_OfferingPrice :: "OfferingPrice conv" where
  "fromPartial_OfferingPrice = from_partial
     [json_field [''id''] as_string [] (\<lambda>v m. m\<lparr>op_id := v\<rparr>),
      json_option [''priceInfo''] fromPartial_PriceInfo (\<lambda>v m. m\<lparr>op_priceInfo := v\<rparr>)] createBaseOfferingPrice"

definition create_OfferingPrice :: "any option \<Rightarrow> json_fault + OfferingPrice" where
  "create_OfferingPrice = create_from fromPartial_OfferingPrice"

definition plain_OfferingPrice :: "OfferingPrice \<Rightarrow> json_fault + any" where
  "plain_OfferingPrice m = to_fields
     [put True ''id'' (AStr (op_id m)),
      put_option ''priceInfo'' plain_PriceInfo (op_priceInfo m)]"

lemma OfferingPrice_json [json_backs]: "json_back (\<lambda>_. True) toJSON_OfferingPrice (fromJSON_OfferingPrice R)"
  by (rule json_backI, rule toJSON_OfferingPrice_def, rule from_object(1) [OF fromJSON_OfferingPrice_def], rule exI)
    ((rule field_intros json_backs | rule fields_back_Nil, simp add: createBaseOfferingPrice_def | simp add: fields_back_Nil; fail)+)

lemma OfferingPrice_partial [partial_backs]: "json_back (\<lambda>_. True) plain_OfferingPrice fromPartial_OfferingPrice"
  by (rule json_backI, rule plain_OfferingPrice_def, rule from_object(2) [OF fromPartial_OfferingPrice_def], rule exI)
    ((rule partial_intros partial_backs | rule fields_back_Nil, simp add: createBaseOfferingPrice_def | simp; fail)+)

definition fromJSON_GetQuoteResponse :: "runtime \<Rightarrow> GetQuoteResponse conv" where
  "fromJSON_GetQuoteResponse R = from_fields False
     [json_option [''ticketParams'', ''ticket_params''] (fromJSON_TicketParams R) (\<lambda>v m. m\<lparr>gqr2_ticketParams := v\<rparr>),
      json_list [''offeringPrices'', ''offering_prices''] (fromJSON_OfferingPrice R) (\<lambda>v m. m\<lparr>gqr2_offeringPrices := v\<rparr>)] createBaseGetQuoteResponse"

definition toJSON_GetQuoteResponse :: "GetQuoteResponse \<Rightarrow> json_fault + any" where
  "toJSON_GetQuoteResponse m = to_fields
     [put_option ''ticketParams'' toJSON_TicketParams (gqr2_ticketParams m),
      put_list ''offeringPrices'' toJSON_OfferingPrice (gqr2_offeringPrices m)]"

definition fromPartial_GetQuoteResponse :: "GetQuoteResponse conv" where
  "fromPartial_GetQuoteResponse = from_partial
     [json_option [''ticketParams''] fromPartial_TicketParams (\<lambda>v m. m\<lparr>gqr2_ticketParams := v\<rparr>),
      json_list [''offeringPrices''] fromPartial_OfferingPrice (\<lambda>v m. m\<lparr>gqr2_offeringPrices := v\<rparr>)] createBaseGetQuoteResponse"

definition create_GetQuoteResponse :: "any option \<Rightarrow> json_fault + GetQuoteResponse" where
  "create_GetQuoteResponse = create_from fromPartial_GetQuoteResponse"

definition plain_GetQuoteResponse :: "GetQuoteResponse \<Rightarrow> json_fault + any" where
  "plain_GetQuoteResponse m = to_fields
     [put_option ''ticketParams'' plain_TicketParams (gqr2_ticketParams m),
      put_list ''offeringPrices'' plain_OfferingPrice (gqr2_offeringPrices m)]"

lemma GetQuoteResponse_json [json_backs]: "json_back (\<lambda>_. True) toJSON_GetQuoteResponse (fromJSON_GetQuoteResponse R)"
  by (rule json_backI, rule toJSON_GetQuoteResponse_def, rule from_object(1) [OF fromJSON_GetQuoteResponse_def], rule exI)
    ((rule field_intros json_backs | rule fields_back_Nil, simp add: createBaseGetQuoteResponse_def | simp add: fields_back_Nil; fail)+)

lemma GetQuoteResponse_partial [partial_backs]: "json_back (\<lambda>_. True) plain_GetQuoteResponse fromPartial_GetQuoteResponse"
  by (rule json_backI, rule plain_GetQuoteResponse_def, rule from_object(2) [OF fromPartial_GetQuoteResponse_def], rule exI)
    ((rule partial_intros partial_backs | rule fields_back_Nil, simp add: createBaseGetQuoteResponse_def | simp; fail)+)

definition fromJSON_GetTicketParamsRequest :: "runtime \<Rightarrow> GetTicketParamsRequest conv" where
  "fromJSON_GetTicketParamsRequest R = from_fields False
     [json_field [''sender''] (bytesFromBase64 R) [] (\<lambda>v m. m\<lparr>gtpr_sender := v\<rparr>),
      json_field [''recipient''] (bytesFromBase64 R) [] (\<lambda>v m. m\<lparr>gtpr_recipient := v\<rparr>),
      json_field [''faceValue'', ''face_value''] (bytesFromBase64 R) [] (\<lambda>v m. m\<lparr>gtpr_faceValue := v\<rparr>),
      json_field [''capability''] to_String [] (\<lambda>v m. m\<lparr>gtpr_capability := v\<rparr>),
      json_field [''offering''] to_String [] (\<lambda>v m. m\<lparr>gtpr_offering := v\<rparr>)] createBaseGetTicketParamsRequest"

definition toJSON_GetTicketParamsRequest :: "GetTicketParamsRequest \<Rightarrow> json_fault + any" where
  "toJSON_GetTicketParamsRequest m = to_fields
     [put (gtpr_sender m \<noteq> []) ''sender'' (AStr (base64FromBytes (gtpr_sender m))),
      put (gtpr_recipient m \<noteq> []) ''recipient'' (AStr (base64FromBytes (gtpr_recipient m))),
      put (gtpr_faceValue m \<noteq> []) ''faceValue'' (AStr (base64FromBytes (gtpr_faceValue m))),
      put (gtpr_capability m \<noteq> []) ''capability'' (AStr (gtpr_capability m)),
      put (gtpr_offering m \<noteq> []) ''offering'' (AStr (gtpr_offering m))]"

definition fromPartial_GetTicketParamsRequest :: "GetTicketParamsRequest conv" where
  "fromPartial_GetTicketParamsRequest = from_partial
     [json_field [''sender''] as_bytes [] (\<lambda>v m. m\<lparr>gtpr_sender := v\<rparr>),
      json_field [''recipient''] as_bytes [] (\<lambda>v m. m\<lparr>gtpr_recipient := v\<rparr>),
      json_field [''faceValue''] as_bytes [] (\<lambda>v m. m\<lparr>gtpr_faceValue := v\<rparr>),
      json_field [''capability''] as_string [] (\<lambda>v m. m\<lparr>gtpr_capability := v\<rparr>),
      json_field [''offering''] as_string [] (\<lambda>v m. m\<lparr>gtpr_offering := v\<rparr>)] createBaseGetTicketParamsRequest"

definition create_GetTicketParamsRequest :: "any option \<Rightarrow> json_fault + GetTicketParamsRequest" where
  "create_GetTicketParamsRequest = create_from fromPartial_GetTicketParamsRequest"

definition plain_GetTicketParamsRequest :: "GetTicketParamsRequest \<Rightarrow> json_fault + any" where
  "plain_GetTicketParamsRequest m = to_fields
     [put True ''sender'' (ABytes (gtpr_sender m)),
      put True ''recipient'' (ABytes (gtpr_recipient m)),
      put True ''faceValue'' (ABytes (gtpr_faceValue m)),
      put True ''capability'' (AStr (gtpr_capability m)),
      put True ''offering'' (AStr (gtpr_offering m))]"

lemma GetTicketParamsRequest_json [json_backs]: "json_back (\<lambda>_. True) toJSON_GetTicketParamsRequest (fromJSON_GetTicketParamsRequest R)"
  by (rule json_backI, rule toJSON_GetTicketParamsRequest_def, rule from_object(1) [OF fromJSON_GetTicketParamsRequest_def], rule exI)
    ((rule field_intros json_backs | rule fields_back_Nil, simp add: createBaseGetTicketParamsRequest_def | simp add: fields_back_Nil; fail)+)

lemma GetTicketParamsRequest_partial [partial_backs]: "json_back (\<lambda>_. True) plain_GetTicketParamsRequest fromPartial_GetTicketParamsRequest"
  by (rule json_backI, rule plain_GetTicketParamsRequest_def, rule from_object(2) [OF fromPartial_GetTicketParamsRequest_def], rule exI)
    ((rule partial_intros partial_backs | rule fields_back_Nil, simp add: createBaseGetTicketParamsRequest_def | simp; fail)+)

definition fromJSON_GetTicketParamsResponse :: "runtime \<Rightarrow> GetTicketParamsResponse conv" where
  "fromJSON_GetTicketParamsResponse R = from_fields False
     [json_option [''ticketParams'', ''ticket_params''] (fromJSON_TicketParams R) (\<lambda>v m. m\<lparr>gtpr2_ticketParams := v\<rparr>)] createBaseGetTicketParamsResponse"

definition toJSON_GetTicketParamsResponse :: "GetTicketParamsResponse \<Rightarrow> json_fault + any" where
  "toJSON_GetTicketParamsResponse m = to_fields
     [put_option ''ticketParams'' toJSON_TicketParams (gtpr2_ticketParams m)]"

definition fromPartial_GetTicketParamsResponse :: "GetTicketParamsResponse conv" where
  "fromPartial_GetTicketParamsResponse = from_partial
     [json_option [''ticketParams''] fromPartial_TicketParams (\<lambda>v m. m\<lparr>gtpr2_ticketParams := v\<rparr>)] createBaseGetTicketParamsResponse"

definition create_GetTicketParamsResponse :: "any option \<Rightarrow> json_fault + GetTicketParamsResponse" where
  "create_GetTicketParamsResponse = create_from fromPartial_GetTicketParamsResponse"

definition plain_GetTicketParamsResponse :: "GetTicketParamsResponse \<Rightarrow> json_fault + any" where
  "plain_GetTicketParamsResponse m = to_fields
     [put_option ''ticketParams'' plain_TicketParams (gtpr2_ticketParams m)]"

lemma GetTicketParamsResponse_json [json_backs]: "json_back (\<lambda>_. True) toJSON_GetTicketParamsResponse (fromJSON_GetTicketParamsResponse R)"
  by (rule json_backI, rule toJSON_GetTicketParamsResponse_def, rule from_object(1) [OF fromJSON_GetTicketParamsResponse_def], rule exI)
    ((rule field_intros json_backs | rule fields_back_Nil, simp add: createBaseGetTicketParamsResponse_def | simp add: fields_back_Nil; fail)+)

lemma GetTicketParamsResponse_partial [partial_backs]: "json_back (\<lambda>_. True) plain_GetTicketParamsResponse fromPartial_GetTicketParamsResponse"
  by (rule json_backI, rule plain_GetTicketParamsResponse_def, rule from_object(2) [OF fromPartial_GetTicketParamsResponse_def], rule exI)
    ((rule partial_intros partial_backs | rule fields_back_Nil, simp add: createBaseGetTicketParamsResponse_def | simp; fail)+)

definition fromJSON_ListCapabilitiesRequest :: "runtime \<Rightarrow> unit conv" where
  "fromJSON_ListCapabilitiesRequest R v = Inr createBaseListCapabilitiesRequest"

definition toJSON_ListCapabilitiesRequest :: "unit \<Rightarrow> json_fault + any" where
  "toJSON_ListCapabilitiesRequest m = to_fields []"

definition fromPartial_ListCapabilitiesRequest :: "unit conv" where
  "fromPartial_ListCapabilitiesRequest v = Inr createBaseListCapabilitiesRequest"

definition create_ListCapabilitiesRequest :: "any option \<Rightarrow> json_fault + unit" where
  "create_ListCapabilitiesRequest = create_from fromPartial_ListCapabilitiesRequest"

definition fromJSON_CapabilityEntry :: "runtime \<Rightarrow> CapabilityEntry conv" where
  "fromJSON_CapabilityEntry R = from_fields False
     [json_field [''capability''] to_String [] (\<lambda>v m. m\<lparr>ce_capability := v\<rparr>),
      json_field [''workUnit'', ''work_unit''] to_String [] (\<lambda>v m. m\<lparr>ce_workUnit := v\<rparr>),
      json_list [''offerings''] (fromJSON_OfferingPrice R) (\<lambda>v m. m\<lparr>ce_offerings := v\<rparr>)] createBaseCapabilityEntry"

definition toJSON_CapabilityEntry :: "CapabilityEntry \<Rightarrow> json_fault + any" where
  "toJSON_CapabilityEntry m = to_fields
     [put (ce_capability m \<noteq> []) ''capability'' (AStr (ce_capability m)),
      put (ce_workUnit m \<noteq> []) ''workUnit'' (AStr (ce_workUnit m)),
      put_list ''offerings'' toJSON_OfferingPrice (ce_offerings m)]"

definition fromPartial_CapabilityEntry :: "CapabilityEntry conv" where
  "fromPartial_CapabilityEntry = from_partial
     [json_field [''capability''] as_string [] (\<lambda>v m. m\<lparr>ce_capability := v\<rparr>),
      json_field [''workUnit''] as_string [] (\<lambda>v m. m\<lparr>ce_workUnit := v\<rparr>),
      json_list [''offerings''] fromPartial_OfferingPrice (\<lambda>v m. m\<lparr>ce_offerings := v\<rparr>)] createBaseCapabilityEntry"

definition create_CapabilityEntry :: "any option \<Rightarrow> json_fault + CapabilityEntry" where
  "create_CapabilityEntry = create_from fromPartial_CapabilityEntry"

definition plain_CapabilityEntry :: "CapabilityEntry \<Rightarrow> json_fault + any" where
  "plain_CapabilityEntry m = to_fields
     [put True ''capability'' (AStr (ce_capability m)),
      put True ''workUnit'' (AStr (ce_workUnit m)),
      put_list ''offerings'' plain_OfferingPrice (ce_offerings m)]"

lemma CapabilityEntry_json [json_backs]: "json_back (\<lambda>_. True) toJSON_CapabilityEntry (fromJSON_CapabilityEntry R)"
  by (rule json_backI, rule toJSON_CapabilityEntry_def, rule from_object(1) [OF fromJSON_CapabilityEntry_def], rule exI)
    ((rule field_intros json_backs | rule fields_back_Nil, simp add: createBaseCapabilityEntry_def | simp add: fields_back_Nil; fail)+)

lemma CapabilityEntry_partial [partial_backs]: "json_back (\<lambda>_. True) plain_CapabilityEntry fromPartial_CapabilityEntry"
  by (rule json_backI, rule plain_CapabilityEntry_def, rule from_object(2) [OF fromPartial_CapabilityEntry_def], rule exI)
    ((rule partial_intros partial_backs | rule fields_back_Nil, simp add: createBaseCapabilityEntry_def | simp; fail)+)

definition fromJSON_ListCapabilitiesResponse :: "runtime \<Rightarrow> ListCapabilitiesResponse conv" where
  "fromJSON_ListCapabilitiesResponse R = from_fields True
     [json_list [''capabilities''] (fromJSON_CapabilityEntry R) (\<lambda>v m. m\<lparr>lcr_capabilities := v\<rparr>)] createBaseListCapabilitiesResponse"

definition toJSON_ListCapabilitiesResponse :: "ListCapabilitiesResponse \<Rightarrow> json_fault + any" where
  "toJSON_ListCapabilitiesResponse m = to_fields
     [put_list ''capabilities'' toJSON_CapabilityEntry (lcr_capabilities m)]"

definition fromPartial_ListCapabilitiesResponse :: "ListCapabilitiesResponse conv" where
  "fromPartial_ListCapabilitiesResponse = from_partial
     [json_list [''capabilities''] fromPartial_CapabilityEntry (\<lambda>v m. m\<lparr>lcr_capabilities := v\<rparr>)] createBaseListCapabilitiesResponse"

definition create_ListCapabilitiesResponse :: "any option \<Rightarrow> json_fault + ListCapabilitiesResponse" where
  "create_ListCapabilitiesResponse = create_from fromPartial_ListCapabilitiesResponse"

definition plain_ListCapabilitiesResponse :: "ListCapabilitiesResponse \<Rightarrow> json_fault + any" where
  "plain_ListCapabilitiesResponse m = to_fields
     [put_list ''capabilities'' plain_CapabilityEntry (lcr_capabilities m)]"

lemma ListCapabilitiesResponse_json [json_backs]: "json_back (\<lambda>_. True) toJSON_ListCapabilitiesResponse (fromJSON_ListCapabilitiesResponse R)"
  by (rule json_backI, rule toJSON_ListCapabilitiesResponse_def, rule from_object(1) [OF fromJSON_ListCapabilitiesResponse_def], rule exI)
    ((rule field_intros json_backs | rule fields_back_Nil, simp add: createBaseListCapabilitiesResponse_def | simp add: fields_back_Nil; fail)+)

lemma ListCapabilitiesResponse_partial [partial_backs]: "json_back (\<lambda>_. True) plain_ListCapabilitiesResponse fromPartial_ListCapabilitiesResponse"
  by (rule json_backI, rule plain_ListCapabilitiesResponse_def, rule from_object(2) [OF fromPartial_ListCapabilitiesResponse_def], rule exI)
    ((rule partial_intros partial_backs | rule fields_back_Nil, simp add: createBaseListCapabilitiesResponse_def | simp; fail)+)

definition fromJSON_OpenSessionRequest :: "runtime \<Rightarrow> OpenSessionRequest conv" where
  "fromJSON_OpenSessionRequest R = from_fields False
     [json_field [''workId'', ''work_id''] to_String [] (\<lambda>v m. m\<lparr>osr_workId := v\<rparr>),
      json_field [''capability''] to_String [] (\<lambda>v m. m\<lparr>osr_capability := v\<rparr>),
      json_field [''offering''] to_String [] (\<lambda>v m. m\<lparr>osr_offering := v\<rparr>),
      json_field [''pricePerWorkUnitWei'', ''price_per_work_unit_wei''] (bytesFromBase64 R) [] (\<lambda>v m. m\<lparr>osr_pricePerWorkUnitWei := v\<rparr>),
      json_field [''workUnit'', ''work_unit''] to_String [] (\<lambda>v m. m\<lparr>osr_workUnit := v\<rparr>)] createBaseOpenSessionRequest"

definition toJSON_OpenSessionRequest :: "OpenSessionRequest \<Rightarrow> json_fault + any" where
  "toJSON_OpenSessionRequest m = to_fields
     [put (osr_workId m \<noteq> []) ''workId'' (AStr (osr_workId m)),
      put (osr_capability m \<noteq> []) ''capability'' (AStr (osr_capability m)),
      put (osr_offering m \<noteq> []) ''offering'' (AStr (osr_offering m)),
      put (osr_pricePerWorkUnitWei m \<noteq> []) ''pricePerWorkUnitWei'' (AStr (base64FromBytes (osr_pricePerWorkUnitWei m))),
      put (osr_workUnit m \<noteq> []) ''workUnit'' (AStr (osr_workUnit m))]"

definition fromPartial_OpenSessionRequest :: "OpenSessionRequest conv" where
  "fromPartial_OpenSessionRequest = from_partial
     [json_field [''workId''] as_string [] (\<lambda>v m. m\<lparr>osr_workId := v\<rparr>),
      json_field [''capability''] as_string [] (\<lambda>v m. m\<lparr>osr_capability := v\<rparr>),
      json_field [''offering''] as_string [] (\<lambda>v m. m\<lparr>osr_offering := v\<rparr>),
      json_field [''pricePerWorkUnitWei''] as_bytes [] (\<lambda>v m. m\<lparr>osr_pricePerWorkUnitWei := v\<rparr>),
      json_field [''workUnit''] as_string [] (\<lambda>v m. m\<lparr>osr_workUnit := v\<rparr>)] createBaseOpenSessionRequest"

definition create_OpenSessionRequest :: "any option \<Rightarrow> json_fault + OpenSessionRequest" where
  "create_OpenSessionRequest = create_from fromPartial_OpenSessionRequest"

definition plain_OpenSessionRequest :: "OpenSessionRequest \<Rightarrow> json_fault + any" where
  "plain_OpenSessionRequest m = to_fields
     [put True ''workId'' (AStr (osr_workId m)),
      put True ''capability'' (AStr (osr_capability m)),
      put True ''offering'' (AStr (osr_offering m)),
      put True ''pricePerWorkUnitWei'' (ABytes (osr_pricePerWorkUnitWei m)),
      put True ''workUnit'' (AStr (osr_workUnit m))]"

lemma OpenSessionRequest_json [json_backs]: "json_back (\<lambda>_. True) toJSON_OpenSessionRequest (fromJSON_OpenSessionRequest R)"
  by (rule json_backI, rule toJSON_OpenSessionRequest_def, rule from_object(1) [OF fromJSON_OpenSessionRequest_def], rule exI)
    ((rule field_intros json_backs | rule fields_back_Nil, simp add: createBaseOpenSessionRequest_def | simp add: fields_back_Nil; fail)+)

lemma OpenSessionRequest_partial [partial_backs]: "json_back (\<lambda>_. True) plain_OpenSessionRequest fromPartial_OpenSessionRequest"
  by (rule json_backI, rule plain_OpenSessionRequest_def, rule from_object(2) [OF fromPartial_OpenSessionRequest_def], rule exI)
    ((rule partial_intros partial_backs | rule fields_back_Nil, simp add: createBaseOpenSessionRequest_def | simp; fail)+)

definition fromJSON_OpenSessionResponse :: "runtime \<Rightarrow> OpenSessionResponse conv" where
  "fromJSON_OpenSessionResponse R = from_fields False
     [json_field [''outcome''] openSessionResponse_OutcomeFromJSON 0 (\<lambda>v m. m\<lparr>osr2_outcome := v\<rparr>)] createBaseOpenSessionResponse"

definition toJSON_OpenSessionResponse :: "OpenSessionResponse \<Rightarrow> json_fault + any" where
  "toJSON_OpenSessionResponse m = to_fields
     [put (osr2_outcome m \<noteq> 0) ''outcome'' (openSessionResponse_OutcomeToJSON (osr2_outcome m))]"

definition fromPartial_OpenSessionResponse :: "OpenSessionResponse conv" where
  "fromPartial_OpenSessionResponse = from_partial
     [json_field [''outcome''] as_number 0 (\<lambda>v m. m\<lparr>osr2_outcome := v\<rparr>)] createBaseOpenSessionResponse"

definition create_OpenSessionResponse :: "any option \<Rightarrow> json_fault + OpenSessionResponse" where
  "create_OpenSessionResponse = create_from fromPartial_OpenSessionResponse"

definition plain_OpenSessionResponse :: "OpenSessionResponse \<Rightarrow> json_fault + any" where
  "plain_OpenSessionResponse m = to_fields
     [put True ''outcome'' (ANum (osr2_outcome m))]"

definition known_OpenSessionResponse :: "OpenSessionResponse \<Rightarrow> bool" where
  "known_OpenSessionResponse m \<longleftrightarrow> enum_ok OpenSessionResponse_Outcome_table (osr2_outcome m)"

lemma OpenSessionResponse_json [json_backs]: "json_back known_OpenSessionResponse toJSON_OpenSessionResponse (fromJSON_OpenSessionResponse R)"
  by (rule json_backI, rule toJSON_OpenSessionResponse_def, rule from_object(1) [OF fromJSON_OpenSessionResponse_def], rule exI, unfold openSessionResponse_OutcomeFromJSON_def openSessionResponse_OutcomeToJSON_def)
    ((rule field_intros json_backs OpenSessionResponse_Outcome_table_proper | rule fields_back_Nil, simp add: createBaseOpenSessionResponse_def | simp add: fields_back_Nil known_OpenSessionResponse_def; fail)+)

lemma OpenSessionResponse_partial [partial_backs]: "json_back (\<lambda>_. True) plain_OpenSessionResponse fromPartial_OpenSessionResponse"
  by (rule json_backI, rule plain_OpenSessionResponse_def, rule from_object(2) [OF fromPartial_OpenSessionResponse_def], rule exI)
    ((rule partial_intros partial_backs | rule fields_back_Nil, simp add: createBaseOpenSessionResponse_def | simp; fail)+)

definition fromJSON_ProcessPaymentRequest :: "runtime \<Rightarrow> ProcessPaymentRequest conv" where
  "fromJSON_ProcessPaymentRequest R = from_fields False
     [json_field [''paymentBytes'', ''payment_bytes''] (bytesFromBase64 R) [] (\<lambda>v m. m\<lparr>ppr_paymentBytes := v\<rparr>),
      json_field [''workId'', ''work_id''] to_String [] (\<lambda>v m. m\<lparr>ppr_workId := v\<rparr>)] createBaseProcessPaymentRequest"

definition toJSON_ProcessPaymentRequest :: "ProcessPaymentRequest \<Rightarrow> json_fault + any" where
  "toJSON_ProcessPaymentRequest m = to_fields
     [put (ppr_paymentBytes m \<noteq> []) ''paymentBytes'' (AStr (base64FromBytes (ppr_paymentBytes m))),
      put (ppr_workId m \<noteq> []) ''workId'' (AStr (ppr_workId m))]"

definition fromPartial_ProcessPaymentRequest :: "ProcessPaymentRequest conv" where
  "fromPartial_ProcessPaymentRequest = from_partial
     [json_field [''paymentBytes''] as_bytes [] (\<lambda>v m. m\<lparr>ppr_paymentBytes := v\<rparr>),
      json_field [''workId''] as_string [] (\<lambda>v m. m\<lparr>ppr_workId := v\<rparr>)] createBaseProcessPaymentRequest"

definition create_ProcessPaymentRequest :: "any option \<Rightarrow> json_fault + ProcessPaymentRequest" where
  "create_ProcessPaymentRequest = create_from fromPartial_ProcessPaymentRequest"

definition plain_ProcessPaymentRequest :: "ProcessPaymentRequest \<Rightarrow> json_fault + any" where
  "plain_ProcessPaymentRequest m = to_fields
     [put True ''paymentBytes'' (ABytes (ppr_paymentBytes m)),
      put True ''workId'' (AStr (ppr_workId m))]"

lemma ProcessPaymentRequest_json [json_backs]: "json_back (\<lambda>_. True) toJSON_ProcessPaymentRequest (fromJSON_ProcessPaymentRequest R)"
  by (rule json_backI, rule toJSON_ProcessPaymentRequest_def, rule from_object(1) [OF fromJSON_ProcessPaymentRequest_def], rule exI)
    ((rule field_intros json_backs | rule fields_back_Nil, simp add: createBaseProcessPaymentRequest_def | simp add: fields_back_Nil; fail)+)

lemma ProcessPaymentRequest_partial [partial_backs]: "json_back (\<lambda>_. True) plain_ProcessPaymentRequest fromPartial_ProcessPaymentRequest"
  by (rule json_backI, rule plain_ProcessPaymentRequest_def, rule from_object(2) [OF fromPartial_ProcessPaymentRequest_def], rule exI)
    ((rule partial_intros partial_backs | rule fields_back_Nil, simp add: createBaseProcessPaymentRequest_def | simp; fail)+)

definition fromJSON_ProcessPaymentResponse :: "runtime \<Rightarrow> ProcessPaymentResponse conv" where
  "fromJSON_ProcessPaymentResponse R = from_fields False
     [json_field [''sender''] (bytesFromBase64 R) [] (\<lambda>v m. m\<lparr>ppr2_sender := v\<rparr>),
      json_field [''creditedEv'', ''credited_ev''] (bytesFromBase64 R) [] (\<lambda>v m. m\<lparr>ppr2_creditedEv := v\<rparr>),
      json_field [''balance''] (bytesFromBase64 R) [] (\<lambda>v m. m\<lparr>ppr2_balance := v\<rparr>),
      json_field [''winnersQueued'', ''winners_queued''] to_Number 0 (\<lambda>v m. m\<lparr>ppr2_winnersQueued := v\<rparr>)] createBaseProcessPaymentResponse"

definition toJSON_ProcessPaymentResponse :: "ProcessPaymentResponse \<Rightarrow> json_fault + any" where
  "toJSON_ProcessPaymentResponse m = to_fields
     [put (ppr2_sender m \<noteq> []) ''sender'' (AStr (base64FromBytes (ppr2_sender m))),
      put (ppr2_creditedEv m \<noteq> []) ''creditedEv'' (AStr (base64FromBytes (ppr2_creditedEv m))),
      put (ppr2_balance m \<noteq> []) ''balance'' (AStr (base64FromBytes (ppr2_balance m))),
      put (ppr2_winnersQueued m \<noteq> 0) ''winnersQueued'' (ANum (ppr2_winnersQueued m))]"

definition fromPartial_ProcessPaymentResponse :: "ProcessPaymentResponse conv" where
  "fromPartial_ProcessPaymentResponse = from_partial
     [json_field [''sender''] as_bytes [] (\<lambda>v m. m\<lparr>ppr2_sender := v\<rparr>),
      json_field [''creditedEv''] as_bytes [] (\<lambda>v m. m\<lparr>ppr2_creditedEv := v\<rparr>),
      json_field [''balance''] as_bytes [] (\<lambda>v m. m\<lparr>ppr2_balance := v\<rparr>),
      json_field [''winnersQueued''] as_number 0 (\<lambda>v m. m\<lparr>ppr2_winnersQueued := v\<rparr>)] createBaseProcessPaymentResponse"

definition create_ProcessPaymentResponse :: "any option \<Rightarrow> json_fault + ProcessPaymentResponse" where
  "create_ProcessPaymentResponse = create_from fromPartial_ProcessPaymentResponse"

definition plain_ProcessPaymentResponse :: "ProcessPaymentResponse \<Rightarrow> json_fault + any" where
  "plain_ProcessPaymentResponse m = to_fields
     [put True ''sender'' (ABytes (ppr2_sender m)),
      put True ''creditedEv'' (ABytes (ppr2_creditedEv m)),
      put True ''balance'' (ABytes (ppr2_balance m)),
      put True ''winnersQueued'' (ANum (ppr2_winnersQueued m))]"

lemma ProcessPaymentResponse_json [json_backs]: "json_back (\<lambda>_. True) toJSON_ProcessPaymentResponse (fromJSON_ProcessPaymentResponse R)"
  by (rule json_backI, rule toJSON_ProcessPaymentResponse_def, rule from_object(1) [OF fromJSON_ProcessPaymentResponse_def], rule exI)
    ((rule field_intros json_backs | rule fields_back_Nil, simp add: createBaseProcessPaymentResponse_def | simp add: fields_back_Nil; fail)+)

lemma ProcessPaymentResponse_partial [partial_backs]: "json_back (\<lambda>_. True) plain_ProcessPaymentResponse fromPartial_ProcessPaymentResponse"
  by (rule json_backI, rule plain_ProcessPaymentResponse_def, rule from_object(2) [OF fromPartial_ProcessPaymentResponse_def], rule exI)
    ((rule partial_intros partial_backs | rule fields_back_Nil, simp add: createBaseProcessPaymentResponse_def | simp; fail)+)

definition fromJSON_DebitBalanceRequest :: "runtime \<Rightarrow> DebitBalanceRequest conv" where
  "fromJSON_DebitBalanceRequest R = from_fields False
     [json_field [''sender''] (bytesFromBase64 R) [] (\<lambda>v m. m\<lparr>dbr_sender := v\<rparr>),
      json_field [''workId'', ''work_id''] to_String [] (\<lambda>v m. m\<lparr>dbr_workId := v\<rparr>),
      json_field [''workUnits'', ''work_units''] to_BigInt 0 (\<lambda>v m. m\<lparr>dbr_workUnits := v\<rparr>),
      json_field [''debitSeq'', ''debit_seq''] to_BigInt 0 (\<lambda>v m. m\<lparr>dbr_debitSeq := v\<rparr>)] createBaseDebitBalanceRequest"

definition toJSON_DebitBalanceRequest :: "DebitBalanceRequest \<Rightarrow> json_fault + any" where
  "toJSON_DebitBalanceRequest m = to_fields
     [put (dbr_sender m \<noteq> []) ''sender'' (AStr (base64FromBytes (dbr_sender m))),
      put (dbr_workId m \<noteq> []) ''workId'' (AStr (dbr_workId m)),
      put (dbr_workUnits m \<noteq> 0) ''workUnits'' (AStr (show_int (dbr_workUnits m))),
      put (dbr_debitSeq m \<noteq> 0) ''debitSeq'' (AStr (show_int (dbr_debitSeq m)))]"

definition fromPartial_DebitBalanceRequest :: "DebitBalanceRequest conv" where
  "fromPartial_DebitBalanceRequest = from_partial
     [json_field [''sender''] as_bytes [] (\<lambda>v m. m\<lparr>dbr_sender := v\<rparr>),
      json_field [''workId''] as_string [] (\<lambda>v m. m\<lparr>dbr_workId := v\<rparr>),
      json_field [''workUnits''] as_bigint 0 (\<lambda>v m. m\<lparr>dbr_workUnits := v\<rparr>),
      json_field [''debitSeq''] as_bigint 0 (\<lambda>v m. m\<lparr>dbr_debitSeq := v\<rparr>)] createBaseDebitBalanceRequest"

definition create_DebitBalanceRequest :: "any option \<Rightarrow> json_fault + DebitBalanceRequest" where
  "create_DebitBalanceRequest = create_from fromPartial_DebitBalanceRequest"

definition plain_DebitBalanceRequest :: "DebitBalanceRequest \<Rightarrow> json_fault + any" where
  "plain_DebitBalanceRequest m = to_fields
     [put True ''sender'' (ABytes (dbr_sender m)),
      put True ''workId'' (AStr (dbr_workId m)),
      put True ''workUnits'' (ABig (dbr_workUnits m)),
      put True ''debitSeq'' (ABig (dbr_debitSeq m))]"

lemma DebitBalanceRequest_json [json_backs]: "json_back (\<lambda>_. True) toJSON_DebitBalanceRequest (fromJSON_DebitBalanceRequest R)"
  by (rule json_backI, rule toJSON_DebitBalanceRequest_def, rule from_object(1) [OF fromJSON_DebitBalanceRequest_def], rule exI)
    ((rule field_intros json_backs | rule fields_back_Nil, simp add: createBaseDebitBalanceRequest_def | simp add: fields_back_Nil; fail)+)

lemma DebitBalanceRequest_partial [partial_backs]: "json_back (\<lambda>_. True) plain_DebitBalanceRequest fromPartial_DebitBalanceRequest"
  by (rule json_backI, rule plain_DebitBalanceRequest_def, rule from_object(2) [OF fromPartial_DebitBalanceRequest_def], rule exI)
    ((rule partial_intros partial_backs | rule fields_back_Nil, simp add: createBaseDebitBalanceRequest_def | simp; fail)+)

definition fromJSON_DebitBalanceResponse :: "runtime \<Rightarrow> DebitBalanceResponse conv" where
  "fromJSON_DebitBalanceResponse R = from_fields False
     [json_field [''balance''] (bytesFromBase64 R) [] (\<lambda>v m. m\<lparr>dbr2_balance := v\<rparr>)] createBaseDebitBalanceResponse"

definition toJSON_DebitBalanceResponse :: "DebitBalanceResponse \<Rightarrow> json_fault + any" where
  "toJSON_DebitBalanceResponse m = to_fields
     [put (dbr2_balance m \<noteq> []) ''balance'' (AStr (base64FromBytes (dbr2_balance m)))]"

definition fromPartial_DebitBalanceResponse :: "DebitBalanceResponse conv" where
  "fromPartial_DebitBalanceResponse = from_partial
     [json_field [''balance''] as_bytes [] (\<lambda>v m. m\<lparr>dbr2_balance := v\<rparr>)] createBaseDebitBalanceResponse"

definition create_DebitBalanceResponse :: "any option \<Rightarrow> json_fault + DebitBalanceResponse" where
  "create_DebitBalanceResponse = create_from fromPartial_DebitBalanceResponse"

definition plain_DebitBalanceResponse :: "DebitBalanceResponse \<Rightarrow> json_fault + any" where
  "plain_DebitBalanceResponse m = to_fields
     [put True ''balance'' (ABytes (dbr2_balance m))]"

lemma DebitBalanceResponse_json [json_backs]: "json_back (\<lambda>_. True) toJSON_DebitBalanceResponse (fromJSON_DebitBalanceResponse R)"
  by (rule json_backI, rule toJSON_DebitBalanceResponse_def, rule from_object(1) [OF fromJSON_DebitBalanceResponse_def], rule exI)
    ((rule field_intros json_backs | rule fields_back_Nil, simp add: createBaseDebitBalanceResponse_def | simp add: fields_back_Nil; fail)+)

lemma DebitBalanceResponse_partial [partial_backs]: "json_back (\<lambda>_. True) plain_DebitBalanceResponse fromPartial_DebitBalanceResponse"
  by (rule json_backI, rule plain_DebitBalanceResponse_def, rule from_object(2) [OF fromPartial_DebitBalanceResponse_def], rule exI)
    ((rule partial_intros partial_backs | rule fields_back_Nil, simp add: createBaseDebitBalanceResponse_def | simp; fail)+)

definition fromJSON_SufficientBalanceRequest :: "runtime \<Rightarrow> SufficientBalanceRequest conv" where
  "fromJSON_SufficientBalanceRequest R = from_fields False
     [json_field [''sender''] (bytesFromBase64 R) [] (\<lambda>v m. m\<lparr>sbr_sender := v\<rparr>),
      json_field [''workId'', ''work_id''] to_String [] (\<lambda>v m. m\<lparr>sbr_workId := v\<rparr>),
      json_field [''minWorkUnits'', ''min_work_units''] to_BigInt 0 (\<lambda>v m. m\<lparr>sbr_minWorkUnits := v\<rparr>)] createBaseSufficientBalanceRequest"

definition toJSON_SufficientBalanceRequest :: "SufficientBalanceRequest \<Rightarrow> json_fault + any" where
  "toJSON_SufficientBalanceRequest m = to_fields
     [put (sbr_sender m \<noteq> []) ''sender'' (AStr (base64FromBytes (sbr_sender m))),
      put (sbr_workId m \<noteq> []) ''workId'' (AStr (sbr_workId m)),
      put (sbr_minWorkUnits m \<noteq> 0) ''minWorkUnits'' (AStr (show_int (sbr_minWorkUnits m)))]"

definition fromPartial_SufficientBalanceRequest :: "SufficientBalanceRequest conv" where
  "fromPartial_SufficientBalanceRequest = from_partial
     [json_field [''sender''] as_bytes [] (\<lambda>v m. m\<lparr>sbr_sender := v\<rparr>),
      json_field [''workId''] as_string [] (\<lambda>v m. m\<lparr>sbr_workId := v\<rparr>),
      json_field [''minWorkUnits''] as_bigint 0 (\<lambda>v m. m\<lparr>sbr_minWorkUnits := v\<rparr>)] createBaseSufficientBalanceRequest"

definition create_SufficientBalanceRequest :: "any option \<Rightarrow> json_fault + SufficientBalanceRequest" where
  "create_SufficientBalanceRequest = create_from fromPartial_SufficientBalanceRequest"

definition plain_SufficientBalanceRequest :: "SufficientBalanceRequest \<Rightarrow> json_fault + any" where
  "plain_SufficientBalanceRequest m = to_fields
     [put True ''sender'' (ABytes (sbr_sender m)),
      put True ''workId'' (AStr (sbr_workId m)),
      put True ''minWorkUnits'' (ABig (sbr_minWorkUnits m))]"

lemma SufficientBalanceRequest_json [json_backs]: "json_back (\<lambda>_. True) toJSON_SufficientBalanceRequest (fromJSON_SufficientBalanceRequest R)"
  by (rule json_backI, rule toJSON_SufficientBalanceRequest_def, rule from_object(1) [OF fromJSON_SufficientBalanceRequest_def], rule exI)
    ((rule field_intros json_backs | rule fields_back_Nil, simp add: createBaseSufficientBalanceRequest_def | simp add: fields_back_Nil; fail)+)

lemma SufficientBalanceRequest_partial [partial_backs]: "json_back (\<lambda>_. True) plain_SufficientBalanceRequest fromPartial_SufficientBalanceRequest"
  by (rule json_backI, rule plain_SufficientBalanceRequest_def, rule from_object(2) [OF fromPartial_SufficientBalanceRequest_def], rule exI)
    ((rule partial_intros partial_backs | rule fields_back_Nil, simp add: createBaseSufficientBalanceRequest_def | simp; fail)+)

definition fromJSON_SufficientBalanceResponse :: "runtime \<Rightarrow> SufficientBalanceResponse conv" where
  "fromJSON_SufficientBalanceResponse R = from_fields False
     [json_field [''sufficient''] to_Boolean False (\<lambda>v m. m\<lparr>sbr2_sufficient := v\<rparr>),
      json_field [''balance''] (bytesFromBase64 R) [] (\<lambda>v m. m\<lparr>sbr2_balance := v\<rparr>)] createBaseSufficientBalanceResponse"

definition toJSON_SufficientBalanceResponse :: "SufficientBalanceResponse \<Rightarrow> json_fault + any" where
  "toJSON_SufficientBalanceResponse m = to_fields
     [put (sbr2_sufficient m) ''sufficient'' (ABool (sbr2_sufficient m)),
      put (sbr2_balance m \<noteq> []) ''balance'' (AStr (base64FromBytes (sbr2_balance m)))]"

definition fromPartial_SufficientBalanceResponse :: "SufficientBalanceResponse conv" where
  "fromPartial_SufficientBalanceResponse = from_partial
     [json_field [''sufficient''] as_boolean False (\<lambda>v m. m\<lparr>sbr2_sufficient := v\<rparr>),
      json_field [''balance''] as_bytes [] (\<lambda>v m. m\<lparr>sbr2_balance := v\<rparr>)] createBaseSufficientBalanceResponse"

definition create_SufficientBalanceResponse :: "any option \<Rightarrow> json_fault + SufficientBalanceResponse" where
  "create_SufficientBalanceResponse = create_from fromPartial_SufficientBalanceResponse"

definition plain_SufficientBalanceResponse :: "SufficientBalanceResponse \<Rightarrow> json_fault + any" where
  "plain_SufficientBalanceResponse m = to_fields
     [put True ''sufficient'' (ABool (sbr2_sufficient m)),
      put True ''balance'' (ABytes (sbr2_balance m))]"

lemma SufficientBalanceResponse_json [json_backs]: "json_back (\<lambda>_. True) toJSON_SufficientBalanceResponse (fromJSON_SufficientBalanceResponse R)"
  by (rule json_backI, rule toJSON_SufficientBalanceResponse_def, rule from_object(1) [OF fromJSON_SufficientBalanceResponse_def], rule exI)
    ((rule field_intros json_backs | rule fields_back_Nil, simp add: createBaseSufficientBalanceResponse_def | simp add: fields_back_Nil; fail)+)

lemma SufficientBalanceResponse_partial [partial_backs]: "json_back (\<lambda>_. True) plain_SufficientBalanceResponse fromPartial_SufficientBalanceResponse"
  by (rule json_backI, rule plain_SufficientBalanceResponse_def, rule from_object(2) [OF fromPartial_SufficientBalanceResponse_def], rule exI)
    ((rule partial_intros partial_backs | rule fields_back_Nil, simp add: createBaseSufficientBalanceResponse_def | simp; fail)+)

definition fromJSON_GetBalanceRequest :: "runtime \<Rightarrow> GetBalanceRequest conv" where
  "fromJSON_GetBalanceRequest R = from_fields False
     [json_field [''sender''] (bytesFromBase64 R) [] (\<lambda>v m. m\<lparr>gbr_sender := v\<rparr>),
      json_field [''workId'', ''work_id''] to_String [] (\<lambda>v m. m\<lparr>gbr_workId := v\<rparr>)] createBaseGetBalanceRequest"

definition toJSON_GetBalanceRequest :: "GetBalanceRequest \<Rightarrow> json_fault + any" where
  "toJSON_GetBalanceRequest m = to_fields
     [put (gbr_sender m \<noteq> []) ''sender'' (AStr (base64FromBytes (gbr_sender m))),
      put (gbr_workId m \<noteq> []) ''workId'' (AStr (gbr_workId m))]"

definition fromPartial_GetBalanceRequest :: "GetBalanceRequest conv" where
  "fromPartial_GetBalanceRequest = from_partial
     [json_field [''sender''] as_bytes [] (\<lambda>v m. m\<lparr>gbr_sender := v\<rparr>),
      json_field [''workId''] as_string [] (\<lambda>v m. m\<lparr>gbr_workId := v\<rparr>)] createBaseGetBalanceRequest"

definition create_GetBalanceRequest :: "any option \<Rightarrow> json_fault + GetBalanceRequest" where
  "create_GetBalanceRequest = create_from fromPartial_GetBalanceRequest"

definition plain_GetBalanceRequest :: "GetBalanceRequest \<Rightarrow> json_fault + any" where
  "plain_GetBalanceRequest m = to_fields
     [put True ''sender'' (ABytes (gbr_sender m)),
      put True ''workId'' (AStr (gbr_workId m))]"

lemma GetBalanceRequest_json [json_backs]: "json_back (\<lambda>_. True) toJSON_GetBalanceRequest (fromJSON_GetBalanceRequest R)"
  by (rule json_backI, rule toJSON_GetBalanceRequest_def, rule from_object(1) [OF fromJSON_GetBalanceRequest_def], rule exI)
    ((rule field_intros json_backs | rule fields_back_Nil, simp add: createBaseGetBalanceRequest_def | simp add: fields_back_Nil; fail)+)

lemma GetBalanceRequest_partial [partial_backs]: "json_back (\<lambda>_. True) plain_GetBalanceRequest fromPartial_GetBalanceRequest"
  by (rule json_backI, rule plain_GetBalanceRequest_def, rule from_object(2) [OF fromPartial_GetBalanceRequest_def], rule exI)
    ((rule partial_intros partial_backs | rule fields_back_Nil, simp add: createBaseGetBalanceRequest_def | simp; fail)+)

definition fromJSON_GetBalanceResponse :: "runtime \<Rightarrow> GetBalanceResponse conv" where
  "fromJSON_GetBalanceResponse R = from_fields False
     [json_field [''balance''] (bytesFromBase64 R) [] (\<lambda>v m. m\<lparr>gbr2_balance := v\<rparr>)] createBaseGetBalanceResponse"

definition toJSON_GetBalanceResponse :: "GetBalanceResponse \<Rightarrow> json_fault + any" where
  "toJSON_GetBalanceResponse m = to_fields
     [put (gbr2_balance m \<noteq> []) ''balance'' (AStr (base64FromBytes (gbr2_balance m)))]"

definition fromPartial_GetBalanceResponse :: "GetBalanceResponse conv" where
  "fromPartial_GetBalanceResponse = from_partial
     [json_field [''balance''] as_bytes [] (\<lambda>v m. m\<lparr>gbr2_balance := v\<rparr>)] createBaseGetBalanceResponse"

definition create_GetBalanceResponse :: "any option \<Rightarrow> json_fault + GetBalanceResponse" where
  "create_GetBalanceResponse = create_from fromPartial_GetBalanceResponse"

definition plain_GetBalanceResponse :: "GetBalanceResponse \<Rightarrow> json_fault + any" where
  "plain_GetBalanceResponse m = to_fields
     [put True ''balance'' (ABytes (gbr2_balance m))]"

lemma GetBalanceResponse_json [json_backs]: "json_back (\<lambda>_. True) toJSON_GetBalanceResponse (fromJSON_GetBalanceResponse R)"
  by (rule json_backI, rule toJSON_GetBalanceResponse_def, rule from_object(1) [OF fromJSON_GetBalanceResponse_def], rule exI)
    ((rule field_intros json_backs | rule fields_back_Nil, simp add: createBaseGetBalanceResponse_def | simp add: fields_back_Nil; fail)+)

lemma GetBalanceResponse_partial [partial_backs]: "json_back (\<lambda>_. True) plain_GetBalanceResponse fromPartial_GetBalanceResponse"
  by (rule json_backI, rule plain_GetBalanceResponse_def, rule from_object(2) [OF fromPartial_GetBalanceResponse_def], rule exI)
    ((rule partial_intros partial_backs | rule fields_back_Nil, simp add: createBaseGetBalanceResponse_def | simp; fail)+)

definition fromJSON_PayeeDaemonCloseSessionRequest :: "runtime \<Rightarrow> PayeeDaemonCloseSessionRequest conv" where
  "fromJSON_PayeeDaemonCloseSessionRequest R = from_fields False
     [json_field [''sender''] (bytesFromBase64 R) [] (\<lambda>v m. m\<lparr>pdcsr_sender := v\<rparr>),
      json_field [''workId'', ''work_id''] to_String [] (\<lambda>v m. m\<lparr>pdcsr_workId := v\<rparr>)] createBasePayeeDaemonCloseSessionRequest"

definition toJSON_PayeeDaemonCloseSessionRequest :: "PayeeDaemonCloseSessionRequest \<Rightarrow> json_fault + any" where
  "toJSON_PayeeDaemonCloseSessionRequest m = to_fields
     [put (pdcsr_sender m \<noteq> []) ''sender'' (AStr (base64FromBytes (pdcsr_sender m))),
      put (pdcsr_workId m \<noteq> []) ''workId'' (AStr (pdcsr_workId m))]"

definition fromPartial_PayeeDaemonCloseSessionRequest :: "PayeeDaemonCloseSessionRequest conv" where
  "fromPartial_PayeeDaemonCloseSessionRequest = from_partial
     [json_field [''sender''] as_bytes [] (\<lambda>v m. m\<lparr>pdcsr_sender := v\<rparr>),
      json_field [''workId''] as_string [] (\<lambda>v m. m\<lparr>pdcsr_workId := v\<rparr>)] createBasePayeeDaemonCloseSessionRequest"

definition create_PayeeDaemonCloseSessionRequest :: "any option \<Rightarrow> json_fault + PayeeDaemonCloseSessionRequest" where
  "create_PayeeDaemonCloseSessionRequest = create_from fromPartial_PayeeDaemonCloseSessionRequest"

definition plain_PayeeDaemonCloseSessionRequest :: "PayeeDaemonCloseSessionRequest \<Rightarrow> json_fault + any" where
  "plain_PayeeDaemonCloseSessionRequest m = to_fields
     [put True ''sender'' (ABytes (pdcsr_sender m)),
      put True ''workId'' (AStr (pdcsr_workId m))]"

lemma PayeeDaemonCloseSessionRequest_json [json_backs]: "json_back (\<lambda>_. True) toJSON_PayeeDaemonCloseSessionRequest (fromJSON_PayeeDaemonCloseSessionRequest R)"
  by (rule json_backI, rule toJSON_PayeeDaemonCloseSessionRequest_def, rule from_object(1) [OF fromJSON_PayeeDaemonCloseSessionRequest_def], rule exI)
    ((rule field_intros json_backs | rule fields_back_Nil, simp add: createBasePayeeDaemonCloseSessionRequest_def | simp add: fields_back_Nil; fail)+)

lemma PayeeDaemonCloseSessionRequest_partial [partial_backs]: "json_back (\<lambda>_. True) plain_PayeeDaemonCloseSessionRequest fromPartial_PayeeDaemonCloseSessionRequest"
  by (rule json_backI, rule plain_PayeeDaemonCloseSessionRequest_def, rule from_object(2) [OF fromPartial_PayeeDaemonCloseSessionRequest_def], rule exI)
    ((rule partial_intros partial_backs | rule fields_back_Nil, simp add: createBasePayeeDaemonCloseSessionRequest_def | simp; fail)+)

definition fromJSON_PayeeDaemonCloseSessionResponse :: "runtime \<Rightarrow> PayeeDaemonCloseSessionResponse conv" where
  "fromJSON_PayeeDaemonCloseSessionResponse R = from_fields False
     [json_field [''outcome''] payeeDaemonCloseSessionResponse_OutcomeFromJSON 0 (\<lambda>v m. m\<lparr>pdcsr2_outcome := v\<rparr>)] createBasePayeeDaemonCloseSessionResponse"

definition toJSON_PayeeDaemonCloseSessionResponse :: "PayeeDaemonCloseSessionResponse \<Rightarrow> json_fault + any" where
  "toJSON_PayeeDaemonCloseSessionResponse m = to_fields
     [put (pdcsr2_outcome m \<noteq> 0) ''outcome'' (payeeDaemonCloseSessionResponse_OutcomeToJSON (pdcsr2_outcome m))]"

definition fromPartial_PayeeDaemonCloseSessionResponse :: "PayeeDaemonCloseSessionResponse conv" where
  "fromPartial_PayeeDaemonCloseSessionResponse = from_partial
     [json_field [''outcome''] as_number 0 (\<lambda>v m. m\<lparr>pdcsr2_outcome := v\<rparr>)] createBasePayeeDaemonCloseSessionResponse"

definition create_PayeeDaemonCloseSessionResponse :: "any option \<Rightarrow> json_fault + PayeeDaemonCloseSessionResponse" where
  "create_PayeeDaemonCloseSessionResponse = create_from fromPartial_PayeeDaemonCloseSessionResponse"

definition plain_PayeeDaemonCloseSessionResponse :: "PayeeDaemonCloseSessionResponse \<Rightarrow> json_fault + any" where
  "plain_PayeeDaemonCloseSessionResponse m = to_fields
     [put True ''outcome'' (ANum (pdcsr2_outcome m))]"

definition known_PayeeDaemonCloseSessionResponse :: "PayeeDaemonCloseSessionResponse \<Rightarrow> bool" where
  "known_PayeeDaemonCloseSessionResponse m \<longleftrightarrow> enum_ok PayeeDaemonCloseSessionResponse_Outcome_table (pdcsr2_outcome m)"

lemma PayeeDaemonCloseSessionResponse_json [json_backs]: "json_back known_PayeeDaemonCloseSessionResponse toJSON_PayeeDaemonCloseSessionResponse (fromJSON_PayeeDaemonCloseSessionResponse R)"
  by (rule json_backI, rule toJSON_PayeeDaemonCloseSessionResponse_def, rule from_object(1) [OF fromJSON_PayeeDaemonCloseSessionResponse_def], rule exI, unfold payeeDaemonCloseSessionResponse_OutcomeFromJSON_def payeeDaemonCloseSessionResponse_OutcomeToJSON_def)
    ((rule field_intros json_backs PayeeDaemonCloseSessionResponse_Outcome_table_proper | rule fields_back_Nil, simp add: createBasePayeeDaemonCloseSessionResponse_def | simp add: fields_back_Nil known_PayeeDaemonCloseSessionResponse_def; fail)+)

lemma PayeeDaemonCloseSessionResponse_partial [partial_backs]: "json_back (\<lambda>_. True) plain_PayeeDaemonCloseSessionResponse fromPartial_PayeeDaemonCloseSessionResponse"
  by (rule json_backI, rule plain_PayeeDaemonCloseSessionResponse_def, rule from_object(2) [OF fromPartial_PayeeDaemonCloseSessionResponse_def], rule exI)
    ((rule partial_intros partial_backs | rule fields_back_Nil, simp add: createBasePayeeDaemonCloseSessionResponse_def | simp; fail)+)

definition fromJSON_ListPendingRedemptionsRequest :: "runtime \<Rightarrow> ListPendingRedemptionsRequest conv" where
  "fromJSON_ListPendingRedemptionsRequest R = from_fields False
     [json_field [''since''] to_BigInt 0 (\<lambda>v m. m\<lparr>lprr_since := v\<rparr>)] createBaseListPendingRedemptionsRequest"

definition toJSON_ListPendingRedemptionsRequest :: "ListPendingRedemptionsRequest \<Rightarrow> json_fault + any" where
  "toJSON_ListPendingRedemptionsRequest m = to_fields
     [put (lprr_since m \<noteq> 0) ''since'' (AStr (show_int (lprr_since m)))]"

definition fromPartial_ListPendingRedemptionsRequest :: "ListPendingRedemptionsRequest conv" where
  "fromPartial_ListPendingRedemptionsRequest = from_partial
     [json_field [''since''] as_bigint 0 (\<lambda>v m. m\<lparr>lprr_since := v\<rparr>)] createBaseListPendingRedemptionsRequest"

definition create_ListPendingRedemptionsRequest :: "any option \<Rightarrow> json_fault + ListPendingRedemptionsRequest" where
  "create_ListPendingRedemptionsRequest = create_from fromPartial_ListPendingRedemptionsRequest"

definition plain_ListPendingRedemptionsRequest :: "ListPendingRedemptionsRequest \<Rightarrow> json_fault + any" where
  "plain_ListPendingRedemptionsRequest m = to_fields
     [put True ''since'' (ABig (lprr_since m))]"

lemma ListPendingRedemptionsRequest_json [json_backs]: "json_back (\<lambda>_. True) toJSON_ListPendingRedemptionsRequest (fromJSON_ListPendingRedemptionsRequest R)"
  by (rule json_backI, rule toJSON_ListPendingRedemptionsRequest_def, rule from_object(1) [OF fromJSON_ListPendingRedemptionsRequest_def], rule exI)
    ((rule field_intros json_backs | rule fields_back_Nil, simp add: createBaseListPendingRedemptionsRequest_def | simp add: fields_back_Nil; fail)+)

lemma ListPendingRedemptionsRequest_partial [partial_backs]: "json_back (\<lambda>_. True) plain_ListPendingRedemptionsRequest fromPartial_ListPendingRedemptionsRequest"
  by (rule json_backI, rule plain_ListPendingRedemptionsRequest_def, rule from_object(2) [OF fromPartial_ListPendingRedemptionsRequest_def], rule exI)
    ((rule partial_intros partial_backs | rule fields_back_Nil, simp add: createBaseListPendingRedemptionsRequest_def | simp; fail)+)

definition fromJSON_PendingRedemption :: "runtime \<Rightarrow> PendingRedemption conv" where
  "fromJSON_PendingRedemption R = from_fields False
     [json_field [''ticketHash'', ''ticket_hash''] (bytesFromBase64 R) [] (\<lambda>v m. m\<lparr>pr_ticketHash := v\<rparr>),
      json_field [''sender''] (bytesFromBase64 R) [] (\<lambda>v m. m\<lparr>pr_sender := v\<rparr>),
      json_field [''faceValue'', ''face_value''] (bytesFromBase64 R) [] (\<lambda>v m. m\<lparr>pr_faceValue := v\<rparr>),
      json_field [''queuedAt'', ''queued_at''] to_BigInt 0 (\<lambda>v m. m\<lparr>pr_queuedAt := v\<rparr>),
      json_field [''attempts''] to_Number 0 (\<lambda>v m. m\<lparr>pr_attempts := v\<rparr>)] createBasePendingRedemption"

definition toJSON_PendingRedemption :: "PendingRedemption \<Rightarrow> json_fault + any" where
  "toJSON_PendingRedemption m = to_fields
     [put (pr_ticketHash m \<noteq> []) ''ticketHash'' (AStr (base64FromBytes (pr_ticketHash m))),
      put (pr_sender m \<noteq> []) ''sender'' (AStr (base64FromBytes (pr_sender m))),
      put (pr_faceValue m \<noteq> []) ''faceValue'' (AStr (base64FromBytes (pr_faceValue m))),
      put (pr_queuedAt m \<noteq> 0) ''queuedAt'' (AStr (show_int (pr_queuedAt m))),
      put (pr_attempts m \<noteq> 0) ''attempts'' (ANum (pr_attempts m))]"

definition fromPartial_PendingRedemption :: "PendingRedemption conv" where
  "fromPartial_PendingRedemption = from_partial
     [json_field [''ticketHash''] as_bytes [] (\<lambda>v m. m\<lparr>pr_ticketHash := v\<rparr>),
      json_field [''sender''] as_bytes [] (\<lambda>v m. m\<lparr>pr_sender := v\<rparr>),
      json_field [''faceValue''] as_bytes [] (\<lambda>v m. m\<lparr>pr_faceValue := v\<rparr>),
      json_field [''queuedAt''] as_bigint 0 (\<lambda>v m. m\<lparr>pr_queuedAt := v\<rparr>),
      json_field [''attempts''] as_number 0 (\<lambda>v m. m\<lparr>pr_attempts := v\<rparr>)] createBasePendingRedemption"

definition create_PendingRedemption :: "any option \<Rightarrow> json_fault + PendingRedemption" where
  "create_PendingRedemption = create_from fromPartial_PendingRedemption"

definition plain_PendingRedemption :: "PendingRedemption \<Rightarrow> json_fault + any" where
  "plain_PendingRedemption m = to_fields
     [put True ''ticketHash'' (ABytes (pr_ticketHash m)),
      put True ''sender'' (ABytes (pr_sender m)),
      put True ''faceValue'' (ABytes (pr_faceValue m)),
      put True ''queuedAt'' (ABig (pr_queuedAt m)),
      put True ''attempts'' (ANum (pr_attempts m))]"

lemma PendingRedemption_json [json_backs]: "json_back (\<lambda>_. True) toJSON_PendingRedemption (fromJSON_PendingRedemption R)"
  by (rule json_backI, rule toJSON_PendingRedemption_def, rule from_object(1) [OF fromJSON_PendingRedemption_def], rule exI)
    ((rule field_intros json_backs | rule fields_back_Nil, simp add: createBasePendingRedemption_def | simp add: fields_back_Nil; fail)+)

lemma PendingRedemption_partial [partial_backs]: "json_back (\<lambda>_. True) plain_PendingRedemption fromPartial_PendingRedemption"
  by (rule json_backI, rule plain_PendingRedemption_def, rule from_object(2) [OF fromPartial_PendingRedemption_def], rule exI)
    ((rule partial_intros partial_backs | rule fields_back_Nil, simp add: createBasePendingRedemption_def | simp; fail)+)

definition fromJSON_ListPendingRedemptionsResponse :: "runtime \<Rightarrow> ListPendingRedemptionsResponse conv" where
  "fromJSON_ListPendingRedemptionsResponse R = from_fields True
     [json_list [''redemptions''] (fromJSON_PendingRedemption R) (\<lambda>v m. m\<lparr>lprr2_redemptions := v\<rparr>)] createBaseListPendingRedemptionsResponse"

definition toJSON_ListPendingRedemptionsResponse :: "ListPendingRedemptionsResponse \<Rightarrow> json_fault + any" where
  "toJSON_ListPendingRedemptionsResponse m = to_fields
     [put_list ''redemptions'' toJSON_PendingRedemption (lprr2_redemptions m)]"

definition fromPartial_ListPendingRedemptionsResponse :: "ListPendingRedemptionsResponse conv" where
  "fromPartial_ListPendingRedemptionsResponse = from_partial
     [json_list [''redemptions''] fromPartial_PendingRedemption (\<lambda>v m. m\<lparr>lprr2_redemptions := v\<rparr>)] createBaseListPendingRedemptionsResponse"

definition create_ListPendingRedemptionsResponse :: "any option \<Rightarrow> json_fault + ListPendingRedemptionsResponse" where
  "create_ListPendingRedemptionsResponse = create_from fromPartial_ListPendingRedemptionsResponse"

definition plain_ListPendingRedemptionsResponse :: "ListPendingRedemptionsResponse \<Rightarrow> json_fault + any" where
  "plain_ListPendingRedemptionsResponse m = to_fields
     [put_list ''redemptions'' plain_PendingRedemption (lprr2_redemptions m)]"

lemma ListPendingRedemptionsResponse_json [json_backs]: "json_back (\<lambda>_. True) toJSON_ListPendingRedemptionsResponse (fromJSON_ListPendingRedemptionsResponse R)"
  by (rule json_backI, rule toJSON_ListPendingRedemptionsResponse_def, rule from_object(1) [OF fromJSON_ListPendingRedemptionsResponse_def], rule exI)
    ((rule field_intros json_backs | rule fields_back_Nil, simp add: createBaseListPendingRedemptionsResponse_def | simp add: fields_back_Nil; fail)+)

lemma ListPendingRedemptionsResponse_partial [partial_backs]: "json_back (\<lambda>_. True) plain_ListPendingRedemptionsResponse fromPartial_ListPendingRedemptionsResponse"
  by (rule json_backI, rule plain_ListPendingRedemptionsResponse_def, rule from_object(2) [OF fromPartial_ListPendingRedemptionsResponse_def], rule exI)
    ((rule partial_intros partial_backs | rule fields_back_Nil, simp add: createBaseListPendingRedemptionsResponse_def | simp; fail)+)

definition fromJSON_GetRedemptionStatusRequest :: "runtime \<Rightarrow> GetRedemptionStatusRequest conv" where
  "fromJSON_GetRedemptionStatusRequest R = from_fields False
     [json_field [''ticketHash'', ''ticket_hash''] (bytesFromBase64 R) [] (\<lambda>v m. m\<lparr>grsr_ticketHash := v\<rparr>)] createBaseGetRedemptionStatusRequest"

definition toJSON_GetRedemptionStatusRequest :: "GetRedemptionStatusRequest \<Rightarrow> json_fault + any" where
  "toJSON_GetRedemptionStatusRequest m = to_fields
     [put (grsr_ticketHash m \<noteq> []) ''ticketHash'' (AStr (base64FromBytes (grsr_ticketHash m)))]"

definition fromPartial_GetRedemptionStatusRequest :: "GetRedemptionStatusRequest conv" where
  "fromPartial_GetRedemptionStatusRequest = from_partial
     [json_field [''ticketHash''] as_bytes [] (\<lambda>v m. m\<lparr>grsr_ticketHash := v\<rparr>)] createBaseGetRedemptionStatusRequest"

definition create_GetRedemptionStatusRequest :: "any option \<Rightarrow> json_fault + GetRedemptionStatusRequest" where
  "create_GetRedemptionStatusRequest = create_from fromPartial_GetRedemptionStatusRequest"

definition plain_GetRedemptionStatusRequest :: "GetRedemptionStatusRequest \<Rightarrow> json_fault + any" where
  "plain_GetRedemptionStatusRequest m = to_fields
     [put True ''ticketHash'' (ABytes (grsr_ticketHash m))]"

lemma GetRedemptionStatusRequest_json [json_backs]: "json_back (\<lambda>_. True) toJSON_GetRedemptionStatusRequest (fromJSON_GetRedemptionStatusRequest R)"
  by (rule json_backI, rule toJSON_GetRedemptionStatusRequest_def, rule from_object(1) [OF fromJSON_GetRedemptionStatusRequest_def], rule exI)
    ((rule field_intros json_backs | rule fields_back_Nil, simp add: createBaseGetRedemptionStatusRequest_def | simp add: fields_back_Nil; fail)+)

lemma GetRedemptionStatusRequest_partial [partial_backs]: "json_back (\<lambda>_. True) plain_GetRedemptionStatusRequest fromPartial_GetRedemptionStatusRequest"
  by (rule json_backI, rule plain_GetRedemptionStatusRequest_def, rule from_object(2) [OF fromPartial_GetRedemptionStatusRequest_def], rule exI)
    ((rule partial_intros partial_backs | rule fields_back_Nil, simp add: createBaseGetRedemptionStatusRequest_def | simp; fail)+)

definition fromJSON_GetRedemptionStatusResponse :: "runtime \<Rightarrow> GetRedemptionStatusResponse conv" where
  "fromJSON_GetRedemptionStatusResponse R = from_fields False
     [json_field [''status''] getRedemptionStatusResponse_StatusFromJSON 0 (\<lambda>v m. m\<lparr>grsr2_status := v\<rparr>),
      json_field [''txHash'', ''tx_hash''] (bytesFromBase64 R) [] (\<lambda>v m. m\<lparr>grsr2_txHash := v\<rparr>),
      json_field [''error''] to_String [] (\<lambda>v m. m\<lparr>grsr2_error := v\<rparr>)] createBaseGetRedemptionStatusResponse"

definition toJSON_GetRedemptionStatusResponse :: "GetRedemptionStatusResponse \<Rightarrow> json_fault + any" where
  "toJSON_GetRedemptionStatusResponse m = to_fields
     [put (grsr2_status m \<noteq> 0) ''status'' (getRedemptionStatusResponse_StatusToJSON (grsr2_status m)),
      put (grsr2_txHash m \<noteq> []) ''txHash'' (AStr (base64FromBytes (grsr2_txHash m))),
      put (grsr2_error m \<noteq> []) ''error'' (AStr (grsr2_error m))]"

definition fromPartial_GetRedemptionStatusResponse :: "GetRedemptionStatusResponse conv" where
  "fromPartial_GetRedemptionStatusResponse = from_partial
     [json_field [''status''] as_number 0 (\<lambda>v m. m\<lparr>grsr2_status := v\<rparr>),
      json_field [''txHash''] as_bytes [] (\<lambda>v m. m\<lparr>grsr2_txHash := v\<rparr>),
      json_field [''error''] as_string [] (\<lambda>v m. m\<lparr>grsr2_error := v\<rparr>)] createBaseGetRedemptionStatusResponse"

definition create_GetRedemptionStatusResponse :: "any option \<Rightarrow> json_fault + GetRedemptionStatusResponse" where
  "create_GetRedemptionStatusResponse = create_from fromPartial_GetRedemptionStatusResponse"

definition plain_GetRedemptionStatusResponse :: "GetRedemptionStatusResponse \<Rightarrow> json_fault + any" where
  "plain_GetRedemptionStatusResponse m = to_fields
     [put True ''status'' (ANum (grsr2_status m)),
      put True ''txHash'' (ABytes (grsr2_txHash m)),
      put True ''error'' (AStr (grsr2_error m))]"

definition known_GetRedemptionStatusResponse :: "GetRedemptionStatusResponse \<Rightarrow> bool" where
  "known_GetRedemptionStatusResponse m \<longleftrightarrow> enum_ok GetRedemptionStatusResponse_Status_table (grsr2_status m)"

lemma GetRedemptionStatusResponse_json [json_backs]: "json_back known_GetRedemptionStatusResponse toJSON_GetRedemptionStatusResponse (fromJSON_GetRedemptionStatusResponse R)"
  by (rule json_backI, rule toJSON_GetRedemptionStatusResponse_def, rule from_object(1) [OF fromJSON_GetRedemptionStatusResponse_def], rule exI, unfold getRedemptionStatusResponse_StatusFromJSON_def getRedemptionStatusResponse_StatusToJSON_def)
    ((rule field_intros json_backs GetRedemptionStatusResponse_Status_table_proper | rule fields_back_Nil, simp add: createBaseGetRedemptionStatusResponse_def | simp add: fields_back_Nil known_GetRedemptionStatusResponse_def; fail)+)

lemma GetRedemptionStatusResponse_partial [partial_backs]: "json_back (\<lambda>_. True) plain_GetRedemptionStatusResponse fromPartial_GetRedemptionStatusResponse"
  by (rule json_backI, rule plain_GetRedemptionStatusResponse_def, rule from_object(2) [OF fromPartial_GetRedemptionStatusResponse_def], rule exI)
    ((rule partial_intros partial_backs | rule fields_back_Nil, simp add: createBaseGetRedemptionStatusResponse_def | simp; fail)+)

end
