(* ===== verification/RegistryJson.thy ===== *)
theory RegistryJson
  imports JsonForm RegistryCodec
begin

text \<open>
  The JSON forms of the resolver's messages: \<^verbatim>\<open>fromJSON\<close>, \<^verbatim>\<open>toJSON\<close>, \<^verbatim>\<open>fromPartial\<close> and \<^verbatim>\<open>create\<close> of
  \<^verbatim>\<open>gen/google/protobuf\<close> and \<^verbatim>\<open>gen/livepeer/registry/v1\<close>. \<open>plain_M m\<close> is the message as the object it is
  at run time. The lemmas show, type by type, that a message is read back from its JSON form and
  copied by \<^verbatim>\<open>fromPartial\<close>; \<open>known_M\<close> says that the enum fields of a message have numbers
  the code knows.
\<close>

section \<open>Time\<close>

definition fromJSON_Timestamp :: "runtime \<Rightarrow> Timestamp conv" where
  "fromJSON_Timestamp R = from_fields False
     [json_field [''seconds''] to_BigInt 0 (\<lambda>v m. m\<lparr>ts_seconds := v\<rparr>),
      json_field [''nanos''] to_Number 0 (\<lambda>v m. m\<lparr>ts_nanos := v\<rparr>)] createBaseTimestamp"

definition toJSON_Timestamp :: "Timestamp \<Rightarrow> json_fault + any" where
  "toJSON_Timestamp m = to_fields
     [put (ts_seconds m \<noteq> 0) ''seconds'' (AStr (show_int (ts_seconds m))),
      put (ts_nanos m \<noteq> 0) ''nanos'' (ANum (ts_nanos m))]"

definition fromPartial_Timestamp :: "Timestamp conv" where
  "fromPartial_Timestamp = from_partial
     [json_field [''seconds''] as_bigint 0 (\<lambda>v m. m\<lparr>ts_seconds := v\<rparr>),
      json_field [''nanos''] as_number 0 (\<lambda>v m. m\<lparr>ts_nanos := v\<rparr>)] createBaseTimestamp"

definition create_Timestamp :: "any option \<Rightarrow> json_fault + Timestamp" where
  "create_Timestamp = create_from fromPartial_Timestamp"

definition plain_Timestamp :: "Timestamp \<Rightarrow> json_fault + any" where
  "plain_Timestamp m = to_fields
     [put True ''seconds'' (ABig (ts_seconds m)),
      put True ''nanos'' (ANum (ts_nanos m))]"

lemma Timestamp_json [json_backs]: "json_back (\<lambda>_. True) toJSON_Timestamp (fromJSON_Timestamp R)"
  by (rule json_backI, rule toJSON_Timestamp_def, rule from_object(1) [OF fromJSON_Timestamp_def], rule exI)
    ((rule field_intros json_backs | rule fields_back_Nil, simp add: createBaseTimestamp_def | simp add: fields_back_Nil; fail)+)

lemma Timestamp_partial [partial_backs]: "json_back (\<lambda>_. True) plain_Timestamp fromPartial_Timestamp"
  by (rule json_backI, rule plain_Timestamp_def, rule from_object(2) [OF fromPartial_Timestamp_def], rule exI)
    ((rule partial_intros partial_backs | rule fields_back_Nil, simp add: createBaseTimestamp_def | simp; fail)+)

text \<open>\<^verbatim>\<open>fromJsonTimestamp(o)\<close>.\<close>

definition fromJsonTimestamp :: "runtime \<Rightarrow> time_value conv" where
  "fromJsonTimestamp R v =
     (case v of
        ADate d \<Rightarrow> Inr d
      | AStr s \<Rightarrow> Inr (case iso_read s of Some t \<Rightarrow> Some t | None \<Rightarrow> rt_date R s)
      | _ \<Rightarrow> map_sum id fromTimestamp (fromJSON_Timestamp R v))"

text \<open>A date \<^verbatim>\<open>toISOString\<close> does not throw at.\<close>

definition date_valid :: "time_value \<Rightarrow> bool" where
  "date_valid d \<longleftrightarrow> d \<noteq> None \<and> getTime d = d"

lemma date_back: "json_back date_valid date_json (fromJsonTimestamp R)"
  unfolding json_back_def
proof (intro allI impI)
  fix d assume "date_valid d"
  then obtain ms where d: "d = Some ms" "getTime (Some ms) = Some ms" by (auto simp: date_valid_def)
  then obtain s where s: "toISOString (Some ms) = Inr s" by (auto simp: toISOString_def Let_def)
  with d show "\<exists>j. date_json d = Inr j \<and> j \<noteq> ANull \<and> fromJsonTimestamp R j = Inr d"
    by (simp add: date_json_def fromJsonTimestamp_def iso_read_text)
qed

declare date_back [json_backs]

section \<open>The empty message\<close>

definition fromJSON_Empty :: "runtime \<Rightarrow> unit conv" where
  "fromJSON_Empty R v = Inr createBaseEmpty"

definition toJSON_Empty :: "unit \<Rightarrow> json_fault + any" where
  "toJSON_Empty m = to_fields []"

definition fromPartial_Empty :: "unit conv" where
  "fromPartial_Empty v = Inr createBaseEmpty"

definition create_Empty :: "any option \<Rightarrow> json_fault + unit" where
  "create_Empty = create_from fromPartial_Empty"

section \<open>Registry types: enumerations\<close>

definition ResolveMode_table :: enum_table where
  "ResolveMode_table =
     [(0, ''RESOLVE_MODE_UNSPECIFIED''), (1, ''RESOLVE_MODE_WELL_KNOWN''), (2, ''RESOLVE_MODE_CSV''),
      (3, ''RESOLVE_MODE_LEGACY'')]"

definition resolveModeFromJSON :: "int conv" where
  "resolveModeFromJSON = enumFromJSON ResolveMode_table"

definition resolveModeToJSON :: "int \<Rightarrow> any" where
  "resolveModeToJSON = enumToJSON ResolveMode_table"

lemma ResolveMode_table_proper: "enum_proper ResolveMode_table"
  by (simp add: enum_proper_def ResolveMode_table_def)

definition SignatureStatus_table :: enum_table where
  "SignatureStatus_table =
     [(0, ''SIGNATURE_STATUS_UNSPECIFIED''), (1, ''SIGNATURE_STATUS_VERIFIED''),
      (2, ''SIGNATURE_STATUS_UNSIGNED''), (3, ''SIGNATURE_STATUS_LEGACY'')]"

definition signatureStatusFromJSON :: "int conv" where
  "signatureStatusFromJSON = enumFromJSON SignatureStatus_table"

definition signatureStatusToJSON :: "int \<Rightarrow> any" where
  "signatureStatusToJSON = enumToJSON SignatureStatus_table"

lemma SignatureStatus_table_proper: "enum_proper SignatureStatus_table"
  by (simp add: enum_proper_def SignatureStatus_table_def)

definition FreshnessStatus_table :: enum_table where
  "FreshnessStatus_table =
     [(0, ''FRESHNESS_STATUS_UNSPECIFIED''), (1, ''FRESHNESS_STATUS_FRESH''),
      (2, ''FRESHNESS_STATUS_STALE_RECOVERABLE''), (3, ''FRESHNESS_STATUS_STALE_FAILING'')]"

definition freshnessStatusFromJSON :: "int conv" where
  "freshnessStatusFromJSON = enumFromJSON FreshnessStatus_table"

definition freshnessStatusToJSON :: "int \<Rightarrow> any" where
  "freshnessStatusToJSON = enumToJSON FreshnessStatus_table"

lemma FreshnessStatus_table_proper: "enum_proper FreshnessStatus_table"
  by (simp add: enum_proper_def FreshnessStatus_table_def)

definition Source_table :: enum_table where
  "Source_table =
     [(0, ''SOURCE_UNSPECIFIED''), (1, ''SOURCE_MANIFEST''), (2, ''SOURCE_LEGACY''),
      (3, ''SOURCE_STATIC_OVERLAY''), (4, ''SOURCE_CSV_FALLBACK'')]"

definition sourceFromJSON :: "int conv" where
  "sourceFromJSON = enumFromJSON Source_table"

definition sourceToJSON :: "int \<Rightarrow> any" where
  "sourceToJSON = enumToJSON Source_table"

lemma Source_table_proper: "enum_proper Source_table"
  by (simp add: enum_proper_def Source_table_def)

section \<open>Registry types\<close>

definition fromJSON_Offering :: "runtime \<Rightarrow> Offering conv" where
  "fromJSON_Offering R = from_fields False
     [json_field [''id''] to_String [] (\<lambda>v m. m\<lparr>of_id := v\<rparr>),
      json_field [''pricePerWorkUnitWei'', ''price_per_work_unit_wei''] to_String [] (\<lambda>v m. m\<lparr>of_pricePerWorkUnitWei := v\<rparr>),
      json_field [''constraintsJson'', ''constraints_json''] (bytesFromBase64 R) [] (\<lambda>v m. m\<lparr>of_constraintsJson := v\<rparr>)] createBaseOffering"

definition toJSON_Offering :: "Offering \<Rightarrow> json_fault + any" where
  "toJSON_Offering m = to_fields
     [put (of_id m \<noteq> []) ''id'' (AStr (of_id m)),
      put (of_pricePerWorkUnitWei m \<noteq> []) ''pricePerWorkUnitWei'' (AStr (of_pricePerWorkUnitWei m)),
      put (of_constraintsJson m \<noteq> []) ''constraintsJson'' (AStr (base64FromBytes (of_constraintsJson m)))]"

definition fromPartial_Offering :: "Offering conv" where
  "fromPartial_Offering = from_partial
     [json_field [''id''] as_string [] (\<lambda>v m. m\<lparr>of_id := v\<rparr>),
      json_field [''pricePerWorkUnitWei''] as_string [] (\<lambda>v m. m\<lparr>of_pricePerWorkUnitWei := v\<rparr>),
      json_field [''constraintsJson''] as_bytes [] (\<lambda>v m. m\<lparr>of_constraintsJson := v\<rparr>)] createBaseOffering"

definition create_Offering :: "any option \<Rightarrow> json_fault + Offering" where
  "create_Offering = create_from fromPartial_Offering"

definition plain_Offering :: "Offering \<Rightarrow> json_fault + any" where
  "plain_Offering m = to_fields
     [put True ''id'' (AStr (of_id m)),
      put True ''pricePerWorkUnitWei'' (AStr (of_pricePerWorkUnitWei m)),
      put True ''constraintsJson'' (ABytes (of_constraintsJson m))]"

lemma Offering_json [json_backs]: "json_back (\<lambda>_. True) toJSON_Offering (fromJSON_Offering R)"
  by (rule json_backI, rule toJSON_Offering_def, rule from_object(1) [OF fromJSON_Offering_def], rule exI)
    ((rule field_intros json_backs | rule fields_back_Nil, simp add: createBaseOffering_def | simp add: fields_back_Nil; fail)+)

lemma Offering_partial [partial_backs]: "json_back (\<lambda>_. True) plain_Offering fromPartial_Offering"
  by (rule json_backI, rule plain_Offering_def, rule from_object(2) [OF fromPartial_Offering_def], rule exI)
    ((rule partial_intros partial_backs | rule fields_back_Nil, simp add: createBaseOffering_def | simp; fail)+)

definition fromJSON_Capability :: "runtime \<Rightarrow> Capability conv" where
  "fromJSON_Capability R = from_fields False
     [json_field [''name''] to_String [] (\<lambda>v m. m\<lparr>cap_name := v\<rparr>),
      json_field [''workUnit'', ''work_unit''] to_String [] (\<lambda>v m. m\<lparr>cap_workUnit := v\<rparr>),
      json_list [''offerings''] (fromJSON_Offering R) (\<lambda>v m. m\<lparr>cap_offerings := v\<rparr>),
      json_field [''extraJson'', ''extra_json''] (bytesFromBase64 R) [] (\<lambda>v m. m\<lparr>cap_extraJson := v\<rparr>)] createBaseCapability"

definition toJSON_Capability :: "Capability \<Rightarrow> json_fault + any" where
  "toJSON_Capability m = to_fields
     [put (cap_name m \<noteq> []) ''name'' (AStr (cap_name m)),
      put (cap_workUnit m \<noteq> []) ''workUnit'' (AStr (cap_workUnit m)),
      put_list ''offerings'' toJSON_Offering (cap_offerings m),
      put (cap_extraJson m \<noteq> []) ''extraJson'' (AStr (base64FromBytes (cap_extraJson m)))]"

definition fromPartial_Capability :: "Capability conv" where
  "fromPartial_Capability = from_partial
     [json_field [''name''] as_string [] (\<lambda>v m. m\<lparr>cap_name := v\<rparr>),
      json_field [''workUnit''] as_string [] (\<lambda>v m. m\<lparr>cap_workUnit := v\<rparr>),
      json_list [''offerings''] fromPartial_Offering (\<lambda>v m. m\<lparr>cap_offerings := v\<rparr>),
      json_field [''extraJson''] as_bytes [] (\<lambda>v m. m\<lparr>cap_extraJson := v\<rparr>)] createBaseCapability"

definition create_Capability :: "any option \<Rightarrow> json_fault + Capability" where
  "create_Capability = create_from fromPartial_Capability"

definition plain_Capability :: "Capability \<Rightarrow> json_fault + any" where
  "plain_Capability m = to_fields
     [put True ''name'' (AStr (cap_name m)),
      put True ''workUnit'' (AStr (cap_workUnit m)),
      put_list ''offerings'' plain_Offering (cap_offerings m),
      put True ''extraJson'' (ABytes (cap_extraJson m))]"

lemma Capability_json [json_backs]: "json_back (\<lambda>_. True) toJSON_Capability (fromJSON_Capability R)"
  by (rule json_backI, rule toJSON_Capability_def, rule from_object(1) [OF fromJSON_Capability_def], rule exI)
    ((rule field_intros json_backs | rule fields_back_Nil, simp add: createBaseCapability_def | simp add: fields_back_Nil; fail)+)

lemma Capability_partial [partial_backs]: "json_back (\<lambda>_. True) plain_Capability fromPartial_Capability"
  by (rule json_backI, rule plain_Capability_def, rule from_object(2) [OF fromPartial_Capability_def], rule exI)
    ((rule partial_intros partial_backs | rule fields_back_Nil, simp add: createBaseCapability_def | simp; fail)+)

definition fromJSON_Node :: "runtime \<Rightarrow> Node conv" where
  "fromJSON_Node R = from_fields False
     [json_field [''id''] to_String [] (\<lambda>v m. m\<lparr>nd_id := v\<rparr>),
      json_field [''url''] to_String [] (\<lambda>v m. m\<lparr>nd_url := v\<rparr>),
      json_field [''workerEthAddress'', ''worker_eth_address''] to_String [] (\<lambda>v m. m\<lparr>nd_workerEthAddress := v\<rparr>),
      json_field [''extraJson'', ''extra_json''] (bytesFromBase64 R) [] (\<lambda>v m. m\<lparr>nd_extraJson := v\<rparr>),
      json_list [''capabilities''] (fromJSON_Capability R) (\<lambda>v m. m\<lparr>nd_capabilities := v\<rparr>),
      json_field [''source''] sourceFromJSON 0 (\<lambda>v m. m\<lparr>nd_source := v\<rparr>),
      json_field [''signatureStatus'', ''signature_status''] signatureStatusFromJSON 0 (\<lambda>v m. m\<lparr>nd_signatureStatus := v\<rparr>),
      json_field [''operatorAddress'', ''operator_address''] to_String [] (\<lambda>v m. m\<lparr>nd_operatorAddress := v\<rparr>),
      json_field [''enabled''] to_Boolean False (\<lambda>v m. m\<lparr>nd_enabled := v\<rparr>),
      json_list [''tierAllowed'', ''tier_allowed''] to_String (\<lambda>v m. m\<lparr>nd_tierAllowed := v\<rparr>),
      json_field [''weight''] to_Number 0 (\<lambda>v m. m\<lparr>nd_weight := v\<rparr>)] createBaseNode"

definition toJSON_Node :: "Node \<Rightarrow> json_fault + any" where
  "toJSON_Node m = to_fields
     [put (nd_id m \<noteq> []) ''id'' (AStr (nd_id m)),
      put (nd_url m \<noteq> []) ''url'' (AStr (nd_url m)),
      put (nd_workerEthAddress m \<noteq> []) ''workerEthAddress'' (AStr (nd_workerEthAddress m)),
      put (nd_extraJson m \<noteq> []) ''extraJson'' (AStr (base64FromBytes (nd_extraJson m))),
      put_list ''capabilities'' toJSON_Capability (nd_capabilities m),
      put (nd_source m \<noteq> 0) ''source'' (sourceToJSON (nd_source m)),
      put (nd_signatureStatus m \<noteq> 0) ''signatureStatus'' (signatureStatusToJSON (nd_signatureStatus m)),
      put (nd_operatorAddress m \<noteq> []) ''operatorAddress'' (AStr (nd_operatorAddress m)),
      put (nd_enabled m) ''enabled'' (ABool (nd_enabled m)),
      put_list ''tierAllowed'' (\<lambda>s. Inr (AStr s)) (nd_tierAllowed m),
      put (nd_weight m \<noteq> 0) ''weight'' (ANum (nd_weight m))]"

definition fromPartial_Node :: "Node conv" where
  "fromPartial_Node = from_partial
     [json_field [''id''] as_string [] (\<lambda>v m. m\<lparr>nd_id := v\<rparr>),
      json_field [''url''] as_string [] (\<lambda>v m. m\<lparr>nd_url := v\<rparr>),
      json_field [''workerEthAddress''] as_string [] (\<lambda>v m. m\<lparr>nd_workerEthAddress := v\<rparr>),
      json_field [''extraJson''] as_bytes [] (\<lambda>v m. m\<lparr>nd_extraJson := v\<rparr>),
      json_list [''capabilities''] fromPartial_Capability (\<lambda>v m. m\<lparr>nd_capabilities := v\<rparr>),
      json_field [''source''] as_number 0 (\<lambda>v m. m\<lparr>nd_source := v\<rparr>),
      json_field [''signatureStatus''] as_number 0 (\<lambda>v m. m\<lparr>nd_signatureStatus := v\<rparr>),
      json_field [''operatorAddress''] as_string [] (\<lambda>v m. m\<lparr>nd_operatorAddress := v\<rparr>),
      json_field [''enabled''] as_boolean False (\<lambda>v m. m\<lparr>nd_enabled := v\<rparr>),
      json_list [''tierAllowed''] as_string (\<lambda>v m. m\<lparr>nd_tierAllowed := v\<rparr>),
      json_field [''weight''] as_number 0 (\<lambda>v m. m\<lparr>nd_weight := v\<rparr>)] createBaseNode"

definition create_Node :: "any option \<Rightarrow> json_fault + Node" where
  "create_Node = create_from fromPartial_Node"

definition plain_Node :: "Node \<Rightarrow> json_fault + any" where
  "plain_Node m = to_fields
     [put True ''id'' (AStr (nd_id m)),
      put True ''url'' (AStr (nd_url m)),
      put True ''workerEthAddress'' (AStr (nd_workerEthAddress m)),
      put True ''extraJson'' (ABytes (nd_extraJson m)),
      put_list ''capabilities'' plain_Capability (nd_capabilities m),
      put True ''source'' (ANum (nd_source m)),
      put True ''signatureStatus'' (ANum (nd_signatureStatus m)),
      put True ''operatorAddress'' (AStr (nd_operatorAddress m)),
      put True ''enabled'' (ABool (nd_enabled m)),
      put_list ''tierAllowed'' (\<lambda>s. Inr (AStr s)) (nd_tierAllowed m),
      put True ''weight'' (ANum (nd_weight m))]"

definition known_Node :: "Node \<Rightarrow> bool" where
  "known_Node m \<longleftrightarrow> enum_ok Source_table (nd_source m) \<and> enum_ok SignatureStatus_table (nd_signatureStatus m)"

lemma Node_json [json_backs]: "json_back known_Node toJSON_Node (fromJSON_Node R)"
  by (rule json_backI, rule toJSON_Node_def, rule from_object(1) [OF fromJSON_Node_def], rule exI, unfold signatureStatusFromJSON_def signatureStatusToJSON_def sourceFromJSON_def sourceToJSON_def)
    ((rule field_intros json_backs SignatureStatus_table_proper Source_table_proper | rule fields_back_Nil, simp add: createBaseNode_def | simp add: fields_back_Nil known_Node_def; fail)+)

lemma Node_partial [partial_backs]: "json_back (\<lambda>_. True) plain_Node fromPartial_Node"
  by (rule json_backI, rule plain_Node_def, rule from_object(2) [OF fromPartial_Node_def], rule exI)
    ((rule partial_intros partial_backs | rule fields_back_Nil, simp add: createBaseNode_def | simp; fail)+)

section \<open>Resolver service\<close>

definition fromJSON_ResolveByAddressRequest :: "runtime \<Rightarrow> ResolveByAddressRequest conv" where
  "fromJSON_ResolveByAddressRequest R = from_fields False
     [json_field [''ethAddress'', ''eth_address''] to_String [] (\<lambda>v m. m\<lparr>rb_ethAddress := v\<rparr>),
      json_field [''allowLegacyFallback'', ''allow_legacy_fallback''] to_Boolean False (\<lambda>v m. m\<lparr>rb_allowLegacyFallback := v\<rparr>),
      json_field [''allowUnsigned'', ''allow_unsigned''] to_Boolean False (\<lambda>v m. m\<lparr>rb_allowUnsigned := v\<rparr>),
      json_field [''forceRefresh'', ''force_refresh''] to_Boolean False (\<lambda>v m. m\<lparr>rb_forceRefresh := v\<rparr>)] createBaseResolveByAddressRequest"

definition toJSON_ResolveByAddressRequest :: "ResolveByAddressRequest \<Rightarrow> json_fault + any" where
  "toJSON_ResolveByAddressRequest m = to_fields
     [put (rb_ethAddress m \<noteq> []) ''ethAddress'' (AStr (rb_ethAddress m)),
      put (rb_allowLegacyFallback m) ''allowLegacyFallback'' (ABool (rb_allowLegacyFallback m)),
      put (rb_allowUnsigned m) ''allowUnsigned'' (ABool (rb_allowUnsigned m)),
      put (rb_forceRefresh m) ''forceRefresh'' (ABool (rb_forceRefresh m))]"

definition fromPartial_ResolveByAddressRequest :: "ResolveByAddressRequest conv" where
  "fromPartial_ResolveByAddressRequest = from_partial
     [json_field [''ethAddress''] as_string [] (\<lambda>v m. m\<lparr>rb_ethAddress := v\<rparr>),
      json_field [''allowLegacyFallback''] as_boolean False (\<lambda>v m. m\<lparr>rb_allowLegacyFallback := v\<rparr>),
      json_field [''allowUnsigned''] as_boolean False (\<lambda>v m. m\<lparr>rb_allowUnsigned := v\<rparr>),
      json_field [''forceRefresh''] as_boolean False (\<lambda>v m. m\<lparr>rb_forceRefresh := v\<rparr>)] createBaseResolveByAddressRequest"

definition create_ResolveByAddressRequest :: "any option \<Rightarrow> json_fault + ResolveByAddressRequest" where
  "create_ResolveByAddressRequest = create_from fromPartial_ResolveByAddressRequest"

definition plain_ResolveByAddressRequest :: "ResolveByAddressRequest \<Rightarrow> json_fault + any" where
  "plain_ResolveByAddressRequest m = to_fields
     [put True ''ethAddress'' (AStr (rb_ethAddress m)),
      put True ''allowLegacyFallback'' (ABool (rb_allowLegacyFallback m)),
      put True ''allowUnsigned'' (ABool (rb_allowUnsigned m)),
      put True ''forceRefresh'' (ABool (rb_forceRefresh m))]"

lemma ResolveByAddressRequest_json [json_backs]: "json_back (\<lambda>_. True) toJSON_ResolveByAddressRequest (fromJSON_ResolveByAddressRequest R)"
  by (rule json_backI, rule toJSON_ResolveByAddressRequest_def, rule from_object(1) [OF fromJSON_ResolveByAddressRequest_def], rule exI)
    ((rule field_intros json_backs | rule fields_back_Nil, simp add: createBaseResolveByAddressRequest_def | simp add: fields_back_Nil; fail)+)

lemma ResolveByAddressRequest_partial [partial_backs]: "json_back (\<lambda>_. True) plain_ResolveByAddressRequest fromPartial_ResolveByAddressRequest"
  by (rule json_backI, rule plain_ResolveByAddressRequest_def, rule from_object(2) [OF fromPartial_ResolveByAddressRequest_def], rule exI)
    ((rule partial_intros partial_backs | rule fields_back_Nil, simp add: createBaseResolveByAddressRequest_def | simp; fail)+)

definition fromJSON_ResolveResult :: "runtime \<Rightarrow> ResolveResult conv" where
  "fromJSON_ResolveResult R = from_fields False
     [json_field [''ethAddress'', ''eth_address''] to_String [] (\<lambda>v m. m\<lparr>rr_ethAddress := v\<rparr>),
      json_field [''resolvedUri'', ''resolved_uri''] to_String [] (\<lambda>v m. m\<lparr>rr_resolvedUri := v\<rparr>),
      json_field [''mode''] resolveModeFromJSON 0 (\<lambda>v m. m\<lparr>rr_mode := v\<rparr>),
      json_list [''nodes''] (fromJSON_Node R) (\<lambda>v m. m\<lparr>rr_nodes := v\<rparr>),
      json_field [''freshnessStatus'', ''freshness_status''] freshnessStatusFromJSON 0 (\<lambda>v m. m\<lparr>rr_freshnessStatus := v\<rparr>),
      json_option [''cachedAt'', ''cached_at''] (fromJsonTimestamp R) (\<lambda>v m. m\<lparr>rr_cachedAt := v\<rparr>),
      json_option [''fetchedAt'', ''fetched_at''] (fromJsonTimestamp R) (\<lambda>v m. m\<lparr>rr_fetchedAt := v\<rparr>),
      json_field [''schemaVersion'', ''schema_version''] to_String [] (\<lambda>v m. m\<lparr>rr_schemaVersion := v\<rparr>)] createBaseResolveResult"

definition toJSON_ResolveResult :: "ResolveResult \<Rightarrow> json_fault + any" where
  "toJSON_ResolveResult m = to_fields
     [put (rr_ethAddress m \<noteq> []) ''ethAddress'' (AStr (rr_ethAddress m)),
      put (rr_resolvedUri m \<noteq> []) ''resolvedUri'' (AStr (rr_resolvedUri m)),
      put (rr_mode m \<noteq> 0) ''mode'' (resolveModeToJSON (rr_mode m)),
      put_list ''nodes'' toJSON_Node (rr_nodes m),
      put (rr_freshnessStatus m \<noteq> 0) ''freshnessStatus'' (freshnessStatusToJSON (rr_freshnessStatus m)),
      put_option ''cachedAt'' date_json (rr_cachedAt m),
      put_option ''fetchedAt'' date_json (rr_fetchedAt m),
      put (rr_schemaVersion m \<noteq> []) ''schemaVersion'' (AStr (rr_schemaVersion m))]"

definition fromPartial_ResolveResult :: "ResolveResult conv" where
  "fromPartial_ResolveResult = from_partial
     [json_field [''ethAddress''] as_string [] (\<lambda>v m. m\<lparr>rr_ethAddress := v\<rparr>),
      json_field [''resolvedUri''] as_string [] (\<lambda>v m. m\<lparr>rr_resolvedUri := v\<rparr>),
      json_field [''mode''] as_number 0 (\<lambda>v m. m\<lparr>rr_mode := v\<rparr>),
      json_list [''nodes''] fromPartial_Node (\<lambda>v m. m\<lparr>rr_nodes := v\<rparr>),
      json_field [''freshnessStatus''] as_number 0 (\<lambda>v m. m\<lparr>rr_freshnessStatus := v\<rparr>),
      json_option [''cachedAt''] as_date (\<lambda>v m. m\<lparr>rr_cachedAt := v\<rparr>),
      json_option [''fetchedAt''] as_date (\<lambda>v m. m\<lparr>rr_fetchedAt := v\<rparr>),
      json_field [''schemaVersion''] as_string [] (\<lambda>v m. m\<lparr>rr_schemaVersion := v\<rparr>)] createBaseResolveResult"

definition create_ResolveResult :: "any option \<Rightarrow> json_fault + ResolveResult" where
  "create_ResolveResult = create_from fromPartial_ResolveResult"

definition plain_ResolveResult :: "ResolveResult \<Rightarrow> json_fault + any" where
  "plain_ResolveResult m = to_fields
     [put True ''ethAddress'' (AStr (rr_ethAddress m)),
      put True ''resolvedUri'' (AStr (rr_resolvedUri m)),
      put True ''mode'' (ANum (rr_mode m)),
      put_list ''nodes'' plain_Node (rr_nodes m),
      put True ''freshnessStatus'' (ANum (rr_freshnessStatus m)),
      put_option ''cachedAt'' (\<lambda>d. Inr (ADate d)) (rr_cachedAt m),
      put_option ''fetchedAt'' (\<lambda>d. Inr (ADate d)) (rr_fetchedAt m),
      put True ''schemaVersion'' (AStr (rr_schemaVersion m))]"

definition known_ResolveResult :: "ResolveResult \<Rightarrow> bool" where
  "known_ResolveResult m \<longleftrightarrow> enum_ok ResolveMode_table (rr_mode m) \<and> list_all known_Node (rr_nodes m) \<and> enum_ok FreshnessStatus_table (rr_freshnessStatus m) \<and> pred_option date_valid (rr_cachedAt m) \<and> pred_option date_valid (rr_fetchedAt m)"

lemma ResolveResult_json [json_backs]: "json_back known_ResolveResult toJSON_ResolveResult (fromJSON_ResolveResult R)"
  by (rule json_backI, rule toJSON_ResolveResult_def, rule from_object(1) [OF fromJSON_ResolveResult_def], rule exI, unfold freshnessStatusFromJSON_def freshnessStatusToJSON_def resolveModeFromJSON_def resolveModeToJSON_def)
    ((rule field_intros json_backs FreshnessStatus_table_proper ResolveMode_table_proper | rule fields_back_Nil, simp add: createBaseResolveResult_def | simp add: fields_back_Nil known_ResolveResult_def; fail)+)

lemma ResolveResult_partial [partial_backs]: "json_back (\<lambda>_. True) plain_ResolveResult fromPartial_ResolveResult"
  by (rule json_backI, rule plain_ResolveResult_def, rule from_object(2) [OF fromPartial_ResolveResult_def], rule exI)
    ((rule partial_intros partial_backs | rule fields_back_Nil, simp add: createBaseResolveResult_def | simp; fail)+)

definition fromJSON_SelectRequest :: "runtime \<Rightarrow> SelectRequest conv" where
  "fromJSON_SelectRequest R = from_fields False
     [json_field [''capability''] to_String [] (\<lambda>v m. m\<lparr>sq_capability := v\<rparr>),
      json_field [''offering''] to_String [] (\<lambda>v m. m\<lparr>sq_offering := v\<rparr>),
      json_field [''tier''] to_String [] (\<lambda>v m. m\<lparr>sq_tier := v\<rparr>),
      json_field [''minWeight'', ''min_weight''] to_Number 0 (\<lambda>v m. m\<lparr>sq_minWeight := v\<rparr>)] createBaseSelectRequest"

definition toJSON_SelectRequest :: "SelectRequest \<Rightarrow> json_fault + any" where
  "toJSON_SelectRequest m = to_fields
     [put (sq_capability m \<noteq> []) ''capability'' (AStr (sq_capability m)),
      put (sq_offering m \<noteq> []) ''offering'' (AStr (sq_offering m)),
      put (sq_tier m \<noteq> []) ''tier'' (AStr (sq_tier m)),
      put (sq_minWeight m \<noteq> 0) ''minWeight'' (ANum (sq_minWeight m))]"

definition fromPartial_SelectRequest :: "SelectRequest conv" where
  "fromPartial_SelectRequest = from_partial
     [json_field [''capability''] as_string [] (\<lambda>v m. m\<lparr>sq_capability := v\<rparr>),
      json_field [''offering''] as_string [] (\<lambda>v m. m\<lparr>sq_offering := v\<rparr>),
      json_field [''tier''] as_string [] (\<lambda>v m. m\<lparr>sq_tier := v\<rparr>),
      json_field [''minWeight''] as_number 0 (\<lambda>v m. m\<lparr>sq_minWeight := v\<rparr>)] createBaseSelectRequest"

definition create_SelectRequest :: "any option \<Rightarrow> json_fault + SelectRequest" where
  "create_SelectRequest = create_from fromPartial_SelectRequest"

definition plain_SelectRequest :: "SelectRequest \<Rightarrow> json_fault + any" where
  "plain_SelectRequest m = to_fields
     [put True ''capability'' (AStr (sq_capability m)),
      put True ''offering'' (AStr (sq_offering m)),
      put True ''tier'' (AStr (sq_tier m)),
      put True ''minWeight'' (ANum (sq_minWeight m))]"

lemma SelectRequest_json [json_backs]: "json_back (\<lambda>_. True) toJSON_SelectRequest (fromJSON_SelectRequest R)"
  by (rule json_backI, rule toJSON_SelectRequest_def, rule from_object(1) [OF fromJSON_SelectRequest_def], rule exI)
    ((rule field_intros json_backs | rule fields_back_Nil, simp add: createBaseSelectRequest_def | simp add: fields_back_Nil; fail)+)

lemma SelectRequest_partial [partial_backs]: "json_back (\<lambda>_. True) plain_SelectRequest fromPartial_SelectRequest"
  by (rule json_backI, rule plain_SelectRequest_def, rule from_object(2) [OF fromPartial_SelectRequest_def], rule exI)
    ((rule partial_intros partial_backs | rule fields_back_Nil, simp add: createBaseSelectRequest_def | simp; fail)+)

definition fromJSON_SelectedRoute :: "runtime \<Rightarrow> ProtoSelectedRoute conv" where
  "fromJSON_SelectedRoute R = from_fields False
     [json_field [''workerUrl'', ''worker_url''] to_String [] (\<lambda>v m. m\<lparr>ps_workerUrl := v\<rparr>),
      json_field [''ethAddress'', ''eth_address''] to_String [] (\<lambda>v m. m\<lparr>ps_ethAddress := v\<rparr>),
      json_field [''capability''] to_String [] (\<lambda>v m. m\<lparr>ps_capability := v\<rparr>),
      json_field [''offering''] to_String [] (\<lambda>v m. m\<lparr>ps_offering := v\<rparr>),
      json_field [''pricePerWorkUnitWei'', ''price_per_work_unit_wei''] to_String [] (\<lambda>v m. m\<lparr>ps_pricePerWorkUnitWei := v\<rparr>),
      json_field [''workUnit'', ''work_unit''] to_String [] (\<lambda>v m. m\<lparr>ps_workUnit := v\<rparr>),
      json_field [''extraJson'', ''extra_json''] (bytesFromBase64 R) [] (\<lambda>v m. m\<lparr>ps_extraJson := v\<rparr>),
      json_field [''constraintsJson'', ''constraints_json''] (bytesFromBase64 R) [] (\<lambda>v m. m\<lparr>ps_constraintsJson := v\<rparr>)] createBaseSelectedRoute"

definition toJSON_SelectedRoute :: "ProtoSelectedRoute \<Rightarrow> json_fault + any" where
  "toJSON_SelectedRoute m = to_fields
     [put (ps_workerUrl m \<noteq> []) ''workerUrl'' (AStr (ps_workerUrl m)),
      put (ps_ethAddress m \<noteq> []) ''ethAddress'' (AStr (ps_ethAddress m)),
      put (ps_capability m \<noteq> []) ''capability'' (AStr (ps_capability m)),
      put (ps_offering m \<noteq> []) ''offering'' (AStr (ps_offering m)),
      put (ps_pricePerWorkUnitWei m \<noteq> []) ''pricePerWorkUnitWei'' (AStr (ps_pricePerWorkUnitWei m)),
      put (ps_workUnit m \<noteq> []) ''workUnit'' (AStr (ps_workUnit m)),
      put (ps_extraJson m \<noteq> []) ''extraJson'' (AStr (base64FromBytes (ps_extraJson m))),
      put (ps_constraintsJson m \<noteq> []) ''constraintsJson'' (AStr (base64FromBytes (ps_constraintsJson m)))]"

definition fromPartial_SelectedRoute :: "ProtoSelectedRoute conv" where
  "fromPartial_SelectedRoute = from_partial
     [json_field [''workerUrl''] as_string [] (\<lambda>v m. m\<lparr>ps_workerUrl := v\<rparr>),
      json_field [''ethAddress''] as_string [] (\<lambda>v m. m\<lparr>ps_ethAddress := v\<rparr>),
      json_field [''capability''] as_string [] (\<lambda>v m. m\<lparr>ps_capability := v\<rparr>),
      json_field [''offering''] as_string [] (\<lambda>v m. m\<lparr>ps_offering := v\<rparr>),
      json_field [''pricePerWorkUnitWei''] as_string [] (\<lambda>v m. m\<lparr>ps_pricePerWorkUnitWei := v\<rparr>),
      json_field [''workUnit''] as_string [] (\<lambda>v m. m\<lparr>ps_workUnit := v\<rparr>),
      json_field [''extraJson''] as_bytes [] (\<lambda>v m. m\<lparr>ps_extraJson := v\<rparr>),
      json_field [''constraintsJson''] as_bytes [] (\<lambda>v m. m\<lparr>ps_constraintsJson := v\<rparr>)] createBaseSelectedRoute"

definition create_SelectedRoute :: "any option \<Rightarrow> json_fault + ProtoSelectedRoute" where
  "create_SelectedRoute = create_from fromPartial_SelectedRoute"

definition plain_SelectedRoute :: "ProtoSelectedRoute \<Rightarrow> json_fault + any" where
  "plain_SelectedRoute m = to_fields
     [put True ''workerUrl'' (AStr (ps_workerUrl m)),
      put True ''ethAddress'' (AStr (ps_ethAddress m)),
      put True ''capability'' (AStr (ps_capability m)),
      put True ''offering'' (AStr (ps_offering m)),
      put True ''pricePerWorkUnitWei'' (AStr (ps_pricePerWorkUnitWei m)),
      put True ''workUnit'' (AStr (ps_workUnit m)),
      put True ''extraJson'' (ABytes (ps_extraJson m)),
      put True ''constraintsJson'' (ABytes (ps_constraintsJson m))]"

lemma SelectedRoute_json [json_backs]: "json_back (\<lambda>_. True) toJSON_SelectedRoute (fromJSON_SelectedRoute R)"
  by (rule json_backI, rule toJSON_SelectedRoute_def, rule from_object(1) [OF fromJSON_SelectedRoute_def], rule exI)
    ((rule field_intros json_backs | rule fields_back_Nil, simp add: createBaseSelectedRoute_def | simp add: fields_back_Nil; fail)+)

lemma SelectedRoute_partial [partial_backs]: "json_back (\<lambda>_. True) plain_SelectedRoute fromPartial_SelectedRoute"
  by (rule json_backI, rule plain_SelectedRoute_def, rule from_object(2) [OF fromPartial_SelectedRoute_def], rule exI)
    ((rule partial_intros partial_backs | rule fields_back_Nil, simp add: createBaseSelectedRoute_def | simp; fail)+)

definition fromJSON_SelectResult :: "runtime \<Rightarrow> ProtoSelectResult conv" where
  "fromJSON_SelectResult R = from_fields False
     [json_option [''route''] (fromJSON_SelectedRoute R) (\<lambda>v m. m\<lparr>pr_route := v\<rparr>)] createBaseSelectResult"

definition toJSON_SelectResult :: "ProtoSelectResult \<Rightarrow> json_fault + any" where
  "toJSON_SelectResult m = to_fields
     [put_option ''route'' toJSON_SelectedRoute (pr_route m)]"

definition fromPartial_SelectResult :: "ProtoSelectResult conv" where
  "fromPartial_SelectResult = from_partial
     [json_option [''route''] fromPartial_SelectedRoute (\<lambda>v m. m\<lparr>pr_route := v\<rparr>)] createBaseSelectResult"

definition create_SelectResult :: "any option \<Rightarrow> json_fault + ProtoSelectResult" where
  "create_SelectResult = create_from fromPartial_SelectResult"

definition plain_SelectResult :: "ProtoSelectResult \<Rightarrow> json_fault + any" where
  "plain_SelectResult m = to_fields
     [put_option ''route'' plain_SelectedRoute (pr_route m)]"

lemma SelectResult_json [json_backs]: "json_back (\<lambda>_. True) toJSON_SelectResult (fromJSON_SelectResult R)"
  by (rule json_backI, rule toJSON_SelectResult_def, rule from_object(1) [OF fromJSON_SelectResult_def], rule exI)
    ((rule field_intros json_backs | rule fields_back_Nil, simp add: createBaseSelectResult_def | simp add: fields_back_Nil; fail)+)

lemma SelectResult_partial [partial_backs]: "json_back (\<lambda>_. True) plain_SelectResult fromPartial_SelectResult"
  by (rule json_backI, rule plain_SelectResult_def, rule from_object(2) [OF fromPartial_SelectResult_def], rule exI)
    ((rule partial_intros partial_backs | rule fields_back_Nil, simp add: createBaseSelectResult_def | simp; fail)+)

definition fromJSON_ListKnownRequest :: "runtime \<Rightarrow> unit conv" where
  "fromJSON_ListKnownRequest R v = Inr createBaseListKnownRequest"

definition toJSON_ListKnownRequest :: "unit \<Rightarrow> json_fault + any" where
  "toJSON_ListKnownRequest m = to_fields []"

definition fromPartial_ListKnownRequest :: "unit conv" where
  "fromPartial_ListKnownRequest v = Inr createBaseListKnownRequest"

definition create_ListKnownRequest :: "any option \<Rightarrow> json_fault + unit" where
  "create_ListKnownRequest = create_from fromPartial_ListKnownRequest"

definition fromJSON_KnownEntry :: "runtime \<Rightarrow> KnownEntry conv" where
  "fromJSON_KnownEntry R = from_fields False
     [json_field [''ethAddress'', ''eth_address''] to_String [] (\<lambda>v m. m\<lparr>ke_ethAddress := v\<rparr>),
      json_field [''mode''] resolveModeFromJSON 0 (\<lambda>v m. m\<lparr>ke_mode := v\<rparr>),
      json_field [''freshnessStatus'', ''freshness_status''] freshnessStatusFromJSON 0 (\<lambda>v m. m\<lparr>ke_freshnessStatus := v\<rparr>),
      json_option [''cachedAt'', ''cached_at''] (fromJsonTimestamp R) (\<lambda>v m. m\<lparr>ke_cachedAt := v\<rparr>)] createBaseKnownEntry"

definition toJSON_KnownEntry :: "KnownEntry \<Rightarrow> json_fault + any" where
  "toJSON_KnownEntry m = to_fields
     [put (ke_ethAddress m \<noteq> []) ''ethAddress'' (AStr (ke_ethAddress m)),
      put (ke_mode m \<noteq> 0) ''mode'' (resolveModeToJSON (ke_mode m)),
      put (ke_freshnessStatus m \<noteq> 0) ''freshnessStatus'' (freshnessStatusToJSON (ke_freshnessStatus m)),
      put_option ''cachedAt'' date_json (ke_cachedAt m)]"

definition fromPartial_KnownEntry :: "KnownEntry conv" where
  "fromPartial_KnownEntry = from_partial
     [json_field [''ethAddress''] as_string [] (\<lambda>v m. m\<lparr>ke_ethAddress := v\<rparr>),
      json_field [''mode''] as_number 0 (\<lambda>v m. m\<lparr>ke_mode := v\<rparr>),
      json_field [''freshnessStatus''] as_number 0 (\<lambda>v m. m\<lparr>ke_freshnessStatus := v\<rparr>),
      json_option [''cachedAt''] as_date (\<lambda>v m. m\<lparr>ke_cachedAt := v\<rparr>)] createBaseKnownEntry"

definition create_KnownEntry :: "any option \<Rightarrow> json_fault + KnownEntry" where
  "create_KnownEntry = create_from fromPartial_KnownEntry"

definition plain_KnownEntry :: "KnownEntry \<Rightarrow> json_fault + any" where
  "plain_KnownEntry m = to_fields
     [put True ''ethAddress'' (AStr (ke_ethAddress m)),
      put True ''mode'' (ANum (ke_mode m)),
      put True ''freshnessStatus'' (ANum (ke_freshnessStatus m)),
      put_option ''cachedAt'' (\<lambda>d. Inr (ADate d)) (ke_cachedAt m)]"

definition known_KnownEntry :: "KnownEntry \<Rightarrow> bool" where
  "known_KnownEntry m \<longleftrightarrow> enum_ok ResolveMode_table (ke_mode m) \<and> enum_ok FreshnessStatus_table (ke_freshnessStatus m) \<and> pred_option date_valid (ke_cachedAt m)"

lemma KnownEntry_json [json_backs]: "json_back known_KnownEntry toJSON_KnownEntry (fromJSON_KnownEntry R)"
  by (rule json_backI, rule toJSON_KnownEntry_def, rule from_object(1) [OF fromJSON_KnownEntry_def], rule exI, unfold freshnessStatusFromJSON_def freshnessStatusToJSON_def resolveModeFromJSON_def resolveModeToJSON_def)
    ((rule field_intros json_backs FreshnessStatus_table_proper ResolveMode_table_proper | rule fields_back_Nil, simp add: createBaseKnownEntry_def | simp add: fields_back_Nil known_KnownEntry_def; fail)+)

lemma KnownEntry_partial [partial_backs]: "json_back (\<lambda>_. True) plain_KnownEntry fromPartial_KnownEntry"
  by (rule json_backI, rule plain_KnownEntry_def, rule from_object(2) [OF fromPartial_KnownEntry_def], rule exI)
    ((rule partial_intros partial_backs | rule fields_back_Nil, simp add: createBaseKnownEntry_def | simp; fail)+)

definition fromJSON_ListKnownResult :: "runtime \<Rightarrow> ListKnownResult conv" where
  "fromJSON_ListKnownResult R = from_fields True
     [json_list [''entries''] (fromJSON_KnownEntry R) (\<lambda>v m. m\<lparr>lk_entries := v\<rparr>)] createBaseListKnownResult"

definition toJSON_ListKnownResult :: "ListKnownResult \<Rightarrow> json_fault + any" where
  "toJSON_ListKnownResult m = to_fields
     [put_list ''entries'' toJSON_KnownEntry (lk_entries m)]"

definition fromPartial_ListKnownResult :: "ListKnownResult conv" where
  "fromPartial_ListKnownResult = from_partial
     [json_list [''entries''] fromPartial_KnownEntry (\<lambda>v m. m\<lparr>lk_entries := v\<rparr>)] createBaseListKnownResult"

definition create_ListKnownResult :: "any option \<Rightarrow> json_fault + ListKnownResult" where
  "create_ListKnownResult = create_from fromPartial_ListKnownResult"

definition plain_ListKnownResult :: "ListKnownResult \<Rightarrow> json_fault + any" where
  "plain_ListKnownResult m = to_fields
     [put_list ''entries'' plain_KnownEntry (lk_entries m)]"

definition known_ListKnownResult :: "ListKnownResult \<Rightarrow> bool" where
  "known_ListKnownResult m \<longleftrightarrow> list_all known_KnownEntry (lk_entries m)"

lemma ListKnownResult_json [json_backs]: "json_back known_ListKnownResult toJSON_ListKnownResult (fromJSON_ListKnownResult R)"
  by (rule json_backI, rule toJSON_ListKnownResult_def, rule from_object(1) [OF fromJSON_ListKnownResult_def], rule exI)
    ((rule field_intros json_backs | rule fields_back_Nil, simp add: createBaseListKnownResult_def | simp add: fields_back_Nil known_ListKnownResult_def; fail)+)

lemma ListKnownResult_partial [partial_backs]: "json_back (\<lambda>_. True) plain_ListKnownResult fromPartial_ListKnownResult"
  by (rule json_backI, rule plain_ListKnownResult_def, rule from_object(2) [OF fromPartial_ListKnownResult_def], rule exI)
    ((rule partial_intros partial_backs | rule fields_back_Nil, simp add: createBaseListKnownResult_def | simp; fail)+)

definition fromJSON_RefreshRequest :: "runtime \<Rightarrow> RefreshRequest conv" where
  "fromJSON_RefreshRequest R = from_fields False
     [json_field [''ethAddress'', ''eth_address''] to_String [] (\<lambda>v m. m\<lparr>rf_ethAddress := v\<rparr>),
      json_field [''force''] to_Boolean False (\<lambda>v m. m\<lparr>rf_force := v\<rparr>)] createBaseRefreshRequest"

definition toJSON_RefreshRequest :: "RefreshRequest \<Rightarrow> json_fault + any" where
  "toJSON_RefreshRequest m = to_fields
     [put (rf_ethAddress m \<noteq> []) ''ethAddress'' (AStr (rf_ethAddress m)),
      put (rf_force m) ''force'' (ABool (rf_force m))]"

definition fromPartial_RefreshRequest :: "RefreshRequest conv" where
  "fromPartial_RefreshRequest = from_partial
     [json_field [''ethAddress''] as_string [] (\<lambda>v m. m\<lparr>rf_ethAddress := v\<rparr>),
      json_field [''force''] as_boolean False (\<lambda>v m. m\<lparr>rf_force := v\<rparr>)] createBaseRefreshRequest"

definition create_RefreshRequest :: "any option \<Rightarrow> json_fault + RefreshRequest" where
  "create_RefreshRequest = create_from fromPartial_RefreshRequest"

definition plain_RefreshRequest :: "RefreshRequest \<Rightarrow> json_fault + any" where
  "plain_RefreshRequest m = to_fields
     [put True ''ethAddress'' (AStr (rf_ethAddress m)),
      put True ''force'' (ABool (rf_force m))]"

lemma RefreshRequest_json [json_backs]: "json_back (\<lambda>_. True) toJSON_RefreshRequest (fromJSON_RefreshRequest R)"
  by (rule json_backI, rule toJSON_RefreshRequest_def, rule from_object(1) [OF fromJSON_RefreshRequest_def], rule exI)
    ((rule field_intros json_backs | rule fields_back_Nil, simp add: createBaseRefreshRequest_def | simp add: fields_back_Nil; fail)+)

lemma RefreshRequest_partial [partial_backs]: "json_back (\<lambda>_. True) plain_RefreshRequest fromPartial_RefreshRequest"
  by (rule json_backI, rule plain_RefreshRequest_def, rule from_object(2) [OF fromPartial_RefreshRequest_def], rule exI)
    ((rule partial_intros partial_backs | rule fields_back_Nil, simp add: createBaseRefreshRequest_def | simp; fail)+)

definition fromJSON_GetAuditLogRequest :: "runtime \<Rightarrow> GetAuditLogRequest conv" where
  "fromJSON_GetAuditLogRequest R = from_fields False
     [json_field [''ethAddress'', ''eth_address''] to_String [] (\<lambda>v m. m\<lparr>ga_ethAddress := v\<rparr>),
      json_option [''since''] (fromJsonTimestamp R) (\<lambda>v m. m\<lparr>ga_since := v\<rparr>),
      json_field [''limit''] to_Number 0 (\<lambda>v m. m\<lparr>ga_limit := v\<rparr>)] createBaseGetAuditLogRequest"

definition toJSON_GetAuditLogRequest :: "GetAuditLogRequest \<Rightarrow> json_fault + any" where
  "toJSON_GetAuditLogRequest m = to_fields
     [put (ga_ethAddress m \<noteq> []) ''ethAddress'' (AStr (ga_ethAddress m)),
      put_option ''since'' date_json (ga_since m),
      put (ga_limit m \<noteq> 0) ''limit'' (ANum (ga_limit m))]"

definition fromPartial_GetAuditLogRequest :: "GetAuditLogRequest conv" where
  "fromPartial_GetAuditLogRequest = from_partial
     [json_field [''ethAddress''] as_string [] (\<lambda>v m. m\<lparr>ga_ethAddress := v\<rparr>),
      json_option [''since''] as_date (\<lambda>v m. m\<lparr>ga_since := v\<rparr>),
      json_field [''limit''] as_number 0 (\<lambda>v m. m\<lparr>ga_limit := v\<rparr>)] createBaseGetAuditLogRequest"

definition create_GetAuditLogRequest :: "any option \<Rightarrow> json_fault + GetAuditLogRequest" where
  "create_GetAuditLogRequest = create_from fromPartial_GetAuditLogRequest"

definition plain_GetAuditLogRequest :: "GetAuditLogRequest \<Rightarrow> json_fault + any" where
  "plain_GetAuditLogRequest m = to_fields
     [put True ''ethAddress'' (AStr (ga_ethAddress m)),
      put_option ''since'' (\<lambda>d. Inr (ADate d)) (ga_since m),
      put True ''limit'' (ANum (ga_limit m))]"

definition known_GetAuditLogRequest :: "GetAuditLogRequest \<Rightarrow> bool" where
  "known_GetAuditLogRequest m \<longleftrightarrow> pred_option date_valid (ga_since m)"

lemma GetAuditLogRequest_json [json_backs]: "json_back known_GetAuditLogRequest toJSON_GetAuditLogRequest (fromJSON_GetAuditLogRequest R)"
  by (rule json_backI, rule toJSON_GetAuditLogRequest_def, rule from_object(1) [OF fromJSON_GetAuditLogRequest_def], rule exI)
    ((rule field_intros json_backs | rule fields_back_Nil, simp add: createBaseGetAuditLogRequest_def | simp add: fields_back_Nil known_GetAuditLogRequest_def; fail)+)

lemma GetAuditLogRequest_partial [partial_backs]: "json_back (\<lambda>_. True) plain_GetAuditLogRequest fromPartial_GetAuditLogRequest"
  by (rule json_backI, rule plain_GetAuditLogRequest_def, rule from_object(2) [OF fromPartial_GetAuditLogRequest_def], rule exI)
    ((rule partial_intros partial_backs | rule fields_back_Nil, simp add: createBaseGetAuditLogRequest_def | simp; fail)+)

definition fromJSON_AuditEvent :: "runtime \<Rightarrow> ProtoAuditEvent conv" where
  "fromJSON_AuditEvent R = from_fields False
     [json_option [''at''] (fromJsonTimestamp R) (\<lambda>v m. m\<lparr>ae_at := v\<rparr>),
      json_field [''ethAddress'', ''eth_address''] to_String [] (\<lambda>v m. m\<lparr>ae_ethAddress := v\<rparr>),
      json_field [''kind''] to_String [] (\<lambda>v m. m\<lparr>ae_kind := v\<rparr>),
      json_field [''mode''] resolveModeFromJSON 0 (\<lambda>v m. m\<lparr>ae_mode := v\<rparr>),
      json_field [''detail''] to_String [] (\<lambda>v m. m\<lparr>ae_detail := v\<rparr>)] createBaseAuditEvent"

definition toJSON_AuditEvent :: "ProtoAuditEvent \<Rightarrow> json_fault + any" where
  "toJSON_AuditEvent m = to_fields
     [put_option ''at'' date_json (ae_at m),
      put (ae_ethAddress m \<noteq> []) ''ethAddress'' (AStr (ae_ethAddress m)),
      put (ae_kind m \<noteq> []) ''kind'' (AStr (ae_kind m)),
      put (ae_mode m \<noteq> 0) ''mode'' (resolveModeToJSON (ae_mode m)),
      put (ae_detail m \<noteq> []) ''detail'' (AStr (ae_detail m))]"

definition fromPartial_AuditEvent :: "ProtoAuditEvent conv" where
  "fromPartial_AuditEvent = from_partial
     [json_option [''at''] as_date (\<lambda>v m. m\<lparr>ae_at := v\<rparr>),
      json_field [''ethAddress''] as_string [] (\<lambda>v m. m\<lparr>ae_ethAddress := v\<rparr>),
      json_field [''kind''] as_string [] (\<lambda>v m. m\<lparr>ae_kind := v\<rparr>),
      json_field [''mode''] as_number 0 (\<lambda>v m. m\<lparr>ae_mode := v\<rparr>),
      json_field [''detail''] as_string [] (\<lambda>v m. m\<lparr>ae_detail := v\<rparr>)] createBaseAuditEvent"

definition create_AuditEvent :: "any option \<Rightarrow> json_fault + ProtoAuditEvent" where
  "create_AuditEvent = create_from fromPartial_AuditEvent"

definition plain_AuditEvent :: "ProtoAuditEvent \<Rightarrow> json_fault + any" where
  "plain_AuditEvent m = to_fields
     [put_option ''at'' (\<lambda>d. Inr (ADate d)) (ae_at m),
      put True ''ethAddress'' (AStr (ae_ethAddress m)),
      put True ''kind'' (AStr (ae_kind m)),
      put True ''mode'' (ANum (ae_mode m)),
      put True ''detail'' (AStr (ae_detail m))]"

definition known_AuditEvent :: "ProtoAuditEvent \<Rightarrow> bool" where
  "known_AuditEvent m \<longleftrightarrow> pred_option date_valid (ae_at m) \<and> enum_ok ResolveMode_table (ae_mode m)"

lemma AuditEvent_json [json_backs]: "json_back known_AuditEvent toJSON_AuditEvent (fromJSON_AuditEvent R)"
  by (rule json_backI, rule toJSON_AuditEvent_def, rule from_object(1) [OF fromJSON_AuditEvent_def], rule exI, unfold resolveModeFromJSON_def resolveModeToJSON_def)
    ((rule field_intros json_backs ResolveMode_table_proper | rule fields_back_Nil, simp add: createBaseAuditEvent_def | simp add: fields_back_Nil known_AuditEvent_def; fail)+)

lemma AuditEvent_partial [partial_backs]: "json_back (\<lambda>_. True) plain_AuditEvent fromPartial_AuditEvent"
  by (rule json_backI, rule plain_AuditEvent_def, rule from_object(2) [OF fromPartial_AuditEvent_def], rule exI)
    ((rule partial_intros partial_backs | rule fields_back_Nil, simp add: createBaseAuditEvent_def | simp; fail)+)

definition fromJSON_AuditLogResult :: "runtime \<Rightarrow> AuditLogResult conv" where
  "fromJSON_AuditLogResult R = from_fields True
     [json_list [''events''] (fromJSON_AuditEvent R) (\<lambda>v m. m\<lparr>al_events := v\<rparr>)] createBaseAuditLogResult"

definition toJSON_AuditLogResult :: "AuditLogResult \<Rightarrow> json_fault + any" where
  "toJSON_AuditLogResult m = to_fields
     [put_list ''events'' toJSON_AuditEvent (al_events m)]"

definition fromPartial_AuditLogResult :: "AuditLogResult conv" where
  "fromPartial_AuditLogResult = from_partial
     [json_list [''events''] fromPartial_AuditEvent (\<lambda>v m. m\<lparr>al_events := v\<rparr>)] createBaseAuditLogResult"

definition create_AuditLogResult :: "any option \<Rightarrow> json_fault + AuditLogResult" where
  "create_AuditLogResult = create_from fromPartial_AuditLogResult"

definition plain_AuditLogResult :: "AuditLogResult \<Rightarrow> json_fault + any" where
  "plain_AuditLogResult m = to_fields
     [put_list ''events'' plain_AuditEvent (al_events m)]"

definition known_AuditLogResult :: "AuditLogResult \<Rightarrow> bool" where
  "known_AuditLogResult m \<longleftrightarrow> list_all known_AuditEvent (al_events m)"

lemma AuditLogResult_json [json_backs]: "json_back known_AuditLogResult toJSON_AuditLogResult (fromJSON_AuditLogResult R)"
  by (rule json_backI, rule toJSON_AuditLogResult_def, rule from_object(1) [OF fromJSON_AuditLogResult_def], rule exI)
    ((rule field_intros json_backs | rule fields_back_Nil, simp add: createBaseAuditLogResult_def | simp add: fields_back_Nil known_AuditLogResult_def; fail)+)

lemma AuditLogResult_partial [partial_backs]: "json_back (\<lambda>_. True) plain_AuditLogResult fromPartial_AuditLogResult"
  by (rule json_backI, rule plain_AuditLogResult_def, rule from_object(2) [OF fromPartial_AuditLogResult_def], rule exI)
    ((rule partial_intros partial_backs | rule fields_back_Nil, simp add: createBaseAuditLogResult_def | simp; fail)+)

definition fromJSON_HealthResult :: "runtime \<Rightarrow> HealthResult conv" where
  "fromJSON_HealthResult R = from_fields False
     [json_field [''mode''] to_String [] (\<lambda>v m. m\<lparr>hr_mode := v\<rparr>),
      json_field [''chainOk'', ''chain_ok''] to_Boolean False (\<lambda>v m. m\<lparr>hr_chainOk := v\<rparr>),
      json_field [''manifestFetcherOk'', ''manifest_fetcher_ok''] to_Boolean False (\<lambda>v m. m\<lparr>hr_manifestFetcherOk := v\<rparr>),
      json_field [''cacheSize'', ''cache_size''] to_Number 0 (\<lambda>v m. m\<lparr>hr_cacheSize := v\<rparr>),
      json_option [''lastChainSuccess'', ''last_chain_success''] (fromJsonTimestamp R) (\<lambda>v m. m\<lparr>hr_lastChainSuccess := v\<rparr>)] createBaseHealthResult"

definition toJSON_HealthResult :: "HealthResult \<Rightarrow> json_fault + any" where
  "toJSON_HealthResult m = to_fields
     [put (hr_mode m \<noteq> []) ''mode'' (AStr (hr_mode m)),
      put (hr_chainOk m) ''chainOk'' (ABool (hr_chainOk m)),
      put (hr_manifestFetcherOk m) ''manifestFetcherOk'' (ABool (hr_manifestFetcherOk m)),
      put (hr_cacheSize m \<noteq> 0) ''cacheSize'' (ANum (hr_cacheSize m)),
      put_option ''lastChainSuccess'' date_json (hr_lastChainSuccess m)]"

definition fromPartial_HealthResult :: "HealthResult conv" where
  "fromPartial_HealthResult = from_partial
     [json_field [''mode''] as_string [] (\<lambda>v m. m\<lparr>hr_mode := v\<rparr>),
      json_field [''chainOk''] as_boolean False (\<lambda>v m. m\<lparr>hr_chainOk := v\<rparr>),
      json_field [''manifestFetcherOk''] as_boolean False (\<lambda>v m. m\<lparr>hr_manifestFetcherOk := v\<rparr>),
      json_field [''cacheSize''] as_number 0 (\<lambda>v m. m\<lparr>hr_cacheSize := v\<rparr>),
      json_option [''lastChainSuccess''] as_date (\<lambda>v m. m\<lparr>hr_lastChainSuccess := v\<rparr>)] createBaseHealthResult"

definition create_HealthResult :: "any option \<Rightarrow> json_fault + HealthResult" where
  "create_HealthResult = create_from fromPartial_HealthResult"

definition plain_HealthResult :: "HealthResult \<Rightarrow> json_fault + any" where
  "plain_HealthResult m = to_fields
     [put True ''mode'' (AStr (hr_mode m)),
      put True ''chainOk'' (ABool (hr_chainOk m)),
      put True ''manifestFetcherOk'' (ABool (hr_manifestFetcherOk m)),
      put True ''cacheSize'' (ANum (hr_cacheSize m)),
      put_option ''lastChainSuccess'' (\<lambda>d. Inr (ADate d)) (hr_lastChainSuccess m)]"

definition known_HealthResult :: "HealthResult \<Rightarrow> bool" where
  "known_HealthResult m \<longleftrightarrow> pred_option date_valid (hr_lastChainSuccess m)"

lemma HealthResult_json [json_backs]: "json_back known_HealthResult toJSON_HealthResult (fromJSON_HealthResult R)"
  by (rule json_backI, rule toJSON_HealthResult_def, rule from_object(1) [OF fromJSON_HealthResult_def], rule exI)
    ((rule field_intros json_backs | rule fields_back_Nil, simp add: createBaseHealthResult_def | simp add: fields_back_Nil known_HealthResult_def; fail)+)

lemma HealthResult_partial [partial_backs]: "json_back (\<lambda>_. True) plain_HealthResult fromPartial_HealthResult"
  by (rule json_backI, rule plain_HealthResult_def, rule from_object(2) [OF fromPartial_HealthResult_def], rule exI)
    ((rule partial_intros partial_backs | rule fields_back_Nil, simp add: createBaseHealthResult_def | simp; fail)+)

end
