(* ===== verification/PublisherJson.thy ===== *)
theory PublisherJson
  imports RegistryJson PublisherCodec
begin

text \<open>
  The JSON forms of the publisher's messages
  (\<^verbatim>\<open>src/providers/resolver/gen/livepeer/registry/v1/publisher.ts\<close>), as in the theory of the
  resolver's.
\<close>

section \<open>Publisher service\<close>

definition fromJSON_IdentityResult :: "runtime \<Rightarrow> IdentityResult conv" where
  "fromJSON_IdentityResult R = from_fields False
     [json_field [''ethAddress'', ''eth_address''] to_String [] (\<lambda>v m. m\<lparr>ir_ethAddress := v\<rparr>)] createBaseIdentityResult"

definition toJSON_IdentityResult :: "IdentityResult \<Rightarrow> json_fault + any" where
  "toJSON_IdentityResult m = to_fields
     [put (ir_ethAddress m \<noteq> []) ''ethAddress'' (AStr (ir_ethAddress m))]"

definition fromPartial_IdentityResult :: "IdentityResult conv" where
  "fromPartial_IdentityResult = from_partial
     [json_field [''ethAddress''] as_string [] (\<lambda>v m. m\<lparr>ir_ethAddress := v\<rparr>)] createBaseIdentityResult"

definition create_IdentityResult :: "any option \<Rightarrow> json_fault + IdentityResult" where
  "create_IdentityResult = create_from fromPartial_IdentityResult"

definition plain_IdentityResult :: "IdentityResult \<Rightarrow> json_fault + any" where
  "plain_IdentityResult m = to_fields
     [put True ''ethAddress'' (AStr (ir_ethAddress m))]"

lemma IdentityResult_json [json_backs]: "json_back (\<lambda>_. True) toJSON_IdentityResult (fromJSON_IdentityResult R)"
  by (rule json_backI, rule toJSON_IdentityResult_def, rule from_object(1) [OF fromJSON_IdentityResult_def], rule exI)
    ((rule field_intros json_backs | rule fields_back_Nil, simp add: createBaseIdentityResult_def | simp add: fields_back_Nil; fail)+)

lemma IdentityResult_partial [partial_backs]: "json_back (\<lambda>_. True) plain_IdentityResult fromPartial_IdentityResult"
  by (rule json_backI, rule plain_IdentityResult_def, rule from_object(2) [OF fromPartial_IdentityResult_def], rule exI)
    ((rule partial_intros partial_backs | rule fields_back_Nil, simp add: createBaseIdentityResult_def | simp; fail)+)

definition fromJSON_BuildManifestRequest :: "runtime \<Rightarrow> BuildManifestRequest conv" where
  "fromJSON_BuildManifestRequest R = from_fields False
     [json_field [''proposedEthAddress'', ''proposed_eth_address''] to_String [] (\<lambda>v m. m\<lparr>bmr_proposedEthAddress := v\<rparr>),
      json_list [''proposedNodes'', ''proposed_nodes''] (fromJSON_Node R) (\<lambda>v m. m\<lparr>bmr_proposedNodes := v\<rparr>)] createBaseBuildManifestRequest"

definition toJSON_BuildManifestRequest :: "BuildManifestRequest \<Rightarrow> json_fault + any" where
  "toJSON_BuildManifestRequest m = to_fields
     [put (bmr_proposedEthAddress m \<noteq> []) ''proposedEthAddress'' (AStr (bmr_proposedEthAddress m)),
      put_list ''proposedNodes'' toJSON_Node (bmr_proposedNodes m)]"

definition fromPartial_BuildManifestRequest :: "BuildManifestRequest conv" where
  "fromPartial_BuildManifestRequest = from_partial
     [json_field [''proposedEthAddress''] as_string [] (\<lambda>v m. m\<lparr>bmr_proposedEthAddress := v\<rparr>),
      json_list [''proposedNodes''] fromPartial_Node (\<lambda>v m. m\<lparr>bmr_proposedNodes := v\<rparr>)] createBaseBuildManifestRequest"

definition create_BuildManifestRequest :: "any option \<Rightarrow> json_fault + BuildManifestRequest" where
  "create_BuildManifestRequest = create_from fromPartial_BuildManifestRequest"

definition plain_BuildManifestRequest :: "BuildManifestRequest \<Rightarrow> json_fault + any" where
  "plain_BuildManifestRequest m = to_fields
     [put True ''proposedEthAddress'' (AStr (bmr_proposedEthAddress m)),
      put_list ''proposedNodes'' plain_Node (bmr_proposedNodes m)]"

definition known_BuildManifestRequest :: "BuildManifestRequest \<Rightarrow> bool" where
  "known_BuildManifestRequest m \<longleftrightarrow> list_all known_Node (bmr_proposedNodes m)"

lemma BuildManifestRequest_json [json_backs]: "json_back known_BuildManifestRequest toJSON_BuildManifestRequest (fromJSON_BuildManifestRequest R)"
  by (rule json_backI, rule toJSON_BuildManifestRequest_def, rule from_object(1) [OF fromJSON_BuildManifestRequest_def], rule exI)
    ((rule field_intros json_backs | rule fields_back_Nil, simp add: createBaseBuildManifestRequest_def | simp add: fields_back_Nil known_BuildManifestRequest_def; fail)+)

lemma BuildManifestRequest_partial [partial_backs]: "json_back (\<lambda>_. True) plain_BuildManifestRequest fromPartial_BuildManifestRequest"
  by (rule json_backI, rule plain_BuildManifestRequest_def, rule from_object(2) [OF fromPartial_BuildManifestRequest_def], rule exI)
    ((rule partial_intros partial_backs | rule fields_back_Nil, simp add: createBaseBuildManifestRequest_def | simp; fail)+)

definition fromJSON_BuildResult :: "runtime \<Rightarrow> BuildResult conv" where
  "fromJSON_BuildResult R = from_fields False
     [json_field [''manifestJson'', ''manifest_json''] (bytesFromBase64 R) [] (\<lambda>v m. m\<lparr>br_manifestJson := v\<rparr>),
      json_field [''canonicalBytes'', ''canonical_bytes''] (bytesFromBase64 R) [] (\<lambda>v m. m\<lparr>br_canonicalBytes := v\<rparr>),
      json_field [''canonicalSha256'', ''canonical_sha256''] to_String [] (\<lambda>v m. m\<lparr>br_canonicalSha256 := v\<rparr>)] createBaseBuildResult"

definition toJSON_BuildResult :: "BuildResult \<Rightarrow> json_fault + any" where
  "toJSON_BuildResult m = to_fields
     [put (br_manifestJson m \<noteq> []) ''manifestJson'' (AStr (base64FromBytes (br_manifestJson m))),
      put (br_canonicalBytes m \<noteq> []) ''canonicalBytes'' (AStr (base64FromBytes (br_canonicalBytes m))),
      put (br_canonicalSha256 m \<noteq> []) ''canonicalSha256'' (AStr (br_canonicalSha256 m))]"

definition fromPartial_BuildResult :: "BuildResult conv" where
  "fromPartial_BuildResult = from_partial
     [json_field [''manifestJson''] as_bytes [] (\<lambda>v m. m\<lparr>br_manifestJson := v\<rparr>),
      json_field [''canonicalBytes''] as_bytes [] (\<lambda>v m. m\<lparr>br_canonicalBytes := v\<rparr>),
      json_field [''canonicalSha256''] as_string [] (\<lambda>v m. m\<lparr>br_canonicalSha256 := v\<rparr>)] createBaseBuildResult"

definition create_BuildResult :: "any option \<Rightarrow> json_fault + BuildResult" where
  "create_BuildResult = create_from fromPartial_BuildResult"

definition plain_BuildResult :: "BuildResult \<Rightarrow> json_fault + any" where
  "plain_BuildResult m = to_fields
     [put True ''manifestJson'' (ABytes (br_manifestJson m)),
      put True ''canonicalBytes'' (ABytes (br_canonicalBytes m)),
      put True ''canonicalSha256'' (AStr (br_canonicalSha256 m))]"

lemma BuildResult_json [json_backs]: "json_back (\<lambda>_. True) toJSON_BuildResult (fromJSON_BuildResult R)"
  by (rule json_backI, rule toJSON_BuildResult_def, rule from_object(1) [OF fromJSON_BuildResult_def], rule exI)
    ((rule field_intros json_backs | rule fields_back_Nil, simp add: createBaseBuildResult_def | simp add: fields_back_Nil; fail)+)

lemma BuildResult_partial [partial_backs]: "json_back (\<lambda>_. True) plain_BuildResult fromPartial_BuildResult"
  by (rule json_backI, rule plain_BuildResult_def, rule from_object(2) [OF fromPartial_BuildResult_def], rule exI)
    ((rule partial_intros partial_backs | rule fields_back_Nil, simp add: createBaseBuildResult_def | simp; fail)+)

definition fromJSON_BuildAndSignRequest :: "runtime \<Rightarrow> BuildAndSignRequest conv" where
  "fromJSON_BuildAndSignRequest R = from_fields False
     [json_field [''manifestJson'', ''manifest_json''] (bytesFromBase64 R) [] (\<lambda>v m. m\<lparr>basr_manifestJson := v\<rparr>)] createBaseBuildAndSignRequest"

definition toJSON_BuildAndSignRequest :: "BuildAndSignRequest \<Rightarrow> json_fault + any" where
  "toJSON_BuildAndSignRequest m = to_fields
     [put (basr_manifestJson m \<noteq> []) ''manifestJson'' (AStr (base64FromBytes (basr_manifestJson m)))]"

definition fromPartial_BuildAndSignRequest :: "BuildAndSignRequest conv" where
  "fromPartial_BuildAndSignRequest = from_partial
     [json_field [''manifestJson''] as_bytes [] (\<lambda>v m. m\<lparr>basr_manifestJson := v\<rparr>)] createBaseBuildAndSignRequest"

definition create_BuildAndSignRequest :: "any option \<Rightarrow> json_fault + BuildAndSignRequest" where
  "create_BuildAndSignRequest = create_from fromPartial_BuildAndSignRequest"

definition plain_BuildAndSignRequest :: "BuildAndSignRequest \<Rightarrow> json_fault + any" where
  "plain_BuildAndSignRequest m = to_fields
     [put True ''manifestJson'' (ABytes (basr_manifestJson m))]"

lemma BuildAndSignRequest_json [json_backs]: "json_back (\<lambda>_. True) toJSON_BuildAndSignRequest (fromJSON_BuildAndSignRequest R)"
  by (rule json_backI, rule toJSON_BuildAndSignRequest_def, rule from_object(1) [OF fromJSON_BuildAndSignRequest_def], rule exI)
    ((rule field_intros json_backs | rule fields_back_Nil, simp add: createBaseBuildAndSignRequest_def | simp add: fields_back_Nil; fail)+)

lemma BuildAndSignRequest_partial [partial_backs]: "json_back (\<lambda>_. True) plain_BuildAndSignRequest fromPartial_BuildAndSignRequest"
  by (rule json_backI, rule plain_BuildAndSignRequest_def, rule from_object(2) [OF fromPartial_BuildAndSignRequest_def], rule exI)
    ((rule partial_intros partial_backs | rule fields_back_Nil, simp add: createBaseBuildAndSignRequest_def | simp; fail)+)

definition fromJSON_SignManifestRequest :: "runtime \<Rightarrow> SignManifestRequest conv" where
  "fromJSON_SignManifestRequest R = from_fields False
     [json_field [''manifestJson'', ''manifest_json''] (bytesFromBase64 R) [] (\<lambda>v m. m\<lparr>smr_manifestJson := v\<rparr>)] createBaseSignManifestRequest"

definition toJSON_SignManifestRequest :: "SignManifestRequest \<Rightarrow> json_fault + any" where
  "toJSON_SignManifestRequest m = to_fields
     [put (smr_manifestJson m \<noteq> []) ''manifestJson'' (AStr (base64FromBytes (smr_manifestJson m)))]"

definition fromPartial_SignManifestRequest :: "SignManifestRequest conv" where
  "fromPartial_SignManifestRequest = from_partial
     [json_field [''manifestJson''] as_bytes [] (\<lambda>v m. m\<lparr>smr_manifestJson := v\<rparr>)] createBaseSignManifestRequest"

definition create_SignManifestRequest :: "any option \<Rightarrow> json_fault + SignManifestRequest" where
  "create_SignManifestRequest = create_from fromPartial_SignManifestRequest"

definition plain_SignManifestRequest :: "SignManifestRequest \<Rightarrow> json_fault + any" where
  "plain_SignManifestRequest m = to_fields
     [put True ''manifestJson'' (ABytes (smr_manifestJson m))]"

lemma SignManifestRequest_json [json_backs]: "json_back (\<lambda>_. True) toJSON_SignManifestRequest (fromJSON_SignManifestRequest R)"
  by (rule json_backI, rule toJSON_SignManifestRequest_def, rule from_object(1) [OF fromJSON_SignManifestRequest_def], rule exI)
    ((rule field_intros json_backs | rule fields_back_Nil, simp add: createBaseSignManifestRequest_def | simp add: fields_back_Nil; fail)+)

lemma SignManifestRequest_partial [partial_backs]: "json_back (\<lambda>_. True) plain_SignManifestRequest fromPartial_SignManifestRequest"
  by (rule json_backI, rule plain_SignManifestRequest_def, rule from_object(2) [OF fromPartial_SignManifestRequest_def], rule exI)
    ((rule partial_intros partial_backs | rule fields_back_Nil, simp add: createBaseSignManifestRequest_def | simp; fail)+)

definition fromJSON_SignedManifest :: "runtime \<Rightarrow> SignedManifest conv" where
  "fromJSON_SignedManifest R = from_fields False
     [json_field [''manifestJson'', ''manifest_json''] (bytesFromBase64 R) [] (\<lambda>v m. m\<lparr>sm_manifestJson := v\<rparr>),
      json_field [''signatureValue'', ''signature_value''] to_String [] (\<lambda>v m. m\<lparr>sm_signatureValue := v\<rparr>)] createBaseSignedManifest"

definition toJSON_SignedManifest :: "SignedManifest \<Rightarrow> json_fault + any" where
  "toJSON_SignedManifest m = to_fields
     [put (sm_manifestJson m \<noteq> []) ''manifestJson'' (AStr (base64FromBytes (sm_manifestJson m))),
      put (sm_signatureValue m \<noteq> []) ''signatureValue'' (AStr (sm_signatureValue m))]"

definition fromPartial_SignedManifest :: "SignedManifest conv" where
  "fromPartial_SignedManifest = from_partial
     [json_field [''manifestJson''] as_bytes [] (\<lambda>v m. m\<lparr>sm_manifestJson := v\<rparr>),
      json_field [''signatureValue''] as_string [] (\<lambda>v m. m\<lparr>sm_signatureValue := v\<rparr>)] createBaseSignedManifest"

definition create_SignedManifest :: "any option \<Rightarrow> json_fault + SignedManifest" where
  "create_SignedManifest = create_from fromPartial_SignedManifest"

definition plain_SignedManifest :: "SignedManifest \<Rightarrow> json_fault + any" where
  "plain_SignedManifest m = to_fields
     [put True ''manifestJson'' (ABytes (sm_manifestJson m)),
      put True ''signatureValue'' (AStr (sm_signatureValue m))]"

lemma SignedManifest_json [json_backs]: "json_back (\<lambda>_. True) toJSON_SignedManifest (fromJSON_SignedManifest R)"
  by (rule json_backI, rule toJSON_SignedManifest_def, rule from_object(1) [OF fromJSON_SignedManifest_def], rule exI)
    ((rule field_intros json_backs | rule fields_back_Nil, simp add: createBaseSignedManifest_def | simp add: fields_back_Nil; fail)+)

lemma SignedManifest_partial [partial_backs]: "json_back (\<lambda>_. True) plain_SignedManifest fromPartial_SignedManifest"
  by (rule json_backI, rule plain_SignedManifest_def, rule from_object(2) [OF fromPartial_SignedManifest_def], rule exI)
    ((rule partial_intros partial_backs | rule fields_back_Nil, simp add: createBaseSignedManifest_def | simp; fail)+)

definition fromJSON_TxHashResult :: "runtime \<Rightarrow> TxHashResult conv" where
  "fromJSON_TxHashResult R = from_fields False
     [json_field [''txHash'', ''tx_hash''] to_String [] (\<lambda>v m. m\<lparr>thr_txHash := v\<rparr>)] createBaseTxHashResult"

definition toJSON_TxHashResult :: "TxHashResult \<Rightarrow> json_fault + any" where
  "toJSON_TxHashResult m = to_fields
     [put (thr_txHash m \<noteq> []) ''txHash'' (AStr (thr_txHash m))]"

definition fromPartial_TxHashResult :: "TxHashResult conv" where
  "fromPartial_TxHashResult = from_partial
     [json_field [''txHash''] as_string [] (\<lambda>v m. m\<lparr>thr_txHash := v\<rparr>)] createBaseTxHashResult"

definition create_TxHashResult :: "any option \<Rightarrow> json_fault + TxHashResult" where
  "create_TxHashResult = create_from fromPartial_TxHashResult"

definition plain_TxHashResult :: "TxHashResult \<Rightarrow> json_fault + any" where
  "plain_TxHashResult m = to_fields
     [put True ''txHash'' (AStr (thr_txHash m))]"

lemma TxHashResult_json [json_backs]: "json_back (\<lambda>_. True) toJSON_TxHashResult (fromJSON_TxHashResult R)"
  by (rule json_backI, rule toJSON_TxHashResult_def, rule from_object(1) [OF fromJSON_TxHashResult_def], rule exI)
    ((rule field_intros json_backs | rule fields_back_Nil, simp add: createBaseTxHashResult_def | simp add: fields_back_Nil; fail)+)

lemma TxHashResult_partial [partial_backs]: "json_back (\<lambda>_. True) plain_TxHashResult fromPartial_TxHashResult"
  by (rule json_backI, rule plain_TxHashResult_def, rule from_object(2) [OF fromPartial_TxHashResult_def], rule exI)
    ((rule partial_intros partial_backs | rule fields_back_Nil, simp add: createBaseTxHashResult_def | simp; fail)+)

definition fromJSON_ProbeWorkerRequest :: "runtime \<Rightarrow> ProbeWorkerRequest conv" where
  "fromJSON_ProbeWorkerRequest R = from_fields False
     [json_field [''url''] to_String [] (\<lambda>v m. m\<lparr>pwr_url := v\<rparr>),
      json_field [''timeoutSeconds'', ''timeout_seconds''] to_Number 0 (\<lambda>v m. m\<lparr>pwr_timeoutSeconds := v\<rparr>)] createBaseProbeWorkerRequest"

definition toJSON_ProbeWorkerRequest :: "ProbeWorkerRequest \<Rightarrow> json_fault + any" where
  "toJSON_ProbeWorkerRequest m = to_fields
     [put (pwr_url m \<noteq> []) ''url'' (AStr (pwr_url m)),
      put (pwr_timeoutSeconds m \<noteq> 0) ''timeoutSeconds'' (ANum (pwr_timeoutSeconds m))]"

definition fromPartial_ProbeWorkerRequest :: "ProbeWorkerRequest conv" where
  "fromPartial_ProbeWorkerRequest = from_partial
     [json_field [''url''] as_string [] (\<lambda>v m. m\<lparr>pwr_url := v\<rparr>),
      json_field [''timeoutSeconds''] as_number 0 (\<lambda>v m. m\<lparr>pwr_timeoutSeconds := v\<rparr>)] createBaseProbeWorkerRequest"

definition create_ProbeWorkerRequest :: "any option \<Rightarrow> json_fault + ProbeWorkerRequest" where
  "create_ProbeWorkerRequest = create_from fromPartial_ProbeWorkerRequest"

definition plain_ProbeWorkerRequest :: "ProbeWorkerRequest \<Rightarrow> json_fault + any" where
  "plain_ProbeWorkerRequest m = to_fields
     [put True ''url'' (AStr (pwr_url m)),
      put True ''timeoutSeconds'' (ANum (pwr_timeoutSeconds m))]"

lemma ProbeWorkerRequest_json [json_backs]: "json_back (\<lambda>_. True) toJSON_ProbeWorkerRequest (fromJSON_ProbeWorkerRequest R)"
  by (rule json_backI, rule toJSON_ProbeWorkerRequest_def, rule from_object(1) [OF fromJSON_ProbeWorkerRequest_def], rule exI)
    ((rule field_intros json_backs | rule fields_back_Nil, simp add: createBaseProbeWorkerRequest_def | simp add: fields_back_Nil; fail)+)

lemma ProbeWorkerRequest_partial [partial_backs]: "json_back (\<lambda>_. True) plain_ProbeWorkerRequest fromPartial_ProbeWorkerRequest"
  by (rule json_backI, rule plain_ProbeWorkerRequest_def, rule from_object(2) [OF fromPartial_ProbeWorkerRequest_def], rule exI)
    ((rule partial_intros partial_backs | rule fields_back_Nil, simp add: createBaseProbeWorkerRequest_def | simp; fail)+)

definition fromJSON_ProbeResult :: "runtime \<Rightarrow> ProbeResult conv" where
  "fromJSON_ProbeResult R = from_fields False
     [json_field [''capabilitiesJson'', ''capabilities_json''] (bytesFromBase64 R) [] (\<lambda>v m. m\<lparr>pr2_capabilitiesJson := v\<rparr>)] createBaseProbeResult"

definition toJSON_ProbeResult :: "ProbeResult \<Rightarrow> json_fault + any" where
  "toJSON_ProbeResult m = to_fields
     [put (pr2_capabilitiesJson m \<noteq> []) ''capabilitiesJson'' (AStr (base64FromBytes (pr2_capabilitiesJson m)))]"

definition fromPartial_ProbeResult :: "ProbeResult conv" where
  "fromPartial_ProbeResult = from_partial
     [json_field [''capabilitiesJson''] as_bytes [] (\<lambda>v m. m\<lparr>pr2_capabilitiesJson := v\<rparr>)] createBaseProbeResult"

definition create_ProbeResult :: "any option \<Rightarrow> json_fault + ProbeResult" where
  "create_ProbeResult = create_from fromPartial_ProbeResult"

definition plain_ProbeResult :: "ProbeResult \<Rightarrow> json_fault + any" where
  "plain_ProbeResult m = to_fields
     [put True ''capabilitiesJson'' (ABytes (pr2_capabilitiesJson m))]"

lemma ProbeResult_json [json_backs]: "json_back (\<lambda>_. True) toJSON_ProbeResult (fromJSON_ProbeResult R)"
  by (rule json_backI, rule toJSON_ProbeResult_def, rule from_object(1) [OF fromJSON_ProbeResult_def], rule exI)
    ((rule field_intros json_backs | rule fields_back_Nil, simp add: createBaseProbeResult_def | simp add: fields_back_Nil; fail)+)

lemma ProbeResult_partial [partial_backs]: "json_back (\<lambda>_. True) plain_ProbeResult fromPartial_ProbeResult"
  by (rule json_backI, rule plain_ProbeResult_def, rule from_object(2) [OF fromPartial_ProbeResult_def], rule exI)
    ((rule partial_intros partial_backs | rule fields_back_Nil, simp add: createBaseProbeResult_def | simp; fail)+)

end
