(* ===== verification/MessageJson.thy ===== *)
theory MessageJson
  imports PayerJson PayeeJson PublisherJson
begin

text \<open>
  The JSON forms of all messages together: what they keep, and the two things they do not. A
  message is read back from its JSON form where its dates are valid and its enum numbers
  are known; at an invalid date \<^verbatim>\<open>toJSON\<close> throws, and an enum number of a newer daemon
  becomes \<^verbatim>\<open>UNRECOGNIZED\<close>, where the wire format would have kept it.
\<close>

lemma json_backD: "json_back ok to_json from_json \<Longrightarrow> ok m \<Longrightarrow> \<exists>j. to_json m = Inr j \<and> from_json j = Inr m"
  by (auto simp: json_back_def)

lemma enum_unknown: "enumToJSON T n = enumToJSON T (- 1)" if "\<not> enum_ok T n" "enum_proper T"
proof -
  from that have "map_of T n = None" "map_of T (- 1) = None"
    by (auto simp: enum_ok_def enum_proper_def map_of_eq_None_iff)
  then show ?thesis by (simp add: enumToJSON_def)
qed

lemma unknown_mode:
  assumes "\<not> enum_ok ResolveMode_table (ke_mode e)"
  shows "toJSON_KnownEntry e = toJSON_KnownEntry (e\<lparr>ke_mode := - 1\<rparr>)"
proof -
  have "enum_ok ResolveMode_table 0" by (simp add: enum_ok_def ResolveMode_table_def)
  with assms have "ke_mode e \<noteq> 0" by auto
  with enum_unknown [OF assms ResolveMode_table_proper] show ?thesis
    by (simp add: toJSON_KnownEntry_def resolveModeToJSON_def)
qed

text \<open>C9. The JSON form of a message is a faithful copy of it: every reply the console reads from the
  resolver and the payer daemon, the payment and the manifest request, is given back by
  \<^verbatim>\<open>fromJSON\<close> from what \<^verbatim>\<open>toJSON\<close> made of it, whatever the runtime does with other texts, where
  the dates are valid and the enum numbers known; \<^verbatim>\<open>fromPartial\<close> copies a message; and
  where that condition fails, \<^verbatim>\<open>toJSON\<close> throws at the date, and the unknown number
  comes back as \<^verbatim>\<open>UNRECOGNIZED\<close>.\<close>

theorem messages_survive_json:
  assumes "known_ResolveResult r" and "known_AuditLogResult a" and "known_ListKnownResult l"
    and "known_HealthResult h" and "known_BuildManifestRequest b"
    and "ae_at v = Some d" "\<not> date_valid d"
    and "\<not> enum_ok ResolveMode_table (ke_mode e)" "known_KnownEntry (e\<lparr>ke_mode := - 1\<rparr>)"
  shows "(\<exists>j. toJSON_ResolveResult r = Inr j \<and> fromJSON_ResolveResult R j = Inr r) \<and>
    (\<exists>j. toJSON_AuditLogResult a = Inr j \<and> fromJSON_AuditLogResult R j = Inr a) \<and>
    (\<exists>j. toJSON_ListKnownResult l = Inr j \<and> fromJSON_ListKnownResult R j = Inr l) \<and>
    (\<exists>j. toJSON_HealthResult h = Inr j \<and> fromJSON_HealthResult R j = Inr h) \<and>
    (\<exists>j. toJSON_SelectResult s = Inr j \<and> fromJSON_SelectResult R j = Inr s) \<and>
    (\<exists>j. toJSON_GetDepositInfoResponse g = Inr j \<and> fromJSON_GetDepositInfoResponse R j = Inr g) \<and>
    (\<exists>j. toJSON_Payment p = Inr j \<and> fromJSON_Payment R j = Inr p) \<and>
    (\<exists>j. toJSON_BuildManifestRequest b = Inr j \<and> fromJSON_BuildManifestRequest R j = Inr b) \<and>
    (\<exists>j. plain_ResolveResult r = Inr j \<and> fromPartial_ResolveResult j = Inr r) \<and>
    (\<exists>j. plain_Payment p = Inr j \<and> fromPartial_Payment j = Inr p) \<and>
    toJSON_AuditEvent v = Inl (Throws (RangeError ''Invalid time value'')) \<and>
    (\<exists>j. toJSON_KnownEntry e = Inr j \<and> fromJSON_KnownEntry R j = Inr (e\<lparr>ke_mode := - 1\<rparr>))"
proof (intro conjI)
  show "toJSON_AuditEvent v = Inl (Throws (RangeError ''Invalid time value''))"
    using assms(6,7) by (cases d) (auto simp: toJSON_AuditEvent_def to_fields_def put_option_def date_json_def
      toISOString_def getTime_def date_valid_def split: if_splits)
  show "\<exists>j. toJSON_KnownEntry e = Inr j \<and> fromJSON_KnownEntry R j = Inr (e\<lparr>ke_mode := - 1\<rparr>)"
    unfolding unknown_mode [OF assms(8)] by (rule json_backD [OF KnownEntry_json assms(9)])
qed (rule json_backD [OF ResolveResult_json assms(1)] json_backD [OF AuditLogResult_json assms(2)]
    json_backD [OF ListKnownResult_json assms(3)] json_backD [OF HealthResult_json assms(4)]
    json_backD [OF BuildManifestRequest_json assms(5)] json_backD [OF SelectResult_json TrueI]
    json_backD [OF GetDepositInfoResponse_json TrueI] json_backD [OF Payment_json TrueI]
    json_backD [OF ResolveResult_partial TrueI] json_backD [OF Payment_partial TrueI])+

definition plain_runtime :: runtime where
  "plain_runtime = \<lparr>rt_date = (\<lambda>_. None), rt_bytes = (\<lambda>_. Inr [])\<rparr>"

definition json_resolved :: ResolveResult where
  "json_resolved = createBaseResolveResult\<lparr>rr_ethAddress := ''0xab'', rr_mode := 2,
     rr_nodes := [createBaseNode\<lparr>nd_id := ''n1'', nd_source := 1, nd_extraJson := [123, 125]\<rparr>], rr_fetchedAt := Some (Some 1001)\<rparr>"

definition newer_entry :: KnownEntry where
  "newer_entry = createBaseKnownEntry\<lparr>ke_ethAddress := ''0xab'', ke_mode := 9\<rparr>"

theorem messages_survive_json_witness:
  "(\<exists>j. toJSON_ResolveResult json_resolved = Inr j \<and> fromJSON_ResolveResult plain_runtime j = Inr json_resolved) \<and>
   (\<exists>j. plain_ResolveResult json_resolved = Inr j \<and> fromPartial_ResolveResult j = Inr json_resolved) \<and>
   toJSON_AuditEvent (createBaseAuditEvent\<lparr>ae_at := Some None\<rparr>) = Inl (Throws (RangeError ''Invalid time value'')) \<and>
   (\<exists>j. toJSON_KnownEntry newer_entry = Inr j
      \<and> fromJSON_KnownEntry plain_runtime j = Inr (createBaseKnownEntry\<lparr>ke_ethAddress := ''0xab'', ke_mode := - 1\<rparr>))"
proof -
  have r: "known_ResolveResult json_resolved"
    by (simp add: known_ResolveResult_def json_resolved_def createBaseResolveResult_def createBaseNode_def known_Node_def enum_ok_def
      ResolveMode_table_def FreshnessStatus_table_def Source_table_def SignatureStatus_table_def date_valid_def max_time_def)
  have o': "known_AuditLogResult createBaseAuditLogResult" "known_ListKnownResult createBaseListKnownResult"
    "known_HealthResult createBaseHealthResult" "known_BuildManifestRequest createBaseBuildManifestRequest"
    by (simp_all add: known_AuditLogResult_def createBaseAuditLogResult_def known_ListKnownResult_def createBaseListKnownResult_def
      known_HealthResult_def createBaseHealthResult_def known_BuildManifestRequest_def createBaseBuildManifestRequest_def)
  have v: "ae_at (createBaseAuditEvent\<lparr>ae_at := Some None\<rparr>) = Some None" "\<not> date_valid None"
    by (simp_all add: date_valid_def)
  have e: "\<not> enum_ok ResolveMode_table (ke_mode newer_entry)" "known_KnownEntry (newer_entry\<lparr>ke_mode := - 1\<rparr>)"
    by (simp_all add: newer_entry_def known_KnownEntry_def createBaseKnownEntry_def enum_ok_def ResolveMode_table_def FreshnessStatus_table_def)
  show ?thesis using messages_survive_json [OF r o' v e, of plain_runtime] by (simp add: newer_entry_def)
qed

end
