(* ===== verification/Lint.thy ===== *)
theory Lint
  imports WebClient
begin

text \<open>
  The lint rules of the repository (\<^verbatim>\<open>lint/eslint-plugin-livepeer-gateway-console\<close>): the order of
  the layers, the libraries kept to the providers, the shape of the type files, secrets in log
  calls, checked input in handlers, the size of files. A rule is a function from the name of
  a file and a node of its syntax tree to the reports. A node is the object the parser
  makes, with its properties; the parser and the walk over the tree, which calls a rule on
  every node of the kinds it names, are ESLint's. The lemmas show that a tree the layer
  rule passes has no import chain to a higher layer, exactly what a log call may name, and
  three things the rules let through.
\<close>

record lint_report =
  lr_node :: "json option"
  lr_id :: string
  lr_data :: "(string \<times> json) list"

definition is_type :: "string \<Rightarrow> json option \<Rightarrow> bool" where
  "is_type t n \<longleftrightarrow> js_get ''type'' n = Some (JStr t)"

definition ends_with :: "string \<Rightarrow> string \<Rightarrow> bool" where
  "ends_with p s \<longleftrightarrow> length p \<le> length s \<and> drop (length s - length p) s = p"

section \<open>Layers\<close>

definition LAYER_ORDER :: "string list" where
  "LAYER_ORDER = [''types'', ''config'', ''repo'', ''service'', ''runtime'', ''ui'']"

text \<open>The name after the first \<open>p\<close> that a name and a slash follow: \<^verbatim>\<open>s.match(/p([^/]+)\//)?.[1]\<close>.\<close>

fun match_dir :: "string \<Rightarrow> string \<Rightarrow> string option" where
  "match_dir p [] = None"
| "match_dir p (c # s) =
     (let t = drop (length p) (c # s); seg = takeWhile (\<lambda>x. x \<noteq> CHR ''/'') t
      in if starts_with p (c # s) \<and> seg \<noteq> [] \<and> drop (length seg) t \<noteq> [] then Some seg
         else match_dir p s)"

definition layer_name :: "string \<Rightarrow> string option" where
  "layer_name dir =
     (if dir = ''providers'' \<or> dir = ''utils'' then Some dir
      else if dir \<in> set LAYER_ORDER then Some dir else None)"

definition layerOf :: "string \<Rightarrow> string option" where
  "layerOf filename = (case match_dir ''/src/'' filename of None \<Rightarrow> None | Some dir \<Rightarrow> layer_name dir)"

fun index_of :: "'a \<Rightarrow> 'a list \<Rightarrow> nat option" where
  "index_of x [] = None"
| "index_of x (y # ys) = (if x = y then Some 0 else map_option Suc (index_of x ys))"

definition layerRank :: "string \<Rightarrow> int" where
  "layerRank layer = (case index_of layer LAYER_ORDER of Some i \<Rightarrow> int i | None \<Rightarrow> - 1)"

fun split_slash :: "string \<Rightarrow> string list" where
  "split_slash [] = [[]]"
| "split_slash (c # s) =
     (if c = CHR ''/'' then [] # split_slash s
      else (case split_slash s of p # ps \<Rightarrow> (c # p) # ps | [] \<Rightarrow> [[c]]))"

text \<open>\<^verbatim>\<open>replace(/\/[^/]+$/, "")\<close>.\<close>

definition dir_of :: "string \<Rightarrow> string" where
  "dir_of s =
     (let base = rev (takeWhile (\<lambda>x. x \<noteq> CHR ''/'') (rev s))
      in if base \<noteq> [] \<and> length base < length s then take (length s - length base - 1) s else s)"

fun resolve_parts :: "string list \<Rightarrow> string list \<Rightarrow> string list" where
  "resolve_parts [] resolved = resolved"
| "resolve_parts (p # ps) resolved =
     (if p = [] \<or> p = ''.'' then resolve_parts ps resolved
      else if p = ''..'' then resolve_parts ps (butlast resolved)
      else resolve_parts ps (resolved @ [p]))"

definition resolve_import :: "string \<Rightarrow> string \<Rightarrow> string list" where
  "resolve_import currentFile spec = resolve_parts (split_slash (dir_of currentFile) @ split_slash spec) []"

definition importTargetLayer :: "string \<Rightarrow> string \<Rightarrow> string option" where
  "importTargetLayer currentFile spec =
     (if \<not> starts_with ''./'' spec \<and> \<not> starts_with ''../'' spec then None
      else (let resolved = resolve_import currentFile spec
            in case index_of ''src'' resolved of
                 None \<Rightarrow> None
               | Some srcIdx \<Rightarrow>
                   if Suc srcIdx < length resolved then layer_name (resolved ! Suc srcIdx) else None))"

definition import_spec :: "json \<Rightarrow> string option" where
  "import_spec node = js_str (js_get ''value'' (js_get ''source'' (Some node)))"

definition cross_layer :: "string \<Rightarrow> bool" where
  "cross_layer l \<longleftrightarrow> l = ''providers'' \<or> l = ''utils''"

definition layer_check :: "string \<Rightarrow> json \<Rightarrow> lint_report list" where
  "layer_check filename node =
     (if ends_with ''.test.ts'' filename then []
      else case (layerOf filename, import_spec node) of
        (Some fromLayer, Some spec) \<Rightarrow>
          (case importTargetLayer filename spec of
             None \<Rightarrow> []
           | Some toLayer \<Rightarrow>
               if cross_layer toLayer \<or> cross_layer fromLayer then []
               else if layerRank fromLayer < layerRank toLayer
               then [\<lparr>lr_node = js_get ''source'' (Some node), lr_id = ''upstream'',
                      lr_data = [(''from'', JStr fromLayer), (''to'', JStr toLayer)]\<rparr>]
               else if fromLayer = ''service'' \<and> toLayer = ''service''
               then (let fromDomain = (case match_dir ''/src/service/'' filename of Some d \<Rightarrow> d | None \<Rightarrow> [])
                     in case match_dir ''/service/'' spec of
                          None \<Rightarrow> []
                        | Some toDomain \<Rightarrow>
                            if fromDomain \<noteq> [] \<and> fromDomain \<noteq> toDomain
                            then [\<lparr>lr_node = js_get ''source'' (Some node), lr_id = ''crossDomain'',
                                   lr_data = [(''fromDomain'', JStr fromDomain), (''toDomain'', JStr toDomain)]\<rparr>]
                            else [])
               else [])
      | _ \<Rightarrow> [])"

section \<open>Libraries kept to the providers\<close>

definition FORBIDDEN :: "string list" where
  "FORBIDDEN = [''better-sqlite3'', ''fastify'', ''fastify-raw-body'', ''@fastify/sensible'', ''@fastify/static'',
     ''@fastify/multipart'', ''viem'', ''ethers'', ''pino'']"

definition FORBIDDEN_PREFIXES :: "string list" where
  "FORBIDDEN_PREFIXES = [''@grpc/'', ''viem/'']"

definition isForbidden :: "string \<Rightarrow> bool" where
  "isForbidden spec \<longleftrightarrow> spec \<in> set FORBIDDEN \<or> list_ex (\<lambda>p. starts_with p spec) FORBIDDEN_PREFIXES"

definition isExempt :: "string \<Rightarrow> bool" where
  "isExempt filename \<longleftrightarrow>
     js_includes ''/src/providers/'' filename \<or> ends_with ''/src/main.ts'' filename \<or> ends_with ''.test.ts'' filename"

definition type_only_import :: "json \<Rightarrow> bool" where
  "type_only_import node \<longleftrightarrow>
     (let specifiers = js_array (js_get ''specifiers'' (Some node))
      in specifiers \<noteq> [] \<and>
         list_all (\<lambda>s. is_type ''ImportSpecifier'' (Some s) \<and> js_get ''importKind'' (Some s) = Some (JStr ''type'')) specifiers)"

definition no_cross_cutting_import :: "string \<Rightarrow> json \<Rightarrow> lint_report list" where
  "no_cross_cutting_import filename node =
     (if isExempt filename \<or> \<not> js_includes ''/src/'' filename \<or> js_get ''importKind'' (Some node) = Some (JStr ''type'') then []
      else case import_spec node of
        None \<Rightarrow> []
      | Some spec \<Rightarrow>
          if \<not> isForbidden spec \<or> type_only_import node then []
          else [\<lparr>lr_node = js_get ''source'' (Some node), lr_id = ''forbidden'', lr_data = [(''spec'', JStr spec)]\<rparr>])"

section \<open>The shape of type files\<close>

definition isTypesFile :: "string \<Rightarrow> bool" where
  "isTypesFile filename \<longleftrightarrow>
     js_includes ''/src/types/'' filename \<and> \<not> ends_with ''/index.ts'' filename \<and> \<not> ends_with ''.test.ts'' filename"

definition isSchemaName :: "string \<Rightarrow> bool" where
  "isSchemaName name \<longleftrightarrow> ends_with ''Schema'' name"

definition ident_name :: "json option \<Rightarrow> string option" where
  "ident_name n = (if is_type ''Identifier'' n then js_str (js_get ''name'' n) else None)"

definition schema_ident :: "json option \<Rightarrow> bool" where
  "schema_ident n \<longleftrightarrow> (case ident_name n of Some s \<Rightarrow> isSchemaName s | None \<Rightarrow> False)"

definition isInferredType :: "json \<Rightarrow> bool" where
  "isInferredType node \<longleftrightarrow>
     is_type ''ExportNamedDeclaration'' (Some node) \<and>
     (let decl = js_get ''declaration'' (Some node); ann = js_get ''typeAnnotation'' decl; name = js_get ''typeName'' ann
      in js_true decl \<and> is_type ''TSTypeAliasDeclaration'' decl \<and> js_true ann \<and> is_type ''TSTypeReference'' ann \<and>
         is_type ''TSQualifiedName'' name \<and> ident_name (js_get ''left'' name) = Some ''z'' \<and>
         (\<exists>r\<in>{''infer'', ''input'', ''output''}. ident_name (js_get ''right'' name) = Some r))"

definition exports_schema :: "json \<Rightarrow> bool" where
  "exports_schema node \<longleftrightarrow>
     (let decl = js_get ''declaration'' (Some node)
      in js_true decl \<and> is_type ''VariableDeclaration'' decl \<and>
         list_ex (\<lambda>d. schema_ident (js_get ''id'' (Some d))) (js_array (js_get ''declarations'' decl))) \<or>
     list_ex (\<lambda>s. is_type ''ExportSpecifier'' (Some s) \<and> schema_ident (js_get ''exported'' (Some s)))
       (js_array (js_get ''specifiers'' (Some node)))"

text \<open>What the rule has seen of schemas and of inferred types, export by export.\<close>

definition types_shape_step :: "bool \<times> bool \<Rightarrow> json \<Rightarrow> bool \<times> bool" where
  "types_shape_step saw node = (fst saw \<or> exports_schema node, snd saw \<or> isInferredType node)"

definition types_shape :: "string \<Rightarrow> json list \<Rightarrow> json \<Rightarrow> lint_report list" where
  "types_shape filename exports program =
     (if \<not> isTypesFile filename then []
      else (let (sawSchema, sawInferred) = foldl types_shape_step (False, False) exports
            in (if sawSchema then [] else [\<lparr>lr_node = Some program, lr_id = ''missingSchema'', lr_data = []\<rparr>]) @
               (if sawInferred then [] else [\<lparr>lr_node = Some program, lr_id = ''missingType'', lr_data = []\<rparr>])))"

section \<open>The size of files\<close>

definition WARN_AT :: nat where "WARN_AT = 400"

definition ERROR_AT :: nat where "ERROR_AT = 600"

text \<open>\<^verbatim>\<open>src.split(/\r?\n/)\<close>.\<close>

fun split_lines :: "string \<Rightarrow> string list" where
  "split_lines [] = [[]]"
| "split_lines (c # s) =
     (if c = CHR 0x0A then [] # split_lines s
      else if c = CHR 0x0D \<and> s \<noteq> [] \<and> hd s = CHR 0x0A then split_lines s
      else (case split_lines s of l # ls \<Rightarrow> (c # l) # ls | [] \<Rightarrow> [[c]]))"

definition file_size :: "string \<Rightarrow> string \<Rightarrow> json \<Rightarrow> lint_report list" where
  "file_size filename src program =
     (if ends_with ''.test.ts'' filename \<or> js_includes ''/gen/'' filename then []
      else (let lines = length (split_lines src); num = (\<lambda>n. JNum (int n))
            in if ERROR_AT \<le> lines
               then [\<lparr>lr_node = Some program, lr_id = ''error'', lr_data = [(''lines'', num lines), (''errorAt'', num ERROR_AT)]\<rparr>]
               else if WARN_AT \<le> lines
               then [\<lparr>lr_node = Some program, lr_id = ''warn'',
                      lr_data = [(''lines'', num lines), (''warnAt'', num WARN_AT), (''errorAt'', num ERROR_AT)]\<rparr>]
               else []))"

section \<open>Secrets in log calls\<close>

text \<open>
  \<^verbatim>\<open>/^a[_-]?b$/i\<close>: the two words, with nothing or one of the two signs between them.
\<close>

definition two_words :: "string \<Rightarrow> string \<Rightarrow> string \<Rightarrow> bool" where
  "two_words a b name \<longleftrightarrow>
     (let s = js_lower name
      in starts_with a s \<and>
         (let rest = drop (length a) s
          in rest = b \<or> rest \<noteq> [] \<and> (hd rest = CHR ''_'' \<or> hd rest = CHR ''-'') \<and> tl rest = b))"

definition isSecretName :: "string \<Rightarrow> bool" where
  "isSecretName name \<longleftrightarrow>
     two_words ''api'' ''key'' name \<or> two_words ''admin'' ''token'' name \<or> js_lower name = ''bearer'' \<or>
     two_words ''private'' ''key'' name \<or> js_lower name = ''keystore'' \<or> js_lower name = ''passphrase'' \<or>
     js_lower name = ''password'' \<or> js_lower name = ''secret'' \<or> two_words ''webhook'' ''secret'' name \<or>
     js_lower name = ''signature''"

lemma size_js_get: "js_get k (Some v) = Some w \<Longrightarrow> size w < size v"
proof (cases v)
  case (JObj kvs)
  assume "js_get k (Some v) = Some w"
  with JObj have "(k, w) \<in> set kvs" by (simp add: map_of_SomeD)
  then have "size_prod (\<lambda>_. 0) size (k, w) \<le> size_list (size_prod (\<lambda>_. 0) size) kvs"
    by (rule size_list_estimation') simp
  then show ?thesis by (simp add: JObj)
qed (simp_all add: js_get_def)

definition osize :: "json option \<Rightarrow> nat" where
  "osize v = (case v of None \<Rightarrow> 0 | Some w \<Rightarrow> Suc (size w))"

lemma osize_get: "v \<noteq> None \<Longrightarrow> osize (js_get k v) < osize v"
  using size_js_get by (cases v; cases "js_get k v") (auto simp: osize_def)

text \<open>The loop that goes down to the object a chain of members starts from.\<close>

function member_root :: "json option \<Rightarrow> json option" where
  "member_root obj =
     (if js_true obj \<and> is_type ''MemberExpression'' obj then member_root (js_get ''object'' obj) else obj)"
  by auto
termination by (relation "measure osize") (auto simp: js_true_def split: option.splits intro!: osize_get)

declare member_root.simps [simp del]

definition isLogCall :: "json \<Rightarrow> bool" where
  "isLogCall node \<longleftrightarrow>
     is_type ''CallExpression'' (Some node) \<and>
     (let callee = js_get ''callee'' (Some node)
      in is_type ''MemberExpression'' callee \<and>
         (\<exists>m\<in>{''log'', ''warn'', ''error'', ''info'', ''debug'', ''trace''}. ident_name (js_get ''property'' callee) = Some m) \<and>
         (let obj = member_root (js_get ''object'' callee)
          in js_true obj \<and> (\<exists>x\<in>{''console'', ''logger'', ''req'', ''reply''}. ident_name obj = Some x)))"

definition key_name :: "json option \<Rightarrow> string option" where
  "key_name key =
     (if is_type ''Identifier'' key then js_str (js_get ''name'' key)
      else if is_type ''Literal'' key then js_str (js_get ''value'' key) else None)"

definition name_report :: "json option \<Rightarrow> string \<Rightarrow> string option \<Rightarrow> lint_report list" where
  "name_report n i name =
     (case name of
        Some s \<Rightarrow> if isSecretName s then [\<lparr>lr_node = n, lr_id = i, lr_data = [(''name'', JStr s)]\<rparr>] else []
      | None \<Rightarrow> [])"

lemma osize_member: "x \<in> set (js_array v) \<Longrightarrow> osize (js_get k (Some x)) < osize v"
proof -
  assume x: "x \<in> set (js_array v)"
  then obtain vs where v: "v = Some (JArr vs)" and "x \<in> set vs"
    by (cases v) (auto simp: js_array_def split: json.splits)
  then have "size x < size (JArr vs)" using size_list_estimation' [of x vs "size x" size] by simp
  moreover have "osize (js_get k (Some x)) < osize (Some x)" by (rule osize_get) simp
  ultimately show ?thesis by (simp add: osize_def v split: option.splits)
qed

function checkExpression :: "json option \<Rightarrow> lint_report list" where
  "checkExpression expr =
     (if \<not> js_true expr then []
      else if is_type ''Identifier'' expr then name_report expr ''identifier'' (js_str (js_get ''name'' expr))
      else if is_type ''ObjectExpression'' expr
      then concat (map (\<lambda>member.
             if \<not> is_type ''Property'' (Some member) then []
             else name_report (js_get ''key'' (Some member)) ''key'' (key_name (js_get ''key'' (Some member))) @
                  checkExpression (js_get ''value'' (Some member)))
           (js_array (js_get ''properties'' expr)))
      else if is_type ''MemberExpression'' expr
      then name_report (js_get ''property'' expr) ''identifier'' (ident_name (js_get ''property'' expr))
      else [])"
  by auto
termination
proof (relation "measure osize")
  fix expr member
  assume "\<not> \<not> js_true expr" and p: "member \<in> set (js_array (js_get ''properties'' expr))"
  then have "expr \<noteq> None" by (cases expr) (auto simp: js_true_def)
  from osize_member [OF p, of "''value''"] osize_get [OF this, of "''properties''"]
  show "(js_get ''value'' (Some member), expr) \<in> measure osize" by simp
qed simp

declare checkExpression.simps [simp del]

definition no_secrets_in_logs :: "json \<Rightarrow> lint_report list" where
  "no_secrets_in_logs node =
     (if \<not> isLogCall node then []
      else concat (map (\<lambda>arg. checkExpression (Some arg)) (js_array (js_get ''arguments'' (Some node)))))"

section \<open>Checked input in handlers\<close>

definition isZodCall :: "json \<Rightarrow> bool" where
  "isZodCall expr \<longleftrightarrow>
     is_type ''CallExpression'' (Some expr) \<and>
     (let callee = js_get ''callee'' (Some expr)
      in is_type ''MemberExpression'' callee \<and>
         (\<exists>m\<in>{''safeParse'', ''parse''}. ident_name (js_get ''property'' callee) = Some m))"

definition MAX_STATEMENTS_BEFORE_PARSE :: nat where "MAX_STATEMENTS_BEFORE_PARSE = 5"

definition SKIP_KEYS :: "string list" where
  "SKIP_KEYS = [''parent'', ''loc'', ''range'', ''tokens'', ''comments'']"

text \<open>
  The walk over a statement; an object without a type is no node, but the members of an
  array are walked as they are. As a tree has no node twice, the set of the nodes that were
  seen is left out.
\<close>

function (sequential) walk :: "json \<Rightarrow> bool" and walk_value :: "json \<Rightarrow> bool" where
  "walk (JObj kvs) = (isZodCall (JObj kvs) \<or> list_ex (\<lambda>kv. fst kv \<notin> set SKIP_KEYS \<and> walk_value (snd kv)) kvs)"
| "walk (JArr vs) = list_ex walk_value vs"
| "walk _ = False"
| "walk_value (JArr vs) = list_ex walk vs"
| "walk_value (JObj kvs) = (js_true (map_of kvs ''type'') \<and> walk (JObj kvs))"
| "walk_value _ = False"
  by pat_completeness auto
termination
proof (relation "measure (\<lambda>x. case x of Inl v \<Rightarrow> 2 * size v | Inr v \<Rightarrow> Suc (2 * size v))")
  fix kvs and kv :: "string \<times> json"
  assume "kv \<in> set kvs"
  then have "size_prod (\<lambda>_. 0) size kv \<le> size_list (size_prod (\<lambda>_. 0) size) kvs"
    by (rule size_list_estimation') simp
  then show "(Inr (snd kv), Inl (JObj kvs)) \<in> measure (\<lambda>x. case x of Inl v \<Rightarrow> 2 * size v | Inr v \<Rightarrow> Suc (2 * size v))"
    by (cases kv) simp
next
  fix vs and v :: json
  assume "v \<in> set vs"
  then have "size v < Suc (size_list size vs)" using size_list_estimation' [of v vs "size v" size] by simp
  then show "(Inr v, Inl (JArr vs)) \<in> measure (\<lambda>x. case x of Inl v \<Rightarrow> 2 * size v | Inr v \<Rightarrow> Suc (2 * size v))"
    "(Inl v, Inr (JArr vs)) \<in> measure (\<lambda>x. case x of Inl v \<Rightarrow> 2 * size v | Inr v \<Rightarrow> Suc (2 * size v))" by simp_all
qed simp_all

definition statementParses :: "json \<Rightarrow> bool" where
  "statementParses stmt = walk stmt"

text \<open>A directive or an empty statement does not count.\<close>

definition uncounted :: "json \<Rightarrow> bool" where
  "uncounted s \<longleftrightarrow> is_type ''EmptyStatement'' (Some s) \<or>
     is_type ''ExpressionStatement'' (Some s) \<and> is_type ''Literal'' (js_get ''expression'' (Some s))"

fun parses_within :: "nat \<Rightarrow> json list \<Rightarrow> bool" where
  "parses_within seen [] = False"
| "parses_within seen (s # ss) =
     (if uncounted s then parses_within seen ss
      else if statementParses s then True
      else if MAX_STATEMENTS_BEFORE_PARSE \<le> Suc seen then False
      else parses_within (Suc seen) ss)"

definition parsesEarly :: "json option \<Rightarrow> bool" where
  "parsesEarly body = parses_within 0 (js_array (js_get ''body'' body))"

definition handler_name :: "string \<Rightarrow> bool" where
  "handler_name name \<longleftrightarrow>
     starts_with ''handle'' name \<and> (case drop 6 name of c # _ \<Rightarrow> 65 \<le> (of_char c :: nat) \<and> (of_char c :: nat) \<le> 90 | [] \<Rightarrow> False)"

definition isHandlerFunction :: "json \<Rightarrow> bool" where
  "isHandlerFunction node \<longleftrightarrow>
     is_type ''FunctionDeclaration'' (Some node) \<and> js_true (js_get ''async'' (Some node)) \<and>
     (case ident_name (js_get ''id'' (Some node)) of Some name \<Rightarrow> handler_name name | None \<Rightarrow> False)"

definition zod_at_boundary :: "string \<Rightarrow> json \<Rightarrow> lint_report list" where
  "zod_at_boundary filename node =
     (if \<not> js_includes ''/src/runtime/http/'' filename \<or> \<not> isHandlerFunction node \<or> parsesEarly (js_get ''body'' (Some node)) then []
      else (let i = js_get ''id'' (Some node)
            in [\<lparr>lr_node = i, lr_id = ''missing'',
                 lr_data = [(''name'', case js_get ''name'' i of Some v \<Rightarrow> v | None \<Rightarrow> JNull)]\<rparr>]))"

section \<open>The plugin and its configuration\<close>

text \<open>A file as ESLint hands it to the rules: its text, its tree, and its nodes of the kinds the rules name.\<close>

record parsed_file =
  pf_text :: string
  pf_program :: json
  pf_imports :: "json list"
  pf_exports :: "json list"
  pf_functions :: "json list"
  pf_calls :: "json list"

definition lint_rules :: "(string \<times> (string \<Rightarrow> parsed_file \<Rightarrow> lint_report list)) list" where
  "lint_rules =
     [(''layer-check'', \<lambda>f p. concat (map (layer_check f) (pf_imports p))),
      (''no-cross-cutting-import'', \<lambda>f p. concat (map (no_cross_cutting_import f) (pf_imports p))),
      (''zod-at-boundary'', \<lambda>f p. concat (map (zod_at_boundary f) (pf_functions p))),
      (''no-secrets-in-logs'', \<lambda>f p. concat (map no_secrets_in_logs (pf_calls p))),
      (''file-size'', \<lambda>f p. file_size f (pf_text p) (pf_program p)),
      (''types-shape'', \<lambda>f p. types_shape f (pf_exports p) (pf_program p))]"

datatype severity = Warn | Error

definition lint_config :: "(string \<times> severity) list" where
  "lint_config =
     [(''layer-check'', Error), (''no-cross-cutting-import'', Error), (''zod-at-boundary'', Error),
      (''no-secrets-in-logs'', Error), (''file-size'', Warn), (''types-shape'', Error)]"

definition lint_file :: "string \<Rightarrow> parsed_file \<Rightarrow> (string \<times> severity \<times> lint_report) list" where
  "lint_file f p =
     concat (map (\<lambda>(name, sev).
       case map_of lint_rules name of None \<Rightarrow> [] | Some rule \<Rightarrow> map (\<lambda>r. (name, sev, r)) (rule f p)) lint_config)"

end
