(* ===== verification/Linted.thy ===== *)
theory Linted
  imports Lint
begin

text \<open>
  What the lint rules give: over a tree of files the layer rule passes, no chain of imports
  leads to a higher layer; which log calls and which type files pass; and what the rules let
  through although they are there to stop it.
\<close>

section \<open>Paths\<close>

definition join_path :: "string list \<Rightarrow> string" where
  "join_path segs = concat (map (\<lambda>s. CHR ''/'' # s) segs)"

definition plain :: "string \<Rightarrow> bool" where
  "plain s \<longleftrightarrow> s \<noteq> [] \<and> CHR ''/'' \<notin> set s \<and> s \<noteq> ''.'' \<and> s \<noteq> ''..''"

lemma join_path_simps [simp]:
  "join_path [] = []" "join_path (s # segs) = CHR ''/'' # s @ join_path segs" "join_path (segs @ segs') = join_path segs @ join_path segs'"
  by (simp_all add: join_path_def)

lemma join_path_start: "join_path segs = [] \<and> segs = [] \<or> (\<exists>t. join_path segs = CHR ''/'' # t)"
  by (cases segs) auto

lemma split_slash_word: "CHR ''/'' \<notin> set s \<Longrightarrow> split_slash s = [s]"
  by (induction s) auto

lemma split_slash_step: "CHR ''/'' \<notin> set s \<Longrightarrow> split_slash (s @ CHR ''/'' # t) = s # split_slash t"
  by (induction s) auto

lemma split_slash_join: "\<forall>s\<in>set segs. CHR ''/'' \<notin> set s \<Longrightarrow> split_slash (join_path segs) = [] # segs"
proof (induction segs)
  case (Cons s segs)
  then show ?case
    using join_path_start [of segs] split_slash_word [of s] split_slash_step [of s] by (auto split: if_splits)
qed simp

lemma split_slash_parts: "p \<in> set (split_slash s) \<Longrightarrow> CHR ''/'' \<notin> set p"
  by (induction s arbitrary: p) (auto split: if_splits list.splits)

lemma dir_of_join: "b \<noteq> [] \<Longrightarrow> CHR ''/'' \<notin> set b \<Longrightarrow> dir_of (join_path (ds @ [b])) = join_path ds"
proof -
  assume b: "b \<noteq> []" "CHR ''/'' \<notin> set b"
  let ?s = "join_path ds @ CHR ''/'' # b"
  have "takeWhile (\<lambda>x. x \<noteq> CHR ''/'') (rev b @ CHR ''/'' # rev (join_path ds)) = rev b"
    using b(2) by (subst takeWhile_append2) auto
  then show ?thesis using b(1) by (simp add: dir_of_def)
qed

lemma resolve_plain: "list_all plain ds \<Longrightarrow> resolve_parts (ds @ ps) acc = resolve_parts ps (acc @ ds)"
  by (induction ds arbitrary: acc) (auto simp: plain_def)

lemma resolve_parts_slash:
  "\<forall>p\<in>set ps \<union> set acc. CHR ''/'' \<notin> set p \<Longrightarrow> p \<in> set (resolve_parts ps acc) \<Longrightarrow> CHR ''/'' \<notin> set p"
proof (induction ps arbitrary: acc)
  case (Cons q ps)
  have "\<forall>p\<in>set ps \<union> set (butlast acc). CHR ''/'' \<notin> set p" "\<forall>p\<in>set ps \<union> set (acc @ [q]). CHR ''/'' \<notin> set p"
    "\<forall>p\<in>set ps \<union> set acc. CHR ''/'' \<notin> set p"
    using Cons.prems(1) by (auto dest: in_set_butlastD)
  from Cons.IH [OF this(1)] Cons.IH [OF this(2)] Cons.IH [OF this(3)] Cons.prems(2) show ?case
    by (simp split: if_splits)
qed auto

lemma resolve_file:
  assumes "list_all plain (ds @ [b])"
  shows "resolve_import (join_path (ds @ [b])) spec = resolve_parts (split_slash spec) ds"
proof -
  from assms have b: "b \<noteq> []" "CHR ''/'' \<notin> set b" and ds: "list_all plain ds" by (simp_all add: plain_def)
  then have "\<forall>s\<in>set ds. CHR ''/'' \<notin> set s" by (auto simp: list_all_iff plain_def)
  from split_slash_join [OF this] dir_of_join [OF b] show ?thesis
    unfolding resolve_import_def by (simp add: resolve_plain [OF ds])
qed

lemma index_of_first: "x \<notin> set xs \<Longrightarrow> index_of x (xs @ x # ys) = Some (length xs)"
  by (induction xs) auto

section \<open>Where a file is\<close>

lemma match_dir_skip: "CHR ''/'' \<notin> set s \<Longrightarrow> match_dir (CHR ''/'' # p) (s @ t) = match_dir (CHR ''/'' # p) t"
  by (induction s) (auto simp: starts_with_def Let_def)

text \<open>\<open>p\<close> as the first directory of a path, and not as the first one.\<close>

lemma match_dir_hit:
  assumes "CHR ''/'' \<notin> set d" and "d \<noteq> []" and "rest \<noteq> []"
  shows "match_dir (CHR ''/'' # p @ ''/'') (join_path (p # d # rest)) = Some d"
proof -
  obtain t where t: "join_path rest = CHR ''/'' # t" using join_path_start [of rest] assms(3) by auto
  have "takeWhile (\<lambda>x. x \<noteq> CHR ''/'') (d @ CHR ''/'' # t) = d" using assms(1) by (subst takeWhile_append2) auto
  with assms(2) t show ?thesis by (simp add: starts_with_def Let_def)
qed

lemma match_dir_miss:
  assumes "CHR ''/'' \<notin> set r" and "CHR ''/'' \<notin> set p" and "r \<noteq> p"
  shows "match_dir (CHR ''/'' # p @ ''/'') (join_path (r # segs)) = match_dir (CHR ''/'' # p @ ''/'') (join_path segs)"
proof -
  have "\<not> starts_with (CHR ''/'' # p @ ''/'') (CHR ''/'' # r @ join_path segs)"
  proof
    assume "starts_with (CHR ''/'' # p @ ''/'') (CHR ''/'' # r @ join_path segs)"
    then obtain t where "CHR ''/'' # r @ join_path segs = (CHR ''/'' # p @ ''/'') @ t"
      unfolding starts_with_def by (metis append_take_drop_id)
    then have "r @ join_path segs = p @ CHR ''/'' # t" by simp
    moreover have "takeWhile (\<lambda>x. x \<noteq> CHR ''/'') (p @ CHR ''/'' # t) = p" using assms(2) by (subst takeWhile_append2) auto
    moreover have "takeWhile (\<lambda>x. x \<noteq> CHR ''/'') (r @ join_path segs) = r"
      using assms(1) join_path_start [of segs] by (subst takeWhile_append2) auto
    ultimately show False using assms(3) by simp
  qed
  then show ?thesis using match_dir_skip [OF assms(1), of "p @ ''/''"] by (simp add: Let_def)
qed

lemma match_dir_path:
  assumes "p \<notin> set root" and "list_all plain (root @ p # d # rest)" and "rest \<noteq> []"
  shows "match_dir (CHR ''/'' # p @ ''/'') (join_path (root @ p # d # rest)) = Some d"
  using assms
proof (induction root)
  case Nil
  then show ?case using match_dir_hit [of d rest p] by (simp add: plain_def)
next
  case (Cons r root)
  then have "match_dir (CHR ''/'' # p @ ''/'') (join_path (root @ p # d # rest)) = Some d"
    and "CHR ''/'' \<notin> set r" "CHR ''/'' \<notin> set p" "r \<noteq> p" by (auto simp: plain_def)
  with match_dir_miss [of r p "root @ p # d # rest"] show ?case by simp
qed

text \<open>A file under the directory \<open>d\<close> of \<^verbatim>\<open>src\<close>, where no directory above is called that.\<close>

definition in_layer :: "string list \<Rightarrow> string \<Rightarrow> string \<Rightarrow> bool" where
  "in_layer root d f \<longleftrightarrow>
     (\<exists>rest. rest \<noteq> [] \<and> ''src'' \<notin> set root \<and> list_all plain (root @ ''src'' # d # rest) \<and>
        f = join_path (root @ ''src'' # d # rest))"

lemma layerOf_file: "in_layer root d f \<Longrightarrow> layerOf f = layer_name d"
proof -
  assume "in_layer root d f"
  then obtain rest where "rest \<noteq> []" "''src'' \<notin> set root" "list_all plain (root @ ''src'' # d # rest)"
    and f: "f = join_path (root @ ''src'' # d # rest)" unfolding in_layer_def by blast
  from match_dir_path [OF this(2,3,1)] have "match_dir ''/src/'' f = Some d" unfolding f by (simp only: append.simps)
  then show ?thesis by (simp only: layerOf_def option.case)
qed

definition relative :: "string \<Rightarrow> bool" where
  "relative spec \<longleftrightarrow> starts_with ''./'' spec \<or> starts_with ''../'' spec"

text \<open>The file a relative import is of: the source of the script it names.\<close>

definition ts_file :: "string \<Rightarrow> string" where
  "ts_file s = (if ends_with ''.js'' s then take (length s - 3) s @ ''.ts'' else s)"

definition import_file :: "string \<Rightarrow> string \<Rightarrow> string" where
  "import_file f spec = ts_file (join_path (resolve_import f spec))"

lemma last_segment:
  assumes "t @ ''.ts'' = (p @ ''/'') @ b"
  shows "\<exists>b'. b = b' @ ''.ts''"
proof -
  from assms obtain us where "t = p @ us \<and> us @ ''.ts'' = CHR ''/'' # b \<or> t @ us = p \<and> ''.ts'' = us @ CHR ''/'' # b"
    by (auto simp: append_eq_append_conv2)
  moreover have "''.ts'' \<noteq> us @ CHR ''/'' # b"
  proof
    assume "''.ts'' = us @ CHR ''/'' # b"
    then have "CHR ''/'' \<in> set ''.ts''" by (metis in_set_conv_decomp)
    then show False by simp
  qed
  ultimately show ?thesis by (cases us) auto
qed

lemma ts_file_layer:
  assumes "in_layer root d (ts_file s)"
  shows "in_layer root d s"
proof (cases "ends_with ''.js'' s")
  case True
  then obtain t where s: "s = t @ ''.js''" and "ts_file s = t @ ''.ts''"
    unfolding ends_with_def ts_file_def by (metis append_take_drop_id length_Cons list.size(3) numeral_3_eq_3)
  with assms obtain rest where rest: "rest \<noteq> []" and root: "''src'' \<notin> set root"
    and pl: "list_all plain (root @ ''src'' # d # rest)" and t: "t @ ''.ts'' = join_path (root @ ''src'' # d # rest)"
    by (auto simp: in_layer_def)
  from rest obtain r b where r: "rest = r @ [b]" by (metis rev_exhaust)
  let ?pre = "join_path (root @ ''src'' # d # r)"
  have b: "CHR ''/'' \<notin> set b" using pl by (simp add: r plain_def)
  have tb: "t @ ''.ts'' = (?pre @ ''/'') @ b" using t by (simp add: r)
  from last_segment [OF tb] obtain b' where b': "b = b' @ ''.ts''" by blast
  with tb have "t = (?pre @ ''/'') @ b'" by simp
  then have "s = join_path (root @ ''src'' # d # r @ [b' @ ''.js''])" by (simp add: s)
  moreover have "list_all plain (root @ ''src'' # d # r @ [b' @ ''.js''])"
    using pl b by (simp add: r b' plain_def)
  ultimately show ?thesis unfolding in_layer_def using root by (intro exI [of _ "r @ [b' @ ''.js'']"]) simp
next
  case False
  with assms show ?thesis by (simp add: ts_file_def)
qed

definition import_edge :: "(string \<Rightarrow> json list) \<Rightarrow> string \<Rightarrow> string \<Rightarrow> bool" where
  "import_edge tree f g \<longleftrightarrow>
     (\<exists>n\<in>set (tree f). \<exists>spec. import_spec n = Some spec \<and> relative spec \<and> g = import_file f spec)"

lemma join_path_inj:
  assumes "join_path xs = join_path ys" and "\<forall>s\<in>set xs. CHR ''/'' \<notin> set s" and "\<forall>s\<in>set ys. CHR ''/'' \<notin> set s"
  shows "xs = ys"
proof -
  have "[] # xs = split_slash (join_path ys)" using split_slash_join [OF assms(2)] unfolding assms(1) by (rule sym)
  also have "\<dots> = [] # ys" by (rule split_slash_join [OF assms(3)])
  finally show ?thesis by simp
qed

lemma target_layer:
  assumes f: "in_layer root d f" and g: "in_layer root' d' (join_path (resolve_import f spec))" and "relative spec"
  shows "importTargetLayer f spec = layer_name d'"
proof -
  from f obtain rest where "rest \<noteq> []" and pl: "list_all plain (root @ ''src'' # d # rest)"
    and fr: "f = join_path (root @ ''src'' # d # rest)" by (auto simp: in_layer_def)
  then obtain r b where r: "rest = r @ [b]" by (metis rev_exhaust)
  let ?ds = "root @ ''src'' # d # r"
  have "list_all plain (?ds @ [b])" using pl by (simp add: r)
  from resolve_file [OF this, of spec] have res: "resolve_import f spec = resolve_parts (split_slash spec) ?ds"
    by (simp only: fr r append.assoc append.simps)
  have "\<forall>p\<in>set (split_slash spec) \<union> set ?ds. CHR ''/'' \<notin> set p"
    using pl split_slash_parts unfolding r list_all_iff plain_def by auto
  from resolve_parts_slash [OF this] have sl: "\<forall>p\<in>set (resolve_import f spec). CHR ''/'' \<notin> set p" unfolding res by blast
  from g obtain rest' where "''src'' \<notin> set root'" and pl': "list_all plain (root' @ ''src'' # d' # rest')"
    and j: "join_path (resolve_import f spec) = join_path (root' @ ''src'' # d' # rest')" by (auto simp: in_layer_def)
  have "resolve_import f spec = root' @ ''src'' # d' # rest'"
    by (rule join_path_inj [OF j sl]) (use pl' in \<open>auto simp: list_all_iff plain_def\<close>)
  with index_of_first [OF \<open>''src'' \<notin> set root'\<close>] assms(3) show ?thesis
    by (auto simp: importTargetLayer_def relative_def nth_append)
qed

section \<open>The layers\<close>

lemma layer_names: "d \<in> set LAYER_ORDER \<Longrightarrow> layer_name d = Some d \<and> \<not> cross_layer d"
  by (auto simp: LAYER_ORDER_def layer_name_def cross_layer_def)

text \<open>An import between two layers is reported where it leads up.\<close>

lemma layer_check_verdict:
  assumes f: "in_layer root d f" and g: "in_layer root' d' (import_file f spec)"
    and d: "d \<in> set LAYER_ORDER" "d' \<in> set LAYER_ORDER" and spec: "import_spec n = Some spec" "relative spec"
    and "\<not> ends_with ''.test.ts'' f"
  shows "(\<exists>rep\<in>set (layer_check f n). lr_id rep = ''upstream'') \<longleftrightarrow> layerRank d < layerRank d'"
proof -
  have l: "layerOf f = Some d" "importTargetLayer f spec = Some d'"
    using layerOf_file [OF f] target_layer [OF f ts_file_layer [OF g [unfolded import_file_def]] spec(2)] layer_names d by simp_all
  show ?thesis
    using assms(7) layer_names [OF d(1)] layer_names [OF d(2)]
    by (auto simp: layer_check_def l spec(1) Let_def split: option.split)
qed

text \<open>A tree of files, by their names the import statements of each, that the rule passes.\<close>

definition lint_clean :: "(string \<Rightarrow> json list) \<Rightarrow> bool" where
  "lint_clean tree \<longleftrightarrow> (\<forall>f. \<forall>n\<in>set (tree f). layer_check f n = [])"

text \<open>An import from one file of a layer to another, tests aside.\<close>

definition layer_edge :: "string list \<Rightarrow> (string \<Rightarrow> json list) \<Rightarrow> string \<Rightarrow> string \<Rightarrow> bool" where
  "layer_edge root tree f g \<longleftrightarrow> import_edge tree f g \<and> \<not> ends_with ''.test.ts'' f \<and>
     (\<exists>d\<in>set LAYER_ORDER. in_layer root d f) \<and> (\<exists>d\<in>set LAYER_ORDER. in_layer root d g)"

lemma in_layer_unique: "in_layer root d f \<Longrightarrow> in_layer root d' f \<Longrightarrow> d \<in> set LAYER_ORDER \<Longrightarrow> d' \<in> set LAYER_ORDER \<Longrightarrow> d = d'"
  using layerOf_file layer_names by (metis option.inject)

lemma layer_edge_rank:
  assumes "lint_clean tree" and e: "layer_edge root tree f g"
    and d: "in_layer root d f" "d \<in> set LAYER_ORDER" "in_layer root d' g" "d' \<in> set LAYER_ORDER"
  shows "layerRank d' \<le> layerRank d"
proof -
  from e obtain n spec where n: "n \<in> set (tree f)" and spec: "import_spec n = Some spec" "relative spec"
    and g: "g = import_file f spec" and t: "\<not> ends_with ''.test.ts'' f"
    unfolding layer_edge_def import_edge_def by blast
  have "layer_check f n = []" using assms(1) n by (simp add: lint_clean_def)
  with layer_check_verdict [OF d(1) d(3) [unfolded g] d(2,4) spec t] show ?thesis by simp
qed

text \<open>C34. The layer rule keeps the layers: an import from a file of one layer to a file of another is
  reported as leading up exactly where the other layer comes later in the order, and in a
  tree where the rule reports nothing no chain of imports within the layers, however long,
  leads from a layer to a later one.\<close>

theorem layers_never_rise:
  assumes "d \<in> set LAYER_ORDER" and "d' \<in> set LAYER_ORDER" and f: "in_layer root d f"
  shows "(in_layer root d' (import_file f spec) \<and> import_spec n = Some spec \<and> relative spec \<and>
        \<not> ends_with ''.test.ts'' f \<longrightarrow>
      ((\<exists>rep\<in>set (layer_check f n). lr_id rep = ''upstream'') \<longleftrightarrow> layerRank d < layerRank d')) \<and>
    (lint_clean tree \<and> (layer_edge root tree)\<^sup>*\<^sup>* f g \<and> in_layer root d' g \<longrightarrow> layerRank d' \<le> layerRank d)"
proof (intro conjI impI)
  assume "in_layer root d' (import_file f spec) \<and> import_spec n = Some spec \<and> relative spec \<and> \<not> ends_with ''.test.ts'' f"
  then show "(\<exists>rep\<in>set (layer_check f n). lr_id rep = ''upstream'') \<longleftrightarrow> layerRank d < layerRank d'"
    using layer_check_verdict [OF f _ assms(1,2)] by blast
next
  assume "lint_clean tree \<and> (layer_edge root tree)\<^sup>*\<^sup>* f g \<and> in_layer root d' g"
  then have clean: "lint_clean tree" and chain: "(layer_edge root tree)\<^sup>*\<^sup>* f g" and g: "in_layer root d' g" by simp_all
  from chain g assms(2) show "layerRank d' \<le> layerRank d"
  proof (induction arbitrary: d' rule: rtranclp_induct)
    case base
    then show ?case using in_layer_unique [OF f _ assms(1)] by blast
  next
    case (step h k)
    from step.hyps(2) obtain e where e: "e \<in> set LAYER_ORDER" "in_layer root e h" unfolding layer_edge_def by blast
    have "layerRank d' \<le> layerRank e" using layer_edge_rank [OF clean step.hyps(2) e(2,1)] step.prems by blast
    also have "\<dots> \<le> layerRank d" by (rule step.IH [OF e(2,1)])
    finally show ?case .
  qed
qed

section \<open>What passes\<close>

text \<open>The names that count as secrets, in lower case.\<close>

definition secret_texts :: "string list" where
  "secret_texts = [''apikey'', ''api_key'', ''api-key'', ''admintoken'', ''admin_token'', ''admin-token'', ''bearer'',
     ''privatekey'', ''private_key'', ''private-key'', ''keystore'', ''passphrase'', ''password'', ''secret'',
     ''webhooksecret'', ''webhook_secret'', ''webhook-secret'', ''signature'']"

lemma two_words_texts: "two_words a b name \<longleftrightarrow> js_lower name \<in> {a @ b, a @ ''_'' @ b, a @ ''-'' @ b}"
proof -
  have "starts_with a s \<and> (let rest = drop (length a) s in rest = b \<or> rest \<noteq> [] \<and> (hd rest = CHR ''_'' \<or> hd rest = CHR ''-'') \<and> tl rest = b)
      \<longleftrightarrow> s \<in> {a @ b, a @ ''_'' @ b, a @ ''-'' @ b}" (is "?l \<longleftrightarrow> ?r") for s
  proof
    assume ?l
    then have s: "s = a @ drop (length a) s" unfolding starts_with_def by (metis append_take_drop_id)
    obtain rest where rest: "drop (length a) s = rest" by blast
    with \<open>?l\<close> s show ?r by (cases rest) (auto simp: Let_def)
  qed (auto simp: starts_with_def Let_def)
  then show ?thesis unfolding two_words_def Let_def by blast
qed

lemma isSecretName_texts: "isSecretName name \<longleftrightarrow> js_lower name \<in> set secret_texts"
  unfolding isSecretName_def two_words_texts secret_texts_def by auto

text \<open>An expression that names a secret: itself, as the last member, or in an object, however deep.\<close>

inductive exposes :: "json \<Rightarrow> bool" where
  name: "is_type ''Identifier'' (Some e) \<Longrightarrow> js_str (js_get ''name'' (Some e)) = Some s \<Longrightarrow>
    js_lower s \<in> set secret_texts \<Longrightarrow> exposes e"
| last: "is_type ''MemberExpression'' (Some e) \<Longrightarrow> ident_name (js_get ''property'' (Some e)) = Some s \<Longrightarrow>
    js_lower s \<in> set secret_texts \<Longrightarrow> exposes e"
| key: "is_type ''ObjectExpression'' (Some e) \<Longrightarrow> m \<in> set (js_array (js_get ''properties'' (Some e))) \<Longrightarrow>
    is_type ''Property'' (Some m) \<Longrightarrow> key_name (js_get ''key'' (Some m)) = Some s \<Longrightarrow>
    js_lower s \<in> set secret_texts \<Longrightarrow> exposes e"
| inside: "is_type ''ObjectExpression'' (Some e) \<Longrightarrow> m \<in> set (js_array (js_get ''properties'' (Some e))) \<Longrightarrow>
    is_type ''Property'' (Some m) \<Longrightarrow> js_get ''value'' (Some m) = Some v \<Longrightarrow> exposes v \<Longrightarrow> exposes e"

inductive_simps exposes_iff: "exposes e"

lemma name_report_none: "name_report n i name = [] \<longleftrightarrow> (\<forall>s. name = Some s \<longrightarrow> js_lower s \<notin> set secret_texts)"
  by (auto simp: name_report_def isSecretName_texts split: option.splits)

lemma is_type_true: "is_type t e \<Longrightarrow> js_true e"
  by (auto simp: is_type_def js_get_def js_true_def split: option.splits json.splits)

lemma is_type_unique: "is_type t e \<Longrightarrow> is_type u e \<longleftrightarrow> u = t"
  by (auto simp: is_type_def)

lemma concat_map_Nil: "concat (map f xs) = [] \<longleftrightarrow> (\<forall>x\<in>set xs. f x = [])"
  by (induction xs) auto

lemma checkExpression_none: "checkExpression e = [] \<longleftrightarrow> (\<forall>v. e = Some v \<longrightarrow> \<not> exposes v)"
proof (induction e rule: checkExpression.induct)
  case (1 e)
  show ?case
  proof (cases e)
    case None
    then show ?thesis by (simp add: checkExpression.simps js_true_def)
  next
    case (Some v)
    consider "is_type ''Identifier'' e" | "is_type ''ObjectExpression'' e" | "is_type ''MemberExpression'' e"
      | "\<not> is_type ''Identifier'' e" "\<not> is_type ''ObjectExpression'' e" "\<not> is_type ''MemberExpression'' e" by blast
    then show ?thesis
    proof cases
      case 1
      with Some show ?thesis
        using is_type_true [OF 1] is_type_unique [OF 1]
        by (simp add: checkExpression.simps [of "Some v"] exposes_iff [of v] name_report_none)
    next
      case 2
      have t: "js_true e" "\<not> is_type ''Identifier'' e" using is_type_true [OF 2] is_type_unique [OF 2] by simp_all
      let ?ms = "set (js_array (js_get ''properties'' e))" and ?val = "\<lambda>m. js_get ''value'' (Some m)"
      have ih: "checkExpression (?val m) = [] \<longleftrightarrow> (\<forall>w. ?val m = Some w \<longrightarrow> \<not> exposes w)"
        if "m \<in> ?ms" "is_type ''Property'' (Some m)" for m
        using "1.IH" [OF _ t(2) 2 that(1)] t(1) that(2) by simp
      have "checkExpression e = [] \<longleftrightarrow> (\<forall>m\<in>?ms. is_type ''Property'' (Some m) \<longrightarrow>
          (\<forall>s. key_name (js_get ''key'' (Some m)) = Some s \<longrightarrow> js_lower s \<notin> set secret_texts) \<and> checkExpression (?val m) = [])"
        using t 2 by (subst checkExpression.simps) (simp add: concat_map_Nil name_report_none del: concat_eq_Nil_conv)
      also have "\<dots> \<longleftrightarrow> (\<forall>m\<in>?ms. is_type ''Property'' (Some m) \<longrightarrow>
          (\<forall>s. key_name (js_get ''key'' (Some m)) = Some s \<longrightarrow> js_lower s \<notin> set secret_texts) \<and>
          (\<forall>w. ?val m = Some w \<longrightarrow> \<not> exposes w))"
        using ih by (intro ball_cong refl imp_cong) simp
      also have "\<dots> \<longleftrightarrow> \<not> exposes v"
      proof -
        have "exposes v \<longleftrightarrow> (\<exists>m s. m \<in> ?ms \<and> is_type ''Property'' (Some m) \<and>
            key_name (js_get ''key'' (Some m)) = Some s \<and> js_lower s \<in> set secret_texts) \<or>
          (\<exists>m w. m \<in> ?ms \<and> is_type ''Property'' (Some m) \<and> ?val m = Some w \<and> exposes w)"
          using 2 is_type_unique [OF 2] unfolding Some by (subst exposes_iff) simp
        then show ?thesis by blast
      qed
      finally show ?thesis unfolding Some by simp
    next
      case 3
      with Some show ?thesis
        using is_type_true [OF 3] is_type_unique [OF 3]
        by (simp add: checkExpression.simps [of "Some v"] exposes_iff [of v] name_report_none)
    next
      case 4
      with Some show ?thesis by (simp add: checkExpression.simps [of "Some v"] exposes_iff [of v])
    qed
  qed
qed

lemma types_shape_seen:
  "foldl types_shape_step (a, b) ns = (a \<or> list_ex exports_schema ns, b \<or> list_ex isInferredType ns)"
  by (induction ns arbitrary: a b) (auto simp: types_shape_step_def)

lemma split_lines_length: "length (split_lines s) = Suc (count_list s (CHR 0x0A))"
proof (induction s)
  case (Cons c s)
  then show ?case by (cases "split_lines s") auto
qed simp

lemma parses_within_first:
  "k < MAX_STATEMENTS_BEFORE_PARSE \<Longrightarrow> parses_within k ss \<longleftrightarrow>
    list_ex statementParses (take (MAX_STATEMENTS_BEFORE_PARSE - k) (filter (\<lambda>s. \<not> uncounted s) ss))"
proof (induction ss arbitrary: k)
  case (Cons s ss)
  have n: "MAX_STATEMENTS_BEFORE_PARSE - k = Suc (MAX_STATEMENTS_BEFORE_PARSE - Suc k)" using Cons.prems by simp
  show ?case
  proof (cases "MAX_STATEMENTS_BEFORE_PARSE \<le> Suc k")
    case True
    then show ?thesis using Cons n by simp
  next
    case False
    then show ?thesis using Cons.IH [of k] Cons.IH [of "Suc k"] Cons.prems n by simp
  qed
qed simp

text \<open>C35. What the other rules pass: a log call where no argument names one of the eighteen secret texts,
  by itself, as the last member or in an object literal however deep; a type file where some
  export is a schema and some export a type inferred from one; a handler where one of its
  first five statements that count has a call of \<^verbatim>\<open>parse\<close> or \<^verbatim>\<open>safeParse\<close> in it; and a file of
  less than 400 lines, counted by its line ends.\<close>

theorem lint_verdicts:
  "(no_secrets_in_logs node = [] \<longleftrightarrow>
      (isLogCall node \<longrightarrow> (\<forall>arg\<in>set (js_array (js_get ''arguments'' (Some node))). \<not> exposes arg))) \<and>
   (types_shape f exports prog = [] \<longleftrightarrow>
      (isTypesFile f \<longrightarrow> (\<exists>n\<in>set exports. exports_schema n) \<and> (\<exists>n\<in>set exports. isInferredType n))) \<and>
   (zod_at_boundary f node = [] \<longleftrightarrow>
      (js_includes ''/src/runtime/http/'' f \<and> isHandlerFunction node \<longrightarrow>
        (\<exists>s\<in>set (take 5 (filter (\<lambda>s. \<not> uncounted s) (js_array (js_get ''body'' (js_get ''body'' (Some node)))))). statementParses s))) \<and>
   (file_size f src prog = [] \<longleftrightarrow>
      (\<not> ends_with ''.test.ts'' f \<and> \<not> js_includes ''/gen/'' f \<longrightarrow> Suc (count_list src (CHR 0x0A)) < 400))"
proof (intro conjI)
  show "no_secrets_in_logs node = [] \<longleftrightarrow>
      (isLogCall node \<longrightarrow> (\<forall>arg\<in>set (js_array (js_get ''arguments'' (Some node))). \<not> exposes arg))"
    by (auto simp: no_secrets_in_logs_def checkExpression_none)
  show "types_shape f exports prog = [] \<longleftrightarrow>
      (isTypesFile f \<longrightarrow> (\<exists>n\<in>set exports. exports_schema n) \<and> (\<exists>n\<in>set exports. isInferredType n))"
    by (auto simp: types_shape_def types_shape_seen list_ex_iff)
  show "zod_at_boundary f node = [] \<longleftrightarrow>
      (js_includes ''/src/runtime/http/'' f \<and> isHandlerFunction node \<longrightarrow>
        (\<exists>s\<in>set (take 5 (filter (\<lambda>s. \<not> uncounted s) (js_array (js_get ''body'' (js_get ''body'' (Some node)))))). statementParses s))"
    by (auto simp: zod_at_boundary_def parsesEarly_def parses_within_first MAX_STATEMENTS_BEFORE_PARSE_def list_ex_iff Let_def)
  show "file_size f src prog = [] \<longleftrightarrow>
      (\<not> ends_with ''.test.ts'' f \<and> \<not> js_includes ''/gen/'' f \<longrightarrow> Suc (count_list src (CHR 0x0A)) < 400)"
    by (auto simp: file_size_def split_lines_length WARN_AT_def ERROR_AT_def Let_def)
qed

section \<open>What is let through\<close>

lemma match_dir_one: "CHR ''/'' \<notin> set b \<Longrightarrow> match_dir (CHR ''/'' # p @ ''/'') (CHR ''/'' # b) = None"
proof -
  assume b: "CHR ''/'' \<notin> set b"
  have "\<not> starts_with (CHR ''/'' # p @ ''/'') (CHR ''/'' # b)"
  proof
    assume "starts_with (CHR ''/'' # p @ ''/'') (CHR ''/'' # b)"
    then obtain t where "CHR ''/'' # b = (CHR ''/'' # p @ ''/'') @ t" unfolding starts_with_def by (metis append_take_drop_id)
    then have "b = p @ CHR ''/'' # t" by simp
    with b show False by simp
  qed
  moreover have "match_dir (CHR ''/'' # p @ ''/'') (b @ []) = None" by (subst match_dir_skip [OF b]) simp
  ultimately show ?thesis by (simp add: Let_def)
qed

lemma match_dir_two:
  assumes "CHR ''/'' \<notin> set r" and "CHR ''/'' \<notin> set b" and "CHR ''/'' \<notin> set p"
  shows "match_dir (CHR ''/'' # p @ ''/'') (CHR ''/'' # r @ CHR ''/'' # b) = None"
proof (cases "r = p")
  case True
  have "match_dir (CHR ''/'' # p @ ''/'') (r @ CHR ''/'' # b) = None"
    using match_dir_skip [OF assms(1)] match_dir_one [OF assms(2)] by simp
  moreover have "length b \<le> length (takeWhile (\<lambda>x. x \<noteq> CHR ''/'') b)" using assms(2) by (induction b) auto
  ultimately show ?thesis using True by (simp add: starts_with_def Let_def)
next
  case False
  from match_dir_miss [OF assms(1,3) False, of "[b]"] match_dir_one [OF assms(2)] show ?thesis by simp
qed

lemma layer_check_off: "layerOf f = None \<Longrightarrow> layer_check f n = []"
  by (simp add: layer_check_def)

lemma layer_check_same:
  "layerOf f = Some ''service'' \<Longrightarrow> import_spec n = Some s \<Longrightarrow> importTargetLayer f s = Some ''service'' \<Longrightarrow>
   match_dir ''/service/'' s = None \<Longrightarrow> layer_check f n = []"
  by (simp add: layer_check_def)

lemma sibling_unreported:
  assumes root: "''src'' \<notin> set root" and pl: "list_all plain (root @ [d, e, b, c])"
    and spec: "import_spec n = Some (''../'' @ e @ CHR ''/'' # c)"
  shows "layer_check (join_path (root @ [''src'', ''service'', d, b])) n = []"
proof -
  let ?f = "join_path (root @ [''src'', ''service'', d, b])" and ?spec = "''../'' @ e @ CHR ''/'' # c"
  let ?ds = "root @ [''src'', ''service'', d]"
  have fixed: "plain ''src''" "plain ''service''" by (simp_all add: plain_def)
  have f: "in_layer root ''service'' ?f"
    unfolding in_layer_def using root pl fixed by (intro exI [of _ "[d, b]"]) simp
  have ec: "CHR ''/'' \<notin> set e" "CHR ''/'' \<notin> set c" "e \<noteq> []" "c \<noteq> []" "e \<noteq> ''.''" "e \<noteq> ''..''" "c \<noteq> ''.''" "c \<noteq> ''..''"
    using pl by (simp_all add: plain_def)
  have sp: "split_slash ?spec = [''..'', e, c]"
    using split_slash_step [OF ec(1)] split_slash_word [OF ec(2)] by simp
  have "resolve_import ?f ?spec = resolve_parts (split_slash ?spec) ?ds"
    using resolve_file [of ?ds b ?spec] pl fixed by simp
  also have "\<dots> = root @ [''src'', ''service'', e, c]" unfolding sp using ec by (simp add: butlast_append)
  finally have res: "resolve_import ?f ?spec = root @ [''src'', ''service'', e, c]" .
  have g: "in_layer root ''service'' (join_path (resolve_import ?f ?spec))"
    unfolding in_layer_def res using root pl fixed by (intro exI [of _ "[e, c]"]) simp
  have rel: "relative ?spec" by (simp add: relative_def starts_with_def)
  have ln: "layer_name ''service'' = Some ''service''" by (simp add: layer_name_def LAYER_ORDER_def)
  have l: "layerOf ?f = Some ''service''" "importTargetLayer ?f ?spec = Some ''service''"
    using layerOf_file [OF f] target_layer [OF f g rel] ln by simp_all
  have dots: "CHR ''/'' \<notin> set ''..''" by simp
  have "match_dir ''/service/'' ?spec = None"
    using match_dir_skip [OF dots, of "''service/''" "CHR ''/'' # e @ CHR ''/'' # c"]
      match_dir_two [OF ec(1,2), of "''service''"] by (simp only: append.simps) simp
  from layer_check_same [OF l(1) spec l(2) this] show ?thesis .
qed

text \<open>Nodes of the code the rules are shown: an import, and a handler whose first statement reads JSON.\<close>

definition ident :: "string \<Rightarrow> json" where
  "ident s = JObj [(''type'', JStr ''Identifier''), (''name'', JStr s)]"

definition import_of :: "string \<Rightarrow> json" where
  "import_of spec = JObj [(''type'', JStr ''ImportDeclaration''), (''specifiers'', JArr []),
     (''source'', JObj [(''type'', JStr ''Literal''), (''value'', JStr spec)])]"

definition member_call :: "json \<Rightarrow> string \<Rightarrow> json list \<Rightarrow> json" where
  "member_call obj name args = JObj [(''type'', JStr ''CallExpression''),
     (''callee'', JObj [(''type'', JStr ''MemberExpression''), (''object'', obj), (''property'', ident name)]),
     (''arguments'', JArr args)]"

definition const_of :: "string \<Rightarrow> json \<Rightarrow> json" where
  "const_of name init = JObj [(''type'', JStr ''VariableDeclaration''), (''kind'', JStr ''const''),
     (''declarations'', JArr [JObj [(''type'', JStr ''VariableDeclarator''), (''id'', ident name), (''init'', init)]])]"

definition handler_of :: "string \<Rightarrow> json list \<Rightarrow> json" where
  "handler_of name stmts = JObj [(''type'', JStr ''FunctionDeclaration''), (''async'', JBool True), (''id'', ident name),
     (''body'', JObj [(''type'', JStr ''BlockStatement''), (''body'', JArr stmts)])]"

lemma import_spec_of [simp]: "import_spec (import_of spec) = Some spec"
  by (simp add: import_spec_def import_of_def)

lemma parse_of_anything: "statementParses (const_of v (member_call obj ''parse'' args))"
proof -
  have "isZodCall (member_call obj ''parse'' args)"
    by (simp add: isZodCall_def is_type_def member_call_def ident_name_def ident_def)
  then have "walk (member_call obj ''parse'' args)" by (simp add: member_call_def)
  then have "walk_value (member_call obj ''parse'' args)" by (simp add: member_call_def js_true_def)
  then show ?thesis
    by (simp add: statementParses_def const_of_def SKIP_KEYS_def js_true_def)
qed

lemma const_counted: "\<not> uncounted (const_of v e)"
  by (simp add: uncounted_def is_type_def const_of_def)

text \<open>The report that says a file is an error is a warning: the configuration has the whole rule so.\<close>

lemma long_file_warned: "(''file-size'', sev, r) \<in> set (lint_file f p) \<Longrightarrow> sev = Warn"
  by (auto simp: lint_file_def lint_config_def)

text \<open>A file all rules are content with has no import the layer rule reports.\<close>

lemma lint_file_layers: "lint_file f p = [] \<Longrightarrow> \<forall>n\<in>set (pf_imports p). layer_check f n = []"
  by (simp add: lint_file_def lint_config_def lint_rules_def)

text \<open>C38. Three things the rules are there to stop pass them. Where the repository lies below a directory
  called \<^verbatim>\<open>src\<close> whose next directory is no layer, the layer rule is silent on every file. An
  import of one service from another by its path from there, as \<^verbatim>\<open>../sender/index.js\<close> from
  \<^verbatim>\<open>service/routing/index.ts\<close>, is never reported, since the rule looks for \<^verbatim>\<open>/service/\<close> in the text
  of the import. And a handler whose first statement calls \<^verbatim>\<open>parse\<close> of anything, of \<^verbatim>\<open>JSON\<close> for
  one, counts as checking its input.\<close>

theorem lint_blind_spots:
  "(layer_name x = None \<and> rest \<noteq> [] \<and> ''src'' \<notin> set root \<and> list_all plain (root @ ''src'' # x # rest)
      \<longrightarrow> layer_check (join_path (root @ ''src'' # x # rest)) n = []) \<and>
   (''src'' \<notin> set root \<and> list_all plain (root @ [d, e, b, c])
      \<longrightarrow> layer_check (join_path (root @ [''src'', ''service'', d, b])) (import_of (''../'' @ e @ CHR ''/'' # c)) = []) \<and>
   zod_at_boundary f (handler_of h (const_of v (member_call (ident ''JSON'') ''parse'' args) # stmts)) = []"
proof (intro conjI impI)
  assume "layer_name x = None \<and> rest \<noteq> [] \<and> ''src'' \<notin> set root \<and> list_all plain (root @ ''src'' # x # rest)"
  then have none: "layer_name x = None" and "in_layer root x (join_path (root @ ''src'' # x # rest))"
    unfolding in_layer_def by blast+
  from layerOf_file [OF this(2)] none have "layerOf (join_path (root @ ''src'' # x # rest)) = None" by (simp only:)
  then show "layer_check (join_path (root @ ''src'' # x # rest)) n = []" by (rule layer_check_off)
next
  assume "''src'' \<notin> set root \<and> list_all plain (root @ [d, e, b, c])"
  then have "''src'' \<notin> set root" "list_all plain (root @ [d, e, b, c])" by simp_all
  from sibling_unreported [OF this import_spec_of]
  show "layer_check (join_path (root @ [''src'', ''service'', d, b])) (import_of (''../'' @ e @ CHR ''/'' # c)) = []" .
next
  have "parsesEarly (js_get ''body'' (Some (handler_of h (const_of v (member_call (ident ''JSON'') ''parse'' args) # stmts))))"
    using parse_of_anything const_counted by (simp add: parsesEarly_def handler_of_def js_array_def)
  then show "zod_at_boundary f (handler_of h (const_of v (member_call (ident ''JSON'') ''parse'' args) # stmts)) = []"
    by (simp add: zod_at_boundary_def)
qed

section \<open>A sample\<close>

definition sample_root :: "string list" where "sample_root = [''app'']"

text \<open>A route of the runtime imports a service, which imports a type.\<close>

definition sample_tree :: "string \<Rightarrow> json list" where
  "sample_tree f =
     (if f = ''/app/src/runtime/http/server.ts'' then [import_of ''../../service/routing/index.js'']
      else if f = ''/app/src/service/routing/index.ts'' then [import_of ''../../types/routing.js''] else [])"

lemma sample_files:
  "in_layer sample_root ''runtime'' ''/app/src/runtime/http/server.ts''"
  "in_layer sample_root ''service'' ''/app/src/service/routing/index.ts''"
  "in_layer sample_root ''types'' ''/app/src/types/routing.ts''"
  unfolding in_layer_def
  by (rule exI [of _ "[''http'', ''server.ts'']"], simp add: sample_root_def plain_def)
    (rule exI [of _ "[''routing'', ''index.ts'']"], simp add: sample_root_def plain_def,
     rule exI [of _ "[''routing.ts'']"], simp add: sample_root_def plain_def)

lemma sample_imports:
  "import_file ''/app/src/runtime/http/server.ts'' ''../../service/routing/index.js'' = ''/app/src/service/routing/index.ts''"
  "import_file ''/app/src/service/routing/index.ts'' ''../../types/routing.js'' = ''/app/src/types/routing.ts''"
  "layer_check ''/app/src/runtime/http/server.ts'' (import_of ''../../service/routing/index.js'') = []"
  "layer_check ''/app/src/service/routing/index.ts'' (import_of ''../../types/routing.js'') = []"
  by code_simp+

lemma sample_clean: "lint_clean sample_tree"
  using sample_imports(3,4) by (simp add: lint_clean_def sample_tree_def)

lemma sample_edges:
  "layer_edge sample_root sample_tree ''/app/src/runtime/http/server.ts'' ''/app/src/service/routing/index.ts''"
  "layer_edge sample_root sample_tree ''/app/src/service/routing/index.ts'' ''/app/src/types/routing.ts''"
proof -
  have order: "''runtime'' \<in> set LAYER_ORDER" "''service'' \<in> set LAYER_ORDER" "''types'' \<in> set LAYER_ORDER"
    by (simp_all add: LAYER_ORDER_def)
  have rel: "relative ''../../service/routing/index.js''" "relative ''../../types/routing.js''"
    by (simp_all add: relative_def starts_with_def)
  have test: "\<not> ends_with ''.test.ts'' ''/app/src/runtime/http/server.ts''"
    "\<not> ends_with ''.test.ts'' ''/app/src/service/routing/index.ts''" by code_simp+
  have "import_edge sample_tree ''/app/src/runtime/http/server.ts'' ''/app/src/service/routing/index.ts''"
    "import_edge sample_tree ''/app/src/service/routing/index.ts'' ''/app/src/types/routing.ts''"
    unfolding import_edge_def using rel sample_imports(1,2) by (auto simp: sample_tree_def)
  with order test sample_files
  show "layer_edge sample_root sample_tree ''/app/src/runtime/http/server.ts'' ''/app/src/service/routing/index.ts''"
    "layer_edge sample_root sample_tree ''/app/src/service/routing/index.ts'' ''/app/src/types/routing.ts''"
    unfolding layer_edge_def by blast+
qed

theorem layers_never_rise_witness:
  "(layer_edge sample_root sample_tree)\<^sup>*\<^sup>* ''/app/src/runtime/http/server.ts'' ''/app/src/types/routing.ts'' \<and>
    layerRank ''types'' \<le> layerRank ''runtime'' \<and>
    (\<exists>rep\<in>set (layer_check ''/app/src/service/routing/index.ts'' (import_of ''../../runtime/http/server.js'')). lr_id rep = ''upstream'')"
proof -
  have order: "''runtime'' \<in> set LAYER_ORDER" "''service'' \<in> set LAYER_ORDER" "''types'' \<in> set LAYER_ORDER"
    by (simp_all add: LAYER_ORDER_def)
  have chain: "(layer_edge sample_root sample_tree)\<^sup>*\<^sup>* ''/app/src/runtime/http/server.ts'' ''/app/src/types/routing.ts''"
    using sample_edges by (meson converse_rtranclp_into_rtranclp rtranclp.rtrancl_refl)
  have target: "import_file ''/app/src/service/routing/index.ts'' ''../../runtime/http/server.js'' = ''/app/src/runtime/http/server.ts''"
    and "relative ''../../runtime/http/server.js''" and "\<not> ends_with ''.test.ts'' ''/app/src/service/routing/index.ts''"
    and "layerRank ''service'' < layerRank ''runtime''" by code_simp+
  moreover have "in_layer sample_root ''runtime'' (import_file ''/app/src/service/routing/index.ts'' ''../../runtime/http/server.js'')"
    unfolding target by (rule sample_files(1))
  ultimately show ?thesis
    using chain layers_never_rise [OF order(1,3) sample_files(1), of _ _ sample_tree "''/app/src/types/routing.ts''"]
      layers_never_rise [OF order(2,1) sample_files(2), of "''../../runtime/http/server.js''" "import_of ''../../runtime/http/server.js''"]
      sample_clean sample_files(3) import_spec_of by blast
qed

definition secret_log :: json where
  "secret_log = member_call (ident ''console'') ''log''
     [JObj [(''type'', JStr ''ObjectExpression''), (''properties'', JArr
       [JObj [(''type'', JStr ''Property''), (''key'', ident ''user''), (''value'', JObj [(''type'', JStr ''ObjectExpression''),
         (''properties'', JArr [JObj [(''type'', JStr ''Property''), (''key'', ident ''API_KEY''), (''value'', ident ''v'')]])])]])]]"

theorem lint_verdicts_witness:
  "isLogCall secret_log \<and> (\<exists>arg\<in>set (js_array (js_get ''arguments'' (Some secret_log))). exposes arg)"
proof -
  have "isLogCall secret_log"
    unfolding isLogCall_def secret_log_def member_call_def ident_def
    by (simp add: is_type_def ident_name_def js_true_def member_root.simps)
  moreover have "no_secrets_in_logs secret_log \<noteq> []"
    using \<open>isLogCall secret_log\<close>
    by (simp add: no_secrets_in_logs_def)
      (simp add: secret_log_def member_call_def ident_def js_array_def checkExpression.simps is_type_def key_name_def
        name_report_def isSecretName_texts js_true_def, code_simp)
  ultimately show ?thesis using lint_verdicts [of secret_log] by blast
qed

theorem lint_blind_spots_witness:
  "layer_check ''/src/app/src/types/a.ts'' (import_of ''../runtime/http/server.js'') = [] \<and>
   layer_check ''/app/src/service/routing/index.ts'' (import_of ''../sender/index.js'') = []"
  using lint_blind_spots [of "''app''" "[''src'', ''types'', ''a.ts'']" "[]" "import_of ''../runtime/http/server.js''"
      "''routing''" "''sender''" "''index.ts''" "''index.js''"]
    lint_blind_spots [of "''app''" "[''src'', ''types'', ''a.ts'']" "[''app'']" "import_of ''../runtime/http/server.js''"
      "''routing''" "''sender''" "''index.ts''" "''index.js''"]
  by (simp add: plain_def layer_name_def LAYER_ORDER_def)

end
