(* ===== verification/Providers.thy ===== *)
theory Providers
  imports Lifecycle Json
begin

text \<open>
  The wrappers around the libraries that write log lines, open the database file and serve
  HTTP (\<^verbatim>\<open>providers/logger/pino.ts\<close>, \<^verbatim>\<open>providers/database/sqlite.ts\<close>, \<^verbatim>\<open>providers/http/fastify.ts\<close>), and
  how \<^verbatim>\<open>createServer\<close> of \<^verbatim>\<open>runtime/http/server.ts\<close> puts the server together with the static files
  of the browser application. What these do is call the libraries: a call is a value of
  \<open>host_call\<close> with its arguments, the calls made so far are the state, and whether a call
  throws is the argument \<open>ho\<close>.
\<close>

section \<open>Calls of the libraries\<close>

record LoggerOptions =
  lo_level :: log_level
  lo_format :: log_format

text \<open>The options of the log library; the transport is its target and whether it uses colours.\<close>

record pino_options =
  po_level :: log_level
  po_transport :: "(string \<times> bool) option"

record log_line =
  ll_level :: log_level
  ll_context :: json
  ll_msg :: string

datatype host_call =
    NewLogger pino_options
  | LogLine log_line
  | ConsoleError string js_error
  | MakeDir string
  | OpenDatabase string bool bool
  | Pragma string
  | CloseDatabase
  | NewGrpcClient string
  | NewChainClient string
  | NewFastify bool int
  | RegisterSensible
  | DecorateRequest string string
  | SetErrorHandler
  | AddHook string
  | AddRoute string string
  | FastifyWarn string json
  | RegisterStatic string string bool
  | Listen string int
  | CloseServer
  | OnSignal string

type_synonym host = "host_call \<Rightarrow> js_error option"

type_synonym 'a traced = "(host_call list, js_error, 'a) io"

definition host_call :: "host \<Rightarrow> host_call \<Rightarrow> unit traced" where
  "host_call ho c = (\<lambda>calls. (case ho c of None \<Rightarrow> Inr () | Some e \<Rightarrow> Inl e, calls @ [c]))"

primrec host_calls :: "host \<Rightarrow> host_call list \<Rightarrow> unit traced" where
  "host_calls ho [] = io_return ()"
| "host_calls ho (c # cs) = io_bind (host_call ho c) (\<lambda>_. host_calls ho cs)"

section \<open>The logger\<close>

definition createLogger :: "LoggerOptions \<Rightarrow> pino_options" where
  "createLogger options =
     \<lparr>po_level = lo_level options,
      po_transport = (if lo_format options = Text then Some (''pino-pretty'', True) else None)\<rparr>"

text \<open>\<^verbatim>\<open>(msg, ctx) => base.info(ctx ?? {}, msg)\<close>, for each level.\<close>

definition log_at :: "log_level \<Rightarrow> string \<Rightarrow> json option \<Rightarrow> host_call" where
  "log_at level msg ctx =
     LogLine \<lparr>ll_level = level, ll_context = (case ctx of None \<Rightarrow> JObj [] | Some v \<Rightarrow> v), ll_msg = msg\<rparr>"

definition logger_info :: "string \<Rightarrow> json option \<Rightarrow> host_call" where "logger_info = log_at Info"
definition logger_warn :: "string \<Rightarrow> json option \<Rightarrow> host_call" where "logger_warn = log_at Warn"
definition logger_error :: "string \<Rightarrow> json option \<Rightarrow> host_call" where "logger_error = log_at Error"
definition logger_debug :: "string \<Rightarrow> json option \<Rightarrow> host_call" where "logger_debug = log_at Debug"

section \<open>The database file\<close>

record OpenSqliteOptions =
  os_path :: string
  os_readonly :: "bool option"

text \<open>
  \<^verbatim>\<open>dirname\<close> of the runtime: what stands before the last slash that is not the first
  character and that something other than slashes follows.
\<close>

definition dirname :: "string \<Rightarrow> string" where
  "dirname p =
     (let root = (p \<noteq> [] \<and> hd p = CHR ''/'')
      in case find (\<lambda>i. p ! i = CHR ''/'' \<and> (\<exists>c\<in>set (drop (Suc i) p). c \<noteq> CHR ''/'')) (rev [1..<length p]) of
           None \<Rightarrow> if root then ''/'' else ''.''
         | Some e \<Rightarrow> if root \<and> e = 1 then ''//'' else take e p)"

definition sqlite_calls :: "OpenSqliteOptions \<Rightarrow> host_call list" where
  "sqlite_calls options =
     [MakeDir (dirname (os_path options)),
      OpenDatabase (os_path options) (case os_readonly options of None \<Rightarrow> False | Some b \<Rightarrow> b) False,
      Pragma ''journal_mode = WAL'',
      Pragma ''synchronous = NORMAL'',
      Pragma ''foreign_keys = ON'']"

definition openSqlite :: "host \<Rightarrow> OpenSqliteOptions \<Rightarrow> unit traced" where
  "openSqlite ho options = host_calls ho (sqlite_calls options)"

definition sqlite_close :: "host \<Rightarrow> unit traced" where
  "sqlite_close ho = host_call ho CloseDatabase"

section \<open>The server\<close>

definition createFastifyServer :: "host \<Rightarrow> bool option \<Rightarrow> unit traced" where
  "createFastifyServer ho logger =
     host_calls ho [NewFastify (case logger of None \<Rightarrow> True | Some b \<Rightarrow> b) (1024 * 1024), RegisterSensible]"

definition http_listen :: "host \<Rightarrow> string \<Rightarrow> int \<Rightarrow> unit traced" where
  "http_listen ho hostname port = host_call ho (Listen hostname port)"

definition http_close :: "host \<Rightarrow> unit traced" where
  "http_close ho = host_call ho CloseServer"

text \<open>
  The mount of the browser application; \<open>here\<close> is the directory of the running file and
  \<open>present\<close> what exists.
\<close>

definition spaRoot :: "string list \<Rightarrow> string list" where
  "spaRoot here = butlast (butlast (butlast here)) @ [''admin-ui'', ''admin'', ''dist'']"

definition registerSpaStatic :: "host \<Rightarrow> string list \<Rightarrow> (string list \<Rightarrow> bool) \<Rightarrow> unit traced" where
  "registerSpaStatic ho here present =
     (if \<not> present (spaRoot here)
      then host_call ho (FastifyWarn ''admin SPA assets not found; skipping /admin/console mount''
             (JObj [(''spaRoot'', JStr (path_text (spaRoot here)))]))
      else host_call ho (RegisterStatic (path_text (spaRoot here)) ''/admin/console/'' False))"

definition registerPublicRoutes :: "host \<Rightarrow> unit traced" where
  "registerPublicRoutes ho = host_calls ho [AddRoute ''GET'' ''/healthz'']"

definition registerApiRoutes :: "host \<Rightarrow> unit traced" where
  "registerApiRoutes ho =
     host_calls ho (AddHook ''onRequest'' #
       [AddRoute ''GET'' ''/api/health'', AddRoute ''GET'' ''/api/orchs'', AddRoute ''GET'' ''/api/orchs/:address'',
        AddRoute ''GET'' ''/api/capabilities/search'', AddRoute ''GET'' ''/api/sender/wallet'',
        AddRoute ''GET'' ''/api/sender/escrow'', AddRoute ''GET'' ''/api/audit-log'',
        AddRoute ''GET'' ''/api/resolver/audit-log'', AddRoute ''POST'' ''/api/resolver/refresh'',
        AddRoute ''POST'' ''/api/resolver/refresh/:address''])"

text \<open>The services made in between only keep their options.\<close>

definition createServer :: "host \<Rightarrow> string list \<Rightarrow> (string list \<Rightarrow> bool) \<Rightarrow> bool option \<Rightarrow> unit traced" where
  "createServer ho here present logger =
     io_bind (createFastifyServer ho logger) (\<lambda>_.
     io_bind (host_calls ho [DecorateRequest ''actor'' [], SetErrorHandler]) (\<lambda>_.
     io_bind (registerPublicRoutes ho) (\<lambda>_.
     io_bind (registerApiRoutes ho) (\<lambda>_.
     registerSpaStatic ho here present))))"

section \<open>What the calls leave\<close>

text \<open>The first call that throws ends a sequence; the calls up to it have been made.\<close>

fun first_failure :: "host \<Rightarrow> host_call list \<Rightarrow> js_error option" where
  "first_failure ho [] = None"
| "first_failure ho (c # cs) = (case ho c of Some e \<Rightarrow> Some e | None \<Rightarrow> first_failure ho cs)"

fun calls_made :: "host \<Rightarrow> host_call list \<Rightarrow> host_call list" where
  "calls_made ho [] = []"
| "calls_made ho (c # cs) = c # (case ho c of Some _ \<Rightarrow> [] | None \<Rightarrow> calls_made ho cs)"

definition run_calls :: "host \<Rightarrow> host_call list \<Rightarrow> js_error + unit" where
  "run_calls ho cs = (case first_failure ho cs of None \<Rightarrow> Inr () | Some e \<Rightarrow> Inl e)"

lemma host_call_apply [io_simps]: "host_call ho c calls = (run_calls ho [c], calls @ [c])"
  by (simp add: host_call_def run_calls_def split: option.split)

lemma host_calls_apply [io_simps]: "host_calls ho cs calls = (run_calls ho cs, calls @ calls_made ho cs)"
proof (induction cs arbitrary: calls)
  case (Cons c cs)
  then show ?case by (cases "ho c") (simp_all add: io_bind_def host_call_def run_calls_def)
qed (simp add: run_calls_def)

lemma first_failure_append:
  "first_failure ho (cs @ ds) = (case first_failure ho cs of None \<Rightarrow> first_failure ho ds | Some e \<Rightarrow> Some e)"
  by (induction cs) (simp_all split: option.split)

lemma calls_made_append:
  "calls_made ho (cs @ ds) = calls_made ho cs @ (if first_failure ho cs = None then calls_made ho ds else [])"
  by (induction cs) (simp_all split: option.split)

lemma host_call_single: "host_call ho c = host_calls ho [c]"
  by (rule ext) (simp add: io_simps split: option.split)

lemma host_calls_then: "io_bind (host_calls ho cs) (\<lambda>_. host_calls ho ds) = host_calls ho (cs @ ds)"
  by (rule ext) (auto simp: io_bind_def host_calls_apply run_calls_def first_failure_append calls_made_append split: option.splits)

lemma calls_made_all: "first_failure ho cs = None \<longleftrightarrow> (\<forall>c\<in>set cs. ho c = None)"
  by (induction cs) (simp_all split: option.split)

lemma calls_made_full: "first_failure ho cs = None \<Longrightarrow> calls_made ho cs = cs"
  by (induction cs) (simp_all split: option.splits)

definition spa_call :: "string list \<Rightarrow> (string list \<Rightarrow> bool) \<Rightarrow> host_call" where
  "spa_call here present =
     (if present (spaRoot here) then RegisterStatic (path_text (spaRoot here)) ''/admin/console/'' False
      else FastifyWarn ''admin SPA assets not found; skipping /admin/console mount''
             (JObj [(''spaRoot'', JStr (path_text (spaRoot here)))]))"

definition server_calls :: "string list \<Rightarrow> (string list \<Rightarrow> bool) \<Rightarrow> bool option \<Rightarrow> host_call list" where
  "server_calls here present logger =
     [NewFastify (case logger of None \<Rightarrow> True | Some b \<Rightarrow> b) 1048576, RegisterSensible, DecorateRequest ''actor'' [],
      SetErrorHandler, AddRoute ''GET'' ''/healthz'', AddHook ''onRequest''] @
     map (\<lambda>(m, p, r). AddRoute m p) (tl route_table) @ [spa_call here present]"

definition api_calls :: "host_call list" where
  "api_calls = AddHook ''onRequest'' # map (\<lambda>(m, p, r). AddRoute m p) (tl route_table)"

lemma registerApiRoutes_calls: "registerApiRoutes ho = host_calls ho api_calls"
  unfolding registerApiRoutes_def by (rule arg_cong [where f = "host_calls ho"]) (simp add: api_calls_def route_table_def)

lemma registerSpaStatic_call: "registerSpaStatic ho here present = host_calls ho [spa_call here present]"
  by (simp only: registerSpaStatic_def spa_call_def host_call_single if_not_P if_P split: if_split) simp

lemma createServer_calls: "createServer ho here present logger = host_calls ho (server_calls here present logger)"
proof -
  have "server_calls here present logger =
      [NewFastify (case logger of None \<Rightarrow> True | Some b \<Rightarrow> b) (1024 * 1024), RegisterSensible] @
      [DecorateRequest ''actor'' [], SetErrorHandler] @ [AddRoute ''GET'' ''/healthz''] @ api_calls @ [spa_call here present]"
    by (simp add: server_calls_def api_calls_def)
  then show ?thesis
    by (simp only: createServer_def createFastifyServer_def registerPublicRoutes_def registerApiRoutes_calls
        registerSpaStatic_call host_calls_then)
qed

text \<open>The routes that are registered are those of the model's table, in its order.\<close>

fun added_route :: "host_call \<Rightarrow> (string \<times> string) list" where
  "added_route (AddRoute m p) = [(m, p)]"
| "added_route _ = []"

lemma added_routes_map: "concat (map added_route (map (\<lambda>(m, p, r). AddRoute m p) rs)) = map (\<lambda>(m, p, r). (m, p)) rs"
  by (induction rs) auto

lemma server_routes:
  "concat (map added_route (server_calls here present logger)) = map (\<lambda>(m, p, r). (m, p)) route_table"
proof -
  have "route_table = (''GET'', ''/healthz'', Healthz) # tl route_table" by (simp add: route_table_def)
  then have "map (\<lambda>(m, p, r). (m, p)) route_table = (''GET'', ''/healthz'') # map (\<lambda>(m, p, r). (m, p)) (tl route_table)"
    by (metis (no_types, lifting) case_prod_conv list.simps(9))
  moreover have "added_route (spa_call here present) = []" by (simp add: spa_call_def)
  ultimately show ?thesis unfolding server_calls_def map_append concat_append added_routes_map by simp
qed

end
