(* ===== verification/Boot.thy ===== *)
theory Boot
  imports Providers
begin

text \<open>
  The whole of \<^verbatim>\<open>main.ts\<close> with the calls it makes of the libraries, log lines among them. The
  lemmas show that without the calls it is the start of Lifecycle, in which order a start
  that gets through makes its calls, and that neither the admin token nor the address of the
  chain endpoint has any influence on what is called and logged, the making of the chain
  client apart.
\<close>

section \<open>The start with its calls\<close>

record boot_state =
  bs_schema :: sql_schema
  bs_calls :: "host_call list"

text \<open>
  \<open>bh_main\<close> and \<open>bh_server\<close> are the directories of the running files, and \<open>bh_address\<close> is the
  address the server says it listens on.
\<close>

record boot_host =
  bh_is_url :: "string \<Rightarrow> bool"
  bh_issues :: "(string \<rightharpoonup> string) \<Rightarrow> zod_error"
  bh_calls :: host
  bh_files :: "string list \<rightharpoonup> js_error + sql_stmt list"
  bh_main :: "string list"
  bh_server :: "string list"
  bh_present :: "string list \<Rightarrow> bool"
  bh_address :: string

type_synonym 'a booting = "(boot_state, js_error, 'a) io"

definition on_calls :: "'a traced \<Rightarrow> 'a booting" where
  "on_calls m = (\<lambda>s. case m (bs_calls s) of (r, cs) \<Rightarrow> (r, s\<lparr>bs_calls := cs\<rparr>))"

definition on_schema :: "(sql_schema, js_error, 'a) io \<Rightarrow> 'a booting" where
  "on_schema m = (\<lambda>s. case m (bs_schema s) of (r, sch) \<Rightarrow> (r, s\<lparr>bs_schema := sch\<rparr>))"

text \<open>Writing a line does not throw.\<close>

definition log_calls :: "host_call list \<Rightarrow> unit booting" where
  "log_calls lines = on_calls (\<lambda>cs. (Inr (), cs @ lines))"

definition starting_line :: "Env \<Rightarrow> host_call" where
  "starting_line env =
     logger_info ''starting livepeer-gateway-console''
       (Some (JObj [(''listen'', JStr (LISTEN_ADDR env)), (''chainId'', JNum (CHAIN_ID env)),
          (''statePath'', JStr (STATE_PATH env)), (''resolverSocketPath'', JStr (RESOLVER_SOCKET_PATH env)),
          (''senderSocketPath'', JStr (SENDER_SOCKET_PATH env))]))"

definition createResolverClient :: "host \<Rightarrow> string \<Rightarrow> unit traced" where
  "createResolverClient ho socketPath = host_call ho (NewGrpcClient (''unix:'' @ socketPath))"

definition createPayerDaemonClient :: "host \<Rightarrow> string \<Rightarrow> unit traced" where
  "createPayerDaemonClient ho socketPath = host_call ho (NewGrpcClient (''unix:'' @ socketPath))"

definition createChainReader :: "host \<Rightarrow> string \<Rightarrow> unit traced" where
  "createChainReader ho rpcUrl = host_call ho (NewChainClient rpcUrl)"

text \<open>\<^verbatim>\<open>main\<close> from the environment to the parts it makes.\<close>

definition main_parts :: "boot_host \<Rightarrow> Env \<Rightarrow> ListenConfig \<Rightarrow> boot booting" where
  "main_parts h env listen =
     io_bind (log_calls [starting_line env]) (\<lambda>_.
     io_bind (on_calls (openSqlite (bh_calls h) \<lparr>os_path = STATE_PATH env, os_readonly = None\<rparr>)) (\<lambda>_.
     io_bind (on_schema (applyBootstrapMigrationIfNeeded (bh_files h) (bh_main h))) (\<lambda>_.
     io_bind (on_calls (createResolverClient (bh_calls h) (RESOLVER_SOCKET_PATH env))) (\<lambda>_.
     io_bind (on_calls (createPayerDaemonClient (bh_calls h) (SENDER_SOCKET_PATH env))) (\<lambda>_.
     io_bind (on_calls (createChainReader (bh_calls h) (CHAIN_RPC env))) (\<lambda>_.
     io_bind (on_calls (createServer (bh_calls h) (bh_server h) (bh_present h) None)) (\<lambda>_.
     io_return \<lparr>bo_listen = listen, bo_server = server_options env, bo_poll = poll_worker_options env\<rparr>)))))))"

definition main_prepare :: "boot_host \<Rightarrow> Env \<Rightarrow> boot booting" where
  "main_prepare h env =
     io_bind (on_calls (host_call (bh_calls h) (NewLogger (createLogger \<lparr>lo_level = LOG_LEVEL env, lo_format = LOG_FORMAT env\<rparr>)))) (\<lambda>_.
     io_bind (io_lift (parseListenAddr (LISTEN_ADDR env))) (main_parts h env))"

text \<open>What \<^verbatim>\<open>start\<close> of the poll worker writes.\<close>

definition poll_start_lines :: "AuditPollWorkerOptions \<Rightarrow> host_call list" where
  "poll_start_lines opts =
     (if ap_intervalMs opts \<le> 0 then [logger_info ''auditPoll disabled (interval=0)'' (Some (JObj []))]
      else [logger_info ''auditPoll started'' (Some (JObj [(''intervalMs'', JNum (ap_intervalMs opts))]))])"

definition listening_line :: "string \<Rightarrow> host_call" where
  "listening_line address = logger_info ''listening'' (Some (JObj [(''address'', JStr address)]))"

definition main_serve :: "boot_host \<Rightarrow> boot \<Rightarrow> unit booting" where
  "main_serve h b =
     io_bind (on_calls (host_calls (bh_calls h) [OnSignal ''SIGTERM'', OnSignal ''SIGINT''])) (\<lambda>_.
     io_bind (on_calls (http_listen (bh_calls h) (lc_host (bo_listen b)) (lc_port (bo_listen b)))) (\<lambda>_.
     log_calls (listening_line (bh_address h) # poll_start_lines (bo_poll b))))"

text \<open>The script: \<^verbatim>\<open>main().catch(\<dots>)\<close>; the value is the code it exits with, if it does.\<close>

definition main_env :: "boot_host \<Rightarrow> js_error + Env \<Rightarrow> int option booting" where
  "main_env h loaded =
     io_catch (io_bind (io_bind (io_lift loaded) (main_prepare h)) (\<lambda>b. io_bind (main_serve h b) (\<lambda>_. io_return None)))
       (\<lambda>err. io_bind (log_calls [ConsoleError ''[gateway-console] fatal startup error'' err]) (\<lambda>_. io_return (Some 1)))"

definition main_run :: "boot_host \<Rightarrow> (string \<rightharpoonup> string) \<Rightarrow> int option booting" where
  "main_run h source = main_env h (loadEnv (bh_is_url h) (bh_issues h) source)"

section \<open>Without the calls it is the start\<close>

definition boot_outside :: "boot_host \<Rightarrow> boot_world" where
  "boot_outside h =
     \<lparr>bw_is_url = bh_is_url h, bw_issues = bh_issues h,
      bw_open = (\<lambda>path. run_calls (bh_calls h) (sqlite_calls \<lparr>os_path = path, os_readonly = None\<rparr>)),
      bw_files = bh_files h, bw_here = bh_main h,
      bw_server = (\<lambda>deps. run_calls (bh_calls h)
        ([NewGrpcClient (''unix:'' @ sd_resolverSocketPath deps), NewGrpcClient (''unix:'' @ sd_senderSocketPath deps)] @
         server_calls (bh_server h) (bh_present h) None))\<rparr>"

text \<open>\<open>m\<close> does to the schema what \<open>n\<close> does, whatever it calls.\<close>

definition calls_erased :: "'a booting \<Rightarrow> (sql_schema, js_error, 'a) io \<Rightarrow> bool" where
  "calls_erased m n \<longleftrightarrow> (\<forall>s. (fst (m s), bs_schema (snd (m s))) = n (bs_schema s))"

named_theorems erased_intros \<open>erasing the calls, step by step\<close>

lemma calls_erased_bind [erased_intros]:
  assumes m: "calls_erased m n" and f: "\<And>a. calls_erased (f a) (g a)"
  shows "calls_erased (io_bind m f) (io_bind n g)"
  unfolding calls_erased_def
proof
  fix s
  obtain r t where t: "m s = (r, t)" by fastforce
  with m have n: "n (bs_schema s) = (r, bs_schema t)" unfolding calls_erased_def by (metis fst_conv snd_conv)
  show "(fst (io_bind m f s), bs_schema (snd (io_bind m f s))) = io_bind n g (bs_schema s)"
  proof (cases r)
    case (Inr a)
    with t n f [of a] show ?thesis unfolding calls_erased_def by (simp add: io_bind_def)
  qed (use t n in \<open>simp add: io_bind_def\<close>)
qed

lemma calls_erased_lift [erased_intros]: "calls_erased (io_lift r) (io_lift r)"
  by (simp add: calls_erased_def)

lemma calls_erased_return [erased_intros]: "calls_erased (io_return a) (io_return a)"
  by (simp add: calls_erased_def)

lemma calls_erased_schema [erased_intros]: "calls_erased (on_schema m) m"
  by (simp add: calls_erased_def on_schema_def split: prod.split)

lemma calls_erased_calls: "calls_erased (on_calls (host_calls ho cs)) (io_lift (run_calls ho cs))"
  by (simp add: calls_erased_def on_calls_def host_calls_apply)

lemma calls_erased_skip:
  assumes "calls_erased m (io_lift (Inr ()))" and "calls_erased f n"
  shows "calls_erased (io_bind m (\<lambda>_. f)) n"
  using calls_erased_bind [OF assms(1), of "\<lambda>_. f" "\<lambda>_. n"] assms(2) by (simp add: io_bind_def)

lemma calls_erased_log: "calls_erased (log_calls ls) (io_lift (Inr ()))"
  by (simp add: calls_erased_def on_calls_def log_calls_def)

lemma on_calls_then:
  "io_bind (on_calls (host_calls ho cs)) (\<lambda>_. io_bind (on_calls (host_calls ho ds)) f) =
   io_bind (on_calls (host_calls ho (cs @ ds))) f"
  by (rule ext)
    (auto simp: io_bind_def on_calls_def host_calls_apply run_calls_def first_failure_append calls_made_append split: option.splits)

lemma run_calls_none: "\<forall>c\<in>set cs. ho c = None \<Longrightarrow> run_calls ho cs = Inr ()"
  by (simp add: run_calls_def calls_made_all [symmetric])

lemma run_calls_skip: "ho c = None \<Longrightarrow> run_calls ho (cs @ c # ds) = run_calls ho (cs @ ds)"
  by (simp add: run_calls_def first_failure_append split: option.split)

lemma main_parts_calls:
  "main_parts h env listen =
     io_bind (log_calls [starting_line env]) (\<lambda>_.
     io_bind (on_calls (host_calls (bh_calls h) (sqlite_calls \<lparr>os_path = STATE_PATH env, os_readonly = None\<rparr>))) (\<lambda>_.
     io_bind (on_schema (applyBootstrapMigrationIfNeeded (bh_files h) (bh_main h))) (\<lambda>_.
     io_bind (on_calls (host_calls (bh_calls h)
       ([NewGrpcClient (''unix:'' @ RESOLVER_SOCKET_PATH env), NewGrpcClient (''unix:'' @ SENDER_SOCKET_PATH env)] @
        NewChainClient (CHAIN_RPC env) # server_calls (bh_server h) (bh_present h) None))) (\<lambda>_.
     io_return \<lparr>bo_listen = listen, bo_server = server_options env, bo_poll = poll_worker_options env\<rparr>))))"
  unfolding main_parts_def openSqlite_def createResolverClient_def createPayerDaemonClient_def createChainReader_def
    createServer_calls host_call_single on_calls_then append.simps ..

lemma main_parts_erased:
  assumes "bh_calls h (NewChainClient (CHAIN_RPC env)) = None"
  shows "calls_erased (main_parts h env listen)
     (io_bind (io_lift (bw_open (boot_outside h) (STATE_PATH env))) (\<lambda>_.
      io_bind (applyBootstrapMigrationIfNeeded (bw_files (boot_outside h)) (bw_here (boot_outside h))) (\<lambda>_.
      io_bind (io_lift (bw_server (boot_outside h) (server_options env))) (\<lambda>_.
      io_return \<lparr>bo_listen = listen, bo_server = server_options env, bo_poll = poll_worker_options env\<rparr>))))"
proof -
  have out: "bw_open (boot_outside h) (STATE_PATH env) =
      run_calls (bh_calls h) (sqlite_calls \<lparr>os_path = STATE_PATH env, os_readonly = None\<rparr>)"
    "bw_files (boot_outside h) = bh_files h" "bw_here (boot_outside h) = bh_main h"
    "bw_server (boot_outside h) (server_options env) = run_calls (bh_calls h)
       ([NewGrpcClient (''unix:'' @ RESOLVER_SOCKET_PATH env), NewGrpcClient (''unix:'' @ SENDER_SOCKET_PATH env)] @
        NewChainClient (CHAIN_RPC env) # server_calls (bh_server h) (bh_present h) None)"
    unfolding run_calls_skip [where ho = "bh_calls h" and c = "NewChainClient (CHAIN_RPC env)", OF assms]
    by (simp_all add: boot_outside_def server_options_def)
  show ?thesis unfolding main_parts_calls out
    by (intro calls_erased_skip [OF calls_erased_log] erased_intros calls_erased_calls)
qed

lemma startup_then:
  "startup w source =
     io_bind (io_lift (loadEnv (bw_is_url w) (bw_issues w) source)) (\<lambda>env.
     io_bind (io_lift (parseListenAddr (LISTEN_ADDR env))) (\<lambda>listen.
     io_bind (io_lift (bw_open w (STATE_PATH env))) (\<lambda>_.
     io_bind (applyBootstrapMigrationIfNeeded (bw_files w) (bw_here w)) (\<lambda>_.
     io_bind (io_lift (bw_server w (server_options env))) (\<lambda>_.
     io_return \<lparr>bo_listen = listen, bo_server = server_options env, bo_poll = poll_worker_options env\<rparr>)))))"
  by (rule startup_def)


section \<open>The order of the calls\<close>

text \<open>\<open>m\<close> makes a front part of the calls \<open>cs\<close>, all of them where it returns.\<close>

definition emits :: "'a booting \<Rightarrow> host_call list \<Rightarrow> bool" where
  "emits m cs \<longleftrightarrow> (\<forall>s. \<exists>made rest. bs_calls (snd (m s)) = bs_calls s @ made \<and> cs = made @ rest \<and>
     ((\<exists>a. fst (m s) = Inr a) \<longrightarrow> rest = []))"

named_theorems emits_intros \<open>what is called, step by step\<close>

lemma emitsE:
  assumes "emits m cs"
  obtains made rest where "bs_calls (snd (m s)) = bs_calls s @ made" "cs = made @ rest" "\<And>a. fst (m s) = Inr a \<Longrightarrow> rest = []"
  using assms unfolding emits_def by blast

lemma emits_then:
  assumes m: "emits m cs" and f: "\<And>a s t. m s = (Inr a, t) \<Longrightarrow> emits (f a) ds"
  shows "emits (io_bind m f) (cs @ ds)"
  unfolding emits_def
proof
  fix s
  obtain r t where t: "m s = (r, t)" by fastforce
  obtain made rest where made: "bs_calls t = bs_calls s @ made" "cs = made @ rest" "\<And>a. r = Inr a \<Longrightarrow> rest = []"
    using emitsE [OF m, of s] t by auto
  show "\<exists>made rest. bs_calls (snd (io_bind m f s)) = bs_calls s @ made \<and> cs @ ds = made @ rest \<and>
     ((\<exists>a. fst (io_bind m f s) = Inr a) \<longrightarrow> rest = [])"
  proof (cases r)
    case (Inl e)
    with t made(1,2) show ?thesis by (auto simp: io_bind_def)
  next
    case (Inr a)
    with t f have "emits (f a) ds" by blast
    then obtain made' rest' where "bs_calls (snd (f a t)) = bs_calls t @ made'" "ds = made' @ rest'"
      "\<And>b. fst (f a t) = Inr b \<Longrightarrow> rest' = []"
      by (rule emitsE [where s = t]) blast
    with t made Inr show ?thesis by (intro exI [of _ "made @ made'"] exI [of _ rest']) (auto simp: io_bind_def)
  qed
qed

lemma emits_bind [emits_intros]: "emits m cs \<Longrightarrow> (\<And>a. emits (f a) ds) \<Longrightarrow> emits (io_bind m f) (cs @ ds)"
  by (rule emits_then)

lemma emits_calls [emits_intros]: "emits (on_calls (host_calls ho cs)) cs"
proof -
  have "\<exists>rest. cs = calls_made ho cs @ rest \<and> (first_failure ho cs = None \<longrightarrow> rest = [])"
    by (induction cs) (auto split: option.split)
  then show ?thesis
    unfolding emits_def on_calls_def by (auto simp: host_calls_apply run_calls_def split: option.splits)
qed

lemma emits_log [emits_intros]: "emits (log_calls ls) ls"
  by (simp add: emits_def on_calls_def log_calls_def)

lemma emits_schema [emits_intros]: "emits (on_schema m) []"
  by (simp add: emits_def on_schema_def split: prod.split)

lemma emits_lift [emits_intros]: "emits (io_lift r) []"
  by (simp add: emits_def)

lemma emits_return [emits_intros]: "emits (io_return a) []"
  by (simp add: emits_def)

definition parts_calls :: "boot_host \<Rightarrow> Env \<Rightarrow> host_call list" where
  "parts_calls h env =
     [starting_line env] @ sqlite_calls \<lparr>os_path = STATE_PATH env, os_readonly = None\<rparr> @
     [NewGrpcClient (''unix:'' @ RESOLVER_SOCKET_PATH env), NewGrpcClient (''unix:'' @ SENDER_SOCKET_PATH env),
      NewChainClient (CHAIN_RPC env)] @ server_calls (bh_server h) (bh_present h) None"

definition serve_calls :: "boot_host \<Rightarrow> Env \<Rightarrow> ListenConfig \<Rightarrow> host_call list" where
  "serve_calls h env listen =
     [OnSignal ''SIGTERM'', OnSignal ''SIGINT'', Listen (lc_host listen) (lc_port listen), listening_line (bh_address h)] @
     poll_start_lines (poll_worker_options env)"

definition logger_calls :: "Env \<Rightarrow> host_call list" where
  "logger_calls env = [NewLogger (createLogger \<lparr>lo_level = LOG_LEVEL env, lo_format = LOG_FORMAT env\<rparr>)]"

lemma emits_parts: "emits (main_parts h env listen) (parts_calls h env)"
proof -
  have "emits (main_parts h env listen) ([starting_line env] @ sqlite_calls \<lparr>os_path = STATE_PATH env, os_readonly = None\<rparr> @
     [] @ ([NewGrpcClient (''unix:'' @ RESOLVER_SOCKET_PATH env), NewGrpcClient (''unix:'' @ SENDER_SOCKET_PATH env)] @
        NewChainClient (CHAIN_RPC env) # server_calls (bh_server h) (bh_present h) None) @ [])"
    unfolding main_parts_calls by (intro emits_intros)
  then show ?thesis by (simp add: parts_calls_def)
qed

lemma emits_serve:
  assumes "bo_listen b = listen" and "bo_poll b = poll_worker_options env"
  shows "emits (main_serve h b) (serve_calls h env listen)"
proof -
  have "emits (main_serve h b) ([OnSignal ''SIGTERM'', OnSignal ''SIGINT''] @ [Listen (lc_host (bo_listen b)) (lc_port (bo_listen b))] @
      (listening_line (bh_address h) # poll_start_lines (bo_poll b)))"
    unfolding main_serve_def http_listen_def host_call_single by (intro emits_intros)
  with assms show ?thesis by (simp add: serve_calls_def)
qed

text \<open>What \<open>main_parts\<close> returns holds the address it was given and the options of the environment.\<close>

lemma main_parts_value:
  "main_parts h env listen s = (Inr b, s') \<Longrightarrow> bo_listen b = listen \<and> bo_poll b = poll_worker_options env"
  unfolding main_parts_calls by (auto simp: io_bind_Inr)

text \<open>C30. A start makes its calls in one order: the logger, the starting line, the directory and the file of
  the database with its three pragmas, the daemon clients and the chain client, the server with
  the gate before the routes of the API, the signal handlers, and only then it listens. One that
  is up has made all of them; one that fails has made a front part of them, ends with one fatal
  line, and exits with code 1.\<close>

theorem start_in_order:
  "case main_env h (Inr env) s of (r, s') \<Rightarrow>
     (r = Inr None \<and> (\<exists>listen. parseListenAddr (LISTEN_ADDR env) = Inr listen \<and>
        bs_calls s' = bs_calls s @ logger_calls env @ parts_calls h env @ serve_calls h env listen)) \<or>
     (r = Inr (Some 1) \<and> (\<exists>listen made rest err. logger_calls env @ parts_calls h env @ serve_calls h env listen = made @ rest \<and>
        bs_calls s' = bs_calls s @ made @ [ConsoleError ''[gateway-console] fatal startup error'' err]))"
proof -
  let ?log = "on_calls (host_calls (bh_calls h) (logger_calls env)) :: unit booting"
  have log: "emits ?log (logger_calls env)" by (rule emits_calls)
  have prep: "main_prepare h env = io_bind ?log (\<lambda>_. io_bind (io_lift (parseListenAddr (LISTEN_ADDR env))) (main_parts h env))"
    by (simp only: main_prepare_def logger_calls_def host_call_single)
  let ?body = "io_bind (main_prepare h env) (\<lambda>b. io_bind (main_serve h b) (\<lambda>_. io_return None)) :: int option booting"
  obtain r t where body: "?body s = (r, t)" by fastforce
  have main: "main_env h (Inr env) s = (case r of Inl err \<Rightarrow> (Inr (Some 1),
      t\<lparr>bs_calls := bs_calls t @ [ConsoleError ''[gateway-console] fatal startup error'' err]\<rparr>) | Inr c \<Rightarrow> (Inr c, t))"
    using body by (cases r) (simp_all add: main_env_def io_bind_def io_catch_def log_calls_def on_calls_def)
  have "\<exists>listen made rest. bs_calls t = bs_calls s @ made \<and>
      logger_calls env @ parts_calls h env @ serve_calls h env listen = made @ rest \<and>
      (\<forall>c. r = Inr c \<longrightarrow> c = None \<and> parseListenAddr (LISTEN_ADDR env) = Inr listen \<and> rest = [])"
  proof (cases "parseListenAddr (LISTEN_ADDR env)")
    case (Inl err)
    have thrown: "?body = io_bind ?log (\<lambda>_. io_throw err)"
      by (rule ext) (simp add: prep Inl io_bind_def io_throw_def split: prod.split sum.split)
    have "emits ?body (logger_calls env @ [])"
      unfolding thrown by (rule emits_bind [OF log]) (simp add: emits_def)
    then obtain made rest where "bs_calls t = bs_calls s @ made" "logger_calls env = made @ rest"
      by (rule emitsE [where s = s]) (use body in simp)
    moreover have "r \<noteq> Inr c" for c using body by (auto simp: thrown io_bind_Inr)
    ultimately show ?thesis by (metis append.assoc)
  next
    case (Inr listen)
    have kept: "bo_listen b = listen \<and> bo_poll b = poll_worker_options env" if "main_prepare h env q = (Inr b, q')" for b q q'
      using that main_parts_value unfolding prep Inr by (fastforce simp: io_bind_Inr)
    have "emits (main_prepare h env) (logger_calls env @ [] @ parts_calls h env)"
      unfolding prep Inr using log by (intro emits_intros emits_then [of "io_lift (Inr listen)"])
        (auto intro: emits_parts)
    then have "emits ?body ((logger_calls env @ [] @ parts_calls h env) @ serve_calls h env listen @ [])"
    proof (rule emits_then)
      fix b q q' assume "main_prepare h env q = (Inr b, q')"
      from kept [OF this] show "emits (io_bind (main_serve h b) (\<lambda>_. io_return None) :: int option booting) (serve_calls h env listen @ [])"
        by (intro emits_intros emits_serve) simp_all
    qed
    then obtain made rest where "bs_calls t = bs_calls s @ made"
      "logger_calls env @ parts_calls h env @ serve_calls h env listen = made @ rest" "\<And>c. r = Inr c \<Longrightarrow> rest = []"
      by (rule emitsE [where s = s]) (use body in simp)
    moreover have "c = None" if "r = Inr c" for c using body that by (auto simp: io_bind_Inr)
    ultimately show ?thesis using Inr by blast
  qed
  then obtain listen made rest where t: "bs_calls t = bs_calls s @ made"
    and calls: "logger_calls env @ parts_calls h env @ serve_calls h env listen = made @ rest"
    and up: "\<And>c. r = Inr c \<Longrightarrow> c = None \<and> parseListenAddr (LISTEN_ADDR env) = Inr listen \<and> rest = []"
    by blast
  show ?thesis
  proof (cases r)
    case (Inl err)
    then have "main_env h (Inr env) s =
        (Inr (Some 1), t\<lparr>bs_calls := bs_calls s @ made @ [ConsoleError ''[gateway-console] fatal startup error'' err]\<rparr>)"
      using main t by simp
    with calls show ?thesis by auto
  next
    case (Inr c)
    with main up t calls show ?thesis by simp
  qed
qed

section \<open>What the calls tell of the environment\<close>

text \<open>A call with the address of the chain endpoint left out.\<close>

fun without_url :: "host_call \<Rightarrow> host_call" where
  "without_url (NewChainClient url) = NewChainClient []"
| "without_url c = c"

definition looks_alike :: "boot_state \<Rightarrow> boot_state \<Rightarrow> bool" where
  "looks_alike s s' \<longleftrightarrow> bs_schema s = bs_schema s' \<and> map without_url (bs_calls s) = map without_url (bs_calls s')"

text \<open>From states that look alike, \<open>m\<close> and \<open>n\<close> end alike and in states that look alike.\<close>

definition run_alike :: "'a booting \<Rightarrow> 'a booting \<Rightarrow> bool" where
  "run_alike m n \<longleftrightarrow> (\<forall>s s'. looks_alike s s' \<longrightarrow> fst (m s) = fst (n s') \<and> looks_alike (snd (m s)) (snd (n s')))"

named_theorems alike_intros \<open>runs that look alike, step by step\<close>

lemma run_alikeE:
  assumes "run_alike m n" and "looks_alike s s'"
  obtains r t t' where "m s = (r, t)" "n s' = (r, t')" "looks_alike t t'"
  using assms unfolding run_alike_def by (metis prod.collapse)

lemma run_alikeI:
  assumes "\<And>s s'. looks_alike s s' \<Longrightarrow> \<exists>r t t'. m s = (r, t) \<and> n s' = (r, t') \<and> looks_alike t t'"
  shows "run_alike m n"
  unfolding run_alike_def using assms by (metis fst_conv snd_conv)

lemma alike_bind [alike_intros]:
  assumes "run_alike m n" and f: "\<And>a. run_alike (f a) (g a)"
  shows "run_alike (io_bind m f) (io_bind n g)"
proof (rule run_alikeI)
  fix s s' assume "looks_alike s s'"
  with assms(1) obtain r t t' where rt: "m s = (r, t)" "n s' = (r, t')" "looks_alike t t'" by (rule run_alikeE)
  show "\<exists>r t t'. io_bind m f s = (r, t) \<and> io_bind n g s' = (r, t') \<and> looks_alike t t'"
  proof (cases r)
    case (Inr a)
    from f [of a] rt(3) obtain q u u' where "f a t = (q, u)" "g a t' = (q, u')" "looks_alike u u'" by (rule run_alikeE)
    with rt Inr show ?thesis by (simp add: io_bind_def)
  qed (use rt in \<open>simp add: io_bind_def\<close>)
qed

lemma alike_catch [alike_intros]:
  assumes "run_alike m n" and f: "\<And>e. run_alike (f e) (g e)"
  shows "run_alike (io_catch m f) (io_catch n g)"
proof (rule run_alikeI)
  fix s s' assume "looks_alike s s'"
  with assms(1) obtain r t t' where rt: "m s = (r, t)" "n s' = (r, t')" "looks_alike t t'" by (rule run_alikeE)
  show "\<exists>r t t'. io_catch m f s = (r, t) \<and> io_catch n g s' = (r, t') \<and> looks_alike t t'"
  proof (cases r)
    case (Inl e)
    from f [of e] rt(3) obtain q u u' where "f e t = (q, u)" "g e t' = (q, u')" "looks_alike u u'" by (rule run_alikeE)
    with rt Inl show ?thesis by (simp add: io_catch_def)
  qed (use rt in \<open>simp add: io_catch_def\<close>)
qed

lemma alike_lift [alike_intros]: "run_alike (io_lift r) (io_lift r)"
  by (simp add: run_alike_def)

lemma alike_return [alike_intros]: "run_alike (io_return a) (io_return a)"
  by (simp add: run_alike_def)

lemma alike_schema [alike_intros]: "run_alike (on_schema m) (on_schema m)"
  by (simp add: run_alike_def on_schema_def looks_alike_def split: prod.split)

lemma alike_log [alike_intros]: "run_alike (log_calls ls) (log_calls ls)"
  by (simp add: run_alike_def log_calls_def on_calls_def looks_alike_def)

lemma alike_calls:
  assumes "run_calls ho cs = run_calls ho ds" and "map without_url (calls_made ho cs) = map without_url (calls_made ho ds)"
  shows "run_alike (on_calls (host_calls ho cs)) (on_calls (host_calls ho ds))"
  using assms by (simp add: run_alike_def on_calls_def host_calls_apply looks_alike_def)

lemma alike_same_calls [alike_intros]: "run_alike (on_calls (host_calls ho cs)) (on_calls (host_calls ho cs))"
  by (rule alike_calls) (rule refl)+

lemma alike_refl: "looks_alike s s"
  by (simp add: looks_alike_def)

text \<open>The two environments differ at most in the token and the address of the endpoint.\<close>

lemma alike_parts:
  assumes "bh_calls h (NewChainClient (CHAIN_RPC env)) = bh_calls h (NewChainClient url)"
    and f: "\<And>b. run_alike (f \<lparr>bo_listen = listen, bo_server = server_options env, bo_poll = poll_worker_options env\<rparr>)
      (g \<lparr>bo_listen = listen, bo_server = server_options (env\<lparr>ADMIN_TOKEN := tok, CHAIN_RPC := url\<rparr>), bo_poll = poll_worker_options env\<rparr>)"
  shows "run_alike (io_bind (main_parts h env listen) f)
    (io_bind (main_parts h (env\<lparr>ADMIN_TOKEN := tok, CHAIN_RPC := url\<rparr>) listen) g)"
proof -
  let ?e = "env\<lparr>ADMIN_TOKEN := tok, CHAIN_RPC := url\<rparr>"
  have same: "starting_line ?e = starting_line env" "poll_worker_options ?e = poll_worker_options env"
    "STATE_PATH ?e = STATE_PATH env" "RESOLVER_SOCKET_PATH ?e = RESOLVER_SOCKET_PATH env"
    "SENDER_SOCKET_PATH ?e = SENDER_SOCKET_PATH env" "CHAIN_RPC ?e = url"
    by (simp_all add: starting_line_def poll_worker_options_def)
  have chain: "run_alike (on_calls (host_calls (bh_calls h) (as @ NewChainClient (CHAIN_RPC env) # bs)))
      (on_calls (host_calls (bh_calls h) (as @ NewChainClient url # bs)))" for as bs
    by (rule alike_calls) (simp_all add: run_calls_def first_failure_append calls_made_append assms(1) split: option.split)
  show ?thesis unfolding main_parts_calls same io_bind_assoc io_bind_return
    by (intro alike_intros chain f)
qed

text \<open>C31. The token and the address of the chain endpoint, which holds the key of its provider, stay out of
  the log: two environments that differ in nothing else, and whose addresses the chain
  library treats alike, start with the same exit, the same schema and the same calls with the same
  log lines, apart from the one call that hands the chain library its address.\<close>

theorem start_tells_no_secrets:
  assumes "bh_calls h (NewChainClient (CHAIN_RPC env)) = bh_calls h (NewChainClient url)"
  shows "case (main_env h (Inr env) s, main_env h (Inr (env\<lparr>ADMIN_TOKEN := tok, CHAIN_RPC := url\<rparr>)) s) of
    ((r, t), (r', t')) \<Rightarrow> r = r' \<and> bs_schema t = bs_schema t' \<and> map without_url (bs_calls t) = map without_url (bs_calls t')"
proof -
  let ?e = "env\<lparr>ADMIN_TOKEN := tok, CHAIN_RPC := url\<rparr>"
  have logger: "run_alike (on_calls (host_call (bh_calls h) c)) (on_calls (host_call (bh_calls h) c))" for c
    unfolding host_call_single by (rule alike_intros)
  have serve: "run_alike (main_serve h \<lparr>bo_listen = listen, bo_server = d, bo_poll = p\<rparr>)
      (main_serve h \<lparr>bo_listen = listen, bo_server = d', bo_poll = p\<rparr>)" for listen d d' p
    by (simp only: main_serve_def http_listen_def host_call_single boot.simps) (intro alike_intros)
  have same: "LOG_LEVEL ?e = LOG_LEVEL env" "LOG_FORMAT ?e = LOG_FORMAT env" "LISTEN_ADDR ?e = LISTEN_ADDR env" by simp_all
  have given: "io_bind (io_lift (Inr e)) f = f e" for e :: Env and f :: "Env \<Rightarrow> boot booting"
    by (simp add: io_bind_def)
  have parts: "run_alike (io_bind (main_parts h env listen) (\<lambda>b. io_bind (main_serve h b) (\<lambda>_. io_return None)))
      (io_bind (main_parts h ?e listen) (\<lambda>b. io_bind (main_serve h b) (\<lambda>_. io_return (None :: int option))))" for listen
    by (rule alike_parts [OF assms], rule alike_bind [OF serve alike_return])
  have "run_alike (main_env h (Inr env)) (main_env h (Inr ?e))"
    unfolding main_env_def given main_prepare_def io_bind_assoc same
    by (intro alike_catch alike_bind logger alike_lift alike_log alike_return parts)
  then obtain r t t' where "main_env h (Inr env) s = (r, t)" and e: "main_env h (Inr ?e) s = (r, t')" and "looks_alike t t'"
    using alike_refl by (rule run_alikeE)
  then show ?thesis unfolding e by (simp add: looks_alike_def)
qed

section \<open>A host\<close>

text \<open>A host where every call goes through, on the script and the paths of the image.\<close>

definition calm_host :: boot_host where
  "calm_host =
     \<lparr>bh_is_url = (\<lambda>_. True), bh_issues = (\<lambda>_. \<lparr>ze_issues = [], ze_message = []\<rparr>), bh_calls = (\<lambda>_. None),
      bh_files = app_files, bh_main = app_here, bh_server = [''app'', ''dist'', ''runtime'', ''http''],
      bh_present = (\<lambda>p. p = [''app'', ''admin-ui'', ''admin'', ''dist'']), bh_address = ''http://127.0.0.1:8080''\<rparr>"

definition calm_env :: Env where
  "calm_env =
     \<lparr>LISTEN_ADDR = ''127.0.0.1:8080'', ADMIN_TOKEN = replicate 32 CHR ''t'', CHAIN_RPC = ''https://arb1.example/k'',
      CHAIN_ID = 42161, CONTROLLER_ADDRESS = ''0xD8E8328501E9645d16Cf49539efC04f734606ee4'',
      SERVICE_REGISTRY_ADDRESS = None, STATE_PATH = ''/var/lib/livepeer/state.db'',
      RESOLVER_SOCKET_PATH = ''/run/r.sock'', SENDER_SOCKET_PATH = ''/run/s.sock'',
      CHAIN_READ_TTL_SEC = 30, RESOLVER_AUDIT_POLL_INTERVAL_SEC = 30, SENDER_ADDRESS = None,
      MIN_BALANCE_WEI = None, LOG_LEVEL = Info, LOG_FORMAT = Json\<rparr>"

lemma dirname_samples:
  "dirname ''/var/lib/livepeer/state.db'' = ''/var/lib/livepeer''" "dirname ''state.db'' = ''.''" "dirname ''/state.db'' = ''/''"
  "dirname ''a//b/'' = ''a/''" "dirname ''//a'' = ''//''" "dirname [] = ''.''"
  by code_simp+

text \<open>The mount finds the files where the image has them.\<close>

lemma spa_in_image:
  "spa_call (bh_server calm_host) (bh_present calm_host) = RegisterStatic ''/app/admin-ui/admin/dist'' ''/admin/console/'' False"
  by (simp add: spa_call_def calm_host_def spaRoot_def path_text_def)

definition calm_source :: "string \<rightharpoonup> string" where
  "calm_source = [''ADMIN_TOKEN'' \<mapsto> replicate 32 CHR ''t'', ''CHAIN_RPC'' \<mapsto> ''https://arb1.example/k'']"


theorem start_tells_no_secrets_witness:
  "map without_url (bs_calls (snd (main_env calm_host (Inr calm_env) \<lparr>bs_schema = [], bs_calls = []\<rparr>))) =
   map without_url (bs_calls (snd (main_env calm_host
     (Inr (calm_env\<lparr>ADMIN_TOKEN := replicate 40 CHR ''u'', CHAIN_RPC := ''https://arb1.example/other''\<rparr>)) \<lparr>bs_schema = [], bs_calls = []\<rparr>)))"
proof -
  have "bh_calls calm_host (NewChainClient (CHAIN_RPC calm_env)) = bh_calls calm_host (NewChainClient ''https://arb1.example/other'')"
    by (simp add: calm_host_def)
  from start_tells_no_secrets [OF this, of "\<lparr>bs_schema = [], bs_calls = []\<rparr>" "replicate 40 CHR ''u''"]
  show ?thesis by (simp only: split_beta prod.case fst_conv snd_conv)
qed

end
