(* ===== verification/Logged.thy ===== *)
theory Logged
  imports Boot
begin

text \<open>
  The log of the running process: the lines of the shutdown, of the poll worker and of the
  end of the start (\<^verbatim>\<open>main.ts\<close>, \<^verbatim>\<open>runtime/workers/auditPoll.ts\<close>), written along with the steps of
  Lifecycle. The lemmas show that the lines can be written along every run and change
  nothing of it, and that who reads the log knows whether the process listens, is
  shutting down and polls, and how it has exited.
\<close>

section \<open>The lines\<close>

definition poll_start_log :: "AuditPollWorkerOptions \<Rightarrow> 'w worker \<Rightarrow> host_call list" where
  "poll_start_log opts w = (if wk_timer w then [] else poll_start_lines opts)"

definition poll_stop_log :: "'w worker \<Rightarrow> host_call list" where
  "poll_stop_log w = (if \<not> wk_timer w then [] else [logger_info ''auditPoll stopped'' (Some (JObj []))])"

definition tick_log :: "'w env \<Rightarrow> js_error + ResolverAuditEntry list \<Rightarrow> 'w worker \<Rightarrow> host_call list" where
  "tick_log env answer w =
     (case fst (poll_finish env answer w) of
        Inr _ \<Rightarrow> []
      | Inl err \<Rightarrow> [logger_warn ''auditPoll tick failed''
          (Some (JObj [(''error'', JStr (errorMessage err)),
             (''watermark'', case wk_watermarkMs w of None \<Rightarrow> JNull | Some t \<Rightarrow> JNum t)]))])"

definition shutdown_log :: "string \<Rightarrow> 'w proc \<Rightarrow> host_call list" where
  "shutdown_log signal p =
     (if pr_shuttingDown p then []
      else logger_info ''shutdown signal received'' (Some (JObj [(''signal'', JStr signal)])) # poll_stop_log (pr_worker p))"

definition shutdown_rest_log :: "js_error option \<Rightarrow> js_error option \<Rightarrow> host_call list" where
  "shutdown_rest_log http sqlite =
     (let failed = (\<lambda>err. [logger_error ''shutdown error'' (Some (JObj [(''error'', JStr (errorMessage err))]))])
      in case http of
           Some err \<Rightarrow> failed err
         | None \<Rightarrow> (case sqlite of Some err \<Rightarrow> failed err | None \<Rightarrow> [logger_info ''shutdown complete'' None]))"

text \<open>The dash of the message is written as its three bytes in UTF-8.\<close>

definition hard_kill_log :: "host_call list" where
  "hard_kill_log =
     [logger_error (''graceful shutdown exceeded 30s '' @ [CHR 0xE2, CHR 0x80, CHR 0x94] @ '' force exit'') None]"

definition listened_log :: "string \<Rightarrow> AuditPollWorkerOptions \<Rightarrow> js_error option \<Rightarrow> 'w proc \<Rightarrow> host_call list" where
  "listened_log address opts r p =
     (case r of
        Some err \<Rightarrow> [ConsoleError ''[gateway-console] fatal startup error'' err]
      | None \<Rightarrow> listening_line address # poll_start_log opts (pr_worker p))"

text \<open>The steps of the process, each with the lines it writes.\<close>

inductive logged_step ::
    "'w env \<Rightarrow> AuditPollWorkerOptions \<Rightarrow> ServerDeps \<Rightarrow> router \<Rightarrow> 'w proc \<times> host_call list \<Rightarrow> 'w proc \<times> host_call list \<Rightarrow> bool"
  for env opts deps router where
  signal: "pr_exit p = None \<Longrightarrow> logged_step env opts deps router (p, ls) (shutdown p, ls @ shutdown_log signal p)"
| closed: "pr_exit p = None \<Longrightarrow> pr_closing p \<Longrightarrow>
    logged_step env opts deps router (p, ls) (shutdown_rest http sqlite p, ls @ shutdown_rest_log http sqlite)"
| kill: "pr_exit p = None \<Longrightarrow> pr_hardKill p = Some d \<Longrightarrow> d \<le> pr_now p \<Longrightarrow>
    logged_step env opts deps router (p, ls) (hard_kill p, ls @ hard_kill_log)"
| bound: "pr_exit p = None \<Longrightarrow> \<not> pr_listening p \<Longrightarrow>
    logged_step env opts deps router (p, ls) (listened opts r p, ls @ listened_log address opts r p)"
| tick_begins: "pr_exit p = None \<Longrightarrow> wk_timer (pr_worker p) \<Longrightarrow> \<not> wk_inFlight (pr_worker p) \<Longrightarrow>
    logged_step env opts deps router (p, ls) (p\<lparr>pr_worker := poll_begin (pr_worker p)\<rparr>, ls)"
| tick_ends: "pr_exit p = None \<Longrightarrow> wk_request (pr_worker p) \<noteq> None \<Longrightarrow>
    logged_step env opts deps router (p, ls)
      (p\<lparr>pr_worker := snd (poll_finish env answer (pr_worker p))\<rparr>, ls @ tick_log env answer (pr_worker p))"
| request: "pr_exit p = None \<Longrightarrow> pr_httpOpen p \<Longrightarrow> serve env deps router fallback zod issues req (wk_sys (pr_worker p)) = (rep, s) \<Longrightarrow>
    logged_step env opts deps router (p, ls) (p\<lparr>pr_worker := (pr_worker p)\<lparr>wk_sys := s\<rparr>\<rparr>, ls)"
| clock: "pr_exit p = None \<Longrightarrow> pr_now p \<le> t \<Longrightarrow> logged_step env opts deps router (p, ls) (p\<lparr>pr_now := t\<rparr>, ls)"

inductive_cases logged_stepE: "logged_step env opts deps router a b"

section \<open>The lines change nothing\<close>

lemma logged_step_erased: "logged_step env opts deps router a b \<Longrightarrow> proc_step env opts deps router (fst a) (fst b)"
  by (erule logged_step.cases) (simp_all add: proc_step.intros)

lemma logged_step_written: "proc_step env opts deps router p q \<Longrightarrow> \<exists>ls'. logged_step env opts deps router (p, ls) (q, ls')"
  by (erule proc_step.cases) (auto intro: logged_step.intros)

lemma logged_run_erased:
  "(logged_step env opts deps router)\<^sup>*\<^sup>* a b \<Longrightarrow> (proc_step env opts deps router)\<^sup>*\<^sup>* (fst a) (fst b)"
  by (induction rule: rtranclp_induct) (auto dest: logged_step_erased)

lemma logged_run_written:
  "(proc_step env opts deps router)\<^sup>*\<^sup>* p q \<Longrightarrow> \<exists>ls'. (logged_step env opts deps router)\<^sup>*\<^sup>* (p, ls) (q, ls')"
proof (induction rule: rtranclp_induct)
  case (step q r)
  then obtain ls' where "(logged_step env opts deps router)\<^sup>*\<^sup>* (p, ls) (q, ls')" by blast
  with logged_step_written [OF step.hyps(2), of ls'] show ?case by (meson rtranclp.rtrancl_into_rtrancl)
qed blast

section \<open>Reading the log\<close>

record log_view =
  lv_up :: bool
  lv_down :: bool
  lv_polling :: bool
  lv_exit :: "int option"

definition read_message :: "log_level \<Rightarrow> string \<Rightarrow> log_view \<Rightarrow> log_view" where
  "read_message level msg v =
     (if level = Error then v\<lparr>lv_exit := Some 1\<rparr>
      else if msg = ''listening'' then v\<lparr>lv_up := True\<rparr>
      else if msg = ''shutdown signal received'' then v\<lparr>lv_down := True\<rparr>
      else if msg = ''auditPoll started'' then v\<lparr>lv_polling := True\<rparr>
      else if msg = ''auditPoll stopped'' then v\<lparr>lv_polling := False\<rparr>
      else if msg = ''shutdown complete'' then v\<lparr>lv_exit := Some 0\<rparr>
      else v)"

fun read_line :: "host_call \<Rightarrow> log_view \<Rightarrow> log_view" where
  "read_line (LogLine l) v = read_message (ll_level l) (ll_msg l) v"
| "read_line (ConsoleError m e) v = v\<lparr>lv_exit := Some 1\<rparr>"
| "read_line _ v = v"

definition read_log :: "host_call list \<Rightarrow> log_view" where
  "read_log ls = fold read_line ls \<lparr>lv_up = False, lv_down = False, lv_polling = False, lv_exit = None\<rparr>"

definition seen :: "'w proc \<Rightarrow> log_view" where
  "seen p = \<lparr>lv_up = pr_listening p, lv_down = pr_shuttingDown p, lv_polling = wk_timer (pr_worker p), lv_exit = pr_exit p\<rparr>"

lemma read_log_append: "read_log (ls @ ls') = fold read_line ls' (read_log ls)"
  by (simp add: read_log_def)

lemma read_line_log: "read_line (log_at level msg ctx) v = read_message level msg v"
  by (simp add: log_at_def)

lemmas log_lines = logger_info_def logger_warn_def logger_error_def read_line_log read_message_def

lemma read_poll_start:
  "\<not> wk_timer w \<Longrightarrow> fold read_line (poll_start_log opts w) v = (if ap_intervalMs opts \<le> 0 then v else v\<lparr>lv_polling := True\<rparr>)"
  by (simp add: poll_start_log_def poll_start_lines_def log_lines)

lemma read_poll_stop: "lv_polling v = wk_timer w \<Longrightarrow> fold read_line (poll_stop_log w) v = v\<lparr>lv_polling := False\<rparr>"
  by (cases v) (simp add: poll_stop_log_def log_lines)

lemma read_tick: "fold read_line (tick_log env answer w) v = v"
  by (simp add: tick_log_def log_lines split: sum.split)

lemma read_listened:
  "fold read_line (listened_log address opts r p) (seen p) = seen (listened opts r p)"
proof (cases r)
  case None
  show ?thesis
  proof (cases "wk_timer (pr_worker p)")
    case True
    then show ?thesis
      by (simp add: None listened_log_def poll_start_log_def listening_line_def log_lines seen_def listened_def poll_start_def)
  next
    case False
    then show ?thesis
      by (simp add: None listened_log_def read_poll_start listening_line_def log_lines seen_def listened_def poll_start_def)
  qed
qed (simp add: listened_log_def seen_def listened_def)

lemma read_shutdown: "fold read_line (shutdown_log signal p) (seen p) = seen (shutdown p)"
  by (simp add: shutdown_log_def seen_def shutdown_def log_lines read_poll_stop poll_stop_def)

lemma read_shutdown_rest: "fold read_line (shutdown_rest_log http sqlite) (seen p) = seen (shutdown_rest http sqlite p)"
  by (simp add: shutdown_rest_log_def seen_def shutdown_rest_def log_lines split: option.split)

lemma read_hard_kill: "fold read_line hard_kill_log (seen p) = seen (hard_kill p)"
  by (simp add: hard_kill_log_def seen_def hard_kill_def log_lines)

lemma seen_kept [simp]:
  "seen (p\<lparr>pr_worker := poll_begin (pr_worker p)\<rparr>) = seen p"
  "seen (p\<lparr>pr_worker := snd (poll_finish env answer (pr_worker p))\<rparr>) = seen p"
  "seen (p\<lparr>pr_worker := (pr_worker p)\<lparr>wk_sys := s\<rparr>\<rparr>) = seen p"
  "seen (p\<lparr>pr_now := t\<rparr>) = seen p"
  by (simp_all add: seen_def)

lemmas read_steps = read_log_append read_shutdown read_shutdown_rest read_hard_kill read_listened read_tick

lemma log_read_step:
  "logged_step env opts deps router a b \<Longrightarrow> read_log (snd a) = seen (fst a) \<Longrightarrow> read_log (snd b) = seen (fst b)"
  by (erule logged_step.cases) (simp_all add: read_steps)


text \<open>A process that is signalled and closes well.\<close>

definition closing_lines :: "host_call list" where
  "closing_lines =
     listened_log ''http://127.0.0.1:8080'' sample_options None (init_proc 0 still_sys) @
     shutdown_log ''SIGTERM'' up_proc @ shutdown_rest_log None None"

lemma closing_run:
  "(logged_step still_env sample_options sample_server plain_router)\<^sup>*\<^sup>* (init_proc 0 still_sys, [])
     (shutdown_rest None None (shutdown up_proc), closing_lines)"
proof -
  let ?step = "logged_step still_env sample_options sample_server plain_router"
  let ?a = "listened_log ''http://127.0.0.1:8080'' sample_options None (init_proc 0 still_sys :: unit proc)"
  have "?step (init_proc 0 still_sys, []) (up_proc, ?a)"
    using logged_step.bound [of "init_proc 0 still_sys" still_env sample_options sample_server plain_router "[]" None "''http://127.0.0.1:8080''"]
    by (simp add: up_proc_def init_proc_def)
  moreover have "?step (up_proc, ?a) (shutdown up_proc, ?a @ shutdown_log ''SIGTERM'' up_proc)"
    by (rule logged_step.signal) (rule up_proc_running(1))
  moreover have "?step (shutdown up_proc, ?a @ shutdown_log ''SIGTERM'' up_proc)
      (shutdown_rest None None (shutdown up_proc), (?a @ shutdown_log ''SIGTERM'' up_proc) @ shutdown_rest_log None None)"
    by (rule logged_step.closed) (use up_proc_running in \<open>simp_all add: shutdown_def\<close>)
  ultimately show ?thesis unfolding closing_lines_def by (auto intro: rtranclp.rtrancl_into_rtrancl)
qed


end
