(* ===== verification/ChainAbi.thy ===== *)
theory ChainAbi
  imports ChainReader
begin

text \<open>
  The contract calls of the chain reader one level down (\<^verbatim>\<open>providers/chain/viem.ts\<close>): the interfaces
  the code declares for the four contracts, and every read as a call of the chain library
  with an address, an interface, a function name and arguments. The library, which encodes the
  call by the interface and decodes the answer by it, is the parameter \<open>chain_client\<close>. The
  lemmas show that every call fits the interface it is made with, and which declared
  results the reader uses.
\<close>

section \<open>Interfaces\<close>

datatype abi_type = TAddress | TUint256 | TBytes32 | TString | TTuple "(string \<times> abi_type) list"

record abi_function =
  af_name :: string
  af_inputs :: "(string \<times> abi_type) list"
  af_outputs :: "(string \<times> abi_type) list"

definition CONTROLLER_ABI :: "abi_function list" where
  "CONTROLLER_ABI =
     [\<lparr>af_name = ''getContract'', af_inputs = [(''_id'', TBytes32)], af_outputs = [([], TAddress)]\<rparr>]"

definition BONDING_MANAGER_ABI :: "abi_function list" where
  "BONDING_MANAGER_ABI =
     [\<lparr>af_name = ''getFirstTranscoderInPool'', af_inputs = [], af_outputs = [([], TAddress)]\<rparr>,
      \<lparr>af_name = ''getNextTranscoderInPool'', af_inputs = [(''_transcoder'', TAddress)], af_outputs = [([], TAddress)]\<rparr>,
      \<lparr>af_name = ''getDelegator'', af_inputs = [(''_delegator'', TAddress)],
       af_outputs = [(''bondedAmount'', TUint256), (''fees'', TUint256), (''delegatedAmount'', TUint256),
         (''delegateAddress'', TAddress), (''delegatedAmountFees'', TUint256), (''startRound'', TUint256),
         (''lastClaimRound'', TUint256), (''nextUnbondingLockId'', TUint256)]\<rparr>]"

definition TICKET_BROKER_ABI :: "abi_function list" where
  "TICKET_BROKER_ABI =
     [\<lparr>af_name = ''getSenderInfo'', af_inputs = [(''_sender'', TAddress)],
       af_outputs =
         [(''sender'', TTuple [(''deposit'', TUint256), (''withdrawRound'', TUint256)]),
          (''reserve'', TTuple [(''fundsRemaining'', TUint256), (''claimedInCurrentRound'', TUint256)])]\<rparr>]"

definition SERVICE_REGISTRY_ABI :: "abi_function list" where
  "SERVICE_REGISTRY_ABI =
     [\<lparr>af_name = ''getServiceURI'', af_inputs = [(''_addr'', TAddress)], af_outputs = [([], TString)]\<rparr>]"

section \<open>Values and calls\<close>

text \<open>A struct has its components under their names.\<close>

datatype abi_value = AAddress string | AUint nat | ABytes32 string | AString string | AStruct "(string \<times> abi_value) list"

fun of_type :: "abi_type \<Rightarrow> abi_value \<Rightarrow> bool" where
  "of_type TAddress (AAddress a) = True"
| "of_type TUint256 (AUint n) = (n < 2 ^ 256)"
| "of_type TBytes32 (ABytes32 b) = True"
| "of_type TString (AString s) = True"
| "of_type (TTuple []) (AStruct []) = True"
| "of_type (TTuple ((k, t) # ts)) (AStruct ((k', v) # vs)) = (k = k' \<and> of_type t v \<and> of_type (TTuple ts) (AStruct vs))"
| "of_type _ _ = False"

text \<open>\<open>cc_read\<close> gives the results of a function in the order they are declared in.\<close>

record 'w chain_client =
  cc_read :: "string \<Rightarrow> abi_function list \<Rightarrow> string \<Rightarrow> abi_value list \<Rightarrow> ('w, abi_value list) call"
  cc_balance :: "string \<Rightarrow> ('w, nat) call"

definition as_address :: "abi_value list \<Rightarrow> string" where
  "as_address vs = (case vs of [AAddress a] \<Rightarrow> a | _ \<Rightarrow> [])"

definition as_string :: "abi_value list \<Rightarrow> string" where
  "as_string vs = (case vs of [AString s] \<Rightarrow> s | _ \<Rightarrow> [])"

definition as_uint :: "abi_value \<Rightarrow> nat" where
  "as_uint v = (case v of AUint n \<Rightarrow> n | _ \<Rightarrow> 0)"

definition struct_get :: "string \<Rightarrow> abi_value \<Rightarrow> nat" where
  "struct_get k v = (case v of AStruct kvs \<Rightarrow> (case map_of kvs k of Some w \<Rightarrow> as_uint w | None \<Rightarrow> 0) | _ \<Rightarrow> 0)"

definition as_delegator :: "abi_value list \<Rightarrow> delegator" where
  "as_delegator vs =
     (case vs of
        [bonded, fees, delegated, AAddress a, delegatedFees, start, claim, lock] \<Rightarrow>
          (as_uint bonded, as_uint fees, as_uint delegated, a, as_uint delegatedFees, as_uint start, as_uint claim, as_uint lock)
      | _ \<Rightarrow> (0, 0, 0, [], 0, 0, 0, 0))"

definition as_sender_info :: "abi_value list \<Rightarrow> (nat \<times> nat) \<times> (nat \<times> nat)" where
  "as_sender_info vs =
     (case vs of
        [senderInfo, reserveInfo] \<Rightarrow>
          ((struct_get ''deposit'' senderInfo, struct_get ''withdrawRound'' senderInfo),
           (struct_get ''fundsRemaining'' reserveInfo, struct_get ''claimedInCurrentRound'' reserveInfo))
      | _ \<Rightarrow> ((0, 0), (0, 0)))"

text \<open>The calls of the reader over the library.\<close>

definition read_as :: "(abi_value list \<Rightarrow> 'a) \<Rightarrow> ('w, abi_value list) call \<Rightarrow> ('w, 'a) call" where
  "read_as f m = io_bind m (\<lambda>vs. io_return (f vs))"

definition over_client :: "'w chain_client \<Rightarrow> 'w env \<Rightarrow> 'w env" where
  "over_client client env = env
     \<lparr>eth_getContract := (\<lambda>controller ident. read_as as_address
        (cc_read client controller CONTROLLER_ABI ''getContract'' [ABytes32 ident])),
      eth_getFirstTranscoderInPool := (\<lambda>bm. read_as as_address
        (cc_read client bm BONDING_MANAGER_ABI ''getFirstTranscoderInPool'' [])),
      eth_getNextTranscoderInPool := (\<lambda>bm addr. read_as as_address
        (cc_read client bm BONDING_MANAGER_ABI ''getNextTranscoderInPool'' [AAddress addr])),
      eth_getDelegator := (\<lambda>bm addr. read_as as_delegator
        (cc_read client bm BONDING_MANAGER_ABI ''getDelegator'' [AAddress addr])),
      eth_getSenderInfo := (\<lambda>tb sender. read_as as_sender_info
        (cc_read client tb TICKET_BROKER_ABI ''getSenderInfo'' [AAddress sender])),
      eth_getServiceURI := (\<lambda>sr orch. read_as as_string
        (cc_read client sr SERVICE_REGISTRY_ABI ''getServiceURI'' [AAddress orch])),
      eth_getBalance := cc_balance client\<rparr>"

section \<open>Every call fits\<close>

definition find_function :: "abi_function list \<Rightarrow> string \<Rightarrow> abi_function option" where
  "find_function abi name = find (\<lambda>f. af_name f = name) abi"

definition typed :: "(string \<times> abi_type) list \<Rightarrow> abi_value list \<Rightarrow> bool" where
  "typed ts vs \<longleftrightarrow> list_all2 (\<lambda>(k, t) v. of_type t v) ts vs"

text \<open>A client that refuses a call that does not fit the interface it is made with.\<close>

definition strict :: "'w chain_client \<Rightarrow> 'w chain_client" where
  "strict client = client\<lparr>cc_read := (\<lambda>a abi name args.
     case find_function abi name of
       Some f \<Rightarrow> if typed (af_inputs f) args then cc_read client a abi name args
                 else io_throw (PlainError ''arguments do not match'')
     | None \<Rightarrow> io_throw (PlainError (''no function '' @ name)))\<rparr>"

text \<open>A client whose answers are of the types the interface declares.\<close>

definition decodes :: "'w chain_client \<Rightarrow> bool" where
  "decodes client \<longleftrightarrow>
     (\<forall>a abi name args w vs w' f. cc_read client a abi name args w = (Inr vs, w') \<and> find_function abi name = Some f
        \<longrightarrow> typed (af_outputs f) vs)"

lemmas abi_defs = CONTROLLER_ABI_def BONDING_MANAGER_ABI_def TICKET_BROKER_ABI_def SERVICE_REGISTRY_ABI_def

lemma strict_reads [simp]:
  "cc_read (strict client) a CONTROLLER_ABI ''getContract'' [ABytes32 i] = cc_read client a CONTROLLER_ABI ''getContract'' [ABytes32 i]"
  "cc_read (strict client) a BONDING_MANAGER_ABI ''getFirstTranscoderInPool'' [] = cc_read client a BONDING_MANAGER_ABI ''getFirstTranscoderInPool'' []"
  "cc_read (strict client) a BONDING_MANAGER_ABI ''getNextTranscoderInPool'' [AAddress x] = cc_read client a BONDING_MANAGER_ABI ''getNextTranscoderInPool'' [AAddress x]"
  "cc_read (strict client) a BONDING_MANAGER_ABI ''getDelegator'' [AAddress x] = cc_read client a BONDING_MANAGER_ABI ''getDelegator'' [AAddress x]"
  "cc_read (strict client) a TICKET_BROKER_ABI ''getSenderInfo'' [AAddress x] = cc_read client a TICKET_BROKER_ABI ''getSenderInfo'' [AAddress x]"
  "cc_read (strict client) a SERVICE_REGISTRY_ABI ''getServiceURI'' [AAddress x] = cc_read client a SERVICE_REGISTRY_ABI ''getServiceURI'' [AAddress x]"
  by (simp_all add: strict_def find_function_def typed_def abi_defs)

lemma over_strict: "over_client (strict client) env = over_client client env"
  by (simp add: over_client_def) (simp add: strict_def)

section \<open>What is read\<close>

text \<open>Every stake the walk puts down is one a call of \<^verbatim>\<open>getDelegator\<close> for that address gave.\<close>

definition stake_read :: "'w env \<Rightarrow> string \<Rightarrow> BondingPoolEntry \<Rightarrow> bool" where
  "stake_read env bm e \<longleftrightarrow>
     (\<exists>w w' d. eth_getDelegator env bm (be_address e) w = (Inr d, w') \<and> be_totalStakeWei e = show_nat (delegated_amount d))"

lemma pool_loop_stakes:
  assumes "pool_loop env bm steps addr out s = (Inr es, s')" and "\<forall>e\<in>set out. stake_read env bm e"
  shows "\<forall>e\<in>set es. stake_read env bm e"
  using assms
proof (induction env bm steps addr out arbitrary: s es s' rule: pool_loop.induct)
  case (1 env bm steps addr out)
  show ?case
  proof (cases "js_lower addr = ZERO_ADDRESS \<or> Suc steps > POOL_WALK_SAFETY_LIMIT")
    case True
    with "1.prems" show ?thesis by (subst (asm) pool_loop.simps) (auto split: if_splits)
  next
    case False
    let ?e = "\<lambda>d. \<lparr>be_address = addr, be_totalStakeWei = show_nat (delegated_amount d)\<rparr>"
    from "1.prems"(1) False obtain d t n u where d: "outside (eth_getDelegator env bm addr) s = (Inr d, t)"
      and rest: "pool_loop env bm (Suc steps) n (out @ [?e d]) u = (Inr es, s')"
      by (subst (asm) pool_loop.simps) (auto simp: io_bind_Inr)
    from d obtain w where "eth_getDelegator env bm addr (ext s) = (Inr d, w)"
      by (auto simp: outside_def split: prod.splits)
    then have "stake_read env bm (?e d)" unfolding stake_read_def BondingPoolEntry.simps by blast
    with "1.prems"(2) have "\<forall>e\<in>set (out @ [?e d]). stake_read env bm e" by auto
    with "1.IH" [OF _ _ rest] False show ?thesis by blast
  qed
qed

lemma pool_stakes:
  "bondingManagerListPool env bm s = (Inr es, s') \<Longrightarrow> \<forall>e\<in>set es. stake_read env bm e"
  unfolding bondingManagerListPool_def by (auto simp: io_bind_Inr dest!: pool_loop_stakes)

text \<open>The result declared under the name \<open>k\<close> by the function \<open>name\<close> of an interface.\<close>

definition result_named :: "abi_function list \<Rightarrow> string \<Rightarrow> string \<Rightarrow> abi_value list \<Rightarrow> abi_value option" where
  "result_named abi name k vs =
     (case find_function abi name of None \<Rightarrow> None | Some f \<Rightarrow> map_of (zip (map fst (af_outputs f)) vs) k)"

lemma of_type_uint: "of_type TUint256 v \<longleftrightarrow> (\<exists>n. v = AUint n \<and> n < 2 ^ 256)"
  by (cases v) auto

lemma of_type_address: "of_type TAddress v \<longleftrightarrow> (\<exists>a. v = AAddress a)"
  by (cases v) auto

lemma of_type_tuple:
  "of_type (TTuple []) v \<longleftrightarrow> v = AStruct []"
  "of_type (TTuple ((k, t) # ts)) v \<longleftrightarrow> (\<exists>x kvs. v = AStruct ((k, x) # kvs) \<and> of_type t x \<and> of_type (TTuple ts) (AStruct kvs))"
proof -
  show "of_type (TTuple []) v \<longleftrightarrow> v = AStruct []"
  proof (cases v)
    case (AStruct kvs)
    then show ?thesis by (cases kvs) auto
  qed auto
  show "of_type (TTuple ((k, t) # ts)) v \<longleftrightarrow> (\<exists>x kvs. v = AStruct ((k, x) # kvs) \<and> of_type t x \<and> of_type (TTuple ts) (AStruct kvs))"
  proof (cases v)
    case (AStruct kvs)
    then show ?thesis by (cases kvs) auto
  qed auto
qed

lemma typed_Cons: "typed ((k, t) # ts) vs \<longleftrightarrow> (\<exists>v us. vs = v # us \<and> of_type t v \<and> typed ts us)"
  by (auto simp: typed_def list_all2_Cons1)

lemma typed_Nil: "typed [] vs \<longleftrightarrow> vs = []"
  by (simp add: typed_def)

lemma delegator_read:
  assumes "decodes client" and "cc_read client a BONDING_MANAGER_ABI ''getDelegator'' args w = (Inr vs, w')"
  shows "result_named BONDING_MANAGER_ABI ''getDelegator'' ''delegatedAmount'' vs = Some (AUint (delegated_amount (as_delegator vs)))
    \<and> delegated_amount (as_delegator vs) < 2 ^ 256"
proof -
  obtain f where f: "find_function BONDING_MANAGER_ABI ''getDelegator'' = Some f" and outs: "af_outputs f =
      [(''bondedAmount'', TUint256), (''fees'', TUint256), (''delegatedAmount'', TUint256),
       (''delegateAddress'', TAddress), (''delegatedAmountFees'', TUint256), (''startRound'', TUint256),
       (''lastClaimRound'', TUint256), (''nextUnbondingLockId'', TUint256)]"
    by (simp add: find_function_def BONDING_MANAGER_ABI_def)
  with assms have "typed (af_outputs f) vs" unfolding decodes_def by blast
  then show ?thesis unfolding outs
    by (auto simp: typed_Cons typed_Nil of_type_uint of_type_address result_named_def f outs as_delegator_def
        delegated_amount_def as_uint_def)
qed

lemma sender_info_read:
  assumes "decodes client" and "cc_read client a TICKET_BROKER_ABI ''getSenderInfo'' args w = (Inr vs, w')"
  shows "\<exists>d r. result_named TICKET_BROKER_ABI ''getSenderInfo'' ''sender'' vs = Some d
    \<and> result_named TICKET_BROKER_ABI ''getSenderInfo'' ''reserve'' vs = Some r
    \<and> fst (fst (as_sender_info vs)) = struct_get ''deposit'' d \<and> struct_get ''deposit'' d < 2 ^ 256
    \<and> fst (snd (as_sender_info vs)) = struct_get ''fundsRemaining'' r \<and> struct_get ''fundsRemaining'' r < 2 ^ 256"
proof -
  obtain f where f: "find_function TICKET_BROKER_ABI ''getSenderInfo'' = Some f" and outs: "af_outputs f =
      [(''sender'', TTuple [(''deposit'', TUint256), (''withdrawRound'', TUint256)]),
       (''reserve'', TTuple [(''fundsRemaining'', TUint256), (''claimedInCurrentRound'', TUint256)])]"
    by (simp add: find_function_def TICKET_BROKER_ABI_def)
  with assms have "typed (af_outputs f) vs" unfolding decodes_def by blast
  then show ?thesis unfolding outs
    by (auto simp: typed_Cons typed_Nil of_type_uint of_type_tuple result_named_def f outs as_sender_info_def
        struct_get_def as_uint_def)
qed


section \<open>A client\<close>

text \<open>A client of a pool of one orchestrator, which answers by the interface it is given.\<close>

definition sample_answer :: "string \<Rightarrow> abi_value list" where
  "sample_answer name =
     (if name = ''getFirstTranscoderInPool'' then [AAddress ''0xA'']
      else if name = ''getNextTranscoderInPool'' then [AAddress ZERO_ADDRESS]
      else if name = ''getDelegator'' then
        [AUint 1, AUint 2, AUint 70, AAddress ''0xA'', AUint 3, AUint 4, AUint 5, AUint 6]
      else [AStruct [(''deposit'', AUint 8), (''withdrawRound'', AUint 0)],
            AStruct [(''fundsRemaining'', AUint 9), (''claimedInCurrentRound'', AUint 0)]])"

definition sample_client :: "unit chain_client" where
  "sample_client =
     \<lparr>cc_read = (\<lambda>a abi name args. case find_function abi name of
        Some f \<Rightarrow> if typed (af_outputs f) (sample_answer name) then io_return (sample_answer name)
                  else io_throw (PlainError ''bad data'')
      | None \<Rightarrow> io_throw (PlainError name)),
      cc_balance = (\<lambda>_. io_return 0)\<rparr>"

lemma sample_client_decodes: "decodes sample_client"
  by (auto simp: decodes_def sample_client_def split: option.splits if_splits)

lemma sample_reads:
  "cc_read sample_client a BONDING_MANAGER_ABI ''getFirstTranscoderInPool'' args = io_return [AAddress ''0xA'']"
  "cc_read sample_client a BONDING_MANAGER_ABI ''getNextTranscoderInPool'' args = io_return [AAddress ZERO_ADDRESS]"
  "cc_read sample_client a BONDING_MANAGER_ABI ''getDelegator'' args =
     io_return [AUint 1, AUint 2, AUint 70, AAddress ''0xA'', AUint 3, AUint 4, AUint 5, AUint 6]"
  by (simp_all add: sample_client_def find_function_def BONDING_MANAGER_ABI_def typed_def sample_answer_def)

lemma sample_pool:
  "bondingManagerListPool (over_client sample_client still_env) ''0xbm'' still_sys =
     (Inr [\<lparr>be_address = ''0xA'', be_totalStakeWei = show_nat 70\<rparr>], still_sys)"
proof -
  have "js_lower ''0xA'' \<noteq> ZERO_ADDRESS" "js_lower ZERO_ADDRESS = ZERO_ADDRESS"
    by (code_simp, code_simp)
  then show ?thesis
    by (simp add: bondingManagerListPool_def pool_loop.simps over_client_def read_as_def sample_reads as_address_def
        as_delegator_def as_uint_def delegated_amount_def io_bind_def outside_def still_sys_def POOL_WALK_SAFETY_LIMIT_def)
qed


end
