(* ===== verification/Spec2Isabelle.thy ===== *)
theory Spec2Isabelle
  imports Console Wired WebDrawn MessageJson Linted Logged ChainAbi
begin

text \<open>
  The gateway console: a web server with which an operator watches and refreshes the routing of
  a gateway. It asks two daemons over a local socket (the resolver and the payer, by gRPC) and
  a chain endpoint, keeps an audit log and a mirror of the resolver's own log in one SQLite
  file, and runs a worker that polls that log; the operator's browser runs an application that
  talks to it. The paths below are relative to the server's own directory, \<^verbatim>\<open>src/\<close> of the
  repository, and those that start with \<^verbatim>\<open>admin-ui\<close> to the repository itself.

  How the parts of the program interact. \<^verbatim>\<open>main.ts\<close> reads the environment (\<^verbatim>\<open>config/env.ts\<close>), opens
  the file and applies the migration, builds the server and the worker, binds the address and
  waits for a signal. A request passes the router of the framework, then the gate of
  \<^verbatim>\<open>runtime/http/server.ts\<close> (bearer token, operator handle), then one handler of
  \<^verbatim>\<open>runtime/http/handlers\<close>. A handler checks its input against a schema and calls a service
  (\<^verbatim>\<open>service/routing\<close>, \<^verbatim>\<open>service/sender\<close>, \<^verbatim>\<open>service/resolver\<close>, \<^verbatim>\<open>service/audit\<close>); a service joins what the
  daemon clients (\<^verbatim>\<open>providers/resolver\<close>, \<^verbatim>\<open>providers/payerDaemon\<close>), the chain reader
  (\<^verbatim>\<open>providers/chain\<close>, behind a memo) and the repositories (\<^verbatim>\<open>repo\<close>) say. The worker
  (\<^verbatim>\<open>runtime/workers/auditPoll.ts\<close>) and the handlers share nothing but the database.
  The daemon clients speak through generated message code (\<^verbatim>\<open>providers/*/gen\<close>).
  The browser application (\<^verbatim>\<open>admin-ui\<close>) keeps the token and the handle in the session storage
  of its tab, sends both with every request, and shows one screen at a time; each screen keeps
  its own state and talks to the server through one wrapper of \<^verbatim>\<open>fetch\<close>.

  Which theory holds which part.
    \<^item> Prelude: thrown errors (\<open>js_error\<close>), the effect type \<open>io\<close> (a state in, an \<open>Inl\<close> error or
      an \<open>Inr\<close> value and a state out) with its bind, catch and frame lemmas. JsText and
      JsNumber: the operations of the language the program calls (trim, split, JSON text of a
      string, decimal text, \<^verbatim>\<open>Number(s)\<close> with the rounding of doubles).
    \<^item> Config: \<^verbatim>\<open>config/env.ts\<close>. Auth: \<^verbatim>\<open>service/auth\<close>, \<^verbatim>\<open>types/actor.ts\<close>.
    \<^item> ProtoTypes: the message types of the two daemons the console talks to. World: the two
      tables, the memo, and \<open>env\<close>, the record of every call that leaves the process.
    \<^item> Repo: \<^verbatim>\<open>repo\<close>. AuditService: \<^verbatim>\<open>service/audit\<close>, \<^verbatim>\<open>types/audit.ts\<close>.
    \<^item> ResolverClient, PayerClient, ChainReader: \<^verbatim>\<open>providers/resolver/client.ts\<close>,
      \<^verbatim>\<open>providers/payerDaemon/client.ts\<close>, \<^verbatim>\<open>providers/chain/viem.ts\<close>.
    \<^item> TtlCache: \<^verbatim>\<open>createTtlCache\<close> of \<^verbatim>\<open>service/routing/index.ts\<close>, once as a machine of
      interleaved loads and once as the function the services use. Routing, Roster: the
      routing service and what the screens show. Services: sender and resolver services.
    \<^item> AuditPoll: the poll worker. Handlers: the request handlers and their schemas, and
      \<^verbatim>\<open>utils/socketCheck.ts\<close>. Server: the gate, the routes and the error handler.
    \<^item> Lifecycle: \<^verbatim>\<open>main.ts\<close> and \<^verbatim>\<open>migrations/0001_init.sql\<close>: start, migration, signals, shutdown.
      Console: requests, ticks, signals, time and exit interleaved (\<open>proc_step\<close>).
    \<^item> Providers: \<^verbatim>\<open>providers/logger\<close>, \<^verbatim>\<open>providers/database\<close>, \<^verbatim>\<open>providers/http\<close> and how \<^verbatim>\<open>createServer\<close> puts
      the server together, as the calls they make of the libraries. Boot: \<^verbatim>\<open>main.ts\<close> with these
      calls and its log lines. Logged: the log along the steps of the process. ChainAbi: the
      interfaces of the contracts and the calls of the chain library.
    \<^item> Wire: the decoding loop and the encoding steps all generated messages share. ProtoWire: the
      wire format itself. Timestamps: \<^verbatim>\<open>gen/google/protobuf/timestamp.ts\<close> and the
      date conversions. RegistryCodec, PayerCodec, PaymentCodec, PayeeCodec, PublisherCodec: one
      \<open>createBase\<close>, \<open>encode\<close> and \<open>decode\<close> per message of the generated files. Stubs: the
      methods of the four services and a call over a byte transport. Wired: the two together.
    \<^item> JsDate, JsBigInt: the text of a date and its reading, unbounded integers. JsonForm: untyped
      values, base64 and the statements the JSON forms are made of. RegistryJson, PayerJson,
      PayeeJson, PublisherJson: \<^verbatim>\<open>fromJSON\<close>, \<^verbatim>\<open>toJSON\<close>, \<^verbatim>\<open>fromPartial\<close> and \<^verbatim>\<open>create\<close> of every message.
      MessageJson: what they keep.
    \<^item> Json: values of JSON and the operations of the language on them. WebClient:
      \<^verbatim>\<open>admin-ui/shared/lib\<close>, \<^verbatim>\<open>admin-ui/admin/lib\<close> and \<^verbatim>\<open>admin-app.js\<close>: session, routes, requests and
      the wrapper. WebQuery: the reading of a query string gives back what the wrapper wrote.
      WebPages: the screens of \<^verbatim>\<open>admin-ui/admin/components\<close>, each method cut at its awaits.
      WebMachine: a tab in which events, answers and resumptions interleave (\<open>tab_step\<close>).
      WebConsole: the tab over the modelled server, and the audit screen. WebSignIn: the
      sign-in and the sender screen over the modelled server. WebFormat: \<^verbatim>\<open>format.js\<close>.
      WebView: what the screens draw (\<^verbatim>\<open>render\<close>), as trees of elements with their handlers.
      WebDrawn: drawings and operations together, over the modelled server.
    \<^item> Lint: the six rules of \<^verbatim>\<open>lint/eslint-plugin-livepeer-gateway-console\<close> and their configuration,
      as functions from a node of the syntax tree to reports. Linted: what they pass.

  How state and operations correspond. A TypeScript interface or table row is a record, a
  union or an enum is a datatype (an enum off the wire is its integer), \<^verbatim>\<open>null\<close> and
  \<^verbatim>\<open>undefined\<close> are \<open>None\<close>, a \<^verbatim>\<open>Map\<close> is a list of pairs in insertion order or a map, a
  thrown error is \<open>Inl\<close>. An asynchronous function is a function on the state \<open>('w) st\<close>: the
  database, the memo and a value \<open>'w\<close> that stands for the whole outside. A definition has
  the name of the function it models; a class or closure becomes a record of its variables.

  What the groups of lemmas show.
    \<^item> Access: the bearer check accepts exactly the headers carrying the token; without it no
      handler runs and nothing is touched; every audit row names an authenticated operator.
    \<^item> Data: tables keep strictly increasing keys; every row ever written, under any
      interleaving of requests, ticks and signals, has the type of its table; what is appended
      is read back; following the cursor shows every event once; a tick keeps the mirror
      equal to the kept part of the daemon's log (under the contract that the daemon answers
      \<^verbatim>\<open>since\<close> truthfully), and runs one request at a time.
    \<^item> Chain: every contract call fits its declared interface; the walk of the pool returns the linked list of a pool that stands still, and is
      bounded in any world; the memo shares one load among concurrent callers and serves no
      expired or failed entry; the function used by the services refines the machine.
    \<^item> Screens: the roster and the drilldown are the join of the resolver's answer, the pool and
      the registry of a chain that stands still.
    \<^item> Errors: the outcome of a refresh, a tick, a start and the migration on every branch.
    \<^item> Life: a signal arms the shutdown once, the process exits cleanly only after closing, and
      exits in every run in which time passes and due timers fire. A start makes its calls in one
      order and is the start of Lifecycle when they are erased; the token and the chain
      endpoint's address stay out of the log; and the log tells the state of the process.
    \<^item> Wire: every message survives encoding and decoding, unknown fields are passed over, a
      decoder is done after one round more than its buffer has bytes, and calls (and a
      whole tick) over the wire are the calls on messages. The JSON form gives a message back
      too, where its dates are valid and its enum numbers known.
    \<^item> Browser: the flag of a button counts the requests it stands for; the audit screen shows a
      gap-free stretch of the log whatever happens meanwhile and in the end all of it; a
      sign-in succeeds exactly where the server took the token; and two faults: a late answer
      shown under another address, and a handle the server refuses that signs in all the same.
      Amounts and times are printed exactly, cut to millionths and to the second. No answer of
      the server makes a screen fail to draw, and a screen does nothing its drawing does not
      offer.
    \<^item> Lint rules: in a tree the layer rule passes no chain of imports climbs to a later layer; what
      exactly the rules on log calls, type files, handlers and file lengths pass; and three
      things that get by them.

  Locales state the interfaces: \<open>autoinc_table\<close> (Repo), \<open>memo_store\<close> (TtlCache), \<open>memo_reads\<close>
  (Routing), \<open>wire_format\<close> (Wire), \<open>unary_method\<close> (Stubs), \<open>counted_flag\<close> (WebMachine, for
  the five screens with a button that is disabled meanwhile) and \<open>drawn_screen\<close> (WebDrawn, for
  the three screens that draw what the server sent); each is interpreted on the model's
  own definitions, \<open>wire_format\<close> on the protocol buffers format of ProtoWire.

  Bounds and fuel. The pool walk has the code's own limit of 1000 entries. The audit pages
  are followed with a fuel of one page per row, which is enough as every page but the last has a
  row. The decoding loop is a terminating function (every round shortens the buffer, or fails);
  \<open>loop_rounds\<close> is the same with fuel and shown to agree from length + 1 on. Sizes of
  delays, times and numbers are those of the language: doubles, and 31-bit timers.

  What is a parameter. The framework's router and its fallback, the schema library's error text,
  the URL test, the unary transports, the chain library, the file system, which call of a library throws
  during a start, the clock, the
  database engine's refusals and its order of equal keys, the reader and writer of wire
  values (\<open>wire\<close>), what the runtime reads out of texts that are no ISO date or no base64
  (\<open>runtime\<close>); for the browser, what \<^verbatim>\<open>fetch\<close> answers (in WebConsole and WebSignIn that is the
  modelled server), what it makes of a time that is no number, the parser of a query and the body of an unforeseen error. What the properties need of them is a named hypothesis, and each such property
  has a witness at a concrete instance.

  Where the model is simpler than the run. \<^verbatim>\<open>Promise.all\<close> runs its calls one after the other;
  requests and ticks interleave whole, not within one another (the memo and the worker's
  own flag, where that matters, have their machines). A string is a list of the first 256 code
  points, which is what the header lines of a request are; a text from elsewhere with others is
  outside the model except where \<open>env\<close> answers it.

  Not modelled: what the libraries do when they are called (the framework's own access log and its
  static files, the log library's filter, the pragmas of the database engine, the encoding
  of contract calls); what Lit makes of a drawing, and the style sheet; the parser and the walk over
  a syntax tree, which are those of the linter; the configuration of the build and the tests.
\<close>

end
